(* ===== verification/Prelude.thy ===== *)
theory Prelude
  imports Complex_Main "HOL-Library.Sublist"
begin

text \<open>
  Shared vocabulary of the development.

  The services of the repository are TypeScript programs that consume untyped JSON (Horizon
  records, decoded event payloads, request bodies).  This theory fixes the model of that world:

  \<^item> \<open>js\<close>: the dynamic values the code inspects with \<open>typeof\<close>, \<open>Array.isArray\<close>,
    \<open>??\<close> and truthiness tests.  Numbers (\<open>jnum\<close>) are integers, finite decimals
    \<open>m / 10^(e+1)\<close>, NaN and the infinities; integers are read as exact, so the model speaks of
    numbers in the safe-integer range of a double.  Strings are lists of ASCII code units.
  \<^item> the coercions of the language the code uses: \<open>Boolean\<close>, \<open>String\<close>, \<open>BigInt\<close>,
    \<open>parseInt\<close>, indexing and property access, \<open>includes\<close>, \<open>startsWith\<close>,
    \<open>toUpperCase\<close>, \<open>toLowerCase\<close>, \<open>trim\<close>, \<open>slice\<close>;
  \<^item> exceptions as values of the sum type \<open>jserror + 'a\<close>;
  \<^item> \<open>Map\<close> and \<open>Set\<close> with their insertion order, as association lists and distinct lists,
    behind the interface \<open>keyed_map\<close>.

  The lemmas are the generic ones the component theories share.
\<close>

section \<open>Values and errors\<close>

datatype jnum = NInt int | NDec int nat | NNaN | NInf bool

datatype js =
    JUndefined
  | JNull
  | JBool bool
  | JNum jnum
  | JBigInt int
  | JStr string
  | JArr "js list"
  | JObj "(string \<times> js) list"

datatype jserror =
    TypeError string
  | RangeError string
  | ReferenceError string
  | SyntaxError string
  | GenericError string
  | ContractError string "int option" "string option"

type_synonym 'a result = "jserror + 'a"
type_synonym 'v dict = "(string \<times> 'v) list"
type_synonym millis = int
type_synonym ledger = int

named_theorems js_simps \<open>evaluation of the coercions of the language on constructor forms\<close>
named_theorems step_simps \<open>one-step equations of the services' transition functions\<close>

section \<open>Strings\<close>

definition to_upper_char :: "char \<Rightarrow> char" where
  "to_upper_char c = (let n = (of_char c :: nat) in if 97 \<le> n \<and> n \<le> 122 then char_of (n - 32) else c)"

definition to_lower_char :: "char \<Rightarrow> char" where
  "to_lower_char c = (let n = (of_char c :: nat) in if 65 \<le> n \<and> n \<le> 90 then char_of (n + 32) else c)"

definition toUpperCase :: "string \<Rightarrow> string" where
  "toUpperCase = map to_upper_char"

definition toLowerCase :: "string \<Rightarrow> string" where
  "toLowerCase = map to_lower_char"

definition is_space :: "char \<Rightarrow> bool" where
  "is_space c = (let n = (of_char c :: nat) in n = 32 \<or> (9 \<le> n \<and> n \<le> 13))"

definition trim :: "string \<Rightarrow> string" where
  "trim s = rev (dropWhile is_space (rev (dropWhile is_space s)))"

fun startsWith :: "string \<Rightarrow> string \<Rightarrow> bool" where
  "startsWith s [] = True"
| "startsWith [] (p # ps) = False"
| "startsWith (c # s) (p # ps) = (c = p \<and> startsWith s ps)"

fun str_includes :: "string \<Rightarrow> string \<Rightarrow> bool" where
  "str_includes [] p = (p = [])"
| "str_includes (c # s) p = (startsWith (c # s) p \<or> str_includes s p)"

definition digit_char :: "nat \<Rightarrow> char" where
  "digit_char d = char_of (48 + d)"

definition is_digit :: "char \<Rightarrow> bool" where
  "is_digit c = (let n = (of_char c :: nat) in 48 \<le> n \<and> n \<le> 57)"

definition digit_val :: "char \<Rightarrow> nat" where
  "digit_val c = (of_char c :: nat) - 48"

fun show_nat :: "nat \<Rightarrow> string" where
  "show_nat n = (if n < 10 then [digit_char n] else show_nat (n div 10) @ [digit_char (n mod 10)])"

declare show_nat.simps [simp del]

definition show_int :: "int \<Rightarrow> string" where
  "show_int i = (if i < 0 then CHR ''-'' # show_nat (nat (- i)) else show_nat (nat i))"

definition digits_val :: "string \<Rightarrow> nat" where
  "digits_val ds = foldl (\<lambda>acc c. 10 * acc + digit_val c) 0 ds"

fun join :: "string \<Rightarrow> string list \<Rightarrow> string" where
  "join sep [] = []"
| "join sep [x] = x"
| "join sep (x # y # xs) = x @ sep @ join sep (y # xs)"

text \<open>\<open>err.message\<close>; a \<open>ContractError\<close> shows its variant when it has one, else the raw text.\<close>

fun error_message :: "jserror \<Rightarrow> string" where
  "error_message (TypeError m) = m"
| "error_message (RangeError m) = m"
| "error_message (ReferenceError m) = m"
| "error_message (SyntaxError m) = m"
| "error_message (GenericError m) = m"
| "error_message (ContractError raw code variant) =
     (case variant of
        Some (c # cs) \<Rightarrow> (c # cs) @ '' (contract error #'' @
           (case code of Some n \<Rightarrow> show_int n | None \<Rightarrow> ''null'') @ '')''
      | _ \<Rightarrow> raw)"

definition error_name :: "jserror \<Rightarrow> string" where
  "error_name e = (case e of
      TypeError _ \<Rightarrow> ''TypeError'' | RangeError _ \<Rightarrow> ''RangeError'' | ReferenceError _ \<Rightarrow> ''ReferenceError''
    | SyntaxError _ \<Rightarrow> ''SyntaxError'' | GenericError _ \<Rightarrow> ''Error'' | ContractError _ _ _ \<Rightarrow> ''ContractError'')"

text \<open>\<open>String(err)\<close>: the name, and the message after a colon when there is one.\<close>

definition error_string :: "jserror \<Rightarrow> string" where
  "error_string e = (if error_message e = [] then error_name e else error_name e @ '': '' @ error_message e)"

section \<open>Coercions\<close>

fun js_truthy :: "js \<Rightarrow> bool" where
  "js_truthy JUndefined = False"
| "js_truthy JNull = False"
| "js_truthy (JBool b) = b"
| "js_truthy (JNum (NInt n)) = (n \<noteq> 0)"
| "js_truthy (JNum NNaN) = False"
| "js_truthy (JNum _) = True"
| "js_truthy (JBigInt n) = (n \<noteq> 0)"
| "js_truthy (JStr s) = (s \<noteq> [])"
| "js_truthy (JArr _) = True"
| "js_truthy (JObj _) = True"

fun is_nullish :: "js \<Rightarrow> bool" where
  "is_nullish JUndefined = True"
| "is_nullish JNull = True"
| "is_nullish _ = False"

definition js_coalesce :: "js \<Rightarrow> js \<Rightarrow> js" where
  "js_coalesce a b = (if is_nullish a then b else a)"

definition js_or :: "js \<Rightarrow> js \<Rightarrow> js" where
  "js_or a b = (if js_truthy a then a else b)"

definition show_jnum :: "jnum \<Rightarrow> string" where
  "show_jnum x = (case x of
      NInt n \<Rightarrow> show_int n
    | NDec m e \<Rightarrow>
        (let d = show_nat (nat \<bar>m\<bar>); p = replicate (Suc (Suc e) - length d) CHR ''0'' @ d
         in (if m < 0 then ''-'' else '''') @ take (length p - Suc e) p @ ''.'' @ drop (length p - Suc e) p)
    | NNaN \<Rightarrow> ''NaN''
    | NInf b \<Rightarrow> (if b then ''Infinity'' else ''-Infinity''))"

fun js_String :: "js \<Rightarrow> string" where
  "js_String JUndefined = ''undefined''"
| "js_String JNull = ''null''"
| "js_String (JBool b) = (if b then ''true'' else ''false'')"
| "js_String (JNum x) = show_jnum x"
| "js_String (JBigInt n) = show_int n"
| "js_String (JStr s) = s"
| "js_String (JArr xs) =
     join '','' (map (\<lambda>x. case x of JUndefined \<Rightarrow> [] | JNull \<Rightarrow> [] | _ \<Rightarrow> js_String x) xs)"
| "js_String (JObj _) = ''[object Object]''"

fun is_array :: "js \<Rightarrow> bool" where
  "is_array (JArr _) = True"
| "is_array _ = False"

fun is_string :: "js \<Rightarrow> bool" where
  "is_string (JStr _) = True"
| "is_string _ = False"

text \<open>\<open>typeof v === 'object'\<close> holds of arrays, objects and \<open>null\<close>.\<close>

fun typeof_object :: "js \<Rightarrow> bool" where
  "typeof_object JNull = True"
| "typeof_object (JArr _) = True"
| "typeof_object (JObj _) = True"
| "typeof_object _ = False"

definition elem_at :: "js list \<Rightarrow> nat \<Rightarrow> js" where
  "elem_at xs i = (if i < length xs then xs ! i else JUndefined)"

fun array_elems :: "js \<Rightarrow> js list" where
  "array_elems (JArr xs) = xs"
| "array_elems _ = []"

text \<open>
  \<open>v.k\<close>: property access raises a TypeError on \<open>undefined\<close> and \<open>null\<close> and yields
  \<open>undefined\<close> for a property the value does not have.
\<close>

fun js_prop :: "js \<Rightarrow> string \<Rightarrow> js" where
  "js_prop (JObj kvs) k = (case map_of kvs k of Some v \<Rightarrow> v | None \<Rightarrow> JUndefined)"
| "js_prop _ k = JUndefined"

text \<open>\<open>BigInt(s)\<close> on a string: surrounding white space is dropped, the empty string is zero, an
  optional sign is followed by decimal digits only; anything else is a SyntaxError (\<open>None\<close>).
  The prefixed forms 0x, 0o and 0b are read too, without a sign.\<close>

definition radix_val :: "nat \<Rightarrow> char \<Rightarrow> nat option" where
  "radix_val r c = (let n = (of_char c :: nat);
       d = (if 48 \<le> n \<and> n \<le> 57 then n - 48
            else if 97 \<le> n \<and> n \<le> 102 then n - 87
            else if 65 \<le> n \<and> n \<le> 70 then n - 55 else 99)
     in if d < r then Some d else None)"

fun radix_digits :: "nat \<Rightarrow> nat \<Rightarrow> string \<Rightarrow> nat option" where
  "radix_digits r acc [] = Some acc"
| "radix_digits r acc (c # cs) =
     (case radix_val r c of None \<Rightarrow> None | Some d \<Rightarrow> radix_digits r (r * acc + d) cs)"

definition decimal_nat :: "string \<Rightarrow> nat option" where
  "decimal_nat s = (if s \<noteq> [] \<and> list_all is_digit s then Some (digits_val s) else None)"

definition prefixed_nat :: "string \<Rightarrow> nat option" where
  "prefixed_nat s =
     (if length s \<le> 2 then None
      else if startsWith s ''0x'' \<or> startsWith s ''0X'' then radix_digits 16 0 (drop 2 s)
      else if startsWith s ''0o'' \<or> startsWith s ''0O'' then radix_digits 8 0 (drop 2 s)
      else if startsWith s ''0b'' \<or> startsWith s ''0B'' then radix_digits 2 0 (drop 2 s)
      else None)"

definition js_BigInt :: "string \<Rightarrow> int option" where
  "js_BigInt s0 = (let s = trim s0 in
     (case s of
        [] \<Rightarrow> Some 0
      | c # cs \<Rightarrow>
          if c = CHR ''-'' then map_option (\<lambda>n. - int n) (decimal_nat cs)
          else if c = CHR ''+'' then map_option int (decimal_nat cs)
          else (case decimal_nat s of
                  Some n \<Rightarrow> Some (int n)
                | None \<Rightarrow> map_option int (prefixed_nat s))))"

text \<open>\<open>parseInt(s, 10)\<close>: the longest digit prefix after white space and a sign; \<open>None\<close> is NaN.\<close>

definition js_parseInt :: "string \<Rightarrow> int option" where
  "js_parseInt s0 = (let s = dropWhile is_space s0;
       neg = startsWith s ''-'';
       t = (if neg \<or> startsWith s ''+'' then drop 1 s else s);
       ds = takeWhile is_digit t
     in if ds = [] then None else Some ((if neg then - 1 else 1) * int (digits_val ds)))"

text \<open>\<open>Number(v)\<close>: decimal strings may have a fraction and an exponent; the value \<open>m * 10^x\<close> is
  normalised to an integer or to the decimal without trailing zeros.  No rounding is applied.\<close>

fun strip_zeros :: "int \<Rightarrow> nat \<Rightarrow> jnum" where
  "strip_zeros m 0 = NInt m"
| "strip_zeros m (Suc e) = (if m mod 10 = 0 then strip_zeros (m div 10) e else NDec m e)"

definition scale10 :: "int \<Rightarrow> int \<Rightarrow> jnum" where
  "scale10 m x = (if 0 \<le> x then NInt (m * 10 ^ nat x) else strip_zeros m (nat (- x)))"

definition exponent_part :: "string \<Rightarrow> int option" where
  "exponent_part s = (case s of
      [] \<Rightarrow> Some 0
    | c # cs \<Rightarrow>
        if c = CHR ''e'' \<or> c = CHR ''E'' then
          (if startsWith cs ''-'' then map_option (\<lambda>n. - int n) (decimal_nat (drop 1 cs))
           else map_option int (decimal_nat (if startsWith cs ''+'' then drop 1 cs else cs)))
        else None)"

definition unsigned_number :: "int \<Rightarrow> string \<Rightarrow> jnum" where
  "unsigned_number sg s =
     (if s = ''Infinity'' then NInf (0 < sg)
      else (let ip = takeWhile is_digit s; r = dropWhile is_digit s;
                frac = startsWith r ''.'';
                fp = (if frac then takeWhile is_digit (drop 1 r) else []);
                r' = (if frac then dropWhile is_digit (drop 1 r) else r)
            in if ip = [] \<and> fp = [] then NNaN
               else (case exponent_part r' of
                       None \<Rightarrow> NNaN
                     | Some x \<Rightarrow> scale10 (sg * int (digits_val (ip @ fp))) (x - int (length fp)))))"

definition string_Number :: "string \<Rightarrow> jnum" where
  "string_Number s0 = (let s = trim s0 in
     (if s = [] then NInt 0
      else if startsWith s ''-'' then unsigned_number (- 1) (drop 1 s)
      else if startsWith s ''+'' then unsigned_number 1 (drop 1 s)
      else (case prefixed_nat s of Some n \<Rightarrow> NInt (int n) | None \<Rightarrow> unsigned_number 1 s)))"

definition js_Number :: "js \<Rightarrow> jnum" where
  "js_Number v = (case v of
      JUndefined \<Rightarrow> NNaN
    | JNull \<Rightarrow> NInt 0
    | JBool b \<Rightarrow> NInt (if b then 1 else 0)
    | JNum x \<Rightarrow> x
    | JBigInt n \<Rightarrow> NInt n
    | JStr s \<Rightarrow> string_Number s
    | JArr xs \<Rightarrow> string_Number (js_String v)
    | JObj _ \<Rightarrow> NNaN)"

text \<open>The value of a finite number; \<open>a < b\<close> and \<open>a <= b\<close> are false when a side is NaN.\<close>

fun num_val :: "jnum \<Rightarrow> rat" where
  "num_val (NInt n) = of_int n"
| "num_val (NDec m e) = of_int m / 10 ^ Suc e"
| "num_val _ = 0"

definition num_le :: "jnum \<Rightarrow> jnum \<Rightarrow> bool" where
  "num_le a b = (if a = NNaN \<or> b = NNaN then False
     else if a = NInf False \<or> b = NInf True then True
     else if a = NInf True \<or> b = NInf False then False
     else num_val a \<le> num_val b)"

definition num_lt :: "jnum \<Rightarrow> jnum \<Rightarrow> bool" where
  "num_lt a b = (a \<noteq> NNaN \<and> b \<noteq> NNaN \<and> \<not> num_le b a)"

fun num_isInteger :: "jnum \<Rightarrow> bool" where
  "num_isInteger (NInt _) = True"
| "num_isInteger _ = False"

text \<open>Addition, subtraction and maximum of numbers, exact on finite ones.\<close>

fun num_parts :: "jnum \<Rightarrow> int \<times> nat" where
  "num_parts (NInt n) = (n, 0)"
| "num_parts (NDec m e) = (m, Suc e)"
| "num_parts _ = (0, 0)"

fun num_neg :: "jnum \<Rightarrow> jnum" where
  "num_neg (NInt n) = NInt (- n)"
| "num_neg (NDec m e) = NDec (- m) e"
| "num_neg NNaN = NNaN"
| "num_neg (NInf b) = NInf (\<not> b)"

definition num_add :: "jnum \<Rightarrow> jnum \<Rightarrow> jnum" where
  "num_add a b = (case (a, b) of
      (NNaN, _) \<Rightarrow> NNaN
    | (_, NNaN) \<Rightarrow> NNaN
    | (NInf x, NInf y) \<Rightarrow> (if x = y then NInf x else NNaN)
    | (NInf x, _) \<Rightarrow> NInf x
    | (_, NInf y) \<Rightarrow> NInf y
    | _ \<Rightarrow> (let (m, e) = num_parts a; (m', e') = num_parts b; k = max e e'
           in strip_zeros (m * 10 ^ (k - e) + m' * 10 ^ (k - e')) k))"

definition num_sub :: "jnum \<Rightarrow> jnum \<Rightarrow> jnum" where
  "num_sub a b = num_add a (num_neg b)"

definition num_max :: "jnum \<Rightarrow> jnum \<Rightarrow> jnum" where
  "num_max a b = (if a = NNaN \<or> b = NNaN then NNaN else if num_le a b then b else a)"

text \<open>
  \<open>x.toFixed(f)\<close>: the nearest decimal with \<open>f\<close> fraction digits, the larger one on a tie; the
  sign is printed first.  Applied to exact values.
\<close>

definition toFixed :: "nat \<Rightarrow> rat \<Rightarrow> string" where
  "toFixed f x = (let n = nat \<lfloor>\<bar>x\<bar> * 10 ^ f + 1 / 2\<rfloor>; d = show_nat n;
       p = replicate (Suc f - length d) CHR ''0'' @ d
     in (if x < 0 then ''-'' else []) @
        (if f = 0 then p else take (length p - f) p @ ''.'' @ drop (length p - f) p))"

text \<open>Division of BigInts truncates towards zero.\<close>

definition bigint_div :: "int \<Rightarrow> int \<Rightarrow> int" where
  "bigint_div a b = sgn a * sgn b * (\<bar>a\<bar> div \<bar>b\<bar>)"

text \<open>\<open>BigInt(String(v))\<close> raises a SyntaxError on a string that is no integer literal.\<close>

definition to_BigInt :: "js \<Rightarrow> int result" where
  "to_BigInt v = (case js_BigInt (js_String v) of
      Some n \<Rightarrow> Inr n
    | None \<Rightarrow> Inl (SyntaxError (''Cannot convert '' @ js_String v @ '' to a BigInt'')))"

text \<open>\<open>BigInt(v)\<close> on a decoded value: integers, booleans and integer literals convert.\<close>

definition js_toBigInt :: "js \<Rightarrow> int result" where
  "js_toBigInt v = (case v of
      JBigInt n \<Rightarrow> Inr n
    | JNum (NInt n) \<Rightarrow> Inr n
    | JNum x \<Rightarrow> Inl (RangeError ''The number cannot be converted to a BigInt because it is not an integer'')
    | JBool b \<Rightarrow> Inr (if b then 1 else 0)
    | JUndefined \<Rightarrow> Inl (TypeError ''Cannot convert undefined to a BigInt'')
    | JNull \<Rightarrow> Inl (TypeError ''Cannot convert null to a BigInt'')
    | _ \<Rightarrow> to_BigInt v)"

section \<open>Stellar keys\<close>

text \<open>The secret-key format both services check: \<open>/^S[A-Z2-7]{55}$/\<close>.\<close>

definition is_base32 :: "char \<Rightarrow> bool" where
  "is_base32 c = (let n = (of_char c :: nat) in (65 \<le> n \<and> n \<le> 90) \<or> (50 \<le> n \<and> n \<le> 55))"

definition valid_secret_key :: "string \<Rightarrow> bool" where
  "valid_secret_key s = (length s = 56 \<and> hd s = CHR ''S'' \<and> list_all is_base32 (tl s))"

section \<open>Effects\<close>

text \<open>
  An external call is logged: a computation maps the history of calls to a result and the extended
  history.  What a call answers is an argument of the model, a function of the call and of the
  history before it, so any deterministic environment is covered.  A thrown error is an \<open>Inl\<close>.
\<close>

type_synonym ('c, 'a) io = "'c list \<Rightarrow> 'a result \<times> 'c list"

definition io_return :: "'a \<Rightarrow> ('c, 'a) io" where
  "io_return x h = (Inr x, h)"

definition io_throw :: "jserror \<Rightarrow> ('c, 'a) io" where
  "io_throw e h = (Inl e, h)"

definition io_bind :: "('c, 'a) io \<Rightarrow> ('a \<Rightarrow> ('c, 'b) io) \<Rightarrow> ('c, 'b) io" where
  "io_bind m f h = (case m h of (Inl e, h') \<Rightarrow> (Inl e, h') | (Inr x, h') \<Rightarrow> f x h')"

definition io_catch :: "('c, 'a) io \<Rightarrow> (jserror \<Rightarrow> ('c, 'a) io) \<Rightarrow> ('c, 'a) io" where
  "io_catch m f h = (case m h of (Inl e, h') \<Rightarrow> f e h' | (Inr x, h') \<Rightarrow> (Inr x, h'))"

definition io_call :: "('c \<Rightarrow> 'c list \<Rightarrow> 'a result) \<Rightarrow> 'c \<Rightarrow> ('c, 'a) io" where
  "io_call env c h = (env c h, h @ [c])"

text \<open>A computation only ever extends the history.\<close>

definition io_extends :: "('c, 'a) io \<Rightarrow> bool" where
  "io_extends m \<longleftrightarrow> (\<forall>h. \<exists>cs. snd (m h) = h @ cs)"

section \<open>Maps and sets in insertion order\<close>

fun omap_put :: "'k \<Rightarrow> 'v \<Rightarrow> ('k \<times> 'v) list \<Rightarrow> ('k \<times> 'v) list" where
  "omap_put k v [] = [(k, v)]"
| "omap_put k v ((k', v') # m) = (if k = k' then (k, v) # m else (k', v') # omap_put k v m)"

definition omap_del :: "'k \<Rightarrow> ('k \<times> 'v) list \<Rightarrow> ('k \<times> 'v) list" where
  "omap_del k m = filter (\<lambda>e. fst e \<noteq> k) m"

definition omap_get :: "('k \<times> 'v) list \<Rightarrow> 'k \<Rightarrow> 'v option" where
  "omap_get m k = map_of m k"

definition omap_wf :: "('k \<times> 'v) list \<Rightarrow> bool" where
  "omap_wf m = distinct (map fst m)"

definition oset_add :: "'a \<Rightarrow> 'a list \<Rightarrow> 'a list" where
  "oset_add x xs = (if x \<in> set xs then xs else xs @ [x])"

text \<open>\<open>new Set(xs)\<close>: first occurrences, in order.\<close>

definition oset_of :: "'a list \<Rightarrow> 'a list" where
  "oset_of xs = foldl (\<lambda>acc x. oset_add x acc) [] xs"

text \<open>\<open>sort((a, b) => key(a) - key(b))\<close> is stable, as \<open>sort_key\<close> is.\<close>

definition sort_desc :: "('a \<Rightarrow> int) \<Rightarrow> 'a list \<Rightarrow> 'a list" where
  "sort_desc f xs = sort_key (\<lambda>x. - f x) xs"


section \<open>Lemmas on strings\<close>

lemma startsWith_prefix: "startsWith s p \<longleftrightarrow> prefix p s"
  by (induction s p rule: startsWith.induct) auto

lemma str_includes_sublist: "str_includes s p \<longleftrightarrow> sublist p s"
proof (induction s p rule: str_includes.induct)
  case (2 c s p)
  then show ?case
    by (simp add: startsWith_prefix sublist_Cons_right)
qed simp

lemma to_upper_char_idem [simp]: "to_upper_char (to_upper_char c) = to_upper_char c"
  by (auto simp: to_upper_char_def Let_def)

lemma toUpperCase_idem [simp]: "toUpperCase (toUpperCase s) = toUpperCase s"
  by (simp add: toUpperCase_def comp_def)

lemma of_char_digit_char: "d < 10 \<Longrightarrow> (of_char (digit_char d) :: nat) = 48 + d"
  by (simp add: digit_char_def)

lemma digit_val_digit_char [simp]: "d < 10 \<Longrightarrow> digit_val (digit_char d) = d"
  by (simp add: digit_val_def of_char_digit_char)

lemma is_digit_digit_char [simp]: "d < 10 \<Longrightarrow> is_digit (digit_char d)"
  by (simp add: is_digit_def of_char_digit_char)

lemma digits_val_snoc: "digits_val (ds @ [c]) = 10 * digits_val ds + digit_val c"
  by (simp add: digits_val_def)

lemma digits_val_show_nat [simp]: "digits_val (show_nat n) = n"
proof (induction n rule: show_nat.induct)
  case (1 n)
  show ?case
  proof (cases "n < 10")
    case True
    then show ?thesis by (subst show_nat.simps) (simp add: digits_val_def)
  next
    case False
    with "1" show ?thesis
      by (subst show_nat.simps) (simp add: digits_val_snoc)
  qed
qed

lemma list_all_is_digit_show_nat [simp]: "list_all is_digit (show_nat n)"
proof (induction n rule: show_nat.induct)
  case (1 n)
  then show ?case by (subst show_nat.simps) simp
qed

lemma show_nat_nonempty [simp]: "show_nat n \<noteq> []"
  by (subst show_nat.simps) simp

lemma is_digit_not_space: "is_digit c \<Longrightarrow> \<not> is_space c"
  by (auto simp: is_digit_def is_space_def Let_def)

lemma minus_not_digit [simp]: "\<not> is_digit CHR ''-''" "\<not> is_digit CHR ''+''"
  by (simp_all add: is_digit_def)

lemma minus_not_space [simp]: "\<not> is_space CHR ''-''"
  by (simp add: is_space_def)

lemma dropWhile_space_digits: "list_all is_digit s \<Longrightarrow> dropWhile is_space s = s"
  by (cases s) (auto simp: is_digit_not_space)

lemma trim_digits: "list_all is_digit s \<Longrightarrow> trim s = s"
  by (simp add: trim_def dropWhile_space_digits list_all_rev)

lemma trim_minus_digits:
  assumes "list_all is_digit s" "s \<noteq> []"
  shows "trim (CHR ''-'' # s) = CHR ''-'' # s"
proof -
  have "dropWhile is_space (rev s @ [CHR ''-'']) = rev s @ [CHR ''-'']"
    using assms by (cases s rule: rev_cases) (auto simp: is_digit_not_space)
  then show ?thesis by (simp add: trim_def)
qed

lemma js_BigInt_show_int [simp]: "js_BigInt (show_int n) = Some n"
proof (cases "n < 0")
  case True
  then show ?thesis
    by (simp add: js_BigInt_def show_int_def trim_minus_digits decimal_nat_def)
next
  case False
  obtain c cs where cs: "show_nat (nat n) = c # cs"
    by (cases "show_nat (nat n)") auto
  have "is_digit c"
    using list_all_is_digit_show_nat [of "nat n"] by (simp add: cs)
  then have c: "c \<noteq> CHR ''-''" "c \<noteq> CHR ''+''" by auto
  have "decimal_nat (c # cs) = Some (nat n)"
    using list_all_is_digit_show_nat [of "nat n"] digits_val_show_nat [of "nat n"]
    by (simp add: decimal_nat_def cs)
  moreover have "trim (c # cs) = c # cs"
    using list_all_is_digit_show_nat [of "nat n"] trim_digits [of "c # cs"] by (simp add: cs)
  ultimately show ?thesis
    using False c by (simp add: js_BigInt_def show_int_def cs)
qed

lemma takeWhile_digits: "list_all is_digit s \<Longrightarrow> takeWhile is_digit s = s"
  by (simp add: takeWhile_eq_all_conv list_all_iff)

lemma js_parseInt_show_int [simp]: "js_parseInt (show_int n) = Some n"
proof (cases "n < 0")
  case True
  then show ?thesis
    by (simp add: js_parseInt_def show_int_def takeWhile_digits)
next
  case False
  obtain c cs where cs: "show_nat (nat n) = c # cs"
    by (cases "show_nat (nat n)") auto
  have "is_digit c" and all: "list_all is_digit (c # cs)"
    using list_all_is_digit_show_nat [of "nat n"] by (simp_all add: cs)
  then have c: "c \<noteq> CHR ''-''" "c \<noteq> CHR ''+''" by auto
  have "digits_val (c # cs) = nat n"
    using digits_val_show_nat [of "nat n"] by (simp add: cs)
  then show ?thesis
    using False c dropWhile_space_digits [OF all] takeWhile_digits [OF all]
    by (simp add: js_parseInt_def show_int_def cs)
qed

lemma show_int_inject [simp]: "show_int a = show_int b \<longleftrightarrow> a = b"
  by (metis js_BigInt_show_int option.inject)

lemma show_int_nonempty [simp]: "show_int n \<noteq> []"
  by (simp add: show_int_def)

section \<open>Lemmas on numbers\<close>

lemma num_add_NInt [simp]: "num_add (NInt a) (NInt b) = NInt (a + b)"
  by (simp add: num_add_def)

lemma num_sub_NInt [simp]: "num_sub (NInt a) (NInt b) = NInt (a - b)"
  by (simp add: num_sub_def)

lemma num_le_NInt [simp]: "num_le (NInt a) (NInt b) \<longleftrightarrow> a \<le> b"
  by (simp add: num_le_def)

lemma num_lt_NInt [simp]: "num_lt (NInt a) (NInt b) \<longleftrightarrow> a < b"
  by (auto simp: num_lt_def)

lemma num_max_NInt [simp]: "num_max (NInt a) (NInt b) = NInt (max a b)"
  by (simp add: num_max_def max_def)

lemma floor_numeral_div: "\<lfloor>numeral a / numeral b :: rat\<rfloor> = numeral a div numeral b"
  using floor_divide_of_int_eq [of "numeral a" "numeral b", where ?'a = rat] by simp

section \<open>Lemmas on BigInt division\<close>

lemma bigint_div_nonneg: "0 \<le> a \<Longrightarrow> 0 < b \<Longrightarrow> bigint_div a b = a div b"
  by (cases "a = 0") (auto simp: bigint_div_def sgn_if)

lemma bigint_div_neg: "a < 0 \<Longrightarrow> 0 < b \<Longrightarrow> bigint_div a b = - ((- a) div b)"
  by (simp add: bigint_div_def sgn_if)

lemma bigint_div_le_mono:
  assumes "a \<le> a'" "0 < b"
  shows "bigint_div a b \<le> bigint_div a' b"
proof (cases "0 \<le> a")
  case True
  with assms show ?thesis by (simp add: bigint_div_nonneg zdiv_mono1)
next
  case neg: False
  show ?thesis
  proof (cases "0 \<le> a'")
    case True
    with neg assms(2) have "bigint_div a b \<le> 0" "0 \<le> bigint_div a' b"
      by (simp_all add: bigint_div_neg bigint_div_nonneg pos_imp_zdiv_nonneg_iff)
    then show ?thesis by linarith
  next
    case False
    with neg assms show ?thesis by (simp add: bigint_div_neg zdiv_mono1)
  qed
qed

lemma bigint_div_mult_self: "0 < b \<Longrightarrow> bigint_div (k * b) b = k"
proof (cases "0 \<le> k")
  case True
  assume "0 < b"
  with True show ?thesis by (simp add: bigint_div_nonneg)
next
  case False
  assume b: "0 < b"
  with False have "k * b < 0" by (simp add: mult_neg_pos)
  with b show ?thesis by (simp add: bigint_div_neg flip: mult_minus_left)
qed

section \<open>Lemmas on effects\<close>

lemma io_return_simp [simp]: "io_return x h = (Inr x, h)"
  and io_throw_simp [simp]: "io_throw e h = (Inl e, h)"
  and io_call_simp [simp]: "io_call env c h = (env c h, h @ [c])"
  by (simp_all add: io_return_def io_throw_def io_call_def)

lemma io_bind_Inl: "m h = (Inl e, h') \<Longrightarrow> io_bind m f h = (Inl e, h')"
  and io_bind_Inr: "m h = (Inr x, h') \<Longrightarrow> io_bind m f h = f x h'"
  by (simp_all add: io_bind_def)

lemma io_catch_Inl: "m h = (Inl e, h') \<Longrightarrow> io_catch m f h = f e h'"
  and io_catch_Inr: "m h = (Inr x, h') \<Longrightarrow> io_catch m f h = (Inr x, h')"
  by (simp_all add: io_catch_def)

lemma io_extends_intros [intro]:
  "io_extends (io_return x)" "io_extends (io_throw e)" "io_extends (io_call env c)"
  by (auto simp: io_extends_def)

lemma io_extends_bind [intro]:
  assumes "io_extends m" "\<And>x. io_extends (f x)"
  shows "io_extends (io_bind m f)"
  unfolding io_extends_def
proof
  fix h
  obtain r h' where m: "m h = (r, h')" by fastforce
  then obtain cs where "h' = h @ cs" using assms(1) by (metis io_extends_def snd_conv)
  with m assms(2) show "\<exists>cs. snd (io_bind m f h) = h @ cs"
    by (cases r) (auto simp: io_bind_def io_extends_def, metis append_assoc)
qed

section \<open>Lemmas on insertion-ordered maps and sets\<close>

lemma omap_get_Nil [simp]: "omap_get [] k = None"
  by (simp add: omap_get_def)

lemma omap_get_Cons [simp]: "omap_get ((k', v) # m) k = (if k = k' then Some v else omap_get m k)"
  by (simp add: omap_get_def)

lemma omap_get_put [simp]: "omap_get (omap_put k v m) k' = (if k' = k then Some v else omap_get m k')"
  by (induction k v m rule: omap_put.induct) auto

lemma omap_get_del [simp]: "omap_get (omap_del k m) k' = (if k' = k then None else omap_get m k')"
  by (induction m) (auto simp: omap_del_def)

lemma omap_keys_put: "set (map fst (omap_put k v m)) = insert k (set (map fst m))"
  by (induction k v m rule: omap_put.induct) auto

lemma omap_wf_Nil [simp, intro]: "omap_wf []"
  by (simp add: omap_wf_def)

lemma omap_wf_put [simp, intro]: "omap_wf m \<Longrightarrow> omap_wf (omap_put k v m)"
proof (induction k v m rule: omap_put.induct)
  case (2 k v k' v' m)
  then show ?case using omap_keys_put [of k v m] by (auto simp: omap_wf_def)
qed (simp add: omap_wf_def)

lemma omap_wf_del [simp, intro]: "omap_wf m \<Longrightarrow> omap_wf (omap_del k m)"
  by (simp add: omap_wf_def omap_del_def distinct_map_filter)

lemma omap_get_None_iff: "omap_get m k = None \<longleftrightarrow> k \<notin> set (map fst m)"
  by (simp add: omap_get_def map_of_eq_None_iff image_iff)

lemma omap_get_Some_in: "omap_get m k = Some v \<Longrightarrow> (k, v) \<in> set m"
  by (simp add: omap_get_def map_of_SomeD)

lemma omap_in_get: "omap_wf m \<Longrightarrow> (k, v) \<in> set m \<Longrightarrow> omap_get m k = Some v"
  by (simp add: omap_get_def omap_wf_def)

lemma omap_put_new_keys: "k \<notin> set (map fst m) \<Longrightarrow> omap_put k v m = m @ [(k, v)]"
  by (induction k v m rule: omap_put.induct) auto

lemma omap_put_old_keys: "k \<in> set (map fst m) \<Longrightarrow> map fst (omap_put k v m) = map fst m"
  by (induction k v m rule: omap_put.induct) auto

lemma set_oset_add [simp]: "set (oset_add x xs) = insert x (set xs)"
  by (auto simp: oset_add_def)

lemma distinct_oset_add [simp, intro]: "distinct xs \<Longrightarrow> distinct (oset_add x xs)"
  by (simp add: oset_add_def)

lemma foldl_oset_add: "set (foldl (\<lambda>acc x. oset_add x acc) acc xs) = set acc \<union> set xs"
  by (induction xs arbitrary: acc) auto

lemma distinct_foldl_oset_add: "distinct acc \<Longrightarrow> distinct (foldl (\<lambda>acc x. oset_add x acc) acc xs)"
  by (induction xs arbitrary: acc) auto

lemma set_oset_of [simp]: "set (oset_of xs) = set xs"
  by (simp add: oset_of_def foldl_oset_add)

lemma distinct_oset_of [simp, intro]: "distinct (oset_of xs)"
  by (simp add: oset_of_def distinct_foldl_oset_add)

lemma set_sort_desc [simp]: "set (sort_desc f xs) = set xs"
  by (simp add: sort_desc_def)

lemma sorted_sort_desc: "sorted (map (\<lambda>x. - f x) (sort_desc f xs))"
  by (simp add: sort_desc_def)

lemma filter_key_unique:
  "distinct (map f xs) \<Longrightarrow> x \<in> set xs \<Longrightarrow> filter (\<lambda>y. f y = f x) xs = [x]"
proof (induction xs)
  case (Cons a xs)
  show ?case
  proof (cases "x = a")
    case True
    with Cons.prems(1) have "filter (\<lambda>y. f y = f x) xs = []"
      by (auto simp: filter_empty_conv image_iff)
    with True show ?thesis by simp
  next
    case False
    with Cons.prems have "x \<in> set xs" "f a \<noteq> f x" by auto
    with Cons show ?thesis by simp
  qed
qed simp

lemma map_filter_append: "List.map_filter f (xs @ ys) = List.map_filter f xs @ List.map_filter f ys"
  by (simp add: List.map_filter_def)

lemma map_filter_cong:
  "(\<And>x. x \<in> set xs \<Longrightarrow> f x = g x) \<Longrightarrow> List.map_filter f xs = List.map_filter g xs"
  by (induction xs) (auto simp: List.map_filter_def)

lemma map_filter_single: "List.map_filter f [x] = (case f x of None \<Rightarrow> [] | Some y \<Rightarrow> [y])"
  by (simp add: List.map_filter_def split: option.splits)

section \<open>The interface of keyed maps\<close>

text \<open>
  What the services rely on when they keep a \<open>Map\<close>: reading after writing and deleting, and
  that the enumeration of the keys has exactly the present keys, each once.
\<close>

locale keyed_map =
  fixes emp :: "'m"
    and get :: "'m \<Rightarrow> 'k \<Rightarrow> 'v option"
    and put :: "'k \<Rightarrow> 'v \<Rightarrow> 'm \<Rightarrow> 'm"
    and del :: "'k \<Rightarrow> 'm \<Rightarrow> 'm"
    and keys :: "'m \<Rightarrow> 'k list"
    and wf :: "'m \<Rightarrow> bool"
  assumes get_emp: "get emp k = None"
    and get_put: "get (put k v m) k' = (if k' = k then Some v else get m k')"
    and get_del: "get (del k m) k' = (if k' = k then None else get m k')"
    and wf_emp: "wf emp"
    and wf_put: "wf m \<Longrightarrow> wf (put k v m)"
    and wf_del: "wf m \<Longrightarrow> wf (del k m)"
    and keys_get: "k \<in> set (keys m) \<longleftrightarrow> get m k \<noteq> None"
    and keys_distinct: "wf m \<Longrightarrow> distinct (keys m)"
begin

lemma keys_put: "set (keys (put k v m)) = insert k (set (keys m))"
  by (auto simp: keys_get get_put split: if_splits)

lemma keys_del: "set (keys (del k m)) = set (keys m) - {k}"
  by (auto simp: keys_get get_del split: if_splits)

lemma wf_fold_put: "wf m \<Longrightarrow> wf (fold (\<lambda>x m. put (f x) (g x m) m) xs m)"
  by (induction xs arbitrary: m) (auto intro: wf_put)

lemma keys_fold_put: "set (keys (fold (\<lambda>x m. put (f x) (g x m) m) xs m)) = set (keys m) \<union> f ` set xs"
  by (induction xs arbitrary: m) (auto simp: keys_put)

lemma get_fold_put_other:
  "k \<notin> f ` set xs \<Longrightarrow> get (fold (\<lambda>x m. put (f x) (g x m) m) xs m) k = get m k"
  by (induction xs arbitrary: m) (auto simp: get_put)

text \<open>Accumulating per key: the entry of a key after a pass is the pass over its own items.\<close>

lemma get_fold_upd:
  "get (fold (\<lambda>x m. put (f x) (u x (get m (f x))) m) xs m) k =
   fold (\<lambda>x a. Some (u x a)) (filter (\<lambda>x. f x = k) xs) (get m k)"
  by (induction xs arbitrary: m) (auto simp: get_put)

end

lemma omap_get_fold_put_out:
  "k \<notin> key ` set rows \<Longrightarrow> omap_get (fold (\<lambda>r. omap_put (key r) r) rows tbl) k = omap_get tbl k"
  by (induction rows arbitrary: tbl) auto

text \<open>Upserting rows with distinct keys: every row is found under its key.\<close>

lemma omap_get_fold_put_in:
  "distinct (map key rows) \<Longrightarrow> r \<in> set rows \<Longrightarrow> omap_get (fold (\<lambda>r. omap_put (key r) r) rows tbl) (key r) = Some r"
proof (induction rows arbitrary: tbl)
  case (Cons x rows)
  show ?case
  proof (cases "r = x")
    case True
    with Cons.prems have "key r \<notin> key ` set rows" by auto
    with True show ?thesis by (simp add: omap_get_fold_put_out)
  next
    case False
    with Cons show ?thesis by simp
  qed
qed simp

interpretation omap: keyed_map "[]" omap_get omap_put omap_del "map fst" omap_wf
proof unfold_locales
  fix k :: 'a and m :: "('a \<times> 'b) list"
  show "(k \<in> set (map fst m)) = (omap_get m k \<noteq> None)"
    by (simp add: omap_get_None_iff)
qed (auto simp: omap_wf_def [symmetric])

end
