(* ===== verification/Retry.thy ===== *)
theory Retry
  imports Complex_Main Prelude
begin

text \<open>
  The retry helper of the oracle service (\<open>oracle-service/src/retry.ts\<close>) and the contract of
  capped exponential back-off that it shares with the indexer's loops.

  The retried operation is an action on a world, \<open>'w \<Rightarrow> (thrown + 'a) \<times> 'w\<close>: what it throws is an
  \<open>Error\<close> or an arbitrary value.  \<open>retryWithBackoff\<close> is total; its result carries the world after
  the last call and the delays it waited for, in order.  \<open>Math.random()\<close> is a function of the attempt
  number into the rationals.
\<close>

section \<open>Definitions\<close>

datatype thrown = TError jserror | TValue js

fun as_error :: "thrown \<Rightarrow> jserror" where
  "as_error (TError e) = e"
| "as_error (TValue v) = GenericError (js_String v)"

definition NON_RETRIABLE_PATTERNS :: "string list" where
  "NON_RETRIABLE_PATTERNS =
     [''Simulation failed'', ''Transaction failed on-chain'', ''Transaction failed:'',
      ''Document verification failed'']"

fun thrown_message :: "thrown \<Rightarrow> string" where
  "thrown_message (TError e) = error_message e"
| "thrown_message (TValue v) = js_String v"

definition isRetriableError :: "thrown \<Rightarrow> bool" where
  "isRetriableError error = (\<not> list_ex (\<lambda>pattern. str_includes (thrown_message error) pattern) NON_RETRIABLE_PATTERNS)"

record retry_options =
  maxAttempts :: int
  baseDelayMs :: int
  maxDelayMs :: int

record partial_retry_options =
  opt_maxAttempts :: "int option"
  opt_baseDelayMs :: "int option"
  opt_maxDelayMs :: "int option"

definition DEFAULT_OPTIONS :: retry_options where
  "DEFAULT_OPTIONS = \<lparr>maxAttempts = 3, baseDelayMs = 2000, maxDelayMs = 30000\<rparr>"

definition no_options :: partial_retry_options where
  "no_options = \<lparr>opt_maxAttempts = None, opt_baseDelayMs = None, opt_maxDelayMs = None\<rparr>"

fun or_default :: "'a option \<Rightarrow> 'a \<Rightarrow> 'a" where
  "or_default None d = d"
| "or_default (Some x) d = x"

definition merge_options :: "partial_retry_options \<Rightarrow> retry_options" where
  "merge_options p =
     \<lparr>maxAttempts = or_default (opt_maxAttempts p) (maxAttempts DEFAULT_OPTIONS),
      baseDelayMs = or_default (opt_baseDelayMs p) (baseDelayMs DEFAULT_OPTIONS),
      maxDelayMs = or_default (opt_maxDelayMs p) (maxDelayMs DEFAULT_OPTIONS)\<rparr>"

definition exponentialDelay :: "retry_options \<Rightarrow> int \<Rightarrow> int" where
  "exponentialDelay opts attempt = min (baseDelayMs opts * 2 ^ nat (attempt - 1)) (maxDelayMs opts)"

definition jitter :: "rat \<Rightarrow> int \<Rightarrow> int" where
  "jitter r d = \<lfloor>r * of_int d\<rfloor>"

function retry_loop ::
  "retry_options \<Rightarrow> (int \<Rightarrow> rat) \<Rightarrow> ('w \<Rightarrow> (thrown + 'a) \<times> 'w) \<Rightarrow> int \<Rightarrow> 'w \<Rightarrow> jserror option \<Rightarrow> int list
    \<Rightarrow> (jserror option + 'a) \<times> 'w \<times> int list" where
  "retry_loop opts rnd fn attempt w lastError delays =
     (if attempt \<le> maxAttempts opts then
        (case fn w of
           (Inr v, w') \<Rightarrow> (Inr v, w', delays)
         | (Inl t, w') \<Rightarrow>
             (let err = as_error t in
              if \<not> isRetriableError (TError err) then (Inl (Some err), w', delays)
              else if attempt < maxAttempts opts then
                retry_loop opts rnd fn (attempt + 1) w' (Some err)
                  (delays @ [jitter (rnd attempt) (exponentialDelay opts attempt)])
              else retry_loop opts rnd fn (attempt + 1) w' (Some err) delays))
      else (Inl lastError, w, delays))"
  by pat_completeness auto
termination
  by (relation "measure (\<lambda>(opts, rnd, fn, attempt, w, le, ds). nat (maxAttempts opts - attempt + 1))") auto

declare retry_loop.simps [simp del]

text \<open>\<open>throw lastError!\<close> after a loop that never ran throws \<open>null\<close>: the error side is an option.\<close>

definition retryWithBackoff ::
  "(int \<Rightarrow> rat) \<Rightarrow> ('w \<Rightarrow> (thrown + 'a) \<times> 'w) \<Rightarrow> partial_retry_options \<Rightarrow> 'w
    \<Rightarrow> (jserror option + 'a) \<times> 'w \<times> int list" where
  "retryWithBackoff rnd fn options w = retry_loop (merge_options options) rnd fn 1 w None []"

section \<open>Capped exponential back-off\<close>

text \<open>The contract of a capped exponential delay, for any base and cap.\<close>

locale capped_backoff =
  fixes base cap :: int
    and delay :: "nat \<Rightarrow> int"
  assumes base_nonneg: "0 \<le> base"
    and cap_nonneg: "0 \<le> cap"
    and delay_eq: "delay n = min (base * 2 ^ n) cap"
begin

lemma delay_nonneg: "0 \<le> delay n"
  using base_nonneg cap_nonneg by (simp add: delay_eq)

lemma delay_le_cap: "delay n \<le> cap"
  by (simp add: delay_eq)

lemma delay_mono: "m \<le> n \<Longrightarrow> delay m \<le> delay n"
proof -
  assume "m \<le> n"
  then have "(2::int) ^ m \<le> 2 ^ n" by (simp add: power_increasing)
  then have "base * 2 ^ m \<le> base * 2 ^ n" using base_nonneg by (simp add: mult_left_mono)
  then show ?thesis by (auto simp: delay_eq)
qed

lemma delay_doubles_below_cap: "delay (Suc n) < cap \<Longrightarrow> delay (Suc n) = 2 * delay n"
proof -
  assume less: "delay (Suc n) < cap"
  then have "delay n < cap" using delay_mono [of n "Suc n"] by simp
  with less show ?thesis by (auto simp: delay_eq min_def split: if_splits)
qed

end

interpretation retry_default:
  capped_backoff 2000 30000 "\<lambda>n. exponentialDelay DEFAULT_OPTIONS (int n + 1)"
  by unfold_locales (simp_all add: exponentialDelay_def DEFAULT_OPTIONS_def)

section \<open>Lemmas\<close>

text \<open>The world after \<open>k\<close> calls, and what the next call from there does.\<close>

fun nth_world :: "('w \<Rightarrow> 'r \<times> 'w) \<Rightarrow> 'w \<Rightarrow> nat \<Rightarrow> 'w" where
  "nth_world fn w 0 = w"
| "nth_world fn w (Suc k) = nth_world fn (snd (fn w)) k"

definition nth_outcome :: "('w \<Rightarrow> 'r \<times> 'w) \<Rightarrow> 'w \<Rightarrow> nat \<Rightarrow> 'r" where
  "nth_outcome fn w k = fst (fn (nth_world fn w k))"

fun retriable_failure :: "thrown + 'a \<Rightarrow> bool" where
  "retriable_failure (Inl t) = isRetriableError t"
| "retriable_failure (Inr v) = False"

fun settled :: "thrown + 'a \<Rightarrow> jserror option + 'a" where
  "settled (Inl t) = Inl (Some (as_error t))"
| "settled (Inr v) = Inr v"

lemma nth_outcome_0 [simp]: "nth_outcome fn w 0 = fst (fn w)"
  by (simp add: nth_outcome_def)

lemma nth_outcome_Suc [simp]: "nth_outcome fn w (Suc k) = nth_outcome fn (snd (fn w)) k"
  by (simp add: nth_outcome_def)

lemma isRetriableError_as_error [simp]: "isRetriableError (TError (as_error t)) = isRetriableError t"
  by (cases t) (simp_all add: isRetriableError_def)

text \<open>Which call settles the loop: the first that is no retriable failure, or the last allowed one.\<close>

definition settles :: "('w \<Rightarrow> (thrown + 'a) \<times> 'w) \<Rightarrow> 'w \<Rightarrow> nat \<Rightarrow> nat \<Rightarrow> bool" where
  "settles fn w n k \<longleftrightarrow> k < n \<and> (\<forall>j < k. retriable_failure (nth_outcome fn w j)) \<and>
     (Suc k < n \<longrightarrow> \<not> retriable_failure (nth_outcome fn w k))"

lemma settles_0: "\<not> retriable_failure (fst (fn w)) \<or> n = 0 \<Longrightarrow> settles fn w (Suc n) 0"
  by (auto simp: settles_def)

lemma settles_Suc:
  assumes "retriable_failure (fst (fn w))" "settles fn (snd (fn w)) n k"
  shows "settles fn w (Suc n) (Suc k)"
  using assms by (auto simp: settles_def less_Suc_eq_0_disj)

lemma settles_unique:
  assumes "settles fn w n k" "settles fn w n k'"
  shows "k = k'"
proof -
  have "\<not> k < k'" if "settles fn w n k" "settles fn w n k'" for k k'
    using that unfolding settles_def by (metis Suc_lessI less_trans_Suc not_less_eq)
  with assms show ?thesis by (meson linorder_neqE_nat)
qed

lemma retry_loop_settles:
  assumes "maxAttempts opts - attempt = int n"
  shows "\<exists>k. settles fn w (Suc n) k \<and>
     retry_loop opts rnd fn attempt w le ds =
       (settled (nth_outcome fn w k), nth_world fn w (Suc k),
        ds @ map (\<lambda>j. jitter (rnd (attempt + int j)) (exponentialDelay opts (attempt + int j))) [0..<k])"
  using assms
proof (induction n arbitrary: attempt w le ds)
  case 0
  obtain r w' where fn: "fn w = (r, w')" by fastforce
  have "settles fn w (Suc 0) 0" by (simp add: settles_0)
  moreover have "retry_loop opts rnd fn attempt w le ds = (settled r, w', ds)"
    using 0 by (cases r) (simp_all add: retry_loop.simps [of opts rnd fn attempt] fn Let_def
        retry_loop.simps [of opts rnd fn "attempt + 1"])
  ultimately show ?case using fn by (intro exI [of _ 0]) simp
next
  case (Suc n)
  obtain r w' where fn: "fn w = (r, w')" by fastforce
  show ?case
  proof (cases "retriable_failure r")
    case False
    then have "retry_loop opts rnd fn attempt w le ds = (settled r, w', ds)"
      using Suc.prems
      by (cases r) (simp_all add: retry_loop.simps [of opts rnd fn attempt] fn Let_def)
    moreover have "settles fn w (Suc (Suc n)) 0" using False by (simp add: settles_0 fn)
    ultimately show ?thesis using fn by (intro exI [of _ 0]) simp
  next
    case True
    then obtain t where t: "r = Inl t" "isRetriableError t" by (cases r) auto
    let ?d = "jitter (rnd attempt) (exponentialDelay opts attempt)"
    have unf: "retry_loop opts rnd fn attempt w le ds =
        retry_loop opts rnd fn (attempt + 1) w' (Some (as_error t)) (ds @ [?d])"
      using Suc.prems t by (simp add: retry_loop.simps [of opts rnd fn attempt] fn Let_def)
    obtain k where k: "settles fn w' (Suc n) k"
      "retry_loop opts rnd fn (attempt + 1) w' (Some (as_error t)) (ds @ [?d]) =
         (settled (nth_outcome fn w' k), nth_world fn w' (Suc k),
          (ds @ [?d]) @ map (\<lambda>j. jitter (rnd (attempt + 1 + int j)) (exponentialDelay opts (attempt + 1 + int j))) [0..<k])"
      using Suc.IH [of "attempt + 1" w' "Some (as_error t)" "ds @ [?d]"] Suc.prems by auto
    have "settles fn w (Suc (Suc n)) (Suc k)"
      using settles_Suc [of fn w "Suc n" k] True k(1) by (simp add: fn)
    moreover have "map (\<lambda>j. jitter (rnd (attempt + int j)) (exponentialDelay opts (attempt + int j))) [0..<Suc k] =
        ?d # map (\<lambda>j. jitter (rnd (attempt + 1 + int j)) (exponentialDelay opts (attempt + 1 + int j))) [0..<k]"
      by (simp add: map_upt_Suc algebra_simps del: upt_Suc)
    ultimately show ?thesis
      using k(2) unf fn by (intro exI [of _ "Suc k"]) simp
  qed
qed

lemma jitter_bounds:
  assumes "0 \<le> r" "r < 1" "0 \<le> d"
  shows "0 \<le> jitter r d \<and> jitter r d \<le> d"
proof -
  have "r * of_int d \<le> 1 * of_int d"
    using assms by (intro mult_right_mono) auto
  then have "jitter r d \<le> \<lfloor>of_int d :: rat\<rfloor>"
    unfolding jitter_def by (intro floor_mono) simp
  moreover have "0 \<le> jitter r d"
    using assms by (simp add: jitter_def)
  ultimately show ?thesis by simp
qed

section \<open>Properties\<close>

text \<open>C3: With at least one allowed attempt, \<open>retryWithBackoff\<close> always settles, on exactly one call: the
  first that succeeds or fails with an error that is not retriable, or the last allowed one.  Its result
  is that call's outcome, nothing is called afterwards, and between two attempts it slept the jittered
  exponential delay of the failed attempt.\<close>

theorem retryWithBackoff_settles:
  assumes "maxAttempts (merge_options options) = int (Suc n)"
  shows "\<exists>!k. settles fn w (Suc n) k \<and>
     retryWithBackoff rnd fn options w =
       (settled (nth_outcome fn w k), nth_world fn w (Suc k),
        map (\<lambda>j. jitter (rnd (1 + int j)) (exponentialDelay (merge_options options) (1 + int j))) [0..<k])"
proof -
  have "maxAttempts (merge_options options) - 1 = int n" using assms by simp
  from retry_loop_settles [OF this, of fn w rnd None "[]"] obtain k where
    "settles fn w (Suc n) k"
    "retryWithBackoff rnd fn options w =
       (settled (nth_outcome fn w k), nth_world fn w (Suc k),
        [] @ map (\<lambda>j. jitter (rnd (1 + int j)) (exponentialDelay (merge_options options) (1 + int j))) [0..<k])"
    unfolding retryWithBackoff_def by blast
  then show ?thesis using settles_unique [of fn w "Suc n"]
    by (intro ex1I [of _ k]) auto
qed

definition flaky :: "nat \<Rightarrow> (thrown + string) \<times> nat" where
  "flaky w = (if w = 0 then Inl (TError (GenericError ''timeout'')) else Inr ''ok'', w + 1)"

theorem retryWithBackoff_settles_witness:
  "maxAttempts (merge_options no_options) = int (Suc 2) \<and>
   (\<exists>!k. settles flaky 0 (Suc 2) k \<and>
     retryWithBackoff (\<lambda>_. 1 / 2) flaky no_options 0 =
       (settled (nth_outcome flaky 0 k), nth_world flaky 0 (Suc k),
        map (\<lambda>j. jitter (1 / 2) (exponentialDelay (merge_options no_options) (1 + int j))) [0..<k]))"
proof
  show m: "maxAttempts (merge_options no_options) = int (Suc 2)"
    by (simp add: merge_options_def no_options_def DEFAULT_OPTIONS_def)
  show "\<exists>!k. settles flaky 0 (Suc 2) k \<and>
     retryWithBackoff (\<lambda>_. 1 / 2) flaky no_options 0 =
       (settled (nth_outcome flaky 0 k), nth_world flaky 0 (Suc k),
        map (\<lambda>j. jitter (1 / 2) (exponentialDelay (merge_options no_options) (1 + int j))) [0..<k])"
    using retryWithBackoff_settles [OF m, of flaky 0 "\<lambda>_. 1 / 2"] .
qed

text \<open>Every delay slept by \<open>retryWithBackoff\<close> lies between zero and the configured maximum, and
  there are fewer delays than attempts, so the total time slept is bounded.\<close>

theorem retryWithBackoff_delays:
  assumes "maxAttempts (merge_options options) = int (Suc n)"
    and "\<And>k. 0 \<le> rnd k \<and> rnd k < 1"
    and "0 \<le> baseDelayMs (merge_options options)" "0 \<le> maxDelayMs (merge_options options)"
    and "retryWithBackoff rnd fn options w = (r, w', delays)"
  shows "length delays \<le> n \<and> set delays \<subseteq> {0..maxDelayMs (merge_options options)} \<and>
     sum_list delays \<le> int n * maxDelayMs (merge_options options)"
proof -
  let ?o = "merge_options options"
  have "maxAttempts ?o - 1 = int n" using assms(1) by simp
  from retry_loop_settles [OF this, of fn w rnd None "[]"] assms(5) obtain k where
    k: "settles fn w (Suc n) k" and ds: "delays = map (\<lambda>j. jitter (rnd (1 + int j)) (exponentialDelay ?o (1 + int j))) [0..<k]"
    unfolding retryWithBackoff_def by auto
  have len: "length delays \<le> n" using k ds by (simp add: settles_def)
  have sub: "set delays \<subseteq> {0..maxDelayMs ?o}"
  proof
    fix d assume "d \<in> set delays"
    then obtain j where d: "d = jitter (rnd (1 + int j)) (exponentialDelay ?o (1 + int j))" using ds by auto
    have "0 \<le> exponentialDelay ?o (1 + int j)" "exponentialDelay ?o (1 + int j) \<le> maxDelayMs ?o"
      using assms(3,4) by (simp_all add: exponentialDelay_def)
    then show "d \<in> {0..maxDelayMs ?o}"
      using jitter_bounds [of "rnd (1 + int j)" "exponentialDelay ?o (1 + int j)"] assms(2) d by force
  qed
  have "sum_list delays \<le> int (length delays) * maxDelayMs ?o"
    using sub by (induction delays) (auto simp: distrib_right)
  also have "\<dots> \<le> int n * maxDelayMs ?o" using len assms(4) by (simp add: mult_right_mono)
  finally show ?thesis using len sub by simp
qed

theorem retryWithBackoff_delays_witness:
  "\<exists>r w' delays. retryWithBackoff (\<lambda>_. 1 / 2) flaky no_options 0 = (r, w', delays) \<and>
     length delays \<le> 2 \<and> set delays \<subseteq> {0..30000} \<and> sum_list delays \<le> 60000"
proof -
  obtain r w' delays where run: "retryWithBackoff (\<lambda>_. 1 / 2) flaky no_options 0 = (r, w', delays)"
    by (metis prod_cases3)
  have o: "merge_options no_options = \<lparr>maxAttempts = 3, baseDelayMs = 2000, maxDelayMs = 30000\<rparr>"
    by (simp add: merge_options_def no_options_def DEFAULT_OPTIONS_def)
  show ?thesis
    using retryWithBackoff_delays [of no_options 2 "\<lambda>_. 1 / 2" flaky 0 r w' delays] run by (auto simp: o)
qed

end
