(* ===== verification/Replay.thy ===== *)
theory Replay
  imports Prelude
begin

text \<open>
  Two interfaces that several services share.

  \<^item> \<open>last_status\<close>: a status rebuilt by replaying a history, where every event either
    overwrites the status or leaves it alone.  The oracle service's tracker, the indexer's round
    and attestation endpoints and the pause flag are all of this kind.
  \<^item> \<open>bounded_log\<close>: a log that keeps the newest entries up to a capacity (the compliance
    monitor's alerts, the oracle's recent slashes).
\<close>

section \<open>Replayed status\<close>

locale last_status =
  fixes step :: "'e \<Rightarrow> 's \<Rightarrow> 's"
    and writes :: "'e \<Rightarrow> 's option"
  assumes step_eq: "step e s = (case writes e of None \<Rightarrow> s | Some s' \<Rightarrow> s')"
begin

lemma fold_no_write: "\<forall>e \<in> set es. writes e = None \<Longrightarrow> fold step es s = s"
  by (induction es arbitrary: s) (auto simp: step_eq)

lemma fold_last_write:
  assumes "writes e = Some s'" "\<forall>e' \<in> set es'. writes e' = None"
  shows "fold step (es @ e # es') s = s'"
proof -
  have "fold step (es @ e # es') s = fold step es' (step e (fold step es s))" by simp
  also have "\<dots> = step e (fold step es s)" using assms(2) by (rule fold_no_write)
  finally show ?thesis using assms(1) by (simp add: step_eq)
qed

lemma fold_step_cases:
  obtains (unchanged) "\<forall>e \<in> set es. writes e = None" "fold step es s = s"
  | (written) es1 e es2 s' where "es = es1 @ e # es2" "writes e = Some s'"
      "\<forall>e' \<in> set es2. writes e' = None" "fold step es s = s'"
proof (cases "\<forall>e \<in> set es. writes e = None")
  case True
  then show thesis using unchanged fold_no_write by blast
next
  case False
  then have "\<exists>e \<in> set es. writes e \<noteq> None" by blast
  from split_list_last_prop [OF this] obtain es1 e es2 where
    s: "es = es1 @ e # es2" "writes e \<noteq> None" "\<forall>e' \<in> set es2. writes e' = None"
    by auto
  then obtain s' where s': "writes e = Some s'" by blast
  then have "fold step es s = s'" using s(1,3) fold_last_write by simp
  then show thesis using written [OF s(1) s' s(3)] by simp
qed

lemma fold_eq_iff:
  assumes "s \<noteq> s0"
  shows "fold step es s0 = s \<longleftrightarrow>
     (\<exists>es1 e es2. es = es1 @ e # es2 \<and> writes e = Some s \<and> (\<forall>e' \<in> set es2. writes e' = None))"
    (is "_ \<longleftrightarrow> ?last")
proof
  assume run: "fold step es s0 = s"
  show ?last
  proof (rule fold_step_cases [of es s0])
    assume "fold step es s0 = s0"
    with run assms show ?last by simp
  next
    fix es1 e es2 s'
    assume "es = es1 @ e # es2" "writes e = Some s'" "\<forall>e' \<in> set es2. writes e' = None" "fold step es s0 = s'"
    with run show ?last by blast
  qed
next
  assume ?last
  then show "fold step es s0 = s" using fold_last_write by blast
qed

lemma fold_start_irrelevant:
  assumes "\<exists>e \<in> set es. writes e \<noteq> None"
  shows "fold step es s = fold step es s'"
proof -
  from split_list_last_prop [OF assms] obtain es1 e es2 where
    "es = es1 @ e # es2" "writes e \<noteq> None" "\<forall>e' \<in> set es2. writes e' = None"
    by auto
  then show ?thesis using fold_last_write by (metis option.exhaust_sel)
qed

lemma fold_filter_writes: "fold step (filter (\<lambda>e. writes e \<noteq> None) es) s = fold step es s"
  by (induction es arbitrary: s) (auto simp: step_eq)

end

section \<open>Bounded logs\<close>

text \<open>
  \<open>push x xs\<close> adds an entry and drops the oldest ones above the capacity; \<open>newest\<close> reads the
  log newest first.
\<close>

locale bounded_log =
  fixes capacity :: nat
    and push :: "'a \<Rightarrow> 'l \<Rightarrow> 'l"
    and newest :: "'l \<Rightarrow> 'a list"
  assumes newest_push: "newest (push x l) = take capacity (x # newest l)"
begin

lemma push_bounded: "length (newest (push x l)) \<le> capacity"
  by (simp add: newest_push)

lemma fold_push_bounded: "length (newest l) \<le> capacity \<Longrightarrow> length (newest (fold push xs l)) \<le> capacity"
  by (induction xs arbitrary: l) (auto simp: push_bounded)

lemma take_push: "take capacity (x # take capacity ys) = take capacity (x # ys)"
  by (cases capacity) (simp_all add: take_Suc_conv_app_nth min_def)

lemma newest_fold_push:
  "length (newest l) \<le> capacity \<Longrightarrow>
   newest (fold push xs l) = take capacity (rev xs @ newest l)"
proof (induction xs rule: rev_induct)
  case (snoc x xs)
  have "newest (fold push (xs @ [x]) l) = take capacity (x # newest (fold push xs l))"
    by (simp add: newest_push)
  also have "\<dots> = take capacity (x # take capacity (rev xs @ newest l))"
    using snoc by simp
  also have "\<dots> = take capacity (rev (xs @ [x]) @ newest l)"
    by (simp only: take_push) simp
  finally show ?case .
qed simp

end

end
