(* ===== verification/Consensus.thy ===== *)
theory Consensus
  imports Replay
begin

text \<open>
  The consensus tracker of the oracle service (\<open>oracle-service/src/consensus.ts\<close>): the state an
  oracle node derives from the registry contract's event stream.  The class is the record
  \<open>consensus_tracker\<close>; \<open>Date.now()\<close> is an argument of the operations that read it.
\<close>

section \<open>Definitions\<close>

datatype RoundStatus = Open | ConsensusApproved | ConsensusRejected | Expired

record TrackedRound =
  tr_invoiceId :: string
  tr_status :: RoundStatus
  tr_votedByThisNode :: bool
  tr_updatedAt :: millis

record consensus_tracker =
  rounds :: "TrackedRound dict"
  votedByMe :: "string list"
  paused :: bool
  oraclePublicKey :: string

definition new_tracker :: "string \<Rightarrow> consensus_tracker" where
  "new_tracker key = \<lparr>rounds = [], votedByMe = [], paused = False, oraclePublicKey = key\<rparr>"

definition asArray :: "js \<Rightarrow> js list" where
  "asArray v = (case v of JArr xs \<Rightarrow> xs | _ \<Rightarrow> [v])"

definition upsert :: "millis \<Rightarrow> string \<Rightarrow> RoundStatus \<Rightarrow> consensus_tracker \<Rightarrow> consensus_tracker" where
  "upsert now invoiceId status t =
     t\<lparr>rounds := omap_put invoiceId
        \<lparr>tr_invoiceId = invoiceId, tr_status = status,
         tr_votedByThisNode = (invoiceId \<in> set (votedByMe t)), tr_updatedAt = now\<rparr> (rounds t)\<rparr>"

definition current_status :: "consensus_tracker \<Rightarrow> string \<Rightarrow> RoundStatus option" where
  "current_status t invoiceId = map_option tr_status (omap_get (rounds t) invoiceId)"

definition handle_voted :: "millis \<Rightarrow> js \<Rightarrow> consensus_tracker \<Rightarrow> consensus_tracker" where
  "handle_voted now v t =
     (let arr = asArray v; invoiceId = js_String (elem_at arr 0); oracle = js_String (elem_at arr 1);
          t' = (if oracle = oraclePublicKey t then t\<lparr>votedByMe := oset_add invoiceId (votedByMe t)\<rparr> else t)
      in upsert now invoiceId (case current_status t' invoiceId of Some s \<Rightarrow> s | None \<Rightarrow> Open) t')"

definition handle_verdict :: "millis \<Rightarrow> js \<Rightarrow> consensus_tracker \<Rightarrow> consensus_tracker" where
  "handle_verdict now v t =
     (let arr = asArray v in
      upsert now (js_String (elem_at arr 0))
        (if js_truthy (elem_at arr 1) then ConsensusApproved else ConsensusRejected) t)"

definition handleEvent :: "millis \<Rightarrow> js \<Rightarrow> js \<Rightarrow> consensus_tracker \<Rightarrow> consensus_tracker" where
  "handleEvent now topic2 v t =
     (if topic2 = JStr ''paused'' then t\<lparr>paused := True\<rparr>
      else if topic2 = JStr ''unpaused'' then t\<lparr>paused := False\<rparr>
      else if topic2 = JStr ''rnd_open'' then upsert now (js_String (elem_at (asArray v) 0)) Open t
      else if topic2 = JStr ''voted'' then handle_voted now v t
      else if topic2 = JStr ''consensus'' then handle_verdict now v t
      else if topic2 = JStr ''rnd_exp'' then
        upsert now (js_String (case v of JArr xs \<Rightarrow> elem_at xs 0 | _ \<Rightarrow> v)) Expired t
      else if topic2 = JStr ''fallback'' then handle_verdict now v t
      else t)"

definition hasVoted :: "consensus_tracker \<Rightarrow> string \<Rightarrow> bool" where
  "hasVoted t invoiceId = (invoiceId \<in> set (votedByMe t))"

definition isPaused :: "consensus_tracker \<Rightarrow> bool" where
  "isPaused t = paused t"

definition markPaused :: "consensus_tracker \<Rightarrow> consensus_tracker" where
  "markPaused t = t\<lparr>paused := True\<rparr>"

definition isOpen :: "consensus_tracker \<Rightarrow> string \<Rightarrow> bool" where
  "isOpen t invoiceId = (current_status t invoiceId = Some Open)"

definition list_rounds :: "consensus_tracker \<Rightarrow> TrackedRound list" where
  "list_rounds t = map snd (rounds t)"

section \<open>Specification\<close>

text \<open>
  An observed event is its second topic, its value and the clock reading of its handling.  The
  specification reads the history directly: which rounds an event concerns, which status it writes
  there, and which events are this node's own votes.
\<close>

type_synonym registry_event = "js \<times> js \<times> millis"

definition track :: "registry_event \<Rightarrow> consensus_tracker \<Rightarrow> consensus_tracker" where
  "track e t = (case e of (topic2, v, now) \<Rightarrow> handleEvent now topic2 v t)"

definition round_topics :: "string list" where
  "round_topics = [''rnd_open'', ''voted'', ''consensus'', ''rnd_exp'', ''fallback'']"

definition event_round :: "registry_event \<Rightarrow> string option" where
  "event_round e = (case e of (topic2, v, _) \<Rightarrow>
     (case topic2 of JStr s \<Rightarrow> if s \<in> set round_topics then Some (js_String (elem_at (asArray v) 0)) else None
      | _ \<Rightarrow> None))"

definition event_status :: "registry_event \<Rightarrow> RoundStatus option" where
  "event_status e = (case e of (topic2, v, _) \<Rightarrow>
     (if topic2 = JStr ''rnd_open'' then Some Open
      else if topic2 = JStr ''consensus'' \<or> topic2 = JStr ''fallback'' then
        Some (if js_truthy (elem_at (asArray v) 1) then ConsensusApproved else ConsensusRejected)
      else if topic2 = JStr ''rnd_exp'' then Some Expired
      else None))"

definition own_vote :: "string \<Rightarrow> registry_event \<Rightarrow> bool" where
  "own_vote key e = (case e of (topic2, v, _) \<Rightarrow>
     topic2 = JStr ''voted'' \<and> js_String (elem_at (asArray v) 1) = key)"

definition pause_write :: "registry_event \<Rightarrow> bool option" where
  "pause_write e = (case e of (topic2, _) \<Rightarrow>
     if topic2 = JStr ''paused'' then Some True
     else if topic2 = JStr ''unpaused'' then Some False else None)"

text \<open>The status of one round as a function of the events that concern it: a vote on an unknown
  round counts as an open round, every other event writes its own status.\<close>

definition round_step :: "registry_event \<Rightarrow> RoundStatus option \<Rightarrow> RoundStatus option" where
  "round_step e s = (case event_status e of
      Some s' \<Rightarrow> Some s'
    | None \<Rightarrow> (case s of None \<Rightarrow> Some Open | Some s' \<Rightarrow> Some s'))"

definition tracker_inv :: "consensus_tracker \<Rightarrow> bool" where
  "tracker_inv t \<longleftrightarrow> omap_wf (rounds t) \<and> distinct (votedByMe t) \<and>
     (\<forall>(k, r) \<in> set (rounds t). tr_invoiceId r = k \<and> (tr_votedByThisNode r \<longleftrightarrow> k \<in> set (votedByMe t))) \<and>
     set (votedByMe t) \<subseteq> set (map fst (rounds t))"

section \<open>Lemmas\<close>

lemma elem_at_rnd_exp: "(case v of JArr xs \<Rightarrow> elem_at xs 0 | _ \<Rightarrow> v) = elem_at (asArray v) 0"
  by (cases v) (simp_all add: asArray_def elem_at_def)

lemma upsert_simps [simp]:
  "votedByMe (upsert now i s t) = votedByMe t"
  "paused (upsert now i s t) = paused t"
  "oraclePublicKey (upsert now i s t) = oraclePublicKey t"
  by (simp_all add: upsert_def)

lemma current_status_upsert [simp]:
  "current_status (upsert now i s t) k = (if k = i then Some s else current_status t k)"
  by (simp add: current_status_def upsert_def)

lemma current_status_new [simp]: "current_status (new_tracker key) k = None"
  by (simp add: current_status_def new_tracker_def)

lemma current_status_votedByMe [simp]: "current_status (t\<lparr>votedByMe := x\<rparr>) k = current_status t k"
  and current_status_paused [simp]: "current_status (t\<lparr>paused := p\<rparr>) k = current_status t k"
  by (simp_all add: current_status_def)

lemmas handler_defs = handleEvent_def handle_voted_def handle_verdict_def Let_def elem_at_rnd_exp

lemma track_key [simp]: "oraclePublicKey (track e t) = oraclePublicKey t"
  by (cases e) (simp add: track_def handler_defs)

lemma track_votedByMe:
  "votedByMe (track e t) =
     (if own_vote (oraclePublicKey t) e
      then oset_add (js_String (elem_at (asArray (fst (snd e))) 0)) (votedByMe t) else votedByMe t)"
  by (cases e) (simp add: track_def handler_defs own_vote_def)

lemma track_paused: "paused (track e t) = (case pause_write e of None \<Rightarrow> paused t | Some b \<Rightarrow> b)"
  by (cases e) (auto simp: track_def handler_defs pause_write_def)

lemma track_status:
  "current_status (track e t) k =
     (if event_round e = Some k then round_step e (current_status t k) else current_status t k)"
proof -
  obtain topic2 v now where e: "e = (topic2, v, now)" by (cases e) auto
  consider s where "topic2 = JStr s" "s \<in> set round_topics"
    | "\<forall>s \<in> set round_topics. topic2 \<noteq> JStr s" by blast
  then show ?thesis
  proof cases
    case 1
    then show ?thesis
      by (auto simp: e track_def handler_defs event_round_def event_status_def round_step_def
          round_topics_def split: option.splits)
  next
    case 2
    then show ?thesis
      by (cases topic2) (auto simp: e track_def handler_defs event_round_def round_topics_def)
  qed
qed

lemma own_vote_round:
  "own_vote key e \<Longrightarrow> event_round e = Some (js_String (elem_at (asArray (fst (snd e))) 0))"
  by (cases e) (auto simp: own_vote_def event_round_def round_topics_def)

text \<open>Replaying a history: each reading of the tracker is a fold over the events concerned.\<close>

lemma fold_track_key [simp]: "oraclePublicKey (fold track es t) = oraclePublicKey t"
  by (induction es arbitrary: t) auto

lemma fold_track_status:
  "current_status (fold track es t) k =
     fold round_step (filter (\<lambda>e. event_round e = Some k) es) (current_status t k)"
  by (induction es arbitrary: t) (auto simp: track_status)

lemma fold_track_votedByMe:
  "set (votedByMe (fold track es t)) =
     set (votedByMe t) \<union> {k. \<exists>e \<in> set es. own_vote (oraclePublicKey t) e \<and> event_round e = Some k}"
  by (induction es arbitrary: t) (auto simp: track_votedByMe own_vote_round)

interpretation pause: last_status "\<lambda>e b. case pause_write e of None \<Rightarrow> b | Some b' \<Rightarrow> b'" pause_write
  by unfold_locales simp

lemma fold_track_paused:
  "paused (fold track es t) = fold (\<lambda>e b. case pause_write e of None \<Rightarrow> b | Some b' \<Rightarrow> b') es (paused t)"
  by (induction es arbitrary: t) (auto simp: track_paused)

text \<open>The status of a round that some status event concerns is the last status written to it.\<close>

interpretation round: last_status "\<lambda>e s. case event_status e of None \<Rightarrow> s | Some s' \<Rightarrow> s'" event_status
  by unfold_locales simp

lemma fold_round_step_Some:
  "fold round_step es (Some s) = Some (fold (\<lambda>e s. case event_status e of None \<Rightarrow> s | Some s' \<Rightarrow> s') es s)"
  by (induction es arbitrary: s) (auto simp: round_step_def split: option.splits)

lemma fold_round_step:
  "es \<noteq> [] \<Longrightarrow> fold round_step es None =
     Some (fold (\<lambda>e s. case event_status e of None \<Rightarrow> s | Some s' \<Rightarrow> s') es Open)"
  by (cases es) (auto simp: round_step_def fold_round_step_Some split: option.splits)

text \<open>The invariant.\<close>

lemma in_omap_put: "omap_wf m \<Longrightarrow> (k', v') \<in> set (omap_put k v m) \<longleftrightarrow>
    (if k' = k then v' = v else (k', v') \<in> set m)"
  by (metis omap_get_Some_in omap_get_put omap_in_get omap_wf_put option.inject)

lemma tracker_inv_upsert:
  assumes "omap_wf (rounds t)" "distinct (votedByMe t)"
    and "\<forall>(k, r) \<in> set (rounds t). k \<noteq> i \<longrightarrow> tr_invoiceId r = k \<and> (tr_votedByThisNode r \<longleftrightarrow> k \<in> set (votedByMe t))"
    and "set (votedByMe t) \<subseteq> insert i (set (map fst (rounds t)))"
  shows "tracker_inv (upsert now i s t)"
  using assms
  by (auto simp: tracker_inv_def upsert_def in_omap_put omap_keys_put simp del: set_map split: if_splits)

lemma tracker_inv_track: "tracker_inv t \<Longrightarrow> tracker_inv (track e t)"
proof -
  assume inv: "tracker_inv t"
  obtain topic2 v now where e: "e = (topic2, v, now)" by (cases e) auto
  have up: "tracker_inv (upsert now i s t)" for i s
    using inv by (intro tracker_inv_upsert) (auto simp: tracker_inv_def)
  have vote: "tracker_inv (upsert now i s (t\<lparr>votedByMe := oset_add i (votedByMe t)\<rparr>))" for i s
    using inv by (intro tracker_inv_upsert) (auto simp: tracker_inv_def)
  show ?thesis
    using inv up vote
    by (simp add: e track_def handler_defs) (simp add: tracker_inv_def)
qed

lemma tracker_inv_new [simp, intro]: "tracker_inv (new_tracker key)"
  by (simp add: tracker_inv_def new_tracker_def)

lemma tracker_inv_fold: "tracker_inv t \<Longrightarrow> tracker_inv (fold track es t)"
  by (induction es arbitrary: t) (auto simp: tracker_inv_track)

lemma tracker_inv_markPaused: "tracker_inv t \<Longrightarrow> tracker_inv (markPaused t)"
  by (simp add: tracker_inv_def markPaused_def)

section \<open>Properties\<close>

text \<open>C4: The tracker's view of a round is a function of the registry's event history: a round is known
  exactly when some event concerned it; its status is the one the last status event wrote, whatever was
  seen before; and a round only known from votes counts as open.\<close>

theorem tracker_refines_history:
  fixes es key k
  defines "status \<equiv> current_status (fold track es (new_tracker key)) k"
  shows "(status = None \<longleftrightarrow> (\<forall>e \<in> set es. event_round e \<noteq> Some k)) \<and>
     (\<forall>es1 e es2 s. es = es1 @ e # es2 \<and> event_round e = Some k \<and> event_status e = Some s \<and>
        (\<forall>e' \<in> set es2. event_round e' = Some k \<longrightarrow> event_status e' = None) \<longrightarrow> status = Some s) \<and>
     ((\<exists>e \<in> set es. event_round e = Some k) \<and> (\<forall>e \<in> set es. event_round e = Some k \<longrightarrow> event_status e = None)
        \<longrightarrow> status = Some Open)"
proof -
  let ?own = "filter (\<lambda>e. event_round e = Some k)"
  have st: "status = fold round_step (?own es) None"
    by (simp add: status_def fold_track_status)
  have known: "status = Some (fold (\<lambda>e s. case event_status e of None \<Rightarrow> s | Some s' \<Rightarrow> s') (?own es) Open)"
    if "?own es \<noteq> []" using that st fold_round_step by simp
  have "status = None \<longleftrightarrow> ?own es = []" using st known by (metis fold_simps(1) option.distinct(1))
  then have A: "status = None \<longleftrightarrow> (\<forall>e \<in> set es. event_round e \<noteq> Some k)"
    by (simp add: filter_empty_conv)
  have B: "status = Some s"
    if "es = es1 @ e # es2" "event_round e = Some k" "event_status e = Some s"
      "\<forall>e' \<in> set es2. event_round e' = Some k \<longrightarrow> event_status e' = None" for es1 e es2 s
    using known round.fold_last_write [of e s "?own es2" "?own es1" Open] that by auto
  have C: "status = Some Open"
    if "\<exists>e \<in> set es. event_round e = Some k" "\<forall>e \<in> set es. event_round e = Some k \<longrightarrow> event_status e = None"
  proof -
    have "?own es \<noteq> []" using that(1) by (auto simp: filter_empty_conv)
    moreover have "\<forall>e \<in> set (?own es). event_status e = None" using that(2) by auto
    ultimately show ?thesis using known round.fold_no_write [of "?own es" Open] by simp
  qed
  show ?thesis using A B C by blast
qed

definition sample_history :: "registry_event list" where
  "sample_history = [(JStr ''rnd_open'', JArr [JStr ''7'', JNum (NInt 3)], 1),
     (JStr ''voted'', JArr [JStr ''7'', JStr ''GKEY''], 2), (JStr ''consensus'', JArr [JStr ''7'', JBool True], 3)]"

theorem tracker_refines_history_witness:
  "current_status (fold track sample_history (new_tracker ''GKEY'')) ''7'' = Some ConsensusApproved"
proof -
  have "sample_history = take 2 sample_history @ (JStr ''consensus'', JArr [JStr ''7'', JBool True], 3) # []"
    by (simp add: sample_history_def)
  moreover have "event_round (JStr ''consensus'', JArr [JStr ''7'', JBool True], 3) = Some ''7''"
    and "event_status (JStr ''consensus'', JArr [JStr ''7'', JBool True], 3) = Some ConsensusApproved"
    by (simp_all add: event_round_def event_status_def round_topics_def asArray_def elem_at_def)
  ultimately show ?thesis
    using tracker_refines_history [of sample_history "''GKEY''" "''7''"] by fastforce
qed

text \<open>After any history the tracker is well formed (every round is listed once under its own id, and
  marked as voted exactly when this node's vote was seen), it has voted on exactly the rounds for which
  the history has a vote signed by this node's key, and it is paused exactly when the last pause event is
  a pause.\<close>

theorem tracker_votes_and_pause:
  fixes es key
  defines "t \<equiv> fold track es (new_tracker key)"
  shows "tracker_inv t \<and> distinct (map tr_invoiceId (list_rounds t)) \<and>
     (\<forall>k. hasVoted t k \<longleftrightarrow> (\<exists>e \<in> set es. own_vote key e \<and> event_round e = Some k)) \<and>
     (isPaused t \<longleftrightarrow> (\<exists>es1 e es2. es = es1 @ e # es2 \<and> pause_write e = Some True \<and> (\<forall>e' \<in> set es2. pause_write e' = None)))"
proof -
  have inv: "tracker_inv t" unfolding t_def by (intro tracker_inv_fold tracker_inv_new)
  then have "map tr_invoiceId (list_rounds t) = map fst (rounds t)"
    by (auto simp: tracker_inv_def list_rounds_def)
  then have "distinct (map tr_invoiceId (list_rounds t))"
    using inv by (simp add: tracker_inv_def omap_wf_def)
  moreover have "hasVoted t k \<longleftrightarrow> (\<exists>e \<in> set es. own_vote key e \<and> event_round e = Some k)" for k
    by (simp add: t_def hasVoted_def fold_track_votedByMe new_tracker_def)
  moreover have "isPaused t \<longleftrightarrow> (\<exists>es1 e es2. es = es1 @ e # es2 \<and> pause_write e = Some True \<and> (\<forall>e' \<in> set es2. pause_write e' = None))"
    using pause.fold_eq_iff [of True False es] by (simp add: t_def isPaused_def fold_track_paused new_tracker_def)
  ultimately show ?thesis using inv by blast
qed

theorem tracker_votes_and_pause_witness:
  "hasVoted (fold track sample_history (new_tracker ''GKEY'')) ''7'' \<and>
   \<not> isPaused (fold track sample_history (new_tracker ''GKEY''))"
proof -
  have quiet: "\<forall>e \<in> set sample_history. pause_write e = None"
    by (simp add: sample_history_def pause_write_def)
  have "(JStr ''voted'', JArr [JStr ''7'', JStr ''GKEY''], 2) \<in> set sample_history"
    by (simp add: sample_history_def)
  moreover have "own_vote ''GKEY'' (JStr ''voted'', JArr [JStr ''7'', JStr ''GKEY''], 2)"
    and "event_round (JStr ''voted'', JArr [JStr ''7'', JStr ''GKEY''], 2) = Some ''7''"
    by (simp_all add: own_vote_def event_round_def round_topics_def asArray_def elem_at_def)
  moreover note tv = tracker_votes_and_pause [of sample_history "''GKEY''"]
  ultimately have "hasVoted (fold track sample_history (new_tracker ''GKEY'')) ''7''" by blast
  moreover have "\<not> isPaused (fold track sample_history (new_tracker ''GKEY''))"
  proof
    assume "isPaused (fold track sample_history (new_tracker ''GKEY''))"
    with tv obtain es1 e es2 where h: "sample_history = es1 @ e # es2" and w: "pause_write e = Some True" by blast
    from h have "e \<in> set sample_history" by (metis in_set_conv_decomp)
    with quiet have "pause_write e = None" by (rule bspec)
    with w show False by simp
  qed
  ultimately show ?thesis by blast
qed

end
