(* ===== verification/Sdk.thy ===== *)
theory Sdk
  imports Prelude
begin

text \<open>
  The transaction core of the SDK (\<open>packages/sdk/src\<close>): the typed contract errors of
  \<open>errors.ts\<close>, the build/simulate/sign/submit pipeline of \<open>clients/base.ts\<close>, the clients of the
  oracle registry and invoice contracts, and how \<open>astera-client.ts\<close> configures them.

  The Soroban RPC server and the transaction codec are third-party code: their answers are the
  record \<open>rpc_env\<close>, an argument of every operation.  Every request, and every \<open>onProgress\<close>
  notification, is an entry of the call history.
\<close>

section \<open>Contract errors\<close>

text \<open>\<open>/Error\\(Contract,\\s*#(\\d+)\\)/\<close> at the start of a string: the captured digits.\<close>

definition match_code_here :: "string \<Rightarrow> string option" where
  "match_code_here s =
     (if startsWith s ''Error(Contract,'' then
        (let r = dropWhile is_space (drop 15 s) in
         if startsWith r ''#'' then
           (let ds = takeWhile is_digit (drop 1 r) in
            if ds \<noteq> [] \<and> startsWith (drop (1 + length ds) r) '')'' then Some ds else None)
         else None)
      else None)"

fun match_code :: "string \<Rightarrow> string option" where
  "match_code [] = None"
| "match_code (c # cs) = (case match_code_here (c # cs) of Some ds \<Rightarrow> Some ds | None \<Rightarrow> match_code cs)"

definition parseContractError :: "(int \<times> string) list \<Rightarrow> string \<Rightarrow> jserror" where
  "parseContractError errors raw = (case match_code raw of
      None \<Rightarrow> ContractError raw None None
    | Some ds \<Rightarrow> (let code = int (digits_val ds) in ContractError raw (Some code) (map_of errors code)))"

definition OracleRegistryErrors :: "(int \<times> string) list" where
  "OracleRegistryErrors =
     [(0, ''AlreadyInitialized''), (1, ''NotInitialized''), (2, ''Unauthorized''),
      (3, ''ContractPaused''), (4, ''InvalidAmount''), (5, ''InsufficientStake''),
      (6, ''AlreadyRegistered''), (7, ''NotRegistered''), (8, ''DeregisterHasPendingVotes''),
      (9, ''DeregisterCooldownActive''), (10, ''InvalidBps''), (11, ''NoActiveOracles''),
      (12, ''RoundAlreadyOpen''), (13, ''RoundNotFound''), (14, ''RoundNotOpen''),
      (15, ''RoundExpired''), (16, ''RoundNotExpired''), (17, ''AlreadyVoted''),
      (18, ''InvoiceContractNotSet''), (19, ''InvoiceCallFailed''), (20, ''InvalidConfig'')]"

section \<open>The pipeline of BaseClient\<close>

text \<open>
  The arguments of a contract call: what \<open>new Address(x).toScVal()\<close>, \<open>nativeToScVal(x, {type})\<close> and the
  constructors \<open>scvVec\<close>, \<open>scvMap\<close> (with symbol keys) and \<open>scvVoid\<close> are applied to.
\<close>

datatype sc_arg =
    ScAddress string | ScU32 int | ScU64 int | ScI32 int | ScI64 int | ScI128 int | ScBool bool | ScString string | ScSymbol string
  | ScBytes "nat list" | ScVoid | ScVec "sc_arg list" | ScMap "(string \<times> sc_arg) list"

datatype sim_response = SimError string | SimSuccess js

datatype rpc_call =
    GetAccount string
  | SimulateTransaction string string string "sc_arg list"
  | SendTransaction string
  | GetTransaction string
  | Progress string string

record rpc_env =
  env_account :: "rpc_call \<Rightarrow> rpc_call list \<Rightarrow> unit result"
  env_simulate :: "rpc_call \<Rightarrow> rpc_call list \<Rightarrow> sim_response result"
  env_send :: "rpc_call \<Rightarrow> rpc_call list \<Rightarrow> (string \<times> string) result"
  env_status :: "rpc_call \<Rightarrow> rpc_call list \<Rightarrow> string result"
  env_assemble :: "string \<Rightarrow> string \<Rightarrow> sc_arg list \<Rightarrow> js \<Rightarrow> string"

record client_config =
  contractId :: string
  network :: string
  signer :: "(string \<Rightarrow> string result) option"
  errors :: "(int \<times> string) list"

definition resolveSigner :: "client_config \<Rightarrow> string \<Rightarrow> (rpc_call, string) io" where
  "resolveSigner cfg txXdr h = (case signer cfg of
      Some sign \<Rightarrow> (sign txXdr, h)
    | None \<Rightarrow> (Inl (GenericError ''No signer configured. Provide a signer or use a Keypair-based client.''), h))"

definition notify :: "bool \<Rightarrow> string \<Rightarrow> string \<Rightarrow> (rpc_call, unit) io" where
  "notify onProgress status hash h = (Inr (), if onProgress then h @ [Progress status hash] else h)"

function poll_status :: "rpc_env \<Rightarrow> string \<Rightarrow> int \<Rightarrow> string \<Rightarrow> (rpc_call, string) io" where
  "poll_status env hash waited status h =
     (if status = ''NOT_FOUND'' \<and> waited < 30000 then
        (case io_call (env_status env) (GetTransaction hash) h of
           (Inl e, h') \<Rightarrow> (Inl e, h')
         | (Inr status', h') \<Rightarrow> poll_status env hash (waited + 1000) status' h')
      else (Inr status, h))"
  by pat_completeness auto
termination
  by (relation "measure (\<lambda>(env, hash, waited, status, h). nat (30000 - waited))") auto

declare poll_status.simps [simp del]

definition submitTx :: "rpc_env \<Rightarrow> bool \<Rightarrow> string \<Rightarrow> (rpc_call, string) io" where
  "submitTx env onProgress signedXdr =
     io_bind (io_call (env_send env) (SendTransaction signedXdr)) (\<lambda>(status, hash).
       if status = ''PENDING'' \<or> status = ''DUPLICATE'' then
         io_bind (notify onProgress ''pending'' hash) (\<lambda>_.
         io_bind (io_call (env_status env) (GetTransaction hash)) (\<lambda>status0.
         io_bind (poll_status env hash 0 status0) (\<lambda>final.
         io_bind (notify onProgress (if final = ''SUCCESS'' then ''confirmed'' else ''failed'') hash) (\<lambda>_.
         io_return hash))))
       else io_throw (GenericError (''Transaction submission failed: '' @ status)))"

definition buildAndSendTx ::
  "rpc_env \<Rightarrow> client_config \<Rightarrow> string \<Rightarrow> string \<Rightarrow> sc_arg list \<Rightarrow> bool \<Rightarrow> (rpc_call, string) io" where
  "buildAndSendTx env cfg caller meth args onProgress =
     io_bind (io_call (env_account env) (GetAccount caller)) (\<lambda>_.
     io_bind (io_call (env_simulate env) (SimulateTransaction caller (contractId cfg) meth args)) (\<lambda>sim.
     (case sim of
        SimError e \<Rightarrow> io_throw (parseContractError (errors cfg) e)
      | SimSuccess retval \<Rightarrow>
          io_bind (resolveSigner cfg (env_assemble env caller meth args retval)) (\<lambda>signedXdr.
          submitTx env onProgress signedXdr))))"

definition SIMULATION_SOURCE :: string where
  "SIMULATION_SOURCE = ''GAAZI4TCR3TY5OJHCTJC2A4QSY6CJWJH5IAJTGKIN2ER7LBNVKOCCWN''"

definition simulateTx :: "rpc_env \<Rightarrow> string \<Rightarrow> string \<Rightarrow> sc_arg list \<Rightarrow> string \<Rightarrow> (rpc_call, sim_response) io" where
  "simulateTx env contract meth args sourceAddress =
     io_bind (io_call (env_account env) (GetAccount sourceAddress)) (\<lambda>_.
     io_call (env_simulate env) (SimulateTransaction sourceAddress contract meth args))"

definition simulate :: "rpc_env \<Rightarrow> client_config \<Rightarrow> string \<Rightarrow> sc_arg list \<Rightarrow> (rpc_call, js) io" where
  "simulate env cfg meth args =
     io_bind (simulateTx env (contractId cfg) meth args SIMULATION_SOURCE) (\<lambda>sim.
     (case sim of
        SimError e \<Rightarrow> io_throw (parseContractError (errors cfg) e)
      | SimSuccess retval \<Rightarrow> io_return retval))"

section \<open>The oracle registry client\<close>

definition openRound :: "rpc_env \<Rightarrow> client_config \<Rightarrow> string \<Rightarrow> int \<Rightarrow> string \<Rightarrow> bool \<Rightarrow> (rpc_call, string) io" where
  "openRound env cfg caller invoiceId oracleHash onProgress =
     buildAndSendTx env cfg caller ''open_verification_round''
       [ScAddress caller, ScU64 invoiceId, ScString oracleHash] onProgress"

definition register :: "rpc_env \<Rightarrow> client_config \<Rightarrow> string \<Rightarrow> int \<Rightarrow> bool \<Rightarrow> (rpc_call, string) io" where
  "register env cfg operator stakeAmount onProgress =
     buildAndSendTx env cfg operator ''register_oracle'' [ScAddress operator, ScI128 stakeAmount] onProgress"

definition vote :: "rpc_env \<Rightarrow> client_config \<Rightarrow> string \<Rightarrow> int \<Rightarrow> bool \<Rightarrow> string \<Rightarrow> bool \<Rightarrow> (rpc_call, string) io" where
  "vote env cfg oracle invoiceId approved evidenceHash onProgress =
     buildAndSendTx env cfg oracle ''submit_vote''
       [ScAddress oracle, ScU64 invoiceId, ScBool approved, ScString evidenceHash] onProgress"

definition verifyInvoice_tx ::
  "rpc_env \<Rightarrow> client_config \<Rightarrow> string \<Rightarrow> int \<Rightarrow> bool \<Rightarrow> string \<Rightarrow> string \<Rightarrow> bool \<Rightarrow> (rpc_call, string) io" where
  "verifyInvoice_tx env cfg oracle invoiceId approved reason oracleHash onProgress =
     buildAndSendTx env cfg oracle ''verify_invoice''
       [ScU64 invoiceId, ScAddress oracle, ScBool approved, ScString reason, ScString oracleHash] onProgress"

record VerificationRound =
  vr_invoiceId :: int
  vr_requiredVotes :: jnum
  vr_totalRegisteredOracles :: jnum
  vr_weightFor :: int
  vr_weightAgainst :: int
  vr_totalStakeSnapshot :: int
  vr_quorumBps :: jnum
  vr_status :: js
  vr_openedAt :: jnum
  vr_deadline :: jnum
  vr_oracleHash :: js

definition decode_round :: "js \<Rightarrow> VerificationRound option result" where
  "decode_round raw =
     (if \<not> js_truthy raw then Inr None
      else (case (to_BigInt (js_prop raw ''invoice_id''), to_BigInt (js_prop raw ''weight_for''),
                  to_BigInt (js_prop raw ''weight_against''), to_BigInt (js_prop raw ''total_stake_snapshot'')) of
          (Inr i, Inr wFor, Inr wAgainst, Inr ts) \<Rightarrow> Inr (Some
            \<lparr>vr_invoiceId = i, vr_requiredVotes = js_Number (js_prop raw ''required_votes''),
             vr_totalRegisteredOracles = js_Number (js_prop raw ''total_registered_oracles''),
             vr_weightFor = wFor, vr_weightAgainst = wAgainst, vr_totalStakeSnapshot = ts,
             vr_quorumBps = js_Number (js_prop raw ''quorum_bps''), vr_status = js_prop raw ''status'',
             vr_openedAt = js_Number (js_prop raw ''opened_at''), vr_deadline = js_Number (js_prop raw ''deadline''),
             vr_oracleHash = js_prop raw ''oracle_hash''\<rparr>)
        | (Inl e, _, _, _) \<Rightarrow> Inl e
        | (Inr _, Inl e, _, _) \<Rightarrow> Inl e
        | (Inr _, Inr _, Inl e, _) \<Rightarrow> Inl e
        | (Inr _, Inr _, Inr _, Inl e) \<Rightarrow> Inl e))"

definition getRound :: "rpc_env \<Rightarrow> client_config \<Rightarrow> int \<Rightarrow> (rpc_call, VerificationRound option) io" where
  "getRound env cfg invoiceId =
     io_bind (simulate env cfg ''get_verification_round'' [ScU64 invoiceId]) (\<lambda>raw h. (decode_round raw, h))"

record OracleInfo =
  oi_address :: js
  oi_stakeAmount :: int
  oi_stakeToken :: js
  oi_isActive :: bool
  oi_totalVerifications :: jnum
  oi_totalSlashes :: jnum
  oi_registeredAt :: jnum
  oi_deregisterRequestedAt :: "jnum option"

definition decode_oracle_info :: "js \<Rightarrow> OracleInfo option result" where
  "decode_oracle_info raw =
     (if \<not> js_truthy raw then Inr None
      else (case to_BigInt (js_prop raw ''stake_amount'') of
          Inl e \<Rightarrow> Inl e
        | Inr stake \<Rightarrow> Inr (Some
            \<lparr>oi_address = js_prop raw ''address'', oi_stakeAmount = stake,
             oi_stakeToken = js_prop raw ''stake_token'', oi_isActive = js_truthy (js_prop raw ''is_active''),
             oi_totalVerifications = js_Number (js_prop raw ''total_verifications''),
             oi_totalSlashes = js_Number (js_prop raw ''total_slashes''),
             oi_registeredAt = js_Number (js_prop raw ''registered_at''),
             oi_deregisterRequestedAt =
               (if is_nullish (js_prop raw ''deregister_requested_at'') then None
                else Some (js_Number (js_prop raw ''deregister_requested_at'')))\<rparr>)))"

definition getOracleInfo :: "rpc_env \<Rightarrow> client_config \<Rightarrow> string \<Rightarrow> (rpc_call, OracleInfo option) io" where
  "getOracleInfo env cfg operator =
     io_bind (simulate env cfg ''get_oracle_info'' [ScAddress operator]) (\<lambda>raw h. (decode_oracle_info raw, h))"

record RegistryConfig =
  rc_minStake :: int
  rc_stakeToken :: js
  rc_requiredVotes :: jnum
  rc_quorumBps :: jnum
  rc_roundDurationSecs :: jnum
  rc_deregisterCooldownSecs :: jnum
  rc_treasury :: js

definition decode_registry_config :: "js \<Rightarrow> RegistryConfig result" where
  "decode_registry_config raw =
     (if is_nullish raw then Inl (TypeError ''Cannot read properties of null'')
      else (case to_BigInt (js_prop raw ''min_stake'') of
          Inl e \<Rightarrow> Inl e
        | Inr m \<Rightarrow> Inr
            \<lparr>rc_minStake = m, rc_stakeToken = js_prop raw ''stake_token'',
             rc_requiredVotes = js_Number (js_prop raw ''required_votes''),
             rc_quorumBps = js_Number (js_prop raw ''quorum_bps''),
             rc_roundDurationSecs = js_Number (js_prop raw ''round_duration_secs''),
             rc_deregisterCooldownSecs = js_Number (js_prop raw ''deregister_cooldown_secs''),
             rc_treasury = js_coalesce (js_prop raw ''treasury'') JUndefined\<rparr>))"

definition getRegistryConfig :: "rpc_env \<Rightarrow> client_config \<Rightarrow> (rpc_call, RegistryConfig) io" where
  "getRegistryConfig env cfg =
     io_bind (simulate env cfg ''get_registry_config'' []) (\<lambda>raw h. (decode_registry_config raw, h))"

section \<open>Lemmas\<close>

lemma io_extends_poll_status: "io_extends (poll_status env hash waited status)"
  unfolding io_extends_def
proof
  fix h
  show "\<exists>cs. snd (poll_status env hash waited status h) = h @ cs"
    by (induction env hash waited status h rule: poll_status.induct)
      (subst poll_status.simps, auto split: sum.splits)
qed

text \<open>The status poll asks at most once per elapsed second of its thirty-second budget.\<close>

lemma poll_status_calls:
  "waited \<ge> 0 \<Longrightarrow> \<exists>n. snd (poll_status env hash waited status h) = h @ replicate n (GetTransaction hash) \<and>
     1000 * int n \<le> max 0 (30999 - waited)"
proof (induction env hash waited status h rule: poll_status.induct)
  case (1 env hash waited status h)
  show ?case
  proof (cases "status = ''NOT_FOUND'' \<and> waited < 30000")
    case False
    then show ?thesis by (subst poll_status.simps) (auto intro: exI [of _ 0])
  next
    case True
    show ?thesis
    proof (cases "env_status env (GetTransaction hash) h")
      case (Inl e)
      with True show ?thesis
        by (subst poll_status.simps) (auto intro!: exI [of _ "Suc 0"])
    next
      case (Inr status')
      have "\<exists>n. snd (poll_status env hash (waited + 1000) status' (h @ [GetTransaction hash])) =
          (h @ [GetTransaction hash]) @ replicate n (GetTransaction hash) \<and>
          1000 * int n \<le> max 0 (30999 - (waited + 1000))"
        using 1 True Inr by auto
      then obtain n where n: "snd (poll_status env hash (waited + 1000) status' (h @ [GetTransaction hash])) =
          h @ replicate (Suc n) (GetTransaction hash)" "1000 * int n \<le> max 0 (29999 - waited)"
        by auto
      from True Inr n(1) have "snd (poll_status env hash waited status h) = h @ replicate (Suc n) (GetTransaction hash)"
        by (subst poll_status.simps) simp
      moreover have "1000 * int (Suc n) \<le> max 0 (30999 - waited)"
        using n(2) True by auto
      ultimately show ?thesis by blast
    qed
  qed
qed

lemma match_code_here_code:
  "match_code_here (''Error(Contract, #'' @ show_nat n @ '')'' @ post) = Some (show_nat n)"
proof -
  have tw: "takeWhile is_digit (show_nat n @ '')'' @ post) = show_nat n"
    using list_all_is_digit_show_nat [of n]
    by (subst takeWhile_append2) (auto simp: list_all_iff is_digit_def)
  show ?thesis
    by (simp add: match_code_here_def is_space_def tw [simplified])
qed

lemma match_code_append:
  "match_code_here s = Some ds \<Longrightarrow> s \<noteq> [] \<Longrightarrow> match_code s = Some ds"
  by (cases s) simp_all

lemma buildAndSendTx_no_signer:
  assumes "signer cfg = None"
  shows "\<exists>e cs. buildAndSendTx env cfg caller meth args p h = (Inl e, h @ cs) \<and>
     (\<forall>x. SendTransaction x \<notin> set cs)"
proof -
  have "\<exists>e cs. buildAndSendTx env cfg caller meth args p h = (Inl e, h @ cs) \<and> set cs \<subseteq>
      {GetAccount caller, SimulateTransaction caller (contractId cfg) meth args}"
    using assms
    by (auto simp: buildAndSendTx_def io_bind_def resolveSigner_def split: sum.splits sim_response.splits)
  then show ?thesis by blast
qed

lemma match_code_skip:
  "(\<And>s. suffix s pre \<Longrightarrow> s \<noteq> [] \<Longrightarrow> match_code_here (s @ body) = None) \<Longrightarrow> match_code (pre @ body) = match_code body"
proof (induction pre)
  case (Cons c pre)
  from Cons.prems [of "c # pre"] have "match_code_here (c # pre @ body) = None" by simp
  moreover have "match_code (pre @ body) = match_code body"
    using Cons.prems by (intro Cons.IH) (auto simp: suffix_ConsI)
  ultimately show ?case by simp
qed simp

text \<open>The marker the Soroban host puts into the message of a contract error.\<close>

definition error_marker :: "nat \<Rightarrow> string" where
  "error_marker n = ''Error(Contract, #'' @ show_nat n @ '')''"

lemma match_code_marker: "match_code (error_marker n @ post) = Some (show_nat n)"
  by (rule match_code_append) (use match_code_here_code [of n post] in \<open>simp_all add: error_marker_def\<close>)

section \<open>Properties\<close>

text \<open>C16: Reading a contract error back: when the first error marker of a simulation error is
  \<open>Error(Contract, #n)\<close>, \<open>parseContractError\<close> yields the code \<open>n\<close> and the variant the contract's table
  gives it, whatever text surrounds the marker.\<close>

theorem parseContractError_roundtrip:
  assumes "\<And>s. suffix s pre \<Longrightarrow> s \<noteq> [] \<Longrightarrow> match_code_here (s @ error_marker n @ post) = None"
  shows "parseContractError errs (pre @ error_marker n @ post) =
     ContractError (pre @ error_marker n @ post) (Some (int n)) (map_of errs (int n))"
  using match_code_skip [OF assms] match_code_marker [of n post] by (simp add: parseContractError_def Let_def)

theorem parseContractError_roundtrip_witness:
  "parseContractError OracleRegistryErrors (''Host: '' @ error_marker 17 @ '' at'') =
     ContractError (''Host: '' @ error_marker 17 @ '' at'') (Some 17) (Some ''AlreadyVoted'')"
proof -
  have none: "match_code_here (s @ error_marker 17 @ '' at'') = None"
    if "suffix s ''Host: ''" "s \<noteq> []" for s
    using that by (auto simp: suffix_Cons match_code_here_def)
  have "map_of OracleRegistryErrors (int 17) = Some ''AlreadyVoted''"
    by (simp add: OracleRegistryErrors_def)
  then show ?thesis
    using parseContractError_roundtrip [of "''Host: ''" 17 "'' at''" OracleRegistryErrors] none by (simp del: append.simps)
qed

text \<open>A submission that reached the network is polled a bounded number of times: after the one send
  there are at most 31 status requests for the returned hash and nothing else, and the operation
  returns that hash or an error in every case.\<close>

theorem submitTx_bounded:
  "\<exists>n \<le> 31. \<exists>hash. snd (submitTx env False x h) = h @ SendTransaction x # replicate n (GetTransaction hash)"
proof (cases "env_send env (SendTransaction x) h")
  case (Inl e)
  then show ?thesis by (auto simp: submitTx_def io_bind_def intro!: exI [of _ 0])
next
  case (Inr r)
  obtain status hash where r: "r = (status, hash)" by fastforce
  let ?h1 = "h @ [SendTransaction x]"
  let ?h2 = "?h1 @ [GetTransaction hash]"
  show ?thesis
  proof (cases "status = ''PENDING'' \<or> status = ''DUPLICATE''")
    case False
    with Inr r show ?thesis by (auto simp: submitTx_def io_bind_def io_throw_def intro!: exI [of _ 0])
  next
    case pending: True
    show ?thesis
    proof (cases "env_status env (GetTransaction hash) ?h1")
      case (Inl e)
      with Inr r pending show ?thesis
        by (auto simp: submitTx_def io_bind_def notify_def intro!: exI [of _ 1] exI [of _ hash])
    next
      case st: (Inr s0)
      obtain n where n: "snd (poll_status env hash 0 s0 ?h2) = ?h2 @ replicate n (GetTransaction hash)" "n \<le> 30"
        using poll_status_calls [of 0 env hash s0 ?h2] by auto
      have "snd (submitTx env False x h) = snd (poll_status env hash 0 s0 ?h2)"
        using Inr r pending st
        by (auto simp: submitTx_def io_bind_def notify_def split: sum.splits prod.splits)
      then show ?thesis using n by (intro exI [of _ "Suc n"] conjI exI [of _ hash]) auto
    qed
  qed
qed

end
