(* ===== verification/Verifier.thy ===== *)
theory Verifier
  imports Retry Consensus Sdk
begin

text \<open>
  The verifier of the oracle service (\<open>oracle-service/src/verifier.ts\<close>).

  \<^item> \<open>VerificationQueue\<close> as a state machine: its synchronous segments (\<open>enqueue\<close> up to the first
    await, the \<open>finally\<close> block, the \<open>setImmediate\<close> callback) are functions, and \<open>vq_step\<close>
    interleaves them in any order the event loop may choose.
  \<^item> \<open>performVerification\<close> and \<open>submitVerdict\<close> as computations over the history of client calls; the
    answers of the SDK client are the argument \<open>client_env\<close>.
\<close>

section \<open>The verification queue\<close>

record vqueue =
  queue :: "int list"
  running :: int
  maxConcurrency :: int

definition new_queue :: "int \<Rightarrow> vqueue" where
  "new_queue n = \<lparr>queue = [], running = 0, maxConcurrency = n\<rparr>"

text \<open>The part of \<open>process\<close> before the handler runs: the job it starts, if any.\<close>

definition process_start :: "vqueue \<Rightarrow> vqueue \<times> int option" where
  "process_start q =
     (if running q \<ge> maxConcurrency q \<or> length (queue q) = 0 then (q, None)
      else (q\<lparr>running := running q + 1, queue := tl (queue q)\<rparr>, Some (hd (queue q))))"

definition enqueue :: "int \<Rightarrow> vqueue \<Rightarrow> vqueue \<times> int option" where
  "enqueue invoiceId q = process_start (q\<lparr>queue := queue q @ [invoiceId]\<rparr>)"

text \<open>The verifier's own queue, and how it hands over an invoice.\<close>

definition verificationQueue :: vqueue where
  "verificationQueue = new_queue 3"

definition verifyInvoice :: "int \<Rightarrow> vqueue \<Rightarrow> vqueue \<times> int option" where
  "verifyInvoice invoiceId q = enqueue invoiceId q"

text \<open>The \<open>finally\<close> block: the new state and whether \<open>setImmediate\<close> schedules another \<open>process\<close>.\<close>

definition process_finally :: "vqueue \<Rightarrow> vqueue \<times> bool" where
  "process_finally q = (let q' = q\<lparr>running := running q - 1\<rparr> in (q', length (queue q') > 0))"

text \<open>
  The machine: the queue object, the handlers in flight, the pending \<open>setImmediate\<close> callbacks, and
  two histories, the jobs handed to \<open>enqueue\<close> and the jobs whose handler was started.
\<close>

record vq_state =
  vq :: vqueue
  inflight :: "int list"
  immediates :: nat
  enqueued :: "int list"
  started :: "int list"

definition vq_init :: "int \<Rightarrow> vq_state" where
  "vq_init n = \<lparr>vq = new_queue n, inflight = [], immediates = 0, enqueued = [], started = []\<rparr>"

definition launch :: "vqueue \<times> int option \<Rightarrow> vq_state \<Rightarrow> vq_state" where
  "launch r s = (case r of
      (q, None) \<Rightarrow> s\<lparr>vq := q\<rparr>
    | (q, Some i) \<Rightarrow> s\<lparr>vq := q, inflight := i # inflight s, started := started s @ [i]\<rparr>)"

datatype vq_event = Enqueue int | Finish int | Immediate

inductive vq_step :: "vq_state \<Rightarrow> vq_event \<Rightarrow> vq_state \<Rightarrow> bool" where
  enqueue: "vq_step s (Enqueue i) (launch (enqueue i (vq s)) (s\<lparr>enqueued := enqueued s @ [i]\<rparr>))"
| finish: "i \<in> set (inflight s) \<Longrightarrow> process_finally (vq s) = (q, again) \<Longrightarrow>
     vq_step s (Finish i) (s\<lparr>vq := q, inflight := remove1 i (inflight s),
       immediates := immediates s + (if again then 1 else 0)\<rparr>)"
| immediate: "immediates s > 0 \<Longrightarrow>
     vq_step s Immediate (launch (process_start (vq s)) (s\<lparr>immediates := immediates s - 1\<rparr>))"

inductive_cases vq_stepE: "vq_step s e t"

inductive vq_reach :: "int \<Rightarrow> vq_state \<Rightarrow> bool" for n where
  reach_init: "vq_reach n (vq_init n)"
| reach_step: "vq_reach n s \<Longrightarrow> vq_step s e t \<Longrightarrow> vq_reach n t"

definition vq_inv :: "int \<Rightarrow> vq_state \<Rightarrow> bool" where
  "vq_inv n s \<longleftrightarrow> maxConcurrency (vq s) = n \<and> running (vq s) = int (length (inflight s)) \<and>
     running (vq s) \<le> n \<and> enqueued s = started s @ queue (vq s) \<and>
     (queue (vq s) \<noteq> [] \<longrightarrow> running (vq s) + int (immediates s) \<ge> n)"

text \<open>Work left: decreases with every step that is not a new \<open>enqueue\<close>.\<close>

definition vq_work :: "vq_state \<Rightarrow> nat" where
  "vq_work s = 3 * length (queue (vq s)) + 2 * length (inflight s) + immediates s"

inductive vq_drains :: "vq_state \<Rightarrow> nat \<Rightarrow> vq_state \<Rightarrow> bool" where
  drains_nothing: "vq_drains s 0 s"
| drains_step: "vq_step s e t \<Longrightarrow> (\<forall>i. e \<noteq> Enqueue i) \<Longrightarrow> vq_drains t k u \<Longrightarrow> vq_drains s (Suc k) u"

lemmas queue_defs = enqueue_def process_start_def process_finally_def launch_def Let_def

lemma vq_inv_init: "0 \<le> n \<Longrightarrow> vq_inv n (vq_init n)"
  by (simp add: vq_inv_def vq_init_def new_queue_def)

lemma vq_inv_step:
  assumes "vq_step s e t" "vq_inv n s"
  shows "vq_inv n t"
  using assms
proof (cases rule: vq_step.cases)
  case (enqueue i)
  with assms(2) show ?thesis
    by (cases "queue (vq s)") (auto simp: vq_inv_def queue_defs)
next
  case (finish i q again)
  then obtain m where "length (inflight s) = Suc m" by (cases "inflight s") auto
  with finish assms(2) show ?thesis
    by (auto simp: vq_inv_def queue_defs length_remove1)
next
  case immediate
  with assms(2) show ?thesis
    by (cases "queue (vq s)") (auto simp: vq_inv_def queue_defs of_nat_diff)
qed

lemma vq_reach_inv: "vq_reach n s \<Longrightarrow> 0 \<le> n \<Longrightarrow> vq_inv n s"
  by (induction rule: vq_reach.induct) (auto simp: vq_inv_init vq_inv_step)

lemma vq_step_work:
  assumes "vq_step s e t" "\<forall>i. e \<noteq> Enqueue i"
  shows "vq_work t < vq_work s"
  using assms
proof (cases rule: vq_step.cases)
  case (finish i q again)
  then obtain m where "length (inflight s) = Suc m" by (cases "inflight s") auto
  with finish show ?thesis by (auto simp: vq_work_def queue_defs length_remove1)
next
  case immediate
  then show ?thesis
    by (cases "queue (vq s)") (auto simp: vq_work_def queue_defs)
qed auto

lemma vq_drains_bound: "vq_drains s k t \<Longrightarrow> k + vq_work t \<le> vq_work s"
  by (induction rule: vq_drains.induct) (auto dest: vq_step_work)

lemma vq_drains_reach: "vq_drains s k t \<Longrightarrow> vq_reach n s \<Longrightarrow> vq_reach n t"
  by (induction rule: vq_drains.induct) (auto intro: vq_reach.reach_step)

lemma vq_enabled:
  assumes "inflight s \<noteq> [] \<or> immediates s > 0"
  shows "\<exists>e t. vq_step s e t \<and> (\<forall>i. e \<noteq> Enqueue i)"
proof (cases "immediates s > 0")
  case True
  then show ?thesis using vq_step.immediate by blast
next
  case False
  with assms obtain i where "i \<in> set (inflight s)" by (cases "inflight s") auto
  moreover obtain q again where "process_finally (vq s) = (q, again)" by fastforce
  ultimately show ?thesis using vq_step.finish by blast
qed

text \<open>A state with no handler in flight and no callback pending has an empty queue.\<close>

lemma vq_quiescent: "vq_inv n s \<Longrightarrow> 0 < n \<Longrightarrow> inflight s = [] \<Longrightarrow> immediates s = 0 \<Longrightarrow> queue (vq s) = []"
  by (auto simp: vq_inv_def)

section \<open>Submitting a verdict\<close>

datatype client_call =
    InvoiceGet int
  | InvoiceVerify int bool string string
  | RoundGet int
  | RoundOpen int string
  | RoundVote int bool string

record invoice_view =
  metadata_uri :: "string option"
  verification_hash :: "string option"

record client_env =
  ce_invoice :: "client_call \<Rightarrow> client_call list \<Rightarrow> invoice_view result"
  ce_round :: "client_call \<Rightarrow> client_call list \<Rightarrow> js option result"
  ce_tx :: "client_call \<Rightarrow> client_call list \<Rightarrow> string result"

definition CONTRACT_PAUSED_CODE :: "string option" where
  "CONTRACT_PAUSED_CODE =
     map_option (\<lambda>e. show_int (fst e)) (find (\<lambda>e. snd e = ''ContractPaused'') OracleRegistryErrors)"

definition isRegistryPausedError :: "thrown \<Rightarrow> bool" where
  "isRegistryPausedError error = (case CONTRACT_PAUSED_CODE of
      None \<Rightarrow> False
    | Some code \<Rightarrow> str_includes (thrown_message error) (''Error(Contract, #'' @ code @ '')''))"

fun lift_thrown :: "'a result \<Rightarrow> thrown + 'a" where
  "lift_thrown (Inl e) = Inl (TError e)"
| "lift_thrown (Inr x) = Inr x"

text \<open>\<open>retryWithBackoff(() => call, ...)\<close> with the default options; the jitter is an argument.\<close>

definition retry_call ::
  "(int \<Rightarrow> rat) \<Rightarrow> (client_call \<Rightarrow> client_call list \<Rightarrow> 'a result) \<Rightarrow> client_call \<Rightarrow> client_call list
    \<Rightarrow> (thrown + 'a) \<times> client_call list" where
  "retry_call rnd env c h =
     (case retryWithBackoff rnd (\<lambda>h. (lift_thrown (env c h), h @ [c])) no_options h of
        (Inr x, h', _) \<Rightarrow> (Inr x, h')
      | (Inl (Some e), h', _) \<Rightarrow> (Inl (TError e), h')
      | (Inl None, h', _) \<Rightarrow> (Inl (TValue JNull), h'))"

definition markPaused_opt :: "consensus_tracker option \<Rightarrow> consensus_tracker option" where
  "markPaused_opt t = map_option markPaused t"

type_synonym verdict_result = "(thrown + unit) \<times> consensus_tracker option \<times> client_call list"

definition cast_vote ::
  "(int \<Rightarrow> rat) \<Rightarrow> client_env \<Rightarrow> int \<Rightarrow> bool \<Rightarrow> string \<Rightarrow> consensus_tracker option \<Rightarrow> client_call list \<Rightarrow> verdict_result" where
  "cast_vote rnd env invoiceId approved oracleHash t h =
     (case retry_call rnd (ce_tx env) (RoundVote invoiceId approved oracleHash) h of
        (Inr txHash, h') \<Rightarrow> (Inr (), t, h')
      | (Inl voteError, h') \<Rightarrow>
          if isRegistryPausedError voteError then (Inr (), markPaused_opt t, h')
          else (Inl voteError, t, h'))"

definition round_is_open :: "js option result \<Rightarrow> bool" where
  "round_is_open r = (case r of Inr (Some status) \<Rightarrow> status = JStr ''Open'' | _ \<Rightarrow> False)"

definition submitVerdict ::
  "(int \<Rightarrow> rat) \<Rightarrow> client_env \<Rightarrow> bool \<Rightarrow> int \<Rightarrow> bool \<Rightarrow> string \<Rightarrow> string \<Rightarrow> consensus_tracker option \<Rightarrow> client_call list
    \<Rightarrow> verdict_result" where
  "submitVerdict rnd env useConsensus invoiceId approved reason oracleHash t h =
     (if \<not> useConsensus then
        (case retry_call rnd (ce_tx env) (InvoiceVerify invoiceId approved reason oracleHash) h of
           (Inr txHash, h') \<Rightarrow> (Inr (), t, h')
         | (Inl e, h') \<Rightarrow> (Inl e, t, h'))
      else if (case t of None \<Rightarrow> False | Some tr \<Rightarrow> isPaused tr) then (Inr (), t, h)
      else
        (let existingRound = ce_round env (RoundGet invoiceId) h; h1 = h @ [RoundGet invoiceId] in
         if round_is_open existingRound then cast_vote rnd env invoiceId approved oracleHash t h1
         else (case retry_call rnd (ce_tx env) (RoundOpen invoiceId oracleHash) h1 of
             (Inr _, h2) \<Rightarrow> cast_vote rnd env invoiceId approved oracleHash t h2
           | (Inl openError, h2) \<Rightarrow>
               if isRegistryPausedError openError then (Inr (), markPaused_opt t, h2)
               else cast_vote rnd env invoiceId approved oracleHash t h2)))"

definition verifyDocument :: "string \<Rightarrow> string option \<Rightarrow> bool result" where
  "verifyDocument uri expectedHash =
     (if uri = [] then Inl (GenericError ''Document URI is empty'') else Inr True)"

text \<open>\<open>performVerification\<close> never throws: the outer handler logs whatever a step raised.\<close>

definition performVerification ::
  "(int \<Rightarrow> rat) \<Rightarrow> client_env \<Rightarrow> bool \<Rightarrow> int \<Rightarrow> consensus_tracker option \<Rightarrow> client_call list
    \<Rightarrow> consensus_tracker option \<times> client_call list" where
  "performVerification rnd env useConsensus invoiceId t h =
     (case retry_call rnd (ce_invoice env) (InvoiceGet invoiceId) h of
        (Inl e, h1) \<Rightarrow> (t, h1)
      | (Inr invoice, h1) \<Rightarrow>
          (let hash = (case verification_hash invoice of Some s \<Rightarrow> s | None \<Rightarrow> '''');
               uri = (case metadata_uri invoice of Some s \<Rightarrow> s | None \<Rightarrow> '''');
               doc = (if uri = [] then Inr True
                      else (case verifyDocument uri (verification_hash invoice) of
                              Inl e \<Rightarrow> Inl e
                            | Inr ok \<Rightarrow> if ok then Inr True
                                else Inl (GenericError ''Document verification failed: hash mismatch'')))
           in (case doc of
                 Inl docError \<Rightarrow>
                   snd (submitVerdict rnd env useConsensus invoiceId False (error_string docError) hash t h1)
               | Inr _ \<Rightarrow>
                   snd (submitVerdict rnd env useConsensus invoiceId True
                     ''Auto-verified by Reference Oracle Service'' hash t h1))))"

section \<open>Lemmas on verdicts\<close>

lemma nth_world_log: "nth_world (\<lambda>h. (f h, h @ [c])) h k = h @ replicate k c"
  by (induction k arbitrary: h) (simp_all add: replicate_append_same [symmetric])

text \<open>A retried call is made at most three times, and nothing else is called.\<close>

lemma retry_call_history:
  "\<exists>k \<in> {1..3}. snd (retry_call rnd env c h) = h @ replicate k c"
proof -
  let ?fn = "\<lambda>h. (lift_thrown (env c h), h @ [c])"
  have "maxAttempts (merge_options no_options) - 1 = int 2"
    by (simp add: merge_options_def no_options_def DEFAULT_OPTIONS_def)
  from retry_loop_settles [OF this, of ?fn h rnd None "[]"]
  obtain k where k: "settles ?fn h (Suc 2) k"
    "retryWithBackoff rnd ?fn no_options h =
       (settled (nth_outcome ?fn h k), nth_world ?fn h (Suc k),
        [] @ map (\<lambda>j. jitter (rnd (1 + int j)) (exponentialDelay (merge_options no_options) (1 + int j))) [0..<k])"
    unfolding retryWithBackoff_def by blast
  from k(1) have "Suc k \<in> {1..3}" by (simp add: settles_def)
  moreover have "snd (retry_call rnd env c h) = h @ replicate (Suc k) c"
    unfolding retry_call_def k(2)
    by (cases "nth_outcome ?fn h k") (simp_all only: settled.simps nth_world_log prod.case sum.case option.case snd_conv)
  ultimately show ?thesis by blast
qed

lemma cast_vote_history:
  "\<exists>b \<in> {1..3}. snd (snd (cast_vote rnd env i v hash t h)) = h @ replicate b (RoundVote i v hash)"
  using retry_call_history [of rnd "ce_tx env" "RoundVote i v hash" h]
  by (auto simp: cast_vote_def split: prod.splits sum.splits)

lemma cast_vote_paused:
  "fst (snd (cast_vote rnd env i v hash t h)) = t \<or> fst (snd (cast_vote rnd env i v hash t h)) = markPaused_opt t"
  by (auto simp: cast_vote_def split: prod.splits sum.splits)

lemma show_three: "show_int 3 = ''3''"
  by code_simp

lemma CONTRACT_PAUSED_CODE_eq: "CONTRACT_PAUSED_CODE = Some ''3''"
  by code_simp

lemma vq_drains_enqueued: "vq_drains s k t \<Longrightarrow> enqueued t = enqueued s"
proof (induction rule: vq_drains.induct)
  case (drains_step s e t k u)
  from drains_step(1,2) have "enqueued t = enqueued s"
    by (cases rule: vq_step.cases) (auto simp: launch_def split: option.splits prod.splits)
  with drains_step show ?case by simp
qed simp

lemma vq_drains_exists: "\<exists>k t. vq_drains s k t \<and> inflight t = [] \<and> immediates t = 0"
proof (induction "vq_work s" arbitrary: s rule: less_induct)
  case less
  show ?case
  proof (cases "inflight s = [] \<and> immediates s = 0")
    case True
    then show ?thesis using vq_drains.drains_nothing by blast
  next
    case False
    then obtain e t where st: "vq_step s e t" "\<forall>i. e \<noteq> Enqueue i" using vq_enabled [of s] by auto
    from less [OF vq_step_work [OF st]] obtain k u where "vq_drains t k u" "inflight u = []" "immediates u = 0" by blast
    then show ?thesis using vq_drains.drains_step [OF st] by blast
  qed
qed

lemma submitVerdict_set:
  "set (snd (snd (submitVerdict rnd env uc i approved reason hash t h))) \<subseteq>
     set h \<union> {InvoiceVerify i approved reason hash, RoundGet i, RoundOpen i hash, RoundVote i approved hash}"
proof -
  have rc: "set (snd (retry_call rnd e c g)) \<subseteq> set g \<union> {c}" for e :: "client_call \<Rightarrow> client_call list \<Rightarrow> string result" and c g
    using retry_call_history [of rnd e c g] by auto
  have cv: "set (snd (snd (cast_vote rnd env i approved hash t g))) \<subseteq> set g \<union> {RoundVote i approved hash}" for g
    using cast_vote_history [of rnd env i approved hash t g] by auto
  obtain r1 g1 where 1: "retry_call rnd (ce_tx env) (InvoiceVerify i approved reason hash) h = (r1, g1)" by fastforce
  obtain r2 g2 where 2: "retry_call rnd (ce_tx env) (RoundOpen i hash) (h @ [RoundGet i]) = (r2, g2)" by fastforce
  have s1: "set g1 \<subseteq> set h \<union> {InvoiceVerify i approved reason hash}"
    using rc [of "ce_tx env" "InvoiceVerify i approved reason hash" h] 1 by simp
  have s2: "set g2 \<subseteq> set h \<union> {RoundGet i, RoundOpen i hash}"
    using rc [of "ce_tx env" "RoundOpen i hash" "h @ [RoundGet i]"] 2 by auto
  show ?thesis
    using s1 s2 cv [of g2] cv [of "h @ [RoundGet i]"]
    by (cases r1; cases r2) (auto simp: submitVerdict_def Let_def 1 2)
qed

section \<open>Properties\<close>

text \<open>C1: In every state the event loop can bring the verification queue to, at most \<open>maxConcurrency\<close>
  verifications run at once, the counter \<open>running\<close> is their number, and the jobs handed to
  \<open>enqueue\<close> are exactly the started ones followed by the waiting ones: every job is started at most once
  and in the order it was handed over.\<close>

theorem queue_safety:
  assumes "vq_reach n s" "0 \<le> n"
  shows "int (length (inflight s)) \<le> n \<and> running (vq s) = int (length (inflight s)) \<and>
     enqueued s = started s @ queue (vq s)"
  using vq_reach_inv [OF assms] by (simp add: vq_inv_def)

definition one_job :: vq_state where
  "one_job = launch (enqueue 7 (vq (vq_init 3))) ((vq_init 3)\<lparr>enqueued := enqueued (vq_init 3) @ [7]\<rparr>)"

theorem queue_safety_witness:
  "vq_reach 3 one_job \<and> inflight one_job = [7] \<and> int (length (inflight one_job)) \<le> 3 \<and>
   enqueued one_job = started one_job @ queue (vq one_job)"
proof -
  have reach: "vq_reach 3 one_job"
    unfolding one_job_def by (rule vq_reach.reach_step [OF vq_reach.reach_init vq_step.enqueue])
  moreover have "inflight one_job = [7]" by code_simp
  ultimately show ?thesis using queue_safety [OF reach] by simp
qed

text \<open>C2: The verification queue drains: from any reachable state, when no further job arrives, every
  execution ends after at most \<open>vq_work s\<close> steps, some execution reaches a state with nothing in flight
  or pending, and in every such state all jobs ever handed over have been started.\<close>

theorem queue_drains:
  assumes "vq_reach n s" "0 < n"
  shows "(\<forall>k t. vq_drains s k t \<longrightarrow> k \<le> vq_work s) \<and>
     (\<exists>k t. vq_drains s k t \<and> inflight t = [] \<and> immediates t = 0) \<and>
     (\<forall>k t. vq_drains s k t \<and> inflight t = [] \<and> immediates t = 0 \<longrightarrow> started t = enqueued s)"
proof -
  have "started t = enqueued s" if d: "vq_drains s k t" and q: "inflight t = []" "immediates t = 0" for k t
  proof -
    have inv: "vq_inv n t" using vq_reach_inv [OF vq_drains_reach [OF d assms(1)]] assms(2) by simp
    then have "queue (vq t) = []" using vq_quiescent assms(2) q by blast
    then show ?thesis using inv vq_drains_enqueued [OF d] by (simp add: vq_inv_def)
  qed
  then show ?thesis using vq_drains_bound vq_drains_exists by fastforce
qed

theorem queue_drains_witness:
  "\<exists>k t. vq_drains one_job k t \<and> inflight t = [] \<and> immediates t = 0 \<and> started t = [7]"
proof -
  have "vq_reach 3 one_job"
    unfolding one_job_def by (rule vq_reach.reach_step [OF vq_reach.reach_init vq_step.enqueue])
  moreover have "enqueued one_job = [7]" by code_simp
  ultimately show ?thesis using queue_drains [of 3 one_job] by fastforce
qed

text \<open>What a verdict submission does to the chain, on every path.  Without a registry it only sends
  the invoice verdict, one to three times.  With a registry that is known to be paused it calls nothing.
  Otherwise it reads the round once, opens a round at most three times and only when the round is not
  open, and then casts this verdict at most three times; it never sends a direct invoice verdict.\<close>

theorem submitVerdict_calls:
  fixes rnd env i approved reason hash t tr h
  defines "calls \<equiv> \<lambda>uc t. snd (snd (submitVerdict rnd env uc i approved reason hash t h))"
  shows "(\<exists>k \<in> {1..3}. calls False t = h @ replicate k (InvoiceVerify i approved reason hash)) \<and>
     (isPaused tr \<longrightarrow> submitVerdict rnd env True i approved reason hash (Some tr) h = (Inr (), Some tr, h)) \<and>
     (\<not> isPaused tr \<longrightarrow> (\<exists>a b. a \<le> 3 \<and> b \<le> 3 \<and>
        (round_is_open (ce_round env (RoundGet i) h) \<longrightarrow> a = 0 \<and> 1 \<le> b) \<and>
        calls True (Some tr) = h @ RoundGet i # replicate a (RoundOpen i hash) @ replicate b (RoundVote i approved hash)))"
proof (intro conjI impI)
  from retry_call_history [of rnd "ce_tx env" "InvoiceVerify i approved reason hash" h]
  show "\<exists>k \<in> {1..3}. calls False t = h @ replicate k (InvoiceVerify i approved reason hash)"
    by (auto simp: calls_def submitVerdict_def split: prod.splits sum.splits)
next
  assume "isPaused tr"
  then show "submitVerdict rnd env True i approved reason hash (Some tr) h = (Inr (), Some tr, h)"
    by (simp add: submitVerdict_def)
next
  assume np: "\<not> isPaused tr"
  let ?h1 = "h @ [RoundGet i]"
  let ?vote = "RoundVote i approved hash"
  show "\<exists>a b. a \<le> 3 \<and> b \<le> 3 \<and> (round_is_open (ce_round env (RoundGet i) h) \<longrightarrow> a = 0 \<and> 1 \<le> b) \<and>
     calls True (Some tr) = h @ RoundGet i # replicate a (RoundOpen i hash) @ replicate b ?vote"
  proof (cases "round_is_open (ce_round env (RoundGet i) h)")
    case True
    obtain b where "b \<in> {1..3}"
      "snd (snd (cast_vote rnd env i approved hash (Some tr) ?h1)) = ?h1 @ replicate b ?vote"
      using cast_vote_history by blast
    with True np show ?thesis
      by (intro exI [of _ 0] exI [of _ b]) (auto simp: calls_def submitVerdict_def Let_def)
  next
    case False
    obtain r h2 where rc: "retry_call rnd (ce_tx env) (RoundOpen i hash) ?h1 = (r, h2)" by fastforce
    obtain a where a: "a \<in> {1..3}" "h2 = ?h1 @ replicate a (RoundOpen i hash)"
      using retry_call_history [of rnd "ce_tx env" "RoundOpen i hash" ?h1] rc by auto
    obtain b where b: "b \<in> {1..3}"
      "snd (snd (cast_vote rnd env i approved hash (Some tr) h2)) = h2 @ replicate b ?vote"
      using cast_vote_history by blast
    have "calls True (Some tr) = h2 @ replicate 0 ?vote \<or> calls True (Some tr) = h2 @ replicate b ?vote"
      using False np rc b(2) by (cases r) (auto simp: calls_def submitVerdict_def Let_def)
    then obtain b' where "b' \<le> 3" "calls True (Some tr) = h2 @ replicate b' ?vote" using b(1) by fastforce
    with False a show ?thesis by (intro exI [of _ a] exI [of _ b']) simp
  qed
qed

definition idle_env :: client_env where
  "idle_env = \<lparr>ce_invoice = (\<lambda>_ _. Inr \<lparr>metadata_uri = Some ''ipfs://doc'', verification_hash = Some ''h''\<rparr>),
     ce_round = (\<lambda>_ _. Inr (Some (JStr ''Open''))), ce_tx = (\<lambda>_ _. Inr ''tx'')\<rparr>"

theorem submitVerdict_calls_witness:
  "\<exists>b \<in> {1..3}. snd (snd (submitVerdict (\<lambda>_. 0) idle_env True 7 True ''ok'' ''h'' (Some (new_tracker ''G'')) [])) =
     RoundGet 7 # replicate b (RoundVote 7 True ''h'')"
proof -
  have "\<not> isPaused (new_tracker ''G'')" "round_is_open (ce_round idle_env (RoundGet 7) [])"
    by (simp_all add: isPaused_def new_tracker_def round_is_open_def idle_env_def)
  then show ?thesis
    using submitVerdict_calls [where rnd = "\<lambda>_. 0" and env = idle_env and i = 7 and approved = True and reason = "''ok''"
        and hash = "''h''" and tr = "new_tracker ''G''" and h = "[]" and t = None]
    by fastforce
qed

text \<open>A verification never rejects an invoice: whatever the client answers, no call of
  \<open>performVerification\<close> carries a negative verdict, because the document check succeeds for every
  document reference it is given; the invoice is approved although nothing about it was compared.\<close>

theorem performVerification_never_rejects:
  "InvoiceVerify j False r x \<notin> set (snd (performVerification rnd env uc i t [])) \<and>
   RoundVote j False x \<notin> set (snd (performVerification rnd env uc i t []))"
proof -
  obtain r1 h1 where get: "retry_call rnd (ce_invoice env) (InvoiceGet i) [] = (r1, h1)" by fastforce
  have h1: "set h1 \<subseteq> {InvoiceGet i}"
    using retry_call_history [of rnd "ce_invoice env" "InvoiceGet i" "[]"] get by auto
  show ?thesis
  proof (cases r1)
    case (Inl e)
    with get h1 show ?thesis by (auto simp: performVerification_def)
  next
    case (Inr inv)
    let ?hash = "case verification_hash inv of Some s \<Rightarrow> s | None \<Rightarrow> []"
    have "snd (performVerification rnd env uc i t []) =
        snd (snd (submitVerdict rnd env uc i True ''Auto-verified by Reference Oracle Service'' ?hash t h1))"
      using get Inr by (simp add: performVerification_def verifyDocument_def Let_def)
    then show ?thesis
      using submitVerdict_set [of rnd env uc i True "''Auto-verified by Reference Oracle Service''" ?hash t h1] h1 by auto
  qed
qed

text \<open>The registry's pause error, as the SDK reports it, is not recognised: whenever a simulation error
  carries the registry's code for \<open>ContractPaused\<close>, the error the client throws is not taken for a pause
  and is retried like a transient failure.\<close>

theorem paused_error_not_recognised:
  assumes "match_code raw = Some ds" "digits_val ds = 3"
  shows "\<not> isRegistryPausedError (TError (parseContractError OracleRegistryErrors raw)) \<and>
     isRetriableError (TError (parseContractError OracleRegistryErrors raw))"
proof -
  have msg: "error_message (parseContractError OracleRegistryErrors raw) = ''ContractPaused (contract error #3)''"
    using assms by (simp add: parseContractError_def OracleRegistryErrors_def Let_def show_three)
  have "\<not> str_includes ''ContractPaused (contract error #3)'' ''Error(Contract, #3)''" by code_simp
  moreover have "\<not> list_ex (str_includes ''ContractPaused (contract error #3)'') NON_RETRIABLE_PATTERNS" by code_simp
  ultimately show ?thesis
    by (simp add: isRegistryPausedError_def isRetriableError_def CONTRACT_PAUSED_CODE_eq msg del: str_includes.simps)
qed

theorem paused_error_not_recognised_witness:
  "\<not> isRegistryPausedError (TError (parseContractError OracleRegistryErrors ''HostError: Error(Contract, #3)''))"
proof -
  have "match_code ''HostError: Error(Contract, #3)'' = Some ''3''" by code_simp
  moreover have "digits_val ''3'' = 3" by code_simp
  ultimately show ?thesis using paused_error_not_recognised by blast
qed

end
