(* ===== verification/Staking.thy ===== *)
theory Staking
  imports Replay Sdk
begin

text \<open>
  The staking side of an oracle node (\<open>oracle-service/src/staking.ts\<close>): the log of the node's own
  recent slashes, the metrics snapshot with the deregistration cool-down, the start-up check and the
  one-time registration.  The registry is read and written through the SDK model.
\<close>

section \<open>Definitions\<close>

record SlashRecord =
  sl_bps :: jnum
  sl_slashAmount :: string
  sl_admin :: string
  sl_occurredAt :: "string option"

definition MAX_RECENT_SLASHES :: nat where
  "MAX_RECENT_SLASHES = 20"

record staking_tracker =
  recentSlashes :: "SlashRecord list"
  st_oraclePublicKey :: string

definition new_staking_tracker :: "string \<Rightarrow> staking_tracker" where
  "new_staking_tracker key = \<lparr>recentSlashes = [], st_oraclePublicKey = key\<rparr>"

definition push_slash :: "SlashRecord \<Rightarrow> SlashRecord list \<Rightarrow> SlashRecord list" where
  "push_slash r l = (let xs = r # l in take (min (length xs) MAX_RECENT_SLASHES) xs)"

definition slash_fields :: "js \<Rightarrow> js list" where
  "slash_fields v = (case v of JArr xs \<Rightarrow> xs | _ \<Rightarrow> [v])"

definition slash_record :: "js \<Rightarrow> string option \<Rightarrow> SlashRecord" where
  "slash_record v occurredAt =
     \<lparr>sl_bps = js_Number (elem_at (slash_fields v) 1), sl_slashAmount = js_String (elem_at (slash_fields v) 2),
      sl_admin = js_String (case v of JArr xs \<Rightarrow> elem_at xs 3 | _ \<Rightarrow> JUndefined), sl_occurredAt = occurredAt\<rparr>"

definition handleSlashEvent :: "js \<Rightarrow> js \<Rightarrow> string option \<Rightarrow> staking_tracker \<Rightarrow> staking_tracker" where
  "handleSlashEvent topic2 v occurredAt t =
     (if topic2 \<noteq> JStr ''slashed'' then t
      else if js_String (elem_at (slash_fields v) 0) \<noteq> st_oraclePublicKey t then t
      else t\<lparr>recentSlashes := push_slash (slash_record v occurredAt) (recentSlashes t)\<rparr>)"

definition list_slashes :: "staking_tracker \<Rightarrow> SlashRecord list" where
  "list_slashes t = recentSlashes t"

record DeregisterCooldown =
  dc_requestedAt :: jnum
  dc_cooldownSecs :: jnum
  dc_readyAt :: jnum
  dc_remainingSecs :: jnum

record StakingMetrics =
  sm_oracle :: string
  sm_registered :: bool
  sm_stakeAmount :: string
  sm_totalVerifications :: jnum
  sm_totalSlashes :: jnum
  sm_deregisterCooldown :: "DeregisterCooldown option"
  sm_recentSlashes :: "SlashRecord list"

definition cooldown_of :: "int \<Rightarrow> jnum \<Rightarrow> RegistryConfig \<Rightarrow> DeregisterCooldown" where
  "cooldown_of nowMs requestedAt cfg =
     (let readyAt = num_add requestedAt (rc_deregisterCooldownSecs cfg); nowSecs = nowMs div 1000 in
      \<lparr>dc_requestedAt = requestedAt, dc_cooldownSecs = rc_deregisterCooldownSecs cfg, dc_readyAt = readyAt,
       dc_remainingSecs = num_max (NInt 0) (num_sub readyAt (NInt nowSecs))\<rparr>)"

definition metrics_of :: "string \<Rightarrow> OracleInfo \<Rightarrow> DeregisterCooldown option \<Rightarrow> staking_tracker \<Rightarrow> StakingMetrics" where
  "metrics_of key info cooldown tracker =
     \<lparr>sm_oracle = key, sm_registered = oi_isActive info, sm_stakeAmount = show_int (oi_stakeAmount info),
      sm_totalVerifications = oi_totalVerifications info, sm_totalSlashes = oi_totalSlashes info,
      sm_deregisterCooldown = cooldown, sm_recentSlashes = list_slashes tracker\<rparr>"

definition getStakingMetrics ::
  "rpc_env \<Rightarrow> client_config \<Rightarrow> int \<Rightarrow> string \<Rightarrow> staking_tracker \<Rightarrow> (rpc_call, StakingMetrics) io" where
  "getStakingMetrics env cfg nowMs key tracker =
     io_bind (getOracleInfo env cfg key) (\<lambda>info.
     (case info of
        None \<Rightarrow> io_return
          \<lparr>sm_oracle = key, sm_registered = False, sm_stakeAmount = ''0'',
           sm_totalVerifications = NInt 0, sm_totalSlashes = NInt 0,
           sm_deregisterCooldown = None, sm_recentSlashes = list_slashes tracker\<rparr>
      | Some i \<Rightarrow>
          (case oi_deregisterRequestedAt i of
             None \<Rightarrow> io_return (metrics_of key i None tracker)
           | Some requestedAt \<Rightarrow>
               io_bind (getRegistryConfig env cfg) (\<lambda>rc.
               io_return (metrics_of key i (Some (cooldown_of nowMs requestedAt rc)) tracker)))))"

text \<open>The start-up check only writes to the console; its outcome is the line it prints.\<close>

datatype startup_line = NoLine | WarnInactive | LogRegistered int jnum jnum | WarnUnchecked jserror

definition checkStakeOnStartup ::
  "rpc_env \<Rightarrow> string option \<Rightarrow> client_config \<Rightarrow> string \<Rightarrow> (rpc_call, startup_line) io" where
  "checkStakeOnStartup env oracleRegistryContractId cfg key =
     (case oracleRegistryContractId of
        None \<Rightarrow> io_return NoLine
      | Some c \<Rightarrow> if c = [] then io_return NoLine else
          io_catch
            (io_bind (getOracleInfo env cfg key) (\<lambda>info.
             (case info of
                None \<Rightarrow> io_return WarnInactive
              | Some i \<Rightarrow> if \<not> oi_isActive i then io_return WarnInactive
                  else io_return (LogRegistered (oi_stakeAmount i) (oi_totalVerifications i) (oi_totalSlashes i)))))
            (\<lambda>e. io_return (WarnUnchecked e)))"

datatype register_outcome = NotRequested | ProcessExit int string | RegisteredTx string

definition registerIfRequested ::
  "rpc_env \<Rightarrow> string list \<Rightarrow> string option \<Rightarrow> int option \<Rightarrow> client_config \<Rightarrow> string \<Rightarrow> (rpc_call, register_outcome) io" where
  "registerIfRequested env argv oracleRegistryContractId registerStakeAmount cfg key =
     (if ''--register'' \<notin> set argv then io_return NotRequested
      else if (case oracleRegistryContractId of None \<Rightarrow> True | Some c \<Rightarrow> c = []) then
        io_return (ProcessExit 1 ''[Staking] --register requires ORACLE_REGISTRY_CONTRACT_ID to be set.'')
      else (case registerStakeAmount of
          None \<Rightarrow> io_return (ProcessExit 1
            ''[Staking] --register requires REGISTER_STAKE_AMOUNT to be set to a positive integer.'')
        | Some amount \<Rightarrow>
            if amount \<le> 0 then io_return (ProcessExit 1
              ''[Staking] --register requires REGISTER_STAKE_AMOUNT to be set to a positive integer.'')
            else io_bind (register env cfg key amount False) (\<lambda>txHash. io_return (RegisteredTx txHash))))"

section \<open>Specification and lemmas\<close>

type_synonym slash_event = "js \<times> js \<times> string option"

definition track_slash :: "slash_event \<Rightarrow> staking_tracker \<Rightarrow> staking_tracker" where
  "track_slash e t = (case e of (topic2, v, occ) \<Rightarrow> handleSlashEvent topic2 v occ t)"

definition own_slash :: "string \<Rightarrow> slash_event \<Rightarrow> bool" where
  "own_slash key e = (case e of (topic2, v, occ) \<Rightarrow>
     topic2 = JStr ''slashed'' \<and> js_String (elem_at (slash_fields v) 0) = key)"

definition slash_of :: "slash_event \<Rightarrow> SlashRecord" where
  "slash_of e = (case e of (topic2, v, occ) \<Rightarrow> slash_record v occ)"

lemma push_slash_eq: "push_slash r l = take MAX_RECENT_SLASHES (r # l)"
  by (simp add: push_slash_def Let_def min_def)

interpretation slashes: bounded_log MAX_RECENT_SLASHES push_slash "\<lambda>l. l"
  by unfold_locales (rule push_slash_eq)

lemma track_slash_simps [simp]: "st_oraclePublicKey (track_slash e t) = st_oraclePublicKey t"
  by (cases e) (simp add: track_slash_def handleSlashEvent_def)

lemma recentSlashes_track_slash:
  "recentSlashes (track_slash e t) =
     (if own_slash (st_oraclePublicKey t) e then push_slash (slash_of e) (recentSlashes t) else recentSlashes t)"
  by (cases e) (simp add: track_slash_def handleSlashEvent_def own_slash_def slash_of_def)

lemma recentSlashes_fold:
  "recentSlashes (fold track_slash es t) =
     fold push_slash (map slash_of (filter (own_slash (st_oraclePublicKey t)) es)) (recentSlashes t)"
  by (induction es arbitrary: t) (simp_all add: recentSlashes_track_slash)

lemma cooldown_remaining:
  assumes "oi = NInt r" "rc_deregisterCooldownSecs cfg = NInt c"
  shows "dc_remainingSecs (cooldown_of nowMs oi cfg) = NInt (max 0 (r + c - nowMs div 1000))"
  using assms by (simp add: cooldown_of_def Let_def)

section \<open>Properties\<close>

text \<open>The recent slashes of a node are the newest twenty slash events of the history that name this
  node's own key, newest first; slashes of other oracles and other registry events leave no trace.\<close>

theorem recentSlashes_newest:
  "recentSlashes (fold track_slash es (new_staking_tracker key)) =
     take 20 (rev (map slash_of (filter (own_slash key) es)))"
  by (simp add: recentSlashes_fold new_staking_tracker_def slashes.newest_fold_push MAX_RECENT_SLASHES_def)

end
