(* ===== verification/Listener.thy ===== *)
theory Listener
  imports Verifier Staking
begin

text \<open>
  The event listener and entry point of the oracle service (\<open>oracle-service/src/listener.ts\<close>,
  \<open>index.ts\<close>).  An effect streamed by Horizon is a dynamic value; the XDR decoder is third-party
  code and an argument of the handlers (\<open>decodeScVal\<close> yields \<open>null\<close> where it fails).  The state is
  what the handler changes: the counter, the two trackers, the verification requests handed to the
  verifier's queue, and the checkpoint file.
\<close>

section \<open>Configuration\<close>

record OracleConfig =
  oc_oracleSecretKey :: string
  oc_invoiceContractId :: string
  oc_oracleRegistryContractId :: "string option"
  oc_registerStakeAmount :: "int option"

definition useConsensus :: "OracleConfig \<Rightarrow> bool" where
  "useConsensus cfg = (case oc_oracleRegistryContractId cfg of None \<Rightarrow> False | Some c \<Rightarrow> c \<noteq> [])"

section \<open>Handling effects\<close>

record listener_state =
  processedCount :: int
  consensusTracker :: "consensus_tracker option"
  stakingTracker :: "staking_tracker option"
  verifyRequests :: "int list"
  cursorFile :: "string option"

definition loadCursor :: "listener_state \<Rightarrow> string" where
  "loadCursor s = (case cursorFile s of
      None \<Rightarrow> ''now''
    | Some content \<Rightarrow> (let saved = trim content in if saved = [] then ''now'' else saved))"

definition saveCursor :: "bool \<Rightarrow> js \<Rightarrow> listener_state \<Rightarrow> listener_state" where
  "saveCursor writable pagingToken s = (case pagingToken of
      JStr token \<Rightarrow> (if writable then s\<lparr>cursorFile := Some token\<rparr> else s)
    | _ \<Rightarrow> s)"

definition dispatch_event :: "millis \<Rightarrow> js \<Rightarrow> js \<Rightarrow> js \<Rightarrow> js \<Rightarrow> listener_state \<Rightarrow> listener_state" where
  "dispatch_event now segment1 segment2 v created_at s =
     (if segment1 = JStr ''INVOICE'' \<and> segment2 = JStr ''created'' then
        (case v of
           JArr xs \<Rightarrow>
             (case js_toBigInt (elem_at xs 0) of
                Inr invoiceId \<Rightarrow> s\<lparr>verifyRequests := verifyRequests s @ [invoiceId]\<rparr>
              | Inl e \<Rightarrow> s)
         | _ \<Rightarrow> s)
      else if segment1 = JStr ''ORACLE'' then
        s\<lparr>consensusTracker := map_option (handleEvent now segment2 v) (consensusTracker s),
          stakingTracker := map_option
            (handleSlashEvent segment2 v (case created_at of JStr a \<Rightarrow> Some a | _ \<Rightarrow> None)) (stakingTracker s)\<rparr>
      else s)"

definition relevant_effect :: "OracleConfig \<Rightarrow> js \<Rightarrow> bool" where
  "relevant_effect cfg effect =
     (let contract_id = js_prop effect ''contract_id'';
          isInvoiceContract = (contract_id = JStr (oc_invoiceContractId cfg));
          isRegistryContract = (case oc_oracleRegistryContractId cfg of
              None \<Rightarrow> False | Some c \<Rightarrow> c \<noteq> [] \<and> contract_id = JStr c)
      in (js_prop effect ''type'' = JStr ''contract_event'' \<or> js_prop effect ''type'' = JStr ''contract'') \<and>
         \<not> (js_truthy contract_id \<and> \<not> isInvoiceContract \<and> \<not> isRegistryContract))"

definition handleEffect :: "(js \<Rightarrow> js) \<Rightarrow> OracleConfig \<Rightarrow> millis \<Rightarrow> js \<Rightarrow> listener_state \<Rightarrow> listener_state" where
  "handleEffect decodeScVal cfg now effect s =
     (if \<not> relevant_effect cfg effect then s
      else
        (let s' = s\<lparr>processedCount := processedCount s + 1\<rparr> in
         (case js_prop effect ''topic'' of
            JArr topicXdr \<Rightarrow>
              if length topicXdr < 2 then s'
              else dispatch_event now (decodeScVal (elem_at topicXdr 0)) (decodeScVal (elem_at topicXdr 1))
                     (decodeScVal (js_prop effect ''value'')) (js_prop effect ''created_at'') s'
          | _ \<Rightarrow> s')))"

definition onmessage :: "(js \<Rightarrow> js) \<Rightarrow> OracleConfig \<Rightarrow> bool \<Rightarrow> millis \<Rightarrow> js \<Rightarrow> listener_state \<Rightarrow> listener_state" where
  "onmessage decodeScVal cfg writable now effect s =
     (let s' = handleEffect decodeScVal cfg now effect s; token = js_prop effect ''paging_token'' in
      if js_truthy token then saveCursor writable token s' else s')"

section \<open>Entry point\<close>

datatype startup =
    ExitWith int string
  | RegisterAndExit
  | RunConsensus
  | RunLegacy

definition oracle_main :: "OracleConfig \<Rightarrow> string list \<Rightarrow> startup" where
  "oracle_main cfg argv =
     (if oc_oracleSecretKey cfg = [] then ExitWith 1 ''Error: ORACLE_SECRET_KEY is not set.''
      else if \<not> valid_secret_key (oc_oracleSecretKey cfg) then
        ExitWith 1 ''Error: ORACLE_SECRET_KEY is not a valid Stellar secret key (must start with \"S\" and be 56 characters).''
      else if oc_invoiceContractId cfg = [] then ExitWith 1 ''Error: INVOICE_CONTRACT_ID is not set.''
      else if ''--register'' \<in> set argv then RegisterAndExit
      else if useConsensus cfg then RunConsensus else RunLegacy)"

definition listener_init :: "OracleConfig \<Rightarrow> string \<Rightarrow> string option \<Rightarrow> listener_state" where
  "listener_init cfg publicKey file =
     \<lparr>processedCount = 0,
      consensusTracker = (if useConsensus cfg then Some (new_tracker publicKey) else None),
      stakingTracker = (if useConsensus cfg then Some (new_staking_tracker publicKey) else None),
      verifyRequests = [], cursorFile = file\<rparr>"

text \<open>The health server: the status code and which document it serves.\<close>

datatype oracle_response =
    Health int bool "TrackedRound list option"
  | Metrics StakingMetrics
  | MetricsDisabled
  | MetricsError jserror
  | NotFound

definition serve :: "OracleConfig \<Rightarrow> StakingMetrics result \<Rightarrow> listener_state \<Rightarrow> string \<Rightarrow> int \<times> oracle_response" where
  "serve cfg metrics s url =
     (if url = ''/health'' then
        (200, Health (processedCount s) (useConsensus cfg) (map_option list_rounds (consensusTracker s)))
      else if url = ''/metrics'' then
        (if \<not> useConsensus cfg \<or> stakingTracker s = None then (404, MetricsDisabled)
         else (case metrics of Inr m \<Rightarrow> (200, Metrics m) | Inl e \<Rightarrow> (502, MetricsError e)))
      else (404, NotFound))"

section \<open>Lemmas\<close>

lemma cursorFile_handleEffect [simp]: "cursorFile (handleEffect d cfg now eff s) = cursorFile s"
  by (simp add: handleEffect_def dispatch_event_def Let_def split: js.splits sum.splits)

lemma verifyRequests_prefix: "prefix (verifyRequests s) (verifyRequests (handleEffect d cfg now eff s))"
  by (simp add: handleEffect_def dispatch_event_def Let_def split: js.splits sum.splits)

lemma onmessage_cursor:
  "js_prop effect ''paging_token'' = JStr token \<Longrightarrow> token \<noteq> [] \<Longrightarrow>
   cursorFile (onmessage d cfg True now effect s) = Some token"
  by (simp add: onmessage_def Let_def saveCursor_def)

lemma trackers_dispatch:
  "map_option oraclePublicKey (consensusTracker (dispatch_event now a b v c s)) =
     map_option oraclePublicKey (consensusTracker s)"
proof -
  have key: "oraclePublicKey (handleEvent now b v t) = oraclePublicKey t" for t
    using track_key [of "(b, v, now)" t] by (simp add: track_def)
  show ?thesis
    by (cases "consensusTracker s") (auto simp: dispatch_event_def key split: js.splits sum.splits)
qed

text \<open>
  What an effect means, read off the effect alone: the registry event the trackers see, the slash
  event, the invoice that is to be verified, and the checkpoint it leaves.
\<close>

definition watched :: "OracleConfig \<Rightarrow> string set" where
  "watched cfg = insert (oc_invoiceContractId cfg) (set_option (oc_oracleRegistryContractId cfg))"

definition addressed :: "OracleConfig \<Rightarrow> js \<Rightarrow> bool" where
  "addressed cfg eff \<longleftrightarrow> js_prop eff ''type'' \<in> {JStr ''contract_event'', JStr ''contract''} \<and>
     (js_truthy (js_prop eff ''contract_id'') \<longrightarrow> js_prop eff ''contract_id'' \<in> JStr ` watched cfg)"

lemma relevant_effect_iff: "relevant_effect cfg eff \<longleftrightarrow> addressed cfg eff"
  by (cases "oc_oracleRegistryContractId cfg")
    (auto simp: relevant_effect_def addressed_def watched_def Let_def split: option.splits)

definition decoded :: "(js \<Rightarrow> js) \<Rightarrow> OracleConfig \<Rightarrow> js \<Rightarrow> (js \<times> js \<times> js) option" where
  "decoded d cfg eff =
     (if addressed cfg eff then
        (case js_prop eff ''topic'' of
           JArr ts \<Rightarrow> if length ts < 2 then None
             else Some (d (elem_at ts 0), d (elem_at ts 1), d (js_prop eff ''value''))
         | _ \<Rightarrow> None)
      else None)"

definition registry_event_of :: "(js \<Rightarrow> js) \<Rightarrow> OracleConfig \<Rightarrow> millis \<times> js \<Rightarrow> registry_event option" where
  "registry_event_of d cfg m = (case decoded d cfg (snd m) of
      Some (s1, s2, v) \<Rightarrow> if s1 = JStr ''ORACLE'' then Some (s2, v, fst m) else None
    | None \<Rightarrow> None)"

definition slash_event_of :: "(js \<Rightarrow> js) \<Rightarrow> OracleConfig \<Rightarrow> millis \<times> js \<Rightarrow> slash_event option" where
  "slash_event_of d cfg m = (case decoded d cfg (snd m) of
      Some (s1, s2, v) \<Rightarrow> if s1 = JStr ''ORACLE''
        then Some (s2, v, case js_prop (snd m) ''created_at'' of JStr a \<Rightarrow> Some a | _ \<Rightarrow> None) else None
    | None \<Rightarrow> None)"

definition request_of :: "(js \<Rightarrow> js) \<Rightarrow> OracleConfig \<Rightarrow> millis \<times> js \<Rightarrow> int option" where
  "request_of d cfg m = (case decoded d cfg (snd m) of
      Some (s1, s2, JArr xs) \<Rightarrow>
        if s1 = JStr ''INVOICE'' \<and> s2 = JStr ''created''
        then (case js_toBigInt (elem_at xs 0) of Inr n \<Rightarrow> Some n | Inl e \<Rightarrow> None) else None
    | _ \<Rightarrow> None)"

definition checkpoint_of :: "millis \<times> js \<Rightarrow> string option option" where
  "checkpoint_of m = (case js_prop (snd m) ''paging_token'' of
      JStr token \<Rightarrow> if token = [] then None else Some (Some token)
    | _ \<Rightarrow> None)"

definition listen :: "(js \<Rightarrow> js) \<Rightarrow> OracleConfig \<Rightarrow> millis \<times> js \<Rightarrow> listener_state \<Rightarrow> listener_state" where
  "listen d cfg m s = onmessage d cfg True (fst m) (snd m) s"

interpretation checkpoint: last_status
  "\<lambda>m c. case checkpoint_of m of None \<Rightarrow> c | Some c' \<Rightarrow> c'" checkpoint_of
  by unfold_locales simp

lemma handleEffect_decoded:
  "handleEffect d cfg now eff s =
     (if \<not> relevant_effect cfg eff then s
      else (let s' = s\<lparr>processedCount := processedCount s + 1\<rparr> in
        case decoded d cfg eff of
          None \<Rightarrow> s'
        | Some (s1, s2, v) \<Rightarrow> dispatch_event now s1 s2 v (js_prop eff ''created_at'') s'))"
  by (auto simp: handleEffect_def decoded_def relevant_effect_iff Let_def split: js.splits)

lemma cursorFile_listen: "cursorFile (listen d cfg m s) = (case checkpoint_of m of None \<Rightarrow> cursorFile s | Some c \<Rightarrow> c)"
  by (cases "js_prop (snd m) ''paging_token''") (auto simp: listen_def onmessage_def checkpoint_of_def saveCursor_def Let_def)

lemma listen_trackers:
  "consensusTracker (listen d cfg m s) =
     (case registry_event_of d cfg m of None \<Rightarrow> consensusTracker s | Some e \<Rightarrow> map_option (track e) (consensusTracker s))"
  "stakingTracker (listen d cfg m s) =
     (case slash_event_of d cfg m of None \<Rightarrow> stakingTracker s | Some e \<Rightarrow> map_option (track_slash e) (stakingTracker s))"
  "verifyRequests (listen d cfg m s) = verifyRequests s @ (case request_of d cfg m of None \<Rightarrow> [] | Some i \<Rightarrow> [i])"
proof -
  have save: "consensusTracker (saveCursor w p s) = consensusTracker s" "stakingTracker (saveCursor w p s) = stakingTracker s"
    "verifyRequests (saveCursor w p s) = verifyRequests s" for w p s
    by (simp_all add: saveCursor_def split: js.splits)
  have tr: "track (a, v, n) = handleEvent n a v" "track_slash (a, v, oc) = handleSlashEvent a v oc" for a v n oc
    by (simp_all add: fun_eq_iff track_def track_slash_def)
  have none: "\<not> relevant_effect cfg (snd m) \<Longrightarrow> decoded d cfg (snd m) = None" by (simp add: decoded_def relevant_effect_iff)
  show "consensusTracker (listen d cfg m s) =
     (case registry_event_of d cfg m of None \<Rightarrow> consensusTracker s | Some e \<Rightarrow> map_option (track e) (consensusTracker s))"
    by (auto simp: listen_def onmessage_def handleEffect_decoded dispatch_event_def registry_event_of_def Let_def save tr none
        split: option.splits js.splits sum.splits)
  show "stakingTracker (listen d cfg m s) =
     (case slash_event_of d cfg m of None \<Rightarrow> stakingTracker s | Some e \<Rightarrow> map_option (track_slash e) (stakingTracker s))"
    by (auto simp: listen_def onmessage_def handleEffect_decoded dispatch_event_def slash_event_of_def Let_def save tr none
        split: option.splits js.splits sum.splits)
  show "verifyRequests (listen d cfg m s) = verifyRequests s @ (case request_of d cfg m of None \<Rightarrow> [] | Some i \<Rightarrow> [i])"
    by (auto simp: listen_def onmessage_def handleEffect_decoded dispatch_event_def request_of_def Let_def save none
        split: option.splits js.splits sum.splits)
qed

lemma fold_listen_consensus:
  "consensusTracker (fold (listen d cfg) ms s) =
     map_option (fold track (List.map_filter (registry_event_of d cfg) ms)) (consensusTracker s)"
  by (induction ms arbitrary: s) (auto simp: listen_trackers option.map_comp comp_def option.map_ident option.map_id split: option.splits)

lemma fold_listen_staking:
  "stakingTracker (fold (listen d cfg) ms s) =
     map_option (fold track_slash (List.map_filter (slash_event_of d cfg) ms)) (stakingTracker s)"
  by (induction ms arbitrary: s) (auto simp: listen_trackers option.map_comp comp_def option.map_ident option.map_id split: option.splits)

lemma fold_listen_requests:
  "verifyRequests (fold (listen d cfg) ms s) = verifyRequests s @ List.map_filter (request_of d cfg) ms"
  by (induction ms arbitrary: s) (auto simp: listen_trackers split: option.splits)

lemma fold_listen_cursor:
  "cursorFile (fold (listen d cfg) ms s) = fold (\<lambda>m c. case checkpoint_of m of None \<Rightarrow> c | Some c' \<Rightarrow> c') ms (cursorFile s)"
  by (induction ms arbitrary: s) (auto simp: cursorFile_listen split: option.splits)

section \<open>Properties\<close>


definition sample_config :: OracleConfig where
  "sample_config = \<lparr>oc_oracleSecretKey = ''S'', oc_invoiceContractId = ''CINV'',
     oc_oracleRegistryContractId = Some ''CREG'', oc_registerStakeAmount = None\<rparr>"

definition sample_message :: "millis \<times> js" where
  "sample_message = (5, JObj [(''type'', JStr ''contract''), (''contract_id'', JStr ''CINV''),
     (''topic'', JArr [JStr ''INVOICE'', JStr ''created'']), (''value'', JArr [JBigInt 7]), (''paging_token'', JStr ''42'')])"


end
