(* ===== verification/Screener.thy ===== *)
theory Screener
  imports Prelude
begin

text \<open>
  Sanctions screening and request validation of the compliance service
  (\<open>compliance-service/src/types.ts\<close>, \<open>screener.ts\<close>, \<open>validation.ts\<close>): the bundled mock screener, the
  HTTP provider's outcome handling, and the checks on operator overrides.
\<close>

section \<open>Types\<close>

datatype RiskTier = Low | Medium | High

datatype ScreenDecision = Unscreened | Cleared | Flagged | Blocked | PendingReview

fun risk_name :: "RiskTier \<Rightarrow> string" where
  "risk_name Low = ''Low''"
| "risk_name Medium = ''Medium''"
| "risk_name High = ''High''"

text \<open>Tiers are ordered by severity.\<close>

fun tier_rank :: "RiskTier \<Rightarrow> nat" where
  "tier_rank Low = 0"
| "tier_rank Medium = 1"
| "tier_rank High = 2"

instantiation RiskTier :: linorder
begin

definition less_eq_RiskTier :: "RiskTier \<Rightarrow> RiskTier \<Rightarrow> bool" where
  "less_eq_RiskTier a b \<longleftrightarrow> tier_rank a \<le> tier_rank b"

definition less_RiskTier :: "RiskTier \<Rightarrow> RiskTier \<Rightarrow> bool" where
  "less_RiskTier a b \<longleftrightarrow> tier_rank a < tier_rank b"

instance
proof
  fix a b :: RiskTier
  show "a \<le> b \<Longrightarrow> b \<le> a \<Longrightarrow> a = b" by (cases a; cases b) (simp_all add: less_eq_RiskTier_def)
qed (auto simp: less_eq_RiskTier_def less_RiskTier_def)

end

fun decision_name :: "ScreenDecision \<Rightarrow> string" where
  "decision_name Unscreened = ''Unscreened''"
| "decision_name Cleared = ''Cleared''"
| "decision_name Flagged = ''Flagged''"
| "decision_name Blocked = ''Blocked''"
| "decision_name PendingReview = ''PendingReview''"

record ScreenResult =
  sr_address :: string
  sr_status :: ScreenDecision
  sr_reasonCode :: int
  sr_riskTier :: RiskTier
  sr_matchedList :: "string option"
  sr_notes :: string

record ScreenContext =
  cx_name :: "string option"
  cx_jurisdiction :: "string option"
  cx_recentVolume :: "int option"
  cx_debtorConcentrationBps :: "jnum option"

definition no_context :: ScreenContext where
  "no_context = \<lparr>cx_name = None, cx_jurisdiction = None, cx_recentVolume = None, cx_debtorConcentrationBps = None\<rparr>"

section \<open>The mock screener\<close>

definition SANCTIONS_FIXTURE :: "(string \<times> string) list" where
  "SANCTIONS_FIXTURE =
     [(''SANCTIONED_ENTITY_ALPHA'', ''Demo SDN entry A''),
      (''SANCTIONED_ENTITY_BETA'', ''Demo SDN entry B''),
      (''GBLOCKEDXXXXXXXXXXXXXXXXXXXXXXXXXXXXXXXXXXXXXXXXXXXXXXX'', ''Demo blocked G-address prefix'')]"

definition REASON_CLEAR :: int where "REASON_CLEAR = 0"
definition REASON_SANCTIONS_HIT :: int where "REASON_SANCTIONS_HIT = 9001"
definition REASON_HIGH_RISK_JURISDICTION :: int where "REASON_HIGH_RISK_JURISDICTION = 2001"
definition REASON_HIGH_VOLUME :: int where "REASON_HIGH_VOLUME = 2002"
definition REASON_DEBTOR_CONCENTRATION :: int where "REASON_DEBTOR_CONCENTRATION = 2003"

definition HIGH_RISK_JURISDICTIONS :: "string list" where
  "HIGH_RISK_JURISDICTIONS = [''XX'', ''ZZ'', ''UNKNOWN'']"

text \<open>The state of a \<open>MockScreener\<close> is its runtime block list.\<close>

type_synonym mock_screener = "string list"

definition blocked_fixture :: "string list" where
  "blocked_fixture = map (\<lambda>e. toUpperCase (fst e)) SANCTIONS_FIXTURE"

definition addRuntimeBlock :: "string \<Rightarrow> mock_screener \<Rightarrow> mock_screener" where
  "addRuntimeBlock address runtimeBlocked = oset_add (toUpperCase address) runtimeBlocked"

definition prefix_hit :: "string \<Rightarrow> (string \<times> string) option" where
  "prefix_hit upper = find (\<lambda>entry. startsWith (fst entry) ''G'' \<and> startsWith upper (take 8 (fst entry))) SANCTIONS_FIXTURE"

type_synonym assessment = "RiskTier \<times> ScreenDecision \<times> int \<times> string"

definition assess_jurisdiction :: "ScreenContext \<Rightarrow> assessment \<Rightarrow> assessment" where
  "assess_jurisdiction cx a = (case cx_jurisdiction cx of
      Some j \<Rightarrow>
        if j \<noteq> [] \<and> toUpperCase j \<in> set HIGH_RISK_JURISDICTIONS then
          (High, Flagged, REASON_HIGH_RISK_JURISDICTION, ''High-risk jurisdiction: '' @ j)
        else a
    | None \<Rightarrow> a)"

definition assess_volume :: "ScreenContext \<Rightarrow> assessment \<Rightarrow> assessment" where
  "assess_volume cx a = (case (cx_recentVolume cx, a) of
      (Some v, (riskTier, status, reasonCode, notes)) \<Rightarrow>
        if v > 1000000000 then
          (let riskTier' = (if riskTier = Low then Medium else riskTier) in
           if status = Cleared then (riskTier', Flagged, REASON_HIGH_VOLUME, ''Elevated recent transaction volume'')
           else (riskTier', status, reasonCode, notes))
        else a
    | (None, _) \<Rightarrow> a)"

definition assess_concentration :: "ScreenContext \<Rightarrow> assessment \<Rightarrow> assessment" where
  "assess_concentration cx a = (case (cx_debtorConcentrationBps cx, a) of
      (Some bps, (riskTier, status, reasonCode, notes)) \<Rightarrow>
        if num_lt (NInt 5000) bps then
          (if status = Cleared then (High, Flagged, REASON_DEBTOR_CONCENTRATION, ''High debtor concentration'')
           else (High, status, reasonCode, notes))
        else a
    | (None, _) \<Rightarrow> a)"

definition screen :: "mock_screener \<Rightarrow> string \<Rightarrow> ScreenContext \<Rightarrow> ScreenResult result" where
  "screen runtimeBlocked address cx =
     (if address = [] \<or> trim address = [] then Inl (GenericError ''address is required'')
      else
        (let upper = toUpperCase address in
         if upper \<in> set runtimeBlocked \<or> upper \<in> set blocked_fixture then
           Inr \<lparr>sr_address = address, sr_status = Blocked, sr_reasonCode = REASON_SANCTIONS_HIT,
                sr_riskTier = High, sr_matchedList = Some ''OFAC-SDN-fixture'',
                sr_notes = ''Address matched bundled sanctions fixture or runtime block list''\<rparr>
         else (case prefix_hit upper of
             Some entry \<Rightarrow>
               Inr \<lparr>sr_address = address, sr_status = Blocked, sr_reasonCode = REASON_SANCTIONS_HIT,
                    sr_riskTier = High, sr_matchedList = Some (fst entry), sr_notes = snd entry\<rparr>
           | None \<Rightarrow>
               (case assess_concentration cx (assess_volume cx (assess_jurisdiction cx
                       (Low, Cleared, REASON_CLEAR, ''No sanctions hit''))) of
                  (riskTier, status, reasonCode, notes) \<Rightarrow>
                    Inr \<lparr>sr_address = address, sr_status = status, sr_reasonCode = reasonCode,
                         sr_riskTier = riskTier, sr_matchedList = None, sr_notes = notes\<rparr>))))"

section \<open>The HTTP provider\<close>

text \<open>What \<open>fetch\<close> does: a response with its status and decoded body, the abort of the timeout, or
  another error.\<close>

datatype fetch_outcome = FetchResponse int "js result" | FetchAborted | FetchFailed jserror

definition http_screen :: "int \<Rightarrow> fetch_outcome \<Rightarrow> js result" where
  "http_screen timeoutMs outcome = (case outcome of
      FetchResponse status body \<Rightarrow>
        (if \<not> (200 \<le> status \<and> status \<le> 299)
         then Inl (GenericError (''upstream screening provider returned '' @ show_int status))
         else body)
    | FetchAborted \<Rightarrow> Inl (GenericError (''upstream screening provider timed out after '' @ show_int timeoutMs @ ''ms''))
    | FetchFailed e \<Rightarrow> Inl e)"

section \<open>Validation of overrides\<close>

definition SCREEN_DECISIONS :: "string list" where
  "SCREEN_DECISIONS = [''Unscreened'', ''Cleared'', ''Flagged'', ''Blocked'', ''PendingReview'']"

definition RISK_TIERS :: "string list" where
  "RISK_TIERS = [''Low'', ''Medium'', ''High'']"

definition U32_MAX :: int where "U32_MAX = 4294967295"

definition isScreenDecision :: "js \<Rightarrow> bool" where
  "isScreenDecision v = (case v of JStr s \<Rightarrow> s \<in> set SCREEN_DECISIONS | _ \<Rightarrow> False)"

definition isRiskTier :: "js \<Rightarrow> bool" where
  "isRiskTier v = (case v of JStr s \<Rightarrow> s \<in> set RISK_TIERS | _ \<Rightarrow> False)"

definition valid_reason_code :: "js \<Rightarrow> bool" where
  "valid_reason_code v = (case v of
      JNum x \<Rightarrow> num_isInteger x \<and> num_le (NInt 0) x \<and> num_le x (NInt U32_MAX)
    | _ \<Rightarrow> False)"

definition validateScreenOverride :: "js \<Rightarrow> string option" where
  "validateScreenOverride body =
     (if js_prop body ''status'' \<noteq> JUndefined \<and> \<not> isScreenDecision (js_prop body ''status'') then
        Some (''invalid status: must be one of '' @ join '', '' SCREEN_DECISIONS)
      else if js_prop body ''riskTier'' \<noteq> JUndefined \<and> \<not> isRiskTier (js_prop body ''riskTier'') then
        Some (''invalid riskTier: must be one of '' @ join '', '' RISK_TIERS)
      else if js_prop body ''reasonCode'' \<noteq> JUndefined \<and> \<not> valid_reason_code (js_prop body ''reasonCode'') then
        Some ''invalid reasonCode: must be an integer between 0 and 4294967295''
      else if js_prop body ''notesHash'' \<noteq> JUndefined \<and> \<not> is_string (js_prop body ''notesHash'') then
        Some ''invalid notesHash: must be a string''
      else None)"

section \<open>Lemmas\<close>

lemma SCREEN_DECISIONS_iff: "s \<in> set SCREEN_DECISIONS \<longleftrightarrow> (\<exists>d. s = decision_name d)"
proof
  assume "s \<in> set SCREEN_DECISIONS"
  then show "\<exists>d. s = decision_name d"
    unfolding SCREEN_DECISIONS_def by (simp, elim disjE) (metis decision_name.simps)+
next
  assume "\<exists>d. s = decision_name d"
  then obtain d where "s = decision_name d" ..
  then show "s \<in> set SCREEN_DECISIONS" by (cases d) (simp_all add: SCREEN_DECISIONS_def)
qed

lemma RISK_TIERS_iff: "s \<in> set RISK_TIERS \<longleftrightarrow> (\<exists>d. s = risk_name d)"
proof
  assume "s \<in> set RISK_TIERS"
  then show "\<exists>d. s = risk_name d"
    unfolding RISK_TIERS_def by (simp, elim disjE) (metis risk_name.simps)+
next
  assume "\<exists>d. s = risk_name d"
  then obtain d where "s = risk_name d" ..
  then show "s \<in> set RISK_TIERS" by (cases d) (simp_all add: RISK_TIERS_def)
qed

lemma decision_name_inject: "decision_name a = decision_name b \<longleftrightarrow> a = b"
  by (cases a; cases b) simp_all

text \<open>The heuristics in one step: which of the three conditions a context meets.\<close>

definition risky_jurisdiction :: "ScreenContext \<Rightarrow> bool" where
  "risky_jurisdiction cx = (case cx_jurisdiction cx of None \<Rightarrow> False
     | Some j \<Rightarrow> j \<noteq> [] \<and> toUpperCase j \<in> set HIGH_RISK_JURISDICTIONS)"

definition high_volume :: "ScreenContext \<Rightarrow> bool" where
  "high_volume cx = (case cx_recentVolume cx of None \<Rightarrow> False | Some v \<Rightarrow> v > 1000000000)"

definition concentrated :: "ScreenContext \<Rightarrow> bool" where
  "concentrated cx = (case cx_debtorConcentrationBps cx of None \<Rightarrow> False | Some b \<Rightarrow> num_lt (NInt 5000) b)"

definition on_block_list :: "mock_screener \<Rightarrow> string \<Rightarrow> bool" where
  "on_block_list rb address \<longleftrightarrow> toUpperCase address \<in> set rb \<or> toUpperCase address \<in> set blocked_fixture \<or>
     prefix ''GBLOCKED'' (toUpperCase address)"

lemma prefix_hit_None: "prefix_hit upper = None \<longleftrightarrow> \<not> prefix ''GBLOCKED'' upper"
  by (simp add: prefix_hit_def SANCTIONS_FIXTURE_def startsWith_prefix)

lemmas assess_defs = assess_jurisdiction_def assess_volume_def assess_concentration_def
  risky_jurisdiction_def high_volume_def concentrated_def Let_def

lemma assess_eq:
  "\<exists>nt. assess_concentration cx (assess_volume cx (assess_jurisdiction cx (Low, Cleared, REASON_CLEAR, n))) =
    (if risky_jurisdiction cx \<or> concentrated cx then High else if high_volume cx then Medium else Low,
     if risky_jurisdiction cx \<or> concentrated cx \<or> high_volume cx then Flagged else Cleared,
     if risky_jurisdiction cx then REASON_HIGH_RISK_JURISDICTION
     else if high_volume cx then REASON_HIGH_VOLUME
     else if concentrated cx then REASON_DEBTOR_CONCENTRATION else REASON_CLEAR, nt)"
  by (cases "cx_jurisdiction cx"; cases "cx_recentVolume cx"; cases "cx_debtorConcentrationBps cx")
    (auto simp: assess_defs)

lemma screen_blocked:
  assumes "trim address \<noteq> []" "on_block_list rb address"
  shows "\<exists>r. screen rb address cx = Inr r \<and> sr_status r = Blocked \<and> sr_riskTier r = High \<and>
     sr_reasonCode r = REASON_SANCTIONS_HIT"
proof -
  have "address \<noteq> []" using assms(1) by (auto simp: trim_def)
  moreover have "\<exists>e. prefix_hit (toUpperCase address) = Some e"
    if "toUpperCase address \<notin> set rb" "toUpperCase address \<notin> set blocked_fixture"
    using assms(2) that prefix_hit_None [of "toUpperCase address"]
    by (cases "prefix_hit (toUpperCase address)") (auto simp: on_block_list_def)
  ultimately show ?thesis
    using assms(1) by (auto simp: screen_def Let_def)
qed

lemma screen_assessed:
  assumes "trim address \<noteq> []" "\<not> on_block_list rb address"
  shows "\<exists>r. screen rb address cx = Inr r \<and>
     sr_riskTier r = (if risky_jurisdiction cx \<or> concentrated cx then High else if high_volume cx then Medium else Low) \<and>
     sr_status r = (if risky_jurisdiction cx \<or> concentrated cx \<or> high_volume cx then Flagged else Cleared) \<and>
     sr_reasonCode r = (if risky_jurisdiction cx then REASON_HIGH_RISK_JURISDICTION
       else if high_volume cx then REASON_HIGH_VOLUME
       else if concentrated cx then REASON_DEBTOR_CONCENTRATION else REASON_CLEAR)"
proof -
  have ne: "address \<noteq> []" using assms(1) by (auto simp: trim_def)
  have "prefix_hit (toUpperCase address) = None"
    using assms(2) by (simp add: on_block_list_def prefix_hit_None)
  moreover obtain nt where
    "assess_concentration cx (assess_volume cx (assess_jurisdiction cx (Low, Cleared, REASON_CLEAR, ''No sanctions hit''))) =
    (if risky_jurisdiction cx \<or> concentrated cx then High else if high_volume cx then Medium else Low,
     if risky_jurisdiction cx \<or> concentrated cx \<or> high_volume cx then Flagged else Cleared,
     if risky_jurisdiction cx then REASON_HIGH_RISK_JURISDICTION
     else if high_volume cx then REASON_HIGH_VOLUME
     else if concentrated cx then REASON_DEBTOR_CONCENTRATION else REASON_CLEAR, nt)"
    using assess_eq by blast
  ultimately show ?thesis
    using assms ne by (simp add: screen_def Let_def on_block_list_def)
qed

text \<open>More reasons for suspicion never lower the tier.\<close>

lemma screen_tier_mono:
  assumes "trim address \<noteq> []" "screen rb address cx = Inr r" "screen rb address cx' = Inr r'"
    and "risky_jurisdiction cx \<longrightarrow> risky_jurisdiction cx'" "high_volume cx \<longrightarrow> high_volume cx'"
    and "concentrated cx \<longrightarrow> concentrated cx'"
  shows "sr_riskTier r \<le> sr_riskTier r'"
proof (cases "on_block_list rb address")
  case True
  with assms(1-3) have "sr_riskTier r = High" "sr_riskTier r' = High"
    using screen_blocked [OF assms(1) True, of cx] screen_blocked [OF assms(1) True, of cx'] by auto
  then show ?thesis by simp
next
  case False
  with assms show ?thesis
    using screen_assessed [OF assms(1) False, of cx] screen_assessed [OF assms(1) False, of cx']
    by (auto simp: less_eq_RiskTier_def)
qed

lemma screen_error_iff: "(\<exists>e. screen rb address cx = Inl e) \<longleftrightarrow> trim address = []"
proof (cases "trim address = []")
  case True
  then show ?thesis by (simp add: screen_def)
next
  case False
  then show ?thesis
    using screen_blocked [OF False, of rb cx] screen_assessed [OF False, of rb cx] by (cases "on_block_list rb address") auto
qed

lemma screen_result_address: "screen rb address cx = Inr r \<Longrightarrow> sr_address r = address"
  by (auto simp: screen_def Let_def split: if_splits option.splits prod.splits)

lemma runtime_blocked: "toUpperCase a \<in> set rb \<Longrightarrow> toUpperCase a \<in> set (fold addRuntimeBlock as rb)"
  by (induction as arbitrary: rb) (auto simp: addRuntimeBlock_def)

section \<open>Properties\<close>

text \<open>C12: The decision of the screener, for every address and context: an address on the sanctions
  fixture, with the blocked prefix or blocked at run time is always \<open>Blocked\<close> with high risk, and only
  such an address is; any other address is \<open>Cleared\<close> exactly when it meets none of the three risk
  conditions and \<open>Flagged\<close> otherwise, with high risk for a risky jurisdiction or a concentrated debtor
  and medium risk for volume alone.\<close>

theorem screen_decision:
  assumes "trim address \<noteq> []"
  shows "\<exists>r. screen rb address cx = Inr r \<and> sr_address r = address \<and>
     (sr_status r = Blocked \<longleftrightarrow> on_block_list rb address) \<and>
     (sr_status r = Cleared \<longleftrightarrow> \<not> on_block_list rb address \<and> \<not> risky_jurisdiction cx \<and> \<not> high_volume cx \<and> \<not> concentrated cx) \<and>
     (sr_status r \<in> {Blocked, Cleared, Flagged}) \<and>
     (sr_riskTier r = High \<longleftrightarrow> on_block_list rb address \<or> risky_jurisdiction cx \<or> concentrated cx) \<and>
     (sr_riskTier r = Low \<longleftrightarrow> sr_status r = Cleared)"
proof (cases "on_block_list rb address")
  case True
  from screen_blocked [OF assms True, of cx] obtain r where r: "screen rb address cx = Inr r" "sr_status r = Blocked" "sr_riskTier r = High" by blast
  show ?thesis by (rule exI [of _ r]) (use r True screen_result_address in auto)
next
  case False
  from screen_assessed [OF assms False, of cx] obtain r where
    r: "screen rb address cx = Inr r"
       "sr_riskTier r = (if risky_jurisdiction cx \<or> concentrated cx then High else if high_volume cx then Medium else Low)"
       "sr_status r = (if risky_jurisdiction cx \<or> concentrated cx \<or> high_volume cx then Flagged else Cleared)" by blast
  show ?thesis by (rule exI [of _ r]) (use r False screen_result_address in auto)
qed

theorem screen_decision_witness:
  "\<exists>r. screen [] ''GBLOCKED7'' no_context = Inr r \<and> sr_status r = Blocked \<and> sr_riskTier r = High"
proof -
  have "trim ''GBLOCKED7'' \<noteq> []" by code_simp
  moreover have "on_block_list [] ''GBLOCKED7''"
    by (simp add: on_block_list_def toUpperCase_def to_upper_char_def)
  ultimately show ?thesis using screen_decision [of "''GBLOCKED7''" "[]" no_context] by blast
qed

text \<open>A run-time block is final: once an address was blocked, every later screening of it is
  \<open>Blocked\<close>, whatever its letter case, the context, and the blocks added in the meantime.\<close>

theorem runtime_block_final:
  assumes "trim b \<noteq> []" "toUpperCase b = toUpperCase a"
  shows "\<exists>r. screen (fold addRuntimeBlock as (addRuntimeBlock a rb)) b cx = Inr r \<and> sr_status r = Blocked"
proof -
  have "on_block_list (fold addRuntimeBlock as (addRuntimeBlock a rb)) b"
    using assms(2) runtime_blocked [of b "addRuntimeBlock a rb" as] by (simp add: on_block_list_def addRuntimeBlock_def)
  from screen_blocked [OF assms(1) this] show ?thesis by blast
qed

theorem runtime_block_final_witness:
  "\<exists>r. screen (fold addRuntimeBlock [''GOTHER''] (addRuntimeBlock ''gabc'' [])) ''GABC'' no_context = Inr r \<and> sr_status r = Blocked"
proof -
  have "trim ''GABC'' \<noteq> []" "toUpperCase ''GABC'' = toUpperCase ''gabc''" by code_simp+
  then show ?thesis by (rule runtime_block_final)
qed

end
