(* ===== verification/Monitor.thy ===== *)
theory Monitor
  imports Replay
begin

text \<open>
  The transaction monitor of the compliance service (\<open>compliance-service/src/monitor.ts\<close>).  The class
  is the record \<open>monitor\<close>; \<open>Date.now()\<close> is an argument.  Every alert also asks the compliance contract
  for a review: the requests it makes are logged in \<open>reviews\<close> whether or not the chain accepts them
  (the code swallows that error).  \<open>recordDeposit\<close> is split where it awaits, so that its two
  synchronous segments can also be interleaved with other deposits.
\<close>

section \<open>Definitions\<close>

record DepositTick =
  tick_at :: millis
  tick_amount :: int

record MonitorAlert =
  al_id :: string
  al_address :: string
  al_reason :: string
  al_at :: millis
  al_pattern :: string

record MonitorConfig =
  mc_complianceContractId :: string
  mc_poolContractId :: string
  mc_structuringThreshold :: int
  mc_structuringWindowMs :: int
  mc_structuringMaxCount :: int

record monitor =
  deposits :: "DepositTick list dict"
  alerts :: "MonitorAlert list"
  trackedSubjects :: "string list"
  cursor :: string
  mon_running :: bool
  monitor_processed :: int
  hasRescreenHandler :: bool
  reviews :: "(string \<times> string) list"

definition new_monitor :: monitor where
  "new_monitor = \<lparr>deposits = [], alerts = [], trackedSubjects = [], cursor = ''now'',
     mon_running = False, monitor_processed = 0, hasRescreenHandler = False, reviews = []\<rparr>"

definition MAX_ALERTS :: nat where "MAX_ALERTS = 1000"

definition trackSubject :: "string \<Rightarrow> monitor \<Rightarrow> monitor" where
  "trackSubject address m = m\<lparr>trackedSubjects := oset_add address (trackedSubjects m)\<rparr>"

definition setRescreenHandler :: "monitor \<Rightarrow> monitor" where
  "setRescreenHandler m = m\<lparr>hasRescreenHandler := True\<rparr>"

definition monitor_start :: "monitor \<Rightarrow> monitor" where
  "monitor_start m = m\<lparr>mon_running := True\<rparr>"

definition monitor_stop :: "monitor \<Rightarrow> monitor" where
  "monitor_stop m = m\<lparr>mon_running := False\<rparr>"

definition listAlerts :: "monitor \<Rightarrow> MonitorAlert list" where
  "listAlerts m = drop (length (alerts m) - 100) (alerts m)"

definition push_alert :: "MonitorAlert \<Rightarrow> MonitorAlert list \<Rightarrow> MonitorAlert list" where
  "push_alert a l = (let l' = l @ [a] in
     if length l' > MAX_ALERTS then drop (length l' - MAX_ALERTS) l' else l')"

definition requestReviewOnChain :: "MonitorConfig \<Rightarrow> string \<Rightarrow> string \<Rightarrow> monitor \<Rightarrow> monitor" where
  "requestReviewOnChain cfg address reason m =
     (if mc_complianceContractId cfg = [] then m
      else m\<lparr>reviews := reviews m @ [(address, take 200 reason)]\<rparr>)"

definition flag :: "MonitorConfig \<Rightarrow> millis \<Rightarrow> string \<Rightarrow> string \<Rightarrow> string \<Rightarrow> monitor \<Rightarrow> monitor" where
  "flag cfg now address pattern reason m =
     (let alert = \<lparr>al_id = show_int now @ ''-'' @ take 8 address, al_address = address,
                   al_reason = reason, al_at = now, al_pattern = pattern\<rparr>
      in requestReviewOnChain cfg address reason (m\<lparr>alerts := push_alert alert (alerts m)\<rparr>))"

definition ticks_of :: "monitor \<Rightarrow> string \<Rightarrow> DepositTick list" where
  "ticks_of m address = (case omap_get (deposits m) address of Some ts \<Rightarrow> ts | None \<Rightarrow> [])"

definition nearThreshold :: "MonitorConfig \<Rightarrow> DepositTick list \<Rightarrow> DepositTick list" where
  "nearThreshold cfg ticks = filter (\<lambda>t. tick_amount t > 0 \<and> tick_amount t < mc_structuringThreshold cfg) ticks"

text \<open>The segment of \<open>recordDeposit\<close> up to its await: the new state and the number of near-threshold
  deposits when the structuring rule fires.\<close>

definition recordDeposit_begin ::
  "MonitorConfig \<Rightarrow> millis \<Rightarrow> string \<Rightarrow> int \<Rightarrow> monitor \<Rightarrow> monitor \<times> nat option" where
  "recordDeposit_begin cfg now address amount m =
     (let ticks = filter (\<lambda>t. now - tick_at t \<le> mc_structuringWindowMs cfg) (ticks_of m address)
                    @ [\<lparr>tick_at = now, tick_amount = amount\<rparr>];
          m' = m\<lparr>deposits := omap_put address ticks (deposits m)\<rparr>;
          near = nearThreshold cfg ticks
      in (m', if int (length near) \<ge> mc_structuringMaxCount cfg then Some (length near) else None))"

definition recordDeposit_flag :: "MonitorConfig \<Rightarrow> millis \<Rightarrow> string \<Rightarrow> nat \<Rightarrow> monitor \<Rightarrow> monitor" where
  "recordDeposit_flag cfg now address n m =
     flag cfg now address ''structuring''
       (''structuring: '' @ show_nat n @ '' sub-threshold deposits in window'') m"

definition recordDeposit_end :: "string \<Rightarrow> monitor \<Rightarrow> monitor" where
  "recordDeposit_end address m = m\<lparr>deposits := omap_put address [] (deposits m)\<rparr>"

definition recordDeposit :: "MonitorConfig \<Rightarrow> millis \<Rightarrow> string \<Rightarrow> int \<Rightarrow> monitor \<Rightarrow> monitor" where
  "recordDeposit cfg now address amount m =
     (case recordDeposit_begin cfg now address amount m of
        (m', Some n) \<Rightarrow> recordDeposit_end address (recordDeposit_flag cfg now address n m')
      | (m', None) \<Rightarrow> m')"

definition recordWithdraw :: "MonitorConfig \<Rightarrow> millis \<Rightarrow> string \<Rightarrow> int \<Rightarrow> monitor \<Rightarrow> monitor" where
  "recordWithdraw cfg now address amount m =
     (let recent = filter (\<lambda>t. now - tick_at t < 60000) (ticks_of m address) in
      if length recent > 0 then flag cfg now address ''rapid_cycle'' ''rapid deposit-then-withdraw within 60s'' m
      else m)"

definition param_amount :: "js \<Rightarrow> int" where
  "param_amount parameters =
     (if js_truthy parameters then
        (let params = (case parameters of JArr xs \<Rightarrow> xs | p \<Rightarrow> [p]) in
         if length params \<ge> 2 then
           (case js_BigInt (js_String (js_coalesce (elem_at params 1) (JStr ''0''))) of Some n \<Rightarrow> n | None \<Rightarrow> 0)
         else 0)
      else 0)"

definition handleRecord :: "MonitorConfig \<Rightarrow> millis \<Rightarrow> js \<Rightarrow> monitor \<Rightarrow> monitor" where
  "handleRecord cfg now rcd m =
     (if js_String (js_coalesce (js_prop rcd ''type'') (JStr '''')) \<noteq> ''invoke_host_function'' then m
      else
        (let functionName = toLowerCase (js_String (js_coalesce (js_prop rcd ''function'') (JStr '''')));
             sourceAccount = js_String (js_coalesce (js_prop rcd ''source_account'') (JStr ''''));
             contractId = js_String (js_coalesce (js_prop rcd ''contract_id'')
                            (js_coalesce (js_prop rcd ''address'') (JStr '''')));
             amount = param_amount (js_prop rcd ''parameters'')
         in
         if sourceAccount = [] then m
         else if contractId \<noteq> [] \<and> mc_poolContractId cfg \<noteq> [] \<and> contractId = mc_poolContractId cfg then
           (if str_includes functionName ''deposit'' \<and> amount > 0 then recordDeposit cfg now sourceAccount amount m
            else if str_includes functionName ''withdraw'' then recordWithdraw cfg now sourceAccount amount m
            else m)
         else if str_includes functionName ''withdraw'' \<and> contractId = [] then
           recordWithdraw cfg now sourceAccount 0 m
         else m))"

definition poll_record :: "MonitorConfig \<Rightarrow> millis \<Rightarrow> js \<Rightarrow> monitor \<Rightarrow> monitor" where
  "poll_record cfg now rcd m =
     (let m1 = m\<lparr>cursor := js_String (js_coalesce (js_prop rcd ''paging_token'') (JStr (cursor m)))\<rparr>;
          m2 = handleRecord cfg now rcd m1
      in m2\<lparr>monitor_processed := monitor_processed m2 + 1\<rparr>)"

text \<open>One poll: \<open>None\<close> is a response that is not ok; the records come with the clock of their handling.\<close>

definition pollOnce :: "MonitorConfig \<Rightarrow> (js \<times> millis) list option \<Rightarrow> monitor \<Rightarrow> monitor" where
  "pollOnce cfg response m = (case response of
      None \<Rightarrow> m
    | Some records \<Rightarrow> fold (\<lambda>(rcd, now). poll_record cfg now rcd) records m)"

text \<open>An iteration of \<open>pollLoop\<close>: it does nothing once the monitor was stopped.\<close>

definition pollLoop_step :: "MonitorConfig \<Rightarrow> (js \<times> millis) list option \<Rightarrow> monitor \<Rightarrow> monitor" where
  "pollLoop_step cfg response m = (if mon_running m then pollOnce cfg response m else m)"

text \<open>Re-screening: given the record of each subject on chain, or the error that reading it raised, the
  subjects the installed handler is called for, in order.\<close>

definition rescreen_due :: "int \<Rightarrow> jnum \<Rightarrow> js \<Rightarrow> bool" where
  "rescreen_due nowSecs intervalSecs rcd =
     (let expiresAt = js_Number (js_coalesce (js_prop rcd ''expires_at'') (JNum (NInt 0)));
          screenedAt = js_Number (js_coalesce (js_prop rcd ''screened_at'') (JNum (NInt 0)));
          dueAt = (if expiresAt \<noteq> NInt 0 then expiresAt else num_add screenedAt intervalSecs)
      in \<not> num_lt (NInt nowSecs) dueAt)"

definition rescreenOnce ::
  "MonitorConfig \<Rightarrow> (string \<Rightarrow> js result) \<Rightarrow> js result \<Rightarrow> millis \<Rightarrow> monitor \<Rightarrow> string list result" where
  "rescreenOnce cfg readRecord readInterval nowMs m =
     (if trackedSubjects m = [] \<or> \<not> hasRescreenHandler m \<or> mc_complianceContractId cfg = [] then Inr []
      else (case readInterval of
          Inl e \<Rightarrow> Inl e
        | Inr interval \<Rightarrow>
            Inr (filter (\<lambda>address. case readRecord address of
                    Inl e \<Rightarrow> False
                  | Inr rcd \<Rightarrow> js_truthy rcd \<and> rescreen_due (nowMs div 1000) (js_Number interval) rcd)
                 (trackedSubjects m))))"

section \<open>Lemmas\<close>

lemma rev_push_alert: "rev (push_alert a l) = take MAX_ALERTS (a # rev l)"
proof (cases "length (l @ [a]) > MAX_ALERTS")
  case True
  have "rev (drop (length (l @ [a]) - MAX_ALERTS) (l @ [a])) =
      take (length (l @ [a]) - (length (l @ [a]) - MAX_ALERTS)) (rev (l @ [a]))"
    by (rule rev_drop)
  also have "length (l @ [a]) - (length (l @ [a]) - MAX_ALERTS) = MAX_ALERTS"
    using True by simp
  finally show ?thesis using True by (simp add: push_alert_def Let_def)
next
  case False
  then show ?thesis by (simp add: push_alert_def Let_def)
qed

interpretation alert_log: bounded_log MAX_ALERTS push_alert rev
  by unfold_locales (rule rev_push_alert)

lemma flag_simps [simp]:
  "deposits (flag cfg now a p r m) = deposits m"
  "trackedSubjects (flag cfg now a p r m) = trackedSubjects m"
  "cursor (flag cfg now a p r m) = cursor m"
  "monitor_processed (flag cfg now a p r m) = monitor_processed m"
  "alerts (flag cfg now a p r m) = push_alert \<lparr>al_id = show_int now @ ''-'' @ take 8 a, al_address = a,
     al_reason = r, al_at = now, al_pattern = p\<rparr> (alerts m)"
  "reviews (flag cfg now a p r m) =
     (if mc_complianceContractId cfg = [] then reviews m else reviews m @ [(a, take 200 r)])"
  by (simp_all add: flag_def requestReviewOnChain_def Let_def)

lemma length_push_alert: "length (push_alert a l) \<le> MAX_ALERTS"
  using alert_log.push_bounded [of a l] by simp

definition window_ticks :: "MonitorConfig \<Rightarrow> millis \<Rightarrow> string \<Rightarrow> int \<Rightarrow> monitor \<Rightarrow> DepositTick list" where
  "window_ticks cfg now address amount m =
     filter (\<lambda>t. now - tick_at t \<le> mc_structuringWindowMs cfg) (ticks_of m address)
       @ [\<lparr>tick_at = now, tick_amount = amount\<rparr>]"

definition structuring_hit :: "MonitorConfig \<Rightarrow> millis \<Rightarrow> string \<Rightarrow> int \<Rightarrow> monitor \<Rightarrow> bool" where
  "structuring_hit cfg now address amount m \<longleftrightarrow>
     int (length (nearThreshold cfg (window_ticks cfg now address amount m))) \<ge> mc_structuringMaxCount cfg"

lemma recordDeposit_begin_eq:
  "recordDeposit_begin cfg now a amt m =
     (m\<lparr>deposits := omap_put a (window_ticks cfg now a amt m) (deposits m)\<rparr>,
      if structuring_hit cfg now a amt m then Some (length (nearThreshold cfg (window_ticks cfg now a amt m))) else None)"
  by (simp add: recordDeposit_begin_def window_ticks_def structuring_hit_def Let_def)

lemmas record_defs = recordDeposit_def recordDeposit_begin_eq recordDeposit_flag_def recordDeposit_end_def

lemma ticks_of_recordDeposit:
  "ticks_of (recordDeposit cfg now a amt m) b =
     (if b = a then if structuring_hit cfg now a amt m then [] else window_ticks cfg now a amt m else ticks_of m b)"
  by (simp add: record_defs ticks_of_def)

definition structuring_alert :: "MonitorConfig \<Rightarrow> millis \<Rightarrow> string \<Rightarrow> int \<Rightarrow> monitor \<Rightarrow> MonitorAlert" where
  "structuring_alert cfg now a amt m =
     \<lparr>al_id = show_int now @ ''-'' @ take 8 a, al_address = a,
      al_reason = ''structuring: '' @ show_nat (length (nearThreshold cfg (window_ticks cfg now a amt m)))
        @ '' sub-threshold deposits in window'', al_at = now, al_pattern = ''structuring''\<rparr>"

lemma alerts_recordDeposit:
  "alerts (recordDeposit cfg now a amt m) =
     (if structuring_hit cfg now a amt m then push_alert (structuring_alert cfg now a amt m) (alerts m) else alerts m)"
  by (simp add: record_defs structuring_alert_def)

lemma reviews_recordDeposit:
  "reviews (recordDeposit cfg now a amt m) =
     (if structuring_hit cfg now a amt m \<and> mc_complianceContractId cfg \<noteq> []
      then reviews m @ [(a, take 200 (''structuring: '' @ show_nat (length (nearThreshold cfg (window_ticks cfg now a amt m)))
             @ '' sub-threshold deposits in window''))]
      else reviews m)"
  by (simp add: record_defs)

definition recent_deposit :: "millis \<Rightarrow> string \<Rightarrow> monitor \<Rightarrow> bool" where
  "recent_deposit now a m \<longleftrightarrow> (\<exists>t \<in> set (ticks_of m a). now - tick_at t < 60000)"

lemma recordWithdraw_eq:
  "recordWithdraw cfg now a amt m =
     (if recent_deposit now a m then flag cfg now a ''rapid_cycle'' ''rapid deposit-then-withdraw within 60s'' m else m)"
  by (auto simp: recordWithdraw_def recent_deposit_def Let_def filter_empty_conv)

text \<open>The invariant: the alert log is bounded, and a deposit table has one entry per address.\<close>

definition monitor_inv :: "monitor \<Rightarrow> bool" where
  "monitor_inv m \<longleftrightarrow> length (alerts m) \<le> MAX_ALERTS \<and> omap_wf (deposits m) \<and> distinct (trackedSubjects m)"

lemma monitor_inv_recordDeposit: "monitor_inv m \<Longrightarrow> monitor_inv (recordDeposit cfg now a amt m)"
  by (simp add: monitor_inv_def record_defs length_push_alert)

lemma monitor_inv_recordWithdraw: "monitor_inv m \<Longrightarrow> monitor_inv (recordWithdraw cfg now a amt m)"
  by (simp add: monitor_inv_def recordWithdraw_eq length_push_alert)

lemma monitor_inv_handleRecord: "monitor_inv m \<Longrightarrow> monitor_inv (handleRecord cfg now rcd m)"
  by (simp add: handleRecord_def Let_def monitor_inv_recordDeposit monitor_inv_recordWithdraw)

lemma monitor_inv_poll_record:
  assumes "monitor_inv m"
  shows "monitor_inv (poll_record cfg now rcd m)"
proof -
  have "monitor_inv (m\<lparr>cursor := c\<rparr>)" for c using assms by (simp add: monitor_inv_def)
  then have "monitor_inv (handleRecord cfg now rcd (m\<lparr>cursor := c\<rparr>))" for c
    by (rule monitor_inv_handleRecord)
  then show ?thesis by (simp add: poll_record_def Let_def monitor_inv_def)
qed

lemma monitor_inv_pollOnce: "monitor_inv m \<Longrightarrow> monitor_inv (pollOnce cfg response m)"
proof (cases response)
  case (Some records)
  assume "monitor_inv m"
  then have "monitor_inv (fold (\<lambda>(rcd, now). poll_record cfg now rcd) records m)"
    by (induction records arbitrary: m) (auto simp: monitor_inv_poll_record)
  with Some show ?thesis by (simp add: pollOnce_def)
qed (simp add: pollOnce_def)

lemma processed_handleRecord [simp]: "monitor_processed (handleRecord cfg now rcd m) = monitor_processed m"
  by (simp add: handleRecord_def Let_def record_defs recordWithdraw_eq)

lemma cursor_handleRecord [simp]: "cursor (handleRecord cfg now rcd m) = cursor m"
  by (simp add: handleRecord_def Let_def record_defs recordWithdraw_eq)

text \<open>A run of deposits of one address.\<close>

definition deposit_run :: "MonitorConfig \<Rightarrow> string \<Rightarrow> (millis \<times> int) list \<Rightarrow> monitor \<Rightarrow> monitor" where
  "deposit_run cfg a ds m = fold (\<lambda>(now, amt). recordDeposit cfg now a amt) ds m"

definition tick :: "millis \<times> int \<Rightarrow> DepositTick" where
  "tick d = \<lparr>tick_at = fst d, tick_amount = snd d\<rparr>"

lemma deposit_run_snoc: "deposit_run cfg a (ds @ [d]) m = recordDeposit cfg (fst d) a (snd d) (deposit_run cfg a ds m)"
  by (simp add: deposit_run_def split: prod.splits)

text \<open>Deposits of suspicious size that all fall into one window.\<close>

definition structured :: "MonitorConfig \<Rightarrow> (millis \<times> int) list \<Rightarrow> bool" where
  "structured cfg ds \<longleftrightarrow> (\<forall>d \<in> set ds. 0 < snd d \<and> snd d < mc_structuringThreshold cfg) \<and>
     (\<forall>d \<in> set ds. \<forall>e \<in> set ds. fst d - fst e \<le> mc_structuringWindowMs cfg)"

lemma structured_window:
  assumes "structured cfg (ds @ [d])" "ticks_of m a = map tick ds"
  shows "window_ticks cfg (fst d) a (snd d) m = map tick (ds @ [d])"
    and "nearThreshold cfg (window_ticks cfg (fst d) a (snd d) m) = map tick (ds @ [d])"
  using assms by (auto simp: window_ticks_def nearThreshold_def structured_def tick_def filter_id_conv)

lemma structured_run:
  assumes "structured cfg ds" "int (length ds) < mc_structuringMaxCount cfg" "ticks_of m a = []"
  shows "ticks_of (deposit_run cfg a ds m) a = map tick ds \<and> alerts (deposit_run cfg a ds m) = alerts m"
  using assms
proof (induction ds rule: rev_induct)
  case (snoc d ds)
  then have IH: "ticks_of (deposit_run cfg a ds m) a = map tick ds" "alerts (deposit_run cfg a ds m) = alerts m"
    by (auto simp: structured_def)
  note w = structured_window [OF snoc.prems(1) IH(1)]
  have "\<not> structuring_hit cfg (fst d) a (snd d) (deposit_run cfg a ds m)"
    using snoc.prems(2) unfolding structuring_hit_def w(2) by simp
  then show ?case by (simp add: deposit_run_snoc ticks_of_recordDeposit alerts_recordDeposit IH w(1))
qed (simp add: deposit_run_def)

section \<open>Properties\<close>

text \<open>The structuring rule fires exactly at the configured count.  Deposits of one address, each below
  the threshold and all within one window, raise no alert while they are fewer than
  \<open>structuringMaxCount\<close>; the deposit that reaches the count raises one structuring alert for that
  address and resets its window, so that the count starts anew.\<close>

theorem structuring_fires_at_count:
  assumes "structured cfg (ds @ [d])" "ticks_of m a = []" "int (length ds) + 1 = mc_structuringMaxCount cfg"
  shows "alerts (deposit_run cfg a ds m) = alerts m \<and>
     (\<exists>al. alerts (deposit_run cfg a (ds @ [d]) m) = push_alert al (alerts m) \<and>
        al_address al = a \<and> al_pattern al = ''structuring'' \<and> al_at al = fst d) \<and>
     ticks_of (deposit_run cfg a (ds @ [d]) m) a = []"
proof -
  have run: "ticks_of (deposit_run cfg a ds m) a = map tick ds" "alerts (deposit_run cfg a ds m) = alerts m"
    using structured_run [of cfg ds m a] assms by (auto simp: structured_def)
  note w = structured_window [OF assms(1) run(1)]
  have "structuring_hit cfg (fst d) a (snd d) (deposit_run cfg a ds m)"
    using assms(3) unfolding structuring_hit_def w(2) by simp
  then show ?thesis
    by (auto simp: deposit_run_snoc ticks_of_recordDeposit alerts_recordDeposit run structuring_alert_def)
qed

definition sample_monitor_config :: MonitorConfig where
  "sample_monitor_config = \<lparr>mc_complianceContractId = ''CCOMP'', mc_poolContractId = ''CPOOL'',
     mc_structuringThreshold = 10000, mc_structuringWindowMs = 86400000, mc_structuringMaxCount = 3\<rparr>"

theorem structuring_fires_at_count_witness:
  "alerts (deposit_run sample_monitor_config ''GA'' [(0, 9000), (1000, 9500)] new_monitor) = [] \<and>
   (\<exists>al. alerts (deposit_run sample_monitor_config ''GA'' ([(0, 9000), (1000, 9500)] @ [(2000, 9900)]) new_monitor) = [al] \<and>
      al_pattern al = ''structuring'')"
proof -
  have "structured sample_monitor_config ([(0, 9000), (1000, 9500)] @ [(2000, 9900)])"
    by (auto simp: structured_def sample_monitor_config_def)
  moreover have "ticks_of new_monitor ''GA'' = []" by (simp add: ticks_of_def new_monitor_def)
  moreover have "int (length [(0::int, 9000::int), (1000, 9500)]) + 1 = mc_structuringMaxCount sample_monitor_config"
    by (simp add: sample_monitor_config_def)
  moreover have "alerts new_monitor = []" "push_alert x [] = [x]" for x
    by (simp_all add: new_monitor_def push_alert_def MAX_ALERTS_def)
  ultimately show ?thesis
    using structuring_fires_at_count [of sample_monitor_config "[(0, 9000), (1000, 9500)]" "(2000, 9900)" new_monitor "''GA''"]
    by metis
qed

text \<open>A withdrawal is flagged as a rapid cycle exactly when the same address has a recorded deposit less
  than sixty seconds old, and otherwise leaves the monitor unchanged; a deposit that completed a
  structuring pattern no longer counts, since its window was reset.\<close>

theorem rapid_cycle_exact:
  "alerts (recordWithdraw cfg now a amt m) = (if recent_deposit now a m then push_alert
      \<lparr>al_id = show_int now @ ''-'' @ take 8 a, al_address = a,
       al_reason = ''rapid deposit-then-withdraw within 60s'', al_at = now, al_pattern = ''rapid_cycle''\<rparr> (alerts m)
      else alerts m) \<and>
   (\<not> recent_deposit now a m \<longrightarrow> recordWithdraw cfg now a amt m = m) \<and>
   (structuring_hit cfg t a amt' m \<longrightarrow> recordWithdraw cfg now a amt (recordDeposit cfg t a amt' m) = recordDeposit cfg t a amt' m) \<and>
   (\<not> structuring_hit cfg t a amt' m \<and> now - t < 60000 \<longrightarrow> recent_deposit now a (recordDeposit cfg t a amt' m))"
  by (auto simp: recordWithdraw_eq recent_deposit_def ticks_of_recordDeposit window_ticks_def)

theorem rapid_cycle_exact_witness:
  "recent_deposit 30000 ''GA'' (recordDeposit sample_monitor_config 0 ''GA'' 50 new_monitor)"
proof -
  have "\<not> structuring_hit sample_monitor_config 0 ''GA'' 50 new_monitor \<and> 30000 - 0 < (60000::int)"
    by (simp add: structuring_hit_def nearThreshold_def window_ticks_def ticks_of_def new_monitor_def sample_monitor_config_def)
  then show ?thesis using rapid_cycle_exact [of sample_monitor_config 30000 "''GA''" 0 new_monitor 0 50] by blast
qed

text \<open>The alert log never exceeds a thousand entries and the tables stay well formed, whatever the
  sequence of polled operations, and at most a hundred alerts are listed at a time.\<close>

theorem monitor_bounded:
  "length (alerts (fold (pollOnce cfg) responses new_monitor)) \<le> 1000 \<and>
   omap_wf (deposits (fold (pollOnce cfg) responses new_monitor)) \<and>
   length (listAlerts (fold (pollOnce cfg) responses new_monitor)) \<le> 100"
proof -
  have "monitor_inv m \<Longrightarrow> monitor_inv (fold (pollOnce cfg) responses m)" for m
    by (induction responses arbitrary: m) (auto intro: monitor_inv_pollOnce)
  moreover have "monitor_inv new_monitor" by (simp add: monitor_inv_def new_monitor_def)
  ultimately have "monitor_inv (fold (pollOnce cfg) responses new_monitor)" by blast
  then show ?thesis by (simp add: monitor_inv_def MAX_ALERTS_def listAlerts_def)
qed

text \<open>A deposit can be forgotten: when a deposit completes a structuring pattern and another deposit of
  the same address is recorded before its review request returned, the reset that follows the await
  discards the second deposit, while handled one after the other the second deposit is kept.\<close>

theorem deposit_lost_during_await:
  assumes "structuring_hit cfg t1 a x1 m" "1 < mc_structuringMaxCount cfg"
  shows "(case recordDeposit_begin cfg t1 a x1 m of
       (m1, Some n) \<Rightarrow>
         ticks_of (recordDeposit_end a (fst (recordDeposit_begin cfg t2 a x2 (recordDeposit_flag cfg t1 a n m1)))) a = []
     | (m1, None) \<Rightarrow> False) \<and>
     ticks_of (recordDeposit cfg t2 a x2 (recordDeposit cfg t1 a x1 m)) a = [\<lparr>tick_at = t2, tick_amount = x2\<rparr>]"
proof -
  have empty: "ticks_of (recordDeposit cfg t1 a x1 m) a = []" using assms(1) by (simp add: ticks_of_recordDeposit)
  then have w: "window_ticks cfg t2 a x2 (recordDeposit cfg t1 a x1 m) = [\<lparr>tick_at = t2, tick_amount = x2\<rparr>]"
    by (simp add: window_ticks_def)
  have "length (nearThreshold cfg [\<lparr>tick_at = t2, tick_amount = x2\<rparr>]) \<le> 1" by (simp add: nearThreshold_def)
  then have "\<not> structuring_hit cfg t2 a x2 (recordDeposit cfg t1 a x1 m)"
    using assms(2) by (simp add: structuring_hit_def w)
  then have "ticks_of (recordDeposit cfg t2 a x2 (recordDeposit cfg t1 a x1 m)) a = [\<lparr>tick_at = t2, tick_amount = x2\<rparr>]"
    by (simp add: ticks_of_recordDeposit w)
  then show ?thesis
    using assms(1) by (simp add: recordDeposit_begin_eq recordDeposit_end_def ticks_of_def)
qed

theorem deposit_lost_during_await_witness:
  "ticks_of (recordDeposit sample_monitor_config 3000 ''GA'' 9000
     (recordDeposit sample_monitor_config 2000 ''GA'' 9900
       (deposit_run sample_monitor_config ''GA'' [(0, 9000), (1000, 9500)] new_monitor))) ''GA'' =
   [\<lparr>tick_at = 3000, tick_amount = 9000\<rparr>]"
proof -
  have "structuring_hit sample_monitor_config 2000 ''GA'' 9900
      (deposit_run sample_monitor_config ''GA'' [(0, 9000), (1000, 9500)] new_monitor)"
    by code_simp
  moreover have "1 < mc_structuringMaxCount sample_monitor_config" by (simp add: sample_monitor_config_def)
  ultimately show ?thesis using deposit_lost_during_await by blast
qed

end
