(* ===== verification/ComplianceApi.thy ===== *)
theory ComplianceApi
  imports Screener Monitor
begin

text \<open>
  The REST API and entry point of the compliance service (\<open>compliance-service/src/index.ts\<close>).

  The screening provider, the JSON parser and the compliance contract's answer to a submission are
  arguments.  The state is the monitor, when one runs, and the list of screening results submitted to
  the chain.  Addresses in request bodies are strings, as the handlers' types declare; a body whose
  address is another truthy value raises the TypeError the string methods raise on it.
\<close>

section \<open>Definitions\<close>

record ComplianceConfig =
  cc_screenerSecretKey :: string
  cc_complianceContractId :: string
  cc_adminToken :: string
  cc_monitor :: MonitorConfig

record submission =
  sub_address :: string
  sub_status :: ScreenDecision
  sub_reasonCode :: int
  sub_riskTier :: RiskTier
  sub_expiresAt :: int
  sub_notes :: string

record api_state =
  api_monitor :: "monitor option"
  submissions :: "submission list"

record api_env =
  provider :: "js \<Rightarrow> js \<Rightarrow> js \<Rightarrow> ScreenResult result"
  parse_json :: "string \<Rightarrow> js result"
  chain :: "submission \<Rightarrow> string result"

definition constant_time_eq :: "string \<Rightarrow> string \<Rightarrow> bool" where
  "constant_time_eq a b = (length a = length b \<and> list_all (\<lambda>(x, y). x = y) (zip a b))"

definition requireAdmin :: "string \<Rightarrow> js \<Rightarrow> bool result" where
  "requireAdmin adminToken headers =
     (if adminToken = [] then Inr True
      else
        (let header = js_or (js_prop headers ''x-admin-token'') (js_prop headers ''authorization'') in
         if \<not> js_truthy header then Inr False
         else (case (case header of JArr xs \<Rightarrow> elem_at xs 0 | h \<Rightarrow> h) of
             JStr v \<Rightarrow>
               (if constant_time_eq v adminToken then Inr True
                else if startsWith v ''Bearer '' \<and> constant_time_eq (drop 7 v) adminToken then Inr True
                else Inr False)
           | _ \<Rightarrow> Inl (TypeError ''The first argument must be of type string''))))"

definition submitOnChain ::
  "ComplianceConfig \<Rightarrow> api_env \<Rightarrow> millis \<Rightarrow> string \<Rightarrow> ScreenDecision \<Rightarrow> int \<Rightarrow> RiskTier \<Rightarrow> string \<Rightarrow> api_state
    \<Rightarrow> string result \<times> api_state" where
  "submitOnChain cfg env now address status reasonCode riskTier notesHash s =
     (if cc_screenerSecretKey cfg = [] \<or> cc_complianceContractId cfg = [] then
        (Inl (GenericError ''COMPLIANCE_SCREENER_SECRET_KEY and COMPLIANCE_CONTRACT_ID required''), s)
      else
        (let tx = \<lparr>sub_address = address, sub_status = status, sub_reasonCode = reasonCode,
                   sub_riskTier = riskTier, sub_expiresAt = now div 1000 + 180 * 24 * 60 * 60,
                   sub_notes = take 64 notesHash\<rparr>
         in (chain env tx, s\<lparr>submissions := submissions s @ [tx]\<rparr>)))"

definition runRescreen :: "ComplianceConfig \<Rightarrow> api_env \<Rightarrow> millis \<Rightarrow> string \<Rightarrow> api_state \<Rightarrow> string result \<times> api_state" where
  "runRescreen cfg env now address s = (case provider env (JStr address) JUndefined JUndefined of
      Inl e \<Rightarrow> (Inl e, s)
    | Inr r \<Rightarrow> submitOnChain cfg env now address (sr_status r) (sr_reasonCode r) (sr_riskTier r) (sr_notes r) s)"

definition decision_of :: "string \<Rightarrow> ScreenDecision" where
  "decision_of n = (if n = ''Cleared'' then Cleared else if n = ''Flagged'' then Flagged
     else if n = ''Blocked'' then Blocked else if n = ''PendingReview'' then PendingReview else Unscreened)"

definition risk_of :: "string \<Rightarrow> RiskTier" where
  "risk_of n = (if n = ''High'' then High else if n = ''Medium'' then Medium else Low)"

text \<open>The spread of an accepted override over the screener's own result.\<close>

definition apply_override :: "js \<Rightarrow> ScreenResult \<Rightarrow> ScreenResult" where
  "apply_override body r =
     (case js_prop body ''status'' of
        JStr (c # cs) \<Rightarrow>
          r\<lparr>sr_status := decision_of (c # cs),
            sr_reasonCode := (case js_prop body ''reasonCode'' of JNum (NInt n) \<Rightarrow> n | _ \<Rightarrow> sr_reasonCode r),
            sr_riskTier := (case js_prop body ''riskTier'' of JStr t \<Rightarrow> risk_of t | _ \<Rightarrow> sr_riskTier r),
            sr_notes := (case js_prop body ''notesHash'' of JStr h \<Rightarrow> h | _ \<Rightarrow> sr_notes r)\<rparr>
      | _ \<Rightarrow> r)"

definition onchain_notes :: "js \<Rightarrow> ScreenResult \<Rightarrow> string" where
  "onchain_notes body r = (case js_prop body ''notesHash'' of JStr (c # cs) \<Rightarrow> c # cs | _ \<Rightarrow> sr_notes r)"

datatype api_body =
    ErrorBody string
  | HealthBody int "string option" bool
  | AlertsBody "MonitorAlert list"
  | ScreenBody ScreenResult "string option"
  | OkBody
  | NotFoundBody

type_synonym response = "int \<times> api_body"

text \<open>The provider is given the address, the name and the jurisdiction as they stand in the body.\<close>

definition screen_body :: "api_env \<Rightarrow> js \<Rightarrow> ScreenResult result" where
  "screen_body env body = provider env (js_prop body ''address'') (js_prop body ''name'') (js_prop body ''jurisdiction'')"

text \<open>The mock screener on untyped input: a truthy address that is no string has no \<open>trim\<close>; a truthy
  jurisdiction that is no string has no \<open>toUpperCase\<close>, which is called only for an address that is not
  blocked.\<close>

definition mock_provider :: "mock_screener \<Rightarrow> js \<Rightarrow> js \<Rightarrow> js \<Rightarrow> ScreenResult result" where
  "mock_provider rb address name jurisdiction = (case address of
      JStr a \<Rightarrow>
        (case jurisdiction of
           JStr j \<Rightarrow> screen rb a (no_context\<lparr>cx_jurisdiction := Some j\<rparr>)
         | _ \<Rightarrow> (case screen rb a no_context of
               Inl e \<Rightarrow> Inl e
             | Inr r \<Rightarrow> if js_truthy jurisdiction \<and> sr_status r \<noteq> Blocked
                        then Inl (TypeError ''context.jurisdiction.toUpperCase is not a function'') else Inr r))
    | _ \<Rightarrow> if js_truthy address then Inl (TypeError ''address.trim is not a function'')
           else Inl (GenericError ''address is required''))"

definition post_screen :: "ComplianceConfig \<Rightarrow> api_env \<Rightarrow> millis \<Rightarrow> js \<Rightarrow> api_state \<Rightarrow> response result \<times> api_state" where
  "post_screen cfg env now body s =
     (if is_nullish body then (Inl (TypeError ''Cannot read properties of null''), s)
      else if \<not> js_truthy (js_prop body ''address'') then (Inr (400, ErrorBody ''address required''), s)
      else (case validateScreenOverride body of
          Some validationError \<Rightarrow> (Inr (400, ErrorBody validationError), s)
        | None \<Rightarrow>
            (case screen_body env body of
               Inl e \<Rightarrow> (Inl e, s)
             | Inr r0 \<Rightarrow>
                 (let r = apply_override body r0 in
                  if js_truthy (js_prop body ''submitOnChain'') then
                    (case submitOnChain cfg env now (js_String (js_prop body ''address'')) (sr_status r)
                            (sr_reasonCode r) (sr_riskTier r) (onchain_notes body r) s of
                       (Inl e, s') \<Rightarrow> (Inl e, s')
                     | (Inr txHash, s') \<Rightarrow>
                         (Inr (200, ScreenBody r (Some txHash)),
                          s'\<lparr>api_monitor := map_option (trackSubject (js_String (js_prop body ''address''))) (api_monitor s')\<rparr>))
                  else (Inr (200, ScreenBody r None), s)))))"

definition post_deposit :: "ComplianceConfig \<Rightarrow> millis \<Rightarrow> js \<Rightarrow> api_state \<Rightarrow> response result \<times> api_state" where
  "post_deposit cfg now body s =
     (if is_nullish body then (Inl (TypeError ''Cannot read properties of null''), s)
      else if \<not> js_truthy (js_prop body ''address'') \<or> js_prop body ''amount'' = JUndefined then
        (Inr (400, ErrorBody ''address and amount required''), s)
      else (case api_monitor s of
          None \<Rightarrow> (Inr (200, OkBody), s)
        | Some m \<Rightarrow>
            (case js_toBigInt (js_prop body ''amount'') of
               Inl e \<Rightarrow> (Inl e, s)
             | Inr amount \<Rightarrow>
                 (Inr (200, OkBody),
                  s\<lparr>api_monitor := Some (recordDeposit (cc_monitor cfg) now
                      (js_String (js_prop body ''address'')) amount m)\<rparr>))))"

record request =
  rq_method :: string
  rq_path :: string
  rq_headers :: js
  rq_body :: string

text \<open>A guarded route: 401 unless the request is from an administrator.\<close>

definition guarded ::
  "ComplianceConfig \<Rightarrow> request \<Rightarrow> (api_state \<Rightarrow> response result \<times> api_state) \<Rightarrow> api_state \<Rightarrow> response result \<times> api_state" where
  "guarded cfg rq k s = (case requireAdmin (cc_adminToken cfg) (rq_headers rq) of
      Inl e \<Rightarrow> (Inl e, s)
    | Inr ok \<Rightarrow> if ok then k s else (Inr (401, ErrorBody ''unauthorized''), s))"

definition with_body ::
  "api_env \<Rightarrow> request \<Rightarrow> (js \<Rightarrow> api_state \<Rightarrow> response result \<times> api_state) \<Rightarrow> api_state \<Rightarrow> response result \<times> api_state" where
  "with_body env rq k s = (case parse_json env (if rq_body rq = [] then ''{}'' else rq_body rq) of
      Inl e \<Rightarrow> (Inl e, s)
    | Inr body \<Rightarrow> k body s)"

definition route :: "ComplianceConfig \<Rightarrow> api_env \<Rightarrow> millis \<Rightarrow> request \<Rightarrow> api_state \<Rightarrow> response result \<times> api_state" where
  "route cfg env now rq s =
     (if rq_method rq = ''GET'' \<and> rq_path rq = ''/health'' then
        (Inr (200, HealthBody (case api_monitor s of Some m \<Rightarrow> monitor_processed m | None \<Rightarrow> 0)
                     (if cc_complianceContractId cfg = [] then None else Some (cc_complianceContractId cfg))
                     (api_monitor s \<noteq> None)), s)
      else if rq_method rq = ''GET'' \<and> rq_path rq = ''/flags'' then
        guarded cfg rq (\<lambda>s. (Inr (200, AlertsBody (case api_monitor s of Some m \<Rightarrow> listAlerts m | None \<Rightarrow> [])), s)) s
      else if rq_method rq = ''POST'' \<and> rq_path rq = ''/screen'' then
        guarded cfg rq (with_body env rq (post_screen cfg env now)) s
      else if rq_method rq = ''POST'' \<and> rq_path rq = ''/monitor/deposit'' then
        guarded cfg rq (with_body env rq (post_deposit cfg now)) s
      else (Inr (404, NotFoundBody), s))"

text \<open>The server's handler: an exception of a route is a 500 with its message.\<close>

definition handle_request :: "ComplianceConfig \<Rightarrow> api_env \<Rightarrow> millis \<Rightarrow> request \<Rightarrow> api_state \<Rightarrow> response \<times> api_state" where
  "handle_request cfg env now rq s = (case route cfg env now rq s of
      (Inr r, s') \<Rightarrow> (r, s')
    | (Inl e, s') \<Rightarrow> ((500, ErrorBody (error_message e)), s'))"

text \<open>Start-up: a wrong key ends the process; otherwise the monitor is created, started and given the
  re-screening handler when both the key and the contract are configured.\<close>

definition compliance_main :: "ComplianceConfig \<Rightarrow> int + api_state" where
  "compliance_main cfg =
     (if cc_screenerSecretKey cfg \<noteq> [] \<and> \<not> valid_secret_key (cc_screenerSecretKey cfg) then Inl 1
      else if cc_screenerSecretKey cfg \<noteq> [] \<and> cc_complianceContractId cfg \<noteq> [] then
        Inr \<lparr>api_monitor = Some (monitor_start (setRescreenHandler new_monitor)), submissions = []\<rparr>
      else Inr \<lparr>api_monitor = None, submissions = []\<rparr>)"

text \<open>An iteration of the monitor's re-screening loop, with the service's handler: errors of single
  subjects are logged and the next subject follows.\<close>

definition rescreenLoop_step ::
    "ComplianceConfig \<Rightarrow> api_env \<Rightarrow> (string \<Rightarrow> js result) \<Rightarrow> js result \<Rightarrow> millis \<Rightarrow> api_state \<Rightarrow> api_state" where
  "rescreenLoop_step cfg env readRecord readInterval now s = (case api_monitor s of
      None \<Rightarrow> s
    | Some m \<Rightarrow>
        if \<not> mon_running m then s
        else (case rescreenOnce (cc_monitor cfg) readRecord readInterval now m of
            Inl e \<Rightarrow> s
          | Inr due \<Rightarrow> fold (\<lambda>address s. snd (runRescreen cfg env now address s)) due s))"

section \<open>Lemmas\<close>

lemma constant_time_eq_iff: "constant_time_eq a b \<longleftrightarrow> a = b"
proof
  assume "constant_time_eq a b"
  then have len: "length a = length b" and all: "list_all (\<lambda>(x, y). x = y) (zip a b)"
    by (simp_all add: constant_time_eq_def)
  then show "a = b" by (induction a b rule: list_induct2) auto
next
  assume "a = b"
  then show "constant_time_eq a b"
    by (auto simp: constant_time_eq_def list_all_iff in_set_zip)
qed

text \<open>Who is an administrator: with a token set, exactly the bearer of that token.\<close>

lemma requireAdmin_iff:
  assumes "adminToken \<noteq> []"
  shows "requireAdmin adminToken headers = Inr True \<longleftrightarrow>
    (\<exists>v. (case js_or (js_prop headers ''x-admin-token'') (js_prop headers ''authorization'') of
            JArr xs \<Rightarrow> elem_at xs 0 | h \<Rightarrow> h) = JStr v \<and> (v = adminToken \<or> v = ''Bearer '' @ adminToken))"
proof -
  let ?h = "js_or (js_prop headers ''x-admin-token'') (js_prop headers ''authorization'')"
  let ?v = "case ?h of JArr xs \<Rightarrow> elem_at xs 0 | h \<Rightarrow> h"
  have bearer: "startsWith v ''Bearer '' \<and> drop 7 v = adminToken \<longleftrightarrow> v = ''Bearer '' @ adminToken" for v
    by (auto simp: startsWith_prefix prefix_def)
  have truthy: "js_truthy ?h" if "?v = JStr v" "v = adminToken \<or> v = ''Bearer '' @ adminToken" for v
    using that assms by (cases ?h) auto
  show ?thesis
    using assms truthy bearer
    by (cases ?v) (auto simp: requireAdmin_def Let_def constant_time_eq_iff)
qed

lemma validate_None:
  assumes "validateScreenOverride body = None"
  shows "js_prop body ''status'' = JUndefined \<or> isScreenDecision (js_prop body ''status'')"
    and "js_prop body ''riskTier'' = JUndefined \<or> isRiskTier (js_prop body ''riskTier'')"
    and "js_prop body ''reasonCode'' = JUndefined \<or> valid_reason_code (js_prop body ''reasonCode'')"
    and "js_prop body ''notesHash'' = JUndefined \<or> is_string (js_prop body ''notesHash'')"
  using assms by (auto simp: validateScreenOverride_def split: if_splits)

lemma valid_reason_code_iff: "valid_reason_code v \<longleftrightarrow> (\<exists>n. v = JNum (NInt n) \<and> 0 \<le> n \<and> n \<le> U32_MAX)"
proof (cases v)
  case (JNum x)
  then show ?thesis by (cases x) (auto simp: valid_reason_code_def)
qed (auto simp: valid_reason_code_def)

lemma decision_of_name [simp]: "decision_of (decision_name d) = d"
  by (cases d) (simp_all add: decision_of_def)

lemma risk_of_name [simp]: "risk_of (risk_name d) = d"
  by (cases d) (simp_all add: risk_of_def)

text \<open>A request that carries the administrator's token, in the header the handler looks at first.\<close>

definition carries_token :: "string \<Rightarrow> js \<Rightarrow> bool" where
  "carries_token adminToken headers \<longleftrightarrow>
     (\<exists>v. (case js_or (js_prop headers ''x-admin-token'') (js_prop headers ''authorization'') of
            JArr xs \<Rightarrow> elem_at xs 0 | h \<Rightarrow> h) = JStr v \<and> (v = adminToken \<or> v = ''Bearer '' @ adminToken))"

lemma guarded_refused:
  assumes "requireAdmin (cc_adminToken cfg) (rq_headers rq) \<noteq> Inr True"
  shows "\<exists>r. guarded cfg rq k s = (r, s) \<and> (r = Inr (401, ErrorBody ''unauthorized'') \<or> (\<exists>e. r = Inl e))"
  using assms by (cases "requireAdmin (cc_adminToken cfg) (rq_headers rq)") (auto simp: guarded_def)

lemma apply_override_absent: "js_prop body ''status'' = JUndefined \<Longrightarrow> apply_override body r = r"
  by (simp add: apply_override_def)

lemma apply_override_status:
  assumes "js_prop body ''status'' = JStr (decision_name d)"
  shows "sr_status (apply_override body r) = d"
proof -
  obtain c cs where n: "decision_name d = c # cs" by (cases d) simp_all
  have "decision_of (c # cs) = d" using n decision_of_name [of d] by metis
  then show ?thesis using assms n by (simp add: apply_override_def)
qed

lemma apply_override_reasonCode:
  "sr_reasonCode (apply_override body r) = sr_reasonCode r \<or>
   js_prop body ''reasonCode'' = JNum (NInt (sr_reasonCode (apply_override body r)))"
proof (cases "js_prop body ''status''")
  case (JStr st)
  then show ?thesis
    by (cases st) (auto simp: apply_override_def split: js.splits jnum.splits)
qed (simp_all add: apply_override_def)

lemma apply_override_reason:
  assumes "validateScreenOverride body = None" "0 \<le> sr_reasonCode r" "sr_reasonCode r \<le> U32_MAX"
  shows "0 \<le> sr_reasonCode (apply_override body r) \<and> sr_reasonCode (apply_override body r) \<le> U32_MAX"
  using validate_None(3) [OF assms(1)] assms(2,3) apply_override_reasonCode [of body r]
  by (auto simp: valid_reason_code_iff)

lemma mock_reason_codes: "screen rb a cx = Inr r \<Longrightarrow> 0 \<le> sr_reasonCode r \<and> sr_reasonCode r \<le> U32_MAX"
proof -
  assume s: "screen rb a cx = Inr r"
  then have "trim a \<noteq> []" using screen_error_iff [of rb a cx] by auto
  then show ?thesis
    using s screen_blocked [of a rb cx] screen_assessed [of a rb cx]
    by (cases "on_block_list rb a")
      (auto simp: U32_MAX_def REASON_SANCTIONS_HIT_def REASON_HIGH_RISK_JURISDICTION_def REASON_HIGH_VOLUME_def
        REASON_DEBTOR_CONCENTRATION_def REASON_CLEAR_def)
qed

lemma mock_provider_reason:
  "mock_provider rb a n j = Inr r \<Longrightarrow> 0 \<le> sr_reasonCode r \<and> sr_reasonCode r \<le> U32_MAX"
  by (auto simp: mock_provider_def mock_reason_codes split: js.splits sum.splits if_splits)

text \<open>Re-screening submits only for subjects that are tracked and due, each at most once per pass.\<close>

lemma runRescreen_submissions:
  "map sub_address (submissions (snd (runRescreen cfg env now a s))) \<in>
     {map sub_address (submissions s), map sub_address (submissions s) @ [a]}"
  by (auto simp: runRescreen_def submitOnChain_def Let_def split: sum.splits)

lemma fold_rescreen_submissions:
  "\<exists>as. subseq as due \<and> map sub_address (submissions (fold (\<lambda>a s. snd (runRescreen cfg env now a s)) due s)) =
     map sub_address (submissions s) @ as"
proof (induction due arbitrary: s)
  case (Cons a due)
  from Cons [of "snd (runRescreen cfg env now a s)"] obtain as where
    as: "subseq as due" "map sub_address (submissions (fold (\<lambda>a s. snd (runRescreen cfg env now a s)) (a # due) s)) =
      map sub_address (submissions (snd (runRescreen cfg env now a s))) @ as" by auto
  with runRescreen_submissions [of cfg env now a s] show ?case
    by (cases "map sub_address (submissions (snd (runRescreen cfg env now a s))) = map sub_address (submissions s)")
      (auto intro: exI [of _ as] exI [of _ "a # as"])
qed simp

lemma rescreen_submissions:
  "\<exists>as. map sub_address (submissions (rescreenLoop_step cfg env readRecord readInterval now s)) =
       map sub_address (submissions s) @ as \<and>
     (as \<noteq> [] \<longrightarrow> (\<exists>m due. api_monitor s = Some m \<and>
        rescreenOnce (cc_monitor cfg) readRecord readInterval now m = Inr due \<and> subseq as due))"
  using fold_rescreen_submissions [of _ cfg env now s]
  by (auto simp: rescreenLoop_step_def split: option.splits sum.splits)

section \<open>Properties\<close>

text \<open>C11: The administrative routes are closed to everyone else: when an administrator token is configured
  and a request does not carry it, no request changes the service's state or reaches the chain, and
  apart from the health check no request is answered with success.\<close>

theorem admin_gate:
  assumes "cc_adminToken cfg \<noteq> []" "\<not> carries_token (cc_adminToken cfg) (rq_headers rq)"
  shows "snd (handle_request cfg env now rq s) = s \<and>
     (fst (fst (handle_request cfg env now rq s)) \<in> {401, 404, 500} \<or>
      rq_method rq = ''GET'' \<and> rq_path rq = ''/health'')"
proof -
  have no: "requireAdmin (cc_adminToken cfg) (rq_headers rq) \<noteq> Inr True"
    using requireAdmin_iff [OF assms(1)] assms(2) unfolding carries_token_def by blast
  show ?thesis
    using guarded_refused [OF no, of "with_body env rq (post_screen cfg env now)" s]
      guarded_refused [OF no, of "with_body env rq (post_deposit cfg now)" s]
      guarded_refused [OF no, of "\<lambda>s. (Inr (200, AlertsBody (case api_monitor s of Some m \<Rightarrow> listAlerts m | None \<Rightarrow> [])), s)" s]
    by (auto simp: handle_request_def route_def)
qed

definition sample_compliance_config :: ComplianceConfig where
  "sample_compliance_config = \<lparr>cc_screenerSecretKey = ''S'', cc_complianceContractId = ''CCOMP'', cc_adminToken = ''secret'',
     cc_monitor = sample_monitor_config\<rparr>"

definition mock_env :: api_env where
  "mock_env = \<lparr>provider = mock_provider [], parse_json = (\<lambda>_. Inr (JObj [(''address'', JStr ''GA''), (''status'', JStr ''Blocked''),
     (''submitOnChain'', JBool True)])), chain = (\<lambda>_. Inr ''tx'')\<rparr>"

theorem admin_gate_witness:
  "snd (handle_request sample_compliance_config mock_env 0
     \<lparr>rq_method = ''POST'', rq_path = ''/screen'', rq_headers = JObj [(''x-admin-token'', JStr ''guess'')], rq_body = ''x''\<rparr>
     \<lparr>api_monitor = None, submissions = []\<rparr>) = \<lparr>api_monitor = None, submissions = []\<rparr>"
proof -
  have "cc_adminToken sample_compliance_config \<noteq> []" by (simp add: sample_compliance_config_def)
  moreover have "\<not> carries_token (cc_adminToken sample_compliance_config) (JObj [(''x-admin-token'', JStr ''guess'')])"
    by (simp add: carries_token_def sample_compliance_config_def js_or_def)
  ultimately show ?thesis using admin_gate by simp
qed

text \<open>What a screening request may write to the chain: a submission of \<open>POST /screen\<close> is made for the
  requested address and has a reason code that fits an unsigned 32-bit integer and a note of at most 64
  characters, provided the screening provider's own reason codes fit; an override that names an unknown
  status or tier, or a reason code outside that range, submits nothing.\<close>

theorem screen_submission_valid:
  assumes "\<forall>a n j r. provider env a n j = Inr r \<longrightarrow> 0 \<le> sr_reasonCode r \<and> sr_reasonCode r \<le> U32_MAX"
    and "snd (post_screen cfg env now body s) = s'"
  shows "submissions s' = submissions s \<or>
     (\<exists>tx. submissions s' = submissions s @ [tx] \<and> validateScreenOverride body = None \<and>
        sub_address tx = js_String (js_prop body ''address'') \<and>
        0 \<le> sub_reasonCode tx \<and> sub_reasonCode tx \<le> U32_MAX \<and> length (sub_notes tx) \<le> 64)"
proof (cases "validateScreenOverride body = None")
  case False
  then show ?thesis using assms(2) by (auto simp: post_screen_def split: option.splits if_splits)
next
  case valid: True
  show ?thesis
  proof (cases "screen_body env body")
    case (Inl e)
    with assms(2) valid show ?thesis by (auto simp: post_screen_def split: if_splits)
  next
    case (Inr r)
    then have "0 \<le> sr_reasonCode r \<and> sr_reasonCode r \<le> U32_MAX"
      using assms(1) by (auto simp: screen_body_def)
    then have "0 \<le> sr_reasonCode (apply_override body r) \<and> sr_reasonCode (apply_override body r) \<le> U32_MAX"
      using apply_override_reason [OF valid] by blast
    with Inr assms(2) valid show ?thesis
      by (auto simp: post_screen_def submitOnChain_def Let_def split: if_splits sum.splits)
  qed
qed

theorem screen_submission_valid_witness:
  "\<exists>tx. submissions (snd (post_screen sample_compliance_config mock_env 0
       (JObj [(''address'', JStr ''GA''), (''submitOnChain'', JBool True)]) \<lparr>api_monitor = None, submissions = []\<rparr>)) = [tx] \<and>
     sub_reasonCode tx \<le> U32_MAX"
proof -
  let ?body = "JObj [(''address'', JStr ''GA''), (''submitOnChain'', JBool True)]"
  let ?s = "\<lparr>api_monitor = None, submissions = []\<rparr>"
  have p: "\<forall>a n j r. provider mock_env a n j = Inr r \<longrightarrow> 0 \<le> sr_reasonCode r \<and> sr_reasonCode r \<le> U32_MAX"
    using mock_provider_reason by (simp add: mock_env_def)
  have "submissions (snd (post_screen sample_compliance_config mock_env 0 ?body ?s)) \<noteq> submissions ?s" by code_simp
  then show ?thesis using screen_submission_valid [where env = mock_env and cfg = sample_compliance_config and now = 0 and body = ?body and s = ?s, OF p refl] by auto
qed

text \<open>An accepted override decides: when the body names a status, the result carries exactly that status
  whatever the provider answered; when it names none, the provider's result is returned unchanged, and a
  risk tier, reason code or note given without a status is ignored.\<close>

theorem override_decides:
  assumes "post_screen cfg env now body s = (Inr (200, ScreenBody r tx), s')"
  shows "\<exists>r0. screen_body env body = Inr r0 \<and>
     (js_prop body ''status'' = JUndefined \<longrightarrow> r = r0) \<and>
     (js_prop body ''status'' \<noteq> JUndefined \<longrightarrow>
        (\<exists>d. js_prop body ''status'' = JStr (decision_name d) \<and> sr_status r = d))"
proof -
  from assms have v: "validateScreenOverride body = None" and "\<exists>r0. screen_body env body = Inr r0 \<and> r = apply_override body r0"
    by (auto simp: post_screen_def Let_def split: if_splits option.splits sum.splits prod.splits)
  then obtain r0 where r0: "screen_body env body = Inr r0" "r = apply_override body r0" by blast
  have "\<exists>d. js_prop body ''status'' = JStr (decision_name d)" if "js_prop body ''status'' \<noteq> JUndefined"
    using validate_None(1) [OF v] that SCREEN_DECISIONS_iff by (auto simp: isScreenDecision_def split: js.splits)
  then show ?thesis using r0 apply_override_absent apply_override_status by metis
qed

theorem override_decides_witness:
  "\<exists>r tx s'. post_screen sample_compliance_config mock_env 0
     (JObj [(''address'', JStr ''GA''), (''status'', JStr ''PendingReview'')]) \<lparr>api_monitor = None, submissions = []\<rparr> =
       (Inr (200, ScreenBody r tx), s') \<and> sr_status r = PendingReview"
proof -
  let ?body = "JObj [(''address'', JStr ''GA''), (''status'', JStr ''PendingReview'')]"
  let ?s = "\<lparr>api_monitor = None, submissions = []\<rparr>"
  let ?r = "\<lparr>sr_address = ''GA'', sr_status = PendingReview, sr_reasonCode = 0, sr_riskTier = Low,
    sr_matchedList = None, sr_notes = ''No sanctions hit''\<rparr>"
  have run: "post_screen sample_compliance_config mock_env 0 ?body ?s = (Inr (200, ScreenBody ?r None), ?s)"
    by code_simp
  have "decision_name d = ''PendingReview'' \<Longrightarrow> d = PendingReview" for d by (cases d) simp_all
  then have "sr_status ?r = PendingReview" using override_decides [OF run] by fastforce
  with run show ?thesis by blast
qed

end
