(* ===== verification/Parser.thy ===== *)
theory Parser
  imports Prelude
begin

text \<open>
  The event parser of the indexer (\<open>indexer/src/parser.ts\<close>): classification of the emitting contract,
  extraction of topic, value and actor from a Horizon record, and the batch parser.  The contract ids
  read from the environment are the record \<open>contract_env\<close>; a record's \<open>ledger_sequence\<close> is an integer
  or absent, and the clock that fills missing timestamps is an argument.
\<close>

section \<open>Types\<close>

datatype ContractType =
    CT_invoice | CT_pool | CT_credit_score | CT_oracle_registry | CT_compliance | CT_tranche
  | CT_insurance | CT_access_control | CT_arbitration | CT_governance | CT_referral | CT_share | CT_unknown

record IndexedEvent =
  ie_id :: js
  ie_contractId :: js
  ie_contractType :: ContractType
  ie_eventType :: string
  ie_topic :: "string list"
  ie_value :: js
  ie_actor :: "string option"
  ie_ledgerSequence :: ledger
  ie_ledgerCloseAt :: string
  ie_txHash :: string
  ie_createdAt :: string

record contract_env =
  CREDIT_SCORE_CONTRACT_ID :: string
  INVOICE_CONTRACT_ID :: string
  POOL_CONTRACT_ID :: string
  SECONDARY_MARKET_CONTRACT_ID :: string
  ORACLE_REGISTRY_CONTRACT_ID :: string
  COMPLIANCE_CONTRACT_ID :: string
  TRANCHE_CONTRACT_ID :: string
  AUCTION_CONTRACT_ID :: string
  INSURANCE_CONTRACT_ID :: string
  ACCESS_CONTROL_CONTRACT_ID :: string
  ARBITRATION_CONTRACT_ID :: string
  GOVERNANCE_CONTRACT_ID :: string
  REFERRAL_CONTRACT_ID :: string
  SHARE_CONTRACT_ID :: string

definition empty_env :: contract_env where
  "empty_env = \<lparr>CREDIT_SCORE_CONTRACT_ID = [], INVOICE_CONTRACT_ID = [], POOL_CONTRACT_ID = [],
     SECONDARY_MARKET_CONTRACT_ID = [], ORACLE_REGISTRY_CONTRACT_ID = [], COMPLIANCE_CONTRACT_ID = [],
     TRANCHE_CONTRACT_ID = [], AUCTION_CONTRACT_ID = [], INSURANCE_CONTRACT_ID = [],
     ACCESS_CONTROL_CONTRACT_ID = [], ARBITRATION_CONTRACT_ID = [], GOVERNANCE_CONTRACT_ID = [],
     REFERRAL_CONTRACT_ID = [], SHARE_CONTRACT_ID = []\<rparr>"

section \<open>Classification\<close>

definition ORACLE_REGISTRY_EVENT_TYPES :: "string list" where
  "ORACLE_REGISTRY_EVENT_TYPES =
     [''registrd'', ''dreg_req'', ''dreg_done'', ''slashed'', ''rnd_open'', ''voted'', ''consensus'',
      ''rnd_exp'', ''fallback'', ''inv_set'', ''cfg_upd'', ''paused'', ''unpaused'']"

definition SECONDARY_MARKET_EVENT_TYPES :: "string list" where
  "SECONDARY_MARKET_EVENT_TYPES =
     [''lst_open'', ''lst_cncl'', ''lst_buy'', ''ord_open'', ''ord_cncl'', ''ord_fill'', ''ord_exp'']"

definition AUCTION_EVENT_TYPES :: "string list" where
  "AUCTION_EVENT_TYPES =
     [''col_risk'', ''col_safe'', ''auc_liq'', ''risk_cfg'', ''sale_open'', ''sale_take'', ''sale_exp'']"

definition COMPLIANCE_EVENT_TYPES :: "string list" where
  "COMPLIANCE_EVENT_TYPES =
     [''screened'', ''review'', ''scr_prop'', ''scr_reg'', ''scr_del'', ''scr_can'', ''int_set'', ''tl_set'',
      ''paused'', ''unpaused'']"

definition TRANCHE_EVENT_TYPES :: "string list" where
  "TRANCHE_EVENT_TYPES = [''deposit'', ''withdraw'', ''fund'', ''repay'', ''default'', ''config'']"

definition INSURANCE_EVENT_TYPES :: "string list" where
  "INSURANCE_EVENT_TYPES =
     [''init'', ''cfg_set'', ''mcr_set'', ''funded'', ''paused'', ''unpaused'', ''covered'', ''claimed'', ''min_rsv'']"

definition CREDIT_SCORE_EVENT_TYPES :: "string list" where
  "CREDIT_SCORE_EVENT_TYPES =
     [''payment'', ''default'', ''score_cfg'', ''thresh'', ''lt_upd'', ''hist_upd'',
      ''att_reg'', ''att_deact'', ''att_sub'', ''att_disp'', ''att_res'']"

text \<open>\<open>ID && contractId === ID\<close>\<close>

definition id_is :: "string \<Rightarrow> js \<Rightarrow> bool" where
  "id_is configured contractId = (configured \<noteq> [] \<and> contractId = JStr configured)"

definition configured_ids :: "contract_env \<Rightarrow> (string \<times> ContractType) list" where
  "configured_ids env =
     [(CREDIT_SCORE_CONTRACT_ID env, CT_credit_score), (INVOICE_CONTRACT_ID env, CT_invoice),
      (POOL_CONTRACT_ID env, CT_pool), (SECONDARY_MARKET_CONTRACT_ID env, CT_pool),
      (ORACLE_REGISTRY_CONTRACT_ID env, CT_oracle_registry), (COMPLIANCE_CONTRACT_ID env, CT_compliance),
      (TRANCHE_CONTRACT_ID env, CT_tranche), (AUCTION_CONTRACT_ID env, CT_pool),
      (INSURANCE_CONTRACT_ID env, CT_insurance), (ACCESS_CONTROL_CONTRACT_ID env, CT_access_control),
      (ARBITRATION_CONTRACT_ID env, CT_arbitration), (GOVERNANCE_CONTRACT_ID env, CT_governance),
      (REFERRAL_CONTRACT_ID env, CT_referral), (SHARE_CONTRACT_ID env, CT_share)]"

definition classify_by_topic :: "string \<Rightarrow> string \<Rightarrow> ContractType" where
  "classify_by_topic contractType eventType =
     (if contractType = ''CREDIT'' \<or> eventType \<in> set CREDIT_SCORE_EVENT_TYPES then CT_credit_score
      else if contractType = ''ORACLE'' \<or> eventType \<in> set ORACLE_REGISTRY_EVENT_TYPES then CT_oracle_registry
      else if contractType = ''COMPLY'' \<or> eventType \<in> set COMPLIANCE_EVENT_TYPES then CT_compliance
      else if contractType = ''TRANCHE'' \<or> eventType \<in> set TRANCHE_EVENT_TYPES then CT_tranche
      else if contractType = ''INSURNCE'' \<or> eventType \<in> set INSURANCE_EVENT_TYPES then CT_insurance
      else if toLowerCase contractType = ''access_control'' then CT_access_control
      else if toLowerCase contractType = ''arbitration'' then CT_arbitration
      else if toLowerCase contractType = ''governance'' then CT_governance
      else if toLowerCase contractType = ''referral'' then CT_referral
      else if toLowerCase contractType = ''share'' then CT_share
      else if contractType = ''invoice'' then CT_invoice
      else if contractType = ''pool'' then CT_pool
      else if eventType \<in> set SECONDARY_MARKET_EVENT_TYPES then CT_pool
      else if contractType = ''auction'' \<or> eventType \<in> set AUCTION_EVENT_TYPES then CT_pool
      else CT_unknown)"

definition classifyContract :: "contract_env \<Rightarrow> js \<Rightarrow> string \<Rightarrow> string \<Rightarrow> ContractType" where
  "classifyContract env contractId contractType eventType =
     (case find (\<lambda>e. id_is (fst e) contractId) (configured_ids env) of
        Some e \<Rightarrow> snd e
      | None \<Rightarrow> classify_by_topic contractType eventType)"

section \<open>Topic, value and actor\<close>

text \<open>\<open>record.contract?.[0]\<close>: the first element when the field is an array (a character of a string
  has none of the properties read from it).\<close>

definition contract_first :: "js \<Rightarrow> js" where
  "contract_first rcd = (case js_prop rcd ''contract'' of JArr xs \<Rightarrow> elem_at xs 0 | _ \<Rightarrow> JUndefined)"

definition parseTopic :: "js \<Rightarrow> (string \<times> string) option" where
  "parseTopic rcd = (case js_or (js_prop rcd ''topic'') (js_prop (contract_first rcd) ''topic'') of
      JArr [] \<Rightarrow> None
    | JArr [t] \<Rightarrow> Some (js_String t, ''generic'')
    | JArr (t # u # ts) \<Rightarrow> Some (js_String t, js_String u)
    | _ \<Rightarrow> None)"

definition parseValue :: "js \<Rightarrow> js" where
  "parseValue rcd = js_coalesce (js_prop rcd ''value'') (js_coalesce (js_prop (contract_first rcd) ''value'') JNull)"

text \<open>\<open>/^(G[A-Z2-7]{55}|C[A-Z2-7]{55})$/\<close>\<close>

definition address_string :: "string \<Rightarrow> bool" where
  "address_string s = (case s of
      [] \<Rightarrow> False
    | c # cs \<Rightarrow> (c = CHR ''G'' \<or> c = CHR ''C'') \<and> length cs = 55 \<and> list_all is_base32 cs)"

definition isStellarAddress :: "js \<Rightarrow> bool" where
  "isStellarAddress v = (case v of JStr s \<Rightarrow> address_string s | _ \<Rightarrow> False)"

definition address_of :: "js \<Rightarrow> string option" where
  "address_of v = (if isStellarAddress v then Some (js_String v) else None)"

fun first_address :: "js list \<Rightarrow> string option" where
  "first_address [] = None"
| "first_address (v # vs) = (case address_of v of Some a \<Rightarrow> Some a | None \<Rightarrow> first_address vs)"

definition actor_candidates :: "string list" where
  "actor_candidates = [''actor'', ''owner'', ''caller'', ''investor'', ''sme'', ''user'', ''sender'', ''screener'']"

definition object_actor :: "(string \<times> js) list \<Rightarrow> string option" where
  "object_actor kvs =
     first_address (map (js_prop (JObj kvs)) actor_candidates @ map snd kvs)"

text \<open>
  What the typed branches of the tuple schema decide: the positions to try, in order, before the
  generic scan, or \<open>NoActor\<close> for events whose payload carries none.
\<close>

datatype actor_rule = TryPositions "nat list" | NoActor

definition pool_actor_rule :: "string \<Rightarrow> actor_rule" where
  "pool_actor_rule eventType =
     (if eventType \<in> {''deposit'', ''withdraw'', ''repaid'', ''part_pay'', ''yld_claim'', ''wd_full'', ''wd_queue'', ''wd_cncl''}
      then TryPositions [0]
      else if eventType \<in> {''col_dep'', ''col_topup'', ''col_liq''} then TryPositions [1]
      else if eventType = ''set_risk'' then TryPositions [0]
      else if eventType \<in> {''lst_open'', ''lst_cncl''} then TryPositions [2]
      else if eventType = ''lst_buy'' then TryPositions [3]
      else TryPositions [])"

definition auction_actor_rule :: "string \<Rightarrow> actor_rule" where
  "auction_actor_rule eventType =
     (if eventType \<in> {''sale_open'', ''sale_take'', ''sale_exp'', ''auc_liq''} then TryPositions [1]
      else if eventType = ''risk_cfg'' then TryPositions [0]
      else if eventType \<in> {''col_risk'', ''col_safe''} then NoActor
      else TryPositions [])"

definition market_actor_rule :: "string \<Rightarrow> actor_rule" where
  "market_actor_rule eventType =
     (if eventType \<in> {''ord_open'', ''ord_cncl'', ''ord_exp''} then TryPositions [2]
      else if eventType = ''ord_fill'' then TryPositions [3]
      else TryPositions [])"

definition invoice_actor_rule :: "string \<Rightarrow> actor_rule" where
  "invoice_actor_rule eventType =
     (if eventType \<in> {''created'', ''funded'', ''paid'', ''cancelled'', ''resolved''} then TryPositions [1, 0]
      else if eventType \<in> {''paused'', ''unpaused''} then TryPositions [0]
      else TryPositions [])"

definition credit_actor_rule :: "string \<Rightarrow> actor_rule" where
  "credit_actor_rule eventType = (if eventType \<in> {''payment'', ''default''} then TryPositions [0] else TryPositions [])"

definition insurance_actor_rule :: "string \<Rightarrow> actor_rule" where
  "insurance_actor_rule eventType =
     (if eventType = ''covered'' then TryPositions [1]
      else if eventType \<in> {''funded'', ''mcr_set'', ''min_rsv''} then TryPositions [0]
      else if eventType = ''claimed'' then NoActor
      else TryPositions [])"

definition tuple_rule :: "string \<Rightarrow> string \<Rightarrow> actor_rule" where
  "tuple_rule contractType eventType =
     (if contractType = ''POOL'' then pool_actor_rule eventType
      else if contractType = ''auction'' then auction_actor_rule eventType
      else if contractType = ''market'' then market_actor_rule eventType
      else if contractType = ''INVOICE'' then invoice_actor_rule eventType
      else if contractType = ''CREDIT'' then credit_actor_rule eventType
      else if contractType = ''INSURNCE'' then insurance_actor_rule eventType
      else TryPositions [])"

definition tuple_actor :: "string \<Rightarrow> string \<Rightarrow> js list \<Rightarrow> string option" where
  "tuple_actor contractType eventType xs =
     (case tuple_rule contractType eventType of
        NoActor \<Rightarrow> None
      | TryPositions ps \<Rightarrow>
          (case first_address (map (elem_at xs) ps) of
             Some a \<Rightarrow> Some a
           | None \<Rightarrow>
               if contractType = ''TRANCHE'' \<and> eventType \<in> set TRANCHE_EVENT_TYPES then address_of (elem_at xs 0)
               else first_address xs))"

definition extractActor :: "string \<Rightarrow> string \<Rightarrow> js \<Rightarrow> string option" where
  "extractActor contractType eventType v =
     (if \<not> js_truthy v then None
      else (case address_of v of
          Some a \<Rightarrow> Some a
        | None \<Rightarrow>
            (case v of
               JObj kvs \<Rightarrow> object_actor kvs
             | JArr xs \<Rightarrow> if length xs > 0 then tuple_actor contractType eventType xs else None
             | _ \<Rightarrow> None)))"

section \<open>The batch parser\<close>

definition or_now :: "js \<Rightarrow> string \<Rightarrow> string" where
  "or_now v now = js_String (js_or v (JStr now))"

definition ledger_number :: "js \<Rightarrow> ledger" where
  "ledger_number v = (case js_or v (JNum (NInt 0)) of JNum (NInt n) \<Rightarrow> n | _ \<Rightarrow> 0)"

definition parse_record :: "contract_env \<Rightarrow> string \<Rightarrow> js \<Rightarrow> IndexedEvent option" where
  "parse_record env now rcd =
     (if js_prop rcd ''type'' \<noteq> JStr ''contract'' then None
      else (case parseTopic rcd of
          None \<Rightarrow> None
        | Some (contractType, eventType) \<Rightarrow>
            (let contractId = js_or (js_prop rcd ''contract'') (JStr ''''); v = parseValue rcd in
             Some \<lparr>ie_id = js_or (js_prop rcd ''id'') (JStr (js_String (js_prop rcd ''paging_token''))),
                   ie_contractId = contractId,
                   ie_contractType = classifyContract env contractId contractType eventType,
                   ie_eventType = (if eventType = [] then ''unknown'' else eventType),
                   ie_topic = [contractType, eventType],
                   ie_value = v,
                   ie_actor = extractActor contractType eventType v,
                   ie_ledgerSequence = ledger_number (js_prop rcd ''ledger_sequence''),
                   ie_ledgerCloseAt = or_now (js_prop rcd ''created_at'') now,
                   ie_txHash = js_String (js_or (js_prop rcd ''transaction_hash'') (JStr '''')),
                   ie_createdAt = now\<rparr>)))"

definition parseEvents :: "contract_env \<Rightarrow> string \<Rightarrow> js list \<Rightarrow> IndexedEvent list" where
  "parseEvents env now records = List.map_filter (parse_record env now) records"

section \<open>Lemmas\<close>

lemma address_of_Some: "address_of v = Some a \<longleftrightarrow> v = JStr a \<and> address_string a"
  by (cases v) (auto simp: address_of_def isStellarAddress_def)

lemma first_address_Some: "first_address vs = Some a \<Longrightarrow> JStr a \<in> set vs \<and> address_string a"
  by (induction vs) (auto simp: address_of_Some split: option.splits)

lemma first_address_None: "first_address vs = None \<longleftrightarrow> (\<forall>v \<in> set vs. \<not> isStellarAddress v)"
  by (induction vs) (auto simp: address_of_def split: option.splits)

lemma address_string_nonempty: "address_string a \<Longrightarrow> a \<noteq> []"
  by (auto simp: address_string_def)

text \<open>The values an actor may be taken from.\<close>

fun payload_values :: "js \<Rightarrow> js list" where
  "payload_values (JObj kvs) = map snd kvs"
| "payload_values (JArr xs) = xs"
| "payload_values v = [v]"

lemma js_prop_JObj_in: "js_prop (JObj kvs) k = JStr a \<Longrightarrow> JStr a \<in> set (map snd kvs)"
  by (auto split: option.splits dest!: map_of_SomeD intro: rev_image_eqI)

lemma elem_at_in: "elem_at xs i = JStr a \<Longrightarrow> JStr a \<in> set xs"
  by (auto simp: elem_at_def split: if_splits) (metis nth_mem)

lemma object_actor_sound:
  assumes "object_actor kvs = Some a"
  shows "JStr a \<in> set (map snd kvs) \<and> address_string a"
proof -
  from first_address_Some [OF assms [unfolded object_actor_def]]
  have "JStr a \<in> set (map (js_prop (JObj kvs)) actor_candidates @ map snd kvs)" "address_string a" by auto
  then show ?thesis
    by (auto simp del: js_prop.simps dest: js_prop_JObj_in [OF sym])
qed

lemma positions_sound:
  assumes "first_address (map (elem_at xs) ps) = Some a"
  shows "JStr a \<in> set xs \<and> address_string a"
  using first_address_Some [OF assms] by (auto dest: elem_at_in [OF sym])

lemma tuple_actor_sound:
  assumes "tuple_actor ct et xs = Some a"
  shows "JStr a \<in> set xs \<and> address_string a"
proof (cases "tuple_rule ct et")
  case NoActor
  with assms show ?thesis by (simp add: tuple_actor_def)
next
  case (TryPositions ps)
  show ?thesis
  proof (cases "first_address (map (elem_at xs) ps)")
    case None
    with TryPositions assms show ?thesis
      by (auto simp: tuple_actor_def address_of_Some split: if_splits dest: first_address_Some elem_at_in)
  next
    case (Some b)
    with TryPositions assms have "b = a" by (simp add: tuple_actor_def)
    with Some show ?thesis using positions_sound by blast
  qed
qed

lemma find_configured:
  assumes "(i, ct) \<in> set cs" "i \<noteq> []" "distinct (map fst (filter (\<lambda>e. fst e \<noteq> []) cs))"
  shows "find (\<lambda>e. id_is (fst e) (JStr i)) cs = Some (i, ct)"
  using assms
proof (induction cs)
  case (Cons c cs)
  then show ?case
    by (cases c) (auto simp: id_is_def split: if_splits intro: rev_image_eqI)
qed simp

section \<open>Properties\<close>

text \<open>The actor stored with an event is never made up: whenever \<open>extractActor\<close> yields an address, it
  has the format of a Stellar account or contract address and it occurs in the event's payload, as the
  payload itself, as one of its tuple elements or as one of its fields.\<close>

theorem extractActor_sound:
  assumes "extractActor contractType eventType v = Some a"
  shows "address_string a \<and> JStr a \<in> set (payload_values v)"
proof (cases "address_of v")
  case (Some b)
  with assms have "b = a" by (auto simp: extractActor_def split: if_splits)
  with Some show ?thesis by (auto simp: address_of_Some)
next
  case None
  with assms show ?thesis
    by (auto simp: extractActor_def split: if_splits js.splits dest: object_actor_sound tuple_actor_sound)
qed

definition sample_address :: string where
  "sample_address = CHR ''G'' # replicate 55 CHR ''A''"

theorem extractActor_sound_witness:
  "address_string sample_address \<and> JStr sample_address \<in> set (payload_values (JArr [JNum (NInt 7), JStr sample_address]))"
proof -
  have "extractActor ''POOL'' ''deposit'' (JArr [JNum (NInt 7), JStr sample_address]) = Some sample_address"
    by code_simp
  then show ?thesis by (rule extractActor_sound)
qed

text \<open>A configured contract id decides the classification: when the configured ids are distinct, every
  event of a configured contract is classified as that contract's type, whatever topics it carries.\<close>

theorem classify_configured:
  assumes "(i, ct) \<in> set (configured_ids env)" "i \<noteq> []"
    and "distinct (map fst (filter (\<lambda>e. fst e \<noteq> []) (configured_ids env)))"
  shows "classifyContract env (JStr i) contractType eventType = ct"
  using find_configured [OF assms] by (simp add: classifyContract_def)

theorem classify_configured_witness:
  "classifyContract (empty_env\<lparr>TRANCHE_CONTRACT_ID := ''CT''\<rparr>) (JStr ''CT'') ''POOL'' ''paused'' = CT_tranche"
  by (rule classify_configured) (simp_all add: configured_ids_def empty_env_def)

text \<open>Without configured ids the topic alone is ambiguous: a pause of the compliance or insurance
  contract is classified as an oracle registry event, a default of the tranche contract as a credit score
  event, deposits and withdrawals of the pool as tranche events, and events under the upper-case topics
  of the invoice and pool contracts as unknown.\<close>

theorem topic_fallback_misclassifies:
  "classifyContract empty_env c ''COMPLY'' ''paused'' = CT_oracle_registry \<and>
   classifyContract empty_env c ''INSURNCE'' ''unpaused'' = CT_oracle_registry \<and>
   classifyContract empty_env c ''TRANCHE'' ''default'' = CT_credit_score \<and>
   classifyContract empty_env c ''POOL'' ''deposit'' = CT_tranche \<and>
   classifyContract empty_env c ''INVOICE'' ''created'' = CT_unknown \<and>
   classifyContract empty_env c ''POOL'' ''cf_open'' = CT_unknown"
proof -
  have none: "find (\<lambda>e. id_is (fst e) c) (configured_ids empty_env) = None"
    by (simp add: configured_ids_def empty_env_def id_is_def)
  have "classify_by_topic ''COMPLY'' ''paused'' = CT_oracle_registry"
    "classify_by_topic ''INSURNCE'' ''unpaused'' = CT_oracle_registry"
    "classify_by_topic ''TRANCHE'' ''default'' = CT_credit_score"
    "classify_by_topic ''POOL'' ''deposit'' = CT_tranche"
    "classify_by_topic ''INVOICE'' ''created'' = CT_unknown"
    "classify_by_topic ''POOL'' ''cf_open'' = CT_unknown"
    by code_simp+
  with none show ?thesis by (simp add: classifyContract_def)
qed

end
