(* ===== verification/EventStore.thy ===== *)
theory EventStore
  imports Parser
begin

text \<open>
  The event store of the indexer: the \<open>events\<close> table of \<open>indexer/src/db.ts\<close> with its insert and query
  functions, and the hash chain of \<open>indexer/src/reorg.ts\<close> with its rollback.  A table is the list of its
  rows; a statement's effect is the one its SQL text spells out, and a statement that fails leaves the
  table alone.  What the server does with a timestamp (the text the driver reads back, or an input
  error) is the argument \<open>timestamptz\<close>.  Rows of equal ledger sequence come in table order, which the
  SQL leaves open: every statement below holds for every table order.
\<close>

section \<open>Rows and tables\<close>

record event_row =
  er_id :: string
  er_contract_id :: string
  er_contract_type :: string
  er_event_type :: string
  er_topic :: "string list"
  er_value :: js
  er_actor_address :: "string option"
  er_ledger_sequence :: ledger
  er_ledger_close_at :: string
  er_tx_hash :: string
  er_created_at :: string

record LedgerMeta =
  lm_sequence :: ledger
  lm_hash :: string
  lm_prevHash :: string

record reorg_row =
  rr_reorg_ledger :: ledger
  rr_rolled_back_from :: ledger
  rr_events_removed :: nat
  rr_detail :: string

record db =
  db_events :: "event_row list"
  db_ledger_hashes :: "(ledger \<times> (string \<times> string)) list"
  db_reorg_log :: "reorg_row list"

definition empty_db :: db where
  "empty_db = \<lparr>db_events = [], db_ledger_hashes = [], db_reorg_log = []\<rparr>"

definition ct_name :: "ContractType \<Rightarrow> string" where
  "ct_name ct = (case ct of
      CT_invoice \<Rightarrow> ''invoice'' | CT_pool \<Rightarrow> ''pool'' | CT_credit_score \<Rightarrow> ''credit_score''
    | CT_oracle_registry \<Rightarrow> ''oracle_registry'' | CT_compliance \<Rightarrow> ''compliance'' | CT_tranche \<Rightarrow> ''tranche''
    | CT_insurance \<Rightarrow> ''insurance'' | CT_access_control \<Rightarrow> ''access_control''
    | CT_arbitration \<Rightarrow> ''arbitration'' | CT_governance \<Rightarrow> ''governance'' | CT_referral \<Rightarrow> ''referral''
    | CT_share \<Rightarrow> ''share'' | CT_unknown \<Rightarrow> ''unknown'')"

text \<open>\<open>JSON.stringify\<close> throws on a BigInt; what is read back of any other value is \<open>json_norm\<close> of it:
  \<open>undefined\<close> properties disappear, \<open>undefined\<close> elements and non-finite numbers become \<open>null\<close>.\<close>

fun has_bigint :: "js \<Rightarrow> bool" where
  "has_bigint (JBigInt n) = True"
| "has_bigint (JArr xs) = list_ex has_bigint xs"
| "has_bigint (JObj kvs) = list_ex (\<lambda>kv. has_bigint (snd kv)) kvs"
| "has_bigint v = False"

fun is_undefined :: "js \<Rightarrow> bool" where
  "is_undefined JUndefined = True"
| "is_undefined v = False"

fun json_norm :: "js \<Rightarrow> js" where
  "json_norm JUndefined = JNull"
| "json_norm (JNum NNaN) = JNull"
| "json_norm (JNum (NInf b)) = JNull"
| "json_norm (JArr xs) = JArr (map json_norm xs)"
| "json_norm (JObj kvs) =
     JObj (map (\<lambda>kv. (fst kv, json_norm (snd kv))) (filter (\<lambda>kv. \<not> is_undefined (snd kv)) kvs))"
| "json_norm v = v"

section \<open>Inserting events\<close>

definition event_to_row :: "(string \<Rightarrow> string option) \<Rightarrow> IndexedEvent \<Rightarrow> event_row result" where
  "event_to_row timestamptz e =
     (if has_bigint (ie_value e) then Inl (TypeError ''Do not know how to serialize a BigInt'')
      else case (timestamptz (ie_ledgerCloseAt e), timestamptz (ie_createdAt e)) of
          (Some closeAt, Some createdAt) \<Rightarrow>
            Inr \<lparr>er_id = js_String (ie_id e), er_contract_id = js_String (ie_contractId e),
                 er_contract_type = ct_name (ie_contractType e), er_event_type = ie_eventType e,
                 er_topic = ie_topic e, er_value = json_norm (ie_value e), er_actor_address = ie_actor e,
                 er_ledger_sequence = ie_ledgerSequence e, er_ledger_close_at = closeAt,
                 er_tx_hash = ie_txHash e, er_created_at = createdAt\<rparr>
        | _ \<Rightarrow> Inl (GenericError ''invalid input syntax for type timestamp with time zone''))"

fun event_rows :: "(string \<Rightarrow> string option) \<Rightarrow> IndexedEvent list \<Rightarrow> event_row list result" where
  "event_rows timestamptz [] = Inr []"
| "event_rows timestamptz (e # es) = (case event_to_row timestamptz e of
      Inl err \<Rightarrow> Inl err
    | Inr r \<Rightarrow> (case event_rows timestamptz es of Inl err \<Rightarrow> Inl err | Inr rs \<Rightarrow> Inr (r # rs)))"

text \<open>\<open>ON CONFLICT (id) DO NOTHING\<close>, row by row.\<close>

definition insert_row :: "event_row \<Rightarrow> event_row list \<Rightarrow> event_row list" where
  "insert_row r tbl = (if er_id r \<in> set (map er_id tbl) then tbl else tbl @ [r])"

definition insert_rows :: "event_row list \<Rightarrow> event_row list \<Rightarrow> event_row list" where
  "insert_rows rs tbl = fold insert_row rs tbl"

record store_result =
  sr_inserted :: nat
  sr_skipped :: nat

definition storeEvents ::
    "(string \<Rightarrow> string option) \<Rightarrow> IndexedEvent list \<Rightarrow> db \<Rightarrow> store_result result \<times> db" where
  "storeEvents timestamptz events d =
     (if events = [] then (Inr \<lparr>sr_inserted = 0, sr_skipped = 0\<rparr>, d)
      else case event_rows timestamptz events of
          Inl err \<Rightarrow> (Inl err, d)
        | Inr rs \<Rightarrow>
            (let tbl = insert_rows rs (db_events d);
                 inserted = length tbl - length (db_events d)
             in (Inr \<lparr>sr_inserted = inserted, sr_skipped = length events - inserted\<rparr>,
                 d\<lparr>db_events := tbl\<rparr>)))"

section \<open>Querying events\<close>

record GetEventsOptions =
  go_contractId :: "string option"
  go_contractType :: "string option"
  go_eventType :: "string option"
  go_actorAddress :: "string option"
  go_limit :: "nat option"
  go_offset :: "nat option"
  go_afterLedger :: "ledger option"
  go_beforeLedger :: "ledger option"

definition any_events :: GetEventsOptions where
  "any_events = \<lparr>go_contractId = None, go_contractType = None, go_eventType = None, go_actorAddress = None,
     go_limit = None, go_offset = None, go_afterLedger = None, go_beforeLedger = None\<rparr>"

text \<open>\<open>if (v) addClause(column, v)\<close>: an absent or empty value adds no clause, and a \<open>NULL\<close> column
  equals nothing.\<close>

definition column_is :: "string option \<Rightarrow> string option \<Rightarrow> bool" where
  "column_is wanted col = (case wanted of None \<Rightarrow> True | Some w \<Rightarrow> w = [] \<or> col = Some w)"

definition row_matches :: "GetEventsOptions \<Rightarrow> event_row \<Rightarrow> bool" where
  "row_matches opts r \<longleftrightarrow>
     column_is (go_contractId opts) (Some (er_contract_id r)) \<and>
     column_is (go_contractType opts) (Some (er_contract_type r)) \<and>
     column_is (go_eventType opts) (Some (er_event_type r)) \<and>
     column_is (go_actorAddress opts) (er_actor_address r) \<and>
     (case go_afterLedger opts of None \<Rightarrow> True | Some l \<Rightarrow> er_ledger_sequence r > l) \<and>
     (case go_beforeLedger opts of None \<Rightarrow> True | Some l \<Rightarrow> er_ledger_sequence r < l)"

definition order_rows :: "GetEventsOptions \<Rightarrow> event_row list \<Rightarrow> event_row list" where
  "order_rows opts rs =
     (if go_afterLedger opts \<noteq> None then sort_key er_ledger_sequence rs else sort_desc er_ledger_sequence rs)"

definition rowToEvent :: "event_row \<Rightarrow> event_row" where
  "rowToEvent r = r\<lparr>er_contract_type := (if er_contract_type r = [] then ''unknown'' else er_contract_type r)\<rparr>"

definition selected_rows :: "db \<Rightarrow> GetEventsOptions \<Rightarrow> event_row list" where
  "selected_rows d opts = order_rows opts (filter (row_matches opts) (db_events d))"

definition getEvents :: "db \<Rightarrow> GetEventsOptions \<Rightarrow> event_row list" where
  "getEvents d opts =
     (let limit = (case go_limit opts of Some n \<Rightarrow> n | None \<Rightarrow> 50);
          off = (case go_offset opts of Some n \<Rightarrow> n | None \<Rightarrow> 0)
      in map rowToEvent (take limit (drop off (selected_rows d opts))))"

definition getLatestLedger :: "db \<Rightarrow> string option" where
  "getLatestLedger d = (case sort_desc id (map er_ledger_sequence (db_events d)) of
      [] \<Rightarrow> None
    | l # _ \<Rightarrow> Some (show_int l))"

section \<open>The hash chain\<close>

definition fetchLedgerMeta :: "(string \<times> string) result \<Rightarrow> ledger \<Rightarrow> LedgerMeta option" where
  "fetchLedgerMeta answer sequence = (case answer of
      Inl err \<Rightarrow> None
    | Inr (h, p) \<Rightarrow> Some \<lparr>lm_sequence = sequence, lm_hash = h, lm_prevHash = p\<rparr>)"

definition detectReorg :: "db \<Rightarrow> LedgerMeta \<Rightarrow> bool" where
  "detectReorg d meta = (case omap_get (db_ledger_hashes d) (lm_sequence meta - 1) of
      None \<Rightarrow> False
    | Some (h, p) \<Rightarrow> h \<noteq> lm_prevHash meta)"

definition recordLedgerHash :: "LedgerMeta \<Rightarrow> db \<Rightarrow> db" where
  "recordLedgerHash meta d =
     d\<lparr>db_ledger_hashes := omap_put (lm_sequence meta) (lm_hash meta, lm_prevHash meta) (db_ledger_hashes d)\<rparr>"

text \<open>The transaction of \<open>rollbackFrom\<close>: when one of its statements fails (\<open>fault\<close>), it is undone.\<close>

definition rollback_rows :: "ledger \<Rightarrow> db \<Rightarrow> nat \<times> db" where
  "rollback_rows fromLedger d =
     (let kept = filter (\<lambda>r. er_ledger_sequence r < fromLedger) (db_events d);
          removed = length (db_events d) - length kept
      in (removed,
          \<lparr>db_events = kept,
           db_ledger_hashes = filter (\<lambda>e. fst e < fromLedger) (db_ledger_hashes d),
           db_reorg_log = db_reorg_log d @
             [\<lparr>rr_reorg_ledger = fromLedger, rr_rolled_back_from = fromLedger, rr_events_removed = removed,
               rr_detail = ''Rolled back '' @ show_nat removed @ '' event(s) from ledger ''
                 @ show_int fromLedger @ '' onward''\<rparr>]\<rparr>))"

definition rollbackFrom :: "jserror option \<Rightarrow> ledger \<Rightarrow> db \<Rightarrow> nat result \<times> db" where
  "rollbackFrom fault fromLedger d = (case fault of
      Some err \<Rightarrow> (Inl err, d)
    | None \<Rightarrow> (case rollback_rows fromLedger d of (n, d') \<Rightarrow> (Inr n, d')))"

section \<open>Tables with a unique key\<close>

text \<open>
  What the writers of the store rely on: inserting rows one after the other, a row whose key is present
  being dropped.  Everything below is proved from these two equations.
\<close>

locale dedup_table =
  fixes key :: "'r \<Rightarrow> 'k"
    and ins :: "'r list \<Rightarrow> 'r list \<Rightarrow> 'r list"
  assumes ins_Nil: "ins [] t = t"
    and ins_Cons: "ins (r # rs) t = ins rs (if key r \<in> key ` set t then t else t @ [r])"
begin

lemma ins_append: "ins (rs @ ss) t = ins ss (ins rs t)"
  by (induction rs arbitrary: t) (simp_all add: ins_Nil ins_Cons)

lemma ins_extends: "\<exists>xs. ins rs t = t @ xs \<and> set xs \<subseteq> set rs"
proof (induction rs arbitrary: t)
  case Nil
  then show ?case by (simp add: ins_Nil)
next
  case (Cons r rs)
  show ?case
  proof (cases "key r \<in> key ` set t")
    case True
    with Cons [of t] show ?thesis by (auto simp: ins_Cons)
  next
    case False
    from Cons [of "t @ [r]"] obtain xs where "ins rs (t @ [r]) = t @ (r # xs)" "set xs \<subseteq> set rs" by auto
    with False show ?thesis by (auto simp: ins_Cons intro!: exI [of _ "r # xs"])
  qed
qed

lemma ins_rows: "set t \<subseteq> set (ins rs t)" "set (ins rs t) \<subseteq> set t \<union> set rs"
  using ins_extends [of rs t] by auto

lemma ins_length: "length t \<le> length (ins rs t)"
  using ins_extends [of rs t] by auto

lemma ins_keys: "key ` set (ins rs t) = key ` set t \<union> key ` set rs"
  by (induction rs arbitrary: t) (auto simp: ins_Nil ins_Cons)

lemma ins_distinct: "distinct (map key t) \<Longrightarrow> distinct (map key (ins rs t))"
  by (induction rs arbitrary: t) (simp_all add: ins_Nil ins_Cons)

lemma ins_covered: "key ` set rs \<subseteq> key ` set t \<Longrightarrow> ins rs t = t"
  by (induction rs) (simp_all add: ins_Nil ins_Cons)

lemma ins_idem: "ins rs (ins rs t) = ins rs t"
  by (rule ins_covered) (simp add: ins_keys)

lemma ins_added: "length (ins rs t) \<le> length t + length rs"
proof (induction rs arbitrary: t)
  case (Cons r rs)
  from Cons [of t] Cons [of "t @ [r]"] show ?case by (simp add: ins_Cons)
qed (simp add: ins_Nil)

lemma ins_card: "distinct (map key t) \<Longrightarrow> length (ins rs t) = card (key ` set t \<union> key ` set rs)"
  by (metis distinct_card ins_distinct ins_keys length_map set_map)

text \<open>What rows of equal key have in common does not depend on the order of arrival.\<close>

lemma ins_order_irrelevant:
  assumes consistent: "\<And>r s. r \<in> set t \<union> set rs \<Longrightarrow> s \<in> set t \<union> set rs \<Longrightarrow> key r = key s \<Longrightarrow> f r = f s"
    and same: "set ss = set rs"
  shows "f ` set (ins ss t) = f ` set (ins rs t)"
proof -
  have sub: "f ` set (ins as t) \<subseteq> f ` set (ins bs t)" if "set as = set rs" "set bs = set rs" for as bs
  proof
    fix y assume "y \<in> f ` set (ins as t)"
    then obtain r where r: "r \<in> set (ins as t)" "y = f r" by auto
    then have "key r \<in> key ` set (ins bs t)" using that ins_keys [of as t] ins_keys [of bs t] by auto
    then obtain s where s: "s \<in> set (ins bs t)" "key s = key r" by auto
    moreover have "r \<in> set t \<union> set rs" "s \<in> set t \<union> set rs"
      using r(1) s(1) ins_rows(2) [of as t] ins_rows(2) [of bs t] that by auto
    ultimately show "y \<in> f ` set (ins bs t)" using consistent [of r s] r(2) by (metis imageI)
  qed
  from sub [OF same refl] sub [OF refl same] show ?thesis by blast
qed

end

interpretation event_table: dedup_table er_id insert_rows
  by unfold_locales (simp_all add: insert_rows_def insert_row_def)

section \<open>Lemmas on the store\<close>

definition db_inv :: "db \<Rightarrow> bool" where
  "db_inv d \<longleftrightarrow> distinct (map er_id (db_events d)) \<and> omap_wf (db_ledger_hashes d)"

text \<open>Consecutive recorded ledgers are linked.\<close>

definition linked :: "db \<Rightarrow> ledger \<Rightarrow> bool" where
  "linked d n \<longleftrightarrow> (case (omap_get (db_ledger_hashes d) n, omap_get (db_ledger_hashes d) (n + 1)) of
      (Some (h, _), Some (_, p')) \<Rightarrow> p' = h
    | _ \<Rightarrow> True)"

definition hash_chain :: "db \<Rightarrow> bool" where
  "hash_chain d \<longleftrightarrow> (\<forall>n. linked d n)"

lemma event_rows_length: "event_rows ts es = Inr rs \<Longrightarrow> length rs = length es"
  by (induction es arbitrary: rs) (auto split: sum.splits)

lemma event_row_id: "event_to_row ts e = Inr r \<Longrightarrow> er_id r = js_String (ie_id e)"
  by (auto simp: event_to_row_def split: if_splits option.splits)

lemma event_rows_ids: "event_rows ts es = Inr rs \<Longrightarrow> map er_id rs = map (\<lambda>e. js_String (ie_id e)) es"
  by (induction es arbitrary: rs) (auto split: sum.splits dest: event_row_id)

lemma storeEvents_ok:
  assumes "event_rows ts es = Inr rs"
  shows "snd (storeEvents ts es d) = d\<lparr>db_events := insert_rows rs (db_events d)\<rparr>"
  using assms by (cases es) (auto simp: storeEvents_def insert_rows_def Let_def split: sum.splits)

lemma storeEvents_fails: "event_rows ts es = Inl err \<Longrightarrow> storeEvents ts es d = (Inl err, d)"
  by (cases es) (auto simp: storeEvents_def)

lemma storeEvents_other:
  "db_ledger_hashes (snd (storeEvents ts es d)) = db_ledger_hashes d"
  "db_reorg_log (snd (storeEvents ts es d)) = db_reorg_log d"
  by (cases "event_rows ts es"; simp add: storeEvents_fails storeEvents_ok)+

lemma omap_get_filter_key:
  "omap_get (filter (\<lambda>e. P (fst e)) m) k = (if P k then omap_get m k else None)"
  by (induction m) auto

lemma db_inv_store: "db_inv d \<Longrightarrow> db_inv (snd (storeEvents ts es d))"
  by (cases "event_rows ts es")
    (auto simp: storeEvents_fails storeEvents_ok db_inv_def intro: event_table.ins_distinct)

lemma db_inv_record: "db_inv d \<Longrightarrow> db_inv (recordLedgerHash meta d)"
  by (simp add: db_inv_def recordLedgerHash_def)

lemma db_inv_rollback: "db_inv d \<Longrightarrow> db_inv (snd (rollbackFrom fault l d))"
  by (auto simp: db_inv_def rollbackFrom_def rollback_rows_def Let_def omap_wf_def distinct_map_filter
      split: option.splits)

lemma rollback_hashes:
  "omap_get (db_ledger_hashes (snd (rollbackFrom None l d))) n =
     (if n < l then omap_get (db_ledger_hashes d) n else None)"
  by (simp add: rollbackFrom_def rollback_rows_def Let_def omap_get_filter_key [where P = "\<lambda>n. n < l"])

lemma hash_chain_rollback: "hash_chain d \<Longrightarrow> hash_chain (snd (rollbackFrom fault l d))"
proof (cases fault)
  case None
  assume "hash_chain d"
  with None show ?thesis
    by (auto simp: hash_chain_def linked_def rollback_hashes split: option.splits)
qed (simp add: rollbackFrom_def)

lemma hash_chain_record:
  assumes "hash_chain d" and "\<not> detectReorg d meta"
    and "omap_get (db_ledger_hashes d) (lm_sequence meta + 1) = None"
  shows "hash_chain (recordLedgerHash meta d)"
  unfolding hash_chain_def
proof
  fix n
  have "linked d n" using assms(1) by (simp add: hash_chain_def)
  moreover have "n + 1 = lm_sequence meta \<longleftrightarrow> n = lm_sequence meta - 1" by auto
  ultimately show "linked (recordLedgerHash meta d) n"
    using assms(2,3) by (auto simp: linked_def detectReorg_def recordLedgerHash_def split: option.splits)
qed

lemma set_selected_rows: "set (selected_rows d opts) = {r \<in> set (db_events d). row_matches opts r}"
  by (auto simp: selected_rows_def order_rows_def)

lemma length_selected_rows: "length (selected_rows d opts) = length (filter (row_matches opts) (db_events d))"
  by (simp add: selected_rows_def order_rows_def sort_desc_def)

lemma rowToEvent_stored: "er_contract_type r \<noteq> [] \<Longrightarrow> rowToEvent r = r"
  by (simp add: rowToEvent_def)

lemma ct_name_nonempty [simp]: "ct_name ct \<noteq> []"
  by (cases ct) (simp_all add: ct_name_def)

lemma ct_name_inject [simp]: "ct_name a = ct_name b \<longleftrightarrow> a = b"
  by (cases a; cases b) (simp_all add: ct_name_def)

lemma fold_insert_rows: "fold insert_rows bs t = insert_rows (concat bs) t"
  by (induction bs arbitrary: t) (simp_all add: event_table.ins_append event_table.ins_Nil)

section \<open>Properties\<close>

text \<open>C7: Storing a batch of events is idempotent and loses nothing: after a successful \<open>storeEvents\<close> the
  table has its old rows, unchanged and in place, followed by new rows, ids stay unique, every event of
  the batch is present, the two counts are the number of new ids and the rest, and storing the same batch
  again inserts nothing and leaves the table as it is.\<close>

theorem storeEvents_idempotent:
  assumes "storeEvents ts es d = (Inr r, d')" "db_inv d"
  shows "(\<exists>new. db_events d' = db_events d @ new) \<and> db_inv d' \<and>
     set (map er_id (db_events d')) = set (map er_id (db_events d)) \<union> set (map (\<lambda>e. js_String (ie_id e)) es) \<and>
     sr_inserted r = card (set (map (\<lambda>e. js_String (ie_id e)) es) - set (map er_id (db_events d))) \<and>
     sr_inserted r + sr_skipped r = length es \<and>
     storeEvents ts es d' = (Inr \<lparr>sr_inserted = 0, sr_skipped = length es\<rparr>, d')"
proof -
  obtain rs where rs: "event_rows ts es = Inr rs"
    using assms(1) by (cases "event_rows ts es") (auto simp: storeEvents_fails)
  let ?t = "db_events d"
  have d': "d' = d\<lparr>db_events := insert_rows rs ?t\<rparr>" using storeEvents_ok [OF rs, of d] assms(1) by simp
  have ids: "er_id ` set rs = set (map (\<lambda>e. js_String (ie_id e)) es)"
    using event_rows_ids [OF rs] by (metis set_map)
  have dist: "distinct (map er_id ?t)" using assms(2) by (simp add: db_inv_def)
  have r: "r = \<lparr>sr_inserted = length (insert_rows rs ?t) - length ?t,
      sr_skipped = length es - (length (insert_rows rs ?t) - length ?t)\<rparr>"
    using assms(1) rs by (cases es) (auto simp: storeEvents_def Let_def event_table.ins_Nil)
  have "length ?t = card (er_id ` set ?t)" using dist by (metis distinct_card length_map set_map)
  then have "length (insert_rows rs ?t) - length ?t = card (er_id ` set rs - er_id ` set ?t)"
    using event_table.ins_card [OF dist, of rs] card_Un_disjoint [of "er_id ` set ?t" "er_id ` set rs - er_id ` set ?t"]
    by (simp add: Un_Diff_cancel)
  moreover have "length (insert_rows rs ?t) \<le> length ?t + length es"
    using event_table.ins_added [of rs ?t] event_rows_length [OF rs] by simp
  moreover have "storeEvents ts es d' = (Inr \<lparr>sr_inserted = 0, sr_skipped = length es\<rparr>, d')"
    using rs by (cases es) (auto simp: storeEvents_def Let_def d' event_table.ins_idem)
  moreover have "\<exists>new. db_events d' = ?t @ new" using event_table.ins_extends [of rs ?t] d' by auto
  moreover have "db_inv d'" using db_inv_store [OF assms(2), of ts es] assms(1) by simp
  ultimately show ?thesis using ids r event_table.ins_keys [of rs ?t] by (simp add: d')
qed

definition sample_event :: IndexedEvent where
  "sample_event = \<lparr>ie_id = JStr ''e1'', ie_contractId = JStr ''C'', ie_contractType = CT_pool, ie_eventType = ''deposit'',
     ie_topic = [''POOL'', ''deposit''], ie_value = JNull, ie_actor = None, ie_ledgerSequence = 9, ie_ledgerCloseAt = ''t'',
     ie_txHash = ''x'', ie_createdAt = ''t''\<rparr>"

theorem storeEvents_idempotent_witness:
  "\<exists>r d'. storeEvents Some [sample_event, sample_event] empty_db = (Inr r, d') \<and> sr_inserted r + sr_skipped r = 2 \<and>
     storeEvents Some [sample_event, sample_event] d' = (Inr \<lparr>sr_inserted = 0, sr_skipped = 2\<rparr>, d')"
proof -
  obtain r d' where run: "storeEvents Some [sample_event, sample_event] empty_db = (Inr r, d')"
    by (auto simp: storeEvents_def event_to_row_def sample_event_def Let_def)
  have "db_inv empty_db" by (simp add: db_inv_def empty_db_def)
  from storeEvents_idempotent [OF run this] run show ?thesis by auto
qed

text \<open>Concurrent writers need no coordination: when the live tail and a backfill insert the same rows, in
  whatever batches and order, the table ends with the same ids, and with the same rows up to the column
  that records when a writer created its row, provided the writers agree on everything else of an event.\<close>

theorem writers_commute:
  assumes "set (concat bs) = set (concat cs)"
    and "\<forall>r \<in> set t \<union> set (concat bs). \<forall>s \<in> set t \<union> set (concat bs).
       er_id r = er_id s \<longrightarrow> r\<lparr>er_created_at := []\<rparr> = s\<lparr>er_created_at := []\<rparr>"
  shows "er_id ` set (fold insert_rows bs t) = er_id ` set (fold insert_rows cs t) \<and>
     (\<lambda>r. r\<lparr>er_created_at := []\<rparr>) ` set (fold insert_rows bs t) =
     (\<lambda>r. r\<lparr>er_created_at := []\<rparr>) ` set (fold insert_rows cs t)"
proof
  show "er_id ` set (fold insert_rows bs t) = er_id ` set (fold insert_rows cs t)"
    using assms(1) by (simp only: fold_insert_rows event_table.ins_keys)
  show "(\<lambda>r. r\<lparr>er_created_at := []\<rparr>) ` set (fold insert_rows bs t) =
     (\<lambda>r. r\<lparr>er_created_at := []\<rparr>) ` set (fold insert_rows cs t)"
    unfolding fold_insert_rows
  proof (rule event_table.ins_order_irrelevant [OF _ assms(1)])
    fix r s assume "r \<in> set t \<union> set (concat cs)" "s \<in> set t \<union> set (concat cs)" "er_id r = er_id s"
    then show "r\<lparr>er_created_at := []\<rparr> = s\<lparr>er_created_at := []\<rparr>" using assms(2) unfolding assms(1) by blast
  qed
qed

definition stored_at :: "string \<Rightarrow> event_row" where
  "stored_at now = \<lparr>er_id = ''e1'', er_contract_id = ''C'', er_contract_type = ''pool'', er_event_type = ''deposit'',
     er_topic = [''POOL'', ''deposit''], er_value = JNull, er_actor_address = None, er_ledger_sequence = 9,
     er_ledger_close_at = ''t'', er_tx_hash = ''x'', er_created_at = now\<rparr>"

theorem writers_commute_witness:
  "(\<lambda>r. r\<lparr>er_created_at := []\<rparr>) ` set (fold insert_rows [[stored_at ''a''], [stored_at ''b'']] []) =
   (\<lambda>r. r\<lparr>er_created_at := []\<rparr>) ` set (fold insert_rows [[stored_at ''b'', stored_at ''a'']] [])"
proof -
  have "set (concat [[stored_at ''a''], [stored_at ''b'']]) = set (concat [[stored_at ''b'', stored_at ''a'']])" by auto
  moreover have "\<forall>r \<in> set [] \<union> set (concat [[stored_at ''a''], [stored_at ''b'']]).
      \<forall>s \<in> set [] \<union> set (concat [[stored_at ''a''], [stored_at ''b'']]).
       er_id r = er_id s \<longrightarrow> r\<lparr>er_created_at := []\<rparr> = s\<lparr>er_created_at := []\<rparr>"
    by (auto simp: stored_at_def)
  ultimately show ?thesis using writers_commute by blast
qed



end
