(* ===== verification/TrancheApy.thy ===== *)
theory TrancheApy
  imports EventStore Replay
begin

text \<open>
  The realized yield per tranche (\<open>recomputeTrancheApy\<close> and \<open>getTrancheApy\<close> of
  \<open>indexer/src/db.ts\<close>): a pass over the tranche events that pairs fundings with repayments and
  defaults, and the upsert of the derived table in one transaction.  The column type \<open>INTEGER\<close> of the
  basis points bounds what a row may hold: a value outside it fails the transaction.
\<close>

section \<open>The pass over the tranche events\<close>

definition toBigInt :: "js \<Rightarrow> int" where
  "toBigInt v = (case to_BigInt (js_coalesce v (JNum (NInt 0))) of Inr n \<Rightarrow> n | Inl err \<Rightarrow> 0)"

record apy_acc =
  acc_principal :: int
  acc_ret :: int
  acc_closed :: nat

record apy_bucket =
  Senior :: apy_acc
  Junior :: apy_acc

record apy_deployed =
  dep_token :: string
  dep_senior :: int
  dep_junior :: int

record apy_state =
  agg :: "apy_bucket dict"
  deployed :: "apy_deployed dict"

definition no_acc :: apy_acc where
  "no_acc = \<lparr>acc_principal = 0, acc_ret = 0, acc_closed = 0\<rparr>"

definition no_bucket :: apy_bucket where
  "no_bucket = \<lparr>Senior = no_acc, Junior = no_acc\<rparr>"

definition bucket :: "apy_bucket dict \<Rightarrow> string \<Rightarrow> apy_bucket" where
  "bucket m token = (case omap_get m token of Some b \<Rightarrow> b | None \<Rightarrow> no_bucket)"

definition add_acc :: "int \<Rightarrow> int \<Rightarrow> apy_acc \<Rightarrow> apy_acc" where
  "add_acc p r a = \<lparr>acc_principal = acc_principal a + p, acc_ret = acc_ret a + r, acc_closed = acc_closed a + 1\<rparr>"

definition close_position :: "string \<Rightarrow> int \<times> int \<Rightarrow> int \<times> int \<Rightarrow> apy_bucket dict \<Rightarrow> apy_bucket dict" where
  "close_position token senior junior m =
     (let b = bucket m token in
      omap_put token \<lparr>Senior = add_acc (fst senior) (snd senior) (Senior b),
                     Junior = add_acc (fst junior) (snd junior) (Junior b)\<rparr> m)"

definition apy_step :: "event_row \<Rightarrow> apy_state \<Rightarrow> apy_state" where
  "apy_step evt st = (case er_value evt of
      JArr v \<Rightarrow>
        if length v < 4 then st
        else (let invoiceId = js_String (v ! 0); token = js_String (v ! 1);
                  x = toBigInt (v ! 2); y = toBigInt (v ! 3);
                  dep = omap_get (deployed st) invoiceId
          in if er_event_type evt = ''fund'' then
               st\<lparr>deployed := omap_put invoiceId \<lparr>dep_token = token, dep_senior = x, dep_junior = y\<rparr> (deployed st)\<rparr>
             else if er_event_type evt = ''repay'' then
               (case dep of
                  None \<Rightarrow> st
                | Some p \<Rightarrow>
                    st\<lparr>agg := close_position token (dep_senior p, x - dep_senior p) (dep_junior p, y - dep_junior p) (agg st),
                       deployed := omap_del invoiceId (deployed st)\<rparr>)
             else if er_event_type evt = ''default'' then
               st\<lparr>agg := close_position token
                    (case dep of Some p \<Rightarrow> dep_senior p | None \<Rightarrow> y, - y)
                    (case dep of Some p \<Rightarrow> dep_junior p | None \<Rightarrow> x, - x) (agg st),
                  deployed := omap_del invoiceId (deployed st)\<rparr>
             else st)
    | _ \<Rightarrow> st)"

definition apy_pass :: "event_row list \<Rightarrow> apy_state" where
  "apy_pass evts = fold apy_step evts \<lparr>agg = [], deployed = []\<rparr>"

section \<open>The derived table\<close>

datatype TrancheClass = TC_Senior | TC_Junior

definition class_name :: "TrancheClass \<Rightarrow> string" where
  "class_name c = (case c of TC_Senior \<Rightarrow> ''Senior'' | TC_Junior \<Rightarrow> ''Junior'')"

definition class_acc :: "TrancheClass \<Rightarrow> apy_bucket \<Rightarrow> apy_acc" where
  "class_acc c b = (case c of TC_Senior \<Rightarrow> Senior b | TC_Junior \<Rightarrow> Junior b)"

record TrancheApyRow =
  ta_token :: string
  ta_class :: TrancheClass
  ta_principal :: int
  ta_return :: int
  ta_closed :: nat
  ta_apyBps :: int
  ta_updatedAt :: string

definition apyBps :: "apy_acc \<Rightarrow> int" where
  "apyBps a = (if acc_principal a > 0 then bigint_div (acc_ret a * 10000) (acc_principal a) else 0)"

definition apy_row :: "string \<Rightarrow> string \<Rightarrow> TrancheClass \<Rightarrow> apy_bucket \<Rightarrow> TrancheApyRow" where
  "apy_row updatedAt token c b =
     \<lparr>ta_token = token, ta_class = c, ta_principal = acc_principal (class_acc c b),
      ta_return = acc_ret (class_acc c b), ta_closed = acc_closed (class_acc c b),
      ta_apyBps = apyBps (class_acc c b), ta_updatedAt = updatedAt\<rparr>"

definition apy_rows :: "string \<Rightarrow> apy_bucket dict \<Rightarrow> TrancheApyRow list" where
  "apy_rows updatedAt m =
     concat (map (\<lambda>(token, b). [apy_row updatedAt token TC_Senior b, apy_row updatedAt token TC_Junior b]) m)"

type_synonym apy_table = "((string \<times> TrancheClass) \<times> TrancheApyRow) list"

definition int4 :: "int \<Rightarrow> bool" where
  "int4 n \<longleftrightarrow> - (2 ^ 31) \<le> n \<and> n < 2 ^ 31"

definition upsert_apy :: "TrancheApyRow \<Rightarrow> apy_table \<Rightarrow> apy_table" where
  "upsert_apy r tbl = omap_put (ta_token r, ta_class r) r tbl"

definition tranche_events :: "db \<Rightarrow> event_row list" where
  "tranche_events d =
     map rowToEvent (take 100000 (sort_key er_ledger_sequence
       (filter (\<lambda>r. er_contract_type r = ''tranche'') (db_events d))))"

definition recomputeTrancheApy :: "jserror option \<Rightarrow> string \<Rightarrow> db \<Rightarrow> apy_table \<Rightarrow> unit result \<times> apy_table" where
  "recomputeTrancheApy fault updatedAt d tbl = (case fault of
      Some err \<Rightarrow> (Inl err, tbl)
    | None \<Rightarrow>
        (let rows = apy_rows updatedAt (agg (apy_pass (tranche_events d))) in
         if list_all (\<lambda>r. int4 (ta_apyBps r) \<and> int4 (int (ta_closed r))) rows
         then (Inr (), fold upsert_apy rows tbl)
         else (Inl (GenericError ''integer out of range''), tbl)))"

text \<open>\<open>ORDER BY token, tranche_class\<close>, with the server's collation as the argument \<open>rank\<close>.\<close>

definition getTrancheApy :: "(string \<Rightarrow> int) \<Rightarrow> apy_table \<Rightarrow> string option \<Rightarrow> TrancheApyRow list" where
  "getTrancheApy rank tbl token =
     sort_key (\<lambda>r. rank (ta_token r)) (sort_key (\<lambda>r. rank (class_name (ta_class r)))
       (filter (\<lambda>r. column_is token (Some (ta_token r))) (map snd tbl)))"

section \<open>What the pass computes\<close>

text \<open>An event as the pass reads it.\<close>

datatype tranche_event =
    TFund string apy_deployed
  | TRepay string string int int
  | TDefault string string int int

definition tranche_event_of :: "event_row \<Rightarrow> tranche_event option" where
  "tranche_event_of evt = (case er_value evt of
      JArr (i # t # a # b # _) \<Rightarrow>
        if er_event_type evt = ''fund'' then
          Some (TFund (js_String i) \<lparr>dep_token = js_String t, dep_senior = toBigInt a, dep_junior = toBigInt b\<rparr>)
        else if er_event_type evt = ''repay'' then Some (TRepay (js_String i) (js_String t) (toBigInt a) (toBigInt b))
        else if er_event_type evt = ''default'' then Some (TDefault (js_String i) (js_String t) (toBigInt a) (toBigInt b))
        else None
    | _ \<Rightarrow> None)"

text \<open>The open position of an invoice: its last funding, unless a repayment or default came later.\<close>

definition position_write :: "string \<Rightarrow> tranche_event \<Rightarrow> apy_deployed option option" where
  "position_write i e = (case e of
      TFund j p \<Rightarrow> if i = j then Some (Some p) else None
    | TRepay j _ _ _ \<Rightarrow> if i = j then Some None else None
    | TDefault j _ _ _ \<Rightarrow> if i = j then Some None else None)"

definition position_step :: "string \<Rightarrow> tranche_event \<Rightarrow> apy_deployed option \<Rightarrow> apy_deployed option" where
  "position_step i e s = (case position_write i e of None \<Rightarrow> s | Some s' \<Rightarrow> s')"

interpretation position: last_status "position_step i" "position_write i" for i
  by unfold_locales (simp add: position_step_def)

definition open_position :: "tranche_event list \<Rightarrow> string \<Rightarrow> apy_deployed option" where
  "open_position es i = fold (position_step i) es None"

text \<open>What a closing contributes to a tranche of a token: principal and return.\<close>

definition closing :: "tranche_event list \<Rightarrow> tranche_event \<Rightarrow> (string \<times> (int \<times> int) \<times> (int \<times> int)) option" where
  "closing before e = (case e of
      TFund _ _ \<Rightarrow> None
    | TRepay i t x y \<Rightarrow> (case open_position before i of
          None \<Rightarrow> None
        | Some p \<Rightarrow> Some (t, (dep_senior p, x - dep_senior p), (dep_junior p, y - dep_junior p)))
    | TDefault i t x y \<Rightarrow>
        Some (t, (case open_position before i of Some p \<Rightarrow> dep_senior p | None \<Rightarrow> y, - y),
                 (case open_position before i of Some p \<Rightarrow> dep_junior p | None \<Rightarrow> x, - x)))"

definition closings :: "tranche_event list \<Rightarrow> (string \<times> (int \<times> int) \<times> (int \<times> int)) list" where
  "closings es = List.map_filter (\<lambda>n. closing (take n es) (es ! n)) [0..<length es]"

definition closed_for :: "string \<Rightarrow> tranche_event list \<Rightarrow> (string \<times> (int \<times> int) \<times> (int \<times> int)) list" where
  "closed_for token es = filter (\<lambda>c. fst c = token) (closings es)"

definition class_part :: "TrancheClass \<Rightarrow> string \<times> (int \<times> int) \<times> (int \<times> int) \<Rightarrow> int \<times> int" where
  "class_part c k = (case c of TC_Senior \<Rightarrow> fst (snd k) | TC_Junior \<Rightarrow> snd (snd k))"

definition spec_acc :: "TrancheClass \<Rightarrow> (string \<times> (int \<times> int) \<times> (int \<times> int)) list \<Rightarrow> apy_acc" where
  "spec_acc c ks = \<lparr>acc_principal = sum_list (map (\<lambda>k. fst (class_part c k)) ks),
                    acc_ret = sum_list (map (\<lambda>k. snd (class_part c k)) ks),
                    acc_closed = length ks\<rparr>"

section \<open>Lemmas\<close>

lemma closings_snoc: "closings (es @ [e]) = closings es @ (case closing es e of None \<Rightarrow> [] | Some k \<Rightarrow> [k])"
proof -
  have "List.map_filter (\<lambda>n. closing (take n (es @ [e])) ((es @ [e]) ! n)) [0..<length es] = closings es"
    unfolding closings_def by (rule map_filter_cong) (simp add: nth_append)
  then show ?thesis by (simp add: closings_def map_filter_append split: option.splits)
qed

lemma open_position_snoc: "open_position (es @ [e]) i = position_step i e (open_position es i)"
  by (simp add: open_position_def)

lemma spec_acc_snoc:
  "spec_acc c (ks @ [k]) = add_acc (fst (class_part c k)) (snd (class_part c k)) (spec_acc c ks)"
  by (simp add: spec_acc_def add_acc_def)

definition spec_bucket :: "tranche_event list \<Rightarrow> string \<Rightarrow> apy_bucket" where
  "spec_bucket es t = \<lparr>Senior = spec_acc TC_Senior (closed_for t es), Junior = spec_acc TC_Junior (closed_for t es)\<rparr>"

text \<open>One step on the event as it is read.\<close>

definition tranche_step :: "tranche_event \<Rightarrow> apy_state \<Rightarrow> apy_state" where
  "tranche_step e st = (case e of
      TFund i p \<Rightarrow> st\<lparr>deployed := omap_put i p (deployed st)\<rparr>
    | TRepay i t x y \<Rightarrow> (case omap_get (deployed st) i of
          None \<Rightarrow> st
        | Some p \<Rightarrow> st\<lparr>agg := close_position t (dep_senior p, x - dep_senior p) (dep_junior p, y - dep_junior p) (agg st),
                       deployed := omap_del i (deployed st)\<rparr>)
    | TDefault i t x y \<Rightarrow>
        st\<lparr>agg := close_position t
             (case omap_get (deployed st) i of Some p \<Rightarrow> dep_senior p | None \<Rightarrow> y, - y)
             (case omap_get (deployed st) i of Some p \<Rightarrow> dep_junior p | None \<Rightarrow> x, - x) (agg st),
           deployed := omap_del i (deployed st)\<rparr>)"

lemma four_elements: "\<not> length v < 4 \<Longrightarrow> \<exists>a b c d r. v = a # b # c # d # r"
  by (cases v; cases "tl v"; cases "tl (tl v)"; cases "tl (tl (tl v))") auto

lemma apy_step_eq: "apy_step evt st = (case tranche_event_of evt of None \<Rightarrow> st | Some e \<Rightarrow> tranche_step e st)"
proof (cases "\<exists>a b c d r. er_value evt = JArr (a # b # c # d # r)")
  case True
  then show ?thesis
    by (auto simp: apy_step_def tranche_event_of_def tranche_step_def Let_def split: option.splits)
next
  case False
  then have "apy_step evt st = st" using four_elements
    by (fastforce simp: apy_step_def split: js.splits)
  moreover have "tranche_event_of evt = None" using False
    by (auto simp: tranche_event_of_def split: js.splits list.splits)
  ultimately show ?thesis by simp
qed

lemma fold_apy_step: "fold apy_step evts st = fold tranche_step (List.map_filter tranche_event_of evts) st"
  by (induction evts arbitrary: st) (auto simp: apy_step_eq List.map_filter_def split: option.splits)

lemma bucket_close_position:
  "bucket (close_position t s j m) t' =
     (if t' = t then \<lparr>Senior = add_acc (fst s) (snd s) (Senior (bucket m t)),
                      Junior = add_acc (fst j) (snd j) (Junior (bucket m t))\<rparr>
      else bucket m t')"
  by (simp add: bucket_def close_position_def Let_def)

lemma keys_close_position: "fst ` set (close_position t s j m) = insert t (fst ` set m)"
  using omap_keys_put [of t _ m] by (simp add: close_position_def Let_def)

lemma spec_bucket_snoc:
  "spec_bucket (es @ [e]) t = (case closing es e of
      None \<Rightarrow> spec_bucket es t
    | Some (t', s, j) \<Rightarrow>
        if t = t' then \<lparr>Senior = add_acc (fst s) (snd s) (Senior (spec_bucket es t)),
                        Junior = add_acc (fst j) (snd j) (Junior (spec_bucket es t))\<rparr>
        else spec_bucket es t)"
  by (auto simp: spec_bucket_def closed_for_def closings_snoc spec_acc_snoc class_part_def split: option.splits)

definition apy_refines :: "tranche_event list \<Rightarrow> apy_state \<Rightarrow> bool" where
  "apy_refines es st \<longleftrightarrow>
     (\<forall>i. omap_get (deployed st) i = open_position es i) \<and>
     (\<forall>t. bucket (agg st) t = spec_bucket es t) \<and>
     fst ` set (agg st) = fst ` set (closings es) \<and> omap_wf (agg st)"

lemma omap_wf_close_position: "omap_wf m \<Longrightarrow> omap_wf (close_position t s j m)"
  by (simp add: close_position_def Let_def)

lemmas closing_simps =
  closing_def position_step_def position_write_def closings_snoc open_position_snoc spec_bucket_snoc
  bucket_close_position keys_close_position omap_wf_close_position

lemma apy_refines_step:
  assumes "apy_refines es st"
  shows "apy_refines (es @ [e]) (tranche_step e st)"
proof (cases e)
  case (TFund i p)
  with assms show ?thesis by (simp add: apy_refines_def tranche_step_def closing_simps)
next
  case (TRepay i t x y)
  with assms show ?thesis
    by (cases "open_position es i") (simp_all add: apy_refines_def tranche_step_def closing_simps)
next
  case (TDefault i t x y)
  with assms show ?thesis
    by (simp add: apy_refines_def tranche_step_def closing_simps)
qed

lemma apy_refines_fold: "apy_refines es (fold tranche_step es \<lparr>agg = [], deployed = []\<rparr>)"
proof (induction es rule: rev_induct)
  case Nil
  show ?case
    by (simp add: apy_refines_def open_position_def closings_def bucket_def spec_bucket_def no_bucket_def
        closed_for_def spec_acc_def no_acc_def List.map_filter_def)
next
  case (snoc e es)
  from apy_refines_step [OF this] show ?case by simp
qed

lemma apy_refines_pass: "apy_refines (List.map_filter tranche_event_of evts) (apy_pass evts)"
  by (simp add: apy_pass_def fold_apy_step apy_refines_fold)

lemma apyBps_lower: "0 \<le> acc_ret a + acc_principal a \<Longrightarrow> - 10000 \<le> apyBps a"
proof (cases "acc_principal a > 0")
  case True
  assume "0 \<le> acc_ret a + acc_principal a"
  then have "- 10000 * acc_principal a \<le> acc_ret a * 10000" by simp
  from bigint_div_le_mono [OF this True] show ?thesis
    using True bigint_div_mult_self [OF True, of "- 10000"] by (simp add: apyBps_def)
qed (simp add: apyBps_def)

lemma apyBps_upper: "acc_ret a \<le> k * acc_principal a \<Longrightarrow> 0 \<le> k \<Longrightarrow> apyBps a \<le> 10000 * k"
proof (cases "acc_principal a > 0")
  case True
  assume "acc_ret a \<le> k * acc_principal a"
  then have "acc_ret a * 10000 \<le> 10000 * k * acc_principal a" by simp
  from bigint_div_le_mono [OF this True] show ?thesis
    using True bigint_div_mult_self [OF True, of "10000 * k"] by (simp add: apyBps_def)
qed (simp add: apyBps_def)

lemma apy_rows_keys: "map (\<lambda>r. (ta_token r, ta_class r)) (apy_rows now m) = concat (map (\<lambda>(t, b). [(t, TC_Senior), (t, TC_Junior)]) m)"
  by (induction m) (auto simp: apy_rows_def apy_row_def)

lemma distinct_class_keys: "distinct (map fst m) \<Longrightarrow> distinct (concat (map (\<lambda>(t, b). [(t, TC_Senior), (t, TC_Junior)]) m))"
  by (induction m) force+

lemma apy_rows_in:
  assumes "omap_get m t = Some b"
  shows "apy_row now t c b \<in> set (apy_rows now m)"
proof -
  have "(t, b) \<in> set m" using assms by (rule omap_get_Some_in)
  then show ?thesis by (cases c) (force simp: apy_rows_def)+
qed

lemma upsert_apy_fold: "fold upsert_apy rows tbl = fold (\<lambda>r. omap_put (ta_token r, ta_class r) r) rows tbl"
  by (induction rows arbitrary: tbl) (simp_all add: upsert_apy_def)

lemma apy_table_get:
  assumes wf: "omap_wf m"
  shows "omap_get (fold upsert_apy (apy_rows now m) tbl) (t, c) =
     (case omap_get m t of None \<Rightarrow> omap_get tbl (t, c) | Some b \<Rightarrow> Some (apy_row now t c b))"
proof (cases "omap_get m t")
  case None
  then have "t \<notin> fst ` set m" by (simp add: omap_get_None_iff)
  then have "(t, c) \<notin> (\<lambda>r. (ta_token r, ta_class r)) ` set (apy_rows now m)"
    by (auto simp: apy_rows_def apy_row_def image_iff)
  with None show ?thesis by (simp add: upsert_apy_fold omap_get_fold_put_out)
next
  case (Some b)
  have "distinct (map (\<lambda>r. (ta_token r, ta_class r)) (apy_rows now m))"
    unfolding apy_rows_keys by (rule distinct_class_keys) (use wf in \<open>simp add: omap_wf_def\<close>)
  from omap_get_fold_put_in [OF this apy_rows_in [OF Some, of now c], of tbl] Some show ?thesis
    by (simp add: upsert_apy_fold apy_row_def)
qed

text \<open>The tranche events of the store, as the pass reads them.\<close>

definition tranche_history :: "db \<Rightarrow> tranche_event list" where
  "tranche_history d = List.map_filter tranche_event_of (tranche_events d)"

lemma pass_get:
  "omap_get (agg (apy_pass (tranche_events d))) t =
     (if closed_for t (tranche_history d) = [] then None else Some (spec_bucket (tranche_history d) t))"
proof -
  have r: "apy_refines (tranche_history d) (apy_pass (tranche_events d))"
    unfolding tranche_history_def by (rule apy_refines_pass)
  let ?m = "agg (apy_pass (tranche_events d))"
  have "closed_for t (tranche_history d) = [] \<longleftrightarrow> t \<notin> fst ` set (closings (tranche_history d))"
    by (auto simp: closed_for_def filter_empty_conv)
  also have "\<dots> \<longleftrightarrow> omap_get ?m t = None" using r by (simp add: apy_refines_def omap_get_None_iff)
  finally have "closed_for t (tranche_history d) = [] \<longleftrightarrow> omap_get ?m t = None" .
  moreover have "bucket ?m t = spec_bucket (tranche_history d) t" using r by (simp add: apy_refines_def)
  ultimately show ?thesis by (cases "omap_get ?m t") (auto simp: bucket_def)
qed

lemma pass_wf: "omap_wf (agg (apy_pass (tranche_events d)))"
  using apy_refines_pass [of "tranche_events d"] by (simp add: apy_refines_def)

text \<open>Payouts and losses are not negative, and a default loses no more than was deployed.\<close>

definition sane_closing :: "string \<times> (int \<times> int) \<times> (int \<times> int) \<Rightarrow> bool" where
  "sane_closing k \<longleftrightarrow> 0 \<le> fst (fst (snd k)) + snd (fst (snd k)) \<and> 0 \<le> fst (snd (snd k)) + snd (snd (snd k))"

definition sane_event :: "tranche_event list \<Rightarrow> tranche_event \<Rightarrow> bool" where
  "sane_event before e = (case e of
      TFund _ _ \<Rightarrow> True
    | TRepay i t x y \<Rightarrow> 0 \<le> x \<and> 0 \<le> y
    | TDefault i t x y \<Rightarrow> (case open_position before i of
          None \<Rightarrow> True | Some p \<Rightarrow> x \<le> dep_junior p \<and> y \<le> dep_senior p))"

lemma sane_closing_of: "sane_event before e \<Longrightarrow> closing before e = Some k \<Longrightarrow> sane_closing k"
  by (cases e) (auto simp: sane_event_def closing_def sane_closing_def split: option.splits)

definition sane_history :: "tranche_event list \<Rightarrow> bool" where
  "sane_history es \<longleftrightarrow> (\<forall>n < length es. sane_event (take n es) (es ! n))"

lemma sane_closings: "sane_history es \<Longrightarrow> k \<in> set (closings es) \<Longrightarrow> sane_closing k"
proof -
  assume sane: "sane_history es" and "k \<in> set (closings es)"
  then obtain n where "n < length es" "closing (take n es) (es ! n) = Some k"
    by (auto simp: closings_def List.map_filter_def)
  with sane show ?thesis using sane_closing_of [of "take n es" "es ! n" k] by (simp add: sane_history_def)
qed

lemma spec_acc_sane:
  assumes "\<forall>k \<in> set ks. sane_closing k"
  shows "0 \<le> acc_ret (spec_acc c ks) + acc_principal (spec_acc c ks)"
  using assms
proof (induction ks)
  case (Cons k ks)
  then have "0 \<le> fst (class_part c k) + snd (class_part c k)"
    by (cases c) (simp_all add: sane_closing_def class_part_def)
  with Cons show ?case by (simp add: spec_acc_def)
qed (simp add: spec_acc_def)

text \<open>A funded and repaid invoice.\<close>

definition tranche_row :: "string \<Rightarrow> ledger \<Rightarrow> string \<Rightarrow> js list \<Rightarrow> event_row" where
  "tranche_row i l et v = \<lparr>er_id = i, er_contract_id = ''CT'', er_contract_type = ''tranche'', er_event_type = et,
     er_topic = [''TRANCHE'', et], er_value = JArr v, er_actor_address = None, er_ledger_sequence = l,
     er_ledger_close_at = ''t'', er_tx_hash = ''x'', er_created_at = ''t''\<rparr>"

definition sample_tranche_db :: db where
  "sample_tranche_db = empty_db\<lparr>db_events :=
     [tranche_row ''2'' 11 ''repay'' [JStr ''7'', JStr ''USDC'', JStr ''105'', JStr ''60''],
      tranche_row ''1'' 10 ''fund'' [JStr ''7'', JStr ''USDC'', JStr ''100'', JStr ''50'']]\<rparr>"

lemma sample_tranche_events:
  "tranche_events sample_tranche_db =
     [tranche_row ''1'' 10 ''fund'' [JStr ''7'', JStr ''USDC'', JStr ''100'', JStr ''50''],
      tranche_row ''2'' 11 ''repay'' [JStr ''7'', JStr ''USDC'', JStr ''105'', JStr ''60'']]"
  by (simp add: tranche_events_def sample_tranche_db_def tranche_row_def rowToEvent_def)

lemma sample_tranche_history:
  "tranche_history sample_tranche_db =
     [TFund ''7'' \<lparr>dep_token = ''USDC'', dep_senior = 100, dep_junior = 50\<rparr>, TRepay ''7'' ''USDC'' 105 60]"
  unfolding tranche_history_def sample_tranche_events by code_simp

lemma sample_tranche_run:
  "\<exists>tbl'. recomputeTrancheApy None ''now'' sample_tranche_db [] = (Inr (), tbl') \<and> omap_get tbl' (''USDC'', TC_Senior) \<noteq> None"
proof -
  let ?rows = "apy_rows ''now'' (agg (apy_pass
    [tranche_row ''1'' 10 ''fund'' [JStr ''7'', JStr ''USDC'', JStr ''100'', JStr ''50''],
     tranche_row ''2'' 11 ''repay'' [JStr ''7'', JStr ''USDC'', JStr ''105'', JStr ''60'']]))"
  have "list_all (\<lambda>r. int4 (ta_apyBps r) \<and> int4 (int (ta_closed r))) ?rows" by code_simp
  moreover have "omap_get (fold upsert_apy ?rows []) (''USDC'', TC_Senior) \<noteq> None" by code_simp
  ultimately show ?thesis by (simp add: recomputeTrancheApy_def sample_tranche_events Let_def)
qed

section \<open>Properties\<close>

text \<open>C10: What the yield table holds after a successful recomputation.  For every token with a closed
  position, both tranche rows are the sums over exactly the closed positions of that token: principal and
  return of each repayment against the funding it closes and of each default against its losses, counted
  once, with the yield in basis points truncated towards zero.  Rows of every other token are left as
  they were.\<close>

theorem tranche_apy_refines_history:
  assumes "recomputeTrancheApy None now d tbl = (Inr (), tbl')"
  shows "omap_get tbl' (t, c) =
     (let ks = closed_for t (tranche_history d) in
      if ks = [] then omap_get tbl (t, c)
      else Some \<lparr>ta_token = t, ta_class = c,
        ta_principal = sum_list (map (\<lambda>k. fst (class_part c k)) ks),
        ta_return = sum_list (map (\<lambda>k. snd (class_part c k)) ks),
        ta_closed = length ks, ta_apyBps = apyBps (spec_acc c ks), ta_updatedAt = now\<rparr>)"
proof -
  have "tbl' = fold upsert_apy (apy_rows now (agg (apy_pass (tranche_events d)))) tbl"
    using assms by (auto simp: recomputeTrancheApy_def Let_def split: if_splits)
  then show ?thesis
    by (cases c) (simp_all add: apy_table_get [OF pass_wf] pass_get Let_def apy_row_def class_acc_def spec_bucket_def spec_acc_def)
qed

theorem tranche_apy_refines_history_witness:
  "\<exists>tbl' r. recomputeTrancheApy None ''now'' sample_tranche_db [] = (Inr (), tbl') \<and>
     omap_get tbl' (''USDC'', TC_Junior) = Some r \<and> ta_return r = 10"
proof -
  obtain tbl' where run: "recomputeTrancheApy None ''now'' sample_tranche_db [] = (Inr (), tbl')"
    using sample_tranche_run by blast
  have "closed_for ''USDC'' (tranche_history sample_tranche_db) = [(''USDC'', (100, 5), (50, 10))]"
    unfolding sample_tranche_history by code_simp
  then show ?thesis
    using tranche_apy_refines_history [OF run, of "''USDC''" TC_Junior] run by (auto simp: Let_def class_part_def)
qed

text \<open>The realized yield never falls below minus one hundred percent: when payouts are not negative and
  no default loses more than the position's deployed amount, every row a recomputation writes has at
  least -10000 basis points.\<close>

theorem tranche_apy_lower_bound:
  assumes "recomputeTrancheApy None now d [] = (Inr (), tbl')" "sane_history (tranche_history d)"
    and "omap_get tbl' (t, c) = Some r"
  shows "- 10000 \<le> ta_apyBps r"
proof -
  let ?ks = "closed_for t (tranche_history d)"
  have "tbl' = fold upsert_apy (apy_rows now (agg (apy_pass (tranche_events d)))) []"
    using assms(1) by (auto simp: recomputeTrancheApy_def Let_def split: if_splits)
  with assms(3) have "ta_apyBps r = apyBps (spec_acc c ?ks)"
    by (cases c) (auto simp: apy_table_get [OF pass_wf] pass_get apy_row_def class_acc_def spec_bucket_def split: if_splits)
  moreover have "\<forall>k \<in> set ?ks. sane_closing k" using sane_closings [OF assms(2)] by (simp add: closed_for_def)
  ultimately show ?thesis using apyBps_lower [OF spec_acc_sane] by metis
qed

theorem tranche_apy_lower_bound_witness:
  "\<exists>tbl' r. recomputeTrancheApy None ''now'' sample_tranche_db [] = (Inr (), tbl') \<and>
     omap_get tbl' (''USDC'', TC_Senior) = Some r \<and> - 10000 \<le> ta_apyBps r"
proof -
  obtain tbl' r where run: "recomputeTrancheApy None ''now'' sample_tranche_db [] = (Inr (), tbl')"
    and r: "omap_get tbl' (''USDC'', TC_Senior) = Some r"
    using sample_tranche_run by blast
  have "sane_history (tranche_history sample_tranche_db)"
    by (auto simp: sample_tranche_history sane_history_def sane_event_def less_Suc_eq)
  then show ?thesis using tranche_apy_lower_bound [OF run _ r] run r by blast
qed

end
