(* ===== verification/RiskSignals.thy ===== *)
theory RiskSignals
  imports TrancheApy
begin

text \<open>
  The derived risk signals of an SME (\<open>recomputeSmeRiskSignals\<close> and \<open>getSmeRiskSignals\<close> of
  \<open>indexer/src/db.ts\<close>): volume per debtor and invoice sizes, accumulated over the \<open>created\<close> events of
  the invoice contract, and the upsert of the derived table in one transaction.
\<close>

section \<open>Accumulation\<close>

record risk_acc =
  ra_total :: int
  ra_amounts :: "int list"
  ra_byDebtor :: "int dict"

definition no_risk_acc :: risk_acc where
  "no_risk_acc = \<lparr>ra_total = 0, ra_amounts = [], ra_byDebtor = []\<rparr>"

text \<open>\<open>(owner, debtor, amount)\<close> of a creation event, when it is counted.\<close>

definition created_item :: "event_row \<Rightarrow> (string \<times> string \<times> int) option" where
  "created_item evt = (case er_value evt of
      JArr v \<Rightarrow>
        if length v < 2 then None
        else (let owner = js_String (js_coalesce (elem_at v 1) (JStr '''')) in
              if owner = [] then None
              else Some (owner,
                         if length v > 5 then js_String (js_coalesce (elem_at v 5) (JStr ''unknown'')) else ''unknown'',
                         toBigInt (elem_at v 2)))
    | _ \<Rightarrow> None)"

definition add_invoice :: "string \<times> int \<Rightarrow> risk_acc \<Rightarrow> risk_acc" where
  "add_invoice item acc = (case item of (debtor, amount) \<Rightarrow>
     \<lparr>ra_total = ra_total acc + amount, ra_amounts = ra_amounts acc @ [amount],
      ra_byDebtor = omap_put debtor
        ((case omap_get (ra_byDebtor acc) debtor of Some x \<Rightarrow> x | None \<Rightarrow> 0) + amount) (ra_byDebtor acc)\<rparr>)"

definition risk_step :: "event_row \<Rightarrow> risk_acc dict \<Rightarrow> risk_acc dict" where
  "risk_step evt m = (case created_item evt of
      None \<Rightarrow> m
    | Some (owner, item) \<Rightarrow>
        omap_put owner (add_invoice item (case omap_get m owner of Some acc \<Rightarrow> acc | None \<Rightarrow> no_risk_acc)) m)"

definition risk_pass :: "event_row list \<Rightarrow> risk_acc dict" where
  "risk_pass evts = fold risk_step evts []"

section \<open>The derived table\<close>

record SmeRiskSignalRow =
  rs_sme :: string
  rs_debtorConcentrationBps :: int
  rs_invoiceSizeRiskBps :: int
  rs_totalVolume :: int
  rs_updatedAt :: string

definition maxDebtorVolume :: "int dict \<Rightarrow> int" where
  "maxDebtorVolume m = fold (\<lambda>vol best. if vol > best then vol else best) (map snd m) 0"

definition debtorBps :: "risk_acc \<Rightarrow> int" where
  "debtorBps acc = bigint_div (maxDebtorVolume (ra_byDebtor acc) * 10000) (ra_total acc)"

definition largeInvoiceThreshold :: "risk_acc \<Rightarrow> int" where
  "largeInvoiceThreshold acc = bigint_div (ra_total acc) (int (length (ra_amounts acc))) * 3"

definition largeVolume :: "risk_acc \<Rightarrow> int" where
  "largeVolume acc = sum_list (filter (\<lambda>amount. amount \<ge> largeInvoiceThreshold acc) (ra_amounts acc))"

definition sizeBps :: "risk_acc \<Rightarrow> int" where
  "sizeBps acc = bigint_div (largeVolume acc * 10000) (ra_total acc)"

definition risk_rows :: "string \<Rightarrow> risk_acc dict \<Rightarrow> SmeRiskSignalRow list" where
  "risk_rows updatedAt m =
     map (\<lambda>(sme, acc). \<lparr>rs_sme = sme, rs_debtorConcentrationBps = debtorBps acc, rs_invoiceSizeRiskBps = sizeBps acc,
                        rs_totalVolume = ra_total acc, rs_updatedAt = updatedAt\<rparr>)
       (filter (\<lambda>(sme, acc). ra_total acc \<noteq> 0) m)"

type_synonym risk_table = "SmeRiskSignalRow dict"

definition upsert_risk :: "SmeRiskSignalRow \<Rightarrow> risk_table \<Rightarrow> risk_table" where
  "upsert_risk r tbl = omap_put (rs_sme r) r tbl"

definition created_events :: "db \<Rightarrow> event_row list" where
  "created_events d =
     map rowToEvent (take 100000 (sort_key er_ledger_sequence
       (filter (\<lambda>r. er_contract_type r = ''invoice'' \<and> er_event_type r = ''created'') (db_events d))))"

definition recomputeSmeRiskSignals ::
    "jserror option \<Rightarrow> string \<Rightarrow> db \<Rightarrow> risk_table \<Rightarrow> unit result \<times> risk_table" where
  "recomputeSmeRiskSignals fault updatedAt d tbl = (case fault of
      Some err \<Rightarrow> (Inl err, tbl)
    | None \<Rightarrow>
        (let rows = risk_rows updatedAt (risk_pass (created_events d)) in
         if list_all (\<lambda>r. int4 (rs_debtorConcentrationBps r) \<and> int4 (rs_invoiceSizeRiskBps r)) rows
         then (Inr (), fold upsert_risk rows tbl)
         else (Inl (GenericError ''integer out of range''), tbl)))"

definition getSmeRiskSignals :: "(string \<Rightarrow> int) \<Rightarrow> risk_table \<Rightarrow> string option \<Rightarrow> SmeRiskSignalRow list" where
  "getSmeRiskSignals rank tbl sme =
     sort_key (\<lambda>r. rank (rs_sme r)) (filter (\<lambda>r. column_is sme (Some (rs_sme r))) (map snd tbl))"

section \<open>What the pass computes\<close>

text \<open>The invoices of an SME, as pairs of debtor and amount, in the order they were created.\<close>

definition invoices_of :: "string \<Rightarrow> event_row list \<Rightarrow> (string \<times> int) list" where
  "invoices_of sme evts = map snd (filter (\<lambda>it. fst it = sme) (List.map_filter created_item evts))"

definition debtor_volume :: "(string \<times> int) list \<Rightarrow> string \<Rightarrow> int" where
  "debtor_volume invs debtor = sum_list (map snd (filter (\<lambda>i. fst i = debtor) invs))"

definition total_volume :: "(string \<times> int) list \<Rightarrow> int" where
  "total_volume invs = sum_list (map snd invs)"

definition risk_refines :: "(string \<times> int) list \<Rightarrow> risk_acc \<Rightarrow> bool" where
  "risk_refines invs acc \<longleftrightarrow>
     ra_total acc = total_volume invs \<and> ra_amounts acc = map snd invs \<and> omap_wf (ra_byDebtor acc) \<and>
     set (map fst (ra_byDebtor acc)) = set (map fst invs) \<and>
     (\<forall>d. (case omap_get (ra_byDebtor acc) d of Some x \<Rightarrow> x | None \<Rightarrow> 0) = debtor_volume invs d)"

lemma risk_refines_Nil: "risk_refines [] no_risk_acc"
  by (simp add: risk_refines_def no_risk_acc_def total_volume_def debtor_volume_def)

lemma risk_refines_snoc:
  assumes "risk_refines invs acc"
  shows "risk_refines (invs @ [i]) (add_invoice i acc)"
proof (cases i)
  case (Pair d x)
  with assms show ?thesis
    unfolding risk_refines_def add_invoice_def
    using omap_keys_put [of d _ "ra_byDebtor acc"]
    by (auto simp: total_volume_def debtor_volume_def simp del: set_map)
qed

lemma risk_refines_fold: "risk_refines invs (fold add_invoice invs no_risk_acc)"
  by (induction invs rule: rev_induct) (simp_all add: risk_refines_Nil risk_refines_snoc)

definition bump :: "string \<times> string \<times> int \<Rightarrow> risk_acc option \<Rightarrow> risk_acc" where
  "bump it acc = add_invoice (snd it) (case acc of Some a \<Rightarrow> a | None \<Rightarrow> no_risk_acc)"

lemma risk_pass_eq:
  "risk_pass evts =
     fold (\<lambda>it m. omap_put (fst it) (bump it (omap_get m (fst it))) m) (List.map_filter created_item evts) []"
proof -
  have "fold risk_step evts m =
      fold (\<lambda>it m. omap_put (fst it) (bump it (omap_get m (fst it))) m) (List.map_filter created_item evts) m" for m
    by (induction evts arbitrary: m) (auto simp: risk_step_def bump_def split: option.splits)
  then show ?thesis by (simp add: risk_pass_def)
qed

lemma fold_bump:
  "fold (\<lambda>it a. Some (bump it a)) its acc =
     (if its = [] then acc
      else Some (fold add_invoice (map snd its) (case acc of Some a \<Rightarrow> a | None \<Rightarrow> no_risk_acc)))"
  by (induction its arbitrary: acc) (auto simp: bump_def split: option.splits)

lemma risk_pass_get:
  "omap_get (risk_pass evts) sme =
     (if invoices_of sme evts = [] then None else Some (fold add_invoice (invoices_of sme evts) no_risk_acc))"
  by (simp add: risk_pass_eq omap.get_fold_upd fold_bump invoices_of_def)

lemma risk_pass_wf: "omap_wf (risk_pass evts)"
  unfolding risk_pass_eq by (rule omap.wf_fold_put) simp

lemma risk_pass_refines:
  assumes "omap_get (risk_pass evts) sme = Some acc"
  shows "risk_refines (invoices_of sme evts) acc" "invoices_of sme evts \<noteq> []"
  using assms by (auto simp: risk_pass_get risk_refines_fold split: if_splits)

section \<open>Lemmas on the signals\<close>

lemma fold_max: "fold (\<lambda>vol best. if vol > best then vol else best) xs (b::int) = Max (insert b (set xs))"
proof (induction xs arbitrary: b)
  case (Cons x xs)
  have "Max (insert b (set (x # xs))) = max (if x > b then x else b) (Max (insert (if x > b then x else b) (set xs)))"
    by (cases "x > b"; cases "xs = []") (auto simp: insert_commute max_def)
  also have "\<dots> = Max (insert (if x > b then x else b) (set xs))" by (simp add: max_absorb2)
  finally show ?case using Cons by simp
qed simp

lemma debtor_volumes:
  assumes "risk_refines invs acc"
  shows "set (map snd (ra_byDebtor acc)) = debtor_volume invs ` set (map fst invs)"
proof -
  have wf: "omap_wf (ra_byDebtor acc)" and ks: "set (map fst (ra_byDebtor acc)) = set (map fst invs)"
    and vol: "\<And>d x. omap_get (ra_byDebtor acc) d = Some x \<Longrightarrow> x = debtor_volume invs d"
    using assms unfolding risk_refines_def by (force split: option.splits)+
  have "snd e = debtor_volume invs (fst e)" if "e \<in> set (ra_byDebtor acc)" for e
    using vol [of "fst e" "snd e"] omap_in_get [OF wf, of "fst e" "snd e"] that by simp
  then have "set (map snd (ra_byDebtor acc)) = debtor_volume invs ` set (map fst (ra_byDebtor acc))"
    by (force simp: image_image)
  then show ?thesis using ks by simp
qed

lemma maxDebtorVolume_eq:
  assumes "risk_refines invs acc"
  shows "maxDebtorVolume (ra_byDebtor acc) = Max (insert 0 (debtor_volume invs ` set (map fst invs)))"
  using debtor_volumes [OF assms] by (simp add: maxDebtorVolume_def fold_max del: set_map)

lemma sum_filter_le:
  "\<forall>x \<in> set xs. (0::int) \<le> f x \<Longrightarrow> sum_list (map f (filter P xs)) \<le> sum_list (map f xs)"
  by (induction xs) auto

lemma share_bounds:
  assumes "0 \<le> x" "x \<le> t" "0 < (t::int)"
  shows "0 \<le> bigint_div (x * 10000) t" "bigint_div (x * 10000) t \<le> 10000"
proof -
  show "0 \<le> bigint_div (x * 10000) t" using assms by (simp add: bigint_div_nonneg pos_imp_zdiv_nonneg_iff)
  have "x * 10000 \<le> 10000 * t" using assms by simp
  from bigint_div_le_mono [OF this assms(3)] show "bigint_div (x * 10000) t \<le> 10000"
    using bigint_div_mult_self [OF assms(3), of 10000] by simp
qed

lemma risk_rows_keys: "map rs_sme (risk_rows now m) = map fst (filter (\<lambda>(sme, acc). ra_total acc \<noteq> 0) m)"
  by (simp add: risk_rows_def comp_def case_prod_beta)

lemma upsert_risk_fold: "fold upsert_risk rows tbl = fold (\<lambda>r. omap_put (rs_sme r) r) rows tbl"
  by (induction rows arbitrary: tbl) (simp_all add: upsert_risk_def)

lemma risk_table_get:
  assumes "omap_wf m" "omap_get m sme = Some acc" "ra_total acc \<noteq> 0"
  shows "omap_get (fold upsert_risk (risk_rows now m) tbl) sme =
     Some \<lparr>rs_sme = sme, rs_debtorConcentrationBps = debtorBps acc, rs_invoiceSizeRiskBps = sizeBps acc,
           rs_totalVolume = ra_total acc, rs_updatedAt = now\<rparr>" (is "_ = Some ?r")
proof -
  have "distinct (map rs_sme (risk_rows now m))"
    unfolding risk_rows_keys using assms(1) by (simp add: omap_wf_def distinct_map_filter)
  moreover have "?r \<in> set (risk_rows now m)"
    using omap_get_Some_in [OF assms(2)] assms(3) by (force simp: risk_rows_def)
  ultimately show ?thesis using omap_get_fold_put_in [of rs_sme "risk_rows now m" ?r tbl] by (simp add: upsert_risk_fold)
qed

lemma debtor_volume_le:
  assumes "\<forall>i \<in> set invs. 0 \<le> snd i"
  shows "debtor_volume invs d \<le> total_volume invs" "0 \<le> debtor_volume invs d"
  using sum_filter_le [of invs snd] assms
  by (auto simp: debtor_volume_def total_volume_def intro!: sum_list_nonneg)

lemma maxDebtor_bounds:
  assumes "risk_refines invs acc" "invs \<noteq> []" "\<forall>i \<in> set invs. 0 \<le> snd i"
  shows "maxDebtorVolume (ra_byDebtor acc) = Max (debtor_volume invs ` set (map fst invs))"
    and "0 \<le> maxDebtorVolume (ra_byDebtor acc)" "maxDebtorVolume (ra_byDebtor acc) \<le> total_volume invs"
proof -
  let ?V = "debtor_volume invs ` set (map fst invs)"
  have fin: "finite ?V" "?V \<noteq> {}" using assms(2) by auto
  have M: "0 \<le> Max ?V" "Max ?V \<le> total_volume invs"
    using fin debtor_volume_le [OF assms(3)] by (auto simp: Max_ge_iff)
  then have "Max (insert 0 ?V) = Max ?V" using fin by (simp add: max_absorb2)
  then show eq: "maxDebtorVolume (ra_byDebtor acc) = Max ?V" using maxDebtorVolume_eq [OF assms(1)] by simp
  show "0 \<le> maxDebtorVolume (ra_byDebtor acc)" "maxDebtorVolume (ra_byDebtor acc) \<le> total_volume invs" using M eq by auto
qed

lemma largeVolume_bounds:
  assumes "risk_refines invs acc" "\<forall>i \<in> set invs. 0 \<le> snd i"
  shows "0 \<le> largeVolume acc" "largeVolume acc \<le> total_volume invs"
proof -
  have am: "ra_amounts acc = map snd invs" using assms(1) by (simp add: risk_refines_def)
  show "0 \<le> largeVolume acc" using assms(2) am by (auto simp: largeVolume_def intro!: sum_list_nonneg)
  have "sum_list (map id (filter (\<lambda>x. largeInvoiceThreshold acc \<le> x) (map snd invs))) \<le> sum_list (map id (map snd invs))"
    by (rule sum_filter_le) (use assms(2) in auto)
  then show "largeVolume acc \<le> total_volume invs" by (simp add: largeVolume_def am total_volume_def)
qed

lemma recompute_risk_table:
  "recomputeSmeRiskSignals None now d tbl = (Inr (), tbl') \<Longrightarrow>
   tbl' = fold upsert_risk (risk_rows now (risk_pass (created_events d))) tbl"
  by (auto simp: recomputeSmeRiskSignals_def Let_def split: if_splits)

lemma risk_pass_total:
  assumes "invoices_of sme evts \<noteq> []"
  obtains acc where "omap_get (risk_pass evts) sme = Some acc" "risk_refines (invoices_of sme evts) acc"
    "ra_total acc = total_volume (invoices_of sme evts)"
  using assms risk_refines_fold [of "invoices_of sme evts"] by (simp add: risk_pass_get risk_refines_def)

section \<open>Properties\<close>

text \<open>The risk signals of an SME after a successful recomputation: the stored volume is the sum of its
  created invoices, the debtor concentration is the largest single debtor's share of it in whole basis
  points, and both signals lie between 0 and 10000, provided invoice amounts are not negative.\<close>

theorem risk_signals_exact:
  assumes "recomputeSmeRiskSignals None now d tbl = (Inr (), tbl')"
    and "\<forall>i \<in> set (invoices_of sme (created_events d)). 0 \<le> snd i"
    and "0 < total_volume (invoices_of sme (created_events d))"
  shows "\<exists>r. omap_get tbl' sme = Some r \<and>
     rs_totalVolume r = total_volume (invoices_of sme (created_events d)) \<and>
     rs_debtorConcentrationBps r =
       (Max (debtor_volume (invoices_of sme (created_events d)) ` set (map fst (invoices_of sme (created_events d)))) * 10000)
         div total_volume (invoices_of sme (created_events d)) \<and>
     rs_debtorConcentrationBps r \<in> {0..10000} \<and> rs_invoiceSizeRiskBps r \<in> {0..10000}"
proof -
  let ?invs = "invoices_of sme (created_events d)"
  have ne: "?invs \<noteq> []" using assms(3) by (auto simp: total_volume_def)
  obtain acc where acc: "omap_get (risk_pass (created_events d)) sme = Some acc" "risk_refines ?invs acc"
    "ra_total acc = total_volume ?invs" using risk_pass_total [OF ne] by blast
  have row: "omap_get tbl' sme = Some \<lparr>rs_sme = sme, rs_debtorConcentrationBps = debtorBps acc,
      rs_invoiceSizeRiskBps = sizeBps acc, rs_totalVolume = ra_total acc, rs_updatedAt = now\<rparr>"
    unfolding recompute_risk_table [OF assms(1)]
    by (rule risk_table_get [OF risk_pass_wf acc(1)]) (use acc(3) assms(3) in simp)
  note M = maxDebtor_bounds [OF acc(2) ne assms(2)] and L = largeVolume_bounds [OF acc(2) assms(2)]
  have "debtorBps acc = (Max (debtor_volume ?invs ` set (map fst ?invs)) * 10000) div total_volume ?invs"
    using M assms(3) by (simp add: debtorBps_def acc(3) bigint_div_nonneg)
  moreover have "debtorBps acc \<in> {0..10000}" "sizeBps acc \<in> {0..10000}"
    using share_bounds [OF M(2,3) assms(3)] share_bounds [OF L assms(3)] by (simp_all add: debtorBps_def sizeBps_def acc(3))
  ultimately show ?thesis using row acc(3) by simp
qed

definition created_row :: "string \<Rightarrow> ledger \<Rightarrow> string \<Rightarrow> string \<Rightarrow> event_row" where
  "created_row i l amount debtor = \<lparr>er_id = i, er_contract_id = ''CI'', er_contract_type = ''invoice'', er_event_type = ''created'',
     er_topic = [''INVOICE'', ''created''],
     er_value = JArr [JStr i, JStr ''GSME'', JStr amount, JStr ''uri'', JNum (NInt 1), JStr debtor],
     er_actor_address = None, er_ledger_sequence = l, er_ledger_close_at = ''t'', er_tx_hash = ''x'', er_created_at = ''t''\<rparr>"

definition sample_risk_db :: db where
  "sample_risk_db = empty_db\<lparr>db_events := [created_row ''1'' 5 ''300'' ''acme'', created_row ''2'' 6 ''100'' ''corp'']\<rparr>"

theorem risk_signals_exact_witness:
  "\<exists>tbl' r. recomputeSmeRiskSignals None ''now'' sample_risk_db [] = (Inr (), tbl') \<and> omap_get tbl' ''GSME'' = Some r \<and>
     rs_totalVolume r = 400 \<and> rs_debtorConcentrationBps r \<in> {0..10000}"
proof -
  have ev: "created_events sample_risk_db = [created_row ''1'' 5 ''300'' ''acme'', created_row ''2'' 6 ''100'' ''corp'']"
    by (simp add: created_events_def sample_risk_db_def created_row_def rowToEvent_def)
  have inv: "invoices_of ''GSME'' (created_events sample_risk_db) = [(''acme'', 300), (''corp'', 100)]"
    unfolding ev by code_simp
  have "list_all (\<lambda>r. int4 (rs_debtorConcentrationBps r) \<and> int4 (rs_invoiceSizeRiskBps r))
      (risk_rows ''now'' (risk_pass [created_row ''1'' 5 ''300'' ''acme'', created_row ''2'' 6 ''100'' ''corp'']))"
    by code_simp
  then obtain tbl' where run: "recomputeSmeRiskSignals None ''now'' sample_risk_db [] = (Inr (), tbl')"
    by (simp add: recomputeSmeRiskSignals_def ev Let_def)
  show ?thesis
    using risk_signals_exact [OF run, of "''GSME''"] run by (auto simp: inv total_volume_def)
qed

end
