(* ===== verification/Indexer.thy ===== *)
theory Indexer
  imports RiskSignals Retry
begin

text \<open>
  The drivers of the indexer: the configuration and the live-tail poll loop of \<open>indexer/src/index.ts\<close>
  and the backfill loop of \<open>indexer/src/backfill.ts\<close>.  An iteration of a loop is a function of the
  loop's state and of what its awaited calls answer in that iteration (the page of effects, the ledger
  metadata, the chain tip, the errors of the database); the delay an iteration sleeps is part of its
  result.
\<close>

section \<open>Configuration\<close>

fun split_on :: "char \<Rightarrow> string \<Rightarrow> string list" where
  "split_on c [] = [[]]"
| "split_on c (x # xs) = (if x = c then [] # split_on c xs
     else (case split_on c xs of [] \<Rightarrow> [[x]] | w # ws \<Rightarrow> (x # w) # ws))"

text \<open>Unset variables are empty strings, as \<open>process.env.X || ""\<close> reads them.\<close>

record indexer_env =
  env_CONTRACT_IDS :: string
  env_contracts :: contract_env
  env_DATABASE_URL :: string
  env_POLLING_INTERVAL_MS :: string
  env_LOOKBACK_LEDGERS :: string
  env_BACKFILL_START_LEDGER :: string
  env_BACKFILL_END_LEDGER :: string

definition CONTRACT_IDS :: "indexer_env \<Rightarrow> string list" where
  "CONTRACT_IDS env = (let c = env_contracts env in
     oset_of (filter (\<lambda>i. i \<noteq> [])
       (filter (\<lambda>i. i \<noteq> []) (split_on CHR '','' (env_CONTRACT_IDS env)) @
        [trim (CREDIT_SCORE_CONTRACT_ID c), trim (ORACLE_REGISTRY_CONTRACT_ID c),
         trim (SECONDARY_MARKET_CONTRACT_ID c), trim (INSURANCE_CONTRACT_ID c)] @
        map trim [ACCESS_CONTROL_CONTRACT_ID c, ARBITRATION_CONTRACT_ID c, GOVERNANCE_CONTRACT_ID c,
          REFERRAL_CONTRACT_ID c, SHARE_CONTRACT_ID c])))"

definition parse_num :: "string \<Rightarrow> jnum" where
  "parse_num s = (case js_parseInt s of Some n \<Rightarrow> NInt n | None \<Rightarrow> NNaN)"

fun indexOf :: "string list \<Rightarrow> string \<Rightarrow> nat option" where
  "indexOf [] s = None"
| "indexOf (x # xs) s = (if x = s then Some 0 else map_option Suc (indexOf xs s))"

definition arg_at :: "string list \<Rightarrow> nat \<Rightarrow> string option" where
  "arg_at args i = (if i < length args then Some (args ! i) else None)"

record backfill_args =
  ba_startLedger :: ledger
  ba_endLedger :: "ledger option"

definition parseBackfillArgs :: "string list \<Rightarrow> backfill_args option result" where
  "parseBackfillArgs args = (case indexOf args ''--backfill'' of
      None \<Rightarrow> Inr None
    | Some i \<Rightarrow>
        (case Option.bind (arg_at args (i + 1)) js_parseInt of
           None \<Rightarrow> Inl (GenericError ''--backfill requires a numeric starting ledger sequence'')
         | Some start \<Rightarrow>
             Inr (Some \<lparr>ba_startLedger = start,
                        ba_endLedger = Option.bind (indexOf args ''--to'')
                          (\<lambda>t. Option.bind (arg_at args (t + 1)) js_parseInt)\<rparr>)))"

text \<open>What \<open>main\<close> does: a configuration error ends the process, a starting ledger selects the
  backfill, anything else the live tail.  \<open>parseInt\<close> of a malformed variable is \<open>NaN\<close>, which is a
  starting ledger too.\<close>

datatype indexer_mode =
    Fatal jserror
  | BackfillMode jnum "jnum option"
  | LiveTail

definition backfill_start :: "backfill_args option \<Rightarrow> indexer_env \<Rightarrow> jnum option" where
  "backfill_start cli env = (case cli of
      Some a \<Rightarrow> Some (NInt (ba_startLedger a))
    | None \<Rightarrow> if env_BACKFILL_START_LEDGER env = [] then None else Some (parse_num (env_BACKFILL_START_LEDGER env)))"

definition backfill_end :: "backfill_args option \<Rightarrow> indexer_env \<Rightarrow> jnum option" where
  "backfill_end cli env = (case Option.bind cli ba_endLedger of
      Some l \<Rightarrow> Some (NInt l)
    | None \<Rightarrow> if env_BACKFILL_END_LEDGER env = [] then None else Some (parse_num (env_BACKFILL_END_LEDGER env)))"

definition indexer_main :: "indexer_env \<Rightarrow> string list \<Rightarrow> unit result \<Rightarrow> indexer_mode" where
  "indexer_main env args migrations = (case parseBackfillArgs args of
      Inl err \<Rightarrow> Fatal err
    | Inr cli \<Rightarrow>
        if env_DATABASE_URL env = [] then Fatal (GenericError ''DATABASE_URL is required (Postgres connection string)'')
        else (case migrations of
            Inl err \<Rightarrow> Fatal err
          | Inr _ \<Rightarrow>
              (case backfill_start cli env of
                 Some s \<Rightarrow> BackfillMode s (backfill_end cli env)
               | None \<Rightarrow> LiveTail)))"

text \<open>\<open>runMigrations\<close>: at most five runs of the migration tool, with a growing pause between them; the
  \<open>n\<close>-th run answers \<open>runs n\<close>.\<close>

definition MAX_RETRIES :: nat where
  "MAX_RETRIES = 5"

definition RETRY_DELAY_MS :: millis where
  "RETRY_DELAY_MS = 1000"

fun migration_loop :: "(nat \<Rightarrow> unit result) \<Rightarrow> nat \<Rightarrow> nat \<Rightarrow> millis list \<Rightarrow> unit result \<times> nat \<times> millis list" where
  "migration_loop runs attempt 0 delays = (Inl (GenericError ''unreachable''), attempt, delays)"
| "migration_loop runs attempt (Suc left) delays = (case runs attempt of
      Inr _ \<Rightarrow> (Inr (), attempt, delays)
    | Inl err \<Rightarrow>
        if left = 0 then
          (Inl (GenericError (''[db] Failed to run migrations after '' @ show_nat MAX_RETRIES @ '' attempts: '' @ error_string err)),
           attempt, delays)
        else migration_loop runs (attempt + 1) left (delays @ [RETRY_DELAY_MS * int attempt]))"

definition runMigrations :: "(nat \<Rightarrow> unit result) \<Rightarrow> unit result \<times> nat \<times> millis list" where
  "runMigrations runs = migration_loop runs 1 MAX_RETRIES []"

section \<open>The poll loop\<close>

record poll_state =
  ps_cursor :: "string option"
  ps_lastProcessedLedger :: string
  ps_indexerActive :: bool
  ps_consecutiveFailures :: nat
  ps_lag :: jnum
  ps_db :: db
  ps_tranche_apy :: apy_table
  ps_sme_risk :: risk_table

record poll_input =
  pi_records :: "js list result"
  pi_now :: string
  pi_store_fault :: "jserror option"
  pi_ledger :: "(string \<times> string) result"
  pi_detect_fault :: "jserror option"
  pi_rollback_fault :: "jserror option"
  pi_record_fault :: "jserror option"
  pi_apy_fault :: "jserror option"
  pi_risk_fault :: "jserror option"
  pi_tip :: "int option"

definition BASE_DELAY_MS :: millis where
  "BASE_DELAY_MS = 1000"

definition MAX_DELAY_MS :: millis where
  "MAX_DELAY_MS = 60000"

definition ALERT_THRESHOLD :: nat where
  "ALERT_THRESHOLD = 10"

definition poll_start :: "int \<Rightarrow> poll_state \<Rightarrow> poll_state" where
  "poll_start LOOKBACK_LEDGERS st = st\<lparr>ps_cursor :=
     (case getLatestLedger (ps_db st) of
        None \<Rightarrow> None
      | Some c \<Rightarrow> (case js_parseInt c of
            Some l \<Rightarrow> Some (show_int (max 0 (l - LOOKBACK_LEDGERS)))
          | None \<Rightarrow> Some ''NaN''))\<rparr>"

definition poll_store :: "(string \<Rightarrow> string option) \<Rightarrow> poll_input \<Rightarrow> IndexedEvent list \<Rightarrow> poll_state \<Rightarrow> unit result \<times> poll_state" where
  "poll_store ts inp events st = (case pi_store_fault inp of
      Some err \<Rightarrow> (Inl err, st)
    | None \<Rightarrow> (case storeEvents ts events (ps_db st) of
        (Inl err, d) \<Rightarrow> (Inl err, st)
      | (Inr _, d) \<Rightarrow>
          (let cursor = show_int (ie_ledgerSequence (last events))
           in (Inr (), st\<lparr>ps_db := d, ps_cursor := Some cursor, ps_lastProcessedLedger := cursor\<rparr>))))"

definition tip_of :: "IndexedEvent list \<Rightarrow> ledger" where
  "tip_of events = last (sort (oset_of (map ie_ledgerSequence events)))"

definition poll_reorg :: "poll_input \<Rightarrow> IndexedEvent list \<Rightarrow> poll_state \<Rightarrow> bool result \<times> poll_state" where
  "poll_reorg inp events st =
     (case fetchLedgerMeta (pi_ledger inp) (tip_of events) of
        None \<Rightarrow> (Inr False, st)
      | Some meta \<Rightarrow>
          (case pi_detect_fault inp of
             Some err \<Rightarrow> (Inl err, st)
           | None \<Rightarrow>
               if detectReorg (ps_db st) meta then
                 (let rollbackPoint = tip_of events - 1 in
                  case rollbackFrom (pi_rollback_fault inp) rollbackPoint (ps_db st) of
                    (Inl err, d) \<Rightarrow> (Inl err, st\<lparr>ps_db := d\<rparr>)
                  | (Inr _, d) \<Rightarrow> (Inr True, st\<lparr>ps_db := d, ps_cursor := Some (show_int rollbackPoint),
                                           ps_lastProcessedLedger := show_int rollbackPoint\<rparr>))
               else (case pi_record_fault inp of
                   Some err \<Rightarrow> (Inl err, st)
                 | None \<Rightarrow> (Inr False, st\<lparr>ps_db := recordLedgerHash meta (ps_db st)\<rparr>))))"

definition poll_derive :: "poll_input \<Rightarrow> IndexedEvent list \<Rightarrow> poll_state \<Rightarrow> poll_state" where
  "poll_derive inp events st =
     (let st1 = (if \<exists>e \<in> set events. ie_contractType e = CT_tranche
                 then st\<lparr>ps_tranche_apy := snd (recomputeTrancheApy (pi_apy_fault inp) (pi_now inp) (ps_db st) (ps_tranche_apy st))\<rparr>
                 else st)
      in if \<exists>e \<in> set events. ie_contractType e = CT_invoice
         then st1\<lparr>ps_sme_risk := snd (recomputeSmeRiskSignals (pi_risk_fault inp) (pi_now inp) (ps_db st1) (ps_sme_risk st1))\<rparr>
         else st1)"

text \<open>The body of \<open>if (events.length > 0)\<close>: whether a reorg was detected.\<close>

definition poll_batch ::
    "(string \<Rightarrow> string option) \<Rightarrow> poll_input \<Rightarrow> IndexedEvent list \<Rightarrow> poll_state \<Rightarrow> bool result \<times> poll_state" where
  "poll_batch ts inp events st =
     (if events = [] then (Inr False, st)
      else case poll_store ts inp events st of
          (Inl err, st1) \<Rightarrow> (Inl err, st1)
        | (Inr _, st1) \<Rightarrow>
            (case poll_reorg inp events st1 of
               (Inl err, st2) \<Rightarrow> (Inl err, st2)
             | (Inr reorg, st2) \<Rightarrow> (Inr reorg, poll_derive inp events st2)))"

definition poll_advance :: "bool \<Rightarrow> js list \<Rightarrow> poll_state \<Rightarrow> poll_state" where
  "poll_advance reorg records st =
     (if \<not> reorg \<and> records \<noteq> [] then
        (let t = js_prop (last records) ''paging_token''
         in if js_truthy t then st\<lparr>ps_cursor := Some (js_String t)\<rparr> else st)
      else st)"

definition poll_lag :: "int option \<Rightarrow> poll_state \<Rightarrow> poll_state" where
  "poll_lag tip st = (case (tip, ps_cursor st) of
      (Some t, Some c) \<Rightarrow>
        if t \<noteq> 0 \<and> c \<noteq> [] then st\<lparr>ps_lag := num_max (NInt 0) (num_sub (NInt t) (parse_num c))\<rparr> else st
    | _ \<Rightarrow> st)"

definition poll_body ::
    "contract_env \<Rightarrow> (string \<Rightarrow> string option) \<Rightarrow> poll_input \<Rightarrow> poll_state \<Rightarrow> unit result \<times> poll_state" where
  "poll_body env ts inp st = (case pi_records inp of
      Inl err \<Rightarrow> (Inl err, st)
    | Inr records \<Rightarrow>
        (case poll_batch ts inp (parseEvents env (pi_now inp) records) st of
           (Inl err, st1) \<Rightarrow> (Inl err, st1)
         | (Inr reorg, st1) \<Rightarrow>
             (Inr (), (poll_lag (pi_tip inp) (poll_advance reorg records st1))
                \<lparr>ps_consecutiveFailures := 0, ps_indexerActive := True\<rparr>)))"

definition poll_delay :: "nat \<Rightarrow> millis" where
  "poll_delay failures = min (BASE_DELAY_MS * 2 ^ (failures - 1)) MAX_DELAY_MS"

definition poll_failed :: "poll_state \<Rightarrow> poll_state" where
  "poll_failed st = (let n = ps_consecutiveFailures st + 1 in
     st\<lparr>ps_consecutiveFailures := n, ps_indexerActive := (if n \<ge> ALERT_THRESHOLD then False else ps_indexerActive st)\<rparr>)"

definition pollLoop_iteration ::
    "contract_env \<Rightarrow> (string \<Rightarrow> string option) \<Rightarrow> millis \<Rightarrow> poll_input \<Rightarrow> poll_state \<Rightarrow> millis \<times> poll_state" where
  "pollLoop_iteration env ts POLLING_INTERVAL_MS inp st = (case poll_body env ts inp st of
      (Inr _, st1) \<Rightarrow> (POLLING_INTERVAL_MS, st1)
    | (Inl err, st1) \<Rightarrow> (let st2 = poll_failed st1 in (poll_delay (ps_consecutiveFailures st2), st2)))"

section \<open>The backfill loop\<close>

record backfill_state =
  bs_currentLedger :: ledger
  bs_totalEvents :: nat
  bs_retryCount :: nat
  bs_db :: db

record backfill_input =
  bi_records :: "js list result"
  bi_now :: string
  bi_store_fault :: "jserror option"

datatype backfill_outcome =
    BackfillSleep millis
  | BackfillDone
  | BackfillAbort jserror

definition maxRetries :: nat where
  "maxRetries = 8"

text \<open>The \<open>catch\<close> block: the counter is incremented before and after the error is logged.\<close>

definition backfill_failed :: "backfill_state \<Rightarrow> backfill_outcome \<times> backfill_state" where
  "backfill_failed st =
     (let n = bs_retryCount st + 1 + 1; st1 = st\<lparr>bs_retryCount := n\<rparr> in
      if n > maxRetries then
        (BackfillAbort (GenericError (''[backfill] Aborting after '' @ show_nat maxRetries @ '' consecutive failures'')), st1)
      else (BackfillSleep (min (1000 * 2 ^ (n - 1)) 60000), st1))"

definition wanted_events :: "string list \<Rightarrow> IndexedEvent list \<Rightarrow> IndexedEvent list" where
  "wanted_events contractIds events =
     filter (\<lambda>e. contractIds = [] \<or> ie_contractId e \<in> JStr ` set contractIds) events"

definition next_ledger :: "js list \<Rightarrow> ledger \<Rightarrow> ledger" where
  "next_ledger records currentLedger =
     (let l = ledger_number (js_prop (last records) ''ledger_sequence'');
          nextLedger = (if l = 0 then currentLedger + 1 else l)
      in if nextLedger = currentLedger then currentLedger + 1 else nextLedger)"

text \<open>The part after the events of the page are stored.\<close>

definition backfill_next :: "ledger option \<Rightarrow> js list \<Rightarrow> backfill_state \<Rightarrow> backfill_outcome \<times> backfill_state" where
  "backfill_next endLedger records st =
     (if (case endLedger of Some e \<Rightarrow> bs_currentLedger st \<ge> e | None \<Rightarrow> False) then (BackfillDone, st)
      else (BackfillSleep 100, st\<lparr>bs_currentLedger := next_ledger records (bs_currentLedger st)\<rparr>))"

definition runBackfill_iteration ::
    "contract_env \<Rightarrow> (string \<Rightarrow> string option) \<Rightarrow> string list \<Rightarrow> ledger option \<Rightarrow> backfill_input \<Rightarrow> backfill_state
     \<Rightarrow> backfill_outcome \<times> backfill_state" where
  "runBackfill_iteration env ts contractIds endLedger inp st = (case bi_records inp of
      Inl err \<Rightarrow> backfill_failed st
    | Inr records \<Rightarrow>
        (let st1 = st\<lparr>bs_retryCount := 0\<rparr> in
         if records = [] then (BackfillDone, st1)
         else
           (let events = wanted_events contractIds (parseEvents env (bi_now inp) records) in
            if events = [] then backfill_next endLedger records st1
            else (case bi_store_fault inp of
                Some err \<Rightarrow> backfill_failed st1
              | None \<Rightarrow> (case storeEvents ts events (bs_db st1) of
                  (Inl err, d) \<Rightarrow> backfill_failed st1
                | (Inr _, d) \<Rightarrow>
                    backfill_next endLedger records
                      (st1\<lparr>bs_db := d, bs_totalEvents := bs_totalEvents st1 + length events,
                           bs_currentLedger := ie_ledgerSequence (last events)\<rparr>))))))"

text \<open>The loop over a finite sequence of answers; \<open>None\<close> when it is still running at their end.\<close>

fun runBackfill ::
    "contract_env \<Rightarrow> (string \<Rightarrow> string option) \<Rightarrow> string list \<Rightarrow> ledger option \<Rightarrow> backfill_input list \<Rightarrow> backfill_state
     \<Rightarrow> unit result option \<times> backfill_state" where
  "runBackfill env ts contractIds endLedger [] st = (None, st)"
| "runBackfill env ts contractIds endLedger (inp # inps) st =
     (case runBackfill_iteration env ts contractIds endLedger inp st of
        (BackfillDone, st1) \<Rightarrow> (Some (Inr ()), st1)
      | (BackfillAbort err, st1) \<Rightarrow> (Some (Inl err), st1)
      | (BackfillSleep _, st1) \<Rightarrow> runBackfill env ts contractIds endLedger inps st1)"

definition backfill_begin :: "ledger \<Rightarrow> db \<Rightarrow> backfill_state" where
  "backfill_begin startLedger d = \<lparr>bs_currentLedger = startLedger, bs_totalEvents = 0, bs_retryCount = 0, bs_db = d\<rparr>"

section \<open>Lemmas on the poll loop\<close>

interpretation poll_backoff: capped_backoff 1000 60000 "\<lambda>n. poll_delay (Suc n)"
  by unfold_locales (simp_all add: poll_delay_def BASE_DELAY_MS_def MAX_DELAY_MS_def)

lemma last_sort_Max: "xs \<noteq> [] \<Longrightarrow> last (sort xs) = Max (set (xs :: int list))"
proof -
  assume ne: "xs \<noteq> []"
  let ?s = "sort xs"
  have "?s \<noteq> []" using ne by (metis set_empty set_sort)
  then have "last ?s \<in> set xs" using last_in_set [of ?s] by simp
  moreover have "x \<le> last ?s" if "x \<in> set xs" for x
  proof -
    have "x \<in> set ?s" using that by simp
    then obtain i where "i < length ?s" "?s ! i = x" unfolding in_set_conv_nth by blast
    then show ?thesis using sorted_nth_mono [OF sorted_sort, of i "length ?s - 1" xs] \<open>?s \<noteq> []\<close>
      by (simp add: last_conv_nth)
  qed
  ultimately show ?thesis by (intro Max_eqI [symmetric]) auto
qed

lemma tip_of_Max: "events \<noteq> [] \<Longrightarrow> tip_of events = Max (ie_ledgerSequence ` set events)"
proof -
  assume "events \<noteq> []"
  then have "oset_of (map ie_ledgerSequence events) \<noteq> []" by (metis set_empty set_oset_of list.map_disc_iff)
  then show ?thesis by (simp add: tip_of_def last_sort_Max)
qed

lemma poll_derive_core [simp]:
  "ps_db (poll_derive inp es st) = ps_db st" "ps_cursor (poll_derive inp es st) = ps_cursor st"
  "ps_lastProcessedLedger (poll_derive inp es st) = ps_lastProcessedLedger st"
  by (simp_all add: poll_derive_def Let_def)

lemma poll_advance_core [simp]:
  "ps_db (poll_advance r rs st) = ps_db st" "poll_advance True rs st = st"
  "ps_lastProcessedLedger (poll_advance r rs st) = ps_lastProcessedLedger st"
  by (simp_all add: poll_advance_def Let_def)

lemma poll_lag_core [simp]:
  "ps_db (poll_lag t st) = ps_db st" "ps_cursor (poll_lag t st) = ps_cursor st"
  "ps_lastProcessedLedger (poll_lag t st) = ps_lastProcessedLedger st"
  by (simp_all add: poll_lag_def split: option.splits)

lemma poll_failed_core [simp]:
  "ps_db (poll_failed st) = ps_db st" "ps_cursor (poll_failed st) = ps_cursor st"
  "ps_lastProcessedLedger (poll_failed st) = ps_lastProcessedLedger st"
  "ps_consecutiveFailures (poll_failed st) = Suc (ps_consecutiveFailures st)"
  by (simp_all add: poll_failed_def Let_def)

text \<open>The effects of one iteration on the database: a store, then a rollback or a new hash record.\<close>

lemma poll_store_db:
  "ps_db (snd (poll_store ts inp es st)) = ps_db st \<or> ps_db (snd (poll_store ts inp es st)) = snd (storeEvents ts es (ps_db st))"
  by (auto simp: poll_store_def Let_def split: option.splits prod.splits sum.splits)

lemma poll_reorg_db:
  "ps_db (snd (poll_reorg inp es st)) \<in>
     {ps_db st, snd (rollbackFrom (pi_rollback_fault inp) (tip_of es - 1) (ps_db st))} \<union>
     (\<lambda>meta. recordLedgerHash meta (ps_db st)) ` UNIV"
  by (auto simp: poll_reorg_def Let_def split: option.splits prod.splits sum.splits if_splits)

lemma db_inv_poll_batch: "db_inv (ps_db st) \<Longrightarrow> db_inv (ps_db (snd (poll_batch ts inp es st)))"
proof -
  assume inv: "db_inv (ps_db st)"
  obtain r1 st1 where s1: "poll_store ts inp es st = (r1, st1)" by fastforce
  have inv1: "db_inv (ps_db st1)" using poll_store_db [of ts inp es st] s1 inv db_inv_store by fastforce
  obtain r2 st2 where s2: "poll_reorg inp es st1 = (r2, st2)" by fastforce
  have "db_inv (ps_db st2)"
    using poll_reorg_db [of inp es st1] s2 inv1 db_inv_rollback db_inv_record by auto
  then show ?thesis using inv inv1 s1 s2 by (auto simp: poll_batch_def split: sum.splits)
qed

lemma poll_iteration_db:
  "ps_db (snd (pollLoop_iteration env ts poll inp st)) = ps_db (snd (poll_body env ts inp st))"
  by (auto simp: pollLoop_iteration_def Let_def split: prod.splits sum.splits)

lemma db_inv_poll_body: "db_inv (ps_db st) \<Longrightarrow> db_inv (ps_db (snd (poll_body env ts inp st)))"
proof (cases "pi_records inp")
  case (Inr records)
  assume "db_inv (ps_db st)"
  then have "db_inv (ps_db (snd (poll_batch ts inp (parseEvents env (pi_now inp) records) st)))" by (rule db_inv_poll_batch)
  then show ?thesis using Inr
    by (auto simp: poll_body_def split: prod.splits sum.splits)
qed (simp add: poll_body_def)

section \<open>Properties of the poll loop\<close>


definition fresh_poll :: poll_state where
  "fresh_poll = \<lparr>ps_cursor = None, ps_lastProcessedLedger = ''0'', ps_indexerActive = True, ps_consecutiveFailures = 0,
     ps_lag = NInt 0, ps_db = empty_db, ps_tranche_apy = [], ps_sme_risk = []\<rparr>"

definition failed_poll :: poll_input where
  "failed_poll = \<lparr>pi_records = Inl (GenericError ''timeout''), pi_now = ''t'', pi_store_fault = None,
     pi_ledger = Inl (GenericError ''timeout''), pi_detect_fault = None, pi_rollback_fault = None,
     pi_record_fault = None, pi_apy_fault = None, pi_risk_fault = None, pi_tip = None\<rparr>"


text \<open>No event is skipped by a failure: when the page of effects cannot be fetched or the batch cannot
  be stored, the database, the cursor and the last processed ledger are as before, so that the next
  iteration asks for the same page again; only the failure count grows, the retry delay is the capped
  exponential of it, and the indexer reports itself inactive from the tenth failure in a row on.\<close>

theorem poll_failure_keeps_position:
  assumes "(\<exists>err. pi_records inp = Inl err) \<or>
     (\<exists>records. pi_records inp = Inr records \<and> parseEvents env (pi_now inp) records \<noteq> [] \<and>
        (pi_store_fault inp \<noteq> None \<or> (\<exists>err. event_rows ts (parseEvents env (pi_now inp) records) = Inl err)))"
    and "pollLoop_iteration env ts interval inp st = (delay, st')"
  shows "ps_db st' = ps_db st \<and> ps_cursor st' = ps_cursor st \<and> ps_lastProcessedLedger st' = ps_lastProcessedLedger st \<and>
     ps_consecutiveFailures st' = Suc (ps_consecutiveFailures st) \<and>
     delay = min (1000 * 2 ^ ps_consecutiveFailures st) 60000 \<and> 1000 \<le> delay \<and>
     ps_indexerActive st' = (ps_consecutiveFailures st' < 10 \<and> ps_indexerActive st)"
proof -
  have fails: "\<exists>err. poll_body env ts inp st = (Inl err, st)"
    using assms(1)
  proof (elim disjE exE conjE)
    fix err assume "pi_records inp = Inl err"
    then show ?thesis by (simp add: poll_body_def)
  next
    fix records assume r: "pi_records inp = Inr records" "parseEvents env (pi_now inp) records \<noteq> []"
      and "pi_store_fault inp \<noteq> None"
    then show ?thesis by (auto simp: poll_body_def poll_batch_def poll_store_def)
  next
    fix records err assume r: "pi_records inp = Inr records" "parseEvents env (pi_now inp) records \<noteq> []"
      and "event_rows ts (parseEvents env (pi_now inp) records) = Inl err"
    then show ?thesis
      by (auto simp: poll_body_def poll_batch_def poll_store_def storeEvents_fails split: option.splits)
  qed
  then have st': "st' = poll_failed st" and delay: "delay = poll_delay (Suc (ps_consecutiveFailures st))"
    using assms(2) by (auto simp: pollLoop_iteration_def Let_def)
  have "1000 \<le> delay"
    using poll_backoff.delay_mono [of 0 "ps_consecutiveFailures st"] delay
    by (simp add: poll_backoff.delay_eq)
  then show ?thesis
    using st' delay by (auto simp: poll_backoff.delay_eq poll_failed_def Let_def ALERT_THRESHOLD_def)
qed

theorem poll_failure_keeps_position_witness:
  "ps_consecutiveFailures (snd (pollLoop_iteration empty_env Some 5000 failed_poll fresh_poll)) = 1 \<and>
   fst (pollLoop_iteration empty_env Some 5000 failed_poll fresh_poll) = 1000"
proof -
  obtain delay st' where run: "pollLoop_iteration empty_env Some 5000 failed_poll fresh_poll = (delay, st')" by fastforce
  have "\<exists>err. pi_records failed_poll = Inl err" by (simp add: failed_poll_def)
  then have "ps_consecutiveFailures st' = Suc (ps_consecutiveFailures fresh_poll) \<and>
      delay = min (1000 * 2 ^ ps_consecutiveFailures fresh_poll) 60000"
    using poll_failure_keeps_position [OF _ run] by blast
  then show ?thesis using run by (simp add: fresh_poll_def)
qed


definition sample_record :: js where
  "sample_record = JObj [(''type'', JStr ''contract''), (''id'', JStr ''e9''), (''contract'', JStr ''C''),
     (''topic'', JArr [JStr ''ORACLE'', JStr ''rnd_open'']), (''value'', JArr [JStr ''7'']), (''ledger_sequence'', JNum (NInt 9)),
     (''paging_token'', JStr ''p9'')]"

definition reorg_poll :: poll_input where
  "reorg_poll = failed_poll\<lparr>pi_records := Inr [sample_record], pi_ledger := Inr (''h9'', ''new8'')\<rparr>"

definition stale_poll :: poll_state where
  "stale_poll = fresh_poll\<lparr>ps_db := empty_db\<lparr>db_ledger_hashes := [(8, (''old8'', ''h7''))]\<rparr>\<rparr>"


section \<open>Lemmas on the backfill\<close>

definition page_fails :: "backfill_input \<Rightarrow> bool" where
  "page_fails inp \<longleftrightarrow> (\<exists>err. bi_records inp = Inl err)"

lemma backfill_page_fails: "page_fails inp \<Longrightarrow> runBackfill_iteration env ts ids en inp st = backfill_failed st"
  by (auto simp: page_fails_def runBackfill_iteration_def)

lemma backfill_failures:
  assumes "\<forall>inp \<in> set inps. page_fails inp" "bs_retryCount st = 2 * k" "k + length inps \<le> 4"
  shows "runBackfill env ts ids en inps st = (None, st\<lparr>bs_retryCount := 2 * (k + length inps)\<rparr>)"
  using assms
proof (induction inps arbitrary: st k)
  case (Cons inp inps)
  have "backfill_failed st = (BackfillSleep (min (1000 * 2 ^ (2 * k + 1)) 60000), st\<lparr>bs_retryCount := 2 * Suc k\<rparr>)"
    using Cons.prems(2,3) by (simp add: backfill_failed_def Let_def maxRetries_def)
  moreover have "runBackfill env ts ids en inps (st\<lparr>bs_retryCount := 2 * Suc k\<rparr>) =
      (None, (st\<lparr>bs_retryCount := 2 * Suc k\<rparr>)\<lparr>bs_retryCount := 2 * (Suc k + length inps)\<rparr>)"
    using Cons.prems by (intro Cons.IH) auto
  ultimately show ?case using Cons.prems(1) by (simp add: backfill_page_fails)
qed simp

lemma runBackfill_append:
  "runBackfill env ts ids en (xs @ ys) st = (case runBackfill env ts ids en xs st of
      (None, st') \<Rightarrow> runBackfill env ts ids en ys st'
    | r \<Rightarrow> r)"
  by (induction xs arbitrary: st) (auto split: prod.splits backfill_outcome.splits)

text \<open>A page that continues the scan: ascending ledgers, none before the cursor, stored without error.\<close>

definition page_ahead :: "contract_env \<Rightarrow> (string \<Rightarrow> string option) \<Rightarrow> string list \<Rightarrow> backfill_input \<Rightarrow> backfill_state \<Rightarrow> bool" where
  "page_ahead env ts ids inp st \<longleftrightarrow> bi_store_fault inp = None \<and> (\<exists>records. bi_records inp = Inr records \<and>
     (\<forall>r \<in> set records. bs_currentLedger st \<le> ledger_number (js_prop r ''ledger_sequence'') \<and>
        ledger_number (js_prop r ''ledger_sequence'') \<le> ledger_number (js_prop (last records) ''ledger_sequence'')) \<and>
     (\<exists>rs. event_rows ts (wanted_events ids (parseEvents env (bi_now inp) records)) = Inr rs))"

fun pages_ahead ::
    "contract_env \<Rightarrow> (string \<Rightarrow> string option) \<Rightarrow> string list \<Rightarrow> ledger option \<Rightarrow> backfill_input list \<Rightarrow> backfill_state \<Rightarrow> bool" where
  "pages_ahead env ts ids en [] st = True"
| "pages_ahead env ts ids en (inp # inps) st \<longleftrightarrow> page_ahead env ts ids inp st \<and>
     (case runBackfill_iteration env ts ids en inp st of
        (BackfillSleep _, st') \<Rightarrow> pages_ahead env ts ids en inps st'
      | _ \<Rightarrow> True)"

lemma parsed_ledger:
  assumes "e \<in> set (parseEvents env now records)"
  shows "\<exists>r \<in> set records. ie_ledgerSequence e = ledger_number (js_prop r ''ledger_sequence'')"
  using assms
  by (auto simp: parseEvents_def List.map_filter_def parse_record_def Let_def split: if_splits option.splits prod.splits intro!: bexI)

lemma next_ledger_gt:
  assumes "c0 \<le> c" "c \<le> ledger_number (js_prop (last records) ''ledger_sequence'') \<or> c = c0"
    "c0 \<le> ledger_number (js_prop (last records) ''ledger_sequence'')"
  shows "c0 < next_ledger records c"
  using assms by (auto simp: next_ledger_def Let_def)

lemma backfill_next_cases:
  assumes "c0 \<le> bs_currentLedger st"
    "bs_currentLedger st \<le> ledger_number (js_prop (last records) ''ledger_sequence'') \<or> bs_currentLedger st = c0"
    "c0 \<le> ledger_number (js_prop (last records) ''ledger_sequence'')"
  shows "(\<exists>st'. backfill_next (Some e) records st = (BackfillDone, st')) \<or>
     (\<exists>st'. backfill_next (Some e) records st = (BackfillSleep 100, st') \<and> c0 < e \<and> c0 < bs_currentLedger st')"
  using assms next_ledger_gt [OF assms] by (auto simp: backfill_next_def)

lemma backfill_progress:
  assumes "page_ahead env ts ids inp st"
  shows "(\<exists>st'. runBackfill_iteration env ts ids (Some e) inp st = (BackfillDone, st')) \<or>
     (\<exists>st'. runBackfill_iteration env ts ids (Some e) inp st = (BackfillSleep 100, st') \<and>
        bs_currentLedger st < e \<and> bs_currentLedger st < bs_currentLedger st')"
proof -
  let ?c0 = "bs_currentLedger st"
  obtain records rs where recs: "bi_records inp = Inr records"
    and ahead: "\<forall>r \<in> set records. ?c0 \<le> ledger_number (js_prop r ''ledger_sequence'') \<and>
        ledger_number (js_prop r ''ledger_sequence'') \<le> ledger_number (js_prop (last records) ''ledger_sequence'')"
    and rs: "event_rows ts (wanted_events ids (parseEvents env (bi_now inp) records)) = Inr rs"
    and nofault: "bi_store_fault inp = None"
    using assms by (auto simp: page_ahead_def)
  let ?es = "wanted_events ids (parseEvents env (bi_now inp) records)"
  show ?thesis
  proof (cases "records = []")
    case True
    then show ?thesis using recs by (simp add: runBackfill_iteration_def)
  next
    case ne: False
    then have lastr: "?c0 \<le> ledger_number (js_prop (last records) ''ledger_sequence'')" using ahead last_in_set by blast
    show ?thesis
    proof (cases "?es = []")
      case True
      then show ?thesis
        using backfill_next_cases [of ?c0 "st\<lparr>bs_retryCount := 0\<rparr>" records e] recs ne lastr
        by (auto simp: runBackfill_iteration_def Let_def)
    next
      case False
      then have "last ?es \<in> set (parseEvents env (bi_now inp) records)"
        using last_in_set [OF False] by (auto simp: wanted_events_def)
      from parsed_ledger [OF this] obtain r where "r \<in> set records"
        "ie_ledgerSequence (last ?es) = ledger_number (js_prop r ''ledger_sequence'')" by blast
      with ahead have le: "?c0 \<le> ie_ledgerSequence (last ?es)"
        "ie_ledgerSequence (last ?es) \<le> ledger_number (js_prop (last records) ''ledger_sequence'')" by auto
      obtain sr where store: "storeEvents ts ?es (bs_db st) = (Inr sr, (bs_db st)\<lparr>db_events := insert_rows rs (db_events (bs_db st))\<rparr>)"
        using rs False by (simp add: storeEvents_def Let_def)
      show ?thesis
        using backfill_next_cases [of ?c0 "st\<lparr>bs_retryCount := 0,
            bs_db := (bs_db st)\<lparr>db_events := insert_rows rs (db_events (bs_db st))\<rparr>,
            bs_totalEvents := bs_totalEvents st + length ?es, bs_currentLedger := ie_ledgerSequence (last ?es)\<rparr>" records e]
          recs ne False nofault store le lastr
        by (auto simp: runBackfill_iteration_def Let_def)
    qed
  qed
qed

section \<open>Properties of the backfill\<close>


definition sample_page :: backfill_input where
  "sample_page = \<lparr>bi_records = Inr [sample_record], bi_now = ''t'', bi_store_fault = None\<rparr>"


text \<open>The retry budget of the backfill is half of what it announces: each failed page counts twice, so
  four failures in a row are survived and the fifth aborts the run with the message that names eight
  consecutive failures.\<close>

theorem backfill_aborts_at_fifth_failure:
  assumes "\<forall>inp \<in> set inps. page_fails inp"
  shows "(length inps \<le> 4 \<longrightarrow> fst (runBackfill env ts ids en inps (backfill_begin start d)) = None) \<and>
     (length inps = 5 \<longrightarrow> fst (runBackfill env ts ids en inps (backfill_begin start d)) =
        Some (Inl (GenericError (''[backfill] Aborting after '' @ show_nat 8 @ '' consecutive failures''))))"
proof (intro conjI impI)
  assume "length inps \<le> 4"
  then show "fst (runBackfill env ts ids en inps (backfill_begin start d)) = None"
    using backfill_failures [OF assms, of "backfill_begin start d" 0] by (simp add: backfill_begin_def)
next
  assume len: "length inps = 5"
  then obtain xs x where x: "inps = xs @ [x]" "length xs = 4" by (cases inps rule: rev_cases) auto
  have "\<forall>inp \<in> set xs. page_fails inp" "page_fails x" using assms x by auto
  then show "fst (runBackfill env ts ids en inps (backfill_begin start d)) =
        Some (Inl (GenericError (''[backfill] Aborting after '' @ show_nat 8 @ '' consecutive failures'')))"
    using backfill_failures [of xs "backfill_begin start d" 0 env ts ids en] x
    by (simp add: runBackfill_append backfill_begin_def backfill_page_fails backfill_failed_def Let_def maxRetries_def)
qed

theorem backfill_aborts_at_fifth_failure_witness:
  "fst (runBackfill empty_env Some [] None (replicate 4 \<lparr>bi_records = Inl (GenericError ''timeout''), bi_now = ''t'', bi_store_fault = None\<rparr>)
     (backfill_begin 1 empty_db)) = None"
proof -
  let ?i = "\<lparr>bi_records = Inl (GenericError ''timeout''), bi_now = ''t'', bi_store_fault = None\<rparr>"
  have "\<forall>inp \<in> set (replicate 4 ?i). page_fails inp" by (simp add: page_fails_def)
  then show ?thesis using backfill_aborts_at_fifth_failure [of "replicate 4 ?i"] by simp
qed

text \<open>A backfill that cannot write never gives up: since a fetched page resets the failure count before
  its events are stored, a database that keeps refusing a page with wanted events keeps the run going for
  any number of iterations, at the same ledger.\<close>

theorem backfill_store_failures_never_abort:
  assumes "\<forall>inp \<in> set inps. bi_store_fault inp \<noteq> None \<and> (\<exists>records. bi_records inp = Inr records \<and>
      wanted_events ids (parseEvents env (bi_now inp) records) \<noteq> [])"
  shows "fst (runBackfill env ts ids en inps st) = None \<and>
     bs_currentLedger (snd (runBackfill env ts ids en inps st)) = bs_currentLedger st \<and>
     bs_db (snd (runBackfill env ts ids en inps st)) = bs_db st"
  using assms
proof (induction inps arbitrary: st)
  case (Cons inp inps)
  from Cons.prems obtain err records where i: "bi_store_fault inp = Some err" "bi_records inp = Inr records"
    "wanted_events ids (parseEvents env (bi_now inp) records) \<noteq> []" by auto
  then have "records \<noteq> []" by (auto simp: wanted_events_def parseEvents_def)
  with i have "runBackfill_iteration env ts ids en inp st = (BackfillSleep 2000, st\<lparr>bs_retryCount := 2\<rparr>)"
    by (simp add: runBackfill_iteration_def Let_def backfill_failed_def maxRetries_def)
  with Cons show ?case by simp
qed simp

theorem backfill_store_failures_never_abort_witness:
  "fst (runBackfill empty_env Some [] None (replicate 9 (sample_page\<lparr>bi_store_fault := Some (GenericError ''down'')\<rparr>))
     (backfill_begin 1 empty_db)) = None"
proof -
  let ?i = "sample_page\<lparr>bi_store_fault := Some (GenericError ''down'')\<rparr>"
  have "wanted_events [] (parseEvents empty_env ''t'' [sample_record]) \<noteq> []" by code_simp
  then have "\<forall>inp \<in> set (replicate 9 ?i). bi_store_fault inp \<noteq> None \<and> (\<exists>records. bi_records inp = Inr records \<and>
      wanted_events [] (parseEvents empty_env (bi_now inp) records) \<noteq> [])"
    by (simp add: sample_page_def)
  then show ?thesis using backfill_store_failures_never_abort by blast
qed

end
