(* ===== verification/Json.thy ===== *)
theory Json
  imports Prelude
begin

text \<open>
  \<open>JSON.stringify\<close> and \<open>JSON.parse\<close> of the language, for the components that keep their state as
  text, and for the searchable text of the indexer's invoice search.

  The alphabet is the one of the model's strings, so an escape \<open>\u\<close> above 00ff is rejected.
  The parser recurses on the rest of its input; the guards \<open>length r < length s\<close> are always true
  (\<open>json_rest_shorter\<close>) and only make the recursion visibly terminating.
\<close>

section \<open>Printing\<close>

definition hex_digit :: "nat \<Rightarrow> char" where
  "hex_digit d = (if d < 10 then char_of (48 + d) else char_of (87 + d))"

definition json_escape :: "char \<Rightarrow> string" where
  "json_escape c = (let n = (of_char c :: nat) in
     if n = 34 then [CHR 0x5C, CHR 0x22]
     else if n = 92 then [CHR 0x5C, CHR 0x5C]
     else if n = 8 then [CHR 0x5C, CHR ''b'']
     else if n = 12 then [CHR 0x5C, CHR ''f'']
     else if n = 10 then [CHR 0x5C, CHR ''n'']
     else if n = 13 then [CHR 0x5C, CHR ''r'']
     else if n = 9 then [CHR 0x5C, CHR ''t'']
     else if n < 32 then CHR 0x5C # ''u00'' @ [hex_digit (n div 16), hex_digit (n mod 16)]
     else [c])"

definition json_quote :: "string \<Rightarrow> string" where
  "json_quote s = CHR 0x22 # concat (map json_escape s) @ [CHR 0x22]"

text \<open>
  Properties whose value is \<open>undefined\<close> are left out of an object and print as \<open>null\<close> in an array;
  numbers that are not finite print as \<open>null\<close>.  A BigInt raises a TypeError (\<open>Inl\<close>).
\<close>

fun json_ok :: "js \<Rightarrow> bool" where
  "json_ok (JBigInt _) = False"
| "json_ok (JArr xs) = list_all json_ok xs"
| "json_ok (JObj kvs) = list_all (\<lambda>kv. json_ok (snd kv)) kvs"
| "json_ok _ = True"

fun json_print :: "js \<Rightarrow> string" where
  "json_print JUndefined = ''null''"
| "json_print JNull = ''null''"
| "json_print (JBool b) = (if b then ''true'' else ''false'')"
| "json_print (JNum x) = (case x of NNaN \<Rightarrow> ''null'' | NInf _ \<Rightarrow> ''null'' | _ \<Rightarrow> show_jnum x)"
| "json_print (JBigInt n) = ''null''"
| "json_print (JStr s) = json_quote s"
| "json_print (JArr xs) = ''['' @ join '','' (map json_print xs) @ '']''"
| "json_print (JObj kvs) = ''{'' @ join '','' (map (\<lambda>kv. json_quote (fst kv) @ '':'' @ json_print (snd kv))
      (filter (\<lambda>kv. snd kv \<noteq> JUndefined) kvs)) @ ''}''"

definition json_stringify :: "js \<Rightarrow> string result" where
  "json_stringify v = (if json_ok v then Inr (json_print v)
     else Inl (TypeError ''Do not know how to serialize a BigInt''))"

section \<open>Parsing\<close>

definition json_space :: "char \<Rightarrow> bool" where
  "json_space c = (let n = (of_char c :: nat) in n = 32 \<or> n = 9 \<or> n = 10 \<or> n = 13)"

definition skip_ws :: "string \<Rightarrow> string" where
  "skip_ws = dropWhile json_space"

definition simple_escape :: "char \<Rightarrow> char option" where
  "simple_escape c = (let n = (of_char c :: nat) in
     if n = 34 \<or> n = 92 \<or> n = 47 then Some c
     else if c = CHR ''b'' then Some (char_of (8 :: nat))
     else if c = CHR ''f'' then Some (char_of (12 :: nat))
     else if c = CHR ''n'' then Some (char_of (10 :: nat))
     else if c = CHR ''r'' then Some (char_of (13 :: nat))
     else if c = CHR ''t'' then Some (char_of (9 :: nat))
     else None)"

definition unicode_escape :: "string \<Rightarrow> char option" where
  "unicode_escape ds = (case radix_digits 16 0 ds of
      Some n \<Rightarrow> if n < 256 then Some (char_of n) else None
    | None \<Rightarrow> None)"

text \<open>The characters after an opening quote, up to the closing one.\<close>

fun json_chars :: "string \<Rightarrow> (string \<times> string) option" where
  "json_chars [] = None"
| "json_chars (c # s) =
     (if c = CHR 0x22 then Some ([], s)
      else if c = CHR 0x5C then
        (case s of
           [] \<Rightarrow> None
         | e # r \<Rightarrow>
             (if e = CHR ''u'' then
                (if length r < 4 then None
                 else case unicode_escape (take 4 r) of
                        None \<Rightarrow> None
                      | Some u \<Rightarrow> map_option (\<lambda>(cs, rest). (u # cs, rest)) (json_chars (drop 4 r)))
              else case simple_escape e of
                     None \<Rightarrow> None
                   | Some u \<Rightarrow> map_option (\<lambda>(cs, rest). (u # cs, rest)) (json_chars r)))
      else if (of_char c :: nat) < 32 then None
      else map_option (\<lambda>(cs, rest). (c # cs, rest)) (json_chars s))"

text \<open>Numbers: no leading zero, digits on both sides of a point, an optional exponent.\<close>

definition json_int_part :: "string \<Rightarrow> (string \<times> string) option" where
  "json_int_part s = (let ds = takeWhile is_digit s in
     if ds = [] then None
     else if hd ds = CHR ''0'' then Some (''0'', drop 1 s)
     else Some (ds, dropWhile is_digit s))"

definition json_frac :: "string \<Rightarrow> (string \<times> string) option" where
  "json_frac s = (if startsWith s ''.'' then
       (let ds = takeWhile is_digit (drop 1 s) in
        if ds = [] then None else Some (ds, dropWhile is_digit (drop 1 s)))
     else Some ([], s))"

definition json_exp :: "string \<Rightarrow> (int \<times> string) option" where
  "json_exp s = (if startsWith s ''e'' \<or> startsWith s ''E'' then
       (let t = drop 1 s; neg = startsWith t ''-'';
            u = (if neg \<or> startsWith t ''+'' then drop 1 t else t);
            ds = takeWhile is_digit u
        in if ds = [] then None
           else Some ((if neg then - 1 else 1) * int (digits_val ds), dropWhile is_digit u))
     else Some (0, s))"

definition json_number :: "string \<Rightarrow> (js \<times> string) option" where
  "json_number s0 = (let neg = startsWith s0 ''-''; s = (if neg then drop 1 s0 else s0) in
     (case json_int_part s of
        None \<Rightarrow> None
      | Some (ip, r) \<Rightarrow>
          (case json_frac r of
             None \<Rightarrow> None
           | Some (fp, r') \<Rightarrow>
               (case json_exp r' of
                  None \<Rightarrow> None
                | Some (x, r'') \<Rightarrow>
                    Some (JNum (scale10 ((if neg then - 1 else 1) * int (digits_val (ip @ fp))) (x - int (length fp))), r'')))))"

text \<open>Lengths of what is left, for the recursion below.\<close>

lemma length_skip_ws [simp]: "length (skip_ws s) \<le> length s"
  by (simp add: skip_ws_def length_dropWhile_le)

lemma skip_ws_Cons_length: "skip_ws s = c # t \<Longrightarrow> length t < length s"
  by (metis length_Cons length_skip_ws Suc_le_lessD)

lemma json_chars_shorter: "json_chars s = Some (cs, r) \<Longrightarrow> length r < length s"
proof (induction s arbitrary: cs r rule: json_chars.induct)
  case (2 c s)
  show ?case
    using "2.prems" "2.IH"
    by (force split: if_splits list.splits option.splits)
qed simp

lemma json_key_length:
  assumes "skip_ws s0 = q # s" "json_chars s = Some (k, r0)" "skip_ws r0 = c # r"
  shows "length r < length s0"
  using skip_ws_Cons_length [OF assms(1)] json_chars_shorter [OF assms(2)] skip_ws_Cons_length [OF assms(3)]
  by linarith

definition json_literal :: "string \<Rightarrow> (js \<times> string) option" where
  "json_literal s =
     (if startsWith s ''null'' then Some (JNull, drop 4 s)
      else if startsWith s ''true'' then Some (JBool True, drop 4 s)
      else if startsWith s ''false'' then Some (JBool False, drop 5 s)
      else json_number s)"

text \<open>A repeated key of an object keeps its place and takes the last value.\<close>

function json_value :: "string \<Rightarrow> (js \<times> string) option"
  and json_elements :: "string \<Rightarrow> (js list \<times> string) option"
  and json_members :: "(string \<times> js) list \<Rightarrow> string \<Rightarrow> ((string \<times> js) list \<times> string) option" where
  "json_value s0 = (case skip_ws s0 of
      [] \<Rightarrow> None
    | c # s \<Rightarrow>
        if c = CHR 0x22 then map_option (\<lambda>(cs, r). (JStr cs, r)) (json_chars s)
        else if c = CHR ''['' then
          (if startsWith (skip_ws s) '']'' then Some (JArr [], tl (skip_ws s))
           else map_option (\<lambda>(xs, r). (JArr xs, r)) (json_elements s))
        else if c = CHR ''{'' then
          (if startsWith (skip_ws s) ''}'' then Some (JObj [], tl (skip_ws s))
           else map_option (\<lambda>(kvs, r). (JObj kvs, r)) (json_members [] s))
        else json_literal (c # s))"
| "json_elements s = (case json_value s of
      None \<Rightarrow> None
    | Some (x, r0) \<Rightarrow> (case skip_ws r0 of
          [] \<Rightarrow> None
        | c # r \<Rightarrow>
            if c = CHR '']'' then Some ([x], r)
            else if c = CHR '','' \<and> length r < length s
            then map_option (\<lambda>(xs, r'). (x # xs, r')) (json_elements r)
            else None))"
| "json_members acc s0 = (case skip_ws s0 of
      [] \<Rightarrow> None
    | q # s \<Rightarrow> if q \<noteq> CHR 0x22 then None else (case json_chars s of
          None \<Rightarrow> None
        | Some (k, r0) \<Rightarrow> (case skip_ws r0 of
              [] \<Rightarrow> None
            | c # r \<Rightarrow> if c \<noteq> CHR '':'' then None else (case json_value r of
                  None \<Rightarrow> None
                | Some (x, t0) \<Rightarrow> (case skip_ws t0 of
                      [] \<Rightarrow> None
                    | d # t \<Rightarrow>
                        if d = CHR ''}'' then Some (omap_put k x acc, t)
                        else if d = CHR '','' \<and> length t < length s0 then json_members (omap_put k x acc) t
                        else None)))))"
  by pat_completeness auto

termination
  by (relation "measure (case_sum (\<lambda>s. 2 * length s) (case_sum (\<lambda>s. 2 * length s + 1) (\<lambda>(acc, s). 2 * length s + 1)))")
    (auto dest: skip_ws_Cons_length json_key_length)

definition json_parse :: "string \<Rightarrow> js option" where
  "json_parse s = (case json_value s of
      Some (v, r) \<Rightarrow> if skip_ws r = [] then Some v else None
    | None \<Rightarrow> None)"

declare json_value.simps [simp del] json_elements.simps [simp del] json_members.simps [simp del]

section \<open>The parser consumes its input\<close>

lemma startsWith_length: "startsWith s p \<Longrightarrow> length p \<le> length s"
  by (simp add: startsWith_prefix prefix_length_le)

lemma length_tail_less: "ds = takeWhile P s \<Longrightarrow> ds \<noteq> [] \<Longrightarrow> length (dropWhile P s) < length s"
  by (cases s) (auto simp: le_imp_less_Suc length_dropWhile_le split: if_splits)

lemma json_int_part_shorter: "json_int_part s = Some (ip, r) \<Longrightarrow> length r < length s"
  by (cases s) (auto simp: json_int_part_def Let_def le_imp_less_Suc length_dropWhile_le split: if_splits)

lemma json_frac_shorter: "json_frac s = Some (fp, r) \<Longrightarrow> length r \<le> length s"
  using length_dropWhile_le [of is_digit "drop 1 s"]
  by (auto simp: json_frac_def Let_def split: if_splits)

lemma json_exp_shorter: "json_exp s = Some (x, r) \<Longrightarrow> length r \<le> length s"
  using length_dropWhile_le [of is_digit "drop 1 s"] length_dropWhile_le [of is_digit "drop 1 (drop 1 s)"]
  by (auto simp: json_exp_def Let_def split: if_splits)

lemma json_number_shorter:
  assumes "json_number s = Some (v, r)"
  shows "length r < length s"
proof -
  define t where "t = (if startsWith s ''-'' then drop 1 s else s)"
  obtain ip r1 fp r2 x where "json_int_part t = Some (ip, r1)" "json_frac r1 = Some (fp, r2)" "json_exp r2 = Some (x, r)"
    using assms by (auto simp: json_number_def Let_def t_def [symmetric] split: option.splits)
  then have "length r < length t"
    by (meson json_int_part_shorter json_frac_shorter json_exp_shorter le_less_trans order_trans)
  then show ?thesis by (auto simp: t_def split: if_splits)
qed

lemma json_literal_shorter: "json_literal s = Some (v, r) \<Longrightarrow> length r < length s"
  by (auto simp: json_literal_def dest!: startsWith_length json_number_shorter split: if_splits)

lemma json_rest_shorter:
  "json_value s = Some (v, r) \<Longrightarrow> length r < length s"
  "json_elements s = Some (xs, r) \<Longrightarrow> length r < length s"
  "json_members acc s = Some (kvs, r) \<Longrightarrow> length r < length s"
proof (induction s and s and acc s arbitrary: v r and xs r and kvs r
    rule: json_value_json_elements_json_members.induct)
  case (1 s0)
  from "1.prems" obtain c s where c: "skip_ws s0 = c # s"
    by (auto simp: json_value.simps [of s0] split: list.splits)
  have tl: "length (tl (skip_ws s)) \<le> length s"
    using length_skip_ws [of s] unfolding length_tl by (rule order_trans [OF diff_le_self])
  have "length r \<le> length s"
    using "1.prems" "1.IH" [OF c] length_skip_ws [of s] json_literal_shorter [of "c # s" v r]
    by (auto simp: json_value.simps [of s0] c dest: json_chars_shorter intro: tl split: if_splits simp del: length_tl)
  then show ?case using skip_ws_Cons_length [OF c] by simp
next
  case (2 s)
  from "2.prems" obtain x r0 where x: "json_value s = Some (x, r0)"
    by (auto simp: json_elements.simps [of s] split: option.splits)
  with "2.prems" obtain c t where c: "skip_ws r0 = c # t"
    by (auto simp: json_elements.simps [of s] split: list.splits)
  have "length t < length s"
    using "2.IH"(1) [OF x] skip_ws_Cons_length [OF c] by simp
  with x "2.prems" "2.IH"(2) [OF x refl c] show ?case
    by (auto simp: json_elements.simps [of s] c split: if_splits)
next
  case (3 acc s0)
  note IH = "3.IH"
  from "3.prems" obtain q s where q: "skip_ws s0 = q # s" "q = CHR 0x22"
    by (auto simp: json_members.simps [of acc s0] split: list.splits if_splits)
  with "3.prems" obtain k r0 where k: "json_chars s = Some (k, r0)"
    by (auto simp: json_members.simps [of acc s0] split: option.splits)
  with q "3.prems" obtain c t where c: "skip_ws r0 = c # t" "c = CHR '':''"
    by (auto simp: json_members.simps [of acc s0] split: list.splits if_splits)
  with q k "3.prems" obtain x t0 where x: "json_value t = Some (x, t0)"
    by (auto simp: json_members.simps [of acc s0] split: option.splits)
  with q k c "3.prems" obtain d u where d: "skip_ws t0 = d # u"
    by (auto simp: json_members.simps [of acc s0] split: list.splits)
  have "length u < length s0"
    using json_key_length [OF q(1) k c(1)] IH(1) [OF q(1) _ k refl c(1) _ x] q(2) c(2)
      skip_ws_Cons_length [OF d] by simp
  then show ?case
    using "3.prems" IH(2) [OF q(1) _ k refl c(1) _ x refl d] q k c x d
    by (auto simp: json_members.simps [of acc s0] split: if_splits)
qed

section \<open>Printing and parsing back\<close>

text \<open>Plain data: what a decoded JSON document is made of, with whole numbers only.\<close>

fun json_plain :: "js \<Rightarrow> bool" where
  "json_plain JUndefined = False"
| "json_plain (JBigInt _) = False"
| "json_plain (JNum x) = num_isInteger x"
| "json_plain (JArr xs) = list_all json_plain xs"
| "json_plain (JObj kvs) = (distinct (map fst kvs) \<and> list_all (\<lambda>kv. json_plain (snd kv)) kvs)"
| "json_plain _ = True"

definition json_follow :: "string \<Rightarrow> bool" where
  "json_follow r = (case r of [] \<Rightarrow> True | c # _ \<Rightarrow> c = CHR '','' \<or> c = CHR '']'' \<or> c = CHR ''}'' \<or> c = CHR 0x0A)"

lemma json_follow_simps [simp]:
  "json_follow []" "json_follow (CHR '','' # r)" "json_follow (CHR '']'' # r)" "json_follow (CHR ''}'' # r)" "json_follow (CHR 0x0A # r)"
  by (simp_all add: json_follow_def)

lemma char_eq_code: "(of_char c :: nat) = of_char d \<Longrightarrow> c = d"
  by simp

lemma radix_val_hex_digit: "d < 16 \<Longrightarrow> radix_val 16 (hex_digit d) = Some d"
  by (simp add: radix_val_def hex_digit_def)

lemma unicode_escape_hex:
  assumes "n < 256"
  shows "unicode_escape (CHR ''0'' # CHR ''0'' # [hex_digit (n div 16), hex_digit (n mod 16)]) = Some (char_of n)"
proof -
  have "radix_val 16 CHR ''0'' = Some 0" by (simp add: radix_val_def)
  moreover have "16 * (n div 16) + n mod 16 = n" by simp
  ultimately show ?thesis
    using assms by (simp add: unicode_escape_def radix_val_hex_digit)
qed

lemma json_escape_chars:
  "json_chars (json_escape c @ r) = map_option (\<lambda>(cs, t). (c # cs, t)) (json_chars r)"
proof -
  define n where "n = (of_char c :: nat)"
  have c: "c = char_of n" and n: "n < 256" by (simp_all add: n_def)
  have "n = 34 \<longleftrightarrow> c = CHR 0x22" "n = 92 \<longleftrightarrow> c = CHR 0x5C"
    by (auto simp: n_def intro: char_eq_code)
  moreover have "simple_escape CHR ''b'' = Some (char_of (8 :: nat))" "simple_escape CHR ''f'' = Some (char_of (12 :: nat))"
    "simple_escape CHR ''n'' = Some (char_of (10 :: nat))" "simple_escape CHR ''r'' = Some (char_of (13 :: nat))"
    "simple_escape CHR ''t'' = Some (char_of (9 :: nat))" "simple_escape CHR 0x22 = Some CHR 0x22"
    "simple_escape CHR 0x5C = Some CHR 0x5C"
    by (simp_all add: simple_escape_def)
  ultimately show ?thesis
    using unicode_escape_hex [OF n]
    by (simp add: json_escape_def Let_def n_def [symmetric] c [symmetric])
      (auto simp: c)
qed

lemma json_quote_chars: "json_chars (concat (map json_escape s) @ CHR 0x22 # r) = Some (s, r)"
  by (induction s) (simp_all add: json_escape_chars)

lemma hd_show_nat: "0 < n \<Longrightarrow> hd (show_nat n) \<noteq> CHR ''0''"
proof (induction n rule: show_nat.induct)
  case (1 n)
  show ?case
  proof (cases "n < 10")
    case True
    then have "digit_val (digit_char n) = n" by simp
    moreover have "digit_val CHR ''0'' = 0" by (simp add: digit_val_def)
    ultimately have "digit_char n \<noteq> CHR ''0''" using "1.prems" by auto
    with True show ?thesis by (subst show_nat.simps) simp
  next
    case False
    with "1" show ?thesis by (subst show_nat.simps) simp
  qed
qed

lemma json_int_part_show_nat:
  assumes "json_follow r"
  shows "json_int_part (show_nat n @ r) = Some (show_nat n, r)"
proof -
  have stop: "takeWhile is_digit r = []" "dropWhile is_digit r = r"
    using assms by (cases r; auto simp: json_follow_def is_digit_def)+
  have all: "\<And>d. d \<in> set (show_nat n) \<Longrightarrow> is_digit d"
    using list_all_is_digit_show_nat [of n] by (simp add: list_all_iff)
  have zero: "show_nat 0 = ''0''"
    by (subst show_nat.simps) (simp add: digit_char_def char_eq_code)
  show ?thesis
  proof (cases "n = 0")
    case True
    then show ?thesis by (simp add: json_int_part_def zero is_digit_def)
  next
    case False
    then have "hd (show_nat n) \<noteq> CHR ''0''" by (simp add: hd_show_nat)
    with all stop show ?thesis
      by (simp add: json_int_part_def Let_def takeWhile_append2 dropWhile_append2)
  qed
qed

lemma json_number_show_int:
  assumes "json_follow r"
  shows "json_number (show_int n @ r) = Some (JNum (NInt n), r)"
proof -
  have "json_frac r = Some ([], r)" "json_exp r = Some (0, r)"
    using assms by (cases r; auto simp: json_frac_def json_exp_def json_follow_def)+
  moreover have "\<not> startsWith (show_nat k @ r) ''-''" for k
    using list_all_is_digit_show_nat [of k] by (cases "show_nat k") auto
  ultimately show ?thesis
    by (auto simp: json_number_def show_int_def json_int_part_show_nat [OF assms] scale10_def Let_def)
qed

lemma json_value_show_int:
  assumes "json_follow r"
  shows "json_value (show_int n @ r) = Some (JNum (NInt n), r)"
proof -
  obtain c cs where cs: "show_int n = c # cs" by (cases "show_int n") auto
  have "c = CHR ''-'' \<or> is_digit c"
    using cs list_all_is_digit_show_nat [of "nat n"] by (cases "show_nat (nat n)") (auto simp: show_int_def split: if_splits)
  then have c: "\<not> json_space c" "c \<noteq> CHR 0x22" "c \<noteq> CHR ''[''" "c \<noteq> CHR ''{''" "c \<noteq> CHR ''n''" "c \<noteq> CHR ''t''" "c \<noteq> CHR ''f''"
    by (auto simp: is_digit_def json_space_def Let_def)
  then have "skip_ws (c # cs @ r) = c # cs @ r" by (simp add: skip_ws_def)
  with c show ?thesis
    using json_number_show_int [OF assms, of n]
    by (simp add: json_value.simps cs json_literal_def)
qed

lemma json_elements_join:
  assumes "\<And>x r. x \<in> set xs \<Longrightarrow> json_follow r \<Longrightarrow> json_value (f x @ r) = Some (x, r)" "xs \<noteq> []"
  shows "json_elements (join '','' (map f xs) @ CHR '']'' # r) = Some (xs, r)"
  using assms
proof (induction xs)
  case (Cons x xs)
  note x = Cons.prems(1) [of x, simplified]
  show ?case
  proof (cases xs)
    case Nil
    then show ?thesis
      using x [of "CHR '']'' # r"] by (simp add: json_elements.simps skip_ws_def json_space_def)
  next
    case (Cons y ys)
    then have "json_elements (join '','' (map f xs) @ CHR '']'' # r) = Some (xs, r)"
      using Cons.IH Cons.prems(1) by simp
    then show ?thesis
      using x [of "CHR '','' # join '','' (map f xs) @ CHR '']'' # r"]
      by (subst json_elements.simps) (simp add: Cons skip_ws_def json_space_def)
  qed
qed simp

lemma json_members_join:
  assumes "\<And>k x r. (k, x) \<in> set kvs \<Longrightarrow> json_follow r \<Longrightarrow> json_value (f x @ r) = Some (x, r)" "kvs \<noteq> []"
    and "distinct (map fst (acc @ kvs))"
  shows "json_members acc (join '','' (map (\<lambda>kv. json_quote (fst kv) @ '':'' @ f (snd kv)) kvs) @ CHR ''}'' # r) = Some (acc @ kvs, r)"
  using assms
proof (induction kvs arbitrary: acc)
  case (Cons kv kvs)
  obtain k x where kv: "kv = (k, x)" by fastforce
  have put: "omap_put k x acc = acc @ [(k, x)]"
    using Cons.prems(3) by (intro omap_put_new_keys) (auto simp: kv)
  have x: "json_value (f x @ r') = Some (x, r')" if "json_follow r'" for r'
    using Cons.prems(1) [of k x r'] that by (simp add: kv)
  let ?txt = "\<lambda>kvs. join '','' (map (\<lambda>kv. json_quote (fst kv) @ '':'' @ f (snd kv)) kvs) @ CHR ''}'' # r"
  show ?case
  proof (cases kvs)
    case Nil
    then show ?thesis
      using x [of "CHR ''}'' # r"]
      by (subst json_members.simps) (simp add: kv put skip_ws_def json_space_def json_quote_def json_quote_chars)
  next
    case (Cons y ys)
    then have "json_members (acc @ [(k, x)]) (?txt kvs) = Some (acc @ (k, x) # kvs, r)"
      using Cons.IH [of "acc @ [(k, x)]"] Cons.prems(1,3) by (auto simp: kv)
    then show ?thesis
      using x [of "CHR '','' # ?txt kvs"]
      by (subst json_members.simps)
        (simp add: Cons kv put skip_ws_def json_space_def json_quote_def json_quote_chars)
  qed
qed simp

lemma json_print_first:
  assumes "json_plain v"
  shows "\<exists>c cs. json_print v = c # cs \<and> \<not> json_space c \<and> c \<noteq> CHR '']'' \<and> c \<noteq> CHR ''}''"
proof (cases v)
  case (JNum x)
  then obtain n where n: "x = NInt n" using assms by (cases x) auto
  obtain c cs where cs: "show_int n = c # cs" by (cases "show_int n") auto
  have "c = CHR ''-'' \<or> is_digit c"
    using cs list_all_is_digit_show_nat [of "nat n"] by (cases "show_nat (nat n)") (auto simp: show_int_def split: if_splits)
  then have "\<not> json_space c" "c \<noteq> CHR '']''" "c \<noteq> CHR ''}''"
    by (auto simp: is_digit_def json_space_def Let_def)
  then show ?thesis by (simp add: JNum n cs show_jnum_def)
qed (use assms in \<open>auto simp: json_space_def json_quote_def\<close>)

lemma json_value_print:
  "json_plain v \<Longrightarrow> json_follow r \<Longrightarrow> json_value (json_print v @ r) = Some (v, r)"
proof (induction v arbitrary: r)
  case (JNum x)
  then show ?case by (cases x) (auto simp: show_jnum_def json_value_show_int)
next
  case (JArr xs)
  show ?case
  proof (cases xs)
    case Nil
    then show ?thesis by (simp add: json_value.simps skip_ws_def json_space_def)
  next
    case (Cons x ys)
    have "json_elements (join '','' (map json_print xs) @ CHR '']'' # r) = Some (xs, r)"
      using JArr.IH JArr.prems(1) Cons by (intro json_elements_join) (auto simp: list_all_iff)
    moreover have "\<exists>c cs. join '','' (map json_print xs) = c # cs \<and> \<not> json_space c \<and> c \<noteq> CHR '']''"
      using JArr.prems(1) json_print_first [of x] by (cases ys) (auto simp: Cons)
    ultimately show ?thesis
      by (subst json_value.simps) (auto simp: skip_ws_def json_space_def)
  qed
next
  case (JObj kvs)
  have keep: "filter (\<lambda>kv. snd kv \<noteq> JUndefined) kvs = kvs"
    using JObj.prems(1) by (auto simp: list_all_iff filter_id_conv)
  show ?case
  proof (cases kvs)
    case Nil
    then show ?thesis by (simp add: json_value.simps skip_ws_def json_space_def)
  next
    case (Cons x ys)
    have "json_members [] (join '','' (map (\<lambda>kv. json_quote (fst kv) @ '':'' @ json_print (snd kv)) kvs) @ CHR ''}'' # r) = Some ([] @ kvs, r)"
      using JObj.IH JObj.prems(1) Cons by (intro json_members_join) (force simp: list_all_iff)+
    moreover have "\<exists>cs. join '','' (map (\<lambda>kv. json_quote (fst kv) @ '':'' @ json_print (snd kv)) kvs) = CHR 0x22 # cs"
      by (cases ys) (auto simp: Cons json_quote_def)
    ultimately show ?thesis
      by (subst json_value.simps) (auto simp: skip_ws_def json_space_def keep)
  qed
qed (auto simp: json_value.simps json_literal_def skip_ws_def json_space_def json_quote_def json_quote_chars)

lemma json_plain_ok: "json_plain v \<Longrightarrow> json_ok v"
  by (induction v rule: json_ok.induct) (auto simp: list_all_iff)

text \<open>What the state-keeping components rely on: reading back what was written.\<close>

theorem json_roundtrip:
  assumes "json_plain v"
  shows "\<exists>s. json_stringify v = Inr s \<and> json_parse s = Some v"
  using json_value_print [OF assms, of "[]"] json_plain_ok [OF assms]
  by (simp add: json_stringify_def json_parse_def skip_ws_def)

end
