(* ===== verification/IndexerApi.thy ===== *)
theory IndexerApi
  imports RiskSignals Consensus Json "HOL-Library.Multiset"
begin

text \<open>
  The query API of the indexer (\<open>indexer/src/api.ts\<close>): one definition per route, from the query
  parameters and the tables to the HTTP status and the JSON body.  A replaying endpoint reads the
  event table page by page, and the poll loop may write between two pages: the \<open>n\<close>-th query of a
  request sees the table \<open>dbs n\<close>.  The rate limiter, CORS and the metrics exporter are libraries the
  module only configures.
\<close>

section \<open>Responses\<close>

type_synonym response = "nat \<times> js"

definition ok_json :: "js \<Rightarrow> response" where
  "ok_json body = (200, body)"

definition error_json :: "nat \<Rightarrow> string \<Rightarrow> response" where
  "error_json code msg = (code, JObj [(''error'', JStr msg)])"

text \<open>\<open>catch (err) { res.status(500) ... }\<close>\<close>

definition respond :: "response result \<Rightarrow> response" where
  "respond r = (case r of Inr x \<Rightarrow> x | Inl err \<Rightarrow> error_json 500 (error_message err))"

text \<open>\<open>res.status(err instanceof RangeError ? 400 : 500)\<close>\<close>

definition respond_range :: "response result \<Rightarrow> response" where
  "respond_range r = (case r of
      Inr x \<Rightarrow> x
    | Inl err \<Rightarrow> error_json (case err of RangeError _ \<Rightarrow> 400 | _ \<Rightarrow> 500) (error_message err))"

definition js_int :: "int \<Rightarrow> js" where
  "js_int n = JNum (NInt n)"

definition js_opt :: "string option \<Rightarrow> js" where
  "js_opt s = (case s of None \<Rightarrow> JNull | Some x \<Rightarrow> JStr x)"

definition js_strings :: "string list \<Rightarrow> js" where
  "js_strings xs = JArr (map JStr xs)"

section \<open>Parameters and paging\<close>

definition MAX_SAFE_INTEGER :: nat where
  "MAX_SAFE_INTEGER = 2 ^ 53 - 1"

definition MAX_PAGE_SIZE :: nat where
  "MAX_PAGE_SIZE = 500"

definition MAX_OFFSET :: nat where
  "MAX_OFFSET = 1000000"

definition MAX_REPLAY_EVENTS :: "string option \<Rightarrow> nat" where
  "MAX_REPLAY_EVENTS env =
     (let n = (case js_parseInt (case env of Some s \<Rightarrow> s | None \<Rightarrow> ''100000'') of Some k \<Rightarrow> k | None \<Rightarrow> 0)
      in nat (max 1000 (if n = 0 then 100000 else n)))"

definition parseBoundedInteger :: "js \<Rightarrow> nat \<Rightarrow> nat \<Rightarrow> string \<Rightarrow> nat result" where
  "parseBoundedInteger v fallback maximum name = (case v of
      JUndefined \<Rightarrow> Inr fallback
    | JStr s \<Rightarrow>
        if s = [] \<or> \<not> list_all is_digit s then Inl (RangeError (name @ '' must be a non-negative integer''))
        else if digits_val s > MAX_SAFE_INTEGER \<or> digits_val s > maximum
        then Inl (RangeError (name @ '' must be at most '' @ show_nat maximum))
        else Inr (digits_val s)
    | _ \<Rightarrow> Inl (RangeError (name @ '' must be a non-negative integer'')))"

text \<open>The name \<open>parsePagination\<close> is bound nowhere in the module: evaluating it raises.\<close>

definition parsePagination :: "'a result" where
  "parsePagination = Inl (ReferenceError ''parsePagination is not defined'')"

definition replay_page_size :: nat where
  "replay_page_size = 500"

function getAllEvents_loop ::
    "nat \<Rightarrow> (nat \<Rightarrow> db) \<Rightarrow> GetEventsOptions \<Rightarrow> nat \<Rightarrow> nat \<Rightarrow> event_row list \<Rightarrow> event_row list result" where
  "getAllEvents_loop maxReplay dbs opts n off events =
     (let page = getEvents (dbs n) (opts\<lparr>go_limit := Some replay_page_size, go_offset := Some off\<rparr>);
          events' = events @ page
      in if length events' > maxReplay then
           Inl (RangeError (''event replay exceeds the '' @ show_nat maxReplay @ '' event safety limit''))
         else if length page < replay_page_size then Inr events'
         else getAllEvents_loop maxReplay dbs opts (n + 1) (off + length page) events')"
  by pat_completeness auto
termination
  by (relation "measure (\<lambda>(maxReplay, dbs, opts, n, off, events). Suc maxReplay - length events)")
    (auto simp: replay_page_size_def)

declare getAllEvents_loop.simps [simp del]

definition getAllEvents :: "nat \<Rightarrow> (nat \<Rightarrow> db) \<Rightarrow> GetEventsOptions \<Rightarrow> event_row list result" where
  "getAllEvents maxReplay dbs opts = getAllEvents_loop maxReplay dbs opts 0 0 []"

definition of_type :: "string \<Rightarrow> GetEventsOptions" where
  "of_type ct = any_events\<lparr>go_contractType := Some ct\<rparr>"

definition of_type_event :: "string \<Rightarrow> string \<Rightarrow> GetEventsOptions" where
  "of_type_event ct et = any_events\<lparr>go_contractType := Some ct, go_eventType := Some et\<rparr>"

text \<open>A replaying handler: read everything, then answer.\<close>

definition with_events ::
    "nat \<Rightarrow> (nat \<Rightarrow> db) \<Rightarrow> GetEventsOptions \<Rightarrow> (event_row list \<Rightarrow> response) \<Rightarrow> response" where
  "with_events maxReplay dbs opts f =
     respond (case getAllEvents maxReplay dbs opts of Inl err \<Rightarrow> Inl err | Inr events \<Rightarrow> Inr (f events))"

definition event_json :: "event_row \<Rightarrow> js" where
  "event_json e = JObj [(''eventType'', JStr (er_event_type e)), (''value'', er_value e),
     (''ledgerSequence'', js_int (er_ledger_sequence e)), (''ledgerCloseAt'', JStr (er_ledger_close_at e)),
     (''txHash'', JStr (er_tx_hash e))]"

section \<open>Identifiers in event values\<close>

definition extractInvoiceId :: "js \<Rightarrow> string option" where
  "extractInvoiceId v =
     (if is_nullish v then None
      else (let candidate = (case v of JArr xs \<Rightarrow> elem_at xs 0 | _ \<Rightarrow> v) in
            if is_nullish candidate \<or> typeof_object candidate then None else Some (js_String candidate)))"

definition extractCoFundingInvoiceId :: "js \<Rightarrow> string option" where
  "extractCoFundingInvoiceId v = extractInvoiceId v"

definition extractListingId :: "js \<Rightarrow> string option" where
  "extractListingId v = extractInvoiceId v"

definition roundApproved :: "js \<Rightarrow> bool" where
  "roundApproved v = (case v of JArr xs \<Rightarrow> length xs \<ge> 2 \<and> js_truthy (elem_at xs 1) | _ \<Rightarrow> False)"

text \<open>\<open>Array.isArray(value) ? value[i] : undefined\<close>\<close>

definition tuple_at :: "js \<Rightarrow> nat \<Rightarrow> js" where
  "tuple_at v i = (case v of JArr xs \<Rightarrow> elem_at xs i | _ \<Rightarrow> JUndefined)"

definition same_address :: "js \<Rightarrow> string \<Rightarrow> bool" where
  "same_address v a = (case v of JStr s \<Rightarrow> toLowerCase s = toLowerCase a | _ \<Rightarrow> False)"

definition add_id :: "string option \<Rightarrow> string list \<Rightarrow> string list" where
  "add_id i s = (case i of None \<Rightarrow> s | Some x \<Rightarrow> oset_add x s)"

section \<open>Routes on the event table\<close>

definition get_events_page :: "string \<Rightarrow> js \<Rightarrow> js \<Rightarrow> (nat \<Rightarrow> nat \<Rightarrow> response) \<Rightarrow> response" where
  "get_events_page refusal limit off answer =
     respond_range (case (parsePagination, parsePagination) of
         (Inl err, _) \<Rightarrow> Inl err
       | (_, Inl err) \<Rightarrow> Inl err
       | (Inr (parsedLimit :: nat option), Inr (parsedOffset :: nat option)) \<Rightarrow>
           if parsedLimit = None \<or> parsedOffset = None then Inr (error_json 400 refusal)
           else (case parseBoundedInteger limit 50 MAX_PAGE_SIZE ''limit'' of
               Inl err \<Rightarrow> Inl err
             | Inr l \<Rightarrow> (case parseBoundedInteger off 0 MAX_OFFSET ''offset'' of
                   Inl err \<Rightarrow> Inl err
                 | Inr n \<Rightarrow> Inr (answer l n))))"

definition indexed_event_json :: "event_row \<Rightarrow> js" where
  "indexed_event_json e = JObj [(''id'', JStr (er_id e)), (''contractId'', JStr (er_contract_id e)),
     (''contractType'', JStr (er_contract_type e)), (''eventType'', JStr (er_event_type e)),
     (''topic'', js_strings (er_topic e)), (''value'', er_value e), (''actor'', js_opt (er_actor_address e)),
     (''ledgerSequence'', js_int (er_ledger_sequence e)), (''ledgerCloseAt'', JStr (er_ledger_close_at e)),
     (''txHash'', JStr (er_tx_hash e)), (''createdAt'', JStr (er_created_at e))]"

definition events_reply :: "(string \<times> js) list \<Rightarrow> event_row list \<Rightarrow> response" where
  "events_reply echo events = ok_json (JObj (echo @
     [(''events'', JArr (map indexed_event_json events)), (''count'', js_int (int (length events)))]))"

text \<open>The filters of a query string: a parameter that is given once is a string.\<close>

definition query_string :: "js \<Rightarrow> string \<Rightarrow> string option" where
  "query_string q name = (case js_prop q name of JStr s \<Rightarrow> Some s | _ \<Rightarrow> None)"

text \<open>A ledger bound that is no number makes the database refuse the query.\<close>

definition query_ledger :: "js \<Rightarrow> string \<Rightarrow> ledger option result" where
  "query_ledger q name = (case query_string q name of
      None \<Rightarrow> Inr None
    | Some s \<Rightarrow> (case js_parseInt s of
          Some l \<Rightarrow> Inr (Some l)
        | None \<Rightarrow> Inl (GenericError ''invalid input syntax for type bigint: \"NaN\"'')))"

definition get_events :: "db \<Rightarrow> js \<Rightarrow> response" where
  "get_events d q = get_events_page
     ''limit must be an integer from 0 to 500 and offset must be a non-negative integer''
     (js_prop q ''limit'') (js_prop q ''offset'') (\<lambda>l n.
       case (query_ledger q ''after_ledger'', query_ledger q ''before_ledger'') of
         (Inr after, Inr before) \<Rightarrow>
           events_reply [] (getEvents d \<lparr>go_contractId = query_string q ''contract_id'',
             go_contractType = query_string q ''contract_type'', go_eventType = query_string q ''event_type'',
             go_actorAddress = query_string q ''actor_address'', go_limit = Some l, go_offset = Some n,
             go_afterLedger = after, go_beforeLedger = before\<rparr>)
       | (Inl err, _) \<Rightarrow> error_json 500 (error_message err)
       | (_, Inl err) \<Rightarrow> error_json 500 (error_message err))"

text \<open>Its three variants differ in the filter and in the echoed parameter.\<close>

definition events_by ::
    "db \<Rightarrow> string \<Rightarrow> string \<Rightarrow> GetEventsOptions \<Rightarrow> js \<Rightarrow> js \<Rightarrow> response" where
  "events_by d name v opts limit off = get_events_page ''invalid limit or offset'' limit off (\<lambda>l n.
     events_reply [(name, JStr v)] (getEvents d (opts\<lparr>go_limit := Some l, go_offset := Some n\<rparr>)))"

definition get_events_by_actor :: "db \<Rightarrow> string \<Rightarrow> js \<Rightarrow> js \<Rightarrow> response" where
  "get_events_by_actor d a = events_by d ''actorAddress'' a (any_events\<lparr>go_actorAddress := Some a\<rparr>)"

definition get_events_by_contract :: "db \<Rightarrow> string \<Rightarrow> js \<Rightarrow> js \<Rightarrow> response" where
  "get_events_by_contract d c = events_by d ''contractId'' c (any_events\<lparr>go_contractId := Some c\<rparr>)"

definition get_events_by_type :: "db \<Rightarrow> string \<Rightarrow> js \<Rightarrow> js \<Rightarrow> response" where
  "get_events_by_type d t = events_by d ''eventType'' t (any_events\<lparr>go_eventType := Some t\<rparr>)"

subsection \<open>Invoices\<close>

definition parse_or :: "js \<Rightarrow> string \<Rightarrow> int \<Rightarrow> int" where
  "parse_or v dflt zero =
     (let n = (case js_parseInt (js_String (js_coalesce v (JStr dflt))) of Some k \<Rightarrow> k | None \<Rightarrow> 0)
      in if n = 0 then zero else n)"

record invoice_entry =
  inv_latest :: event_row
  inv_searchable :: string

definition index_invoice :: "event_row \<Rightarrow> invoice_entry dict \<Rightarrow> invoice_entry dict" where
  "index_invoice e m = (case extractInvoiceId (er_value e) of
      None \<Rightarrow> m
    | Some i \<Rightarrow>
        omap_put i
          (case omap_get m i of
             Some x \<Rightarrow> \<lparr>inv_latest = inv_latest x,
                        inv_searchable = toLowerCase (inv_searchable x @ '' '' @ json_print (er_value e))\<rparr>
           | None \<Rightarrow> \<lparr>inv_latest = e, inv_searchable = toLowerCase ('' '' @ json_print (er_value e))\<rparr>) m)"

definition search_matches :: "string \<Rightarrow> string \<Rightarrow> string \<times> invoice_entry \<Rightarrow> bool" where
  "search_matches query status en \<longleftrightarrow>
     (query = [] \<or> str_includes (fst en) query \<or> str_includes (inv_searchable (snd en)) query) \<and>
     (status = [] \<or> toLowerCase (er_event_type (inv_latest (snd en))) = status
        \<or> str_includes (inv_searchable (snd en)) status)"

definition search_invoices :: "string \<Rightarrow> string \<Rightarrow> event_row list \<Rightarrow> string list" where
  "search_invoices query status events =
     map fst (sort_desc (\<lambda>en. er_ledger_sequence (inv_latest (snd en)))
       (filter (search_matches query status) (fold index_invoice events [])))"

definition get_invoice_search :: "nat \<Rightarrow> (nat \<Rightarrow> db) \<Rightarrow> js \<Rightarrow> js \<Rightarrow> js \<Rightarrow> js \<Rightarrow> response" where
  "get_invoice_search maxReplay dbs q statusq pageq sizeq =
     (let query = (case q of JStr s \<Rightarrow> toLowerCase (trim s) | _ \<Rightarrow> []);
          status = (case statusq of JStr s \<Rightarrow> toLowerCase s | _ \<Rightarrow> []);
          page = nat (max 0 (parse_or pageq ''0'' 0));
          pageSize = nat (min 100 (max 1 (parse_or sizeq ''20'' 20)))
      in with_events maxReplay dbs (of_type ''invoice'') (\<lambda>events.
           let matches = search_invoices query status events
           in ok_json (JObj [(''invoiceIds'', JArr (map (\<lambda>i. JNum (string_Number i)) (take pageSize (drop (page * pageSize) matches)))),
                             (''page'', js_int (int page)), (''pageSize'', js_int (int pageSize)),
                             (''total'', js_int (int (length matches)))])))"

definition owner_matches :: "string \<Rightarrow> js \<Rightarrow> bool" where
  "owner_matches address c = (js_truthy c \<and> (case c of
      JStr s \<Rightarrow> toLowerCase s = toLowerCase address
    | JArr _ \<Rightarrow> str_includes (toLowerCase (json_print c)) (toLowerCase address)
    | JObj _ \<Rightarrow> str_includes (toLowerCase (json_print c)) (toLowerCase address)
    | _ \<Rightarrow> False))"

definition owner_event :: "string \<Rightarrow> js \<Rightarrow> event_row \<Rightarrow> bool" where
  "owner_event address statusFilter e =
     (let v = er_value e in
      js_truthy v \<and>
      list_ex (owner_matches address)
        [js_prop v ''owner'', js_prop v ''sme'', js_prop v ''address'', js_prop v ''from'', v] \<and>
      (case statusFilter of
         JStr w \<Rightarrow> w = [] \<or> toLowerCase (er_event_type e) = toLowerCase w
                    \<or> (case js_prop v ''status'' of JStr s \<Rightarrow> toLowerCase s = toLowerCase w | _ \<Rightarrow> False)
       | _ \<Rightarrow> True))"

definition owner_json :: "event_row \<Rightarrow> js" where
  "owner_json e = (let v = er_value e in
     JObj [(''invoiceId'', js_coalesce (js_coalesce (js_coalesce (js_prop v ''invoice_id'') (js_prop v ''invoiceId''))
              (js_prop v ''id'')) JNull),
           (''status'', js_or (js_prop v ''status'') (JStr (er_event_type e))),
           (''amount'', js_coalesce (js_coalesce (js_prop v ''amount'') (js_prop v ''value'')) JNull),
           (''createdAt'', JStr (er_ledger_close_at e)), (''txHash'', JStr (er_tx_hash e))])"

definition get_invoices_by_owner :: "db \<Rightarrow> string \<Rightarrow> js \<Rightarrow> response" where
  "get_invoices_by_owner d address statusFilter =
     (if address = [] then error_json 400 ''address path param is required''
      else ok_json (JArr (map owner_json (filter (owner_event address statusFilter)
             (getEvents d ((of_type ''invoice'')\<lparr>go_limit := Some 1000, go_offset := Some 0\<rparr>))))))"

subsection \<open>Co-funding rounds\<close>

definition COFUNDING_EVENT_TYPES :: "string list" where
  "COFUNDING_EVENT_TYPES = [''cf_open'', ''cf_commit'', ''cf_wthdw'', ''cf_cncl'', ''cf_exp'', ''cf_fin'']"

definition cofunding_rounds :: "event_row list \<Rightarrow> string list" where
  "cofunding_rounds events =
     fold (\<lambda>e s. if er_event_type e \<noteq> ''cf_open'' then s else add_id (extractCoFundingInvoiceId (er_value e)) s) events []"

definition get_cofunding_rounds :: "nat \<Rightarrow> (nat \<Rightarrow> db) \<Rightarrow> response" where
  "get_cofunding_rounds maxReplay dbs = with_events maxReplay dbs (of_type ''pool'') (\<lambda>events.
     ok_json (JObj [(''invoiceIds'', js_strings (cofunding_rounds events))]))"

definition cofunding_write :: "event_row \<Rightarrow> string option" where
  "cofunding_write e =
     (if er_event_type e = ''cf_open'' then Some ''Open''
      else if er_event_type e = ''cf_fin'' then Some ''Filled''
      else if er_event_type e = ''cf_exp'' then Some ''Expired''
      else if er_event_type e = ''cf_cncl'' then Some ''Cancelled''
      else None)"

definition cofunding_status_step :: "event_row \<Rightarrow> string \<Rightarrow> string" where
  "cofunding_status_step e status = (case cofunding_write e of None \<Rightarrow> status | Some s \<Rightarrow> s)"

definition cofunding_matches :: "string \<Rightarrow> event_row list \<Rightarrow> event_row list" where
  "cofunding_matches invoiceId events =
     sort_key er_ledger_sequence (filter (\<lambda>e. er_event_type e \<in> set COFUNDING_EVENT_TYPES \<and>
       extractCoFundingInvoiceId (er_value e) = Some invoiceId) events)"

text \<open>The reply shared by the two round endpoints.\<close>

definition round_reply :: "string \<Rightarrow> string \<Rightarrow> event_row list \<Rightarrow> response" where
  "round_reply invoiceId status matches =
     ok_json (JObj [(''invoiceId'', JStr invoiceId), (''status'', JStr status), (''events'', JArr (map event_json matches))])"

definition get_cofunding_round :: "nat \<Rightarrow> (nat \<Rightarrow> db) \<Rightarrow> string \<Rightarrow> response" where
  "get_cofunding_round maxReplay dbs invoiceId =
     (if invoiceId = [] then error_json 400 ''invoiceId path param is required''
      else with_events maxReplay dbs (of_type ''pool'') (\<lambda>events.
        let matches = cofunding_matches invoiceId events in
        if matches = [] then error_json 404 (''No co-funding round found for invoice '' @ invoiceId)
        else round_reply invoiceId (fold cofunding_status_step matches ''Unknown'') matches))"

definition cofunding_of_investor :: "string \<Rightarrow> event_row list \<Rightarrow> string list" where
  "cofunding_of_investor address events =
     fold (\<lambda>e s. if same_address (tuple_at (er_value e) 1) address
                  then add_id (extractCoFundingInvoiceId (er_value e)) s else s) events []"

definition get_cofunding_investor :: "nat \<Rightarrow> (nat \<Rightarrow> db) \<Rightarrow> string \<Rightarrow> response" where
  "get_cofunding_investor maxReplay dbs address =
     (if address = [] then error_json 400 ''address path param is required''
      else with_events maxReplay dbs (of_type_event ''pool'' ''cf_commit'') (\<lambda>events.
        ok_json (JObj [(''address'', JStr address), (''invoiceIds'', js_strings (cofunding_of_investor address events))])))"

subsection \<open>The secondary market\<close>

definition LISTING_EVENT_TYPES :: "string list" where
  "LISTING_EVENT_TYPES = [''lst_open'', ''lst_cncl'', ''lst_buy'']"

definition listing_step :: "event_row \<Rightarrow> string list \<times> string list \<Rightarrow> string list \<times> string list" where
  "listing_step e oc = (case oc of (opened, shut) \<Rightarrow>
     if er_event_type e \<notin> set LISTING_EVENT_TYPES then (opened, shut)
     else (case extractListingId (er_value e) of
         None \<Rightarrow> (opened, shut)
       | Some i \<Rightarrow>
           if er_event_type e = ''lst_open'' then (oset_add i opened, shut)
           else (opened, oset_add i shut)))"

definition still_open :: "string list \<times> string list \<Rightarrow> string list" where
  "still_open oc = filter (\<lambda>i. i \<notin> set (snd oc)) (fst oc)"

definition open_listings :: "event_row list \<Rightarrow> string list" where
  "open_listings events = still_open (fold listing_step events ([], []))"

definition get_listings_open :: "nat \<Rightarrow> (nat \<Rightarrow> db) \<Rightarrow> response" where
  "get_listings_open maxReplay dbs = with_events maxReplay dbs (of_type ''pool'') (\<lambda>events.
     ok_json (JObj [(''listingIds'', js_strings (open_listings events))]))"

text \<open>Seller of a listing and owner of an order: the third tuple element.\<close>

definition ids_of_owner :: "string \<Rightarrow> event_row list \<Rightarrow> string list" where
  "ids_of_owner address events =
     fold (\<lambda>e s. if same_address (tuple_at (er_value e) 2) address then add_id (extractListingId (er_value e)) s else s)
       events []"

definition get_listings_seller :: "nat \<Rightarrow> (nat \<Rightarrow> db) \<Rightarrow> string \<Rightarrow> response" where
  "get_listings_seller maxReplay dbs address =
     (if address = [] then error_json 400 ''address path param is required''
      else with_events maxReplay dbs (of_type_event ''pool'' ''lst_open'') (\<lambda>events.
        ok_json (JObj [(''address'', JStr address), (''listingIds'', js_strings (ids_of_owner address events))])))"

definition ORDER_BOOK_EVENT_TYPES :: "string list" where
  "ORDER_BOOK_EVENT_TYPES = [''ord_open'', ''ord_cncl'', ''ord_fill'', ''ord_exp'']"

definition fill_ids :: "js \<Rightarrow> string list" where
  "fill_ids v = (case v of
      JArr xs \<Rightarrow> map js_String (filter (\<lambda>x. \<not> is_undefined x) [elem_at xs 0, elem_at xs 1])
    | _ \<Rightarrow> [])"

definition order_step :: "event_row \<Rightarrow> string list \<times> string list \<Rightarrow> string list \<times> string list" where
  "order_step e oc = (case oc of (opened, shut) \<Rightarrow>
     if er_event_type e \<notin> set ORDER_BOOK_EVENT_TYPES then (opened, shut)
     else if er_event_type e = ''ord_cncl'' \<or> er_event_type e = ''ord_exp'' then
       (opened, add_id (extractListingId (er_value e)) shut)
     else if er_event_type e = ''ord_open'' then (add_id (extractListingId (er_value e)) opened, shut)
     else (fold oset_add (fill_ids (er_value e)) opened, shut))"

definition open_orders :: "event_row list \<Rightarrow> string list" where
  "open_orders events = still_open (fold order_step events ([], []))"

definition get_orders_open :: "nat \<Rightarrow> (nat \<Rightarrow> db) \<Rightarrow> response" where
  "get_orders_open maxReplay dbs = with_events maxReplay dbs (of_type ''pool'') (\<lambda>events.
     ok_json (JObj [(''orderIds'', js_strings (open_orders events))]))"

definition get_orders_owner :: "db \<Rightarrow> string \<Rightarrow> response" where
  "get_orders_owner d address =
     (if address = [] then error_json 400 ''address path param is required''
      else ok_json (JObj [(''address'', JStr address), (''orderIds'', js_strings (ids_of_owner address
             (getEvents d ((of_type_event ''pool'' ''ord_open'')\<lparr>go_limit := Some 2000, go_offset := Some 0\<rparr>))))]))"

subsection \<open>Oracle rounds\<close>

definition round_write :: "event_row \<Rightarrow> string option" where
  "round_write e =
     (if er_event_type e = ''rnd_open'' then Some ''Open''
      else if er_event_type e = ''consensus'' \<or> er_event_type e = ''fallback'' then
        Some (if roundApproved (er_value e) then ''ConsensusApproved'' else ''ConsensusRejected'')
      else if er_event_type e = ''rnd_exp'' then Some ''Expired''
      else None)"

definition round_status_step :: "event_row \<Rightarrow> string \<Rightarrow> string" where
  "round_status_step e status = (case round_write e of None \<Rightarrow> status | Some s \<Rightarrow> s)"

definition round_matches :: "string \<Rightarrow> event_row list \<Rightarrow> event_row list" where
  "round_matches invoiceId events =
     sort_key er_ledger_sequence (filter (\<lambda>e. extractInvoiceId (er_value e) = Some invoiceId) events)"

definition get_oracle_round :: "nat \<Rightarrow> (nat \<Rightarrow> db) \<Rightarrow> string \<Rightarrow> response" where
  "get_oracle_round maxReplay dbs invoiceId =
     (if invoiceId = [] then error_json 400 ''invoiceId path param is required''
      else with_events maxReplay dbs (of_type ''oracle_registry'') (\<lambda>events.
        let matches = round_matches invoiceId events in
        if matches = [] then error_json 404 (''No round found for invoice '' @ invoiceId)
        else round_reply invoiceId (fold round_status_step matches ''Unknown'') matches))"

subsection \<open>Attestations and risk signals\<close>

definition ATTESTATION_LIFECYCLE_EVENT_TYPES :: "string list" where
  "ATTESTATION_LIFECYCLE_EVENT_TYPES = [''att_sub'', ''att_disp'', ''att_res'']"

definition attestation_id :: "js \<Rightarrow> string option" where
  "attestation_id v = (case v of JArr xs \<Rightarrow> Some (js_String (elem_at xs 0)) | _ \<Rightarrow> None)"

definition attestation_ids :: "string \<Rightarrow> event_row list \<Rightarrow> string list" where
  "attestation_ids sme events =
     fold (\<lambda>e s. if er_event_type e = ''att_sub'' \<and> same_address (tuple_at (er_value e) 1) sme
                  then oset_add (js_String (tuple_at (er_value e) 0)) s else s) events []"

definition lifecycle_events :: "string list \<Rightarrow> event_row list \<Rightarrow> event_row list" where
  "lifecycle_events ids events =
     sort_key er_ledger_sequence (filter (\<lambda>e. er_event_type e \<in> set ATTESTATION_LIFECYCLE_EVENT_TYPES \<and>
       (case attestation_id (er_value e) of None \<Rightarrow> False | Some i \<Rightarrow> i \<in> set ids)) events)"

record attestation =
  at_status :: string
  at_attestor :: js
  at_score :: js

definition new_attestation :: attestation where
  "new_attestation = \<lparr>at_status = ''Active'', at_attestor = JNull, at_score = JNull\<rparr>"

definition attestation_step :: "event_row \<Rightarrow> attestation \<Rightarrow> attestation" where
  "attestation_step e a =
     (if er_event_type e = ''att_sub'' then
        \<lparr>at_status = ''Active'',
         at_attestor = (case tuple_at (er_value e) 2 of JStr s \<Rightarrow> JStr s | _ \<Rightarrow> JNull),
         at_score = (if is_undefined (tuple_at (er_value e) 3) then JNull else JNum (js_Number (tuple_at (er_value e) 3)))\<rparr>
      else if er_event_type e = ''att_disp'' then a\<lparr>at_status := ''Disputed''\<rparr>
      else if er_event_type e = ''att_res'' then
        a\<lparr>at_status := (if js_truthy (tuple_at (er_value e) 1) then ''Active'' else ''Revoked'')\<rparr>
      else a)"

definition attestation_of :: "string \<Rightarrow> event_row list \<Rightarrow> event_row list \<times> attestation" where
  "attestation_of i lifecycle =
     (let idEvents = filter (\<lambda>e. attestation_id (er_value e) = Some i) lifecycle
      in (idEvents, fold attestation_step idEvents new_attestation))"

definition attestation_json :: "string \<Rightarrow> event_row list \<Rightarrow> string \<Rightarrow> js" where
  "attestation_json sme lifecycle i = (case attestation_of i lifecycle of (idEvents, a) \<Rightarrow>
     JObj [(''id'', JStr i), (''sme'', JStr sme), (''attestor'', at_attestor a),
           (''scoreContribution'', at_score a), (''status'', JStr (at_status a)),
           (''events'', JArr (map event_json idEvents))])"

definition get_attestations :: "nat \<Rightarrow> (nat \<Rightarrow> db) \<Rightarrow> string \<Rightarrow> response" where
  "get_attestations maxReplay dbs sme =
     (if sme = [] then error_json 400 ''sme path param is required''
      else with_events maxReplay dbs (of_type ''credit_score'') (\<lambda>events.
        let ids = attestation_ids sme events; lifecycle = lifecycle_events ids events
        in ok_json (JObj [(''sme'', JStr sme), (''attestations'', JArr (map (attestation_json sme lifecycle) ids))])))"

definition get_risk_signals :: "(string \<Rightarrow> int) \<Rightarrow> risk_table \<Rightarrow> string \<Rightarrow> response" where
  "get_risk_signals rank tbl sme =
     (if sme = [] then error_json 400 ''sme path param is required''
      else (case getSmeRiskSignals rank tbl (Some sme) of
          [] \<Rightarrow> ok_json (JObj [(''sme'', JStr sme), (''debtorConcentrationBps'', js_int 0),
                  (''invoiceSizeRiskBps'', js_int 0), (''totalVolume'', JStr ''0''), (''updatedAt'', JNull)])
        | row # _ \<Rightarrow> ok_json (JObj [(''sme'', JStr (rs_sme row)),
                  (''debtorConcentrationBps'', js_int (rs_debtorConcentrationBps row)),
                  (''invoiceSizeRiskBps'', js_int (rs_invoiceSizeRiskBps row)),
                  (''totalVolume'', JStr (show_int (rs_totalVolume row))), (''updatedAt'', JStr (rs_updatedAt row))])))"

subsection \<open>Rate history\<close>

record rate_sample =
  sm_timestamp :: jnum
  sm_utilizationBps :: jnum
  sm_rateBps :: jnum
  sm_ledgerSequence :: ledger
  sm_txHash :: string

definition rate_sample_of :: "event_row \<Rightarrow> rate_sample" where
  "rate_sample_of e = \<lparr>sm_timestamp = js_Number (tuple_at (er_value e) 1),
     sm_utilizationBps = js_Number (tuple_at (er_value e) 2), sm_rateBps = js_Number (tuple_at (er_value e) 3),
     sm_ledgerSequence = er_ledger_sequence e, sm_txHash = er_tx_hash e\<rparr>"

definition bound_of :: "js \<Rightarrow> jnum option" where
  "bound_of v = (case v of JStr s \<Rightarrow> Some (string_Number s) | _ \<Rightarrow> None)"

definition in_window :: "jnum option \<Rightarrow> jnum option \<Rightarrow> rate_sample \<Rightarrow> bool" where
  "in_window lo hi s \<longleftrightarrow>
     (case lo of None \<Rightarrow> True | Some f \<Rightarrow> num_le f (sm_timestamp s)) \<and>
     (case hi of None \<Rightarrow> True | Some t \<Rightarrow> num_le (sm_timestamp s) t)"

text \<open>Samples are sorted by timestamp; a timestamp that is no number leaves the order to the engine
  and sorts as zero here.\<close>

definition rate_samples :: "string \<Rightarrow> jnum option \<Rightarrow> jnum option \<Rightarrow> event_row list \<Rightarrow> rate_sample list" where
  "rate_samples token lo hi events =
     sort_key (\<lambda>s. num_val (sm_timestamp s)) (filter (in_window lo hi)
       (map rate_sample_of (filter (\<lambda>e. tuple_at (er_value e) 0 = JStr token) events)))"

definition sample_json :: "rate_sample \<Rightarrow> js" where
  "sample_json s = JObj [(''timestamp'', JNum (sm_timestamp s)), (''utilizationBps'', JNum (sm_utilizationBps s)),
     (''rateBps'', JNum (sm_rateBps s)), (''ledgerSequence'', js_int (sm_ledgerSequence s)), (''txHash'', JStr (sm_txHash s))]"

definition get_rate_history :: "nat \<Rightarrow> (nat \<Rightarrow> db) \<Rightarrow> string \<Rightarrow> js \<Rightarrow> js \<Rightarrow> response" where
  "get_rate_history maxReplay dbs token fromq toq =
     (if token = [] then error_json 400 ''token path param is required''
      else if bound_of fromq = Some NNaN \<or> bound_of toq = Some NNaN then
        error_json 400 ''from/to must be unix timestamps in seconds''
      else with_events maxReplay dbs (of_type_event ''pool'' ''rate_snap'') (\<lambda>events.
        let samples = rate_samples token (bound_of fromq) (bound_of toq) events
        in ok_json (JObj [(''token'', JStr token), (''samples'', JArr (map sample_json samples)),
                          (''count'', js_int (int (length samples)))])))"

subsection \<open>Compliance\<close>

record flagged_entry =
  fl_address :: string
  fl_status :: string
  fl_reasonCode :: js
  fl_at :: string
  fl_txHash :: string

definition tuple_string :: "js \<Rightarrow> nat \<Rightarrow> string" where
  "tuple_string v i = (case v of JArr xs \<Rightarrow> js_String (js_coalesce (elem_at xs i) (JStr [])) | _ \<Rightarrow> [])"

definition flag_step :: "event_row \<Rightarrow> flagged_entry dict \<Rightarrow> flagged_entry dict" where
  "flag_step e latest =
     (let address = tuple_string (er_value e) 0; status = tuple_string (er_value e) 1 in
      if address = [] then latest
      else if status \<noteq> ''Flagged'' \<and> status \<noteq> ''Blocked'' then latest
      else if omap_get latest address \<noteq> None then latest
      else omap_put address \<lparr>fl_address = address, fl_status = status, fl_reasonCode = tuple_at (er_value e) 2,
                             fl_at = er_ledger_close_at e, fl_txHash = er_tx_hash e\<rparr> latest)"

definition flagged_entries :: "event_row list \<Rightarrow> flagged_entry list" where
  "flagged_entries events = map snd (fold flag_step events [])"

definition flagged_json :: "flagged_entry \<Rightarrow> js" where
  "flagged_json f = JObj [(''address'', JStr (fl_address f)), (''status'', JStr (fl_status f)),
     (''reasonCode'', fl_reasonCode f), (''at'', JStr (fl_at f)), (''txHash'', JStr (fl_txHash f))]"

definition get_compliance_page :: "js \<Rightarrow> (nat \<Rightarrow> response) \<Rightarrow> response" where
  "get_compliance_page limit answer =
     respond_range (case parsePagination of
         Inl err \<Rightarrow> Inl err
       | Inr (parsed :: nat option) \<Rightarrow>
           (case parsed of
              None \<Rightarrow> Inr (error_json 400 ''invalid limit'')
            | Some _ \<Rightarrow> (case parseBoundedInteger limit 100 MAX_PAGE_SIZE ''limit'' of
                  Inl err \<Rightarrow> Inl err
                | Inr l \<Rightarrow> Inr (answer l))))"

definition get_compliance_flagged :: "db \<Rightarrow> js \<Rightarrow> response" where
  "get_compliance_flagged d limit = get_compliance_page limit (\<lambda>l.
     ok_json (JObj [(''flagged'', JArr (map flagged_json (flagged_entries
       (getEvents d ((of_type_event ''compliance'' ''screened'')\<lparr>go_limit := Some l, go_offset := Some 0\<rparr>)))))]))"

definition get_compliance_history :: "db \<Rightarrow> string \<Rightarrow> js \<Rightarrow> response" where
  "get_compliance_history d address limit = get_compliance_page limit (\<lambda>l.
     ok_json (JObj [(''address'', JStr address), (''history'', JArr (map event_json
       (filter (\<lambda>e. is_array (er_value e) \<and> tuple_string (er_value e) 0 = address)
         (getEvents d ((of_type ''compliance'')\<lparr>go_limit := Some l, go_offset := Some 0\<rparr>)))))]))"

subsection \<open>Tranche yields and ledgers\<close>

definition bps_pct :: "int \<Rightarrow> jnum" where
  "bps_pct n = strip_zeros n 2"

definition apy_fields :: "TrancheApyRow \<Rightarrow> (string \<times> js) list" where
  "apy_fields r = [(''realizedPrincipal'', JStr (show_int (ta_principal r))),
     (''realizedReturn'', JStr (show_int (ta_return r))), (''closedPositions'', js_int (int (ta_closed r))),
     (''realizedApyBps'', js_int (ta_apyBps r)), (''realizedApyPct'', JNum (bps_pct (ta_apyBps r))),
     (''updatedAt'', JStr (ta_updatedAt r))]"

definition get_tranches_apy :: "(string \<Rightarrow> int) \<Rightarrow> apy_table \<Rightarrow> js \<Rightarrow> response" where
  "get_tranches_apy rank tbl tokenq =
     (let rows = getTrancheApy rank tbl (case tokenq of JStr t \<Rightarrow> Some t | _ \<Rightarrow> None)
      in ok_json (JObj [(''tranches'', JArr (map (\<lambda>r. JObj ([(''token'', JStr (ta_token r)),
             (''trancheClass'', JStr (class_name (ta_class r)))] @ apy_fields r)) rows)),
           (''count'', js_int (int (length rows)))]))"

definition class_json :: "TrancheApyRow list \<Rightarrow> TrancheClass \<Rightarrow> js" where
  "class_json rows c = (case find (\<lambda>r. ta_class r = c) rows of
      Some r \<Rightarrow> JObj (apy_fields r)
    | None \<Rightarrow> JObj [(''realizedPrincipal'', JStr ''0''), (''realizedReturn'', JStr ''0''), (''closedPositions'', js_int 0),
        (''realizedApyBps'', js_int 0), (''realizedApyPct'', js_int 0), (''updatedAt'', JNull)])"

definition get_tranche_apy :: "(string \<Rightarrow> int) \<Rightarrow> apy_table \<Rightarrow> string \<Rightarrow> response" where
  "get_tranche_apy rank tbl token =
     (if token = [] then error_json 400 ''token path param is required''
      else (let rows = getTrancheApy rank tbl (Some token)
            in ok_json (JObj [(''token'', JStr token), (''senior'', class_json rows TC_Senior),
                              (''junior'', class_json rows TC_Junior)])))"

definition get_ledger_latest :: "db \<Rightarrow> response" where
  "get_ledger_latest d = ok_json (JObj [(''latestLedger'',
     (case getLatestLedger d of Some l \<Rightarrow> JNum (string_Number l) | None \<Rightarrow> JNull))])"

definition get_health :: "string \<Rightarrow> (string \<times> bool) option \<Rightarrow> db \<Rightarrow> response" where
  "get_health now state d =
     (let stored = getLatestLedger d;
          lastProcessed = (case state of Some (l, _) \<Rightarrow> if l = [] then stored else Some l | None \<Rightarrow> stored)
      in ok_json (JObj [(''status'', JStr ''ok''), (''timestamp'', JStr now), (''lastProcessedLedger'', js_opt lastProcessed),
           (''latestStoredLedger'', (case stored of Some l \<Rightarrow> JNum (string_Number l) | None \<Rightarrow> JNull)),
           (''indexerActive'', JBool (case state of Some (_, a) \<Rightarrow> a | None \<Rightarrow> False))]))"

section \<open>Lemmas\<close>

lemma selected_rows_page [simp]:
  "selected_rows d (opts\<lparr>go_limit := l, go_offset := n\<rparr>) = selected_rows d opts"
  by (simp add: selected_rows_def row_matches_def order_rows_def cong: filter_cong)

lemma getEvents_page:
  "getEvents d (opts\<lparr>go_limit := Some l, go_offset := Some n\<rparr>) = take l (drop n (map rowToEvent (selected_rows d opts)))"
  by (simp add: getEvents_def take_map drop_map)

lemma getAllEvents_loop_bound: "getAllEvents_loop m dbs opts n off es = Inr r \<Longrightarrow> length r \<le> m"
  by (induction m dbs opts n off es rule: getAllEvents_loop.induct)
    (subst (asm) (2) getAllEvents_loop.simps, auto simp: Let_def split: if_splits)

lemma getAllEvents_loop_stable:
  assumes "all = map rowToEvent (selected_rows d opts)" "es = take off all" "off \<le> length all" "off \<le> m"
  shows "getAllEvents_loop m (\<lambda>_. d) opts n off es =
     (if length all \<le> m then Inr all
      else Inl (RangeError (''event replay exceeds the '' @ show_nat m @ '' event safety limit'')))"
  using assms(2-4)
proof (induction "length all - off" arbitrary: n off es rule: less_induct)
  case less
  let ?page = "take replay_page_size (drop off all)"
  have page: "getEvents d (opts\<lparr>go_limit := Some replay_page_size, go_offset := Some off\<rparr>) = ?page"
    by (simp add: getEvents_page assms(1))
  have acc: "es @ ?page = take (off + length ?page) all"
    using less.prems by (simp add: take_add min_def)
  have len: "length (es @ ?page) = off + length ?page" using less.prems by simp
  have bound: "off + length ?page \<le> length all" using less.prems by simp
  show ?case
  proof (cases "off + length ?page > m")
    case True
    then have "length all > m" using bound by simp
    with True show ?thesis
      by (subst getAllEvents_loop.simps) (simp only: page len Let_def if_True, simp)
  next
    case ok: False
    show ?thesis
    proof (cases "length ?page < replay_page_size")
      case True
      then have "off + length ?page = length all" using less.prems(2) by simp
      then have eq: "es @ ?page = all" and lm: "length all \<le> m" using acc ok by simp_all
      show ?thesis
        by (subst getAllEvents_loop.simps) (simp only: page Let_def eq True if_True, use lm in simp)
    next
      case False
      then have full: "length ?page = replay_page_size" by simp
      have "getAllEvents_loop m (\<lambda>_. d) opts (n + 1) (off + length ?page) (es @ ?page) =
         (if length all \<le> m then Inr all
          else Inl (RangeError (''event replay exceeds the '' @ show_nat m @ '' event safety limit'')))"
        using ok bound acc full by (intro less.hyps) (auto simp: replay_page_size_def)
      with ok False show ?thesis
        by (subst getAllEvents_loop.simps) (simp only: page len Let_def, simp)
    qed
  qed
qed

lemma getAllEvents_stable:
  "getAllEvents m (\<lambda>_. d) opts =
     (if length (selected_rows d opts) \<le> m then Inr (map rowToEvent (selected_rows d opts))
      else Inl (RangeError (''event replay exceeds the '' @ show_nat m @ '' event safety limit'')))"
  unfolding getAllEvents_def by (subst getAllEvents_loop_stable [OF refl]) simp_all

lemma sort_desc_then_asc: "sort_key f (sort_desc f xs) = sort_key (f :: 'a \<Rightarrow> int) xs"
proof (rule properties_for_sort_key [symmetric])
  show "mset (sort_key f (sort_desc f xs)) = mset xs" by (simp add: sort_desc_def)
  show "sorted (map f (sort_key f (sort_desc f xs)))" by simp
  fix k assume "k \<in> set (sort_key f (sort_desc f xs))"
  have "filter (\<lambda>x. f k = f x) (sort_desc f xs) = filter (\<lambda>x. f k = f x) xs"
    using sort_key_stable [of "\<lambda>x. - f x" "- f k" xs] by (simp add: sort_desc_def eq_commute)
  then show "filter (\<lambda>x. f k = f x) (sort_key f (sort_desc f xs)) = filter (\<lambda>x. f k = f x) xs"
    using sort_key_stable [of f "f k" "sort_desc f xs"] by (simp add: eq_commute)
qed

interpretation round_replay: last_status round_status_step round_write
  by unfold_locales (simp add: round_status_step_def)

interpretation cofunding_replay: last_status cofunding_status_step cofunding_write
  by unfold_locales (simp add: cofunding_status_step_def)

definition opens :: "string \<Rightarrow> event_row \<Rightarrow> bool" where
  "opens i e \<longleftrightarrow> er_event_type e = ''lst_open'' \<and> extractListingId (er_value e) = Some i"

definition closes :: "string \<Rightarrow> event_row \<Rightarrow> bool" where
  "closes i e \<longleftrightarrow> er_event_type e \<in> {''lst_cncl'', ''lst_buy''} \<and> extractListingId (er_value e) = Some i"

lemma listing_step_sets:
  "set (fst (listing_step e oc)) = set (fst oc) \<union> {i. opens i e}"
  "set (snd (listing_step e oc)) = set (snd oc) \<union> {i. closes i e}"
  "distinct (fst oc) \<Longrightarrow> distinct (fst (listing_step e oc))"
  by (cases oc; cases "extractListingId (er_value e)";
      auto simp: listing_step_def LISTING_EVENT_TYPES_def opens_def closes_def)+

lemma fold_listing_step:
  "set (fst (fold listing_step es oc)) = set (fst oc) \<union> {i. \<exists>e \<in> set es. opens i e}"
  "set (snd (fold listing_step es oc)) = set (snd oc) \<union> {i. \<exists>e \<in> set es. closes i e}"
  "distinct (fst oc) \<Longrightarrow> distinct (fst (fold listing_step es oc))"
  by (induction es arbitrary: oc) (auto simp: listing_step_sets)

definition flags :: "string \<Rightarrow> event_row \<Rightarrow> bool" where
  "flags a e \<longleftrightarrow> a \<noteq> [] \<and> tuple_string (er_value e) 0 = a \<and> tuple_string (er_value e) 1 \<in> {''Flagged'', ''Blocked''}"

lemma flag_step_keys:
  "set (map fst (flag_step e m)) = set (map fst m) \<union> {a. flags a e}"
proof -
  have "a \<in> set (map fst (flag_step e m)) \<longleftrightarrow> a \<in> set (map fst m) \<or> flags a e" for a
    by (simp only: omap.keys_get) (auto simp: flag_step_def flags_def Let_def)
  then show ?thesis by blast
qed

lemma flag_step_address:
  "\<forall>(k, f) \<in> set m. fl_address f = k \<Longrightarrow> omap_wf m \<Longrightarrow>
   (\<forall>(k, f) \<in> set (flag_step e m). fl_address f = k) \<and> omap_wf (flag_step e m)"
  by (auto simp: flag_step_def Let_def omap_get_None_iff omap_put_new_keys omap_wf_def)

lemma fold_flag_step:
  "\<forall>(k, f) \<in> set m. fl_address f = k \<Longrightarrow> omap_wf m \<Longrightarrow>
   (\<forall>(k, f) \<in> set (fold flag_step es m). fl_address f = k) \<and> omap_wf (fold flag_step es m) \<and>
   set (map fst (fold flag_step es m)) = set (map fst m) \<union> {a. \<exists>e \<in> set es. flags a e}"
proof (induction es arbitrary: m)
  case (Cons e es)
  from Cons.IH [of "flag_step e m"] flag_step_address [OF Cons.prems, of e] flag_step_keys [of e m]
  show ?case by (auto simp del: set_map)
qed simp

section \<open>Properties\<close>



text \<open>The open listings are exactly the listings that some event opened and no event cancelled or
  bought, each listed once, whatever the order in which the events are read.\<close>

theorem open_listings_exact:
  "distinct (open_listings events) \<and>
   (i \<in> set (open_listings events) \<longleftrightarrow> (\<exists>e \<in> set events. opens i e) \<and> \<not> (\<exists>e \<in> set events. closes i e))"
  using fold_listing_step [where es = events and oc = "([], [])"] by (auto simp: open_listings_def still_open_def)


text \<open>The flagged list forgets clearances: an address is listed exactly when some event of the page
  flagged or blocked it, even when a newer event of the page cleared it; no address is listed twice.\<close>

theorem flagged_ignores_clearance:
  "distinct (map fl_address (flagged_entries events)) \<and>
   (a \<in> set (map fl_address (flagged_entries events)) \<longleftrightarrow> (\<exists>e \<in> set events. flags a e))"
proof -
  let ?m = "fold flag_step events []"
  have m: "\<forall>(k, f) \<in> set ?m. fl_address f = k" "omap_wf ?m" "set (map fst ?m) = {a. \<exists>e \<in> set events. flags a e}"
    using fold_flag_step [of "[]" events] by auto
  have "map fl_address (flagged_entries events) = map fst ?m" using m(1) by (auto simp: flagged_entries_def)
  then show ?thesis using m(2,3) by (simp add: omap_wf_def del: set_map)
qed

end
