(* ===== verification/RateModel.thy ===== *)
theory RateModel
  imports Prelude "HOL-Library.Word"
begin

text \<open>
  The kinked interest-rate curve, on both sides of the chain: the port the frontend charts
  (\<open>frontend/lib/rate-model.ts\<close>) and the pool contract's own computation
  (\<open>contracts/pool/src/lib.rs\<close>), which the port must stay in lockstep with.

  The frontend computes with finite numbers, modelled as \<open>rat\<close> with \<open>None\<close> for NaN; every
  intermediate value of a validated configuration is an integer below \<open>2^27\<close> or a quotient of two
  such, so the double arithmetic of the source and the exact one have the same floors.  The
  contract computes with \<open>u32\<close> and \<open>u128\<close> words, with checked and saturating operations.
\<close>

section \<open>The frontend's port\<close>

definition BPS_DENOM :: rat where
  "BPS_DENOM = 10000"

record RateModelConfig =
  baseRateBps :: rat
  optimalUtilizationBps :: rat
  slope1Bps :: rat
  slope2Bps :: rat
  maxRateBps :: rat

definition rate_at :: "rat \<Rightarrow> RateModelConfig \<Rightarrow> rat" where
  "rate_at util config =
     (let optimal = optimalUtilizationBps config;
          below = min util optimal;
          rate = baseRateBps config + of_int \<lfloor>below * slope1Bps config / optimal\<rfloor>;
          rate' = (if optimal < util
                   then rate + of_int \<lfloor>(util - optimal) * slope2Bps config / (BPS_DENOM - optimal)\<rfloor>
                   else rate)
      in min rate' (maxRateBps config))"

text \<open>A NaN utilisation survives the clamps and every later sum, comparison and minimum.\<close>

definition computeCurrentRateBps :: "rat option \<Rightarrow> RateModelConfig \<Rightarrow> rat option" where
  "computeCurrentRateBps utilizationBps config =
     (let util = map_option (\<lambda>u. min (max 0 (of_int \<lfloor>u\<rfloor>)) BPS_DENOM) utilizationBps;
          optimal = optimalUtilizationBps config
      in if optimal \<le> 0 \<or> BPS_DENOM < optimal then Some (maxRateBps config)
         else map_option (\<lambda>u. rate_at u config) util)"

text \<open>
  \<open>Math.round\<close> rounds halves up.  With a single point the step is a division by zero, and
  \<open>0 * Infinity\<close> is NaN; with none the loop does not run.
\<close>

definition sample_utilization :: "nat \<Rightarrow> nat \<Rightarrow> rat option" where
  "sample_utilization points i =
     (if points = 1 then None
      else Some (of_int \<lfloor>of_nat i * (BPS_DENOM / (of_nat points - 1)) + 1 / 2\<rfloor>))"

definition sampleRateCurve :: "RateModelConfig \<Rightarrow> nat \<Rightarrow> (rat option \<times> rat option) list" where
  "sampleRateCurve config points =
     map (\<lambda>i. (sample_utilization points i, computeCurrentRateBps (sample_utilization points i) config))
       [0..<points]"

definition isInteger :: "rat \<Rightarrow> bool" where
  "isInteger x \<longleftrightarrow> x = of_int \<lfloor>x\<rfloor>"

definition MAX_RATE_BPS_CAP :: rat where
  "MAX_RATE_BPS_CAP = 5000"

type_synonym translator = "string \<Rightarrow> (string \<times> string) list \<Rightarrow> string"

definition say :: "translator option \<Rightarrow> string \<Rightarrow> (string \<times> string) list \<Rightarrow> string \<Rightarrow> string" where
  "say t key values plain = (case t of Some f \<Rightarrow> f key values | None \<Rightarrow> plain)"

fun validate_slopes :: "translator option \<Rightarrow> (string \<times> rat) list \<Rightarrow> string option" where
  "validate_slopes t [] = None"
| "validate_slopes t ((name, slope) # rest) =
     (if \<not> isInteger slope \<or> slope < 0 \<or> MAX_RATE_BPS_CAP < slope
      then Some (say t ''slopeRange'' [(''name'', name), (''max'', ''5000'')]
                   (name @ '' must be between 0 and 5000 bps.''))
      else validate_slopes t rest)"

text \<open>The dash of the first message is written as a hyphen here: strings are ASCII.\<close>

definition validateRateModelConfig :: "RateModelConfig \<Rightarrow> translator option \<Rightarrow> string option" where
  "validateRateModelConfig config t =
     (if \<not> isInteger (optimalUtilizationBps config) \<or> optimalUtilizationBps config \<le> 0
         \<or> BPS_DENOM < optimalUtilizationBps config
      then Some (say t ''optUtilRange'' []
                   ''Optimal utilization must be between 1 and 10000 bps (0.01%-100%).'')
      else if \<not> isInteger (maxRateBps config) \<or> maxRateBps config \<le> 0 \<or> MAX_RATE_BPS_CAP < maxRateBps config
      then Some (say t ''maxRateRange'' [(''max'', ''5000'')] ''Max rate must be between 1 and 5000 bps.'')
      else if \<not> isInteger (baseRateBps config) \<or> baseRateBps config < 0
      then Some (say t ''baseRateNonNegative'' [] ''Base rate must be a non-negative integer (bps).'')
      else if maxRateBps config < baseRateBps config
      then Some (say t ''baseRateExceedsMax'' [] ''Base rate cannot exceed the max rate.'')
      else validate_slopes t [(''Slope 1'', slope1Bps config), (''Slope 2'', slope2Bps config)])"

section \<open>The contract's computation\<close>

type_synonym u32 = "32 word"
type_synonym u128 = "128 word"

record ChainRateModel =
  base_rate_bps :: u32
  optimal_utilization_bps :: u32
  slope1_bps :: u32
  slope2_bps :: u32
  max_rate_bps :: u32

definition checked_mul :: "u128 \<Rightarrow> u128 \<Rightarrow> u128 option" where
  "checked_mul a b = (if unat a * unat b < 2 ^ 128 then Some (a * b) else None)"

definition checked_div :: "u128 \<Rightarrow> u128 \<Rightarrow> u128 option" where
  "checked_div a b = (if b = 0 then None else Some (a div b))"

definition saturating_add :: "u128 \<Rightarrow> u128 \<Rightarrow> u128" where
  "saturating_add a b = (if unat a + unat b < 2 ^ 128 then a + b else - 1)"

definition saturating_sub :: "u128 \<Rightarrow> u128 \<Rightarrow> u128" where
  "saturating_sub a b = (if b \<le> a then a - b else 0)"

definition mul_div :: "u128 \<Rightarrow> u128 \<Rightarrow> u128 \<Rightarrow> u128" where
  "mul_div a b denom =
     (case (case checked_mul a b of Some v \<Rightarrow> checked_div v denom | None \<Rightarrow> None) of
        Some q \<Rightarrow> q | None \<Rightarrow> - 1)"

definition compute_current_rate :: "u32 \<Rightarrow> ChainRateModel \<Rightarrow> u32" where
  "compute_current_rate utilization_bps config =
     (let util = ucast (min utilization_bps 10000) :: u128;
          optimal = ucast (optimal_utilization_bps config) :: u128;
          base = ucast (base_rate_bps config) :: u128;
          ceiling = ucast (max_rate_bps config) :: u128;
          rate = saturating_add base (mul_div (min util optimal) (ucast (slope1_bps config)) optimal);
          rate' = (if optimal < util
                   then saturating_add rate
                          (mul_div (util - optimal) (ucast (slope2_bps config)) (saturating_sub 10000 optimal))
                   else rate)
      in ucast (min (min rate' ceiling) (ucast (- 1 :: u32))))"

definition validate_rate_model_config :: "ChainRateModel \<Rightarrow> bool" where
  "validate_rate_model_config config =
     (\<not> (optimal_utilization_bps config = 0 \<or> 10000 < optimal_utilization_bps config)
      \<and> \<not> (max_rate_bps config = 0 \<or> 5000 < max_rate_bps config)
      \<and> \<not> max_rate_bps config < base_rate_bps config
      \<and> \<not> (5000 < slope1_bps config \<or> 5000 < slope2_bps config))"

text \<open>The configuration the frontend sees is the one the contract stores.\<close>

definition decoded_config :: "ChainRateModel \<Rightarrow> RateModelConfig" where
  "decoded_config c = \<lparr>baseRateBps = of_nat (unat (base_rate_bps c)),
     optimalUtilizationBps = of_nat (unat (optimal_utilization_bps c)),
     slope1Bps = of_nat (unat (slope1_bps c)), slope2Bps = of_nat (unat (slope2_bps c)),
     maxRateBps = of_nat (unat (max_rate_bps c))\<rparr>"

section \<open>The curve as integer arithmetic\<close>

text \<open>The formula both implementations state in their comments, over natural numbers.\<close>

definition kinked_rate :: "nat \<Rightarrow> nat \<Rightarrow> nat \<Rightarrow> nat \<Rightarrow> nat \<Rightarrow> nat \<Rightarrow> nat" where
  "kinked_rate base optimal slope1 slope2 cap util =
     min cap
       (if util \<le> optimal then base + util * slope1 div optimal
        else base + slope1 + (util - optimal) * slope2 div (10000 - optimal))"

lemma kinked_rate_le_ceiling: "kinked_rate b opt s1 s2 mx u \<le> mx"
  by (simp add: kinked_rate_def)

lemma kinked_rate_mono:
  assumes "u \<le> v" "0 < opt"
  shows "kinked_rate b opt s1 s2 mx u \<le> kinked_rate b opt s1 s2 mx v"
proof -
  have below: "u * s1 div opt \<le> v * s1 div opt"
    using assms(1) by (simp add: div_le_mono)
  have kink: "u * s1 div opt \<le> s1" if "u \<le> opt"
  proof -
    have "u * s1 div opt \<le> opt * s1 div opt" by (rule div_le_mono) (simp add: that)
    then show ?thesis using assms(2) by simp
  qed
  have above: "(u - opt) * s2 div (10000 - opt) \<le> (v - opt) * s2 div (10000 - opt)"
    by (rule div_le_mono) (simp add: assms(1) diff_le_mono)
  show ?thesis
    using below kink above assms(1) unfolding kinked_rate_def by (auto simp: min_def)
qed

lemma kinked_rate_ge_base: "b \<le> mx \<Longrightarrow> b \<le> kinked_rate b opt s1 s2 mx u"
  by (simp add: kinked_rate_def)

lemma kinked_rate_at_kink: "0 < opt \<Longrightarrow> kinked_rate b opt s1 s2 mx opt = min mx (b + s1)"
  by (simp add: kinked_rate_def)

section \<open>The contract computes the curve\<close>

lemma unat_mul_div:
  assumes "unat a * unat b < 2 ^ 128" "d \<noteq> 0"
  shows "unat (mul_div a b d) = unat a * unat b div unat d"
proof -
  have "unat (a * b) = unat a * unat b"
    using assms(1) by (simp add: unat_word_ariths)
  then show ?thesis using assms by (simp add: mul_div_def checked_mul_def checked_div_def unat_div)
qed

lemma unat_saturating_add: "unat a + unat b < 2 ^ 128 \<Longrightarrow> unat (saturating_add a b) = unat a + unat b"
  by (simp add: saturating_add_def unat_word_ariths)

lemma unat_min: "unat (min a b) = min (unat a) (unat b)" for a b :: "'a::len word"
  by (simp add: min_def word_le_nat_alt)

lemma unat_widen: "unat (ucast (x :: u32) :: u128) = unat x"
  by (simp add: unsigned_ucast_eq take_bit_nat_eq_self unsigned_less [THEN less_trans])

lemma unat_narrow: "unat y < 2 ^ 32 \<Longrightarrow> unat (ucast (y :: u128) :: u32) = unat y"
  by (simp add: unsigned_ucast_eq take_bit_nat_eq_self)

lemma u32_bound: "unat (x :: u32) < 2 ^ 32"
  using unsigned_less [of x] by simp

lemma unat_clamp: "unat (ucast (min (min (r :: u128) (ucast (m :: u32))) (ucast (- 1 :: u32))) :: u32) = min (unat r) (unat m)"
proof -
  have "unat (min (min r (ucast m)) (ucast (- 1 :: u32))) = min (unat r) (unat m)"
    using u32_bound [of m] by (simp add: unat_min unat_widen unsigned_minus_1_eq_mask mask_eq_exp_minus_1)
  then show ?thesis
    using u32_bound [of m] by (subst unat_narrow) simp_all
qed

text \<open>The share of a slope: no product of a utilisation and a \<open>u32\<close> slope overflows.\<close>

lemma slope_share:
  assumes "unat a \<le> 10000" "d \<noteq> 0"
  shows "unat (mul_div a (ucast (s :: u32)) d) = unat a * unat s div unat d"
    "unat (mul_div a (ucast s) d) < 2 ^ 64"
proof -
  have "unat a * unat s \<le> 10000 * 2 ^ 32"
    using assms(1) u32_bound [of s] by (intro mult_mono) auto
  then have *: "unat a * unat s < 2 ^ 64" by simp
  then have "unat a * unat (ucast s :: u128) < 2 ^ 128"
    by (simp add: unat_widen)
  then show eq: "unat (mul_div a (ucast s) d) = unat a * unat s div unat d"
    using assms(2) by (simp add: unat_mul_div unat_widen)
  show "unat (mul_div a (ucast s) d) < 2 ^ 64"
    unfolding eq by (rule le_less_trans [OF div_le_dividend *])
qed

lemma slope2_share:
  assumes "optimal < util" "unat util \<le> 10000"
  shows "unat (mul_div (util - optimal) (ucast (s :: u32)) (saturating_sub 10000 optimal)) =
      (unat util - unat optimal) * unat s div (10000 - unat optimal)"
    "unat (mul_div (util - optimal) (ucast s) (saturating_sub 10000 optimal)) < 2 ^ 64"
proof -
  have lt: "unat optimal < unat util" using assms(1) by (simp add: word_less_nat_alt)
  have diff: "unat (util - optimal) = unat util - unat optimal"
    using assms(1) by (simp add: unat_sub less_imp_le)
  have le: "optimal \<le> 10000" using lt assms(2) by (simp add: word_le_nat_alt)
  then have span: "unat (saturating_sub 10000 optimal) = 10000 - unat optimal"
    by (simp add: saturating_sub_def unat_sub)
  have nz: "saturating_sub 10000 optimal \<noteq> 0"
    using lt assms(2) span by (metis diff_is_0_eq le_trans not_le unat_0)
  show "unat (mul_div (util - optimal) (ucast s) (saturating_sub 10000 optimal)) =
      (unat util - unat optimal) * unat s div (10000 - unat optimal)"
    "unat (mul_div (util - optimal) (ucast s) (saturating_sub 10000 optimal)) < 2 ^ 64"
    using slope_share [OF _ nz, of "util - optimal" s] assms(2) by (simp_all add: diff span)
qed

lemma unat_saturating_add_small:
  "unat a < 2 ^ 65 \<Longrightarrow> unat b < 2 ^ 64 \<Longrightarrow> unat (saturating_add a b) = unat a + unat b"
  by (rule unat_saturating_add) simp

lemma compute_current_rate_eq:
  assumes opt: "0 < unat (optimal_utilization_bps c)"
  shows "unat (compute_current_rate u c) =
    kinked_rate (unat (base_rate_bps c)) (unat (optimal_utilization_bps c)) (unat (slope1_bps c))
      (unat (slope2_bps c)) (unat (max_rate_bps c)) (min (unat u) 10000)"
proof -
  define util where "util = (ucast (min u 10000) :: u128)"
  define optimal where "optimal = (ucast (optimal_utilization_bps c) :: u128)"
  define below where "below = mul_div (min util optimal) (ucast (slope1_bps c)) optimal"
  define above where "above = mul_div (util - optimal) (ucast (slope2_bps c)) (saturating_sub 10000 optimal)"
  define rate where "rate = saturating_add (ucast (base_rate_bps c)) below"
  have util: "unat util = min (unat u) 10000"
    by (simp add: util_def unat_widen unat_min)
  have optimal: "unat optimal = unat (optimal_utilization_bps c)" "optimal \<noteq> 0"
    using opt by (auto simp: optimal_def unat_widen word_unat_eq_iff)
  have below: "unat below = min (unat util) (unat optimal) * unat (slope1_bps c) div unat optimal"
    "unat below < 2 ^ 64"
    unfolding below_def using slope_share [OF _ optimal(2), of "min util optimal" "slope1_bps c"] util
    by (simp_all add: unat_min)
  have rate: "unat rate = unat (base_rate_bps c) + unat below" "unat rate < 2 ^ 65"
    using u32_bound [of "base_rate_bps c"] below(2)
    by (simp_all add: rate_def unat_saturating_add_small unat_widen)
  have "unat (compute_current_rate u c) =
      min (unat (if optimal < util then saturating_add rate above else rate)) (unat (max_rate_bps c))"
    by (simp add: compute_current_rate_def Let_def unat_clamp rate_def above_def below_def
        optimal_def util_def)
  also have "\<dots> = kinked_rate (unat (base_rate_bps c)) (unat optimal) (unat (slope1_bps c))
      (unat (slope2_bps c)) (unat (max_rate_bps c)) (unat util)"
  proof (cases "optimal < util")
    case True
    then have "unat optimal < unat util" by (simp add: word_less_nat_alt)
    moreover have "unat (saturating_add rate above) =
        unat rate + (unat util - unat optimal) * unat (slope2_bps c) div (10000 - unat optimal)"
      using slope2_share [OF True] util rate(2) by (simp add: above_def unat_saturating_add_small)
    ultimately show ?thesis
      using True rate(1) below(1) opt by (simp add: kinked_rate_def optimal(1) min.commute)
  next
    case False
    then have "unat util \<le> unat optimal" by (simp add: word_less_nat_alt)
    with False rate(1) below(1) show ?thesis
      by (simp add: kinked_rate_def min.commute min_absorb1)
  qed
  finally show ?thesis by (simp add: util optimal(1))
qed

lemma saturating_add_max: "saturating_add a (- 1) = - 1" "saturating_add (- 1) a = - 1"
  using unsigned_less [of a]
  by (auto simp: saturating_add_def unsigned_minus_1_eq_mask mask_eq_exp_minus_1 unat_eq_zero
      simp flip: unat_eq_0)

lemma compute_current_rate_zero_kink:
  assumes "optimal_utilization_bps c = 0"
  shows "compute_current_rate u c = max_rate_bps c"
proof -
  have "mul_div (min v 0) s 0 = - 1" for v s :: u128
    by (simp add: mul_div_def checked_mul_def checked_div_def min_def)
  then have "unat (compute_current_rate u c) = min (unat (- 1 :: u128)) (unat (max_rate_bps c))"
    using unat_clamp [of "- 1" "max_rate_bps c"]
    by (simp add: compute_current_rate_def Let_def assms saturating_add_max)
  also have "\<dots> = unat (max_rate_bps c)"
    using u32_bound [of "max_rate_bps c"] by (simp add: unsigned_minus_1_eq_mask mask_eq_exp_minus_1)
  finally show ?thesis by (simp only: word_unat_eq_iff)
qed

section \<open>The port computes the same curve\<close>

lemma floor_share: "\<lfloor>of_nat a * of_nat b / of_nat d :: rat\<rfloor> = int (a * b div d)"
  by (metis floor_divide_of_nat_eq of_nat_mult)

lemma rate_at_nat:
  assumes "0 < opt" "opt \<le> 10000" "u \<le> 10000"
  shows "rate_at (of_nat u) \<lparr>baseRateBps = of_nat b, optimalUtilizationBps = of_nat opt, slope1Bps = of_nat s1,
       slope2Bps = of_nat s2, maxRateBps = of_nat mx\<rparr> = of_nat (kinked_rate b opt s1 s2 mx u)"
proof (cases "u \<le> opt")
  case True
  then show ?thesis
    by (simp add: rate_at_def Let_def kinked_rate_def min_absorb1 floor_share of_nat_min min.commute)
next
  case False
  have "(of_nat u - of_nat opt :: rat) = of_nat (u - opt)" "(BPS_DENOM - of_nat opt :: rat) = of_nat (10000 - opt)"
    using False assms(2) by (simp_all add: of_nat_diff BPS_DENOM_def)
  with False assms(1) show ?thesis
    by (simp add: rate_at_def Let_def kinked_rate_def min_absorb2 floor_share of_nat_min min.commute
        del: of_nat_diff)
qed

lemma computeCurrentRateBps_nat:
  assumes "0 < opt" "opt \<le> 10000"
  shows "computeCurrentRateBps (Some x) \<lparr>baseRateBps = of_nat b, optimalUtilizationBps = of_nat opt,
       slope1Bps = of_nat s1, slope2Bps = of_nat s2, maxRateBps = of_nat mx\<rparr> =
     Some (of_nat (kinked_rate b opt s1 s2 mx (min (nat \<lfloor>x\<rfloor>) 10000)))"
proof -
  have "min (max 0 (of_int \<lfloor>x\<rfloor>)) BPS_DENOM = (of_nat (min (nat \<lfloor>x\<rfloor>) 10000) :: rat)"
    by (simp add: BPS_DENOM_def min_def max_def nat_le_iff)
  with assms show ?thesis
    using rate_at_nat [OF assms, of "min (nat \<lfloor>x\<rfloor>) 10000"]
    by (simp add: computeCurrentRateBps_def Let_def BPS_DENOM_def)
qed

lemma isInteger_iff: "isInteger x \<longleftrightarrow> (\<exists>n. x = of_int n)"
  by (auto simp: isInteger_def)

lemma validated_nats:
  assumes "validateRateModelConfig config t = None"
  obtains b opt s1 s2 mx where "config = \<lparr>baseRateBps = of_nat b, optimalUtilizationBps = of_nat opt,
      slope1Bps = of_nat s1, slope2Bps = of_nat s2, maxRateBps = of_nat mx\<rparr>"
    and "0 < opt" "opt \<le> 10000" "0 < mx" "mx \<le> 5000" "b \<le> mx" "s1 \<le> 5000" "s2 \<le> 5000"
proof -
  have nat: "\<exists>n. x = of_nat n" if "isInteger x" "\<not> x < 0" for x :: rat
    using that by (metis isInteger_iff of_int_0_le_iff not_less nonneg_int_cases of_int_of_nat_eq)
  have ranges: "isInteger (optimalUtilizationBps config)" "0 < optimalUtilizationBps config"
    "optimalUtilizationBps config \<le> 10000" "isInteger (maxRateBps config)" "0 < maxRateBps config"
    "maxRateBps config \<le> 5000" "isInteger (baseRateBps config)" "0 \<le> baseRateBps config"
    "baseRateBps config \<le> maxRateBps config"
    "isInteger (slope1Bps config)" "0 \<le> slope1Bps config" "slope1Bps config \<le> 5000"
    "isInteger (slope2Bps config)" "0 \<le> slope2Bps config" "slope2Bps config \<le> 5000"
    using assms
    by (auto simp: validateRateModelConfig_def BPS_DENOM_def MAX_RATE_BPS_CAP_def not_le not_less
        split: if_splits)
  obtain b opt s1 s2 mx where eqs: "baseRateBps config = of_nat b" "optimalUtilizationBps config = of_nat opt"
    "slope1Bps config = of_nat s1" "slope2Bps config = of_nat s2" "maxRateBps config = of_nat mx"
    using nat ranges by (metis not_less order.strict_implies_order)
  have "0 < opt" "opt \<le> 10000" "0 < mx" "mx \<le> 5000" "b \<le> mx" "s1 \<le> 5000" "s2 \<le> 5000"
    using ranges unfolding eqs by simp_all
  with eqs show ?thesis by (intro that [of b opt s1 s2 mx]) simp_all
qed

section \<open>Properties of the rate model\<close>

text \<open>C19: The frontend's port of the rate curve and the contract's computation in 32 and 128 bit words agree at every utilisation and for every stored configuration whose kink is at most 100 per cent, a zero kink (where the contract's division saturates) included.\<close>

theorem rate_port_agrees:
  assumes "optimal_utilization_bps c \<le> 10000"
  shows "computeCurrentRateBps (Some (of_nat (unat u))) (decoded_config c) =
    Some (of_nat (unat (compute_current_rate u c)))"
proof (cases "optimal_utilization_bps c = 0")
  case True
  then show ?thesis
    by (simp add: computeCurrentRateBps_def decoded_config_def compute_current_rate_zero_kink del: of_nat_unat)
next
  case False
  then have "0 < unat (optimal_utilization_bps c)" "unat (optimal_utilization_bps c) \<le> 10000"
    using assms by (simp_all add: word_le_nat_alt unat_gt_0)
  then show ?thesis
    by (simp add: decoded_config_def computeCurrentRateBps_nat compute_current_rate_eq del: of_nat_unat)
qed

theorem rate_port_agrees_witness:
  "computeCurrentRateBps (Some (of_nat (unat (9000 :: u32))))
     (decoded_config \<lparr>base_rate_bps = 200, optimal_utilization_bps = 8000, slope1_bps = 400, slope2_bps = 2000, max_rate_bps = 3000\<rparr>) =
   Some (of_nat (unat (compute_current_rate 9000
     \<lparr>base_rate_bps = 200, optimal_utilization_bps = 8000, slope1_bps = 400, slope2_bps = 2000, max_rate_bps = 3000\<rparr>)))"
  by (rule rate_port_agrees) simp

text \<open>Both validators accept the same stored configurations, whatever translator words the messages.\<close>

theorem rate_validators_agree:
  "validateRateModelConfig (decoded_config c) t = None \<longleftrightarrow> validate_rate_model_config c"
proof -
  have "isInteger (of_nat n)" "\<not> (of_nat n :: rat) < 0" for n
    by (simp_all add: isInteger_def)
  moreover have "(of_nat (unat w) \<le> (0 :: rat)) \<longleftrightarrow> w = 0" for w :: u32
    by (simp add: unat_eq_0 del: of_nat_unat)
  ultimately show ?thesis
    by (simp add: validateRateModelConfig_def decoded_config_def validate_rate_model_config_def
        BPS_DENOM_def MAX_RATE_BPS_CAP_def word_less_nat_alt del: of_nat_unat)
qed

text \<open>C40: Under a configuration the editor accepts, the rate is a whole number of basis points between the base rate and the ceiling, it never falls when the utilisation rises, and it meets base plus first slope, capped, at the kink.\<close>

theorem accepted_curve_bounded_and_monotone:
  assumes "validateRateModelConfig config t = None" "x \<le> y"
  shows "(\<exists>r s. computeCurrentRateBps (Some x) config = Some r \<and> computeCurrentRateBps (Some y) config = Some s
      \<and> isInteger r \<and> baseRateBps config \<le> r \<and> r \<le> s \<and> s \<le> maxRateBps config)
    \<and> computeCurrentRateBps (Some (optimalUtilizationBps config)) config =
      Some (min (maxRateBps config) (baseRateBps config + slope1Bps config))"
proof -
  obtain b opt s1 s2 mx where config: "config = \<lparr>baseRateBps = of_nat b, optimalUtilizationBps = of_nat opt,
      slope1Bps = of_nat s1, slope2Bps = of_nat s2, maxRateBps = of_nat mx\<rparr>"
    and opt: "0 < opt" "opt \<le> 10000" and "b \<le> mx"
    using assms(1) by (rule validated_nats)
  let ?f = "\<lambda>x. kinked_rate b opt s1 s2 mx (min (nat \<lfloor>x\<rfloor>) 10000)"
  have "?f x \<le> ?f y"
    using assms(2) opt(1) by (intro kinked_rate_mono min.mono nat_mono floor_mono) auto
  with opt \<open>b \<le> mx\<close> show ?thesis
    by (simp add: config computeCurrentRateBps_nat kinked_rate_ge_base kinked_rate_le_ceiling isInteger_def
        min_absorb1 kinked_rate_at_kink of_nat_min)
qed

theorem accepted_curve_bounded_and_monotone_witness:
  "\<exists>r s. computeCurrentRateBps (Some 4000)
      \<lparr>baseRateBps = 200, optimalUtilizationBps = 8000, slope1Bps = 400, slope2Bps = 2000, maxRateBps = 3000\<rparr> = Some r
    \<and> computeCurrentRateBps (Some 9000)
      \<lparr>baseRateBps = 200, optimalUtilizationBps = 8000, slope1Bps = 400, slope2Bps = 2000, maxRateBps = 3000\<rparr> = Some s
    \<and> 200 \<le> r \<and> r \<le> s \<and> s \<le> 3000"
  using accepted_curve_bounded_and_monotone
      [of "\<lparr>baseRateBps = 200, optimalUtilizationBps = 8000, slope1Bps = 400, slope2Bps = 2000, maxRateBps = 3000\<rparr>" None 4000 9000]
  by (auto simp: validateRateModelConfig_def isInteger_def BPS_DENOM_def MAX_RATE_BPS_CAP_def)

end
