(* ===== verification/Backtest.thy ===== *)
theory Backtest
  imports EventStore Json
begin

text \<open>
  The credit-score backtest (\<open>tools/backtest/src\<close>): the replay of indexed payment and default
  events into one score trajectory per SME (\<open>replay.ts\<close>), the predictive quality of the scores
  (\<open>metrics.ts\<close>), the Markdown report (\<open>report.ts\<close>) and the command line (\<open>cli.ts\<close>).

  The database is the one the indexer writes (\<open>EventStore\<close>).  Rows of one ledger are read in the
  table's order.  Means and the separation are exact rationals.
\<close>

section \<open>Replay\<close>

record PaymentSample =
  ps_ledgerSequence :: ledger
  ps_ledgerCloseAt :: string
  ps_invoiceId :: string
  ps_status :: string
  ps_score :: jnum

record SmeTrajectory =
  tj_sme :: string
  tj_samples :: "PaymentSample list"
  tj_everDefaulted :: bool
  tj_scoreBeforeOutcome :: "jnum option"

definition decodeStatus :: "js \<Rightarrow> string" where
  "decodeStatus raw = (case raw of
      JStr s \<Rightarrow> s
    | JArr (x # xs) \<Rightarrow> (case x of JStr s \<Rightarrow> s | _ \<Rightarrow> ''0'')
    | JObj ((k, v) # kvs) \<Rightarrow> k
    | _ \<Rightarrow> ''unknown'')"

text \<open>\<open>None\<close> is the \<open>continue\<close> of a document that does not parse.\<close>

definition row_document :: "js \<Rightarrow> js option" where
  "row_document v = (if js_truthy v then (case v of JStr s \<Rightarrow> json_parse s | _ \<Rightarrow> Some v) else Some JNull)"

definition isFinite :: "jnum \<Rightarrow> bool" where
  "isFinite x = (case x of NInt _ \<Rightarrow> True | NDec _ _ \<Rightarrow> True | _ \<Rightarrow> False)"

definition sample_of :: "event_row \<Rightarrow> js list \<Rightarrow> PaymentSample" where
  "sample_of row value =
     (let invoiceId = js_String (js_coalesce (elem_at value 2) (JStr []));
          final = last value;
          (status, score) =
            (if er_event_type row = ''default''
             then (''Defaulted'', js_Number (js_coalesce (elem_at value 3) final))
             else (decodeStatus (elem_at value 3), js_Number (js_coalesce (elem_at value 4) final)))
      in \<lparr>ps_ledgerSequence = er_ledger_sequence row, ps_ledgerCloseAt = er_ledger_close_at row,
          ps_invoiceId = invoiceId, ps_status = status, ps_score = score\<rparr>)"

text \<open>One turn of the row loop: the SME and the sample it contributes, or \<open>continue\<close>.\<close>

definition replay_row :: "event_row \<Rightarrow> (string \<times> PaymentSample) option" where
  "replay_row row = (case row_document (er_value row) of
      Some (JArr value) \<Rightarrow>
        if length value < 5 then None
        else (let sme = js_String (js_coalesce (elem_at value 1) (JStr [])) in
              if sme = [] then None
              else if \<not> isFinite (ps_score (sample_of row value)) then None
              else Some (sme, sample_of row value))
    | _ \<Rightarrow> None)"

definition push_sample :: "string \<times> PaymentSample \<Rightarrow> (string \<times> PaymentSample list) list \<Rightarrow> (string \<times> PaymentSample list) list" where
  "push_sample x bySme =
     omap_put (fst x) ((case omap_get bySme (fst x) of Some l \<Rightarrow> l | None \<Rightarrow> []) @ [snd x]) bySme"

fun findIndex :: "('a \<Rightarrow> bool) \<Rightarrow> 'a list \<Rightarrow> nat option" where
  "findIndex P [] = None"
| "findIndex P (x # xs) = (if P x then Some 0 else map_option Suc (findIndex P xs))"

definition trajectory :: "string \<times> PaymentSample list \<Rightarrow> SmeTrajectory" where
  "trajectory e =
     (let samples = snd e;
          firstDefaultIdx = findIndex (\<lambda>s. ps_status s = ''Defaulted'') samples;
          before = (case firstDefaultIdx of
              Some 0 \<Rightarrow> Some (ps_score (samples ! 0))
            | Some (Suc i) \<Rightarrow> Some (ps_score (samples ! i))
            | None \<Rightarrow> (if samples = [] then None else Some (ps_score (last samples))))
      in \<lparr>tj_sme = fst e, tj_samples = samples, tj_everDefaulted = (firstDefaultIdx \<noteq> None),
          tj_scoreBeforeOutcome = before\<rparr>)"

definition replay_rows :: "db \<Rightarrow> event_row list" where
  "replay_rows d = sort_key er_ledger_sequence
     (filter (\<lambda>r. er_contract_type r = ''credit_score'' \<and> er_event_type r \<in> {''payment'', ''default''})
       (db_events d))"

definition replay :: "db \<Rightarrow> SmeTrajectory list" where
  "replay d = map trajectory (fold push_sample (List.map_filter replay_row (replay_rows d)) [])"

section \<open>Metrics\<close>

record PredictiveQualityReport =
  pq_defaulted :: nat
  pq_nonDefaulted :: nat
  pq_meanDefaulted :: "rat option"
  pq_meanNonDefaulted :: "rat option"
  pq_separationAuc :: "rat option"

definition mean :: "rat list \<Rightarrow> rat option" where
  "mean values = (if values = [] then None else Some (foldl (+) 0 values / of_nat (length values)))"

definition cohort :: "bool \<Rightarrow> SmeTrajectory list \<Rightarrow> rat list" where
  "cohort b ts = List.map_filter
     (\<lambda>t. if tj_everDefaulted t = b then map_option num_val (tj_scoreBeforeOutcome t) else None) ts"

text \<open>The body of the nested loops, on the pair of counters.\<close>

definition compare_pair :: "rat \<Rightarrow> rat \<Rightarrow> nat \<times> nat \<Rightarrow> nat \<times> nat" where
  "compare_pair nd d c = (case c of (wins, ties) \<Rightarrow>
     if d < nd then (wins + 1, ties) else if nd = d then (wins, ties + 1) else (wins, ties))"

definition compare_all :: "rat list \<Rightarrow> rat list \<Rightarrow> nat \<times> nat" where
  "compare_all nds ds = fold (\<lambda>nd c. fold (compare_pair nd) ds c) nds (0, 0)"

definition computePredictiveQuality :: "SmeTrajectory list \<Rightarrow> PredictiveQualityReport" where
  "computePredictiveQuality trajectories =
     (let defaultedScores = cohort True trajectories;
          nonDefaultedScores = cohort False trajectories;
          auc = (if 0 < length defaultedScores \<and> 0 < length nonDefaultedScores
                 then (case compare_all nonDefaultedScores defaultedScores of
                         (wins, ties) \<Rightarrow> Some ((of_nat wins + 1 / 2 * of_nat ties) /
                            (of_nat (length nonDefaultedScores * length defaultedScores))))
                 else None)
      in \<lparr>pq_defaulted = length defaultedScores, pq_nonDefaulted = length nonDefaultedScores,
          pq_meanDefaulted = mean defaultedScores, pq_meanNonDefaulted = mean nonDefaultedScores,
          pq_separationAuc = auc\<rparr>)"

section \<open>Report and command line\<close>

definition fixed_or_na :: "nat \<Rightarrow> rat option \<Rightarrow> string" where
  "fixed_or_na f x = (case x of Some v \<Rightarrow> toFixed f v | None \<Rightarrow> ''n/a'')"

definition trajectory_line :: "SmeTrajectory \<Rightarrow> string" where
  "trajectory_line t = ''| '' @ tj_sme t @ '' | '' @ show_nat (length (tj_samples t)) @ '' | ''
     @ (if tj_everDefaulted t then ''yes'' else ''no'') @ '' | ''
     @ (case tj_scoreBeforeOutcome t of Some x \<Rightarrow> show_jnum x | None \<Rightarrow> ''n/a'') @ '' |''"

text \<open>The dash of the source is written as a hyphen.\<close>

definition renderReport :: "SmeTrajectory list \<Rightarrow> PredictiveQualityReport \<Rightarrow> string" where
  "renderReport trajectories quality =
     join [CHR 0x0A]
       ([''# Credit Score Backtest Report'', '''',
         ''Replayed '' @ show_nat (length trajectories) @ '' SME(s) from the indexed `credit_score` payment/default event stream.'',
         '''', ''## Predictive quality'', '''',
         ''- Defaulted cohort: '' @ show_nat (pq_defaulted quality) @ '' SME(s), mean score before default: ''
            @ fixed_or_na 1 (pq_meanDefaulted quality),
         ''- Non-defaulted cohort: '' @ show_nat (pq_nonDefaulted quality) @ '' SME(s), mean score: ''
            @ fixed_or_na 1 (pq_meanNonDefaulted quality)]
        @ (case pq_separationAuc quality of
             Some auc \<Rightarrow> [''- Separation (AUC-equivalent): **'' @ toFixed 3 auc @ ''** ''
                @ ''(1.0 = perfect separation, 0.5 = no better than chance, <0.5 = inverted)'']
           | None \<Rightarrow> [''- Separation: not computable - need at least one SME in each cohort (defaulted and non-defaulted).''])
        @ ['''', ''## Per-SME trajectories'', '''',
           ''| SME | Samples | Ever defaulted | Score before outcome |'', ''|---|---|---|---|'']
        @ map trajectory_line trajectories @ [''''])"

definition parseArg :: "string list \<Rightarrow> string \<Rightarrow> string option" where
  "parseArg argv name = (case findIndex (\<lambda>a. a = ''--'' @ name) argv of
      None \<Rightarrow> None
    | Some idx \<Rightarrow> (if Suc idx < length argv then Some (argv ! Suc idx) else None))"

text \<open>\<open>Inl\<close> is the exit with status 1; an empty connection string counts as none.\<close>

definition backtest_main :: "string list \<Rightarrow> string option \<Rightarrow> (string \<Rightarrow> db) \<Rightarrow> nat + string" where
  "backtest_main argv env connect =
     (let arg = parseArg argv ''database-url'';
          connection = (if arg \<noteq> None \<and> arg \<noteq> Some [] then arg else env)
      in case connection of
           Some (c # cs) \<Rightarrow> (let trajectories = replay (connect (c # cs)) in
             Inr (renderReport trajectories (computePredictiveQuality trajectories)))
         | _ \<Rightarrow> Inl 1)"

section \<open>Grouping by SME\<close>

lemma push_sample_upd:
  "push_sample = (\<lambda>x m. omap_put (fst x) ((\<lambda>x a. (case a of Some l \<Rightarrow> l | None \<Rightarrow> []) @ [snd x]) x (omap_get m (fst x))) m)"
  by (intro ext) (simp add: push_sample_def)

lemma fold_append_samples:
  "fold (\<lambda>x a. Some ((case a of Some l \<Rightarrow> l | None \<Rightarrow> []) @ [snd x])) xs (Some l) = Some (l @ map snd xs)"
  by (induction xs arbitrary: l) auto

lemma get_fold_push_sample:
  "omap_get (fold push_sample xs []) k =
     (let l = map snd (filter (\<lambda>x. fst x = k) xs) in if l = [] then None else Some l)"
proof -
  have "omap_get (fold push_sample xs []) k =
      fold (\<lambda>x a. Some ((case a of Some l \<Rightarrow> l | None \<Rightarrow> []) @ [snd x])) (filter (\<lambda>x. fst x = k) xs) None"
    unfolding push_sample_upd using omap.get_fold_upd [where m = "[]" and f = fst and k = k] by simp
  then show ?thesis
    by (cases "filter (\<lambda>x. fst x = k) xs") (auto simp: fold_append_samples)
qed

lemma keys_fold_push_sample: "set (map fst (fold push_sample xs [])) = fst ` set xs"
  unfolding push_sample_upd using omap.keys_fold_put [where m = "[]" and f = fst] by simp

lemma wf_fold_push_sample: "omap_wf (fold push_sample xs [])"
  unfolding push_sample_upd by (rule omap.wf_fold_put) simp

lemma findIndex_takeWhile:
  "findIndex P xs = (if list_ex P xs then Some (length (takeWhile (\<lambda>x. \<not> P x) xs)) else None)"
  by (induction xs) auto

text \<open>
  The score a trajectory is judged by: the last one before the first default, the first one when
  there is none before it, and the last one of an SME that never defaulted.
\<close>

definition outcome_score :: "PaymentSample list \<Rightarrow> jnum" where
  "outcome_score samples =
     (let before = takeWhile (\<lambda>s. ps_status s \<noteq> ''Defaulted'') samples
      in ps_score (if before = [] then hd samples else last before))"

lemma nth_before_length_takeWhile: "length (takeWhile P xs) = Suc i \<Longrightarrow> xs ! i = last (takeWhile P xs)"
  by (metis diff_Suc_1 last_conv_nth length_0_conv lessI nat.simps(3) takeWhile_nth)

lemma trajectory_fields:
  assumes "samples \<noteq> []"
  shows "trajectory (sme, samples) = \<lparr>tj_sme = sme, tj_samples = samples,
     tj_everDefaulted = (\<exists>s \<in> set samples. ps_status s = ''Defaulted''),
     tj_scoreBeforeOutcome = Some (outcome_score samples)\<rparr>"
proof (cases "list_ex (\<lambda>s. ps_status s = ''Defaulted'') samples")
  case True
  then show ?thesis
    using assms
    by (auto simp: trajectory_def Let_def findIndex_takeWhile outcome_score_def hd_conv_nth list_ex_iff
        nth_before_length_takeWhile split: nat.splits)
next
  case False
  then have "takeWhile (\<lambda>s. ps_status s \<noteq> ''Defaulted'') samples = samples"
    by (auto simp: list_ex_iff)
  with False assms show ?thesis
    by (simp add: trajectory_def findIndex_takeWhile outcome_score_def del: takeWhile_eq_all_conv)
      (auto simp: list_ex_iff)
qed

section \<open>Counting pairs\<close>

lemma fold_compare_pair:
  "fold (compare_pair nd) ds (w, t) =
     (w + length (filter (\<lambda>d. d < nd) ds), t + length (filter (\<lambda>d. nd = d) ds))"
  by (induction ds arbitrary: w t) (auto simp: compare_pair_def)

lemma fold_compare_all:
  "fold (\<lambda>nd c. fold (compare_pair nd) ds c) nds (w, t) =
     (w + length (filter (\<lambda>(nd, d). d < nd) (List.product nds ds)),
      t + length (filter (\<lambda>(nd, d). nd = d) (List.product nds ds)))"
  by (induction nds arbitrary: w t) (simp_all add: fold_compare_pair filter_map comp_def)

lemma compare_all_counts:
  "compare_all nds ds = (length (filter (\<lambda>(nd, d). d < nd) (List.product nds ds)),
     length (filter (\<lambda>(nd, d). nd = d) (List.product nds ds)))"
  by (simp add: compare_all_def fold_compare_all)

lemma three_way_count:
  "length (filter (\<lambda>(x, y). y < x) ps) + length (filter (\<lambda>(x, y). x = y) ps)
     + length (filter (\<lambda>(x, y). x < y) ps) = length (ps :: (rat \<times> rat) list)"
  by (induction ps) auto

lemma full_filter_count: "length (filter P xs) = length xs \<longleftrightarrow> (\<forall>x \<in> set xs. P x)"
  by (metis filter_True filter_id_conv length_filter_less less_irrefl)

lemma half_tie_bounds:
  fixes w t n :: nat
  assumes "w + t \<le> n" "0 < n"
  defines "a \<equiv> (of_nat w + 1 / 2 * of_nat t) / (of_nat n :: rat)"
  shows "0 \<le> a" "a \<le> 1" "a = 1 \<longleftrightarrow> w = n" "a = 0 \<longleftrightarrow> w = 0 \<and> t = 0"
proof -
  have n: "(0 :: rat) < of_nat n" using assms(2) by simp
  have sum: "(of_nat w + of_nat t :: rat) \<le> of_nat n"
    using assms(1) by (metis of_nat_add of_nat_le_iff)
  show "0 \<le> a" by (simp add: a_def)
  show "a \<le> 1" using n sum by (simp add: a_def divide_le_eq)
  have "a = 1 \<longleftrightarrow> (of_nat w + 1 / 2 * of_nat t :: rat) = of_nat n"
    using n by (simp add: a_def divide_eq_eq)
  also have "\<dots> \<longleftrightarrow> (of_nat w :: rat) = of_nat n \<and> (of_nat t :: rat) = 0"
  proof
    assume *: "(of_nat w + 1 / 2 * of_nat t :: rat) = of_nat n"
    have "(0 :: rat) \<le> of_nat t" by simp
    with * sum show "(of_nat w :: rat) = of_nat n \<and> (of_nat t :: rat) = 0" by linarith
  qed simp
  finally show "a = 1 \<longleftrightarrow> w = n" using assms(1) by auto
  have "a = 0 \<longleftrightarrow> (of_nat w + 1 / 2 * of_nat t :: rat) = 0"
    using n by (simp add: a_def)
  also have "\<dots> \<longleftrightarrow> w = 0 \<and> t = 0"
    by (simp add: add_nonneg_eq_0_iff)
  finally show "a = 0 \<longleftrightarrow> w = 0 \<and> t = 0" .
qed

section \<open>Properties of the backtest\<close>

text \<open>The replay builds one trajectory per SME with a decodable event, in which the samples are exactly that SME's decoded events in ledger order; an SME is marked defaulted exactly when one of them is a default, and the score it is judged by is the last one before its first default (the first score when nothing precedes it, the latest one when it never defaulted).\<close>

theorem replay_trajectories_exact:
  "distinct (map tj_sme (replay d)) \<and> set (map tj_sme (replay d)) = fst ` set (List.map_filter replay_row (replay_rows d))
    \<and> (\<forall>t \<in> set (replay d). tj_samples t = map snd (filter (\<lambda>x. fst x = tj_sme t) (List.map_filter replay_row (replay_rows d)))
        \<and> tj_everDefaulted t = (\<exists>s \<in> set (tj_samples t). ps_status s = ''Defaulted'')
        \<and> tj_scoreBeforeOutcome t =
            (let before = takeWhile (\<lambda>s. ps_status s \<noteq> ''Defaulted'') (tj_samples t)
             in Some (ps_score (if before = [] then hd (tj_samples t) else last before))))"
proof (intro conjI ballI)
  let ?decoded = "List.map_filter replay_row (replay_rows d)"
  let ?m = "fold push_sample ?decoded []"
  have smes: "map tj_sme (replay d) = map fst ?m"
    by (simp add: replay_def trajectory_def Let_def comp_def)
  show "distinct (map tj_sme (replay d))"
    using wf_fold_push_sample [of ?decoded] by (simp only: smes omap_wf_def)
  show "set (map tj_sme (replay d)) = fst ` set ?decoded"
    by (simp only: smes keys_fold_push_sample)
  fix t assume "t \<in> set (replay d)"
  then obtain sme samples where t: "t = trajectory (sme, samples)" and "(sme, samples) \<in> set ?m"
    by (auto simp: replay_def)
  then have "omap_get ?m sme = Some samples"
    by (intro omap_in_get wf_fold_push_sample)
  then have samples: "samples = map snd (filter (\<lambda>x. fst x = sme) ?decoded)" "samples \<noteq> []"
    by (auto simp: get_fold_push_sample Let_def split: if_splits)
  show "tj_samples t = map snd (filter (\<lambda>x. fst x = tj_sme t) ?decoded)"
    and "tj_everDefaulted t = (\<exists>s \<in> set (tj_samples t). ps_status s = ''Defaulted'')"
    and "tj_scoreBeforeOutcome t =
            (let before = takeWhile (\<lambda>s. ps_status s \<noteq> ''Defaulted'') (tj_samples t)
             in Some (ps_score (if before = [] then hd (tj_samples t) else last before)))"
    using samples by (simp_all add: t trajectory_fields outcome_score_def Let_def)
qed

definition example_row :: "string \<Rightarrow> js list \<Rightarrow> ledger \<Rightarrow> event_row" where
  "example_row ty v l = \<lparr>er_id = show_int l, er_contract_id = ''C'', er_contract_type = ''credit_score'',
     er_event_type = ty, er_topic = [], er_value = JArr v, er_actor_address = None,
     er_ledger_sequence = l, er_ledger_close_at = ''t'', er_tx_hash = ''h'', er_created_at = ''t''\<rparr>"

definition example_db :: db where
  "example_db = \<lparr>db_events =
      [example_row ''default'' [JStr ''C'', JStr ''GA'', JNum (NInt 7), JNum (NInt 400), JNum (NInt 1)] 9,
       example_row ''payment'' [JStr ''C'', JStr ''GA'', JNum (NInt 6), JStr ''PaidOnTime'', JNum (NInt 520), JNum (NInt 1)] 4,
       example_row ''payment'' [JStr ''C'', JStr ''GB'', JNum (NInt 5), JArr [JStr ''PaidLate''], JNum (NInt 610), JNum (NInt 1)] 3],
      db_ledger_hashes = [], db_reorg_log = []\<rparr>"

lemmas replay_eval = example_db_def example_row_def replay_def replay_rows_def replay_row_def row_document_def
  sample_of_def decodeStatus_def elem_at_def js_coalesce_def isFinite_def js_Number_def List.map_filter_def
  push_sample_def trajectory_def Let_def

lemma example_replay:
  "map (\<lambda>t. (tj_sme t, tj_everDefaulted t, tj_scoreBeforeOutcome t)) (replay example_db) =
     [(''GB'', False, Some (NInt 610)), (''GA'', True, Some (NInt 520))]"
  by (simp add: replay_eval)

theorem replay_trajectories_exact_witness:
  "set (map tj_sme (replay example_db)) = {''GA'', ''GB''} \<and>
   (\<forall>t \<in> set (replay example_db). tj_everDefaulted t = (\<exists>s \<in> set (tj_samples t). ps_status s = ''Defaulted''))"
proof -
  have "map tj_sme (replay example_db) = [''GB'', ''GA'']"
    using arg_cong [OF example_replay, of "map fst"] by (simp add: comp_def)
  then have "set (map tj_sme (replay example_db)) = {''GA'', ''GB''}" by (simp add: insert_commute)
  moreover have "\<forall>t \<in> set (replay example_db). tj_everDefaulted t = (\<exists>s \<in> set (tj_samples t). ps_status s = ''Defaulted'')"
    using replay_trajectories_exact [of example_db] by blast
  ultimately show ?thesis ..
qed

text \<open>The separation is reported exactly when both cohorts have a score, it lies between 0 and 1, is 1 exactly when every SME that never defaulted outscores every one that did, 0 exactly when every one scores strictly below, and equals the share of ordered pairs with ties counted half.\<close>

theorem separation_auc_meaning:
  fixes ts :: "SmeTrajectory list"
  shows "case pq_separationAuc (computePredictiveQuality ts) of
      None \<Rightarrow> cohort True ts = [] \<or> cohort False ts = []
    | Some a \<Rightarrow> 0 \<le> a \<and> a \<le> 1
        \<and> (a = 1 \<longleftrightarrow> (\<forall>nd \<in> set (cohort False ts). \<forall>d \<in> set (cohort True ts). d < nd))
        \<and> (a = 0 \<longleftrightarrow> (\<forall>nd \<in> set (cohort False ts). \<forall>d \<in> set (cohort True ts). nd < d))
        \<and> a * of_nat (length (cohort False ts) * length (cohort True ts)) =
            of_nat (length (filter (\<lambda>(nd, d). d < nd) (List.product (cohort False ts) (cohort True ts))))
            + of_nat (length (filter (\<lambda>(nd, d). nd = d) (List.product (cohort False ts) (cohort True ts)))) / 2"
proof (cases "cohort True ts = [] \<or> cohort False ts = []")
  case True
  then show ?thesis by (auto simp: computePredictiveQuality_def Let_def)
next
  case False
  define ds where "ds = cohort True ts"
  define nds where "nds = cohort False ts"
  define ps where "ps = List.product nds ds"
  let ?w = "length (filter (\<lambda>(nd, d). d < nd) ps)" and ?t = "length (filter (\<lambda>(nd, d). nd = d) ps)"
  let ?l = "length (filter (\<lambda>(nd, d). nd < d) ps)"
  have n: "length nds * length ds = length ps" "0 < length ps"
    using False by (auto simp: ps_def ds_def nds_def)
  have auc: "pq_separationAuc (computePredictiveQuality ts) =
      Some ((of_nat ?w + 1 / 2 * of_nat ?t) / of_nat (length ps))"
    using False by (simp add: computePredictiveQuality_def Let_def compare_all_counts ds_def [symmetric]
        nds_def [symmetric] ps_def [symmetric] n flip: of_nat_mult)
  have three: "?w + ?t + ?l = length ps" by (rule three_way_count)
  have wins: "?w = length ps \<longleftrightarrow> (\<forall>nd \<in> set nds. \<forall>d \<in> set ds. d < nd)"
    unfolding full_filter_count by (auto simp: ps_def)
  have losses: "?w = 0 \<and> ?t = 0 \<longleftrightarrow> (\<forall>nd \<in> set nds. \<forall>d \<in> set ds. nd < d)"
  proof -
    have "?w = 0 \<and> ?t = 0 \<longleftrightarrow> ?l = length ps" using three by linarith
    then show ?thesis unfolding full_filter_count by (auto simp: ps_def)
  qed
  have "?w + ?t \<le> length ps" using three by linarith
  note half = half_tie_bounds [OF this n(2)]
  show ?thesis
    unfolding auc option.case ds_def [symmetric] nds_def [symmetric] ps_def [symmetric] n(1)
    using half wins losses n(2) by simp
qed

theorem separation_auc_meaning_witness:
  "pq_separationAuc (computePredictiveQuality (replay example_db)) = Some 1 \<and> (520 :: rat) < 610"
proof -
  have cohorts: "cohort True (replay example_db) = [520]" "cohort False (replay example_db) = [610]"
    by (simp_all add: replay_eval cohort_def)
  then obtain a where a: "pq_separationAuc (computePredictiveQuality (replay example_db)) = Some a"
    by (cases "pq_separationAuc (computePredictiveQuality (replay example_db))")
      (simp_all add: computePredictiveQuality_def Let_def split: prod.splits)
  then have "a = 1" using separation_auc_meaning [of "replay example_db"] by (simp add: cohorts)
  with a show ?thesis by simp
qed

end
