(* ===== verification/Apy.thy ===== *)
theory Apy
  imports Prelude
begin

text \<open>
  Yield projection and scenario modelling of the investor pages (\<open>frontend/lib/apy.ts\<close>).

  Amounts are BigInts.  Rates and horizons are numbers: \<open>xnum\<close> has the finite ones as exact
  rationals, the infinities and NaN, because the code tests \<open>Number.isFinite\<close> on the horizon and
  the yield.  The fractions of a scenario (utilisation, default, recovery) are finite.  A BigInt
  converted with \<open>Number\<close> is read as exact.
\<close>

datatype xnum = Fin rat | PosInf | NegInf | NaN

definition SECS_PER_YEAR :: int where
  "SECS_PER_YEAR = 31536000"

definition SECS_PER_DAY :: int where
  "SECS_PER_DAY = 86400"

definition PRECISION_SCALE :: int where
  "PRECISION_SCALE = 1000000"

text \<open>\<open>Math.round\<close> rounds halves up.\<close>

definition multiplyBigintByFactor :: "int \<Rightarrow> rat \<Rightarrow> int" where
  "multiplyBigintByFactor value factor =
     (if factor \<le> 0 then 0
      else if 1 \<le> factor then value
      else bigint_div (value * \<lfloor>factor * of_int PRECISION_SCALE + 1 / 2\<rfloor>) PRECISION_SCALE)"

definition projectedInterestStroops :: "int \<Rightarrow> xnum \<Rightarrow> xnum \<Rightarrow> int" where
  "projectedInterestStroops principalStroops yieldBps lockDays =
     (case (lockDays, yieldBps) of
        (Fin days, Fin bps) \<Rightarrow>
          if principalStroops \<le> 0 \<or> days \<le> 0 \<or> bps \<le> 0 then 0
          else bigint_div (principalStroops * \<lfloor>bps\<rfloor> * (\<lfloor>days\<rfloor> * SECS_PER_DAY)) (10000 * SECS_PER_YEAR)
      | _ \<Rightarrow> 0)"

text \<open>The dash for an unusable yield is a hyphen here.\<close>

definition formatApyPercent :: "xnum \<Rightarrow> string" where
  "formatApyPercent yieldBps = (case yieldBps of
      Fin b \<Rightarrow> (if b < 0 then ''-'' else toFixed 2 (b / 100))
    | _ \<Rightarrow> ''-'')"

record ScenarioInputs =
  si_principalStroops :: int
  si_yieldBps :: xnum
  si_lockDays :: xnum
  si_utilizationRate :: rat
  si_defaultRate :: rat
  si_collateralRecoveryRate :: rat

datatype scenario_label = BestCase | BaseCase | WorstCase

record ScenarioResult =
  sr_label :: scenario_label
  sr_grossYieldStroops :: int
  sr_defaultLossStroops :: int
  sr_netReturnStroops :: int
  sr_netReturnPct :: rat
  sr_utilizationRate :: rat
  sr_defaultRate :: rat

definition clamp01 :: "rat \<Rightarrow> rat" where
  "clamp01 x = max 0 (min 1 x)"

text \<open>A horizon that is not finite gives 0 per cent: NaN fails the test, infinity divides to zero.\<close>

definition net_return_pct :: "int \<Rightarrow> int \<Rightarrow> xnum \<Rightarrow> rat" where
  "net_return_pct net principalStroops lockDays = (case lockDays of
      Fin days \<Rightarrow> (if 0 < principalStroops \<and> 0 < days / 365
                   then of_int net / of_int principalStroops / (days / 365) * 100 else 0)
    | _ \<Rightarrow> 0)"

definition computeScenario :: "ScenarioInputs \<Rightarrow> scenario_label \<Rightarrow> rat \<Rightarrow> rat \<Rightarrow> ScenarioResult" where
  "computeScenario inputs label overrideUtilization overrideDefaultRate =
     (let principalStroops = si_principalStroops inputs;
          util = clamp01 overrideUtilization;
          defRate = clamp01 overrideDefaultRate;
          recovery = clamp01 (si_collateralRecoveryRate inputs);
          fullInterest = projectedInterestStroops principalStroops (si_yieldBps inputs) (si_lockDays inputs);
          gross = multiplyBigintByFactor fullInterest util;
          deployed = multiplyBigintByFactor principalStroops util;
          rawLoss = multiplyBigintByFactor deployed defRate;
          loss = (if 0 < rawLoss then multiplyBigintByFactor rawLoss (1 - recovery) else 0);
          net = gross - loss
      in \<lparr>sr_label = label, sr_grossYieldStroops = gross, sr_defaultLossStroops = loss,
          sr_netReturnStroops = net, sr_netReturnPct = net_return_pct net principalStroops (si_lockDays inputs),
          sr_utilizationRate = util, sr_defaultRate = defRate\<rparr>)"

definition computeAllScenarios :: "ScenarioInputs \<Rightarrow> ScenarioResult \<times> ScenarioResult \<times> ScenarioResult" where
  "computeAllScenarios inputs =
     (let bestUtil = min 1 (si_utilizationRate inputs + 1 / 5);
          worstUtil = max 0 (si_utilizationRate inputs - 1 / 5);
          worstDefault = min (1 / 5) (si_defaultRate inputs * 4)
      in (computeScenario inputs BestCase bestUtil 0,
          computeScenario inputs BaseCase (si_utilizationRate inputs) (si_defaultRate inputs),
          computeScenario inputs WorstCase worstUtil worstDefault))"

text \<open>
  The yardstick \<open>principal * rate / 100 / (365 / lockDays)\<close>: a zero horizon divides by infinity, an
  infinite one by a signed zero.
\<close>

definition savings_yield :: "int \<Rightarrow> rat \<Rightarrow> xnum \<Rightarrow> xnum" where
  "savings_yield principalStroops savingsRatePct lockDays =
     (let a = of_int principalStroops * savingsRatePct / 100 in
      case lockDays of
        Fin days \<Rightarrow> Fin (if days = 0 then 0 else a / (365 / days))
      | PosInf \<Rightarrow> (if 0 < a then PosInf else if a < 0 then NegInf else NaN)
      | NegInf \<Rightarrow> (if 0 < a then NegInf else if a < 0 then PosInf else NaN)
      | NaN \<Rightarrow> NaN)"

definition below_bar :: "int \<Rightarrow> xnum \<Rightarrow> bool" where
  "below_bar net bar = (case bar of Fin s \<Rightarrow> of_int net < s | PosInf \<Rightarrow> True | _ \<Rightarrow> False)"

definition clears_bar :: "int \<Rightarrow> xnum \<Rightarrow> bool" where
  "clears_bar net bar = (case bar of Fin s \<Rightarrow> s \<le> of_int net | NegInf \<Rightarrow> True | _ \<Rightarrow> False)"

definition net_at :: "ScenarioInputs \<Rightarrow> rat \<Rightarrow> int" where
  "net_at inputs u = sr_netReturnStroops
     (computeScenario (inputs\<lparr>si_utilizationRate := u\<rparr>) BaseCase u (si_defaultRate inputs))"

definition clears_savings :: "ScenarioInputs \<Rightarrow> rat \<Rightarrow> rat \<Rightarrow> bool" where
  "clears_savings inputs savingsRatePct u =
     clears_bar (net_at inputs u) (savings_yield (si_principalStroops inputs) savingsRatePct (si_lockDays inputs))"

fun bisect :: "(rat \<Rightarrow> bool) \<Rightarrow> nat \<Rightarrow> rat \<times> rat \<Rightarrow> rat \<times> rat" where
  "bisect clears 0 iv = iv"
| "bisect clears (Suc n) (lo, hi) =
     (let mid = (lo + hi) / 2 in bisect clears n (if clears mid then (lo, mid) else (mid, hi)))"

definition breakevenUtilization :: "ScenarioInputs \<Rightarrow> rat \<Rightarrow> rat option" where
  "breakevenUtilization inputs savingsRatePct =
     (if below_bar (net_at inputs 1) (savings_yield (si_principalStroops inputs) savingsRatePct (si_lockDays inputs))
      then None
      else (case bisect (clears_savings inputs savingsRatePct) 1000 (0, 1) of
              (lo, hi) \<Rightarrow> Some ((lo + hi) / 2)))"

section \<open>Scaling an amount by a fraction\<close>

lemma scaled_factor_bounds:
  assumes "0 < x" "x < 1"
  shows "0 \<le> \<lfloor>x * of_int PRECISION_SCALE + 1 / 2\<rfloor>" "\<lfloor>x * of_int PRECISION_SCALE + 1 / 2\<rfloor> \<le> PRECISION_SCALE"
  using assms by (auto simp: PRECISION_SCALE_def floor_le_iff)

lemma multiply_bounds:
  assumes "0 \<le> v"
  shows "0 \<le> multiplyBigintByFactor v x" "multiplyBigintByFactor v x \<le> v"
proof -
  let ?s = "\<lfloor>x * of_int PRECISION_SCALE + 1 / 2\<rfloor>"
  have "0 \<le> (v * ?s) div PRECISION_SCALE \<and> (v * ?s) div PRECISION_SCALE \<le> v" if x: "0 < x" "x < 1"
  proof -
    have "v * ?s \<le> v * PRECISION_SCALE"
      using assms scaled_factor_bounds(2) [OF x] by (rule mult_left_mono [rotated])
    then have "(v * ?s) div PRECISION_SCALE \<le> (v * PRECISION_SCALE) div PRECISION_SCALE"
      by (rule zdiv_mono1) (simp add: PRECISION_SCALE_def)
    moreover have "0 \<le> v * ?s" using assms scaled_factor_bounds(1) [OF x] by simp
    ultimately show ?thesis by (simp add: PRECISION_SCALE_def pos_imp_zdiv_nonneg_iff)
  qed
  moreover have "bigint_div (v * ?s) PRECISION_SCALE = (v * ?s) div PRECISION_SCALE" if x: "0 < x" "x < 1"
    using assms scaled_factor_bounds(1) [OF x] by (intro bigint_div_nonneg) (simp_all add: PRECISION_SCALE_def)
  ultimately show "0 \<le> multiplyBigintByFactor v x" "multiplyBigintByFactor v x \<le> v"
    using assms by (auto simp: multiplyBigintByFactor_def not_le)
qed

lemma multiply_mono:
  assumes "0 \<le> v" "x \<le> y"
  shows "multiplyBigintByFactor v x \<le> multiplyBigintByFactor v y"
proof (cases "0 < x \<and> y < 1")
  case True
  have "v * \<lfloor>x * of_int PRECISION_SCALE + 1 / 2\<rfloor> \<le> v * \<lfloor>y * of_int PRECISION_SCALE + 1 / 2\<rfloor>"
    using assms by (intro mult_left_mono floor_mono) (simp_all add: PRECISION_SCALE_def)
  then have "bigint_div (v * \<lfloor>x * of_int PRECISION_SCALE + 1 / 2\<rfloor>) PRECISION_SCALE
      \<le> bigint_div (v * \<lfloor>y * of_int PRECISION_SCALE + 1 / 2\<rfloor>) PRECISION_SCALE"
    by (rule bigint_div_le_mono) (simp add: PRECISION_SCALE_def)
  with True assms(2) show ?thesis by (simp add: multiplyBigintByFactor_def)
next
  case False
  then have "multiplyBigintByFactor v x = 0 \<or> multiplyBigintByFactor v y = v"
    using assms by (auto simp: multiplyBigintByFactor_def not_less)
  then show ?thesis using multiply_bounds [OF assms(1)] by metis
qed

lemma multiply_nonpos: "v \<le> 0 \<Longrightarrow> multiplyBigintByFactor v x \<le> 0"
  using bigint_div_le_mono [of "v * \<lfloor>x * of_int PRECISION_SCALE + 1 / 2\<rfloor>" "0 * PRECISION_SCALE" PRECISION_SCALE]
  by (auto simp: multiplyBigintByFactor_def PRECISION_SCALE_def bigint_div_def mult_nonpos_nonneg)

lemma multiply_zero [simp]: "multiplyBigintByFactor v 0 = 0"
  by (simp add: multiplyBigintByFactor_def)

lemma interest_nonneg: "0 \<le> projectedInterestStroops p b d"
proof -
  have "0 \<le> bigint_div (p * \<lfloor>y\<rfloor> * (\<lfloor>z\<rfloor> * SECS_PER_DAY)) (10000 * SECS_PER_YEAR)"
    if "0 < p" "0 < y" "0 < z" for y z :: rat
  proof -
    have "0 \<le> \<lfloor>y\<rfloor>" "0 \<le> \<lfloor>z\<rfloor>" using that by simp_all
    then have "0 \<le> p * \<lfloor>y\<rfloor> * (\<lfloor>z\<rfloor> * SECS_PER_DAY)" using that by (simp add: SECS_PER_DAY_def)
    then show ?thesis by (simp add: bigint_div_nonneg SECS_PER_YEAR_def pos_imp_zdiv_nonneg_iff)
  qed
  then show ?thesis
    by (auto simp: projectedInterestStroops_def not_le split: xnum.splits)
qed

section \<open>One scenario\<close>

lemma scenario_gross:
  "sr_grossYieldStroops (computeScenario i l u d) =
     multiplyBigintByFactor (projectedInterestStroops (si_principalStroops i) (si_yieldBps i) (si_lockDays i)) (clamp01 u)"
  by (simp add: computeScenario_def Let_def)

lemma scenario_net:
  "sr_netReturnStroops (computeScenario i l u d) =
     sr_grossYieldStroops (computeScenario i l u d) - sr_defaultLossStroops (computeScenario i l u d)"
  by (simp add: computeScenario_def Let_def)

lemma scenario_loss_bounds:
  "0 \<le> sr_defaultLossStroops (computeScenario i l u d)"
  "sr_defaultLossStroops (computeScenario i l u d) \<le> max 0 (si_principalStroops i)"
proof -
  let ?p = "si_principalStroops i"
  let ?deployed = "multiplyBigintByFactor ?p (clamp01 u)"
  let ?raw = "multiplyBigintByFactor ?deployed (clamp01 d)"
  have raw: "?raw \<le> ?p" if "0 < ?raw"
  proof -
    have "0 \<le> ?p"
    proof (rule ccontr)
      assume "\<not> 0 \<le> ?p"
      then have "?raw \<le> 0" by (simp add: multiply_nonpos)
      with that show False by simp
    qed
    then show ?thesis using multiply_bounds [of ?p "clamp01 u"] multiply_bounds [of ?deployed "clamp01 d"] by linarith
  qed
  have loss: "sr_defaultLossStroops (computeScenario i l u d) =
      (if 0 < ?raw then multiplyBigintByFactor ?raw (1 - clamp01 (si_collateralRecoveryRate i)) else 0)"
    by (simp add: computeScenario_def Let_def)
  show "0 \<le> sr_defaultLossStroops (computeScenario i l u d)"
    unfolding loss using multiply_bounds(1) [of ?raw] by simp
  show "sr_defaultLossStroops (computeScenario i l u d) \<le> max 0 ?p"
    unfolding loss using multiply_bounds(2) [of ?raw "1 - clamp01 (si_collateralRecoveryRate i)"] raw by auto
qed

lemma scenario_loss_no_default: "sr_defaultLossStroops (computeScenario i l u 0) = 0"
  by (simp add: computeScenario_def Let_def clamp01_def)

section \<open>Bisection\<close>

lemma bisect_bracket:
  assumes "lo \<le> hi" "c hi" "lo = 0 \<or> \<not> c lo" "bisect c n (lo, hi) = (lo', hi')"
  shows "lo \<le> lo' \<and> hi' \<le> hi \<and> hi' - lo' = (hi - lo) / 2 ^ n \<and> c hi' \<and> (lo' = 0 \<or> \<not> c lo')"
  using assms
proof (induction n arbitrary: lo hi)
  case (Suc n)
  define m where "m = (lo + hi) / 2"
  have m: "lo \<le> m" "m \<le> hi" "m - lo = (hi - lo) / 2" "hi - m = (hi - lo) / 2"
    using Suc.prems(1) by (simp_all add: m_def field_simps)
  show ?case
  proof (cases "c m")
    case True
    with Suc.IH [of lo m] Suc.prems m show ?thesis by (auto simp: m_def [symmetric] Let_def)
  next
    case False
    with Suc.IH [of m hi] Suc.prems m show ?thesis by (auto simp: m_def [symmetric] Let_def)
  qed
qed simp

section \<open>Properties of the projections\<close>

text \<open>The best case never shows less than the base case: its net return is at least the base one, with a gross yield between the base one and the full projected interest; in every case the loss is non-negative and never exceeds the principal.\<close>

theorem best_case_dominates:
  assumes "computeAllScenarios inputs = (best, base, worst)"
  shows "sr_netReturnStroops base \<le> sr_netReturnStroops best
    \<and> sr_grossYieldStroops base \<le> sr_grossYieldStroops best
    \<and> sr_grossYieldStroops best \<le>
        projectedInterestStroops (si_principalStroops inputs) (si_yieldBps inputs) (si_lockDays inputs)
    \<and> sr_defaultLossStroops best = 0
    \<and> (\<forall>r \<in> {base, worst}. 0 \<le> sr_grossYieldStroops r \<and> 0 \<le> sr_defaultLossStroops r
        \<and> sr_defaultLossStroops r \<le> max 0 (si_principalStroops inputs)
        \<and> sr_netReturnStroops r = sr_grossYieldStroops r - sr_defaultLossStroops r)"
proof -
  let ?u = "si_utilizationRate inputs"
  have rs: "best = computeScenario inputs BestCase (min 1 (?u + 1 / 5)) 0"
    "base = computeScenario inputs BaseCase ?u (si_defaultRate inputs)"
    "worst = computeScenario inputs WorstCase (max 0 (?u - 1 / 5)) (min (1 / 5) (si_defaultRate inputs * 4))"
    using assms by (simp_all add: computeAllScenarios_def Let_def)
  have "clamp01 ?u \<le> clamp01 (min 1 (?u + 1 / 5))" by (simp add: clamp01_def)
  then have gross: "sr_grossYieldStroops base \<le> sr_grossYieldStroops best"
    unfolding rs scenario_gross by (intro multiply_mono interest_nonneg)
  have "0 \<le> sr_defaultLossStroops base" unfolding rs by (rule scenario_loss_bounds)
  with gross have net: "sr_netReturnStroops base \<le> sr_netReturnStroops best"
    unfolding rs scenario_net scenario_loss_no_default by linarith
  show ?thesis
    using net gross multiply_bounds [OF interest_nonneg] scenario_loss_bounds
    by (simp add: rs scenario_gross scenario_loss_no_default scenario_net)
qed

definition example_inputs :: ScenarioInputs where
  "example_inputs = \<lparr>si_principalStroops = 10000000, si_yieldBps = Fin 800, si_lockDays = Fin 365,
     si_utilizationRate = 4 / 5, si_defaultRate = 1 / 2, si_collateralRecoveryRate = 0\<rparr>"

lemmas scenario_eval = example_inputs_def computeAllScenarios_def computeScenario_def Let_def clamp01_def
  multiplyBigintByFactor_def projectedInterestStroops_def PRECISION_SCALE_def SECS_PER_DAY_def
  SECS_PER_YEAR_def bigint_div_def floor_numeral_div

theorem best_case_dominates_witness:
  "sr_netReturnStroops (fst (snd (computeAllScenarios example_inputs))) \<le>
     sr_netReturnStroops (fst (computeAllScenarios example_inputs))
   \<and> sr_netReturnStroops (fst (computeAllScenarios example_inputs)) = 800000"
proof -
  have "sr_netReturnStroops (fst (computeAllScenarios example_inputs)) = 800000"
    by (simp add: scenario_eval)
  then show ?thesis
    using best_case_dominates [of example_inputs "fst (computeAllScenarios example_inputs)"
      "fst (snd (computeAllScenarios example_inputs))" "snd (snd (computeAllScenarios example_inputs))"]
    by simp
qed

text \<open>The worst case is not a lower bound: its default rate is capped at 20 per cent even when the base rate is higher, so an investor who assumes 50 per cent defaults is shown a worst case that loses less than the base case.\<close>

theorem worst_case_beats_base_case:
  "\<exists>best base worst. computeAllScenarios example_inputs = (best, base, worst)
    \<and> sr_netReturnStroops base < sr_netReturnStroops worst \<and> sr_defaultRate worst < sr_defaultRate base"
  by (simp add: scenario_eval)

text \<open>For a finite horizon, the search for the breakeven utilisation answers nothing exactly when full utilisation stays below the savings yardstick, and otherwise a utilisation strictly between 0 and 1 that is within \<open>2^-1001\<close> of one that clears the yardstick and of one that does not (or of zero).\<close>

theorem breakeven_bracket:
  assumes "si_lockDays inputs = Fin days"
  shows "case breakevenUtilization inputs pct of
      None \<Rightarrow> \<not> clears_savings inputs pct 1
    | Some u \<Rightarrow> \<exists>lo hi. 0 \<le> lo \<and> lo < u \<and> u < hi \<and> hi \<le> 1 \<and> hi - lo = 1 / 2 ^ 1000
        \<and> clears_savings inputs pct hi \<and> (lo = 0 \<or> \<not> clears_savings inputs pct lo)"
proof -
  let ?c = "clears_savings inputs pct"
  have bar: "below_bar (net_at inputs 1) (savings_yield (si_principalStroops inputs) pct (si_lockDays inputs)) \<longleftrightarrow> \<not> ?c 1"
    by (simp add: assms savings_yield_def below_bar_def clears_bar_def clears_savings_def not_le)
  obtain lo hi where b: "bisect ?c 1000 (0, 1) = (lo, hi)" by fastforce
  show ?thesis
  proof (cases "?c 1")
    case False
    then show ?thesis by (simp add: breakevenUtilization_def bar)
  next
    case True
    then have res: "breakevenUtilization inputs pct = Some ((lo + hi) / 2)"
      by (simp add: breakevenUtilization_def bar b)
    have br: "0 \<le> lo \<and> hi \<le> 1 \<and> hi - lo = (1 - 0) / 2 ^ 1000 \<and> ?c hi \<and> (lo = 0 \<or> \<not> ?c lo)"
      by (rule bisect_bracket [OF _ True _ b]) simp_all
    have "lo < hi"
    proof -
      have "(0::rat) < (1 - 0) / 2 ^ 1000" by (intro divide_pos_pos zero_less_power) simp_all
      then show ?thesis using br by linarith
    qed
    then have mid: "lo < (lo + hi) / 2" "(lo + hi) / 2 < hi" by simp_all
    with br show ?thesis
      unfolding res option.case diff_zero by (intro exI [of _ lo] exI [of _ hi]) (simp only: simp_thms)
  qed
qed

theorem breakeven_bracket_witness:
  "case breakevenUtilization (example_inputs\<lparr>si_defaultRate := 0\<rparr>) 5 of
      None \<Rightarrow> False
    | Some u \<Rightarrow> 0 < u \<and> u < 1"
proof -
  let ?i = "example_inputs\<lparr>si_defaultRate := 0\<rparr>"
  have "clears_savings ?i 5 1"
    by (simp add: clears_savings_def net_at_def savings_yield_def clears_bar_def scenario_eval)
  then show ?thesis
    using breakeven_bracket [of ?i 365 5] by (auto simp: example_inputs_def split: option.splits)
qed

end
