(* ===== verification/Tickets.thy ===== *)
theory Tickets
  imports Replay Json
begin

text \<open>
  One-time tickets of the event stream: the store of \<open>frontend/lib/sse/ticketStore.ts\<close> and the
  routes that prove who a caller is before one is issued
  (\<open>frontend/app/api/auth/sse-ticket/route.ts\<close>, \<open>.../auth/me/route.ts\<close>).

  Time and the random bytes are arguments of the operations.  \<open>jwtVerify\<close> (the package \<open>jose\<close>)
  is an argument too: it answers the payload of a token or throws.  The store is a \<open>Map\<close> in
  insertion order.
\<close>

section \<open>The store\<close>

record ticket_data =
  td_account :: js
  td_expiresAt :: millis

type_synonym ticket_store = "(string \<times> ticket_data) list"

definition TICKET_TTL_SECONDS :: int where
  "TICKET_TTL_SECONDS = 300"

text \<open>The interval timer that removes expired entries.\<close>

definition sweep :: "millis \<Rightarrow> ticket_store \<Rightarrow> ticket_store" where
  "sweep now store = fold (\<lambda>e s. if td_expiresAt (snd e) \<le> now then omap_del (fst e) s else s) store store"

definition hex_byte :: "nat \<Rightarrow> string" where
  "hex_byte b = (let d = (if b < 16 then [hex_digit b] else [hex_digit (b div 16), hex_digit (b mod 16)])
     in replicate (2 - length d) CHR ''0'' @ d)"

definition generateTicket :: "nat list \<Rightarrow> string" where
  "generateTicket bytes = concat (map hex_byte bytes)"

definition createTicket :: "nat list \<Rightarrow> millis \<Rightarrow> js \<Rightarrow> ticket_store \<Rightarrow> (string \<times> int) \<times> ticket_store" where
  "createTicket bytes now account store =
     (let ticket = generateTicket bytes; expiresAt = now + TICKET_TTL_SECONDS * 1000
      in ((ticket, TICKET_TTL_SECONDS), omap_put ticket \<lparr>td_account = account, td_expiresAt = expiresAt\<rparr> store))"

definition consumeTicket :: "millis \<Rightarrow> string \<Rightarrow> ticket_store \<Rightarrow> js option \<times> ticket_store" where
  "consumeTicket now ticket store = (case omap_get store ticket of
      None \<Rightarrow> (None, store)
    | Some data \<Rightarrow>
        if td_expiresAt data \<le> now then (None, omap_del ticket store)
        else (Some (td_account data), omap_del ticket store))"

definition validateTicket :: "millis \<Rightarrow> string \<Rightarrow> ticket_store \<Rightarrow> js option \<times> ticket_store" where
  "validateTicket now ticket store = (case omap_get store ticket of
      None \<Rightarrow> (None, store)
    | Some data \<Rightarrow>
        if td_expiresAt data \<le> now then (None, omap_del ticket store)
        else (Some (td_account data), store))"

section \<open>Bearer tokens\<close>

text \<open>\<open>/^Bearer\\s+(.+)$/i\<close>: white space after the keyword, then anything up to the end.\<close>

definition bearer_token :: "string \<Rightarrow> string option" where
  "bearer_token auth =
     (if toLowerCase (take 6 auth) \<noteq> ''bearer'' then None
      else (let r = drop 6 auth; ws = takeWhile is_space r; t = dropWhile is_space r
            in if ws = [] \<or> \<not> list_all (\<lambda>c. c \<noteq> CHR 0x0A \<and> c \<noteq> CHR 0x0D) r then None
               else if t \<noteq> [] then Some t
               else if length ws < 2 then None else Some [last ws]))"

datatype http_answer = JsonAnswer nat js | TextAnswer nat string | StreamAnswer

type_synonym jwt_verify = "string \<Rightarrow> string \<Rightarrow> js result"

text \<open>\<open>process.env.SEP10_JWT_SECRET || process.env.JWT_SECRET\<close>: an empty value counts as unset.\<close>

definition jwt_secret :: "string option \<Rightarrow> string option \<Rightarrow> string option" where
  "jwt_secret sep10 jwt = (case sep10 of Some (c # cs) \<Rightarrow> sep10 | _ \<Rightarrow> (case jwt of Some (c # cs) \<Rightarrow> jwt | _ \<Rightarrow> None))"

definition json_error :: "nat \<Rightarrow> string \<Rightarrow> http_answer" where
  "json_error status msg = JsonAnswer status (JObj [(''error'', JStr msg)])"

definition sse_ticket_GET ::
  "jwt_verify \<Rightarrow> string option \<Rightarrow> string \<Rightarrow> nat list \<Rightarrow> millis \<Rightarrow> ticket_store \<Rightarrow> http_answer \<times> ticket_store" where
  "sse_ticket_GET jwtVerify secret authorization bytes now store = (case secret of
      None \<Rightarrow> (json_error 500 ''Server not configured'', store)
    | Some key \<Rightarrow> (case bearer_token authorization of
          None \<Rightarrow> (json_error 401 ''Missing or invalid Authorization header'', store)
        | Some token \<Rightarrow> (case jwtVerify token key of
              Inl _ \<Rightarrow> (json_error 401 ''Invalid or expired token'', store)
            | Inr payload \<Rightarrow>
                if \<not> js_truthy (js_prop payload ''sub'') then (json_error 401 ''Invalid token payload'', store)
                else (case createTicket bytes now (js_prop payload ''sub'') store of
                        ((ticket, expiresIn), store') \<Rightarrow>
                          (JsonAnswer 200 (JObj [(''ticket'', JStr ticket), (''expires_in'', JNum (NInt expiresIn))]), store')))))"

definition me_GET :: "jwt_verify \<Rightarrow> string option \<Rightarrow> string \<Rightarrow> http_answer" where
  "me_GET jwtVerify secret authorization =
     (let no = JsonAnswer 401 (JObj [(''authenticated'', JBool False)]) in
      case secret of
        None \<Rightarrow> json_error 500 ''not_configured''
      | Some key \<Rightarrow> (case bearer_token authorization of
            None \<Rightarrow> no
          | Some token \<Rightarrow> (case jwtVerify token key of
                Inl _ \<Rightarrow> no
              | Inr payload \<Rightarrow>
                  if \<not> js_truthy (js_prop payload ''sub'') then no
                  else JsonAnswer 200 (JObj [(''authenticated'', JBool True), (''account'', js_prop payload ''sub'')]))))"

section \<open>Histories of the store\<close>

datatype ticket_op =
    Create "nat list" millis js
  | Consume millis string
  | Validate millis string
  | Sweep millis

fun op_time :: "ticket_op \<Rightarrow> millis" where
  "op_time (Create _ now _) = now"
| "op_time (Consume now _) = now"
| "op_time (Validate now _) = now"
| "op_time (Sweep now) = now"

fun ticket_step :: "ticket_op \<Rightarrow> ticket_store \<Rightarrow> ticket_store" where
  "ticket_step (Create bytes now account) s = snd (createTicket bytes now account s)"
| "ticket_step (Consume now t) s = snd (consumeTicket now t s)"
| "ticket_step (Validate now t) s = snd (validateTicket now t s)"
| "ticket_step (Sweep now) s = sweep now s"

text \<open>What an operation does to the entry of a ticket, as seen at a later time: a creation
  replaces it, a use removes it, everything else leaves it.\<close>

definition live :: "string \<Rightarrow> millis \<Rightarrow> ticket_store \<Rightarrow> ticket_data option" where
  "live t now s = (case omap_get s t of
      Some d \<Rightarrow> if now < td_expiresAt d then Some d else None
    | None \<Rightarrow> None)"

fun ticket_writes :: "string \<Rightarrow> millis \<Rightarrow> ticket_op \<Rightarrow> ticket_data option option" where
  "ticket_writes t n (Create bytes now account) =
     (if generateTicket bytes = t
      then Some (if n < now + 300000 then Some \<lparr>td_account = account, td_expiresAt = now + 300000\<rparr> else None)
      else None)"
| "ticket_writes t n (Consume now t') = (if t' = t then Some None else None)"
| "ticket_writes t n _ = None"

interpretation ticket_history:
  last_status "\<lambda>op s. case ticket_writes t n op of None \<Rightarrow> s | Some s' \<Rightarrow> s'" "ticket_writes t n"
  by unfold_locales simp

lemma sweep_fold_get:
  "omap_get (fold (\<lambda>e s. if td_expiresAt (snd e) \<le> now then omap_del (fst e) s else s) es s) t =
     (if \<exists>e \<in> set es. fst e = t \<and> td_expiresAt (snd e) \<le> now then None else omap_get s t)"
  by (induction es arbitrary: s) auto

lemma sweep_get:
  assumes "omap_wf s"
  shows "omap_get (sweep now s) t = (case omap_get s t of
      Some d \<Rightarrow> if td_expiresAt d \<le> now then None else Some d | None \<Rightarrow> None)"
proof (cases "omap_get s t")
  case None
  then have "\<not> (\<exists>e \<in> set s. fst e = t \<and> td_expiresAt (snd e) \<le> now)"
    using assms by (auto dest: omap_in_get)
  with None show ?thesis by (simp add: sweep_def sweep_fold_get)
next
  case (Some d)
  then have "(\<exists>e \<in> set s. fst e = t \<and> td_expiresAt (snd e) \<le> now) \<longleftrightarrow> td_expiresAt d \<le> now"
    using assms omap_get_Some_in [OF Some] by (auto dest: omap_in_get intro!: bexI [of _ "(t, d)"])
  with Some show ?thesis by (simp add: sweep_def sweep_fold_get)
qed

lemma ticket_step_wf: "omap_wf s \<Longrightarrow> omap_wf (ticket_step op s)"
proof (cases op)
  case (Sweep now)
  have "omap_wf s \<Longrightarrow> omap_wf (fold (\<lambda>e s. if td_expiresAt (snd e) \<le> now then omap_del (fst e) s else s) es s)" for es s
    by (induction es arbitrary: s) auto
  then show "omap_wf s \<Longrightarrow> omap_wf (ticket_step op s)" by (simp add: Sweep sweep_def)
qed (auto simp: createTicket_def consumeTicket_def validateTicket_def Let_def split: option.splits)

lemma live_step:
  assumes "omap_wf s" "op_time op \<le> n"
  shows "live t n (ticket_step op s) = (case ticket_writes t n op of None \<Rightarrow> live t n s | Some x \<Rightarrow> x)"
  using assms
  by (cases op) (auto simp: live_def createTicket_def consumeTicket_def validateTicket_def sweep_get
      TICKET_TTL_SECONDS_def Let_def split: option.splits)

lemma live_run:
  assumes "omap_wf s" "\<forall>op \<in> set ops. op_time op \<le> n"
  shows "live t n (fold ticket_step ops s) =
    fold (\<lambda>op x. case ticket_writes t n op of None \<Rightarrow> x | Some y \<Rightarrow> y) ops (live t n s)"
  using assms by (induction ops arbitrary: s) (auto simp: live_step ticket_step_wf)

lemma consume_live: "fst (consumeTicket n t s) = map_option td_account (live t n s)"
  by (auto simp: consumeTicket_def live_def split: option.splits)

section \<open>Ticket format\<close>

lemma hex_byte_two: "b < 256 \<Longrightarrow> hex_byte b = [hex_digit (b div 16), hex_digit (b mod 16)]"
  by (auto simp: hex_byte_def hex_digit_def char_eq_code)

lemma hex_digit_inj: "hex_digit a = hex_digit b \<Longrightarrow> a < 16 \<Longrightarrow> b < 16 \<Longrightarrow> a = b"
  by (metis option.inject radix_val_hex_digit)

lemma length_generateTicket: "list_all (\<lambda>b. b < 256) bytes \<Longrightarrow> length (generateTicket bytes) = 2 * length bytes"
  by (induction bytes) (auto simp: generateTicket_def hex_byte_two)

lemma generateTicket_inj:
  assumes "generateTicket as = generateTicket bs" "list_all (\<lambda>b. b < 256) as" "list_all (\<lambda>b. b < 256) bs"
  shows "as = bs"
  using assms
proof (induction as arbitrary: bs)
  case Nil
  then show ?case by (cases bs) (auto simp: generateTicket_def hex_byte_two)
next
  case (Cons a as)
  then obtain b bs' where bs: "bs = b # bs'"
    by (cases bs) (auto simp: generateTicket_def hex_byte_two)
  with Cons.prems have "hex_digit (a div 16) = hex_digit (b div 16)" "hex_digit (a mod 16) = hex_digit (b mod 16)"
    "generateTicket as = generateTicket bs'"
    by (simp_all add: generateTicket_def hex_byte_two)
  moreover from this Cons.prems have "a div 16 = b div 16" "a mod 16 = b mod 16"
    by (auto simp: bs intro!: hex_digit_inj)
  then have "a = b" by (metis div_mult_mod_eq)
  ultimately show ?case using Cons.IH [of bs'] Cons.prems by (simp add: bs)
qed

section \<open>When a ticket is accepted\<close>

text \<open>After any history of issuing, using, checking and sweeping tickets, a ticket is accepted for an account exactly when the last operation of the history that concerns it (issue or use) issued it to that account less than 300 seconds ago; so no ticket is accepted twice, after it expired, or for another account, and the sweep never revokes a live one.\<close>

theorem ticket_accepted_iff:
  assumes "\<forall>op \<in> set ops. op_time op \<le> now"
  shows "fst (consumeTicket now t (fold ticket_step ops [])) = Some account \<longleftrightarrow>
    (\<exists>ops1 bytes issued ops2. ops = ops1 @ Create bytes issued account # ops2
      \<and> generateTicket bytes = t \<and> now < issued + 300000
      \<and> (\<forall>op \<in> set ops2. case op of
            Create bytes' _ _ \<Rightarrow> generateTicket bytes' \<noteq> t
          | Consume _ t' \<Rightarrow> t' \<noteq> t
          | _ \<Rightarrow> True))"
proof -
  let ?run = "fold (\<lambda>op x. case ticket_writes t now op of None \<Rightarrow> x | Some y \<Rightarrow> y) ops None"
  have none: "ticket_writes t now op = None \<longleftrightarrow> (case op of
      Create bytes' _ _ \<Rightarrow> generateTicket bytes' \<noteq> t | Consume _ t' \<Rightarrow> t' \<noteq> t | _ \<Rightarrow> True)" for op
    by (cases op) auto
  have "fst (consumeTicket now t (fold ticket_step ops [])) = Some account \<longleftrightarrow>
      (\<exists>d. ?run = Some d \<and> td_account d = account)"
    using live_run [OF omap_wf_Nil assms, of t] by (simp add: consume_live live_def)
  also have "\<dots> \<longleftrightarrow> (\<exists>d ops1 op ops2. ops = ops1 @ op # ops2 \<and> ticket_writes t now op = Some (Some d)
      \<and> td_account d = account \<and> (\<forall>op' \<in> set ops2. ticket_writes t now op' = None))"
    using ticket_history.fold_eq_iff [of "Some _" None t now ops] by blast
  also have "\<dots> \<longleftrightarrow> (\<exists>ops1 bytes issued ops2. ops = ops1 @ Create bytes issued account # ops2
      \<and> generateTicket bytes = t \<and> now < issued + 300000 \<and> (\<forall>op' \<in> set ops2. ticket_writes t now op' = None))"
    (is "?L \<longleftrightarrow> ?R")
  proof
    assume ?L
    then obtain d ops1 op ops2 where *: "ops = ops1 @ op # ops2" "ticket_writes t now op = Some (Some d)"
      "td_account d = account" "\<forall>op' \<in> set ops2. ticket_writes t now op' = None" by blast
    then obtain bytes issued where "op = Create bytes issued account" "generateTicket bytes = t" "now < issued + 300000"
      by (cases op) (auto split: if_splits)
    with * show ?R by blast
  next
    assume ?R
    then show ?L by force
  qed
  finally show ?thesis unfolding none .
qed

end
