(* ===== verification/SseRoute.thy ===== *)
theory SseRoute
  imports Tickets IndexerApi
begin

text \<open>
  The live event stream (\<open>frontend/app/api/events/route.ts\<close>): one poller per server process
  tails the indexer for all connected clients.

  The module's variables are the record \<open>sse_state\<close>; \<open>sse_frames\<close> logs what was written to which
  client.  A poll awaits the indexer's answers, and the interval timer does not wait for a running
  poll: a poll in flight is a program counter \<open>poll_pc\<close>, and \<open>sse_step\<close> interleaves registrations,
  timer ticks, answers, disconnects and heartbeats.  A client whose stream was cancelled is in
  \<open>sse_dead\<close>: \<open>enqueue\<close> throws there, and the handler turns that into an error of the same stream.
\<close>

section \<open>State\<close>

record IndexerEventRow =
  iv_id :: string
  iv_contractId :: string
  iv_topic :: "js list"
  iv_value :: js
  iv_ledger :: ledger
  iv_ledgerCloseAt :: string
  iv_txHash :: string

record SseClient =
  cl_id :: nat
  cl_invoiceId :: "string option"

datatype frame = Connected | Ping | Data IndexerEventRow | ErrorEvent

record sse_state =
  sse_timer :: bool
  sse_clients :: "SseClient list"
  sse_lastSeen :: ledger
  sse_dead :: "nat list"
  sse_frames :: "(nat \<times> frame) list"

definition sse_init :: sse_state where
  "sse_init = \<lparr>sse_timer = False, sse_clients = [], sse_lastSeen = 0, sse_dead = [], sse_frames = []\<rparr>"

definition MIN_POLL_INTERVAL_MS :: int where
  "MIN_POLL_INTERVAL_MS = 3000"

definition INITIAL_LOOKBACK_LEDGERS :: int where
  "INITIAL_LOOKBACK_LEDGERS = 10"

definition poll_interval :: "int \<Rightarrow> int" where
  "poll_interval configured = max MIN_POLL_INTERVAL_MS configured"

text \<open>The text a frame is sent as.\<close>

definition event_payload :: "IndexerEventRow \<Rightarrow> js" where
  "event_payload e = JObj [(''id'', JStr (iv_id e)), (''contractId'', JStr (iv_contractId e)),
     (''topic'', JArr (iv_topic e)), (''value'', iv_value e), (''ledger'', JNum (NInt (iv_ledger e))),
     (''txHash'', JStr (iv_txHash e)), (''ledgerCloseAt'', JStr (iv_ledgerCloseAt e))]"

definition frame_text :: "frame \<Rightarrow> string" where
  "frame_text f = (case f of
      Connected \<Rightarrow> ''event: connected'' @ [CHR 0x0A] @ ''data: '' @ json_print (JObj [(''type'', JStr ''connected'')])
    | Ping \<Rightarrow> ''event: ping'' @ [CHR 0x0A] @ ''data: ''
    | Data e \<Rightarrow> ''data: '' @ json_print (event_payload e)
    | ErrorEvent \<Rightarrow> ''event: error'' @ [CHR 0x0A] @ ''data: '' @ json_print (JObj [(''type'', JStr ''error'')]))
     @ [CHR 0x0A, CHR 0x0A]"

definition enqueue_frame :: "frame \<Rightarrow> SseClient \<Rightarrow> sse_state \<Rightarrow> sse_state" where
  "enqueue_frame f c s = (if cl_id c \<in> set (sse_dead s) then s
     else s\<lparr>sse_frames := sse_frames s @ [(cl_id c, f)]\<rparr>)"

section \<open>Asking the indexer\<close>

text \<open>An answer is a network failure or a status with the decoded body.\<close>

type_synonym 'a fetch_answer = "(nat \<times> 'a) result"

definition res_ok :: "nat \<Rightarrow> bool" where
  "res_ok status = (200 \<le> status \<and> status \<le> 299)"

definition fetchIndexerLatestLedger :: "ledger option fetch_answer \<Rightarrow> ledger result" where
  "fetchIndexerLatestLedger ans = (case ans of
      Inl e \<Rightarrow> Inl e
    | Inr (status, latest) \<Rightarrow>
        if \<not> res_ok status then Inl (GenericError (''indexer /ledger/latest returned '' @ show_nat status))
        else Inr (case latest of Some l \<Rightarrow> l | None \<Rightarrow> 0))"

text \<open>The query of a request for events.\<close>

definition events_query :: "string \<Rightarrow> ledger \<Rightarrow> js" where
  "events_query contractId afterLedger =
     JObj [(''contract_id'', JStr contractId), (''after_ledger'', JStr (show_int afterLedger)), (''limit'', JStr ''200'')]"

definition fetchIndexerEvents :: "IndexerEventRow list fetch_answer \<Rightarrow> IndexerEventRow list result" where
  "fetchIndexerEvents ans = (case ans of
      Inl e \<Rightarrow> Inl e
    | Inr (status, rows) \<Rightarrow>
        if \<not> res_ok status then Inl (GenericError (''indexer /events returned '' @ show_nat status))
        else Inr rows)"

text \<open>\<open>Promise.all\<close>: the first rejection in order, or all the values.\<close>

fun promise_all :: "'a result list \<Rightarrow> 'a list result" where
  "promise_all [] = Inr []"
| "promise_all (r # rs) = (case r of
      Inl e \<Rightarrow> Inl e
    | Inr x \<Rightarrow> (case promise_all rs of Inl e \<Rightarrow> Inl e | Inr xs \<Rightarrow> Inr (x # xs)))"

section \<open>The shared poll\<close>

datatype poll_pc = AwaitLatest | AwaitEvents ledger

definition contract_ids :: "string \<Rightarrow> string \<Rightarrow> string list" where
  "contract_ids invoice pool = filter (\<lambda>c. c \<noteq> []) [invoice, pool]"

definition sharedPoll_begin :: "string list \<Rightarrow> sse_state \<Rightarrow> poll_pc option" where
  "sharedPoll_begin ids s =
     (if sse_clients s = [] \<or> ids = [] then None
      else if sse_lastSeen s = 0 then Some AwaitLatest
      else Some (AwaitEvents (sse_lastSeen s)))"

definition poll_error :: "sse_state \<Rightarrow> sse_state" where
  "poll_error s = fold (enqueue_frame ErrorEvent) (sse_clients s) s"

definition sharedPoll_latest :: "ledger option fetch_answer \<Rightarrow> sse_state \<Rightarrow> poll_pc option \<times> sse_state" where
  "sharedPoll_latest ans s = (case fetchIndexerLatestLedger ans of
      Inl _ \<Rightarrow> (None, poll_error s)
    | Inr latest \<Rightarrow> (let l = max 0 (latest - INITIAL_LOOKBACK_LEDGERS)
                     in (Some (AwaitEvents l), s\<lparr>sse_lastSeen := l\<rparr>)))"

text \<open>\<open>(e.value as unknown[] | null)?.[0]\<close>\<close>

definition event_invoice_id :: "js \<Rightarrow> js" where
  "event_invoice_id v = (case v of
      JArr xs \<Rightarrow> elem_at xs 0
    | JStr s \<Rightarrow> (if s = [] then JUndefined else JStr [hd s])
    | _ \<Rightarrow> js_prop v ''0'')"

definition wants :: "SseClient \<Rightarrow> IndexerEventRow \<Rightarrow> bool" where
  "wants c e = (case cl_invoiceId c of
      None \<Rightarrow> True
    | Some i \<Rightarrow> js_String (event_invoice_id (iv_value e)) = i)"

definition deliver_event :: "IndexerEventRow \<Rightarrow> sse_state \<Rightarrow> sse_state" where
  "deliver_event e s = fold (\<lambda>c s. if wants c e then enqueue_frame (Data e) c s else s) (sse_clients s) s"

definition sharedPoll_events :: "IndexerEventRow list fetch_answer list \<Rightarrow> sse_state \<Rightarrow> sse_state" where
  "sharedPoll_events answers s = (case promise_all (map fetchIndexerEvents answers) of
      Inl _ \<Rightarrow> poll_error s
    | Inr batches \<Rightarrow>
        (let events = sort_key iv_ledger (concat batches) in
         if events = [] then s
         else fold deliver_event events
                (s\<lparr>sse_lastSeen := foldl (\<lambda>m e. max m (iv_ledger e)) (sse_lastSeen s) events\<rparr>)))"

text \<open>A poll that no other step interrupts, against an indexer that answers the two requests.\<close>

record indexer_env =
  ix_latest :: "ledger option fetch_answer"
  ix_events :: "string \<Rightarrow> ledger \<Rightarrow> IndexerEventRow list fetch_answer"

definition sharedPoll :: "string list \<Rightarrow> indexer_env \<Rightarrow> sse_state \<Rightarrow> sse_state" where
  "sharedPoll ids ix s = (case sharedPoll_begin ids s of
      None \<Rightarrow> s
    | Some AwaitLatest \<Rightarrow> (case sharedPoll_latest (ix_latest ix) s of
          (Some (AwaitEvents l), s') \<Rightarrow> sharedPoll_events (map (\<lambda>i. ix_events ix i l) ids) s'
        | (_, s') \<Rightarrow> s')
    | Some (AwaitEvents l) \<Rightarrow> sharedPoll_events (map (\<lambda>i. ix_events ix i l) ids) s)"

section \<open>Registration and the request handler\<close>

definition startSharedPoller :: "string list \<Rightarrow> sse_state \<Rightarrow> poll_pc option \<times> sse_state" where
  "startSharedPoller ids s =
     (if sse_timer s then (None, s)
      else (if sse_clients s \<noteq> [] then sharedPoll_begin ids s else None, s\<lparr>sse_timer := True\<rparr>))"

definition stopSharedPollerIfEmpty :: "sse_state \<Rightarrow> sse_state" where
  "stopSharedPollerIfEmpty s =
     (if sse_clients s = [] \<and> sse_timer s then s\<lparr>sse_timer := False, sse_lastSeen := 0\<rparr> else s)"

definition registerClient :: "string list \<Rightarrow> SseClient \<Rightarrow> sse_state \<Rightarrow> poll_pc option \<times> sse_state" where
  "registerClient ids c s = startSharedPoller ids (s\<lparr>sse_clients := oset_add c (sse_clients s)\<rparr>)"

definition unregisterClient :: "SseClient \<Rightarrow> sse_state \<Rightarrow> sse_state" where
  "unregisterClient c s = stopSharedPollerIfEmpty (s\<lparr>sse_clients := filter (\<lambda>x. x \<noteq> c) (sse_clients s)\<rparr>)"

definition heartbeat :: "SseClient \<Rightarrow> sse_state \<Rightarrow> sse_state" where
  "heartbeat c s = enqueue_frame Ping c s"

text \<open>The abort of a request: the client leaves, its stream is closed.\<close>

definition abort :: "SseClient \<Rightarrow> sse_state \<Rightarrow> sse_state" where
  "abort c s = (unregisterClient c s)\<lparr>sse_dead := cl_id c # sse_dead s\<rparr>"

definition events_GET ::
  "string list \<Rightarrow> millis \<Rightarrow> string option \<Rightarrow> string option \<Rightarrow> nat \<Rightarrow> ticket_store \<Rightarrow> sse_state
    \<Rightarrow> http_answer \<times> poll_pc option \<times> ticket_store \<times> sse_state" where
  "events_GET ids now ticket invoiceId fresh store s =
     (let unauthorized = TextAnswer 401 ''Unauthorized'' in
      case ticket of
        None \<Rightarrow> (unauthorized, None, store, s)
      | Some t \<Rightarrow>
          if t = [] then (unauthorized, None, store, s)
          else (case consumeTicket now t store of
                  (None, store') \<Rightarrow> (unauthorized, None, store', s)
                | (Some account, store') \<Rightarrow>
                    if \<not> js_truthy account then (unauthorized, None, store', s)
                    else if ids = [] then (TextAnswer 503 ''Contract IDs not configured'', None, store', s)
                    else (let c = \<lparr>cl_id = fresh, cl_invoiceId = invoiceId\<rparr> in
                          case registerClient ids c (enqueue_frame Connected c s) of
                            (p, s') \<Rightarrow> (StreamAnswer, p, store', s'))))"

section \<open>Interleaving\<close>

text \<open>A server is the module's state and the polls in flight.\<close>

type_synonym server = "poll_pc list \<times> sse_state"

definition launch_poll :: "poll_pc option \<Rightarrow> poll_pc list \<Rightarrow> poll_pc list" where
  "launch_poll p ps = (case p of None \<Rightarrow> ps | Some x \<Rightarrow> ps @ [x])"

inductive sse_step :: "string list \<Rightarrow> server \<Rightarrow> server \<Rightarrow> bool" for ids where
  Accept: "events_GET ids now (Some t) invoice fresh store s = (StreamAnswer, p, store', s') \<Longrightarrow>
     fresh \<notin> cl_id ` set (sse_clients s) \<Longrightarrow> fresh \<notin> set (sse_dead s) \<Longrightarrow>
     sse_step ids (ps, s) (launch_poll p ps, s')"
| Tick: "sse_timer s \<Longrightarrow> sse_step ids (ps, s) (launch_poll (sharedPoll_begin ids s) ps, s)"
| Latest: "sharedPoll_latest ans s = (p, s') \<Longrightarrow>
     sse_step ids (ps1 @ AwaitLatest # ps2, s) (launch_poll p (ps1 @ ps2), s')"
| Events: "length answers = length ids \<Longrightarrow>
     sse_step ids (ps1 @ AwaitEvents l # ps2, s) (ps1 @ ps2, sharedPoll_events answers s)"
| Abort: "c \<in> set (sse_clients s) \<Longrightarrow> sse_step ids (ps, s) (ps, abort c s)"
| Heartbeat: "c \<in> set (sse_clients s) \<Longrightarrow> sse_step ids (ps, s) (ps, heartbeat c s)"
| Cancel: "sse_step ids (ps, s) (ps, s\<lparr>sse_dead := i # sse_dead s\<rparr>)"

inductive sse_reachable :: "string list \<Rightarrow> server \<Rightarrow> bool" for ids where
  Start: "sse_reachable ids ([], sse_init)"
| Step: "sse_reachable ids v \<Longrightarrow> sse_step ids v v' \<Longrightarrow> sse_reachable ids v'"

section \<open>What is written to whom\<close>

definition recipients :: "sse_state \<Rightarrow> IndexerEventRow \<Rightarrow> SseClient list" where
  "recipients s e = filter (\<lambda>c. wants c e \<and> cl_id c \<notin> set (sse_dead s)) (sse_clients s)"

lemma fold_enqueue:
  "fold (\<lambda>c s. if P c then enqueue_frame f c s else s) cs s =
     s\<lparr>sse_frames := sse_frames s @ map (\<lambda>c. (cl_id c, f)) (filter (\<lambda>c. P c \<and> cl_id c \<notin> set (sse_dead s)) cs)\<rparr>"
  by (induction cs arbitrary: s) (auto simp: enqueue_frame_def)

lemma poll_error_eq:
  "poll_error s = s\<lparr>sse_frames := sse_frames s @
     map (\<lambda>c. (cl_id c, ErrorEvent)) (filter (\<lambda>c. cl_id c \<notin> set (sse_dead s)) (sse_clients s))\<rparr>"
  using fold_enqueue [of "\<lambda>_. True" ErrorEvent "sse_clients s" s] by (simp add: poll_error_def cong: fold_cong)

lemma deliver_event_eq:
  "deliver_event e s = s\<lparr>sse_frames := sse_frames s @ map (\<lambda>c. (cl_id c, Data e)) (recipients s e)\<rparr>"
  unfolding deliver_event_def fold_enqueue recipients_def by simp

lemma fold_deliver_event:
  "fold deliver_event es s =
     s\<lparr>sse_frames := sse_frames s @ concat (map (\<lambda>e. map (\<lambda>c. (cl_id c, Data e)) (recipients s e)) es)\<rparr>"
proof (induction es arbitrary: s)
  case (Cons e es)
  have "recipients (s\<lparr>sse_frames := fs\<rparr>) = recipients s" for fs by (simp add: recipients_def fun_eq_iff)
  then show ?case by (simp add: Cons deliver_event_eq [of e s])
qed simp

text \<open>The events a successful poll has to deliver, in the order of delivery.\<close>

definition polled_events :: "IndexerEventRow list fetch_answer list \<Rightarrow> IndexerEventRow list" where
  "polled_events answers = (case promise_all (map fetchIndexerEvents answers) of
      Inl _ \<Rightarrow> [] | Inr batches \<Rightarrow> sort_key iv_ledger (concat batches))"

lemma foldl_max_bounds:
  "m \<le> foldl (\<lambda>m e. max m (f e)) m es" "e \<in> set es \<Longrightarrow> f e \<le> foldl (\<lambda>m e. max m (f e)) m (es :: 'a list)" for m :: int
proof -
  have *: "(\<forall>e \<in> set es. f e \<le> foldl (\<lambda>m e. max m (f e)) m es) \<and> m \<le> foldl (\<lambda>m e. max m (f e)) m es" for m
    by (induction es arbitrary: m) (auto intro: order_trans [OF max.cobounded1] order_trans [OF max.cobounded2] dest: spec)
  then show "m \<le> foldl (\<lambda>m e. max m (f e)) m es" "e \<in> set es \<Longrightarrow> f e \<le> foldl (\<lambda>m e. max m (f e)) m es"
    by blast+
qed

lemma sharedPoll_events_cases:
  obtains (failed) "polled_events answers = []" "sharedPoll_events answers s = poll_error s"
  | (delivered) "sharedPoll_events answers s =
      s\<lparr>sse_lastSeen := foldl (\<lambda>m e. max m (iv_ledger e)) (sse_lastSeen s) (polled_events answers),
        sse_frames := sse_frames s @
          concat (map (\<lambda>e. map (\<lambda>c. (cl_id c, Data e)) (recipients s e)) (polled_events answers))\<rparr>"
proof (cases "promise_all (map fetchIndexerEvents answers)")
  case (Inl e)
  then show thesis by (intro failed) (simp_all add: polled_events_def sharedPoll_events_def)
next
  case (Inr batches)
  have "recipients (s\<lparr>sse_lastSeen := l\<rparr>) = recipients s" for l by (simp add: recipients_def fun_eq_iff)
  with Inr show thesis
    by (intro delivered) (auto simp: polled_events_def sharedPoll_events_def Let_def fold_deliver_event)
qed

definition received :: "nat \<Rightarrow> sse_state \<Rightarrow> frame list" where
  "received i s = map snd (filter (\<lambda>x. fst x = i) (sse_frames s))"

lemma received_recipients:
  assumes "distinct (map cl_id (sse_clients s))" "c \<in> set (sse_clients s)" "cl_id c \<notin> set (sse_dead s)"
  shows "map snd (filter (\<lambda>x. fst x = cl_id c) (map (\<lambda>c. (cl_id c, Data e)) (recipients s e))) =
    (if wants c e then [Data e] else [])"
proof -
  have "filter (\<lambda>x. cl_id x = cl_id c) (recipients s e) =
      filter (\<lambda>x. wants x e \<and> cl_id x \<notin> set (sse_dead s)) (filter (\<lambda>x. cl_id x = cl_id c) (sse_clients s))"
    by (simp add: recipients_def conj_ac cong: conj_cong)
  also have "\<dots> = filter (\<lambda>x. wants x e) [c]"
    using assms(3) by (simp add: filter_key_unique [OF assms(1,2)])
  finally show ?thesis by (simp add: filter_map comp_def)
qed

lemma received_errors:
  assumes "distinct (map cl_id (sse_clients s))" "c \<in> set (sse_clients s)" "cl_id c \<notin> set (sse_dead s)"
  shows "map snd (filter (\<lambda>x. fst x = cl_id c)
      (map (\<lambda>c. (cl_id c, ErrorEvent)) (filter (\<lambda>c. cl_id c \<notin> set (sse_dead s)) (sse_clients s)))) = [ErrorEvent]"
proof -
  have "filter (\<lambda>x. cl_id x = cl_id c) (filter (\<lambda>c. cl_id c \<notin> set (sse_dead s)) (sse_clients s)) =
      filter (\<lambda>x. cl_id x \<notin> set (sse_dead s)) (filter (\<lambda>x. cl_id x = cl_id c) (sse_clients s))"
    by (simp add: conj_ac cong: conj_cong)
  then show ?thesis
    using assms(3) by (simp add: filter_map comp_def filter_key_unique [OF assms(1,2)] del: filter_filter)
qed

lemma received_events:
  assumes "distinct (map cl_id (sse_clients s))" "c \<in> set (sse_clients s)" "cl_id c \<notin> set (sse_dead s)"
  shows "map snd (filter (\<lambda>x. fst x = cl_id c) (concat (map (\<lambda>e. map (\<lambda>c. (cl_id c, Data e)) (recipients s e)) es))) =
    map Data (filter (wants c) es)"
  using received_recipients [OF assms] by (induction es) auto

lemma promise_all_Inr: "promise_all rs = Inr xs \<Longrightarrow> rs = map Inr xs"
  by (induction rs arbitrary: xs) (auto split: sum.splits)

lemma polled_events_source:
  assumes "e \<in> set (polled_events answers)"
  shows "\<exists>st rows. Inr (st, rows) \<in> set answers \<and> e \<in> set rows"
proof -
  obtain batches where *: "promise_all (map fetchIndexerEvents answers) = Inr batches" "e \<in> set (concat batches)"
    using assms by (cases "promise_all (map fetchIndexerEvents answers)") (auto simp: polled_events_def)
  then obtain b where "b \<in> set batches" "e \<in> set b" by auto
  with promise_all_Inr [OF *(1)] have "Inr b \<in> set (map fetchIndexerEvents answers)" by simp
  with \<open>e \<in> set b\<close> show ?thesis
    by (fastforce simp: fetchIndexerEvents_def split: sum.splits prod.splits if_splits)
qed

text \<open>The documented behaviour of the indexer's \<open>after_ledger\<close> filter.\<close>

definition honest_indexer :: "indexer_env \<Rightarrow> bool" where
  "honest_indexer ix \<longleftrightarrow> (\<forall>i l st rows. ix_events ix i l = Inr (st, rows) \<longrightarrow> (\<forall>e \<in> set rows. l < iv_ledger e))"

lemma honest_polled:
  assumes "honest_indexer ix" "e \<in> set (polled_events (map (\<lambda>i. ix_events ix i l) ids))"
  shows "l < iv_ledger e"
proof -
  obtain i st rows where "ix_events ix i l = Inr (st, rows)" "e \<in> set rows"
    using polled_events_source [OF assms(2)] by (metis ex_map_conv)
  with assms(1) show ?thesis unfolding honest_indexer_def by blast
qed

section \<open>Properties of the stream\<close>

text \<open>A poll that is not overlapped by another, against an indexer that honours its ledger filter, writes to every connected live client, after what it had already received, either one error event or exactly the fetched events the client subscribed to, in ledger order; each of them lies above the previous high-water mark and at or below the new one.\<close>

theorem poll_delivery_exact:
  assumes "honest_indexer ix" "0 < sse_lastSeen s" "ids \<noteq> []"
    and "distinct (map cl_id (sse_clients s))" "c \<in> set (sse_clients s)" "cl_id c \<notin> set (sse_dead s)"
  defines "s' \<equiv> sharedPoll ids ix s"
    and "evs \<equiv> polled_events (map (\<lambda>i. ix_events ix i (sse_lastSeen s)) ids)"
  shows "(received (cl_id c) s' = received (cl_id c) s @ [ErrorEvent] \<and> sse_lastSeen s' = sse_lastSeen s)
    \<or> (received (cl_id c) s' = received (cl_id c) s @ map Data (filter (wants c) evs)
       \<and> sorted (map iv_ledger evs) \<and> sse_lastSeen s \<le> sse_lastSeen s'
       \<and> (\<forall>e \<in> set evs. sse_lastSeen s < iv_ledger e \<and> iv_ledger e \<le> sse_lastSeen s'))"
proof -
  let ?ans = "map (\<lambda>i. ix_events ix i (sse_lastSeen s)) ids"
  have s': "s' = sharedPoll_events ?ans s"
    using assms(2,3,5) by (auto simp: s'_def sharedPoll_def sharedPoll_begin_def)
  show ?thesis
  proof (cases rule: sharedPoll_events_cases [of ?ans s])
    case failed
    have "received (cl_id c) s' = received (cl_id c) s @ [ErrorEvent]"
      by (simp add: s' failed(2) poll_error_eq received_def received_errors [OF assms(4-6)])
    then show ?thesis by (simp add: s' failed(2) poll_error_eq)
  next
    case delivered
    have "sse_lastSeen s < iv_ledger e" if "e \<in> set evs" for e
      using honest_polled [OF assms(1)] that by (simp add: evs_def)
    moreover have "sorted (map iv_ledger evs)"
      by (simp add: evs_def polled_events_def split: sum.splits)
    ultimately show ?thesis
      using foldl_max_bounds [where m = "sse_lastSeen s" and f = iv_ledger and es = evs] received_events [OF assms(4-6), of evs]
      by (simp add: s' delivered received_def evs_def [symmetric])
  qed
qed

definition example_event :: IndexerEventRow where
  "example_event = \<lparr>iv_id = ''e1'', iv_contractId = ''POOL'', iv_topic = [], iv_value = JArr [JNum (NInt 7)],
     iv_ledger = 15, iv_ledgerCloseAt = ''t'', iv_txHash = ''h''\<rparr>"

definition example_indexer :: indexer_env where
  "example_indexer = \<lparr>ix_latest = Inr (200, Some 20),
     ix_events = (\<lambda>i l. Inr (200, if l < 15 then [example_event] else []))\<rparr>"

definition example_client :: SseClient where
  "example_client = \<lparr>cl_id = 0, cl_invoiceId = Some ''7''\<rparr>"

definition example_sse :: sse_state where
  "example_sse = \<lparr>sse_timer = True, sse_clients = [example_client], sse_lastSeen = 10, sse_dead = [], sse_frames = [(0, Connected)]\<rparr>"

lemma honest_example_indexer: "honest_indexer example_indexer"
  by (auto simp: honest_indexer_def example_indexer_def example_event_def split: if_splits)

lemmas sse_eval = example_sse_def example_client_def example_indexer_def sharedPoll_def sharedPoll_begin_def
  sharedPoll_events_def sharedPoll_latest_def fetchIndexerEvents_def fetchIndexerLatestLedger_def res_ok_def
  deliver_event_def enqueue_frame_def received_def polled_events_def wants_def event_invoice_id_def elem_at_def
  example_event_def Let_def

theorem poll_delivery_exact_witness:
  "received 0 (sharedPoll [''POOL''] example_indexer example_sse) = [Connected, Data example_event]"
proof -
  have "polled_events (map (\<lambda>i. ix_events example_indexer i 10) [''POOL'']) = [example_event]"
    "wants example_client example_event" "received 0 example_sse = [Connected]"
    by (simp_all add: sse_eval show_jnum_def show_int_def)
       (simp add: show_nat.simps digit_char_def char_eq_code)
  moreover have "sse_lastSeen (sharedPoll [''POOL''] example_indexer example_sse) = 15"
    by (simp add: sse_eval)
  ultimately show ?thesis
    using poll_delivery_exact [of example_indexer example_sse "[''POOL'']" example_client, OF honest_example_indexer]
    by (simp add: example_sse_def example_client_def)
qed

text \<open>
  The mark only moves up, so what was passed stays passed: what a poll delivered is not delivered
  again, and a row at or below the mark that a page left out is not delivered at all.
\<close>

lemma sharedPoll_events_frames:
  assumes "(i, Data e) \<in> set (sse_frames (sharedPoll_events answers s))" "(i, Data e) \<notin> set (sse_frames s)"
  shows "e \<in> set (polled_events answers)"
proof (cases rule: sharedPoll_events_cases [of answers s])
  case failed
  with assms show ?thesis by (auto simp: poll_error_eq)
next
  case delivered
  with assms show ?thesis by auto
qed

lemma sharedPoll_events_lastSeen: "sse_lastSeen s \<le> sse_lastSeen (sharedPoll_events answers s)"
  using foldl_max_bounds(1)
  by (cases rule: sharedPoll_events_cases [of answers s]) (simp_all add: poll_error_eq)

lemma sharedPoll_above:
  assumes "honest_indexer ix" "0 < sse_lastSeen s"
  shows "sse_lastSeen s \<le> sse_lastSeen (sharedPoll ids ix s)"
    and "(i, Data e) \<in> set (sse_frames (sharedPoll ids ix s)) \<Longrightarrow> (i, Data e) \<notin> set (sse_frames s) \<Longrightarrow> sse_lastSeen s < iv_ledger e"
proof -
  have "sharedPoll ids ix s = s \<or> sharedPoll ids ix s = sharedPoll_events (map (\<lambda>i. ix_events ix i (sse_lastSeen s)) ids) s"
    using assms(2) by (simp add: sharedPoll_def sharedPoll_begin_def)
  then consider "sharedPoll ids ix s = s"
    | "sharedPoll ids ix s = sharedPoll_events (map (\<lambda>i. ix_events ix i (sse_lastSeen s)) ids) s"
    by blast
  note alternatives = this
  show "sse_lastSeen s \<le> sse_lastSeen (sharedPoll ids ix s)"
    by (cases rule: alternatives) (simp_all add: sharedPoll_events_lastSeen)
  assume "(i, Data e) \<in> set (sse_frames (sharedPoll ids ix s))" "(i, Data e) \<notin> set (sse_frames s)"
  then show "sse_lastSeen s < iv_ledger e"
    by (cases rule: alternatives) (auto dest!: sharedPoll_events_frames honest_polled [OF assms(1)])
qed

text \<open>Once the stream has a high-water mark, no later sequence of polls that do not overlap writes to any client an event at or below the mark: delivered events are not repeated, and events of a passed ledger that a page of 200 left out, or that another contract's newer event overtook, are lost for good.\<close>

theorem passed_ledgers_never_delivered:
  assumes "\<forall>ix \<in> set ixs. honest_indexer ix" "0 < sse_lastSeen s" "iv_ledger e \<le> sse_lastSeen s"
    and "(i, Data e) \<notin> set (sse_frames s)"
  shows "(i, Data e) \<notin> set (sse_frames (fold (sharedPoll ids) ixs s))"
  using assms
proof (induction ixs arbitrary: s)
  case (Cons ix ixs)
  have ix: "honest_indexer ix" using Cons.prems(1) by simp
  note above = sharedPoll_above [OF ix Cons.prems(2), where ids = ids]
  have "(i, Data e) \<notin> set (sse_frames (sharedPoll ids ix s))"
    using above(2) [of i e] Cons.prems(3,4) by linarith
  moreover have "0 < sse_lastSeen (sharedPoll ids ix s)" "iv_ledger e \<le> sse_lastSeen (sharedPoll ids ix s)"
    using above(1) Cons.prems(2,3) by linarith+
  ultimately show ?case using Cons by simp
qed simp

theorem passed_ledgers_never_delivered_witness:
  "(0, Data (example_event\<lparr>iv_ledger := 9\<rparr>)) \<notin>
     set (sse_frames (fold (sharedPoll [''POOL'']) [example_indexer, example_indexer] example_sse))"
  by (rule passed_ledgers_never_delivered) (simp_all add: honest_example_indexer example_sse_def)

section \<open>Reachable servers\<close>

definition sse_inv :: "sse_state \<Rightarrow> bool" where
  "sse_inv s \<longleftrightarrow> (sse_timer s \<longleftrightarrow> sse_clients s \<noteq> []) \<and> distinct (map cl_id (sse_clients s))"

lemma enqueue_frame_fields [simp]:
  "sse_timer (enqueue_frame f c s) = sse_timer s" "sse_clients (enqueue_frame f c s) = sse_clients s"
  "sse_lastSeen (enqueue_frame f c s) = sse_lastSeen s" "sse_dead (enqueue_frame f c s) = sse_dead s"
  by (simp_all add: enqueue_frame_def)

lemma sharedPoll_events_fields [simp]:
  "sse_timer (sharedPoll_events a s) = sse_timer s" "sse_clients (sharedPoll_events a s) = sse_clients s"
  by (cases rule: sharedPoll_events_cases [of a s]; simp add: poll_error_eq)+

lemma sharedPoll_latest_fields:
  "sharedPoll_latest a s = (p, s') \<Longrightarrow> sse_timer s' = sse_timer s \<and> sse_clients s' = sse_clients s"
  by (auto simp: sharedPoll_latest_def poll_error_eq Let_def split: sum.splits)

lemma stream_registers:
  assumes "events_GET ids now (Some t) invoice fresh store s = (StreamAnswer, p, store', s')"
  shows "sse_timer s'" "sse_clients s' = oset_add \<lparr>cl_id = fresh, cl_invoiceId = invoice\<rparr> (sse_clients s)"
  using assms
  by (auto simp: events_GET_def registerClient_def startSharedPoller_def Let_def split: if_splits option.splits prod.splits)

lemma sse_inv_unregister: "sse_inv s \<Longrightarrow> sse_inv (unregisterClient c s)"
  by (auto simp: sse_inv_def unregisterClient_def stopSharedPollerIfEmpty_def distinct_map_filter filter_empty_conv)

lemma sse_inv_step:
  assumes "sse_step ids v v'" "sse_inv (snd v)"
  shows "sse_inv (snd v')"
  using assms
proof (induction rule: sse_step.induct)
  case (Accept now t invoice fresh store s p store' s' ps)
  then show ?case
    using stream_registers [OF Accept.hyps(1)] by (auto simp: sse_inv_def oset_add_def)
next
  case (Latest ans s p s' ps1 ps2)
  then show ?case using sharedPoll_latest_fields [OF Latest.hyps] by (simp add: sse_inv_def)
next
  case (Abort c s ps)
  have "sse_inv (x\<lparr>sse_dead := d\<rparr>) = sse_inv x" for x d by (simp add: sse_inv_def)
  with Abort show ?case by (simp add: abort_def sse_inv_unregister)
qed (auto simp: sse_inv_def heartbeat_def)

text \<open>Whatever the interleaving of connections, timer ticks, indexer answers, heartbeats and disconnects, the poll timer runs exactly while a client is connected, and no two connected clients share an identity.\<close>

theorem poller_runs_iff_clients:
  assumes "sse_reachable ids v"
  shows "(sse_timer (snd v) \<longleftrightarrow> sse_clients (snd v) \<noteq> []) \<and> distinct (map cl_id (sse_clients (snd v)))"
proof -
  have "sse_inv (snd v)"
    using assms
  proof (induction rule: sse_reachable.induct)
    case Start
    then show ?case by (simp add: sse_inv_def sse_init_def)
  next
    case (Step v v')
    then show ?case using sse_inv_step by blast
  qed
  then show ?thesis by (simp add: sse_inv_def)
qed

definition example_store :: ticket_store where
  "example_store = [(''T'', \<lparr>td_account = JStr ''GA'', td_expiresAt = 1000\<rparr>)]"

definition connected_sse :: sse_state where
  "connected_sse = \<lparr>sse_timer = True, sse_clients = [example_client], sse_lastSeen = 0, sse_dead = [], sse_frames = [(0, Connected)]\<rparr>"

lemma example_connects: "sse_reachable [''POOL''] ([AwaitLatest], connected_sse)"
proof -
  have "events_GET [''POOL''] 0 (Some ''T'') (Some ''7'') 0 example_store sse_init = (StreamAnswer, Some AwaitLatest, [], connected_sse)"
    by (simp add: events_GET_def consumeTicket_def example_store_def registerClient_def startSharedPoller_def
        sharedPoll_begin_def sse_init_def connected_sse_def example_client_def enqueue_frame_def oset_add_def omap_del_def)
  from sse_step.Accept [OF this, of "[]"] show ?thesis
    by (intro sse_reachable.Step [OF sse_reachable.Start]) (simp add: sse_init_def launch_poll_def)
qed

theorem poller_runs_iff_clients_witness:
  "sse_reachable [''POOL''] ([AwaitLatest], connected_sse) \<and> sse_timer connected_sse \<and> sse_clients connected_sse \<noteq> []"
  using poller_runs_iff_clients [OF example_connects] example_connects by (simp add: connected_sse_def)

text \<open>The interval timer does not wait for a running poll: two overlapping polls read the same high-water mark and write the same event to the same client twice.\<close>

theorem overlapping_polls_duplicate:
  "\<exists>s. sse_reachable [''POOL''] ([], s) \<and> received 0 s = [Connected, Data example_event, Data example_event]"
proof -
  let ?a = "connected_sse\<lparr>sse_lastSeen := 10\<rparr>"
  let ?b = "sharedPoll_events [Inr (200, [example_event])] ?a"
  let ?c = "sharedPoll_events [Inr (200, [example_event])] ?b"
  have "sse_reachable [''POOL''] ([AwaitEvents 10], ?a)"
    using sse_reachable.Step [OF example_connects sse_step.Latest [of "Inr (200, Some 20)" connected_sse "Some (AwaitEvents 10)" ?a "[''POOL'']" "[]" "[]", simplified]]
    by (simp add: sharedPoll_latest_def fetchIndexerLatestLedger_def res_ok_def INITIAL_LOOKBACK_LEDGERS_def launch_poll_def)
  from sse_reachable.Step [OF this sse_step.Tick] have "sse_reachable [''POOL''] ([AwaitEvents 10, AwaitEvents 10], ?a)"
    by (simp add: connected_sse_def sharedPoll_begin_def launch_poll_def)
  from sse_reachable.Step [OF this sse_step.Events [of "[Inr (200, [example_event])]" "[''POOL'']" "[]" 10 "[AwaitEvents 10]" ?a, simplified]]
  have "sse_reachable [''POOL''] ([AwaitEvents 10], ?b)" by simp
  from sse_reachable.Step [OF this sse_step.Events [of "[Inr (200, [example_event])]" "[''POOL'']" "[]" 10 "[]" ?b, simplified]]
  have "sse_reachable [''POOL''] ([], ?c)" by simp
  moreover have "wants example_client example_event"
    by (simp add: sse_eval show_jnum_def show_int_def) (simp add: show_nat.simps digit_char_def char_eq_code)
  then have "received 0 ?c = [Connected, Data example_event, Data example_event]"
    by (simp add: sharedPoll_events_def fetchIndexerEvents_def res_ok_def deliver_event_eq recipients_def
        connected_sse_def received_def example_client_def)
  ultimately show ?thesis by blast
qed

text \<open>C20: The stream route opens a stream only for a ticket that was issued to some account less than 300 seconds ago and not used since, whatever happened to the ticket store before; presenting the ticket spends it, even when the answer is an error.\<close>

theorem stream_spends_live_ticket:
  assumes "\<forall>op \<in> set ops. op_time op \<le> now"
    and "events_GET ids now (Some t) invoice fresh (fold ticket_step ops []) s = (answer, p, store', s')" "t \<noteq> []"
  shows "omap_get store' t = None \<and>
    (answer = StreamAnswer \<longrightarrow> (\<exists>ops1 bytes issued account ops2. ops = ops1 @ Create bytes issued account # ops2
      \<and> generateTicket bytes = t \<and> now < issued + 300000 \<and> js_truthy account
      \<and> (\<forall>op \<in> set ops2. case op of
            Create bytes' _ _ \<Rightarrow> generateTicket bytes' \<noteq> t
          | Consume _ t' \<Rightarrow> t' \<noteq> t
          | _ \<Rightarrow> True)))"
proof (intro conjI impI)
  have "store' = snd (consumeTicket now t (fold ticket_step ops []))"
    using assms(2,3) by (auto simp: events_GET_def Let_def split: if_splits option.splits prod.splits)
  then show "omap_get store' t = None"
    by (auto simp: consumeTicket_def split: option.splits)
  assume "answer = StreamAnswer"
  then obtain account where "fst (consumeTicket now t (fold ticket_step ops [])) = Some account" "js_truthy account"
    using assms(2,3) by (auto simp: events_GET_def Let_def split: if_splits option.splits prod.splits)
  then show "\<exists>ops1 bytes issued account ops2. ops = ops1 @ Create bytes issued account # ops2
      \<and> generateTicket bytes = t \<and> now < issued + 300000 \<and> js_truthy account
      \<and> (\<forall>op \<in> set ops2. case op of
            Create bytes' _ _ \<Rightarrow> generateTicket bytes' \<noteq> t
          | Consume _ t' \<Rightarrow> t' \<noteq> t
          | _ \<Rightarrow> True)"
    using ticket_accepted_iff [OF assms(1), of t account] by blast
qed

theorem stream_spends_live_ticket_witness:
  "fst (events_GET [''POOL''] 5000 (Some (generateTicket [1, 255])) None 0
       (fold ticket_step [Create [1, 255] 1000 (JStr ''GA'')] []) sse_init) = StreamAnswer
   \<and> fst (events_GET [''POOL''] 6000 (Some (generateTicket [1, 255])) None 1
       (fold ticket_step [Create [1, 255] 1000 (JStr ''GA''), Consume 5000 (generateTicket [1, 255])] []) sse_init) \<noteq> StreamAnswer"
proof
  let ?t = "generateTicket [1, 255]"
  have t: "?t \<noteq> []" using length_generateTicket [of "[1, 255]"] by auto
  show "fst (events_GET [''POOL''] 5000 (Some ?t) None 0 (fold ticket_step [Create [1, 255] 1000 (JStr ''GA'')] []) sse_init) = StreamAnswer"
    using t by (simp add: events_GET_def consumeTicket_def createTicket_def TICKET_TTL_SECONDS_def Let_def split: prod.splits)
  let ?ops = "[Create [1, 255] 1000 (JStr ''GA''), Consume 5000 ?t]"
  obtain answer p store' s' where r: "events_GET [''POOL''] 6000 (Some ?t) None 1 (fold ticket_step ?ops []) sse_init = (answer, p, store', s')"
    by (metis surj_pair)
  show "fst (events_GET [''POOL''] 6000 (Some ?t) None 1 (fold ticket_step ?ops []) sse_init) \<noteq> StreamAnswer"
    unfolding r fst_conv using stream_spends_live_ticket [OF _ r t] by (auto simp: Cons_eq_append_conv)
qed

end
