(* ===== verification/Alerts.thy ===== *)
theory Alerts
  imports Json
begin

text \<open>
  Alerts of the frontend: the rule table (\<open>frontend/lib/alert-rules.ts\<close>), the saved notification
  preferences (\<open>notification-preferences.ts\<close>), the dispatcher (\<open>notifications.ts\<close>), the
  serializer it uses (\<open>safeSerialize\<close> of \<open>stellar.ts\<close>) and the preferences route
  (\<open>app/api/notifications/preferences/route.ts\<close>).

  \<open>localStorage\<close> is the text under the preferences key, \<open>None\<close> when there is none; \<open>browser\<close>
  tells whether the code runs in one.  What a dispatch does is the list of its deliveries.  The
  formatting of dates and numbers in the user's locale is an argument.
\<close>

section \<open>Rules\<close>

datatype AlertPriority = LOW | MEDIUM | HIGH | CRITICAL

datatype AlertType =
    LARGE_TRANSACTION | UNUSUAL_ACTIVITY | CONTRACT_DEFAULT | SYSTEM_ERROR | INVOICE_FUNDED | INVOICE_PAID
  | PAYMENT_DUE_7_DAYS | PAYMENT_DUE_1_DAY | PAYMENT_OVERDUE | INVOICE_COMPLETED | INVOICE_DEFAULTED
  | COLLATERAL_SEIZED | DISPUTE_RAISED | DISPUTE_RESOLVED | YIELD_RATE_CHANGED | COLLATERAL_REQUIRED
  | LOW_LIQUIDITY | HIGH_DEFAULT_RATE | CONTRACT_PAUSED | RPC_SLOW

fun alert_name :: "AlertType \<Rightarrow> string" where
  "alert_name LARGE_TRANSACTION = ''LARGE_TRANSACTION''"
| "alert_name UNUSUAL_ACTIVITY = ''UNUSUAL_ACTIVITY''"
| "alert_name CONTRACT_DEFAULT = ''CONTRACT_DEFAULT''"
| "alert_name SYSTEM_ERROR = ''SYSTEM_ERROR''"
| "alert_name INVOICE_FUNDED = ''INVOICE_FUNDED''"
| "alert_name INVOICE_PAID = ''INVOICE_PAID''"
| "alert_name PAYMENT_DUE_7_DAYS = ''PAYMENT_DUE_7_DAYS''"
| "alert_name PAYMENT_DUE_1_DAY = ''PAYMENT_DUE_1_DAY''"
| "alert_name PAYMENT_OVERDUE = ''PAYMENT_OVERDUE''"
| "alert_name INVOICE_COMPLETED = ''INVOICE_COMPLETED''"
| "alert_name INVOICE_DEFAULTED = ''INVOICE_DEFAULTED''"
| "alert_name COLLATERAL_SEIZED = ''COLLATERAL_SEIZED''"
| "alert_name DISPUTE_RAISED = ''DISPUTE_RAISED''"
| "alert_name DISPUTE_RESOLVED = ''DISPUTE_RESOLVED''"
| "alert_name YIELD_RATE_CHANGED = ''YIELD_RATE_CHANGED''"
| "alert_name COLLATERAL_REQUIRED = ''COLLATERAL_REQUIRED''"
| "alert_name LOW_LIQUIDITY = ''LOW_LIQUIDITY''"
| "alert_name HIGH_DEFAULT_RATE = ''HIGH_DEFAULT_RATE''"
| "alert_name CONTRACT_PAUSED = ''CONTRACT_PAUSED''"
| "alert_name RPC_SLOW = ''RPC_SLOW''"

fun priority_name :: "AlertPriority \<Rightarrow> string" where
  "priority_name LOW = ''LOW''"
| "priority_name MEDIUM = ''MEDIUM''"
| "priority_name HIGH = ''HIGH''"
| "priority_name CRITICAL = ''CRITICAL''"

definition LARGE_TX_THRESHOLD :: rat where "LARGE_TX_THRESHOLD = 5000"

definition ACTIVITY_THRESHOLD_COUNT :: nat where "ACTIVITY_THRESHOLD_COUNT = 3"

definition ACTIVITY_WINDOW_SECONDS :: int where "ACTIVITY_WINDOW_SECONDS = 600"

definition LOW_LIQUIDITY_THRESHOLD_RATIO :: rat where "LOW_LIQUIDITY_THRESHOLD_RATIO = 1 / 10"

definition DEFAULT_RATE_THRESHOLD_RATIO :: rat where "DEFAULT_RATE_THRESHOLD_RATIO = 1 / 20"

definition DEFAULT_RATE_WINDOW_SECONDS :: int where "DEFAULT_RATE_WINDOW_SECONDS = 7 * 24 * 60 * 60"

record AlertRule =
  ru_id :: string
  ru_name :: string
  ru_type :: AlertType
  ru_priority :: AlertPriority
  ru_description :: string

definition rule :: "string \<Rightarrow> string \<Rightarrow> AlertType \<Rightarrow> AlertPriority \<Rightarrow> string \<Rightarrow> AlertRule" where
  "rule i n t p d = \<lparr>ru_id = i, ru_name = n, ru_type = t, ru_priority = p, ru_description = d\<rparr>"

definition ALERT_RULES :: "AlertRule list" where
  "ALERT_RULES =
     [rule ''rule-large-tx'' ''Large Transaction Alert'' LARGE_TRANSACTION HIGH
        ''Triggered when a transaction exceeds 5000 units.'',
      rule ''rule-unusual-activity'' ''Unusual Activity Detection'' UNUSUAL_ACTIVITY MEDIUM
        ''Triggered when multiple events occur from the same address in a short window.'',
      rule ''rule-contract-default'' ''Invoice Default Alert'' CONTRACT_DEFAULT CRITICAL
        ''Triggered when an invoice is marked as defaulted.'',
      rule ''rule-invoice-funded'' ''Invoice Funded'' INVOICE_FUNDED MEDIUM
        ''Triggered when an invoice transitions to the Funded status.'',
      rule ''rule-invoice-paid'' ''Invoice Paid'' INVOICE_PAID MEDIUM
        ''Triggered when an invoice is fully repaid.'',
      rule ''rule-invoice-defaulted'' ''Invoice Defaulted'' INVOICE_DEFAULTED CRITICAL
        ''Triggered when an invoice is marked as defaulted via the SME/investor flow.'',
      rule ''rule-low-liquidity'' ''Low Pool Liquidity'' LOW_LIQUIDITY HIGH
        ''Triggered when available pool liquidity drops below 10% of total deposits.'',
      rule ''rule-high-default-rate'' ''High Invoice Default Rate'' HIGH_DEFAULT_RATE CRITICAL
        ''Triggered when more than 5% of invoices in a 7-day rolling window are defaulted.'',
      rule ''rule-contract-paused'' ''Contract Paused'' CONTRACT_PAUSED CRITICAL
        ''Triggered when any core contract is paused unexpectedly.'',
      rule ''rule-rpc-slow'' ''Stellar RPC Slow'' RPC_SLOW HIGH
        ''Triggered when the Stellar RPC endpoint response time exceeds 5 seconds.'']"

section \<open>Serialization\<close>

text \<open>\<open>safeSerialize\<close>: BigInts become strings, everywhere.\<close>

fun safeSerialize :: "js \<Rightarrow> js" where
  "safeSerialize (JBigInt n) = JStr (show_int n)"
| "safeSerialize (JArr xs) = JArr (map safeSerialize xs)"
| "safeSerialize (JObj kvs) = JObj (map (\<lambda>kv. (fst kv, safeSerialize (snd kv))) kvs)"
| "safeSerialize v = v"

definition safeStringify :: "js \<Rightarrow> string result" where
  "safeStringify v = json_stringify (safeSerialize v)"

lemma safeSerialize_ok: "json_ok (safeSerialize v)"
  by (induction v) (auto simp: list_all_iff)

section \<open>Preferences\<close>

record channel_prefs =
  ch_enabled :: bool
  ch_address :: string
  ch_events :: "js list"

record NotificationPreferences =
  np_inApp :: js
  np_email :: channel_prefs
  np_webhook :: channel_prefs

record notification_event =
  ne_type :: AlertType
  ne_label :: string
  ne_audience :: string
  ne_description :: string

definition notification :: "AlertType \<Rightarrow> string \<Rightarrow> string \<Rightarrow> string \<Rightarrow> notification_event" where
  "notification t l a d = \<lparr>ne_type = t, ne_label = l, ne_audience = a, ne_description = d\<rparr>"

definition NOTIFICATION_EVENTS :: "notification_event list" where
  "NOTIFICATION_EVENTS =
     [notification INVOICE_FUNDED ''Invoice funded'' ''SME'' ''An invoice you submitted has been funded.'',
      notification PAYMENT_DUE_7_DAYS ''Payment due in 7 days'' ''SME'' ''An invoice payment is due in one week.'',
      notification PAYMENT_DUE_1_DAY ''Payment due tomorrow'' ''SME'' ''An invoice payment is due in one day.'',
      notification PAYMENT_OVERDUE ''Payment overdue'' ''Both'' ''An invoice payment is overdue.'',
      notification INVOICE_COMPLETED ''Invoice completed'' ''Both'' ''An invoice has been fully repaid.'',
      notification INVOICE_DEFAULTED ''Invoice defaulted'' ''Both'' ''An invoice has been marked as defaulted.'',
      notification COLLATERAL_SEIZED ''Collateral seized'' ''SME'' ''Collateral was seized after an invoice default.'']"

definition DEFAULT_NOTIFICATION_PREFERENCES :: NotificationPreferences where
  "DEFAULT_NOTIFICATION_PREFERENCES =
     \<lparr>np_inApp = JObj (map (\<lambda>e. (alert_name (ne_type e), JBool True)) NOTIFICATION_EVENTS),
      np_email = \<lparr>ch_enabled = False, ch_address = [], ch_events = []\<rparr>,
      np_webhook = \<lparr>ch_enabled = False, ch_address = [], ch_events = []\<rparr>\<rparr>"

definition safeParse :: "string \<Rightarrow> js" where
  "safeParse s = (case json_parse s of Some v \<Rightarrow> v | None \<Rightarrow> JNull)"

definition string_or_empty :: "js \<Rightarrow> string" where
  "string_or_empty v = (case v of JStr s \<Rightarrow> s | _ \<Rightarrow> [])"

text \<open>The reading of one channel, under the name of its address field.\<close>

definition read_channel :: "string \<Rightarrow> js \<Rightarrow> channel_prefs" where
  "read_channel addr c = \<lparr>ch_enabled = js_truthy (js_prop c ''enabled''),
     ch_address = string_or_empty (js_prop c addr), ch_events = array_elems (js_prop c ''events'')\<rparr>"

definition loadNotificationPreferences :: "bool \<Rightarrow> string option \<Rightarrow> NotificationPreferences" where
  "loadNotificationPreferences browser storage =
     (case (if browser then storage else None) of
        None \<Rightarrow> DEFAULT_NOTIFICATION_PREFERENCES
      | Some raw \<Rightarrow>
          (let p = safeParse raw in
           if raw = [] \<or> \<not> js_truthy p \<or> \<not> typeof_object p then DEFAULT_NOTIFICATION_PREFERENCES
           else (let inApp = js_prop p ''inApp'' in
             \<lparr>np_inApp = (if js_truthy inApp \<and> typeof_object inApp then inApp
                          else np_inApp DEFAULT_NOTIFICATION_PREFERENCES),
              np_email = read_channel ''email'' (js_prop p ''email''),
              np_webhook = read_channel ''url'' (js_prop p ''webhook'')\<rparr>)))"

definition channel_json :: "string \<Rightarrow> channel_prefs \<Rightarrow> js" where
  "channel_json addr c = JObj [(''enabled'', JBool (ch_enabled c)), (addr, JStr (ch_address c)), (''events'', JArr (ch_events c))]"

definition preferences_json :: "NotificationPreferences \<Rightarrow> js" where
  "preferences_json p = JObj [(''inApp'', np_inApp p), (''email'', channel_json ''email'' (np_email p)),
     (''webhook'', channel_json ''url'' (np_webhook p))]"

definition saveNotificationPreferences :: "bool \<Rightarrow> NotificationPreferences \<Rightarrow> string option \<Rightarrow> string option result" where
  "saveNotificationPreferences browser prefs storage =
     (if \<not> browser then Inr storage
      else (case json_stringify (preferences_json prefs) of Inl e \<Rightarrow> Inl e | Inr s \<Rightarrow> Inr (Some s)))"

definition isInAppEnabled :: "bool \<Rightarrow> string option \<Rightarrow> AlertType \<Rightarrow> js" where
  "isInAppEnabled browser storage t =
     (if \<not> browser then JBool True
      else js_coalesce (js_prop (np_inApp (loadNotificationPreferences browser storage)) (alert_name t)) (JBool True))"

text \<open>\<open>/^[^\\s@]+@[^\\s@]+\\.[^\\s@]+$/\<close> on the trimmed text: one at-sign with text before it, and
  a domain with a dot that is neither its first nor its last character.\<close>

definition email_char :: "char \<Rightarrow> bool" where
  "email_char c = (\<not> is_space c \<and> c \<noteq> CHR ''@'')"

definition isValidEmail :: "string \<Rightarrow> bool" where
  "isValidEmail email =
     (let s = trim email; user = takeWhile email_char s; rest = dropWhile email_char s; domain = tl rest
      in s \<noteq> [] \<and> user \<noteq> [] \<and> rest \<noteq> [] \<and> hd rest = CHR ''@'' \<and> list_all email_char domain
         \<and> 3 \<le> length domain \<and> CHR ''.'' \<in> set (butlast (tl domain)))"

text \<open>The URL parser of the platform is an argument: it answers the protocol, or throws.\<close>

definition isValidWebhookUrl :: "(string \<Rightarrow> string option) \<Rightarrow> string \<Rightarrow> bool" where
  "isValidWebhookUrl url_protocol url = (case url_protocol url of
      Some p \<Rightarrow> p = ''https:'' \<or> p = ''http:''
    | None \<Rightarrow> False)"

section \<open>The preferences route\<close>

definition preferences_POST :: "js result \<Rightarrow> nat \<times> js" where
  "preferences_POST body = (case body of
      Inl _ \<Rightarrow> (400, JObj [(''ok'', JBool False), (''error'', JStr ''Invalid JSON body.'')])
    | Inr b \<Rightarrow>
        (let email = read_channel ''email'' (js_prop b ''email''); webhook = read_channel ''url'' (js_prop b ''webhook'')
         in if ch_enabled email \<and> ch_address email = []
            then (400, JObj [(''ok'', JBool False), (''error'', JStr ''Email is required when email notifications are enabled.'')])
            else if ch_enabled webhook \<and> ch_address webhook = []
            then (400, JObj [(''ok'', JBool False), (''error'', JStr ''Webhook URL is required when webhook forwarding is enabled.'')])
            else (200, JObj [(''ok'', JBool True),
                   (''received'', JObj [(''email'', channel_json ''email'' email), (''webhook'', channel_json ''url'' webhook)]),
                   (''note'', JStr ''Mock endpoint: preferences are not persisted server-side yet.'')])))"

section \<open>Dispatch\<close>

record NotificationAlert =
  na_id :: string
  na_type :: AlertType
  na_priority :: AlertPriority
  na_message :: string
  na_timestamp :: millis
  na_data :: js

datatype delivery = ConsoleLog NotificationAlert | ToSubscriber nat NotificationAlert | ToWebhook string js

text \<open>The body of the external webhook; \<open>isoDate\<close> formats a timestamp.\<close>

definition webhook_payload :: "(millis \<Rightarrow> string) \<Rightarrow> NotificationAlert \<Rightarrow> js result" where
  "webhook_payload isoDate a = (case safeStringify (js_or (na_data a) (JObj [])) of
      Inl e \<Rightarrow> Inl e
    | Inr context \<Rightarrow> Inr (JObj
        [(''text'', JStr (''*'' @ priority_name (na_priority a) @ '' ALERT: '' @ alert_name (na_type a) @ ''*'')),
         (''attachments'', JArr [JObj
            [(''color'', JStr (if na_priority a = CRITICAL then ''#ff0000'' else ''#ffa500'')),
             (''fields'', JArr
                [JObj [(''title'', JStr ''Message''), (''value'', JStr (na_message a)), (''short'', JBool False)],
                 JObj [(''title'', JStr ''Time''), (''value'', JStr (isoDate (na_timestamp a))), (''short'', JBool True)],
                 JObj [(''title'', JStr ''Context''), (''value'', JStr context), (''short'', JBool False)]])]])]))"

text \<open>A webhook that cannot be built or sent is logged and forgotten.\<close>

definition dispatchExternal :: "(millis \<Rightarrow> string) \<Rightarrow> string option \<Rightarrow> NotificationAlert \<Rightarrow> delivery list" where
  "dispatchExternal isoDate webhookUrl a = (case webhookUrl of
      Some (c # cs) \<Rightarrow> (case webhook_payload isoDate a of Inr p \<Rightarrow> [ToWebhook (c # cs) p] | Inl _ \<Rightarrow> [])
    | _ \<Rightarrow> [])"

record notifier =
  nt_browser :: bool
  nt_storage :: "string option"
  nt_webhookUrl :: "string option"
  nt_iso :: "millis \<Rightarrow> string"
  nt_subscribers :: "nat list"

definition send_alert :: "notifier \<Rightarrow> NotificationAlert \<Rightarrow> delivery list" where
  "send_alert n a =
     [ConsoleLog a]
     @ (if js_truthy (isInAppEnabled (nt_browser n) (nt_storage n) (na_type a))
        then map (\<lambda>s. ToSubscriber s a) (nt_subscribers n) else [])
     @ (if na_priority a = HIGH \<or> na_priority a = CRITICAL then dispatchExternal (nt_iso n) (nt_webhookUrl n) a else [])"

definition subscribe :: "nat \<Rightarrow> notifier \<Rightarrow> notifier" where
  "subscribe callback n = n\<lparr>nt_subscribers := nt_subscribers n @ [callback]\<rparr>"

definition unsubscribe :: "nat \<Rightarrow> notifier \<Rightarrow> notifier" where
  "unsubscribe callback n = n\<lparr>nt_subscribers := filter (\<lambda>s. s \<noteq> callback) (nt_subscribers n)\<rparr>"

text \<open>\<open>Number(amount) / 10_000_000\<close> printed by a template.\<close>

definition units_of :: "int \<Rightarrow> jnum" where
  "units_of amount = strip_zeros amount 7"

definition notifyInvoiceFunded :: "notifier \<Rightarrow> millis \<Rightarrow> int \<Rightarrow> int \<Rightarrow> delivery list" where
  "notifyInvoiceFunded n now invoiceId amount = send_alert n
     \<lparr>na_id = ''invoice-funded-'' @ show_int invoiceId @ ''-'' @ show_int now, na_type = INVOICE_FUNDED, na_priority = MEDIUM,
      na_message = ''Invoice #'' @ show_int invoiceId @ '' has been funded for '' @ show_jnum (units_of amount) @ '' USDC.'',
      na_timestamp = now, na_data = JObj [(''invoiceId'', JNum (NInt invoiceId)), (''amount'', JStr (show_int amount))]\<rparr>"

definition notifyInvoicePaid :: "notifier \<Rightarrow> millis \<Rightarrow> int \<Rightarrow> int \<Rightarrow> delivery list" where
  "notifyInvoicePaid n now invoiceId amount = send_alert n
     \<lparr>na_id = ''invoice-paid-'' @ show_int invoiceId @ ''-'' @ show_int now, na_type = INVOICE_PAID, na_priority = MEDIUM,
      na_message = ''Invoice #'' @ show_int invoiceId @ '' has been fully repaid. Amount: '' @ show_jnum (units_of amount) @ '' USDC.'',
      na_timestamp = now, na_data = JObj [(''invoiceId'', JNum (NInt invoiceId)), (''amount'', JStr (show_int amount))]\<rparr>"

definition notifyInvoiceDefaulted :: "notifier \<Rightarrow> millis \<Rightarrow> int \<Rightarrow> delivery list" where
  "notifyInvoiceDefaulted n now invoiceId = send_alert n
     \<lparr>na_id = ''invoice-defaulted-'' @ show_int invoiceId @ ''-'' @ show_int now, na_type = INVOICE_DEFAULTED, na_priority = CRITICAL,
      na_message = ''Invoice #'' @ show_int invoiceId @ '' has been marked as DEFAULTED. Investors should review their positions.'',
      na_timestamp = now, na_data = JObj [(''invoiceId'', JNum (NInt invoiceId))]\<rparr>"

section \<open>What the dispatcher delivers\<close>

lemma safeStringify_total: "\<exists>s. safeStringify v = Inr s"
  by (simp add: safeStringify_def json_stringify_def safeSerialize_ok)

lemma webhook_payload_total: "\<exists>p. webhook_payload isoDate a = Inr p"
  using safeStringify_total [of "js_or (na_data a) (JObj [])"] by (auto simp: webhook_payload_def)

lemma json_plain_preferences:
  "json_plain (np_inApp p) \<Longrightarrow> list_all json_plain (ch_events (np_email p)) \<Longrightarrow> list_all json_plain (ch_events (np_webhook p))
   \<Longrightarrow> json_plain (preferences_json p)"
  by (simp add: preferences_json_def channel_json_def)

lemma read_channel_json: "addr \<noteq> ''enabled'' \<Longrightarrow> addr \<noteq> ''events'' \<Longrightarrow> read_channel addr (channel_json addr c) = c"
  by (simp add: read_channel_def channel_json_def string_or_empty_def)

lemma load_of_json:
  assumes "json_parse raw = Some (preferences_json p)" and "raw \<noteq> []" and "np_inApp p = JObj kvs"
  shows "loadNotificationPreferences True (Some raw) = p"
  using assms read_channel_json [of "''email''" "np_email p"] read_channel_json [of "''url''" "np_webhook p"]
  by (simp add: loadNotificationPreferences_def safeParse_def preferences_json_def)

lemma save_load:
  assumes "np_inApp p = JObj kvs" and "json_plain (JObj kvs)"
    and "list_all json_plain (ch_events (np_email p))" and "list_all json_plain (ch_events (np_webhook p))"
  shows "\<exists>raw. saveNotificationPreferences True p storage = Inr (Some raw) \<and> loadNotificationPreferences True (Some raw) = p"
proof -
  have plain: "json_plain (preferences_json p)" using assms by (intro json_plain_preferences) simp_all
  then obtain raw where raw: "json_stringify (preferences_json p) = Inr raw" "json_parse raw = Some (preferences_json p)"
    using json_roundtrip by blast
  moreover have "raw \<noteq> []" using raw(1) json_print_first [OF plain] by (auto simp: json_stringify_def split: if_splits)
  ultimately show ?thesis using load_of_json [OF raw(2) _ assms(1)] by (simp add: saveNotificationPreferences_def)
qed

lemma subscriber_gets_iff:
  "ToSubscriber s a \<in> set (send_alert n a) \<longleftrightarrow>
     s \<in> set (nt_subscribers n) \<and> js_truthy (isInAppEnabled (nt_browser n) (nt_storage n) (na_type a))"
  by (auto simp: send_alert_def dispatchExternal_def split: option.splits list.splits sum.splits)

lemma email_char_simps [simp]: "\<not> email_char CHR ''@''" "email_char CHR ''.''"
  by (simp_all add: email_char_def is_space_def)

lemma inner_dot:
  "CHR ''.'' \<in> set (butlast (tl d)) \<longleftrightarrow> (\<exists>d1 d2. d = d1 @ CHR ''.'' # d2 \<and> d1 \<noteq> [] \<and> d2 \<noteq> [])"
proof
  assume "CHR ''.'' \<in> set (butlast (tl d))"
  then obtain a b where ab: "butlast (tl d) = a @ CHR ''.'' # b" by (auto dest: split_list)
  then have "tl d \<noteq> []" "d \<noteq> []" by auto
  then have "d = (hd d # a) @ CHR ''.'' # (b @ [last (tl d)])"
    using append_butlast_last_id [of "tl d"] ab by (metis append.assoc append_Cons list.collapse)
  then show "\<exists>d1 d2. d = d1 @ CHR ''.'' # d2 \<and> d1 \<noteq> [] \<and> d2 \<noteq> []" by blast
next
  assume "\<exists>d1 d2. d = d1 @ CHR ''.'' # d2 \<and> d1 \<noteq> [] \<and> d2 \<noteq> []"
  then obtain d1 d2 where "d = d1 @ CHR ''.'' # d2" "d1 \<noteq> []" "d2 \<noteq> []" by blast
  then show "CHR ''.'' \<in> set (butlast (tl d))" by (cases d1) (auto simp: butlast_append)
qed

lemma span_at_sign:
  assumes "list_all P u" and "\<not> P c"
  shows "takeWhile P (u @ c # d) = u" and "dropWhile P (u @ c # d) = c # d"
  using assms by (auto simp: list_all_iff takeWhile_append dropWhile_append)

text \<open>The address check accepts exactly the words of its regular expression.\<close>

lemma isValidEmail_words:
  "isValidEmail email \<longleftrightarrow>
     (\<exists>u d1 d2. trim email = u @ CHR ''@'' # d1 @ CHR ''.'' # d2 \<and> u \<noteq> [] \<and> d1 \<noteq> [] \<and> d2 \<noteq> []
        \<and> list_all email_char (u @ d1 @ d2))" (is "?L \<longleftrightarrow> ?R")
proof
  assume L: ?L
  let ?s = "trim email"
  let ?d = "tl (dropWhile email_char ?s)"
  obtain d1 d2 where d: "?d = d1 @ CHR ''.'' # d2" "d1 \<noteq> []" "d2 \<noteq> []"
    using L inner_dot [of ?d] by (auto simp: isValidEmail_def Let_def)
  have "dropWhile email_char ?s = CHR ''@'' # ?d"
    using L by (cases "dropWhile email_char ?s") (auto simp: isValidEmail_def Let_def)
  then have "?s = takeWhile email_char ?s @ CHR ''@'' # d1 @ CHR ''.'' # d2"
    using takeWhile_dropWhile_id [of email_char ?s] d(1) by metis
  moreover have "list_all email_char (takeWhile email_char ?s @ d1 @ d2)" "takeWhile email_char ?s \<noteq> []"
    using L d(1) by (auto simp: isValidEmail_def Let_def list_all_iff dest: set_takeWhileD)
  ultimately show ?R using d(2,3) by blast
next
  assume ?R
  then obtain u d1 d2 where s: "trim email = u @ CHR ''@'' # d1 @ CHR ''.'' # d2" "u \<noteq> []" "d1 \<noteq> []" "d2 \<noteq> []"
    and ok: "list_all email_char (u @ d1 @ d2)" by blast
  have "CHR ''.'' \<in> set (butlast (tl (d1 @ CHR ''.'' # d2)))"
    using s(3,4) inner_dot [of "d1 @ CHR ''.'' # d2"] by blast
  moreover have "3 \<le> length (d1 @ CHR ''.'' # d2)" using s(3,4) by (cases d1; cases d2) auto
  ultimately show ?L
    using s ok span_at_sign [of email_char u "CHR ''@''" "d1 @ CHR ''.'' # d2"]
    by (simp add: isValidEmail_def Let_def)
qed

text \<open>
  Saved notification preferences survive the trip through \<open>localStorage\<close> unchanged, and they
  decide who hears of an alert afterwards: every subscriber gets it unless its type was explicitly
  switched off (a type the saved map does not mention is on), the alert is always logged, and it goes
  to the external webhook exactly when it is HIGH or CRITICAL, whatever the preferences say.
\<close>

theorem saved_preferences_govern_alerts:
  assumes "np_inApp p = JObj kvs" and "json_plain (JObj kvs)"
    and "list_all json_plain (ch_events (np_email p))" and "list_all json_plain (ch_events (np_webhook p))"
    and "nt_browser n" and "nt_webhookUrl n = Some url" and "url \<noteq> []"
  shows "\<exists>raw. saveNotificationPreferences True p (nt_storage n) = Inr (Some raw)
    \<and> loadNotificationPreferences True (Some raw) = p
    \<and> (let sent = set (send_alert (n\<lparr>nt_storage := Some raw\<rparr>) a); switch = map_of kvs (alert_name (na_type a)) in
        ConsoleLog a \<in> sent
        \<and> (\<forall>s. (ToSubscriber s a \<in> sent) = (s \<in> set (nt_subscribers n) \<and> switch \<noteq> Some (JBool False)
                 \<and> (switch = None \<or> is_nullish (the switch) \<or> js_truthy (the switch))))
        \<and> ((\<exists>body. ToWebhook url body \<in> sent) = (na_priority a \<in> {HIGH, CRITICAL})))"
proof -
  obtain raw where raw: "saveNotificationPreferences True p (nt_storage n) = Inr (Some raw)"
      "loadNotificationPreferences True (Some raw) = p"
    using save_load [OF assms(1-4)] by blast
  let ?n = "n\<lparr>nt_storage := Some raw\<rparr>"
  let ?switch = "map_of kvs (alert_name (na_type a))"
  have sub: "(ToSubscriber s a \<in> set (send_alert ?n a)) = (s \<in> set (nt_subscribers n) \<and> ?switch \<noteq> Some (JBool False)
      \<and> (?switch = None \<or> is_nullish (the ?switch) \<or> js_truthy (the ?switch)))" for s
    using assms(1,5) raw(2)
    by (auto simp: subscriber_gets_iff isInAppEnabled_def js_coalesce_def split: option.splits)
  obtain body where "webhook_payload (nt_iso n) a = Inr body" using webhook_payload_total by blast
  then have ext: "(\<exists>body. ToWebhook url body \<in> set (send_alert ?n a)) = (na_priority a \<in> {HIGH, CRITICAL})"
    using assms(6,7) by (cases url) (auto simp: send_alert_def dispatchExternal_def)
  have "ConsoleLog a \<in> set (send_alert ?n a)" by (simp add: send_alert_def)
  with raw sub ext show ?thesis by (auto simp: Let_def)
qed

definition muted_preferences :: NotificationPreferences where
  "muted_preferences = DEFAULT_NOTIFICATION_PREFERENCES\<lparr>np_inApp := JObj [(''INVOICE_FUNDED'', JBool False)]\<rparr>"

definition example_notifier :: notifier where
  "example_notifier = \<lparr>nt_browser = True, nt_storage = None, nt_webhookUrl = Some ''https://hooks.example'',
     nt_iso = (\<lambda>_. ''2024-01-01T00:00:00.000Z''), nt_subscribers = [1, 2]\<rparr>"

definition default_alert :: NotificationAlert where
  "default_alert = \<lparr>na_id = ''a'', na_type = INVOICE_DEFAULTED, na_priority = CRITICAL, na_message = ''m'', na_timestamp = 0,
     na_data = JObj []\<rparr>"

theorem saved_preferences_govern_alerts_witness:
  "\<exists>raw. saveNotificationPreferences True muted_preferences None = Inr (Some raw)
     \<and> ToSubscriber 2 default_alert \<in> set (send_alert (example_notifier\<lparr>nt_storage := Some raw\<rparr>) default_alert)"
  using saved_preferences_govern_alerts [of muted_preferences "[(''INVOICE_FUNDED'', JBool False)]" example_notifier
      "''https://hooks.example''" default_alert]
  by (auto simp: muted_preferences_def DEFAULT_NOTIFICATION_PREFERENCES_def example_notifier_def default_alert_def Let_def)

end
