(* ===== verification/AlertMonitor.thy ===== *)
theory AlertMonitor
  imports Alerts
begin

text \<open>
  The contract monitor of the frontend server (\<open>frontend/lib/monitoring.ts\<close>) and the route that
  drives it (\<open>app/api/monitor/route.ts\<close>).

  The state is the checkpoint (\<open>lastLedger\<close>, as read from the file, so any value), the activity
  history, the time of the last pruning and the text of the checkpoint file.  A poll gets what the
  outside answers: the latest ledger, the events from a start ledger on, the decoding of their
  contract values, whether the file can be written, and the clock (\<open>clock i\<close> is read at the
  \<open>i\<close>-th event).  It returns the events, the alerts it sent in order, and the new state.
  Characters outside ASCII in messages are transliterated.
\<close>

section \<open>State\<close>

type_synonym activity = "((int list) dict) dict"

record ContractEvent =
  me_id :: string
  me_contractId :: string
  me_topic :: "js list"
  me_value :: js
  me_ledger :: int
  me_ledgerCloseAt :: string
  me_txHash :: string

record monitor_state =
  am_lastLedger :: js
  am_history :: activity
  am_lastPruneTime :: millis
  am_file :: "string option"

definition LEDGER_SECONDS :: int where "LEDGER_SECONDS = 5"
definition WARNING_WINDOW_DAYS :: int where "WARNING_WINDOW_DAYS = 30"
definition ACTIVE_TTL_DAYS :: int where "ACTIVE_TTL_DAYS = 365"
definition TERMINAL_TTL_DAYS :: int where "TERMINAL_TTL_DAYS = 30"
definition MAX_ACTIVITY_ENTRIES_PER_TYPE :: nat where "MAX_ACTIVITY_ENTRIES_PER_TYPE = 100"
definition ACTIVITY_HISTORY_PRUNE_INTERVAL_MS :: millis where "ACTIVITY_HISTORY_PRUNE_INTERVAL_MS = 60000"

section \<open>Checkpoint\<close>

text \<open>Any failure to read or parse the file, \<open>null\<close> included, is a checkpoint of zero.\<close>

definition loadCheckpoint :: "string option \<Rightarrow> js" where
  "loadCheckpoint file = (case file of
      None \<Rightarrow> JNum (NInt 0)
    | Some data \<Rightarrow> (case json_parse data of
          None \<Rightarrow> JNum (NInt 0)
        | Some checkpoint \<Rightarrow> js_or (js_prop checkpoint ''lastLedger'') (JNum (NInt 0))))"

text \<open>\<open>JSON.stringify(checkpoint, null, 2)\<close>.\<close>

definition checkpoint_text :: "int \<Rightarrow> millis \<Rightarrow> string" where
  "checkpoint_text lastLedger timestamp =
     ''{'' @ [CHR 0x0A] @ ''  '' @ json_quote ''lastLedger'' @ '': '' @ show_int lastLedger @ '','' @ [CHR 0x0A] @ ''  '' @
     json_quote ''timestamp'' @ '': '' @ show_int timestamp @ [CHR 0x0A] @ ''}''"

definition saveCheckpoint :: "bool \<Rightarrow> int \<Rightarrow> millis \<Rightarrow> string option \<Rightarrow> string option" where
  "saveCheckpoint writable lastLedger now file = (if writable then Some (checkpoint_text lastLedger now) else file)"

definition new_monitor :: "string option \<Rightarrow> millis \<Rightarrow> monitor_state" where
  "new_monitor file now = \<lparr>am_lastLedger = loadCheckpoint file, am_history = [], am_lastPruneTime = now, am_file = file\<rparr>"

section \<open>Activity history\<close>

definition take_last :: "nat \<Rightarrow> 'a list \<Rightarrow> 'a list" where
  "take_last n xs = drop (length xs - n) xs"

definition recent :: "int \<Rightarrow> int list \<Rightarrow> int list" where
  "recent now tss = take_last MAX_ACTIVITY_ENTRIES_PER_TYPE (filter (\<lambda>ts. now - ts < ACTIVITY_WINDOW_SECONDS) tss)"

definition seconds :: "millis \<Rightarrow> int" where
  "seconds ms = ms div 1000"

definition pruneActivityHistory :: "millis \<Rightarrow> activity \<Rightarrow> activity" where
  "pruneActivityHistory now h =
     filter (\<lambda>(a, types). types \<noteq> [])
       (map (\<lambda>(a, types). (a, filter (\<lambda>(t, tss). tss \<noteq> []) (map (\<lambda>(t, tss). (t, recent (seconds now) tss)) types))) h)"

definition activity_at :: "activity \<Rightarrow> string \<Rightarrow> string \<Rightarrow> int list" where
  "activity_at h a t = (case omap_get h a of None \<Rightarrow> [] | Some types \<Rightarrow>
     (case omap_get types t of None \<Rightarrow> [] | Some tss \<Rightarrow> tss))"

definition set_activity :: "string \<Rightarrow> string \<Rightarrow> int list \<Rightarrow> activity \<Rightarrow> activity" where
  "set_activity a t tss h =
     omap_put a (omap_put t tss (case omap_get h a of None \<Rightarrow> [] | Some types \<Rightarrow> types)) h"

text \<open>\<open>address.slice(0, 6)\<close> and \<open>address.slice(-4)\<close>: strings and arrays have \<open>slice\<close>.\<close>

definition address_parts :: "js \<Rightarrow> (string \<times> string) result" where
  "address_parts v = (case v of
      JStr s \<Rightarrow> Inr (take 6 s, take_last 4 s)
    | JArr xs \<Rightarrow> Inr (js_String (JArr (take 6 xs)), js_String (JArr (take_last 4 xs)))
    | _ \<Rightarrow> Inl (TypeError ''address.slice is not a function''))"

definition checkUnusualActivity ::
  "millis \<Rightarrow> js \<Rightarrow> string \<Rightarrow> string \<Rightarrow> activity \<Rightarrow> NotificationAlert list \<times> activity \<times> jserror option" where
  "checkUnusualActivity ms address type txHash h =
     (let now = seconds ms; a = js_String address;
          tss = recent now (activity_at h a type) @ [now];
          h' = set_activity a type tss h
      in if ACTIVITY_THRESHOLD_COUNT \<le> length tss then
           (case address_parts address of
              Inl e \<Rightarrow> ([], h', Some e)
            | Inr (front, back) \<Rightarrow>
                ([\<lparr>na_id = ''alert-unusual-'' @ a @ ''-'' @ type @ ''-'' @ show_int now, na_type = UNUSUAL_ACTIVITY,
                   na_priority = MEDIUM,
                   na_message = ''High frequency of '' @ [CHR 0x27] @ type @ [CHR 0x27] @ '' events from address '' @ front
                      @ ''...'' @ back @ ''.'',
                   na_timestamp = ms,
                   na_data = JObj [(''address'', address), (''eventType'', JStr type),
                     (''count'', JNum (NInt (int (length tss)))), (''txHash'', JStr txHash)]\<rparr>],
                 set_activity a type [] h', None))
         else ([], h', None))"

section \<open>Events\<close>

text \<open>Array destructuring: arrays and strings are iterable.\<close>

definition destructure :: "js \<Rightarrow> js list result" where
  "destructure v = (case v of
      JArr xs \<Rightarrow> Inr xs
    | JStr s \<Rightarrow> Inr (map (\<lambda>c. JStr [c]) s)
    | _ \<Rightarrow> Inl (TypeError ''value is not iterable''))"

text \<open>The amount in field \<open>i\<close> and the source in field \<open>j\<close>, when the schema has one.\<close>

definition amount_source :: "nat \<Rightarrow> nat option \<Rightarrow> js \<Rightarrow> (int \<times> js) result" where
  "amount_source i j value = (case destructure value of
      Inl e \<Rightarrow> Inl e
    | Inr xs \<Rightarrow> (case js_toBigInt (elem_at xs i) of
          Inl e \<Rightarrow> Inl e
        | Inr n \<Rightarrow> Inr (n, case j of Some k \<Rightarrow> elem_at xs k | None \<Rightarrow> JStr [])))"

definition default_notice :: "millis \<Rightarrow> ContractEvent \<Rightarrow> NotificationAlert" where
  "default_notice ms event = (let i = (case me_value event of JArr xs \<Rightarrow> elem_at xs 0 | v \<Rightarrow> v) in
     \<lparr>na_id = ''alert-default-'' @ me_id event, na_type = CONTRACT_DEFAULT, na_priority = CRITICAL,
      na_message = ''Invoice #'' @ js_String i @ '' has been marked as DEFAULTED.'', na_timestamp = ms,
      na_data = JObj [(''invoiceId'', i), (''txHash'', JStr (me_txHash event))]\<rparr>)"

text \<open>\<open>Math.round(Number(bps) / 100)\<close>.\<close>

definition utilization_pct :: "js \<Rightarrow> jnum" where
  "utilization_pct bps = (case js_Number bps of
      NNaN \<Rightarrow> NNaN
    | NInf b \<Rightarrow> NInf b
    | x \<Rightarrow> NInt \<lfloor>num_val x / 100 + 1 / 2\<rfloor>)"

definition utilization_notice :: "millis \<Rightarrow> ContractEvent \<Rightarrow> NotificationAlert result" where
  "utilization_notice ms event = (case destructure (me_value event) of
      Inl e \<Rightarrow> Inl e
    | Inr xs \<Rightarrow> (let token = elem_at xs 0; bps = elem_at xs 1; pct = utilization_pct bps in
        Inr \<lparr>na_id = ''alert-util-'' @ me_id event, na_type = UNUSUAL_ACTIVITY,
             na_priority = (if num_le (NInt 90) pct then HIGH else MEDIUM),
             na_message = ''Pool utilization alert: '' @ show_jnum pct @ ''% for token '' @ take 8 (js_String token) @ ''...'',
             na_timestamp = ms,
             na_data = JObj [(''token'', token), (''utilizationBps'', bps), (''txHash'', JStr (me_txHash event))]\<rparr>))"

text \<open>What the event type says: the alert sent at once, the amount moved and its source.\<close>

definition classify_event :: "millis \<Rightarrow> ContractEvent \<Rightarrow> (NotificationAlert list \<times> int \<times> js) result" where
  "classify_event ms event =
     (let contractType = js_coalesce (elem_at (me_topic event) 0) (JStr []);
          eventType = js_coalesce (elem_at (me_topic event) 1) (JStr []);
          moved = (\<lambda>i j. case amount_source i j (me_value event) of Inl e \<Rightarrow> Inl e | Inr (n, s) \<Rightarrow> Inr ([], n, s))
      in if contractType = JStr ''invoice'' then
           (if eventType = JStr ''created'' then moved 2 (Some 1)
            else if eventType = JStr ''default'' then Inr ([default_notice ms event], 0, JStr [])
            else Inr ([], 0, JStr []))
         else if contractType = JStr ''pool'' then
           (if eventType = JStr ''deposit'' \<or> eventType = JStr ''withdraw'' then moved 1 (Some 0)
            else if eventType = JStr ''funded'' then moved 2 (Some 1)
            else if eventType = JStr ''repaid'' then moved 1 None
            else if eventType = JStr ''util_warn'' then
              (case utilization_notice ms event of Inl e \<Rightarrow> Inl e | Inr a \<Rightarrow> Inr ([a], 0, JStr []))
            else Inr ([], 0, JStr []))
         else Inr ([], 0, JStr []))"

definition large_alert :: "(jnum \<Rightarrow> string) \<Rightarrow> millis \<Rightarrow> ContractEvent \<Rightarrow> int \<Rightarrow> js \<Rightarrow> NotificationAlert list" where
  "large_alert toLocaleString ms event amount source =
     (let eventType = js_coalesce (elem_at (me_topic event) 1) (JStr []) in
      if LARGE_TX_THRESHOLD \<le> of_int amount / 10000000 then
        [\<lparr>na_id = ''alert-large-'' @ me_id event, na_type = LARGE_TRANSACTION, na_priority = HIGH,
          na_message = ''Large '' @ js_String eventType @ '' detected: '' @ toLocaleString (units_of amount) @ '' units.'',
          na_timestamp = ms,
          na_data = JObj [(''amount'', JNum (units_of amount)), (''type'', eventType), (''source'', source),
            (''txHash'', JStr (me_txHash event))]\<rparr>]
      else [])"

definition processEvent ::
  "(jnum \<Rightarrow> string) \<Rightarrow> millis \<Rightarrow> ContractEvent \<Rightarrow> activity \<Rightarrow> NotificationAlert list \<times> activity \<times> jserror option" where
  "processEvent toLocaleString ms event h = (case classify_event ms event of
      Inl e \<Rightarrow> ([], h, Some e)
    | Inr (sent, amount, source) \<Rightarrow>
        (let sent' = sent @ large_alert toLocaleString ms event amount source in
         if js_truthy source then
           (case checkUnusualActivity ms source (js_String (js_coalesce (elem_at (me_topic event) 1) (JStr []))) (me_txHash event) h of
              (later, h', err) \<Rightarrow> (sent' @ later, h', err))
         else (sent', h, None)))"

text \<open>The loop stops at the first event that throws; \<open>i\<close> counts the events for the clock.\<close>

fun processEvents ::
  "(jnum \<Rightarrow> string) \<Rightarrow> (nat \<Rightarrow> millis) \<Rightarrow> nat \<Rightarrow> ContractEvent list \<Rightarrow> activity
   \<Rightarrow> NotificationAlert list \<times> activity \<times> jserror option" where
  "processEvents toLocaleString clock i [] h = ([], h, None)"
| "processEvents toLocaleString clock i (e # es) h =
     (case processEvent toLocaleString (clock i) e h of
        (sent, h', Some err) \<Rightarrow> (sent, h', Some err)
      | (sent, h', None) \<Rightarrow>
          (case processEvents toLocaleString clock (Suc i) es h' of (later, h'', err) \<Rightarrow> (sent @ later, h'', err)))"

section \<open>Polling\<close>

record raw_event =
  re_id :: string
  re_contractId :: string
  re_topic :: "js list"
  re_value :: js
  re_ledger :: int
  re_ledgerCloseAt :: string
  re_txHash :: "string option"

record poll_input =
  pi_invoiceId :: string
  pi_poolId :: string
  pi_latest :: "int result"
  pi_getEvents :: "js \<Rightarrow> raw_event list result"
  pi_scValToNative :: "js \<Rightarrow> js result"
  pi_toLocaleString :: "jnum \<Rightarrow> string"
  pi_writable :: bool
  pi_clock :: "nat \<Rightarrow> millis"

fun map_result :: "('a \<Rightarrow> 'b result) \<Rightarrow> 'a list \<Rightarrow> 'b list result" where
  "map_result f [] = Inr []"
| "map_result f (x # xs) = (case f x of Inl e \<Rightarrow> Inl e | Inr y \<Rightarrow>
     (case map_result f xs of Inl e \<Rightarrow> Inl e | Inr ys \<Rightarrow> Inr (y # ys)))"

definition decode_event :: "(js \<Rightarrow> js result) \<Rightarrow> raw_event \<Rightarrow> ContractEvent result" where
  "decode_event scValToNative e = (case map_result scValToNative (re_topic e) of
      Inl err \<Rightarrow> Inl err
    | Inr topic \<Rightarrow> (case scValToNative (re_value e) of
          Inl err \<Rightarrow> Inl err
        | Inr v \<Rightarrow> Inr \<lparr>me_id = re_id e, me_contractId = re_contractId e, me_topic = topic, me_value = v, me_ledger = re_ledger e,
             me_ledgerCloseAt = re_ledgerCloseAt e, me_txHash = (case re_txHash e of Some t \<Rightarrow> t | None \<Rightarrow> [])\<rparr>))"

definition prune_due :: "millis \<Rightarrow> monitor_state \<Rightarrow> monitor_state" where
  "prune_due now m = (if ACTIVITY_HISTORY_PRUNE_INTERVAL_MS < now - am_lastPruneTime m
     then m\<lparr>am_history := pruneActivityHistory now (am_history m), am_lastPruneTime := now\<rparr> else m)"

definition start_ledger :: "js \<Rightarrow> int \<Rightarrow> js" where
  "start_ledger lastLedger latest = js_or lastLedger (JNum (NInt (latest - 100)))"

definition fetch_events :: "poll_input \<Rightarrow> js \<Rightarrow> ContractEvent list result" where
  "fetch_events inp start = (case pi_getEvents inp start of
      Inl e \<Rightarrow> Inl e
    | Inr raws \<Rightarrow> map_result (decode_event (pi_scValToNative inp)) raws)"

definition pollEvents :: "poll_input \<Rightarrow> monitor_state \<Rightarrow> ContractEvent list \<times> NotificationAlert list \<times> monitor_state" where
  "pollEvents inp m0 =
     (if pi_invoiceId inp = [] \<or> pi_poolId inp = [] then ([], [], m0)
      else (let m = prune_due (pi_clock inp 0) m0 in
        case pi_latest inp of
          Inl e \<Rightarrow> ([], [], m)
        | Inr endLedger \<Rightarrow>
            (case fetch_events inp (start_ledger (am_lastLedger m) endLedger) of
               Inl e \<Rightarrow> ([], [], m)
             | Inr events \<Rightarrow>
                 (case processEvents (pi_toLocaleString inp) (pi_clock inp) 0 events (am_history m) of
                    (sent, h, Some e) \<Rightarrow> ([], sent, m\<lparr>am_history := h\<rparr>)
                  | (sent, h, None) \<Rightarrow>
                      (events, sent, m\<lparr>am_history := h, am_lastLedger := JNum (NInt (endLedger + 1)),
                         am_file := saveCheckpoint (pi_writable inp) (endLedger + 1) (pi_clock inp (length events)) (am_file m)\<rparr>)))))"

text \<open>\<open>pollEvents\<close> never throws, so the route always answers success.\<close>

definition monitor_GET :: "(millis \<Rightarrow> string) \<Rightarrow> millis \<Rightarrow> poll_input \<Rightarrow> monitor_state \<Rightarrow> js \<times> NotificationAlert list \<times> monitor_state" where
  "monitor_GET isoDate now inp m = (case pollEvents inp m of (events, sent, m') \<Rightarrow>
     (JObj [(''status'', JStr ''success''), (''events'', JNum (NInt (int (length events)))), (''timestamp'', JStr (isoDate now))],
      sent, m'))"

section \<open>Archive warnings\<close>

datatype InvoiceStatus =
  Pending | AwaitingVerification | Verified | Disputed | Funded | Paid | Defaulted | Cancelled | Expired

record ttl_invoice =
  ti_id :: int
  ti_status :: InvoiceStatus
  ti_createdAt :: int
  ti_fundedAt :: int
  ti_paidAt :: int
  ti_disputedAt :: "int option"

datatype severity = low | medium | high

record InvoiceTtlWarning =
  tw_id :: int
  tw_status :: InvoiceStatus
  tw_expiryLedger :: int
  tw_remainingDays :: int
  tw_severity :: severity

definition shouldTrackInvoice :: "InvoiceStatus \<Rightarrow> bool" where
  "shouldTrackInvoice status = (status \<noteq> Expired)"

definition isTerminalStatus :: "InvoiceStatus \<Rightarrow> bool" where
  "isTerminalStatus status = (status = Paid \<or> status = Defaulted \<or> status = Cancelled \<or> status = Expired)"

definition int_or :: "int \<Rightarrow> int \<Rightarrow> int" where
  "int_or a b = (if a \<noteq> 0 then a else b)"

definition baseTimestamp :: "ttl_invoice \<Rightarrow> int" where
  "baseTimestamp v =
     (if ti_status v = Paid \<or> ti_status v = Defaulted \<or> ti_status v = Cancelled
      then int_or (ti_paidAt v) (int_or (ti_fundedAt v) (ti_createdAt v))
      else if ti_status v = Disputed
      then int_or (case ti_disputedAt v of Some t \<Rightarrow> t | None \<Rightarrow> 0) (int_or (ti_fundedAt v) (ti_createdAt v))
      else int_or (ti_fundedAt v) (ti_createdAt v))"

definition expiry_ledger :: "millis \<Rightarrow> ttl_invoice \<Rightarrow> int" where
  "expiry_ledger now v =
     (let ttlDays = (if isTerminalStatus (ti_status v) then TERMINAL_TTL_DAYS else ACTIVE_TTL_DAYS);
          elapsedLedgers = max 0 ((now - baseTimestamp v * 1000) div (LEDGER_SECONDS * 1000))
      in elapsedLedgers + ttlDays * 17280)"

definition ceil_div :: "int \<Rightarrow> int \<Rightarrow> int" where
  "ceil_div a b = - ((- a) div b)"

definition buildTtlWarning :: "millis \<Rightarrow> int \<Rightarrow> ttl_invoice \<Rightarrow> InvoiceTtlWarning option" where
  "buildTtlWarning now currentLedger v =
     (if \<not> shouldTrackInvoice (ti_status v) then None
      else (let expiryLedger = expiry_ledger now v; remainingLedgers = expiryLedger - currentLedger;
                remainingDays = ceil_div remainingLedgers 17280
            in if WARNING_WINDOW_DAYS < remainingDays then None
               else Some \<lparr>tw_id = ti_id v, tw_status = ti_status v, tw_expiryLedger = expiryLedger,
                 tw_remainingDays = max 0 remainingDays,
                 tw_severity = (if remainingDays \<le> 7 then high else if remainingDays \<le> 14 then medium else low)\<rparr>))"

definition getInvoiceTtlWarnings ::
  "string \<Rightarrow> int result \<Rightarrow> int result \<Rightarrow> (int list \<Rightarrow> ttl_invoice list result) \<Rightarrow> millis \<Rightarrow> InvoiceTtlWarning list" where
  "getInvoiceTtlWarnings invoiceContract latest count getMultipleInvoices now =
     (if invoiceContract = [] then []
      else (case (latest, count) of
          (Inr ledger, Inr n) \<Rightarrow>
            (if n \<le> 0 then []
             else (case getMultipleInvoices (map (\<lambda>i. int i + 1) [0..<nat n]) of
                 Inl _ \<Rightarrow> []
               | Inr invoices \<Rightarrow> sort_key tw_expiryLedger (List.map_filter (buildTtlWarning now ledger) invoices)))
        | _ \<Rightarrow> []))"

section \<open>The checkpoint file\<close>

lemma json_value_space: "json_space c \<Longrightarrow> json_value (c # s) = json_value s"
  by (subst (1 2) json_value.simps) (simp add: skip_ws_def)

lemma json_value_show_int_space:
  "json_follow r \<Longrightarrow> json_value (CHR '' '' # show_int n @ r) = Some (JNum (NInt n), r)"
  by (simp add: json_value_space json_space_def json_value_show_int)

lemma json_members_last_line:
  "json_members acc (CHR 0x0A # CHR '' '' # CHR '' '' # json_quote k @ CHR '':'' # CHR '' '' # show_int n @ [CHR 0x0A, CHR ''}''])
   = Some (omap_put k (JNum (NInt n)) acc, [])"
  using json_value_show_int_space [of "[CHR 0x0A, CHR ''}'']" n]
  by (subst json_members.simps) (simp add: skip_ws_def json_space_def json_quote_def json_quote_chars json_follow_def)

lemma json_members_line:
  "json_members acc (CHR 0x0A # CHR '' '' # CHR '' '' # json_quote k @ CHR '':'' # CHR '' '' # show_int n @ CHR '','' # r)
   = json_members (omap_put k (JNum (NInt n)) acc) r"
  using json_value_show_int_space [of "CHR '','' # r" n]
  by (subst json_members.simps) (simp add: skip_ws_def json_space_def json_quote_def json_quote_chars json_follow_def)

lemma json_parse_checkpoint:
  "json_parse (checkpoint_text l t) = Some (JObj [(''lastLedger'', JNum (NInt l)), (''timestamp'', JNum (NInt t))])"
  using json_members_line [of "[]" "''lastLedger''" l] json_members_last_line [of "[(''lastLedger'', JNum (NInt l))]" "''timestamp''" t]
  by (simp add: json_parse_def checkpoint_text_def json_value.simps skip_ws_def json_space_def json_quote_def)

lemma loadCheckpoint_save: "loadCheckpoint (Some (checkpoint_text l t)) = JNum (NInt l)"
  by (simp add: loadCheckpoint_def json_parse_checkpoint js_or_def)

lemma prune_due_keeps [simp]:
  "am_lastLedger (prune_due now m) = am_lastLedger m" "am_file (prune_due now m) = am_file m"
  by (simp_all add: prune_due_def)

text \<open>What decides a poll: it has events to process and every one of them is processed.\<close>

definition poll_events_of :: "poll_input \<Rightarrow> js \<Rightarrow> ContractEvent list result" where
  "poll_events_of inp lastLedger = (case pi_latest inp of
      Inl e \<Rightarrow> Inl e | Inr l \<Rightarrow> fetch_events inp (start_ledger lastLedger l))"

definition poll_completes :: "poll_input \<Rightarrow> monitor_state \<Rightarrow> bool" where
  "poll_completes inp m = (pi_invoiceId inp \<noteq> [] \<and> pi_poolId inp \<noteq> [] \<and>
     (case poll_events_of inp (am_lastLedger m) of
        Inl e \<Rightarrow> False
      | Inr events \<Rightarrow> snd (snd (processEvents (pi_toLocaleString inp) (pi_clock inp) 0 events
                          (am_history (prune_due (pi_clock inp 0) m)))) = None))"

lemma poll_fails:
  assumes "\<not> poll_completes inp m"
  shows "fst (pollEvents inp m) = [] \<and> am_lastLedger (snd (snd (pollEvents inp m))) = am_lastLedger m
     \<and> am_file (snd (snd (pollEvents inp m))) = am_file m"
  using assms
  by (auto simp: pollEvents_def poll_completes_def poll_events_of_def Let_def split: sum.splits prod.splits option.splits)

lemma poll_succeeds:
  assumes "poll_completes inp m" and "pi_latest inp = Inr l" and "pi_writable inp"
  shows "poll_events_of inp (am_lastLedger m) = Inr (fst (pollEvents inp m))
     \<and> am_lastLedger (snd (snd (pollEvents inp m))) = JNum (NInt (l + 1))
     \<and> (\<exists>t. am_file (snd (snd (pollEvents inp m))) = Some (checkpoint_text (l + 1) t))"
  using assms
  by (auto simp: pollEvents_def poll_completes_def poll_events_of_def saveCheckpoint_def Let_def
      split: sum.splits prod.splits option.splits)

text \<open>
  The checkpoint moves only with a completed poll, and survives a restart.  A poll that cannot
  read the ledger, fetch, decode or process every event returns no events and leaves the checkpoint
  in memory and on disk as they were, so the next poll starts at the same ledger; a poll that
  completes returns exactly the events fetched from the old checkpoint and moves it past the latest
  ledger, and a monitor constructed afterwards from the file resumes from there.
\<close>

theorem checkpoint_moves_with_completed_poll:
  assumes "pi_writable inp" and "pi_latest inp = Inr l"
  shows "let (events, sent, m') = pollEvents inp m in
    if poll_completes inp m
    then Inr events = poll_events_of inp (am_lastLedger m) \<and> am_lastLedger m' = JNum (NInt (l + 1))
         \<and> am_lastLedger (new_monitor (am_file m') now) = am_lastLedger m'
    else events = [] \<and> am_lastLedger m' = am_lastLedger m \<and> am_file m' = am_file m"
proof (cases "poll_completes inp m")
  case True
  then show ?thesis using poll_succeeds [OF True assms(2,1)]
    by (auto simp: Let_def new_monitor_def loadCheckpoint_save split: prod.splits)
next
  case False
  then show ?thesis using poll_fails [OF False] by (auto simp: Let_def split: prod.splits)
qed

section \<open>A deposit stops the monitor\<close>

lemma base32_not_numeral:
  assumes "c \<in> {CHR ''C'', CHR ''G''}" and "list_all is_base32 s"
  shows "js_BigInt (c # s) = None"
proof -
  have sp: "\<not> is_space x" if "is_base32 x" for x
    using that by (auto simp: is_base32_def is_space_def Let_def)
  have "is_base32 c" using assms(1) by (auto simp: is_base32_def)
  then have all: "list_all (\<lambda>x. \<not> is_space x) (rev (c # s))"
    using assms(2) sp by (auto simp: list_all_iff)
  have id: "dropWhile is_space xs = xs" if "list_all (\<lambda>x. \<not> is_space x) xs" for xs
    using that by (cases xs) auto
  have "trim (c # s) = c # s"
    using id [OF all] id [of "c # s"] all by (auto simp: trim_def list_all_iff)
  moreover have "\<not> is_digit c" "c \<noteq> CHR ''-''" "c \<noteq> CHR ''+''" "c \<noteq> CHR ''0''"
    using assms(1) by (auto simp: is_digit_def)
  ultimately show ?thesis
    by (auto simp: js_BigInt_def decimal_nat_def prefixed_nat_def Let_def)
qed

text \<open>An address as the contracts' values decode to.\<close>

definition stellar_address :: "string \<Rightarrow> bool" where
  "stellar_address s = (length s = 56 \<and> hd s \<in> {CHR ''C'', CHR ''G''} \<and> list_all is_base32 (tl s))"

text \<open>The value of a deposit as the pool contract publishes it: investor, token, received, shares, time.\<close>

definition pool_deposit_value :: "string \<Rightarrow> string \<Rightarrow> int \<Rightarrow> int \<Rightarrow> int \<Rightarrow> js" where
  "pool_deposit_value investor token received shares timestamp =
     JArr [JStr investor, JStr token, JBigInt received, JBigInt shares, JBigInt timestamp]"

definition pool_deposit_event :: "ContractEvent \<Rightarrow> bool" where
  "pool_deposit_event e = (me_topic e = [JStr ''pool'', JStr ''deposit''] \<and>
     (\<exists>investor token received shares timestamp.
        me_value e = pool_deposit_value investor token received shares timestamp \<and> stellar_address token))"

lemma address_toBigInt: "stellar_address s \<Longrightarrow> \<exists>e. js_toBigInt (JStr s) = Inl e"
  using base32_not_numeral [of "hd s" "tl s"]
  by (cases s) (auto simp: stellar_address_def js_toBigInt_def to_BigInt_def)

lemma deposit_throws:
  assumes "pool_deposit_event e"
  shows "\<exists>err. processEvent loc ms e h = ([], h, Some err)"
proof -
  obtain investor token n k t where e: "me_topic e = [JStr ''pool'', JStr ''deposit'']"
      "me_value e = pool_deposit_value investor token n k t" and "stellar_address token"
    using assms by (auto simp: pool_deposit_event_def)
  then obtain err where "js_toBigInt (JStr token) = Inl err" using address_toBigInt by blast
  with e have "amount_source 1 (Some 0) (me_value e) = Inl err"
    by (simp add: amount_source_def destructure_def pool_deposit_value_def elem_at_def)
  then have "classify_event ms e = Inl err"
    by (simp add: classify_event_def e(1) elem_at_def js_coalesce_def)
  then show ?thesis by (simp add: processEvent_def)
qed

lemma processEvents_throws:
  assumes "e \<in> set es" and "\<And>ms h. \<exists>err. processEvent loc ms e h = ([], h, Some err)"
  shows "snd (snd (processEvents loc clock i es h)) \<noteq> None"
  using assms(1)
proof (induction es arbitrary: i h)
  case (Cons x es)
  obtain sent h' err where x: "processEvent loc (clock i) x h = (sent, h', err)" by (metis prod_cases3)
  show ?case
  proof (cases "x = e")
    case True
    then show ?thesis using assms(2) [of "clock i" h] x by auto
  next
    case False
    then show ?thesis using Cons x by (auto split: option.splits prod.splits) (metis snd_conv)
  qed
qed simp

fun poll_all :: "poll_input list \<Rightarrow> monitor_state \<Rightarrow> monitor_state" where
  "poll_all [] m = m"
| "poll_all (inp # inps) m = poll_all inps (snd (snd (pollEvents inp m)))"

lemma wedged_poll:
  assumes "poll_events_of inp (am_lastLedger m) = Inr events" "pool_deposit_event e" "e \<in> set events"
  shows "\<not> poll_completes inp m"
  using processEvents_throws [OF assms(3) deposit_throws [OF assms(2)]] assms(1)
  by (auto simp: poll_completes_def)

text \<open>
  One pool deposit stops the monitor for good.  The contract publishes (investor, token,
  received, shares, timestamp) and the monitor reads the second field as the amount, so the token's
  address goes to \<open>BigInt\<close>, which throws; the poll gives up and keeps its checkpoint.  As long as
  the answer from that checkpoint still has the deposit, no later poll moves the checkpoint, in
  memory or on disk, or returns an event.
\<close>

theorem deposit_wedges_monitor:
  assumes "\<forall>inp \<in> set inps. \<exists>events e. poll_events_of inp (am_lastLedger m) = Inr events \<and> e \<in> set events \<and> pool_deposit_event e"
  shows "am_lastLedger (poll_all inps m) = am_lastLedger m \<and> am_file (poll_all inps m) = am_file m
    \<and> (\<forall>inp \<in> set inps. fst (pollEvents inp (poll_all inps m)) = [])"
proof -
  have stuck: "\<not> poll_completes inp m'" if "inp \<in> set inps" "am_lastLedger m' = am_lastLedger m" for inp m'
    using assms that wedged_poll [of inp m'] by fastforce
  have "am_lastLedger (poll_all ps m') = am_lastLedger m \<and> am_file (poll_all ps m') = am_file m'"
    if "set ps \<subseteq> set inps" "am_lastLedger m' = am_lastLedger m" for ps m'
    using that
  proof (induction ps arbitrary: m')
    case (Cons p ps)
    then have "\<not> poll_completes p m'" using stuck by simp
    then show ?case using Cons poll_fails [of p m'] by simp
  qed simp
  then have "am_lastLedger (poll_all inps m) = am_lastLedger m" "am_file (poll_all inps m) = am_file m" by simp_all
  then show ?thesis using stuck poll_fails by metis
qed

definition example_deposit :: raw_event where
  "example_deposit = \<lparr>re_id = ''1'', re_contractId = ''P'', re_topic = [JStr ''pool'', JStr ''deposit''],
     re_value = pool_deposit_value (CHR ''G'' # replicate 55 CHR ''A'') (CHR ''C'' # replicate 55 CHR ''A'') 10000000 10000000 1700000000,
     re_ledger = 50, re_ledgerCloseAt = '''', re_txHash = None\<rparr>"

definition example_poll :: poll_input where
  "example_poll = \<lparr>pi_invoiceId = ''I'', pi_poolId = ''P'', pi_latest = Inr 60, pi_getEvents = (\<lambda>_. Inr [example_deposit]),
     pi_scValToNative = Inr, pi_toLocaleString = show_jnum, pi_writable = True, pi_clock = (\<lambda>_. 0)\<rparr>"

theorem deposit_wedges_monitor_witness:
  "am_lastLedger (poll_all [example_poll, example_poll] (new_monitor (Some (checkpoint_text 40 0)) 0)) = JNum (NInt 40)"
proof -
  let ?m = "new_monitor (Some (checkpoint_text 40 0)) 0"
  have "\<exists>events e. poll_events_of example_poll (am_lastLedger ?m) = Inr events \<and> e \<in> set events \<and> pool_deposit_event e"
    by (auto simp: poll_events_of_def fetch_events_def example_poll_def decode_event_def example_deposit_def
        pool_deposit_event_def pool_deposit_value_def stellar_address_def is_base32_def list_all_iff)
  then have "am_lastLedger (poll_all [example_poll, example_poll] ?m) = am_lastLedger ?m"
    using deposit_wedges_monitor [of "[example_poll, example_poll]" ?m] by simp
  then show ?thesis by (simp add: new_monitor_def loadCheckpoint_save)
qed

theorem checkpoint_moves_with_completed_poll_witness:
  "let inp = example_poll\<lparr>pi_getEvents := \<lambda>_. Inr []\<rparr>; m = new_monitor None 0;
       (events, sent, m') = pollEvents inp m
   in events = [] \<and> am_lastLedger (new_monitor (am_file m') 0) = JNum (NInt 61)"
proof -
  let ?inp = "example_poll\<lparr>pi_getEvents := \<lambda>_. Inr []\<rparr>"
  have "poll_completes ?inp (new_monitor None 0)"
    by (simp add: poll_completes_def poll_events_of_def fetch_events_def example_poll_def)
  then show ?thesis
    using checkpoint_moves_with_completed_poll [of ?inp 60 "new_monitor None 0" 0]
    by (auto simp: example_poll_def poll_events_of_def fetch_events_def Let_def split: prod.splits)
qed

section \<open>Bursts\<close>

lemma activity_at_set_activity [simp]:
  "activity_at (set_activity a t tss h) a' t' = (if a' = a \<and> t' = t then tss else activity_at h a' t')"
  by (simp add: activity_at_def set_activity_def split: option.splits)

text \<open>A burst: the same address and type at the given times.\<close>

fun burst :: "js \<Rightarrow> string \<Rightarrow> millis list \<Rightarrow> activity \<Rightarrow> NotificationAlert list \<times> activity" where
  "burst address type [] h = ([], h)"
| "burst address type (ms # mss) h =
     (case checkUnusualActivity ms address type [] h of (sent, h', err) \<Rightarrow>
       (case burst address type mss h' of (later, h'') \<Rightarrow> (sent @ later, h'')))"

lemma take_last_all [simp]: "length xs \<le> n \<Longrightarrow> take_last n xs = xs"
  by (simp add: take_last_def)

lemma recent_all: "\<forall>ts \<in> set tss. now - ts < ACTIVITY_WINDOW_SECONDS \<Longrightarrow> length tss \<le> 100 \<Longrightarrow> recent now tss = tss"
  by (simp add: recent_def MAX_ACTIVITY_ENTRIES_PER_TYPE_def filter_id_conv)

lemma check_in_window:
  assumes "address = JStr a" and "\<forall>ts \<in> set (activity_at h a type). seconds ms - ts < ACTIVITY_WINDOW_SECONDS"
    and "length (activity_at h a type) < 3"
  shows "\<exists>sent h'. checkUnusualActivity ms address type txHash h = (sent, h', None)
    \<and> 3 * length sent + length (activity_at h' a type) = Suc (length (activity_at h a type))
    \<and> length (activity_at h' a type) < 3
    \<and> set (activity_at h' a type) \<subseteq> insert (seconds ms) (set (activity_at h a type))"
proof -
  have "recent (seconds ms) (activity_at h a type) = activity_at h a type"
    using assms(2,3) by (intro recent_all) auto
  moreover have "3 \<le> Suc (length (activity_at h a type)) \<longleftrightarrow> length (activity_at h a type) = 2"
    using assms(3) by auto
  ultimately show ?thesis
    using assms(1,3) by (auto simp: checkUnusualActivity_def ACTIVITY_THRESHOLD_COUNT_def address_parts_def Let_def)
qed

lemma burst_in_window:
  assumes "\<forall>x \<in> set mss. \<forall>y \<in> set mss. seconds x - seconds y < ACTIVITY_WINDOW_SECONDS"
    and "\<forall>x \<in> set mss. \<forall>ts \<in> set (activity_at h a type). seconds x - ts < ACTIVITY_WINDOW_SECONDS"
    and "length (activity_at h a type) < 3"
  shows "3 * length (fst (burst (JStr a) type mss h)) + length (activity_at (snd (burst (JStr a) type mss h)) a type)
    = length mss + length (activity_at h a type) \<and> length (activity_at (snd (burst (JStr a) type mss h)) a type) < 3"
  using assms
proof (induction mss arbitrary: h)
  case (Cons ms mss)
  obtain sent h' where s: "checkUnusualActivity ms (JStr a) type [] h = (sent, h', None)"
      "3 * length sent + length (activity_at h' a type) = Suc (length (activity_at h a type))"
      "length (activity_at h' a type) < 3" "set (activity_at h' a type) \<subseteq> insert (seconds ms) (set (activity_at h a type))"
    using check_in_window [OF refl, of h a type ms "[]"] Cons.prems by auto
  have "\<forall>x \<in> set mss. \<forall>ts \<in> set (activity_at h' a type). seconds x - ts < ACTIVITY_WINDOW_SECONDS"
    using Cons.prems(1,2) s(4) by fastforce
  then have "3 * length (fst (burst (JStr a) type mss h')) + length (activity_at (snd (burst (JStr a) type mss h')) a type)
      = length mss + length (activity_at h' a type) \<and> length (activity_at (snd (burst (JStr a) type mss h')) a type) < 3"
    using Cons.IH [of h'] Cons.prems(1) s(3) by auto
  then show ?case using s(1,2) by (auto split: prod.splits)
qed simp

text \<open>
  A burst of events of one type from one address, all within the activity window, raises exactly
  one alert per three events, and fewer than three timestamps are kept; so the third event already
  alerts, and the cap of a hundred entries is never what limits the history of an address.
\<close>

theorem burst_alert_count:
  assumes "\<forall>x \<in> set mss. \<forall>y \<in> set mss. seconds x - seconds y < ACTIVITY_WINDOW_SECONDS"
    and "activity_at h a type = []"
  shows "length (fst (burst (JStr a) type mss h)) = length mss div 3
    \<and> length (activity_at (snd (burst (JStr a) type mss h)) a type) = length mss mod 3"
proof -
  have "3 * length (fst (burst (JStr a) type mss h)) + length (activity_at (snd (burst (JStr a) type mss h)) a type) = length mss"
    "length (activity_at (snd (burst (JStr a) type mss h)) a type) < 3"
    using burst_in_window [OF assms(1), of h a type] assms(2) by simp_all
  then show ?thesis by presburger
qed

theorem burst_alert_count_witness:
  "length (fst (burst (JStr ''GALICE'') ''created'' [0, 1000, 2000, 599000] [])) = 1"
  using burst_alert_count [of "[0, 1000, 2000, 599000]" "[]" "''GALICE''" "''created''"]
  by (simp add: seconds_def ACTIVITY_WINDOW_SECONDS_def activity_at_def)

text \<open>Whatever the contracts publish, no list of the history grows past the cap and the new entry.\<close>

definition history_bounded :: "activity \<Rightarrow> bool" where
  "history_bounded h = (\<forall>(a, types) \<in> set h. \<forall>(t, tss) \<in> set types. length tss \<le> Suc MAX_ACTIVITY_ENTRIES_PER_TYPE)"

lemma omap_put_entries: "set (omap_put k v m) \<subseteq> insert (k, v) (set m)"
  by (induction k v m rule: omap_put.induct) auto

lemma length_recent: "length (recent now tss) \<le> MAX_ACTIVITY_ENTRIES_PER_TYPE"
  by (simp add: recent_def take_last_def)

lemma history_bounded_set:
  assumes "history_bounded h" "length tss \<le> Suc MAX_ACTIVITY_ENTRIES_PER_TYPE"
  shows "history_bounded (set_activity a t tss h)"
proof -
  let ?types = "case omap_get h a of None \<Rightarrow> [] | Some types \<Rightarrow> types"
  have types: "\<forall>(t, tss) \<in> set ?types. length tss \<le> Suc MAX_ACTIVITY_ENTRIES_PER_TYPE"
  proof (cases "omap_get h a")
    case (Some types)
    then show ?thesis using assms(1) omap_get_Some_in [OF Some] by (auto simp: history_bounded_def)
  qed simp
  then have new: "\<forall>(t', tss') \<in> set (omap_put t tss ?types). length tss' \<le> Suc MAX_ACTIVITY_ENTRIES_PER_TYPE"
    using omap_put_entries [of t tss ?types] assms(2) by fastforce
  show ?thesis
    unfolding history_bounded_def set_activity_def
    using omap_put_entries [of a "omap_put t tss ?types" h] new assms(1) by (fastforce simp: history_bounded_def)
qed

lemma history_bounded_prune: "history_bounded (pruneActivityHistory now h)"
  by (auto simp: history_bounded_def pruneActivityHistory_def simp: length_recent le_SucI)

lemma history_bounded_check:
  "history_bounded h \<Longrightarrow> checkUnusualActivity ms address type txHash h = (sent, h', err) \<Longrightarrow> history_bounded h'"
  using length_recent
  by (auto simp: checkUnusualActivity_def Let_def split: if_splits sum.splits intro!: history_bounded_set)

lemma history_bounded_process:
  "history_bounded h \<Longrightarrow> processEvent loc ms e h = (sent, h', err) \<Longrightarrow> history_bounded h'"
  by (auto simp: processEvent_def Let_def split: sum.splits if_splits prod.splits intro: history_bounded_check)

lemma history_bounded_events:
  "history_bounded h \<Longrightarrow> processEvents loc clock i es h = (sent, h', err) \<Longrightarrow> history_bounded h'"
proof (induction es arbitrary: i h sent)
  case (Cons e es)
  obtain s1 h1 e1 where e: "processEvent loc (clock i) e h = (s1, h1, e1)" by (metis prod_cases3)
  then have "history_bounded h1" using Cons.prems(1) history_bounded_process by blast
  with Cons e show ?case by (auto split: option.splits prod.splits)
qed simp

lemma history_bounded_prune_due: "history_bounded (am_history m) \<Longrightarrow> history_bounded (am_history (prune_due now m))"
  by (simp add: prune_due_def history_bounded_prune)

lemma history_bounded_poll:
  "history_bounded (am_history m) \<Longrightarrow> history_bounded (am_history (snd (snd (pollEvents inp m))))"
  using history_bounded_events [OF history_bounded_prune_due]
  by (auto simp: pollEvents_def Let_def history_bounded_prune_due split: sum.splits prod.splits option.splits)

text \<open>
  The activity history is bounded per address and type, for any sequence of polls with any
  answers: no list ever exceeds the cap by more than the entry just added.
\<close>

theorem activity_history_bounded:
  "history_bounded (am_history (poll_all inps (new_monitor file now)))"
proof -
  have "history_bounded (am_history m) \<Longrightarrow> history_bounded (am_history (poll_all inps m))" for m
    by (induction inps arbitrary: m) (auto intro: history_bounded_poll)
  moreover have "history_bounded (am_history (new_monitor file now))" by (simp add: new_monitor_def history_bounded_def)
  ultimately show ?thesis by blast
qed

section \<open>Archive warnings\<close>

lemma ceil_div_le_0: "a \<le> 0 \<Longrightarrow> 0 < b \<Longrightarrow> ceil_div a b \<le> 0"
  by (simp add: ceil_div_def pos_imp_zdiv_nonneg_iff)

text \<open>
  The archive warnings count in the wrong direction.  The expiry is computed as elapsed ledgers
  plus the time to live, not as the ledger of the invoice plus the time to live: so among invoices of
  one status the older one gets the later expiry, and once the network is past the sum every
  invoice is flagged, one created this very second included, with severity high and no days left.
\<close>

theorem ttl_warnings_backwards:
  assumes "0 \<le> now" and "365 * 17280 \<le> currentLedger"
  shows "(ti_status v = ti_status w \<and> baseTimestamp v \<le> baseTimestamp w \<longrightarrow> expiry_ledger now w \<le> expiry_ledger now v)
    \<and> (ti_status v = Pending \<and> ti_fundedAt v = 0 \<and> ti_createdAt v = now div 1000 \<longrightarrow>
        buildTtlWarning now currentLedger v = Some \<lparr>tw_id = ti_id v, tw_status = Pending, tw_expiryLedger = 365 * 17280,
          tw_remainingDays = 0, tw_severity = high\<rparr>)"
proof (intro conjI impI)
  assume same: "ti_status v = ti_status w \<and> baseTimestamp v \<le> baseTimestamp w"
  then have "(now - baseTimestamp w * 1000) div (LEDGER_SECONDS * 1000) \<le> (now - baseTimestamp v * 1000) div (LEDGER_SECONDS * 1000)"
    by (intro zdiv_mono1) (simp_all add: LEDGER_SECONDS_def)
  with same show "expiry_ledger now w \<le> expiry_ledger now v"
    by (simp add: expiry_ledger_def Let_def)
next
  assume v: "ti_status v = Pending \<and> ti_fundedAt v = 0 \<and> ti_createdAt v = now div 1000"
  have "now - now div 1000 * 1000 = now mod 1000" by (simp add: minus_div_mult_eq_mod)
  then have "(now - now div 1000 * 1000) div 5000 = 0" by (simp add: div_pos_pos_trivial)
  with v have exp: "expiry_ledger now v = 365 * 17280"
    by (simp add: expiry_ledger_def baseTimestamp_def int_or_def isTerminalStatus_def ACTIVE_TTL_DAYS_def LEDGER_SECONDS_def)
  have "ceil_div (365 * 17280 - currentLedger) 17280 \<le> 0" using assms(2) by (intro ceil_div_le_0) simp_all
  with v exp show "buildTtlWarning now currentLedger v = Some \<lparr>tw_id = ti_id v, tw_status = Pending, tw_expiryLedger = 365 * 17280,
          tw_remainingDays = 0, tw_severity = high\<rparr>"
    by (simp add: buildTtlWarning_def shouldTrackInvoice_def WARNING_WINDOW_DAYS_def)
qed

theorem ttl_warnings_backwards_witness:
  "buildTtlWarning 1700000000123 50000000 \<lparr>ti_id = 7, ti_status = Pending, ti_createdAt = 1700000000, ti_fundedAt = 0,
      ti_paidAt = 0, ti_disputedAt = None\<rparr> \<noteq> None"
  using ttl_warnings_backwards [of 1700000000123 50000000 "\<lparr>ti_id = 7, ti_status = Pending, ti_createdAt = 1700000000,
      ti_fundedAt = 0, ti_paidAt = 0, ti_disputedAt = None\<rparr>"] by simp

end
