(* ===== verification/SseEvents.thy ===== *)
theory SseEvents
  imports AlertMonitor Replay
begin

text \<open>
  The browser's event polling service (\<open>frontend/lib/sse-events.ts\<close>): toasts, alerts and the event
  history of the store.

  The service is a state machine.  Its state has the fields of the class, the timers and visibility
  listeners that are live in the browser, the polls waiting for the RPC, the batches being processed,
  and a log of what was shown.  A poll is two steps, since it gives up control while it waits: the
  answer of the RPC (decoding, deduplication, role filter) and the processing of the batch.  The
  processing of one batch is one step.  The decoding of contract values, the formatting of numbers
  and the clock are arguments.
\<close>

section \<open>Configuration\<close>

definition DEFAULT_POLL_INTERVAL_MS :: millis where "DEFAULT_POLL_INTERVAL_MS = 15000"
definition MIN_POLL_INTERVAL_MS :: millis where "MIN_POLL_INTERVAL_MS = 5000"
definition MAX_EVENTS_HISTORY :: nat where "MAX_EVENTS_HISTORY = 100"

datatype UserRole = SME | Investor | Admin

record EventFilter =
  ef_eventTypes :: "string list"
  ef_notify :: bool

fun ROLE_EVENT_FILTERS :: "UserRole \<Rightarrow> EventFilter" where
  "ROLE_EVENT_FILTERS SME = \<lparr>ef_eventTypes = [''funded'', ''repaid'', ''default'', ''created''], ef_notify = True\<rparr>"
| "ROLE_EVENT_FILTERS Investor =
     \<lparr>ef_eventTypes = [''funded'', ''repaid'', ''deposit'', ''withdraw'', ''default''], ef_notify = True\<rparr>"
| "ROLE_EVENT_FILTERS Admin =
     \<lparr>ef_eventTypes = [''funded'', ''repaid'', ''default'', ''created'', ''deposit'', ''withdraw''], ef_notify = True\<rparr>"

section \<open>Toasts\<close>

record ToastConfig =
  to_title :: string
  to_description :: string
  to_kind :: string

text \<open>\<open>arr[i]\<close> on \<open>(value as unknown[]) ?? []\<close>, whatever the value is.\<close>

definition js_index :: "js \<Rightarrow> nat \<Rightarrow> js" where
  "js_index v i = (case v of
      JArr xs \<Rightarrow> elem_at xs i
    | JStr s \<Rightarrow> (if i < length s then JStr [s ! i] else JUndefined)
    | JObj _ \<Rightarrow> js_prop v (show_nat i)
    | _ \<Rightarrow> JUndefined)"

text \<open>\<open>Number(v) / 10_000_000\<close>.\<close>

definition human_amount :: "js \<Rightarrow> jnum" where
  "human_amount v = (case js_Number v of
      NInt n \<Rightarrow> strip_zeros n 7
    | NDec m e \<Rightarrow> strip_zeros m (e + 8)
    | x \<Rightarrow> x)"

text \<open>A template with \<open>v?.slice(0, 8)\<close>.\<close>

definition short_text :: "js \<Rightarrow> string result" where
  "short_text v = (case v of
      JUndefined \<Rightarrow> Inr ''undefined''
    | JNull \<Rightarrow> Inr ''undefined''
    | JStr s \<Rightarrow> Inr (take 8 s)
    | JArr xs \<Rightarrow> Inr (js_String (JArr (take 8 xs)))
    | _ \<Rightarrow> Inl (TypeError ''slice is not a function''))"

definition toast :: "string \<Rightarrow> string \<Rightarrow> string \<Rightarrow> ToastConfig" where
  "toast t d k = \<lparr>to_title = t, to_description = d, to_kind = k\<rparr>"

definition party_toast :: "string \<Rightarrow> string \<Rightarrow> js \<Rightarrow> string \<Rightarrow> string \<Rightarrow> ToastConfig result" where
  "party_toast title before party rest kind = (case short_text party of
      Inl e \<Rightarrow> Inl e
    | Inr s \<Rightarrow> Inr (toast title (before @ s @ ''... '' @ rest) kind))"

definition EVENT_TOAST_MAP :: "(jnum \<Rightarrow> string) \<Rightarrow> string \<Rightarrow> (js \<Rightarrow> js \<Rightarrow> ToastConfig result) option" where
  "EVENT_TOAST_MAP loc eventType =
     (if eventType = ''funded'' then Some (\<lambda>value txHash. Inr (toast ''Invoice Funded''
        (''Invoice #'' @ js_String (js_index value 0) @ '' has been funded for '' @ loc (human_amount (js_index value 2)) @ '' USDC''
          @ (if js_truthy txHash then '' -- view on StellarExpert'' else [])) ''success''))
      else if eventType = ''repaid'' then Some (\<lambda>value txHash. Inr (toast ''Invoice Repaid''
        (''Invoice #'' @ js_String (js_index value 0) @ '' repaid: '' @ loc (human_amount (js_index value 1)) @ '' USDC'') ''info''))
      else if eventType = ''default'' then Some (\<lambda>value txHash. Inr (toast ''Invoice Defaulted''
        ''An invoice has been marked as defaulted. Review positions immediately.'' ''error''))
      else if eventType = ''created'' then Some (\<lambda>value txHash. party_toast ''Invoice Created''
        (''New invoice #'' @ js_String (js_index value 0) @ '' created by '') (js_index value 1)
        (''for '' @ loc (human_amount (js_index value 2)) @ '' USDC'') ''info'')
      else if eventType = ''deposit'' then Some (\<lambda>value txHash. party_toast ''Pool Deposit'' [] (js_index value 0)
        (''deposited '' @ loc (human_amount (js_index value 1)) @ '' USDC'') ''info'')
      else if eventType = ''withdraw'' then Some (\<lambda>value txHash. party_toast ''Pool Withdrawal'' [] (js_index value 0)
        (''withdrew '' @ loc (human_amount (js_index value 1)) @ '' USDC'') ''warning'')
      else None)"

definition mapEventTypeToAlertType :: "string \<Rightarrow> AlertType option" where
  "mapEventTypeToAlertType eventType =
     map_of [(''funded'', INVOICE_FUNDED), (''repaid'', INVOICE_PAID), (''default'', INVOICE_DEFAULTED)] eventType"

definition mapEventTypeToPriority :: "string \<Rightarrow> AlertPriority" where
  "mapEventTypeToPriority eventType =
     (case map_of [(''funded'', MEDIUM), (''repaid'', MEDIUM), (''default'', CRITICAL), (''created'', LOW),
                   (''deposit'', LOW), (''withdraw'', MEDIUM)] eventType of
        Some p \<Rightarrow> p | None \<Rightarrow> LOW)"

definition buildAlertMessage :: "(jnum \<Rightarrow> string) \<Rightarrow> string \<Rightarrow> js \<Rightarrow> string" where
  "buildAlertMessage loc eventType value =
     (if eventType = ''funded'' then ''Invoice #'' @ js_String (js_index value 0) @ '' funded for '' @ loc (human_amount (js_index value 2)) @ '' USDC''
      else if eventType = ''repaid'' then ''Invoice #'' @ js_String (js_index value 0) @ '' repaid: '' @ loc (human_amount (js_index value 1)) @ '' USDC''
      else if eventType = ''default'' then ''An invoice has been marked as defaulted.''
      else if eventType = ''created'' then ''New invoice #'' @ js_String (js_index value 0) @ '' created''
      else if eventType = ''deposit'' then ''Pool deposit: '' @ loc (human_amount (js_index value 1)) @ '' USDC''
      else if eventType = ''withdraw'' then ''Pool withdrawal: '' @ loc (human_amount (js_index value 1)) @ '' USDC''
      else ''Event: '' @ eventType)"

section \<open>State\<close>

record sse_event =
  se_id :: string
  se_contractId :: string
  se_topic :: "js list"
  se_value :: js
  se_ledger :: int
  se_ledgerCloseAt :: string
  se_txHash :: js

record StoreEvent =
  st_event :: sse_event
  st_topic :: "string list"
  st_receivedAt :: millis

datatype shown = Toast string ToastConfig | Alert NotificationAlert | MonitorPoll | RefreshPosition

record sse_service =
  sv_intervalId :: "nat option"
  sv_pollIntervalMs :: millis
  sv_isRunning :: bool
  sv_processed :: "string list"
  sv_role :: UserRole
  sv_visibilityHandler :: "nat option"
  sv_cleanups :: "nat list"
  sv_consumerCount :: nat
  sv_timers :: "(nat \<times> millis) list"
  sv_listeners :: "nat list"
  sv_fresh :: nat
  sv_waiting :: nat
  sv_batches :: "sse_event list list"
  sv_recentEvents :: "StoreEvent list"
  sv_lastPollTime :: "millis option"
  sv_shown :: "shown list"
  sv_cleaned :: "nat list"

definition new_service :: sse_service where
  "new_service = \<lparr>sv_intervalId = None, sv_pollIntervalMs = DEFAULT_POLL_INTERVAL_MS, sv_isRunning = False, sv_processed = [],
     sv_role = Admin, sv_visibilityHandler = None, sv_cleanups = [], sv_consumerCount = 0, sv_timers = [], sv_listeners = [],
     sv_fresh = 0, sv_waiting = 0, sv_batches = [], sv_recentEvents = [], sv_lastPollTime = None, sv_shown = [], sv_cleaned = []\<rparr>"

section \<open>Timers and listeners\<close>

text \<open>\<open>setInterval\<close> and \<open>clearInterval\<close> of the browser: the handle is a fresh number.\<close>

definition set_timer :: "sse_service \<Rightarrow> sse_service" where
  "set_timer s = s\<lparr>sv_intervalId := Some (sv_fresh s), sv_timers := sv_timers s @ [(sv_fresh s, sv_pollIntervalMs s)],
     sv_fresh := Suc (sv_fresh s)\<rparr>"

definition clear_timer :: "sse_service \<Rightarrow> sse_service" where
  "clear_timer s = (case sv_intervalId s of
      None \<Rightarrow> s
    | Some i \<Rightarrow> s\<lparr>sv_intervalId := None, sv_timers := filter (\<lambda>t. fst t \<noteq> i) (sv_timers s)\<rparr>)"

definition setupVisibilityHandler :: "sse_service \<Rightarrow> sse_service" where
  "setupVisibilityHandler s = s\<lparr>sv_visibilityHandler := Some (sv_fresh s), sv_listeners := sv_listeners s @ [sv_fresh s],
     sv_fresh := Suc (sv_fresh s)\<rparr>"

definition removeVisibilityHandler :: "sse_service \<Rightarrow> sse_service" where
  "removeVisibilityHandler s = (case sv_visibilityHandler s of
      None \<Rightarrow> s
    | Some h \<Rightarrow> s\<lparr>sv_visibilityHandler := None, sv_listeners := filter (\<lambda>l. l \<noteq> h) (sv_listeners s)\<rparr>)"

section \<open>Operations\<close>

text \<open>The beginning of a poll, up to its first wait; without contract ids there is nothing to wait for.\<close>

definition poll_begin :: "bool \<Rightarrow> sse_service \<Rightarrow> sse_service" where
  "poll_begin configured s = (if sv_isRunning s \<and> configured then s\<lparr>sv_waiting := Suc (sv_waiting s)\<rparr> else s)"

definition setPollInterval :: "millis \<Rightarrow> sse_service \<Rightarrow> sse_service" where
  "setPollInterval intervalMs s =
     (let s1 = s\<lparr>sv_pollIntervalMs := max MIN_POLL_INTERVAL_MS intervalMs\<rparr> in
      if sv_isRunning s1 \<and> sv_intervalId s1 \<noteq> None then set_timer (clear_timer s1) else s1)"

definition start_service :: "bool \<Rightarrow> bool \<Rightarrow> millis option \<Rightarrow> UserRole option \<Rightarrow> sse_service \<Rightarrow> sse_service" where
  "start_service browser configured intervalMs role s0 =
     (let s = s0\<lparr>sv_consumerCount := Suc (sv_consumerCount s0)\<rparr> in
      if sv_isRunning s then s
      else if \<not> browser then s
      else
        (let s1 = (case intervalMs of Some ms \<Rightarrow> if ms \<noteq> 0 then setPollInterval ms s else s | None \<Rightarrow> s);
             s2 = (case role of Some r \<Rightarrow> s1\<lparr>sv_role := r\<rparr> | None \<Rightarrow> s1);
             s3 = setupVisibilityHandler (s2\<lparr>sv_isRunning := True\<rparr>)
         in set_timer (poll_begin configured s3)))"

definition stop_service :: "sse_service \<Rightarrow> sse_service" where
  "stop_service s0 =
     (let s = s0\<lparr>sv_consumerCount := sv_consumerCount s0 - 1\<rparr> in
      if 0 < sv_consumerCount s then s
      else (let s1 = removeVisibilityHandler (clear_timer s) in
        s1\<lparr>sv_isRunning := False, sv_processed := [], sv_cleaned := sv_cleaned s1 @ sv_cleanups s1, sv_cleanups := []\<rparr>))"

definition setRole :: "UserRole \<Rightarrow> sse_service \<Rightarrow> sse_service" where
  "setRole role s = s\<lparr>sv_role := role\<rparr>"

definition onCleanup :: "nat \<Rightarrow> sse_service \<Rightarrow> sse_service" where
  "onCleanup cb s = s\<lparr>sv_cleanups := sv_cleanups s @ [cb]\<rparr>"

text \<open>A visibility change reaches every live listener.\<close>

definition on_visibility :: "bool \<Rightarrow> bool \<Rightarrow> sse_service \<Rightarrow> sse_service" where
  "on_visibility configured hidden s =
     (if hidden then clear_timer s
      else if sv_intervalId s = None \<and> sv_isRunning s then set_timer (poll_begin configured s) else s)"

section \<open>Events\<close>

definition decode_sse :: "(js \<Rightarrow> js result) \<Rightarrow> raw_event \<Rightarrow> sse_event result" where
  "decode_sse scValToNative e = (case map_result scValToNative (re_topic e) of
      Inl err \<Rightarrow> Inl err
    | Inr topic \<Rightarrow> (case scValToNative (re_value e) of
          Inl err \<Rightarrow> Inl err
        | Inr v \<Rightarrow> Inr \<lparr>se_id = re_id e, se_contractId = re_contractId e, se_topic = topic, se_value = v, se_ledger = re_ledger e,
             se_ledgerCloseAt = re_ledgerCloseAt e, se_txHash = (case re_txHash e of Some t \<Rightarrow> JStr t | None \<Rightarrow> JUndefined)\<rparr>))"

definition event_type_of :: "sse_event \<Rightarrow> string option" where
  "event_type_of e = (case elem_at (se_topic e) 1 of JStr t \<Rightarrow> Some t | _ \<Rightarrow> None)"

definition filterEventsByRole :: "UserRole \<Rightarrow> sse_event list \<Rightarrow> sse_event list" where
  "filterEventsByRole role events = filter (\<lambda>e. case event_type_of e of
      Some t \<Rightarrow> t \<in> set (ef_eventTypes (ROLE_EVENT_FILTERS role)) | None \<Rightarrow> False) events"

text \<open>The first ledger asked for.\<close>

definition sse_start_ledger :: "int \<Rightarrow> int" where
  "sse_start_ledger latest = max 1 (latest - 50)"

text \<open>The answer to \<open>fetchNewEvents\<close>: new events are marked before the role filter.\<close>

definition fetchNewEvents :: "(js \<Rightarrow> js result) \<Rightarrow> raw_event list result \<Rightarrow> sse_service \<Rightarrow> sse_event list \<times> sse_service" where
  "fetchNewEvents scValToNative answer s =
     (case answer of
        Inl e \<Rightarrow> ([], s)
      | Inr raws \<Rightarrow> (case map_result (decode_sse scValToNative) raws of
            Inl e \<Rightarrow> ([], s)
          | Inr events \<Rightarrow>
              (let newEvents = filter (\<lambda>e. se_id e \<notin> set (sv_processed s)) events in
               (filterEventsByRole (sv_role s) newEvents,
                s\<lparr>sv_processed := fold (\<lambda>e. oset_add (se_id e)) newEvents (sv_processed s)\<rparr>))))"

definition sse_processEvent :: "(jnum \<Rightarrow> string) \<Rightarrow> millis \<Rightarrow> UserRole \<Rightarrow> sse_event \<Rightarrow> shown list result" where
  "sse_processEvent loc now role e = (case event_type_of e of
      None \<Rightarrow> Inr []
    | Some t \<Rightarrow>
        (case (if ef_notify (ROLE_EVENT_FILTERS role) then
                 (case EVENT_TOAST_MAP loc t of
                    None \<Rightarrow> Inr []
                  | Some build \<Rightarrow> (case build (se_value e) (se_txHash e) of
                        Inl err \<Rightarrow> Inl err | Inr tc \<Rightarrow> Inr [Toast (''sse-'' @ se_id e) tc]))
               else Inr []) of
           Inl err \<Rightarrow> Inl err
         | Inr toasts \<Rightarrow> Inr (toasts @
             (case mapEventTypeToAlertType t of
                None \<Rightarrow> []
              | Some alertType \<Rightarrow> [Alert \<lparr>na_id = ''sse-alert-'' @ se_id e, na_type = alertType, na_priority = mapEventTypeToPriority t,
                  na_message = buildAlertMessage loc t (se_value e), na_timestamp = now,
                  na_data = JObj [(''eventType'', JStr t), (''contractType'', JStr (se_contractId e)), (''txHash'', se_txHash e),
                    (''ledger'', JNum (NInt (se_ledger e))), (''value'', se_value e)]\<rparr>]) @ [MonitorPoll])))"

text \<open>The events of a batch in order; the first that throws ends the batch.\<close>

fun process_batch :: "(jnum \<Rightarrow> string) \<Rightarrow> millis \<Rightarrow> UserRole \<Rightarrow> sse_event list \<Rightarrow> shown list \<times> bool" where
  "process_batch loc now role [] = ([], True)"
| "process_batch loc now role (e # es) = (case sse_processEvent loc now role e of
      Inl err \<Rightarrow> ([], False)
    | Inr xs \<Rightarrow> (case process_batch loc now role es of (ys, ok) \<Rightarrow> (xs @ ys, ok)))"

definition updateStore :: "millis \<Rightarrow> sse_event list \<Rightarrow> sse_service \<Rightarrow> sse_service" where
  "updateStore now events s = s\<lparr>
     sv_recentEvents := take MAX_EVENTS_HISTORY
       (map (\<lambda>e. \<lparr>st_event = e, st_topic = map js_String (se_topic e), st_receivedAt = now\<rparr>) events @ sv_recentEvents s),
     sv_lastPollTime := Some now\<rparr>"

definition poll_fetched :: "(js \<Rightarrow> js result) \<Rightarrow> raw_event list result \<Rightarrow> sse_service \<Rightarrow> sse_service" where
  "poll_fetched scValToNative answer s =
     (case fetchNewEvents scValToNative answer s of (events, s') \<Rightarrow>
        s'\<lparr>sv_waiting := sv_waiting s' - 1, sv_batches := (if events = [] then sv_batches s' else sv_batches s' @ [events])\<rparr>)"

definition poll_finish :: "(jnum \<Rightarrow> string) \<Rightarrow> millis \<Rightarrow> nat \<Rightarrow> sse_service \<Rightarrow> sse_service" where
  "poll_finish loc now i s =
     (let events = sv_batches s ! i;
          s1 = s\<lparr>sv_batches := take i (sv_batches s) @ drop (Suc i) (sv_batches s)\<rparr>;
          (xs, ok) = process_batch loc now (sv_role s) events;
          s2 = s1\<lparr>sv_shown := sv_shown s1 @ xs\<rparr>
      in if ok then
           (let s3 = updateStore now events s2 in
            if sv_role s3 = Investor then s3\<lparr>sv_shown := sv_shown s3 @ [RefreshPosition]\<rparr> else s3)
         else s2)"

section \<open>The state machine\<close>

record sse_env =
  ev_configured :: bool
  ev_scValToNative :: "js \<Rightarrow> js result"
  ev_toLocaleString :: "jnum \<Rightarrow> string"

datatype sse_action =
    Start bool "millis option" "UserRole option"
  | Stop
  | SetPollInterval millis
  | SetRole UserRole
  | OnCleanup nat
  | TimerFires nat
  | VisibilityChange bool
  | Fetched "raw_event list result"
  | BatchDone millis nat

inductive sse_step :: "sse_env \<Rightarrow> sse_service \<Rightarrow> sse_action \<Rightarrow> sse_service \<Rightarrow> bool" for env where
  step_start: "sse_step env s (Start browser ms role) (start_service browser (ev_configured env) ms role s)"
| step_stop: "sse_step env s Stop (stop_service s)"
| step_interval: "sse_step env s (SetPollInterval ms) (setPollInterval ms s)"
| step_role: "sse_step env s (SetRole role) (setRole role s)"
| step_cleanup: "sse_step env s (OnCleanup cb) (onCleanup cb s)"
| step_timer: "i \<in> fst ` set (sv_timers s) \<Longrightarrow> sse_step env s (TimerFires i) (poll_begin (ev_configured env) s)"
| step_visibility: "sse_step env s (VisibilityChange hidden)
    (fold (\<lambda>l. on_visibility (ev_configured env) hidden) (sv_listeners s) s)"
| step_fetched: "0 < sv_waiting s \<Longrightarrow> sse_step env s (Fetched answer) (poll_fetched (ev_scValToNative env) answer s)"
| step_batch: "i < length (sv_batches s) \<Longrightarrow> sse_step env s (BatchDone now i) (poll_finish (ev_toLocaleString env) now i s)"

inductive_cases sse_stepE: "sse_step env s a s'"

inductive sse_reachable :: "sse_env \<Rightarrow> sse_service \<Rightarrow> bool" for env where
  reach_init: "sse_reachable env new_service"
| reach_step: "sse_reachable env s \<Longrightarrow> sse_step env s a s' \<Longrightarrow> sse_reachable env s'"

text \<open>The timers and listeners of the browser are exactly those the service holds a handle of.\<close>

definition service_wf :: "sse_service \<Rightarrow> bool" where
  "service_wf s \<longleftrightarrow>
     MIN_POLL_INTERVAL_MS \<le> sv_pollIntervalMs s
     \<and> sv_timers s = (case sv_intervalId s of None \<Rightarrow> [] | Some i \<Rightarrow> [(i, sv_pollIntervalMs s)])
     \<and> sv_listeners s = (case sv_visibilityHandler s of None \<Rightarrow> [] | Some h \<Rightarrow> [h])
     \<and> (sv_intervalId s \<noteq> None \<longrightarrow> sv_isRunning s)
     \<and> (sv_visibilityHandler s \<noteq> None) = sv_isRunning s
     \<and> (sv_isRunning s \<longrightarrow> 0 < sv_consumerCount s)
     \<and> length (sv_recentEvents s) \<le> MAX_EVENTS_HISTORY
     \<and> distinct (sv_processed s)"

lemmas service_defs = set_timer_def clear_timer_def setupVisibilityHandler_def removeVisibilityHandler_def poll_begin_def
  setPollInterval_def setRole_def onCleanup_def on_visibility_def Let_def

lemma wf_set_timer: "service_wf s \<Longrightarrow> sv_intervalId s = None \<Longrightarrow> sv_isRunning s \<Longrightarrow> service_wf (set_timer s)"
  and wf_clear_timer: "service_wf s \<Longrightarrow> service_wf (clear_timer s)"
  and wf_poll_begin: "service_wf s \<Longrightarrow> service_wf (poll_begin cfg s)"
  by (auto simp: service_wf_def service_defs split: option.splits)

lemma clear_timer_simps [simp]:
  "sv_intervalId (clear_timer s) = None" "sv_isRunning (clear_timer s) = sv_isRunning s"
  "sv_pollIntervalMs (clear_timer s) = sv_pollIntervalMs s"
  by (simp_all add: clear_timer_def split: option.splits)

lemma poll_begin_simps [simp]:
  "sv_intervalId (poll_begin cfg s) = sv_intervalId s" "sv_isRunning (poll_begin cfg s) = sv_isRunning s"
  by (simp_all add: poll_begin_def)

lemma wf_setPollInterval: "service_wf s \<Longrightarrow> service_wf (setPollInterval ms s)"
  by (auto simp: service_wf_def service_defs split: option.splits)

lemma setPollInterval_simps [simp]:
  "sv_isRunning (setPollInterval ms s) = sv_isRunning s" "sv_consumerCount (setPollInterval ms s) = sv_consumerCount s"
  by (auto simp: service_defs split: option.splits)

lemma wf_launch:
  assumes "service_wf s" "\<not> sv_isRunning s" "0 < sv_consumerCount s"
  shows "service_wf (set_timer (poll_begin cfg (setupVisibilityHandler (s\<lparr>sv_isRunning := True\<rparr>))))"
  using assms by (intro wf_set_timer wf_poll_begin) (auto simp: service_wf_def setupVisibilityHandler_def split: option.splits)

lemma wf_more_consumers: "service_wf s \<Longrightarrow> service_wf (s\<lparr>sv_consumerCount := Suc n\<rparr>)"
  and wf_role: "service_wf s \<Longrightarrow> service_wf (setRole r s)"
  and wf_cleanup: "service_wf s \<Longrightarrow> service_wf (onCleanup cb s)"
  by (simp_all add: service_wf_def setRole_def onCleanup_def split: option.splits)

lemma wf_start:
  assumes "service_wf s"
  shows "service_wf (start_service browser cfg ms role s)"
proof -
  let ?s = "s\<lparr>sv_consumerCount := Suc (sv_consumerCount s)\<rparr>"
  let ?s1 = "case ms of Some m \<Rightarrow> if m \<noteq> 0 then setPollInterval m ?s else ?s | None \<Rightarrow> ?s"
  let ?s2 = "case role of Some r \<Rightarrow> ?s1\<lparr>sv_role := r\<rparr> | None \<Rightarrow> ?s1"
  have "service_wf ?s" using assms by (rule wf_more_consumers)
  then have "service_wf ?s2" by (auto split: option.splits intro: wf_role [unfolded setRole_def] wf_setPollInterval)
  moreover have "sv_isRunning ?s2 = sv_isRunning s" "0 < sv_consumerCount ?s2" by (auto split: option.splits)
  ultimately show ?thesis
    using wf_launch [of ?s2 cfg] \<open>service_wf ?s\<close> by (simp add: start_service_def Let_def)
qed

lemma wf_stop: "service_wf s \<Longrightarrow> service_wf (stop_service s)"
  by (auto simp: service_wf_def stop_service_def service_defs split: option.splits)

lemma wf_visibility: "service_wf s \<Longrightarrow> service_wf (on_visibility cfg hidden s)"
  by (simp add: on_visibility_def wf_clear_timer wf_set_timer wf_poll_begin)

lemma wf_fold_visibility: "service_wf s \<Longrightarrow> service_wf (fold (\<lambda>l. on_visibility cfg hidden) ls s)"
  by (induction ls arbitrary: s) (auto intro: wf_visibility)

lemma distinct_fold_mark: "distinct acc \<Longrightarrow> distinct (fold (\<lambda>e. oset_add (f e)) xs acc)"
  by (induction xs arbitrary: acc) auto

lemma wf_fetched: "service_wf s \<Longrightarrow> service_wf (poll_fetched native answer s)"
  by (auto simp: service_wf_def poll_fetched_def fetchNewEvents_def Let_def distinct_fold_mark split: sum.splits option.splits)

lemma wf_finish: "service_wf s \<Longrightarrow> service_wf (poll_finish loc now i s)"
  by (auto simp: service_wf_def poll_finish_def updateStore_def Let_def split: prod.splits option.splits)

lemma wf_new: "service_wf new_service"
  by (simp add: service_wf_def new_service_def DEFAULT_POLL_INTERVAL_MS_def MIN_POLL_INTERVAL_MS_def)

lemma wf_step: "sse_step env s a s' \<Longrightarrow> service_wf s \<Longrightarrow> service_wf s'"
  by (induction rule: sse_step.induct)
    (simp_all add: wf_start wf_stop wf_setPollInterval wf_role wf_cleanup wf_poll_begin wf_fold_visibility wf_fetched wf_finish)

text \<open>
  The polling service is well formed in every reachable state, whatever its consumers, the page
  and the RPC do: the live timers of the browser are exactly the one whose handle the service
  keeps, at a period of at least five seconds; one visibility listener is registered while it runs and
  none otherwise; it runs only while it has consumers; the processed ids are distinct and the stored
  history never exceeds a hundred events.  In particular no timer or listener is leaked.
\<close>

theorem service_well_formed:
  assumes "sse_reachable env s"
  shows "service_wf s"
  using assms by induction (simp_all add: wf_new wf_step)

definition example_env :: sse_env where
  "example_env = \<lparr>ev_configured = True, ev_scValToNative = Inr, ev_toLocaleString = show_jnum\<rparr>"

theorem service_well_formed_witness:
  "service_wf (start_service True True (Some 1000) (Some Investor) new_service)
   \<and> map snd (sv_timers (start_service True True (Some 1000) (Some Investor) new_service)) = [5000]"
proof
  have "sse_reachable example_env (start_service True (ev_configured example_env) (Some 1000) (Some Investor) new_service)"
    by (rule reach_step [OF reach_init step_start])
  then show "service_wf (start_service True True (Some 1000) (Some Investor) new_service)"
    using service_well_formed by (simp add: example_env_def)
qed (simp add: start_service_def service_defs new_service_def MIN_POLL_INTERVAL_MS_def)

text \<open>Stopping the last consumer releases everything.\<close>

lemma last_stop_releases:
  assumes "service_wf s" "sv_consumerCount s \<le> 1"
  shows "sv_timers (stop_service s) = [] \<and> sv_listeners (stop_service s) = [] \<and> \<not> sv_isRunning (stop_service s)
    \<and> sv_cleaned (stop_service s) = sv_cleaned s @ sv_cleanups s"
  using assms by (auto simp: service_wf_def stop_service_def service_defs split: option.splits)

section \<open>Every event once\<close>

definition handed :: "sse_env \<Rightarrow> sse_action \<Rightarrow> sse_service \<Rightarrow> string list" where
  "handed env a s = (case a of
      Fetched answer \<Rightarrow> map se_id (fst (fetchNewEvents (ev_scValToNative env) answer s))
    | _ \<Rightarrow> [])"

text \<open>What the RPC documents of an answer: no event is listed twice.\<close>

definition answer_distinct :: "sse_action \<Rightarrow> bool" where
  "answer_distinct a = (case a of Fetched (Inr raws) \<Rightarrow> distinct (map re_id raws) | _ \<Rightarrow> True)"

text \<open>A session: any steps but the stop of the last consumer, with the ids handed to processing.\<close>

inductive sse_session :: "sse_env \<Rightarrow> sse_service \<Rightarrow> string list \<Rightarrow> sse_service \<Rightarrow> bool" for env s where
  session_refl: "sse_session env s [] s"
| session_step: "sse_session env s ids s' \<Longrightarrow> sse_step env s' a s'' \<Longrightarrow> answer_distinct a
    \<Longrightarrow> \<not> (a = Stop \<and> sv_consumerCount s' \<le> 1) \<Longrightarrow> sse_session env s (ids @ handed env a s') s''"

lemma map_result_ids:
  "map_result (decode_sse native) raws = Inr events \<Longrightarrow> map se_id events = map re_id raws"
  by (induction raws arbitrary: events) (auto simp: decode_sse_def split: sum.splits)

lemma set_fold_mark: "set (fold (\<lambda>e. oset_add (f e)) xs acc) = set acc \<union> f ` set xs"
  by (induction xs arbitrary: acc) auto

lemma fetched_ids:
  assumes "case answer of Inr raws \<Rightarrow> distinct (map re_id raws) | _ \<Rightarrow> True"
    and "fetchNewEvents native answer s = (events, s')"
  shows "distinct (map se_id events) \<and> se_id ` set events \<inter> set (sv_processed s) = {}
     \<and> se_id ` set events \<subseteq> set (sv_processed s') \<and> set (sv_processed s) \<subseteq> set (sv_processed s')"
proof -
  have ids: "distinct (map se_id es)" if "map_result (decode_sse native) raws = Inr es" "distinct (map re_id raws)" for raws es
    using map_result_ids [OF that(1)] that(2) by simp
  show ?thesis
    using assms
    by (auto simp: fetchNewEvents_def filterEventsByRole_def Let_def set_fold_mark distinct_map_filter ids split: sum.splits)
qed

lemma poll_fetched_processed:
  "sv_processed (poll_fetched native answer s) = sv_processed (snd (fetchNewEvents native answer s))"
  by (simp add: poll_fetched_def split: prod.splits)

lemma processed_kept:
  assumes "sse_step env s a s'" "\<not> (a = Stop \<and> sv_consumerCount s \<le> 1)" "\<forall>answer. a \<noteq> Fetched answer"
  shows "sv_processed s' = sv_processed s"
proof -
  have vis: "sv_processed (fold (\<lambda>l. on_visibility cfg hidden) ls s) = sv_processed s" for cfg hidden ls
    by (induction ls arbitrary: s) (auto simp: service_defs split: option.splits)
  show ?thesis
    using assms(1)
    by (cases rule: sse_step.cases)
      (use assms(2,3) vis in \<open>auto simp: start_service_def stop_service_def service_defs poll_finish_def updateStore_def
        split: option.splits prod.splits if_splits\<close>)
qed

text \<open>
  Within a session no event is handed to processing twice, whatever the overlap of polls, the
  look-back of fifty ledgers that makes every answer repeat earlier events, role changes and page
  visibility: the ids handed over are distinct, none was marked before the session, and all of them
  are marked after it.
\<close>

theorem events_handed_once:
  assumes "sse_session env s ids s'"
  shows "distinct ids \<and> set ids \<inter> set (sv_processed s) = {} \<and> set ids \<union> set (sv_processed s) \<subseteq> set (sv_processed s')"
  using assms
proof induction
  case (session_step ids s' a s'')
  show ?case
  proof (cases "\<exists>answer. a = Fetched answer")
    case True
    then obtain answer where a: "a = Fetched answer" by blast
    obtain events t where f: "fetchNewEvents (ev_scValToNative env) answer s' = (events, t)" by fastforce
    have s'': "sv_processed s'' = sv_processed t"
      using session_step.hyps(2) f unfolding a by (auto elim: sse_stepE simp: poll_fetched_processed)
    have "case answer of Inr raws \<Rightarrow> distinct (map re_id raws) | _ \<Rightarrow> True"
      using session_step.hyps(3) by (simp add: a answer_distinct_def)
    from fetched_ids [OF this f] session_step.IH s'' show ?thesis by (auto simp: a handed_def f)
  next
    case False
    then have "handed env a s' = []" by (cases a) (auto simp: handed_def)
    then show ?thesis using session_step processed_kept [of env s' a s''] False by auto
  qed
qed simp

definition example_funded :: raw_event where
  "example_funded = \<lparr>re_id = ''e1'', re_contractId = ''P'', re_topic = [JStr ''pool'', JStr ''funded''],
     re_value = JArr [JBigInt 7, JStr ''GSME'', JBigInt 12500000], re_ledger = 50, re_ledgerCloseAt = '''', re_txHash = None\<rparr>"

definition example_session :: sse_service where
  "example_session = new_service\<lparr>sv_isRunning := True, sv_consumerCount := 1, sv_waiting := 2\<rparr>"

theorem events_handed_once_witness:
  "\<exists>s'. sse_session example_env example_session ([''e1''] @ []) s' \<and> distinct ([''e1''] @ ([] :: string list))"
proof -
  let ?a = "Fetched (Inr [example_funded])"
  let ?f = "poll_fetched Inr (Inr [example_funded])"
  have step: "sse_step example_env s ?a (?f s)" if "0 < sv_waiting s" for s
    using step_fetched [OF that, of example_env "Inr [example_funded]"] by (simp add: example_env_def)
  have one: "handed example_env ?a example_session = [''e1'']"
    by (simp add: handed_def fetchNewEvents_def example_env_def example_funded_def example_session_def new_service_def
        decode_sse_def filterEventsByRole_def event_type_of_def elem_at_def)
  have two: "handed example_env ?a (?f example_session) = []" "0 < sv_waiting (?f example_session)"
    by (simp_all add: handed_def poll_fetched_def fetchNewEvents_def example_env_def example_funded_def example_session_def
        new_service_def decode_sse_def filterEventsByRole_def event_type_of_def elem_at_def oset_add_def)
  have "sse_session example_env example_session ([] @ [''e1'']) (?f example_session)"
    using session_step [OF session_refl, of example_env example_session ?a] step [of example_session] one
    by (simp add: answer_distinct_def example_session_def)
  from session_step [OF this step [OF two(2)]] two(1)
  have "sse_session example_env example_session ([''e1''] @ []) (?f (?f example_session))"
    by (simp add: answer_distinct_def)
  with events_handed_once [OF this] show ?thesis by blast
qed

section \<open>Amounts shown\<close>

lemma prefixed_nat_address:
  assumes "c \<noteq> CHR ''0''"
  shows "prefixed_nat (c # s) = None"
  using assms by (simp add: prefixed_nat_def)

text \<open>A deposit as the contract publishes it is announced with the amount NaN: the field read is the token.\<close>

lemma address_Number: "stellar_address s \<Longrightarrow> js_Number (JStr s) = NNaN"
proof -
  assume s: "stellar_address s"
  obtain c cs where cs: "s = c # cs" "c \<in> {CHR ''C'', CHR ''G''}" "list_all is_base32 cs"
    using s by (cases s) (auto simp: stellar_address_def)
  have sp: "\<not> is_space x" if "x \<in> set s" for x
    using that cs by (auto simp: list_all_iff is_base32_def is_space_def Let_def)
  have id: "dropWhile is_space xs = xs" if "set xs \<subseteq> set s" for xs
    using that sp by (cases xs) auto
  have "trim s = s" using id [of s] id [of "rev s"] by (simp add: trim_def)
  moreover have "\<not> is_digit c" "c \<noteq> CHR ''-''" "c \<noteq> CHR ''+''" "c \<noteq> CHR ''0''" "c \<noteq> CHR ''.''" "c \<noteq> CHR ''I''"
    using cs(2) by (auto simp: is_digit_def)
  ultimately show ?thesis
    by (simp add: js_Number_def string_Number_def cs(1) prefixed_nat_address unsigned_number_def Let_def)
qed

lemma deposit_toast_nan:
  assumes "stellar_address token"
  shows "map_option (\<lambda>build. build (pool_deposit_value investor token received shares ts) txHash) (EVENT_TOAST_MAP loc ''deposit'')
    = Some (Inr (toast ''Pool Deposit'' (take 8 investor @ ''... deposited '' @ loc NNaN @ '' USDC'') ''info''))"
  using address_Number [OF assms]
  by (simp add: EVENT_TOAST_MAP_def party_toast_def pool_deposit_value_def js_index_def elem_at_def short_text_def human_amount_def)

section \<open>The stored history\<close>

definition store_rows :: "millis \<Rightarrow> sse_event list \<Rightarrow> StoreEvent list" where
  "store_rows now events = map (\<lambda>e. \<lparr>st_event = e, st_topic = map js_String (se_topic e), st_receivedAt = now\<rparr>) events"

definition push_recent :: "StoreEvent \<Rightarrow> StoreEvent list \<Rightarrow> StoreEvent list" where
  "push_recent x l = take MAX_EVENTS_HISTORY (x # l)"

interpretation history_log: bounded_log MAX_EVENTS_HISTORY push_recent "\<lambda>l. l"
  by unfold_locales (simp add: push_recent_def)

lemma updateStore_pushes:
  "length (sv_recentEvents s) \<le> MAX_EVENTS_HISTORY \<Longrightarrow>
   sv_recentEvents (updateStore now events s) = fold push_recent (rev (store_rows now events)) (sv_recentEvents s)"
  using history_log.newest_fold_push [of "sv_recentEvents s" "rev (store_rows now events)"]
  by (simp add: updateStore_def store_rows_def)

text \<open>After any number of batches the store has the newest hundred events, the latest batch first.\<close>

lemma history_newest:
  assumes "length (sv_recentEvents s) \<le> MAX_EVENTS_HISTORY"
  shows "sv_recentEvents (fold (\<lambda>(now, es). updateStore now es) bs s) =
    take MAX_EVENTS_HISTORY (concat (map (\<lambda>(now, es). store_rows now es) (rev bs)) @ sv_recentEvents s)"
proof -
  have "sv_recentEvents (fold (\<lambda>(now, es). updateStore now es) bs s) =
      fold push_recent (concat (map (\<lambda>(now, es). rev (store_rows now es)) bs)) (sv_recentEvents s)"
    using assms
  proof (induction bs arbitrary: s)
    case (Cons b bs)
    obtain now es where b: "b = (now, es)" by fastforce
    have "length (sv_recentEvents (updateStore now es s)) \<le> MAX_EVENTS_HISTORY" by (simp add: updateStore_def)
    from Cons.IH [OF this] show ?case using Cons.prems by (simp add: b updateStore_pushes)
  qed simp
  moreover have "rev (concat (map (\<lambda>(now, es). rev (store_rows now es)) bs)) = concat (map (\<lambda>(now, es). store_rows now es) (rev bs))"
    by (simp add: rev_concat rev_map comp_def case_prod_unfold)
  ultimately show ?thesis using history_log.newest_fold_push [OF assms] by simp
qed

end
