(* ===== verification/Auth.thy ===== *)
theory Auth
  imports Tickets
begin

text \<open>
  Who a request comes from: the sign-in routes (\<open>app/api/auth/challenge/route.ts\<close>,
  \<open>app/api/auth/token/route.ts\<close>), the client side (\<open>frontend/lib/auth.ts\<close>), and the
  protection against forged requests (\<open>frontend/middleware.ts\<close>, \<open>frontend/lib/csrf.ts\<close>).

  The Stellar SDK (building and parsing envelopes, checking keys and signatures), the package that
  signs tokens, the wallet, the network and base64 are arguments.  What the client does to the
  outside is a list of calls; the token in \<open>localStorage\<close> is part of its state.
\<close>

section \<open>Challenge\<close>

definition nonce_chars :: string where
  "nonce_chars = ''abcdefghijklmnopqrstuvwxyz0123456789''"

text \<open>\<open>randoms\<close> are the values of \<open>Math.floor(Math.random() * 36)\<close>.\<close>

definition randomNonce :: "nat list \<Rightarrow> string" where
  "randomNonce randoms = map (\<lambda>r. nonce_chars ! r) randoms"

record challenge_spec =
  ch_data_name :: string
  ch_data_value :: string
  ch_source :: string
  ch_maxTime :: int

text \<open>\<open>String(body?.field ?? '').trim()\<close>; a body that is no JSON is an empty object.\<close>

definition body_field :: "js result \<Rightarrow> string \<Rightarrow> string" where
  "body_field body field = trim (js_String (js_coalesce
     (js_prop (case body of Inr b \<Rightarrow> b | Inl _ \<Rightarrow> JObj []) field) (JStr [])))"

definition challenge_POST ::
  "(string \<Rightarrow> challenge_spec \<Rightarrow> (string \<times> string) result) \<Rightarrow> (string \<Rightarrow> string) \<Rightarrow> string option \<Rightarrow> string
   \<Rightarrow> js result \<Rightarrow> nat list \<Rightarrow> nat list \<Rightarrow> millis \<Rightarrow> http_answer" where
  "challenge_POST build base64 seed passphrase body name_randoms value_randoms now =
     (case seed of
        Some (c # cs) \<Rightarrow>
          (let account = body_field body ''account'' in
           if account = [] \<or> \<not> startsWith account ''G'' then json_error 400 ''invalid_account''
           else (case build (c # cs) \<lparr>ch_data_name = ''sep0010_auth_'' @ randomNonce name_randoms,
                   ch_data_value = base64 (randomNonce value_randoms), ch_source = account, ch_maxTime = now div 1000 + 300\<rparr> of
               Inl _ \<Rightarrow> json_error 500 ''server_error''
             | Inr (envelope, server) \<Rightarrow> JsonAnswer 200 (JObj [(''transaction'', JStr envelope),
                 (''network_passphrase'', JStr passphrase), (''server_account'', JStr server)])))
      | _ \<Rightarrow> json_error 500 ''Server not configured'')"

section \<open>Token\<close>

record tx_op =
  op_type :: string
  op_source :: "string option"

record signed_tx =
  tx_hash :: string
  tx_operations :: "tx_op list"
  tx_signatures :: "string list"

record sdk_env =
  sdk_fromXDR :: "string \<Rightarrow> signed_tx result"
  sdk_isValidKey :: "string \<Rightarrow> bool"
  sdk_verify :: "string \<Rightarrow> string \<Rightarrow> string \<Rightarrow> bool result"
  sdk_signJwt :: "string \<Rightarrow> string \<Rightarrow> int \<Rightarrow> int \<Rightarrow> string result"

text \<open>The source of the first \<open>manageData\<close> operation that has one.\<close>

fun client_account :: "tx_op list \<Rightarrow> string option" where
  "client_account [] = None"
| "client_account (p # ps) = (case op_source p of
      Some (c # cs) \<Rightarrow> (if op_type p = ''manageData'' then Some (c # cs) else client_account ps)
    | _ \<Rightarrow> client_account ps)"

text \<open>A signature whose check throws is skipped.\<close>

definition client_signed :: "sdk_env \<Rightarrow> string \<Rightarrow> signed_tx \<Rightarrow> bool" where
  "client_signed env account tx = list_ex (\<lambda>s. sdk_verify env account (tx_hash tx) s = Inr True) (tx_signatures tx)"

definition token_POST :: "sdk_env \<Rightarrow> string option \<Rightarrow> string option \<Rightarrow> js result \<Rightarrow> millis \<Rightarrow> http_answer" where
  "token_POST env secret seed body ms =
     (case (secret, seed) of
        (Some key, Some (c # cs)) \<Rightarrow>
          (let signedXdr = body_field body ''signed_xdr'' in
           if signedXdr = [] then json_error 400 ''missing_signed_xdr''
           else (case sdk_fromXDR env signedXdr of
               Inl _ \<Rightarrow> json_error 400 ''invalid_request''
             | Inr tx \<Rightarrow>
                 (case client_account (tx_operations tx) of
                    None \<Rightarrow> json_error 400 ''invalid_challenge''
                  | Some account \<Rightarrow>
                      if \<not> sdk_isValidKey env account then json_error 400 ''invalid_challenge''
                      else if \<not> client_signed env account tx then json_error 401 ''invalid_signature''
                      else (let now = ms div 1000; expiresAt = now + 60 * 60 * 24 in
                        case sdk_signJwt env key account now expiresAt of
                          Inl _ \<Rightarrow> json_error 400 ''invalid_request''
                        | Inr token \<Rightarrow> JsonAnswer 200 (JObj [(''token'', JStr token), (''expires_at'', JNum (NInt expiresAt))])))))
      | _ \<Rightarrow> json_error 500 ''server_not_configured'')"

section \<open>The client's token\<close>

definition REFRESH_MARGIN_MS :: millis where "REFRESH_MARGIN_MS = 5 * 60 * 1000"

text \<open>The second part of the token, if it has one.\<close>

definition token_part :: "string \<Rightarrow> string" where
  "token_part token = takeWhile (\<lambda>c. c \<noteq> CHR ''.'') (drop 1 (dropWhile (\<lambda>c. c \<noteq> CHR ''.'') token))"

definition from_base64url :: "string \<Rightarrow> string" where
  "from_base64url s = map (\<lambda>c. if c = CHR ''-'' then CHR ''+'' else if c = CHR ''_'' then CHR ''/'' else c) s"

definition getTokenExpiry :: "(string \<Rightarrow> string option) \<Rightarrow> string \<Rightarrow> jnum option" where
  "getTokenExpiry atob token =
     (if token_part token = [] then None
      else (case atob (from_base64url (token_part token)) of
          None \<Rightarrow> None
        | Some json \<Rightarrow> (case json_parse json of
              None \<Rightarrow> None
            | Some payload \<Rightarrow> (case js_prop payload ''exp'' of JNum n \<Rightarrow> Some n | _ \<Rightarrow> None))))"

definition isTokenExpired :: "(string \<Rightarrow> string option) \<Rightarrow> millis \<Rightarrow> string \<Rightarrow> bool" where
  "isTokenExpired atob now token = (case getTokenExpiry atob token of
      None \<Rightarrow> True
    | Some expiry \<Rightarrow> num_le expiry (NInt (now div 1000)))"

definition isTokenExpiringSoon :: "(string \<Rightarrow> string option) \<Rightarrow> millis \<Rightarrow> string \<Rightarrow> millis \<Rightarrow> bool" where
  "isTokenExpiringSoon atob now token marginMs = (case getTokenExpiry atob token of
      None \<Rightarrow> True
    | Some expiry \<Rightarrow> num_val expiry * 1000 - of_int now < of_int marginMs)"

section \<open>Signing in with the wallet\<close>

datatype auth_call =
    CallChallenge string
  | CallWallet
  | CallSign js string string
  | CallExchange js
  | CallUrl string "string option"

record auth_env =
  ae_json :: "auth_call \<Rightarrow> auth_call list \<Rightarrow> js result"
  ae_status :: "auth_call \<Rightarrow> auth_call list \<Rightarrow> nat result"
  ae_atob :: "string \<Rightarrow> string option"
  ae_browser :: bool

record auth_world =
  aw_storage :: "string option"
  aw_calls :: "auth_call list"

datatype auth_result = AuthToken js | AuthError string

definition setToken :: "auth_env \<Rightarrow> js \<Rightarrow> auth_world \<Rightarrow> auth_world" where
  "setToken env token w = (if ae_browser env then w\<lparr>aw_storage := Some (js_String token)\<rparr> else w)"

definition getToken :: "auth_env \<Rightarrow> auth_world \<Rightarrow> string option" where
  "getToken env w = (if ae_browser env then aw_storage w else None)"

definition clearToken :: "auth_env \<Rightarrow> auth_world \<Rightarrow> auth_world" where
  "clearToken env w = (if ae_browser env then w\<lparr>aw_storage := None\<rparr> else w)"

definition call_json :: "auth_env \<Rightarrow> auth_call \<Rightarrow> auth_world \<Rightarrow> js result \<times> auth_world" where
  "call_json env c w = (ae_json env c (aw_calls w), w\<lparr>aw_calls := aw_calls w @ [c]\<rparr>)"

text \<open>
  The wallet is asked to sign; a rejection is turned into an object with an \<open>error\<close>.  An answer that
  is \<open>undefined\<close> or \<open>null\<close> cannot be destructured and throws.
\<close>

definition ensureAuthWithFreighter :: "auth_env \<Rightarrow> string \<Rightarrow> auth_world \<Rightarrow> auth_result \<times> auth_world" where
  "ensureAuthWithFreighter env address w =
     (case call_json env (CallChallenge address) w of
        (Inl e, w1) \<Rightarrow> (AuthError (error_string e), w1)
      | (Inr challenge, w1) \<Rightarrow>
          if \<not> js_truthy (js_prop challenge ''transaction'') then (AuthError ''no_challenge'', w1)
          else (case call_json env CallWallet w1 of
              (Inl e, w2) \<Rightarrow> (AuthError (error_string e), w2)
            | (Inr _, w2) \<Rightarrow>
                (case call_json env (CallSign (js_prop challenge ''transaction'')
                     (js_String (js_coalesce (js_prop challenge ''network_passphrase'') (JStr []))) address) w2 of
                   (Inl e, w3) \<Rightarrow> (AuthError ''sign_failed'', w3)
                 | (Inr signed, w3) \<Rightarrow>
                     if is_nullish signed then (AuthError ''TypeError'', w3)
                     else if js_truthy (js_prop signed ''error'') \<or> \<not> js_truthy (js_prop signed ''signed_envelope_xdr'')
                     then (AuthError ''sign_failed'', w3)
                     else (case call_json env (CallExchange (js_prop signed ''signed_envelope_xdr'')) w3 of
                         (Inl e, w4) \<Rightarrow> (AuthError (error_string e), w4)
                       | (Inr resp, w4) \<Rightarrow>
                           if js_truthy (js_prop resp ''token'')
                           then (AuthToken (js_prop resp ''token''), setToken env (js_prop resp ''token'') w4)
                           else (AuthError ''exchange_failed'', w4)))))"

definition verifyToken :: "auth_env \<Rightarrow> string option \<Rightarrow> auth_world \<Rightarrow> js result \<times> auth_world" where
  "verifyToken env token w = (case token of
      Some (c # cs) \<Rightarrow> call_json env (CallUrl ''/api/auth/me'' (Some (c # cs))) w
    | _ \<Rightarrow> (Inr (JObj [(''authenticated'', JBool False)]), w))"

definition call_url :: "auth_env \<Rightarrow> string \<Rightarrow> string option \<Rightarrow> auth_world \<Rightarrow> nat result \<times> auth_world" where
  "call_url env url token w =
     (ae_status env (CallUrl url token) (aw_calls w), w\<lparr>aw_calls := aw_calls w @ [CallUrl url token]\<rparr>)"

definition nonempty :: "string option \<Rightarrow> string option" where
  "nonempty t = (case t of Some (c # cs) \<Rightarrow> t | _ \<Rightarrow> None)"

text \<open>The token to send: the stored one, or a new one when it is about to expire and signing in works.\<close>

definition current_token :: "auth_env \<Rightarrow> millis \<Rightarrow> string \<Rightarrow> auth_world \<Rightarrow> string option \<times> auth_world" where
  "current_token env now address w = (case nonempty (getToken env w) of
      None \<Rightarrow> (None, w)
    | Some t \<Rightarrow>
        if isTokenExpiringSoon (ae_atob env) now t REFRESH_MARGIN_MS then
          (case ensureAuthWithFreighter env address w of
             (AuthToken v, w') \<Rightarrow> (nonempty (Some (js_String v)), setToken env v w')
           | (AuthError _, w') \<Rightarrow> (Some t, w'))
        else (Some t, w))"

text \<open>The response is its status; an error of \<open>fetch\<close> is passed on.\<close>

definition authenticatedFetch :: "auth_env \<Rightarrow> millis \<Rightarrow> string \<Rightarrow> string \<Rightarrow> auth_world \<Rightarrow> nat result \<times> auth_world" where
  "authenticatedFetch env now url address w =
     (case current_token env now address w of (token, w1) \<Rightarrow>
       (case call_url env url token w1 of
          (Inl e, w2) \<Rightarrow> (Inl e, w2)
        | (Inr status, w2) \<Rightarrow>
            if status = 401 then
              (case ensureAuthWithFreighter env address w2 of
                 (AuthToken v, w3) \<Rightarrow> call_url env url (Some (js_String v)) (setToken env v w3)
               | (AuthError _, w3) \<Rightarrow> (Inr 401, w3))
            else (Inr status, w2)))"

section \<open>Forged requests\<close>

record http_request =
  rq_pathname :: string
  rq_method :: string
  rq_cookies :: "string \<Rightarrow> string option"
  rq_csrf_header :: "string option"

datatype middleware_answer = Forbidden | Next "(string \<times> string) list"

definition MUTATING_METHODS :: "string list" where
  "MUTATING_METHODS = [''POST'', ''PUT'', ''PATCH'', ''DELETE'']"

definition WALLET_SIGNATURE_EXEMPT :: "string list" where
  "WALLET_SIGNATURE_EXEMPT = [''/api/auth/challenge'', ''/api/auth/token'']"

definition SUPPORTED_LOCALES :: "string list" where
  "SUPPORTED_LOCALES = [''en'', ''fr'', ''es'']"

text \<open>Two random UUIDs without their dashes.\<close>

definition csrf_generateToken :: "string \<Rightarrow> string \<Rightarrow> string" where
  "csrf_generateToken uuid1 uuid2 = filter (\<lambda>c. c \<noteq> CHR ''-'') uuid1 @ filter (\<lambda>c. c \<noteq> CHR ''-'') uuid2"

text \<open>The first segment of the path that is not empty.\<close>

definition extractLocaleFromPath :: "string \<Rightarrow> string option" where
  "extractLocaleFromPath pathname =
     (let seg = takeWhile (\<lambda>c. c \<noteq> CHR ''/'') (dropWhile (\<lambda>c. c = CHR ''/'') pathname)
      in if seg \<noteq> [] \<and> seg \<in> set SUPPORTED_LOCALES then Some seg else None)"

definition middleware :: "string \<Rightarrow> string \<Rightarrow> http_request \<Rightarrow> middleware_answer" where
  "middleware uuid1 uuid2 r =
     (let cookieToken = nonempty (rq_cookies r ''csrf_token'');
          pathLocale = extractLocaleFromPath (rq_pathname r)
      in if startsWith (rq_pathname r) ''/api/'' \<and> rq_method r \<in> set MUTATING_METHODS
            \<and> rq_pathname r \<notin> set WALLET_SIGNATURE_EXEMPT
            \<and> (nonempty (rq_csrf_header r) = None \<or> cookieToken = None \<or> rq_csrf_header r \<noteq> cookieToken)
         then Forbidden
         else Next ((case pathLocale of
                       Some l \<Rightarrow> if rq_cookies r ''NEXT_LOCALE'' \<noteq> Some l then [(''NEXT_LOCALE'', l)] else []
                     | None \<Rightarrow> [])
                    @ (if cookieToken = None then [(''csrf_token'', csrf_generateToken uuid1 uuid2)] else [])))"

section \<open>The client's side of the check\<close>

text \<open>\<open>decodeURIComponent\<close> on ASCII text; an escape that does not decode to ASCII is an error here.\<close>

fun decodeURIComponent :: "string \<Rightarrow> string result" where
  "decodeURIComponent [] = Inr []"
| "decodeURIComponent (c # s) =
     (if c = CHR ''%'' then
        (case s of
           a # b # r \<Rightarrow> (case (radix_val 16 a, radix_val 16 b) of
               (Some x, Some y) \<Rightarrow> (if 16 * x + y < 128
                  then (case decodeURIComponent r of Inl e \<Rightarrow> Inl e | Inr t \<Rightarrow> Inr (char_of (16 * x + y) # t))
                  else Inl (GenericError ''URI malformed''))
             | _ \<Rightarrow> Inl (GenericError ''URI malformed''))
         | _ \<Rightarrow> Inl (GenericError ''URI malformed''))
      else (case decodeURIComponent s of Inl e \<Rightarrow> Inl e | Inr t \<Rightarrow> Inr (c # t)))"

definition cookie_value :: "string \<Rightarrow> string" where
  "cookie_value s = takeWhile (\<lambda>c. c \<noteq> CHR '';'') s"

text \<open>The leftmost match of \<open>(?:^|; )csrf_token=([^;]*)\<close>; here the part after the start.\<close>

fun csrf_scan :: "string \<Rightarrow> string option" where
  "csrf_scan [] = None"
| "csrf_scan (c # s) = (if startsWith (c # s) ''; csrf_token='' then Some (cookie_value (drop 13 (c # s))) else csrf_scan s)"

definition csrf_match :: "string \<Rightarrow> string option" where
  "csrf_match s = (if startsWith s ''csrf_token='' then Some (cookie_value (drop 11 s)) else csrf_scan s)"

definition getCsrfToken :: "string \<Rightarrow> string option result" where
  "getCsrfToken document_cookie = (case csrf_match document_cookie of
      None \<Rightarrow> Inr None
    | Some v \<Rightarrow> (case decodeURIComponent v of Inl e \<Rightarrow> Inl e | Inr t \<Rightarrow> Inr (Some t)))"

text \<open>The CSRF header of the request, unless the caller's own headers already have one.\<close>

definition csrfFetch_header :: "string option \<Rightarrow> string \<Rightarrow> string option result" where
  "csrfFetch_header own document_cookie = (case getCsrfToken document_cookie of
      Inl e \<Rightarrow> Inl e
    | Inr token \<Rightarrow> Inr (case nonempty token of Some t \<Rightarrow> Some t | None \<Rightarrow> own))"

section \<open>What a token costs\<close>


definition example_sdk :: sdk_env where
  "example_sdk = \<lparr>sdk_fromXDR = (\<lambda>x. Inr \<lparr>tx_hash = x, tx_operations = [\<lparr>op_type = ''manageData'', op_source = Some ''GALICE''\<rparr>],
       tx_signatures = [''other'', ''alice'']\<rparr>),
     sdk_isValidKey = (\<lambda>k. k = ''GALICE''), sdk_verify = (\<lambda>a h s. Inr (s = ''alice'')),
     sdk_signJwt = (\<lambda>k a n x. Inr (a @ show_int x))\<rparr>"


section \<open>Signing in\<close>

definition is_url_call :: "auth_call \<Rightarrow> bool" where
  "is_url_call c = (case c of CallUrl _ _ \<Rightarrow> True | _ \<Rightarrow> False)"

definition is_sign_call :: "auth_call \<Rightarrow> bool" where
  "is_sign_call c = (case c of CallSign _ _ _ \<Rightarrow> True | _ \<Rightarrow> False)"

lemma call_json_calls: "call_json env c w = (r, w') \<Longrightarrow> aw_calls w' = aw_calls w @ [c] \<and> aw_storage w' = aw_storage w"
  by (auto simp: call_json_def)

lemma setToken_calls [simp]: "aw_calls (setToken env v w) = aw_calls w"
  by (simp add: setToken_def)

lemma ensureAuth_calls:
  assumes "ensureAuthWithFreighter env address w = (r, w')"
  shows "\<exists>cs. aw_calls w' = aw_calls w @ cs \<and> list_all (\<lambda>c. \<not> is_url_call c) cs \<and> length (filter is_sign_call cs) \<le> 1
    \<and> (\<forall>e. r = AuthError e \<longrightarrow> aw_storage w' = aw_storage w)"
  using assms
  by (auto simp: ensureAuthWithFreighter_def is_url_call_def is_sign_call_def split: sum.splits prod.splits if_splits
      dest!: call_json_calls)

text \<open>The wallet's API answers \<open>signedTxXdr\<close>; the code reads another field.\<close>

definition documented_signature :: "js \<Rightarrow> bool" where
  "documented_signature v = (\<exists>signedTxXdr err. v = JObj ((''signedTxXdr'', JStr signedTxXdr) # err) \<and> map fst err \<in> {[], [''error'']})"

definition documented_wallet :: "auth_env \<Rightarrow> bool" where
  "documented_wallet env = (\<forall>c h v. is_sign_call c \<and> ae_json env c h = Inr v \<longrightarrow> documented_signature v)"

lemma sign_in_fails:
  assumes "documented_wallet env"
  shows "\<exists>e w'. ensureAuthWithFreighter env address w = (AuthError e, w') \<and> aw_storage w' = aw_storage w"
proof -
  obtain r w' where r: "ensureAuthWithFreighter env address w = (r, w')" by fastforce
  have undef: "js_prop v ''signed_envelope_xdr'' = JUndefined" if "documented_signature v" for v
    using that by (auto simp: documented_signature_def map_eq_Cons_conv)
  have "\<not> js_truthy (js_prop v ''signed_envelope_xdr'')" if "ae_json env (CallSign t n a) h = Inr v" for t n a h v
  proof -
    have "is_sign_call (CallSign t n a)" by (simp add: is_sign_call_def)
    with assms that have "documented_signature v" unfolding documented_wallet_def by blast
    with undef show ?thesis by simp
  qed
  then have "\<exists>e. r = AuthError e"
    using r by (auto simp: ensureAuthWithFreighter_def call_json_def split: sum.splits if_splits)
  with r ensureAuth_calls [OF r] show ?thesis by blast
qed

text \<open>
  Signing in never succeeds with the wallet's documented API.  Its answer carries the signed
  envelope as \<open>signedTxXdr\<close>, the client reads \<open>signed_envelope_xdr\<close>, so every attempt ends in an
  error with the stored token as it was; an authenticated request that is answered 401 is returned as 401
  after its single failed attempt, and a stale token is sent as it is.
\<close>

theorem documented_wallet_cannot_sign_in:
  assumes "documented_wallet env"
    and "\<And>c h. ae_status env c h = Inr 401"
  shows "(\<exists>e. fst (ensureAuthWithFreighter env address w) = AuthError e)
    \<and> fst (authenticatedFetch env now url address w) = Inr 401
    \<and> aw_storage (snd (authenticatedFetch env now url address w)) = aw_storage w
    \<and> filter is_url_call (aw_calls (snd (authenticatedFetch env now url address w))) =
        filter is_url_call (aw_calls w) @ [CallUrl url (nonempty (getToken env w))]"
proof -
  have fails: "\<exists>e u'. ensureAuthWithFreighter env address u = (AuthError e, u') \<and> aw_storage u' = aw_storage u
      \<and> filter is_url_call (aw_calls u') = filter is_url_call (aw_calls u)" for u
  proof -
    obtain e u' where u: "ensureAuthWithFreighter env address u = (AuthError e, u')" "aw_storage u' = aw_storage u"
      using sign_in_fails [OF assms(1), of address u] by auto
    from ensureAuth_calls [OF u(1)] have "filter is_url_call (aw_calls u') = filter is_url_call (aw_calls u)"
      by (auto simp: list_all_iff filter_empty_conv)
    with u show ?thesis by blast
  qed
  have "\<exists>w1. current_token env now address w = (nonempty (getToken env w), w1)
      \<and> aw_storage w1 = aw_storage w \<and> filter is_url_call (aw_calls w1) = filter is_url_call (aw_calls w)"
    using fails [of w] by (cases "nonempty (getToken env w)") (auto simp: current_token_def)
  then obtain w1 where w1: "current_token env now address w = (nonempty (getToken env w), w1)"
      "aw_storage w1 = aw_storage w" "filter is_url_call (aw_calls w1) = filter is_url_call (aw_calls w)" by blast
  let ?c = "CallUrl url (nonempty (getToken env w))"
  obtain e w3 where w3: "ensureAuthWithFreighter env address (w1\<lparr>aw_calls := aw_calls w1 @ [?c]\<rparr>) = (AuthError e, w3)"
      "aw_storage w3 = aw_storage w1" "filter is_url_call (aw_calls w3) = filter is_url_call (aw_calls w1) @ [?c]"
    using fails [of "w1\<lparr>aw_calls := aw_calls w1 @ [?c]\<rparr>"] by (auto simp: is_url_call_def)
  then have "authenticatedFetch env now url address w = (Inr 401, w3)"
    using w1(1) assms(2) by (simp add: authenticatedFetch_def call_url_def)
  with w1 w3 fails [of w] show ?thesis by auto
qed

definition example_auth :: auth_env where
  "example_auth = \<lparr>ae_json = (\<lambda>c h. case c of
       CallChallenge _ \<Rightarrow> Inr (JObj [(''transaction'', JStr ''tx'')])
     | CallSign _ _ _ \<Rightarrow> Inr (JObj [(''signedTxXdr'', JStr ''signed'')])
     | _ \<Rightarrow> Inr (JObj [])),
     ae_status = (\<lambda>c h. Inr 401), ae_atob = (\<lambda>_. None), ae_browser = True\<rparr>"

theorem documented_wallet_cannot_sign_in_witness:
  "fst (authenticatedFetch example_auth 0 ''/api/x'' ''G'' \<lparr>aw_storage = Some ''t'', aw_calls = []\<rparr>) = Inr 401"
proof -
  have "documented_signature v" if "is_sign_call c" "ae_json example_auth c h = Inr v" for c h v
    using that by (cases c) (auto simp: is_sign_call_def example_auth_def documented_signature_def)
  then have "documented_wallet example_auth" by (auto simp: documented_wallet_def)
  then show ?thesis
    using documented_wallet_cannot_sign_in [of example_auth] by (simp add: example_auth_def)
qed

text \<open>At most two requests and two questions to the wallet, whatever they answer.\<close>

lemma authenticatedFetch_bounded:
  assumes "authenticatedFetch env now url address w = (r, w')"
  shows "\<exists>cs. aw_calls w' = aw_calls w @ cs \<and> length (filter is_url_call cs) \<in> {1, 2} \<and> length (filter is_sign_call cs) \<le> 2"
proof -
  obtain token w1 where t: "current_token env now address w = (token, w1)" by fastforce
  then have "\<exists>cs. aw_calls w1 = aw_calls w @ cs \<and> list_all (\<lambda>c. \<not> is_url_call c) cs \<and> length (filter is_sign_call cs) \<le> 1"
    using ensureAuth_calls [of env address w]
    by (auto simp: current_token_def split: option.splits if_splits prod.splits auth_result.splits)
  then obtain cs where cs: "aw_calls w1 = aw_calls w @ cs" "filter is_url_call cs = []" "length (filter is_sign_call cs) \<le> 1"
    by (auto simp: list_all_iff filter_empty_conv)
  let ?w2 = "w1\<lparr>aw_calls := aw_calls w1 @ [CallUrl url token]\<rparr>"
  obtain r2 w3 where w3: "ensureAuthWithFreighter env address ?w2 = (r2, w3)" by fastforce
  then obtain ds where ds: "aw_calls w3 = aw_calls ?w2 @ ds" "filter is_url_call ds = []" "length (filter is_sign_call ds) \<le> 1"
    using ensureAuth_calls by (fastforce simp: list_all_iff filter_empty_conv)
  have one: "is_url_call (CallUrl u k)" "\<not> is_sign_call (CallUrl u k)" for u k
    by (simp_all add: is_url_call_def is_sign_call_def)
  have "w' = ?w2 \<or> w' = w3 \<or> (\<exists>v k. w' = (setToken env v w3)\<lparr>aw_calls := aw_calls w3 @ [CallUrl url k]\<rparr>)"
    using assms w3 by (auto simp: authenticatedFetch_def t call_url_def split: sum.splits if_splits auth_result.splits)
  then obtain es where "aw_calls w' = aw_calls w @ cs @ [CallUrl url token] @ es"
      "es = [] \<or> es = ds \<or> (\<exists>k. es = ds @ [CallUrl url k])"
    using cs(1) ds(1) by auto
  then show ?thesis using cs(2,3) ds(2,3) one by (intro exI [of _ "cs @ [CallUrl url token] @ es"]) auto
qed

section \<open>The double-submit cookie\<close>

text \<open>How the browser lists its cookies to the page.\<close>

definition cookie_text :: "(string \<times> string) list \<Rightarrow> string" where
  "cookie_text cookies = join ''; '' (map (\<lambda>(n, v). n @ CHR ''='' # v) cookies)"

definition cookies_ok :: "(string \<times> string) list \<Rightarrow> bool" where
  "cookies_ok cookies = list_all (\<lambda>(n, v). CHR '';'' \<notin> set n \<and> CHR ''='' \<notin> set n \<and> CHR '';'' \<notin> set v) cookies"

lemma csrf_scan_skip: "CHR '';'' \<notin> set u \<Longrightarrow> csrf_scan (u @ s) = csrf_scan s"
  by (induction u) auto

lemma startsWith_name:
  assumes "CHR ''='' \<notin> set n"
  shows "startsWith (n @ CHR ''='' # v) ''csrf_token='' \<longleftrightarrow> n = ''csrf_token''"
proof
  assume "startsWith (n @ CHR ''='' # v) ''csrf_token=''"
  then obtain r where r: "n @ CHR ''='' # v = ''csrf_token'' @ CHR ''='' # r" by (auto simp: startsWith_prefix prefix_def)
  have "takeWhile (\<lambda>c. c \<noteq> CHR ''='') (n @ CHR ''='' # v) = n" using assms by (subst takeWhile_append2) auto
  with r show "n = ''csrf_token''" by simp
qed simp

lemma cookie_value_split: "CHR '';'' \<notin> set v \<Longrightarrow> cookie_value (v @ r) = v @ cookie_value r"
  unfolding cookie_value_def by (subst takeWhile_append2) auto

lemma csrf_scan_cookies:
  assumes "cookies_ok cookies"
  shows "csrf_scan (concat (map (\<lambda>(n, v). CHR '';'' # CHR '' '' # n @ CHR ''='' # v) cookies)) = map_of cookies ''csrf_token''"
  using assms
proof (induction cookies)
  case (Cons nv cookies)
  obtain n v where nv: "nv = (n, v)" by fastforce
  have ok: "CHR '';'' \<notin> set n" "CHR ''='' \<notin> set n" "CHR '';'' \<notin> set v" "cookies_ok cookies"
    using Cons.prems by (auto simp: cookies_ok_def nv)
  let ?rest = "concat (map (\<lambda>(n, v). CHR '';'' # CHR '' '' # n @ CHR ''='' # v) cookies)"
  have rest: "cookie_value ?rest = []" by (cases cookies) (auto simp: cookie_value_def)
  have "startsWith (CHR '';'' # CHR '' '' # n @ CHR ''='' # v @ ?rest) ''; csrf_token='' \<longleftrightarrow> n = ''csrf_token''"
    using startsWith_name [OF ok(2), of "v @ ?rest"] by simp
  moreover have "csrf_scan (CHR '' '' # n @ CHR ''='' # v @ ?rest) = csrf_scan ?rest"
    using csrf_scan_skip [of "CHR '' '' # n @ CHR ''='' # v" ?rest] ok by simp
  ultimately show ?case
    using Cons.IH [OF ok(4)] rest by (cases "n = ''csrf_token''") (simp_all add: nv cookie_value_split [OF ok(3)])
qed simp

lemma cookie_text_Cons:
  "cookie_text ((n, v) # cookies) = n @ CHR ''='' # v @ concat (map (\<lambda>(n, v). CHR '';'' # CHR '' '' # n @ CHR ''='' # v) cookies)"
  by (induction cookies arbitrary: n v) (auto simp: cookie_text_def)

lemma csrf_match_cookies:
  assumes "cookies_ok cookies"
  shows "csrf_match (cookie_text cookies) = map_of cookies ''csrf_token''"
proof (cases cookies)
  case Nil
  then show ?thesis by (simp add: csrf_match_def cookie_text_def)
next
  case (Cons nv rest)
  obtain n v where nv: "nv = (n, v)" by fastforce
  let ?rest = "concat (map (\<lambda>(n, v). CHR '';'' # CHR '' '' # n @ CHR ''='' # v) rest)"
  have ok: "CHR '';'' \<notin> set n" "CHR ''='' \<notin> set n" "CHR '';'' \<notin> set v" "cookies_ok rest"
    using assms by (auto simp: cookies_ok_def nv Cons)
  have "cookie_value ?rest = []" by (cases rest) (auto simp: cookie_value_def)
  moreover have "csrf_scan (n @ CHR ''='' # v @ ?rest) = csrf_scan ?rest"
    using csrf_scan_skip [of "n @ CHR ''='' # v" ?rest] ok by simp
  ultimately show ?thesis
    using startsWith_name [OF ok(2), of "v @ ?rest"] csrf_scan_cookies [OF ok(4)]
    by (cases "n = ''csrf_token''") (simp_all add: Cons nv cookie_text_Cons csrf_match_def cookie_value_split [OF ok(3)])
qed

lemma decodeURIComponent_plain: "CHR ''%'' \<notin> set s \<Longrightarrow> decodeURIComponent s = Inr s"
  by (induction s) auto

text \<open>
  C23: The double-submit check lets through exactly what it means to.  A mutating request to an API
  route that is not one of the two wallet-signed ones passes if and only if it carries a CSRF header
  equal to a non-empty CSRF cookie; every other request passes.  And what the page's own
  \<open>csrfFetch\<close> sends passes: from the browser's cookie text it recovers the cookie the server will
  compare with, whatever other cookies there are.
\<close>

theorem double_submit_exact:
  assumes "cookies_ok cookies" and "map_of cookies ''csrf_token'' = Some t" and "t \<noteq> []" and "CHR ''%'' \<notin> set t"
    and "\<forall>n. rq_cookies r n = map_of cookies n"
  shows "(middleware u1 u2 q \<noteq> Forbidden \<longleftrightarrow>
      \<not> (startsWith (rq_pathname q) ''/api/'' \<and> rq_method q \<in> {''POST'', ''PUT'', ''PATCH'', ''DELETE''}
         \<and> rq_pathname q \<notin> {''/api/auth/challenge'', ''/api/auth/token''})
      \<or> (\<exists>h. h \<noteq> [] \<and> rq_csrf_header q = Some h \<and> rq_cookies q ''csrf_token'' = Some h))
    \<and> (\<exists>h. csrfFetch_header own (cookie_text cookies) = Inr h \<and> middleware u1 u2 (r\<lparr>rq_csrf_header := h\<rparr>) \<noteq> Forbidden)"
proof
  have ne: "nonempty x = (if x = Some [] then None else x)" for x
    by (auto simp: nonempty_def split: option.splits list.splits)
  show "middleware u1 u2 q \<noteq> Forbidden \<longleftrightarrow>
      \<not> (startsWith (rq_pathname q) ''/api/'' \<and> rq_method q \<in> {''POST'', ''PUT'', ''PATCH'', ''DELETE''}
         \<and> rq_pathname q \<notin> {''/api/auth/challenge'', ''/api/auth/token''})
      \<or> (\<exists>h. h \<noteq> [] \<and> rq_csrf_header q = Some h \<and> rq_cookies q ''csrf_token'' = Some h)"
    by (cases "rq_csrf_header q"; cases "rq_cookies q ''csrf_token''")
      (auto simp: middleware_def MUTATING_METHODS_def WALLET_SIGNATURE_EXEMPT_def Let_def ne)
  have "csrfFetch_header own (cookie_text cookies) = Inr (Some t)"
    using assms(2-4) csrf_match_cookies [OF assms(1)]
    by (simp add: csrfFetch_header_def getCsrfToken_def decodeURIComponent_plain ne)
  moreover have "middleware u1 u2 (r\<lparr>rq_csrf_header := Some t\<rparr>) \<noteq> Forbidden"
    using assms(2,3,5) by (simp add: middleware_def Let_def ne)
  ultimately show "\<exists>h. csrfFetch_header own (cookie_text cookies) = Inr h \<and> middleware u1 u2 (r\<lparr>rq_csrf_header := h\<rparr>) \<noteq> Forbidden"
    by blast
qed

definition example_request :: http_request where
  "example_request = \<lparr>rq_pathname = ''/api/notifications/preferences'', rq_method = ''POST'',
     rq_cookies = map_of [(''NEXT_LOCALE'', ''fr''), (''csrf_token'', ''ab12'')], rq_csrf_header = None\<rparr>"

theorem double_submit_exact_witness:
  "\<exists>h. csrfFetch_header None (cookie_text [(''NEXT_LOCALE'', ''fr''), (''csrf_token'', ''ab12'')]) = Inr h
     \<and> middleware [] [] (example_request\<lparr>rq_csrf_header := h\<rparr>) \<noteq> Forbidden"
  using double_submit_exact [of "[(''NEXT_LOCALE'', ''fr''), (''csrf_token'', ''ab12'')]" "''ab12''" example_request
      "[]" "[]" example_request None]
  by (simp add: cookies_ok_def example_request_def)

lemma hex_not_special: "radix_val 16 CHR ''%'' = None" "radix_val 16 CHR '';'' = None"
  by (simp_all add: radix_val_def)

text \<open>The token the middleware mints is one the page can echo back.\<close>

lemma minted_token_hex:
  assumes "list_all (\<lambda>c. c = CHR ''-'' \<or> radix_val 16 c \<noteq> None) (uuid1 @ uuid2)" and "c \<in> set (csrf_generateToken uuid1 uuid2)"
  shows "radix_val 16 c \<noteq> None"
proof -
  have "c \<in> set (uuid1 @ uuid2)" "c \<noteq> CHR ''-''" using assms(2) by (simp_all add: csrf_generateToken_def disj_commute) blast+
  with assms(1) show ?thesis unfolding list_all_iff by blast
qed

lemma minted_token_plain:
  assumes "list_all (\<lambda>c. c = CHR ''-'' \<or> radix_val 16 c \<noteq> None) (uuid1 @ uuid2)"
  shows "CHR ''%'' \<notin> set (csrf_generateToken uuid1 uuid2) \<and> CHR '';'' \<notin> set (csrf_generateToken uuid1 uuid2)"
  using minted_token_hex [OF assms] hex_not_special by blast

end
