(* ===== verification/Delivery.thy ===== *)
theory Delivery
  imports Auth Alerts
begin

text \<open>
  Delivery of notifications to the outside: the destination check
  (\<open>frontend/lib/server/webhook-url.ts\<close>), the email and webhook senders with their retries
  (\<open>frontend/lib/server/notification-delivery.ts\<close>), and the two routes that use them
  (\<open>app/api/notifications/dispatch/route.ts\<close>, \<open>app/api/notifications/webhook/test/route.ts\<close>).

  The URL parser, name resolution, the HMAC, percent encoding, the clock, random identifiers and the
  network are arguments.  An outbound request is an entry of the log; what the \<open>n\<close>-th one
  answers is a function of the log before it.
\<close>

section \<open>Where a webhook may go\<close>

text \<open>The patterns test the text of an address, from its beginning.\<close>

definition private_ipv4 :: "string \<Rightarrow> bool" where
  "private_ipv4 a = (startsWith a ''127.'' \<or> startsWith a ''10.''
     \<or> (startsWith a ''172.'' \<and> length a > 6 \<and> a ! 6 = CHR ''.''
        \<and> ((a ! 4 = CHR ''1'' \<and> a ! 5 \<in> set ''6789'') \<or> (a ! 4 = CHR ''2'' \<and> is_digit (a ! 5))
           \<or> (a ! 4 = CHR ''3'' \<and> a ! 5 \<in> set ''01'')))
     \<or> startsWith a ''192.168.'' \<or> startsWith a ''169.254.'' \<or> startsWith a ''0.'')"

definition private_ipv6 :: "string \<Rightarrow> bool" where
  "private_ipv6 a = (a = ''::1'' \<or> startsWith (toLowerCase a) ''fc00:'' \<or> startsWith (toLowerCase a) ''fe80:'')"

definition BLOCKED_HOSTNAMES :: "string list" where
  "BLOCKED_HOSTNAMES = [''169.254.169.254'', ''metadata.google.internal'', ''metadata.goog'', ''instance-data'']"

definition is_hex :: "char \<Rightarrow> bool" where
  "is_hex c = (radix_val 16 c \<noteq> None)"

definition hex_number :: "string \<Rightarrow> int" where
  "hex_number s = (case radix_digits 16 0 s of Some n \<Rightarrow> int n | None \<Rightarrow> 0)"

text \<open>\<open>/^::ffff:([0-9a-f]+):([0-9a-f]+)$/i\<close>; the quotients are those of the bitwise operations on
  the 32-bit values the groups of an address can have.\<close>

definition decodeMappedIPv4 :: "string \<Rightarrow> string option" where
  "decodeMappedIPv4 a =
     (let r = drop 7 a; h = takeWhile is_hex r; l = drop (Suc (length h)) r in
      if startsWith (toLowerCase a) ''::ffff:'' \<and> h \<noteq> [] \<and> startsWith (drop (length h) r) '':'' \<and> l \<noteq> [] \<and> list_all is_hex l
      then Some (show_int (hex_number h div 256) @ ''.'' @ show_int (hex_number h mod 256) @ ''.''
                 @ show_int (hex_number l div 256) @ ''.'' @ show_int (hex_number l mod 256))
      else None)"

definition isPrivateAddress :: "string \<Rightarrow> int \<Rightarrow> bool" where
  "isPrivateAddress address family =
     (if family = 4 then private_ipv4 address
      else private_ipv6 address
        \<or> (case decodeMappedIPv4 address of Some m \<Rightarrow> private_ipv4 m | None \<Rightarrow> False))"

record url_env =
  ue_parse :: "string \<Rightarrow> (string \<times> string) option"
  ue_lookup :: "string \<Rightarrow> (string \<times> int) list result"

text \<open>\<open>hostname.replace(/^\[|\]$/g, '')\<close>.\<close>

definition strip_brackets :: "string \<Rightarrow> string" where
  "strip_brackets s =
     (let t = (if startsWith s ''['' then drop 1 s else s)
      in if t \<noteq> [] \<and> last t = CHR '']'' then butlast t else t)"

definition isSafeWebhookUrl :: "url_env \<Rightarrow> string \<Rightarrow> bool" where
  "isSafeWebhookUrl env rawUrl = (case ue_parse env rawUrl of
      None \<Rightarrow> False
    | Some (protocol, host) \<Rightarrow>
        if protocol \<noteq> ''https:'' then False
        else (let hostname = strip_brackets (toLowerCase host) in
          if hostname \<in> set BLOCKED_HOSTNAMES then False
          else (case ue_lookup env hostname of
              Inl _ \<Rightarrow> False
            | Inr addresses \<Rightarrow> addresses \<noteq> [] \<and> \<not> list_ex (\<lambda>(a, f). isPrivateAddress a f) addresses)))"

section \<open>Sending\<close>

datatype outbound = EmailPost string js js | WebhookPost string string string js

record delivery_env =
  de_url :: url_env
  de_answer :: "outbound \<Rightarrow> outbound list \<Rightarrow> nat result"
  de_hmac :: "string \<Rightarrow> string \<Rightarrow> string"
  de_encode :: "string \<Rightarrow> string"
  de_uuid :: "nat \<Rightarrow> string"
  de_now :: string
  de_webhookSecret :: "string option"
  de_apiKey :: "string option"
  de_appUrl :: "string option"
  de_from :: "string option"
  de_dispatchToken :: "string option"

definition MAX_ATTEMPTS :: nat where "MAX_ATTEMPTS = 3"

type_synonym 'a send = "outbound list \<Rightarrow> 'a result \<times> outbound list"

text \<open>\<open>retry\<close>: the operation up to three times in all, the last error is thrown; the waits in between.\<close>

fun retry_loop :: "nat \<Rightarrow> nat \<Rightarrow> unit send \<Rightarrow> jserror option \<Rightarrow> outbound list \<Rightarrow> unit result \<times> outbound list \<times> millis list" where
  "retry_loop 0 attempt operation lastError sent = (Inl (case lastError of Some e \<Rightarrow> e | None \<Rightarrow> GenericError []), sent, [])"
| "retry_loop (Suc n) attempt operation lastError sent = (case operation sent of
      (Inr u, sent') \<Rightarrow> (Inr (), sent', [])
    | (Inl e, sent') \<Rightarrow>
        (case retry_loop n (Suc attempt) operation (Some e) sent' of (r, sent'', ws) \<Rightarrow>
           (r, sent'', (if n \<noteq> 0 then [250 * 2 ^ attempt] else []) @ ws)))"

definition retry_send :: "unit send \<Rightarrow> outbound list \<Rightarrow> unit result \<times> outbound list \<times> millis list" where
  "retry_send operation sent = retry_loop MAX_ATTEMPTS 0 operation None sent"

text \<open>A payload is the object of the request; its event has been checked to be a string.\<close>

type_synonym payload = js

definition pl_event :: "payload \<Rightarrow> string" where
  "pl_event p = string_or_empty (js_prop p ''event'')"

definition pl_invoice :: "payload \<Rightarrow> string \<Rightarrow> string" where
  "pl_invoice p missing = js_String (js_coalesce (js_prop p ''invoiceId'') (JStr missing))"

definition pl_recipient :: "payload \<Rightarrow> string" where
  "pl_recipient p = js_String (js_prop p ''recipient'')"

definition underscores_to_spaces :: "string \<Rightarrow> string" where
  "underscores_to_spaces s = map (\<lambda>c. if c = CHR ''_'' then CHR '' '' else c) s"

definition email_html :: "payload \<Rightarrow> string \<Rightarrow> string" where
  "email_html p unsubscribeUrl =
     ''<h1>Astera notification</h1><p>'' @ underscores_to_spaces (pl_event p) @ ''</p><p>Invoice: ''
     @ pl_invoice p ''n/a'' @ ''</p><p><a href='' @ [CHR 0x22] @ unsubscribeUrl @ [CHR 0x22]
     @ ''>Unsubscribe from these notifications</a></p>''"

definition idempotency_key :: "payload \<Rightarrow> string" where
  "idempotency_key p = ''invoice-event-'' @ pl_event p @ ''-'' @ pl_invoice p ''none''
     @ ''-'' @ pl_recipient p"

definition status_ok :: "nat \<Rightarrow> bool" where
  "status_ok n = (200 \<le> n \<and> n \<le> 299)"

definition sendEmail :: "delivery_env \<Rightarrow> payload \<Rightarrow> unit send" where
  "sendEmail env p sent = (case nonempty (de_apiKey env) of
      None \<Rightarrow> (Inl (GenericError ''RESEND_API_KEY is not configured''), sent)
    | Some key \<Rightarrow>
        (let appUrl = (case de_appUrl env of Some u \<Rightarrow> u | None \<Rightarrow> ''http://localhost:3000'');
             unsubscribeUrl = appUrl @ ''/settings/notifications?unsubscribe='' @ de_encode env (pl_recipient p);
             body = JObj [(''from'', JStr (case de_from env of Some f \<Rightarrow> f | None \<Rightarrow> ''Astera <onboarding@resend.dev>'')),
               (''to'', JArr [js_prop p ''recipient'']), (''subject'', JStr (''Astera: '' @ underscores_to_spaces (pl_event p))),
               (''html'', JStr (email_html p unsubscribeUrl))];
             req = EmailPost key (JStr (idempotency_key p)) body
         in case de_answer env req sent of
              Inl e \<Rightarrow> (Inl e, sent @ [req])
            | Inr status \<Rightarrow> (if status_ok status then (Inr (), sent @ [req])
                else (Inl (GenericError (''Email provider returned HTTP '' @ show_nat status)), sent @ [req]))))"

text \<open>\<open>{ id, ...payload, occurredAt }\<close>: later fields replace earlier ones in place.\<close>

definition webhook_body :: "delivery_env \<Rightarrow> nat \<Rightarrow> payload \<Rightarrow> js" where
  "webhook_body env n p =
     JObj (omap_put ''occurredAt'' (js_coalesce (js_prop p ''occurredAt'') (JStr (de_now env)))
       (fold (\<lambda>(k, v). omap_put k v) (case p of JObj kvs \<Rightarrow> kvs | _ \<Rightarrow> []) [(''id'', JStr (de_uuid env n))]))"

definition sendWebhook :: "delivery_env \<Rightarrow> string \<Rightarrow> payload \<Rightarrow> unit send" where
  "sendWebhook env url p sent =
     (if \<not> isSafeWebhookUrl (de_url env) url then (Inl (GenericError ''Invalid webhook URL''), sent)
      else (case json_stringify (webhook_body env (length sent) p) of
          Inl e \<Rightarrow> (Inl e, sent)
        | Inr body \<Rightarrow> (case nonempty (de_webhookSecret env) of
              None \<Rightarrow> (Inl (GenericError ''NOTIFICATION_WEBHOOK_SECRET is not configured''), sent)
            | Some secret \<Rightarrow>
                (let req = WebhookPost url (''sha256='' @ de_hmac env secret body) (pl_event p) (JStr body) in
                 case de_answer env req sent of
                   Inl e \<Rightarrow> (Inl e, sent @ [req])
                 | Inr status \<Rightarrow> (if status_ok status then (Inr (), sent @ [req])
                     else (Inl (GenericError (''Webhook returned HTTP '' @ show_nat status)), sent @ [req]))))))"

text \<open>A preference section: absent, or its fields; \<open>events.includes\<close> on a missing list throws.\<close>

definition channel_wants :: "js \<Rightarrow> string \<Rightarrow> bool result" where
  "channel_wants section event =
     (if \<not> js_truthy (js_prop section ''enabled'') then Inr False
      else (case js_prop section ''events'' of
          JArr xs \<Rightarrow> Inr (JStr event \<in> set xs)
        | JStr s \<Rightarrow> Inr (str_includes s event)
        | _ \<Rightarrow> Inl (TypeError ''events.includes is not a function'')))"

definition deliver_email :: "delivery_env \<Rightarrow> payload \<Rightarrow> bool \<Rightarrow> unit send" where
  "deliver_email env p email sent =
     (if email then (case retry_send (sendEmail env p) sent of (r, sent', waits) \<Rightarrow> (r, sent')) else (Inr (), sent))"

definition deliver_webhook :: "delivery_env \<Rightarrow> payload \<Rightarrow> bool \<Rightarrow> js \<Rightarrow> unit send" where
  "deliver_webhook env p webhook url sent =
     (if webhook \<and> js_truthy url
      then (case retry_send (sendWebhook env (js_String url) p) sent of (r, sent', waits) \<Rightarrow> (r, sent')) else (Inr (), sent))"

definition deliverNotification :: "delivery_env \<Rightarrow> payload \<Rightarrow> js \<Rightarrow> (bool \<times> bool) send" where
  "deliverNotification env p preferences =
     (if is_nullish preferences then io_throw (TypeError ''Cannot read properties of undefined'')
      else (case (channel_wants (js_prop preferences ''email'') (pl_event p), channel_wants (js_prop preferences ''webhook'') (pl_event p)) of
          (Inl e, _) \<Rightarrow> io_throw e
        | (_, Inl e) \<Rightarrow> io_throw e
        | (Inr email, Inr webhook) \<Rightarrow>
            io_bind (deliver_email env p email) (\<lambda>_.
            io_bind (deliver_webhook env p webhook (js_prop (js_prop preferences ''webhook'') ''url'')) (\<lambda>_.
            io_return (email, webhook)))))"

section \<open>Routes\<close>

definition supported_events :: "string list" where
  "supported_events = [''INVOICE_FUNDED'', ''PAYMENT_DUE_7_DAYS'', ''PAYMENT_DUE_1_DAY'', ''PAYMENT_OVERDUE'',
     ''INVOICE_COMPLETED'', ''INVOICE_DEFAULTED'', ''COLLATERAL_SEIZED'']"

text \<open>The expected header: the template prints an unset variable as \<open>undefined\<close>.\<close>

definition dispatch_header :: "delivery_env \<Rightarrow> string" where
  "dispatch_header env = ''Bearer '' @ (case de_dispatchToken env of Some t \<Rightarrow> t | None \<Rightarrow> ''undefined'')"

definition dispatch_POST :: "delivery_env \<Rightarrow> string option \<Rightarrow> js result \<Rightarrow> outbound list \<Rightarrow> http_answer \<times> outbound list" where
  "dispatch_POST env authorization body sent =
     (if authorization \<noteq> Some (dispatch_header env) then (json_error 401 ''Unauthorized'', sent)
      else (case body of
          Inl e \<Rightarrow> (JsonAnswer 502 (JObj [(''ok'', JBool False), (''error'', JStr (error_message e))]), sent)
        | Inr b \<Rightarrow>
            (let p = js_prop b ''payload'' in
             if \<not> js_truthy (js_prop p ''event'') \<or> \<not> js_truthy (js_prop p ''recipient'')
             then (json_error 400 ''payload.event and payload.recipient are required'', sent)
             else (case js_prop p ''event'' of
                 JStr event \<Rightarrow>
                   if event \<notin> set supported_events then (json_error 400 ''Unsupported notification event'', sent)
                   else (case deliverNotification env p (js_prop b ''preferences'') sent of
                       (Inl e, sent') \<Rightarrow> (JsonAnswer 502 (JObj [(''ok'', JBool False), (''error'', JStr (error_message e))]), sent')
                     | (Inr (email, webhook), sent') \<Rightarrow>
                         (JsonAnswer 200 (JObj [(''ok'', JBool True),
                            (''delivered'', JObj [(''email'', JBool email), (''webhook'', JBool webhook)])]), sent'))
               | _ \<Rightarrow> (json_error 400 ''Unsupported notification event'', sent)))))"

text \<open>The test payload; a request that is aborted after six seconds is an error of the network.\<close>

definition test_payload :: "string \<Rightarrow> js" where
  "test_payload timestamp = JObj [(''event'', JStr ''TEST_WEBHOOK''),
     (''message'', JStr ''This is a test webhook from Astera (notification settings).''), (''timestamp'', JStr timestamp),
     (''data'', JObj [(''exampleAlert'', JObj [(''type'', JStr ''INVOICE_FUNDED''), (''priority'', JStr ''MEDIUM''),
        (''message'', JStr ''Invoice #123 has been funded for 2500 USDC.'')])])]"

definition webhook_test_POST :: "delivery_env \<Rightarrow> js result \<Rightarrow> outbound list \<Rightarrow> http_answer \<times> outbound list" where
  "webhook_test_POST env body sent = (case body of
      Inl _ \<Rightarrow> (JsonAnswer 400 (JObj [(''ok'', JBool False), (''error'', JStr ''Invalid JSON body.'')]), sent)
    | Inr b \<Rightarrow>
        (let url = string_or_empty (js_prop b ''url'') in
         if \<not> isSafeWebhookUrl (de_url env) url
         then (JsonAnswer 400 (JObj [(''ok'', JBool False), (''error'', JStr ''Invalid webhook URL.'')]), sent)
         else (let req = WebhookPost url [] [] (test_payload (de_now env)) in
           case de_answer env req sent of
             Inl e \<Rightarrow> (JsonAnswer 502 (JObj [(''ok'', JBool False), (''error'', JStr (error_message e))]), sent @ [req])
           | Inr status \<Rightarrow>
               (if status_ok status then (JsonAnswer 200 (JObj [(''ok'', JBool True)]), sent @ [req])
                else (JsonAnswer 502 (JObj [(''ok'', JBool False),
                        (''error'', JStr (''Webhook responded with HTTP '' @ show_nat status @ ''.''))]), sent @ [req])))))"

section \<open>The address check is about addresses\<close>

definition dotted :: "nat \<Rightarrow> nat \<Rightarrow> nat \<Rightarrow> nat \<Rightarrow> string" where
  "dotted a b c d = show_nat a @ ''.'' @ show_nat b @ ''.'' @ show_nat c @ ''.'' @ show_nat d"

text \<open>The ranges the comment names: private, loopback, link-local and unspecified.\<close>

definition private_range :: "nat \<Rightarrow> nat \<Rightarrow> bool" where
  "private_range a b = (a = 127 \<or> a = 10 \<or> (a = 172 \<and> 16 \<le> b \<and> b \<le> 31) \<or> (a = 192 \<and> b = 168)
     \<or> (a = 169 \<and> b = 254) \<or> a = 0)"

lemma digit_not_dot: "is_digit c \<Longrightarrow> c \<noteq> CHR ''.''"
  by (auto simp: is_digit_def)

lemma dot_split:
  assumes "list_all is_digit u" "list_all is_digit v" "u @ CHR ''.'' # r = v @ CHR ''.'' # r'"
  shows "u = v \<and> r = r'"
proof -
  have tw: "takeWhile is_digit (w @ CHR ''.'' # t) = w" if "list_all is_digit w" for w t
    using that by (auto simp: takeWhile_append list_all_iff is_digit_def)
  from assms have "u = v" using tw by metis
  with assms(3) show ?thesis by simp
qed

lemma show_nat_inject: "show_nat a = show_nat b \<longleftrightarrow> a = b"
  by (metis digits_val_show_nat)

lemma startsWith_octet:
  "startsWith (show_nat a @ CHR ''.'' # r) (show_nat n @ CHR ''.'' # p) \<longleftrightarrow> a = n \<and> startsWith r p"
proof
  assume "startsWith (show_nat a @ CHR ''.'' # r) (show_nat n @ CHR ''.'' # p)"
  then obtain z where "show_nat a @ CHR ''.'' # r = show_nat n @ CHR ''.'' # (p @ z)"
    by (auto simp: startsWith_prefix prefix_def)
  from dot_split [OF _ _ this] show "a = n \<and> startsWith r p"
    by (auto simp: show_nat_inject startsWith_prefix)
qed (auto simp: startsWith_prefix)

lemma digit_char_simps:
  "CHR ''0'' = digit_char 0" "CHR ''1'' = digit_char 1" "CHR ''2'' = digit_char 2" "CHR ''3'' = digit_char 3"
  "CHR ''4'' = digit_char 4" "CHR ''5'' = digit_char 5" "CHR ''6'' = digit_char 6" "CHR ''7'' = digit_char 7"
  "CHR ''8'' = digit_char 8" "CHR ''9'' = digit_char 9"
  by code_simp+

lemma digit_char_inject: "d < 10 \<Longrightarrow> e < 10 \<Longrightarrow> digit_char d = digit_char e \<longleftrightarrow> d = e"
  by (metis digit_val_digit_char)

lemma digit_char_eqs:
  assumes "d < 10"
  shows "digit_char d = CHR ''0'' \<longleftrightarrow> d = 0" "digit_char d = CHR ''1'' \<longleftrightarrow> d = 1" "digit_char d = CHR ''2'' \<longleftrightarrow> d = 2"
    "digit_char d = CHR ''3'' \<longleftrightarrow> d = 3" "digit_char d = CHR ''6'' \<longleftrightarrow> d = 6" "digit_char d = CHR ''7'' \<longleftrightarrow> d = 7"
    "digit_char d = CHR ''8'' \<longleftrightarrow> d = 8" "digit_char d = CHR ''9'' \<longleftrightarrow> d = 9"
  unfolding digit_char_simps using assms by (simp_all add: digit_char_inject)

lemma show_nat_consts:
  "show_nat 0 = ''0''" "show_nat 10 = ''10''" "show_nat 127 = ''127''" "show_nat 168 = ''168''" "show_nat 169 = ''169''"
  "show_nat 172 = ''172''" "show_nat 192 = ''192''" "show_nat 254 = ''254''"
  by (simp_all add: show_nat.simps digit_char_simps)

lemma show_nat_two: "10 \<le> b \<Longrightarrow> b < 100 \<Longrightarrow> show_nat b = [digit_char (b div 10), digit_char (b mod 10)]"
  by (simp add: show_nat.simps [of b] show_nat.simps [of "b div 10"])

lemma show_nat_three:
  "100 \<le> b \<Longrightarrow> b < 1000 \<Longrightarrow> show_nat b = [digit_char (b div 100), digit_char (b div 10 mod 10), digit_char (b mod 10)]"
  by (simp add: show_nat.simps [of b] show_nat_two div_mult2_eq [symmetric])

definition block_172 :: "string \<Rightarrow> bool" where
  "block_172 s = (2 < length s \<and> s ! 2 = CHR ''.'' \<and>
     ((s ! 0 = CHR ''1'' \<and> s ! 1 \<in> set ''6789'') \<or> (s ! 0 = CHR ''2'' \<and> is_digit (s ! 1)) \<or> (s ! 0 = CHR ''3'' \<and> s ! 1 \<in> set ''01'')))"

lemma second_octet:
  assumes "b < 256"
  shows "block_172 (show_nat b @ CHR ''.'' # show_nat c @ r) \<longleftrightarrow> 16 \<le> b \<and> b \<le> 31"
proof -
  consider "b < 10" | "10 \<le> b" "b < 100" | "100 \<le> b" by linarith
  then show ?thesis
  proof cases
    case 1
    obtain x xs where "show_nat c = x # xs" "is_digit x" using list_all_is_digit_show_nat [of c] by (cases "show_nat c") auto
    then show ?thesis using 1 digit_not_dot by (auto simp: block_172_def show_nat.simps [of b])
  next
    case 2
    let ?q = "b div 10" and ?m = "b mod 10"
    have "block_172 (show_nat b @ CHR ''.'' # show_nat c @ r) \<longleftrightarrow>
        (?q = 1 \<and> ?m \<in> {6, 7, 8, 9}) \<or> ?q = 2 \<or> (?q = 3 \<and> ?m \<in> {0, 1})"
      using 2 digit_char_eqs [of ?q] digit_char_eqs [of ?m] is_digit_digit_char [of ?m]
      by (simp add: block_172_def show_nat_two less_mult_imp_div_less)
    also have "\<dots> \<longleftrightarrow> 16 \<le> 10 * ?q + ?m \<and> 10 * ?q + ?m \<le> 31"
    proof -
      have "\<And>q m :: nat. m < 10 \<Longrightarrow> ((q = 1 \<and> m \<in> {6, 7, 8, 9}) \<or> q = 2 \<or> (q = 3 \<and> m \<in> {0, 1})) = (16 \<le> 10 * q + m \<and> 10 * q + m \<le> 31)"
        by (simp; presburger)
      then show ?thesis by simp
    qed
    also have "10 * ?q + ?m = b" by simp
    finally show ?thesis .
  next
    case 3
    then show ?thesis
      using assms digit_not_dot [OF is_digit_digit_char, of "b mod 10"] by (simp add: block_172_def show_nat_three)
  qed
qed

lemma private_ipv4_dotted:
  assumes "a < 256" "b < 256" "c < 256" "d < 256"
  shows "private_ipv4 (dotted a b c d) \<longleftrightarrow> private_range a b"
proof -
  let ?r = "show_nat b @ CHR ''.'' # show_nat c @ CHR ''.'' # show_nat d"
  have oct: "startsWith (dotted a b c d) (show_nat n @ ''.'') \<longleftrightarrow> a = n" for n
    using startsWith_octet [of a ?r n "[]"] by (simp add: dotted_def)
  have oct2: "startsWith (dotted a b c d) (show_nat n @ ''.'' @ show_nat m @ ''.'') \<longleftrightarrow> a = n \<and> b = m" for n m
    using startsWith_octet [of a ?r n "show_nat m @ ''.''"] startsWith_octet [of b "show_nat c @ CHR ''.'' # show_nat d" m "[]"]
    by (simp add: dotted_def)
  have b172: "dotted 172 b c d = ''172.'' @ ?r" by (simp add: dotted_def show_nat_consts)
  have "(startsWith (dotted a b c d) ''172.'' \<and> block_172 (drop 4 (dotted a b c d))) \<longleftrightarrow> a = 172 \<and> 16 \<le> b \<and> b \<le> 31"
    using oct [of 172] second_octet [OF assms(2), of c "CHR ''.'' # show_nat d"] by (auto simp: show_nat_consts b172)
  moreover have "private_ipv4 s = (startsWith s ''127.'' \<or> startsWith s ''10.''
      \<or> (startsWith s ''172.'' \<and> block_172 (drop 4 s)) \<or> startsWith s ''192.168.'' \<or> startsWith s ''169.254.'' \<or> startsWith s ''0.'')" for s
    by (auto simp: private_ipv4_def block_172_def)
  ultimately show ?thesis
    using oct [of 127] oct [of 10] oct2 [of 192 168] oct2 [of 169 254] oct [of 0]
    by (simp add: show_nat_consts private_range_def)
qed

text \<open>An IPv4 address as Node prints its IPv6-mapped form: two groups of hexadecimal digits.\<close>

fun show_hex :: "nat \<Rightarrow> string" where
  "show_hex n = (if n < 16 then [hex_digit n] else show_hex (n div 16) @ [hex_digit (n mod 16)])"

declare show_hex.simps [simp del]

definition mapped :: "nat \<Rightarrow> nat \<Rightarrow> nat \<Rightarrow> nat \<Rightarrow> string" where
  "mapped a b c d = ''::ffff:'' @ show_hex (256 * a + b) @ '':'' @ show_hex (256 * c + d)"

lemma radix_digits_snoc:
  "radix_digits r acc (xs @ [c]) = (case radix_digits r acc xs of None \<Rightarrow> None | Some a \<Rightarrow> map_option (\<lambda>d. r * a + d) (radix_val r c))"
  by (induction xs arbitrary: acc) (auto split: option.splits)

lemma show_hex_value: "radix_digits 16 0 (show_hex n) = Some n"
proof (induction n rule: show_hex.induct)
  case (1 n)
  then show ?case
    by (subst show_hex.simps) (auto simp: radix_digits_snoc radix_val_hex_digit)
qed

lemma is_hex_digit: "d < 16 \<Longrightarrow> is_hex (hex_digit d)"
  by (simp add: is_hex_def radix_val_hex_digit)

lemma show_hex_digits: "list_all is_hex (show_hex n)"
proof (induction n rule: show_hex.induct)
  case (1 n)
  then show ?case by (subst show_hex.simps) (auto simp: is_hex_digit)
qed

lemma show_hex_nonempty [simp]: "show_hex n \<noteq> []"
  by (subst show_hex.simps) simp

lemma lower_prefix: "startsWith (toLowerCase (''::ffff:'' @ s)) ''::ffff:''"
proof -
  have "toLowerCase ''::ffff:'' = ''::ffff:''" by code_simp
  then have "toLowerCase (''::ffff:'' @ s) = ''::ffff:'' @ toLowerCase s" by (simp add: toLowerCase_def)
  then show ?thesis by (simp add: startsWith_prefix)
qed

lemma colon_not_hex [simp]: "\<not> is_hex CHR '':''"
  by (simp add: is_hex_def radix_val_def)

lemma decodeMapped_mapped:
  assumes "b < 256" "d < 256"
  shows "decodeMappedIPv4 (mapped a b c d) = Some (dotted a b c d)"
proof -
  let ?h = "show_hex (256 * a + b)" and ?l = "show_hex (256 * c + d)"
  have r: "drop 7 (mapped a b c d) = ?h @ CHR '':'' # ?l" by (simp add: mapped_def)
  have h: "takeWhile is_hex (?h @ CHR '':'' # ?l) = ?h"
    using show_hex_digits [of "256 * a + b"] by (simp add: takeWhile_append list_all_iff)
  have num: "hex_number (show_hex n) = int n" for n by (simp add: hex_number_def show_hex_value)
  have split: "int (256 * x + y) div 256 = int x" "int (256 * x + y) mod 256 = int y" if "y < 256" for x y
    using that by simp_all
  have shown: "show_int (int n) = show_nat n" for n by (simp add: show_int_def)
  show ?thesis
    using h lower_prefix [of "?h @ '':'' @ ?l"] show_hex_digits [of "256 * c + d"] split [OF assms(1), of a] split [OF assms(2), of c]
    by (simp add: decodeMappedIPv4_def r mapped_def Let_def num dotted_def shown del: of_nat_add of_nat_mult)
qed



text \<open>Beyond IPv4 the patterns are narrower than the ranges: the unspecified address and most unique-local
  addresses pass.\<close>

lemma ipv6_ranges_not_covered:
  "\<not> isPrivateAddress ''::'' 6" "\<not> isPrivateAddress ''fd12:3456::1'' 6" "\<not> isPrivateAddress ''fc01::1'' 6"
  by code_simp+

section \<open>What leaves the server\<close>

definition op_adds :: "(outbound \<Rightarrow> bool) \<Rightarrow> unit send \<Rightarrow> bool" where
  "op_adds P op = (\<forall>sent. snd (op sent) = sent \<or> (\<exists>q. snd (op sent) = sent @ [q] \<and> P q))"

lemma retry_adds:
  assumes "op_adds P op" "retry_loop n k op e sent = (r, sent', ws)"
  shows "\<exists>qs. sent' = sent @ qs \<and> length qs \<le> n \<and> list_all P qs"
  using assms(2)
proof (induction n arbitrary: k e sent r sent' ws)
  case (Suc n)
  obtain r1 s1 where o: "op sent = (r1, s1)" by fastforce
  then have "s1 = sent \<or> (\<exists>q. s1 = sent @ [q] \<and> P q)" using assms(1) unfolding op_adds_def by (metis snd_conv)
  then obtain qs where qs: "s1 = sent @ qs" "length qs \<le> 1" "list_all P qs" by fastforce
  show ?case
  proof (cases r1)
    case (Inr u)
    then show ?thesis using Suc.prems o qs by auto
  next
    case (Inl err)
    obtain r2 s2 ws2 where l: "retry_loop n (Suc k) op (Some err) s1 = (r2, s2, ws2)" by (metis prod_cases3)
    from Suc.IH [OF l] obtain qs' where "s2 = s1 @ qs'" "length qs' \<le> n" "list_all P qs'" by blast
    then show ?thesis using Suc.prems o qs Inl l by (intro exI [of _ "qs @ qs'"]) auto
  qed
qed auto

text \<open>A webhook request is signed over its own body and goes where the check allows.\<close>

fun good_webhook :: "delivery_env \<Rightarrow> outbound \<Rightarrow> bool" where
  "good_webhook env (WebhookPost url signature event body) =
     (isSafeWebhookUrl (de_url env) url \<and> (\<exists>secret text. de_webhookSecret env = Some secret \<and> secret \<noteq> []
        \<and> body = JStr text \<and> signature = ''sha256='' @ de_hmac env secret text))"
| "good_webhook env (EmailPost key idem body) = False"

fun good_email :: "delivery_env \<Rightarrow> payload \<Rightarrow> outbound \<Rightarrow> bool" where
  "good_email env p (EmailPost key idem body) = (idem = JStr (idempotency_key p) \<and> js_prop body ''to'' = JArr [js_prop p ''recipient''])"
| "good_email env p (WebhookPost url signature event body) = False"

lemma nonempty_Some: "nonempty x = Some y \<longleftrightarrow> x = Some y \<and> y \<noteq> []"
  by (auto simp: nonempty_def split: option.splits list.splits)

lemma sendEmail_adds: "op_adds (good_email env p) (sendEmail env p)"
  by (auto simp: op_adds_def sendEmail_def Let_def split: option.splits sum.splits)

lemma sendWebhook_adds: "op_adds (good_webhook env) (sendWebhook env url p)"
  by (auto simp: op_adds_def sendWebhook_def Let_def nonempty_Some split: option.splits sum.splits)

lemma deliver_email_adds:
  "\<exists>es. snd (deliver_email env p on sent) = sent @ es \<and> length es \<le> 3 \<and> list_all (good_email env p) es"
proof (cases on)
  case True
  obtain r s w where "retry_loop 3 0 (sendEmail env p) None sent = (r, s, w)" by (metis prod_cases3)
  with True retry_adds [OF sendEmail_adds this] show ?thesis by (simp add: deliver_email_def retry_send_def MAX_ATTEMPTS_def)
qed (simp add: deliver_email_def)

lemma deliver_webhook_adds:
  "\<exists>ws. snd (deliver_webhook env p on url sent) = sent @ ws \<and> length ws \<le> 3 \<and> list_all (good_webhook env) ws"
proof (cases "on \<and> js_truthy url")
  case True
  obtain r s w where "retry_loop 3 0 (sendWebhook env (js_String url) p) None sent = (r, s, w)" by (metis prod_cases3)
  with True retry_adds [OF sendWebhook_adds this] show ?thesis by (simp add: deliver_webhook_def retry_send_def MAX_ATTEMPTS_def)
next
  case False
  then have "snd (deliver_webhook env p on url sent) = sent" by (auto simp: deliver_webhook_def)
  then show ?thesis by simp
qed

lemma deliver_adds:
  "\<exists>es ws. snd (deliverNotification env p prefs sent) = sent @ es @ ws \<and> length es \<le> 3 \<and> length ws \<le> 3
     \<and> list_all (good_email env p) es \<and> list_all (good_webhook env) ws"
proof -
  define both where "both email webhook = io_bind (deliver_email env p email) (\<lambda>_.
      io_bind (deliver_webhook env p webhook (js_prop (js_prop prefs ''webhook'') ''url'')) (\<lambda>_. io_return (email, webhook)))"
    for email webhook
  have stages: "\<exists>es ws. snd (both email webhook sent) = sent @ es @ ws \<and> length es \<le> 3 \<and> length ws \<le> 3
     \<and> list_all (good_email env p) es \<and> list_all (good_webhook env) ws" for email webhook
  proof -
    obtain r1 s1 where 1: "deliver_email env p email sent = (r1, s1)" by fastforce
    obtain r2 s2 where 2: "deliver_webhook env p webhook (js_prop (js_prop prefs ''webhook'') ''url'') s1 = (r2, s2)" by fastforce
    obtain es where es: "s1 = sent @ es" "length es \<le> 3" "list_all (good_email env p) es"
      using deliver_email_adds [of env p email sent] 1 by auto
    obtain ws where ws: "s2 = s1 @ ws" "length ws \<le> 3" "list_all (good_webhook env) ws"
      using deliver_webhook_adds [of env p webhook "js_prop (js_prop prefs ''webhook'') ''url''" s1] 2 by auto
    have "snd (both email webhook sent) = s1 \<or> snd (both email webhook sent) = s2"
      using 1 2 by (auto simp: both_def io_bind_def split: sum.splits)
    then show ?thesis
    proof
      assume "snd (both email webhook sent) = s1"
      then show ?thesis using es by (intro exI [of _ es] exI [of _ "[]"]) simp
    next
      assume "snd (both email webhook sent) = s2"
      then show ?thesis using es ws by (intro exI [of _ es] exI [of _ ws]) simp
    qed
  qed
  consider (fail) "snd (deliverNotification env p prefs sent) = sent"
    | (run) email webhook where "deliverNotification env p prefs sent = both email webhook sent"
    unfolding deliverNotification_def both_def
    by (cases "is_nullish prefs"; cases "channel_wants (js_prop prefs ''email'') (pl_event p)";
        cases "channel_wants (js_prop prefs ''webhook'') (pl_event p)") auto
  then show ?thesis
  proof cases
    case fail
    then show ?thesis by (intro exI [of _ "[]"]) simp
  next
    case run
    then show ?thesis using stages by simp
  qed
qed


text \<open>
  When no dispatch token is configured the route is open: the template prints the unset variable,
  so a request with the header \<open>Bearer undefined\<close> is served.
\<close>

theorem unset_dispatch_token_is_open:
  "fst (dispatch_POST (env\<lparr>de_dispatchToken := None\<rparr>) (Some ''Bearer undefined'') body sent) \<noteq> json_error 401 ''Unauthorized''"
  by (auto simp: dispatch_POST_def dispatch_header_def json_error_def Let_def split: sum.splits js.splits prod.splits)

text \<open>The service that is meant to call the route has no CSRF cookie, so the middleware turns it away.\<close>

lemma dispatch_blocked_without_cookie:
  "middleware u1 u2 \<lparr>rq_pathname = ''/api/notifications/dispatch'', rq_method = ''POST'', rq_cookies = (\<lambda>_. None),
     rq_csrf_header = h\<rparr> = Forbidden"
  by (simp add: middleware_def MUTATING_METHODS_def WALLET_SIGNATURE_EXEMPT_def nonempty_def)

text \<open>A webhook that is enabled without a destination is reported as delivered.\<close>

lemma webhook_without_url_reported:
  "fst (deliverNotification env (JObj [(''event'', JStr ''INVOICE_FUNDED'')])
      (JObj [(''webhook'', JObj [(''enabled'', JBool True), (''url'', JStr []), (''events'', JArr [JStr ''INVOICE_FUNDED''])])]) sent)
   = Inr (False, True)"
  by (simp add: deliverNotification_def channel_wants_def pl_event_def string_or_empty_def deliver_email_def deliver_webhook_def
      io_bind_def)

end
