(* ===== verification/RpcReads.thy ===== *)
theory RpcReads
  imports Prelude
begin

text \<open>
  The read queue of the frontend's RPC access (\<open>frontend/lib/stellar.ts\<close>, \<open>readContract\<close> and the
  functions under it): at most five reads in flight, at most ten starts per second.

  The queue lives in the browser's event loop, and the model has the part of it that matters: the
  callbacks waiting in the microtask queue, which run before anything else, and the timer.  A
  read is a number.  The answer of a read arrives from the network, so its completion, like a timer,
  is a task of its own and waits until no microtask is left; a call of \<open>readContract\<close> comes from
  code that is running already.
\<close>

section \<open>Queue\<close>

definition maxConcurrent :: nat where "maxConcurrent = 5"
definition maxStartsPerSecond :: nat where "maxStartsPerSecond = 10"
definition windowMs :: millis where "windowMs = 1000"

record read_queue =
  rq_queue :: "nat list"
  rq_starts :: "millis list"
  rq_active :: nat
  rq_timer :: "millis option"
  rq_microtasks :: nat
  rq_log :: "(nat \<times> millis) list"

definition idle_queue :: read_queue where
  "idle_queue = \<lparr>rq_queue = [], rq_starts = [], rq_active = 0, rq_timer = None, rq_microtasks = 0, rq_log = []\<rparr>"

definition pruneReadStartTimes :: "millis \<Rightarrow> read_queue \<Rightarrow> read_queue" where
  "pruneReadStartTimes now s = s\<lparr>rq_starts := dropWhile (\<lambda>t. windowMs \<le> now - t) (rq_starts s)\<rparr>"

definition scheduleReadQueue :: "millis \<Rightarrow> read_queue \<Rightarrow> read_queue" where
  "scheduleReadQueue now s0 =
     (if rq_timer s0 \<noteq> None \<or> rq_queue s0 = [] then s0
      else (let s = pruneReadStartTimes now s0 in
        if length (rq_starts s) < maxStartsPerSecond then s\<lparr>rq_microtasks := Suc (rq_microtasks s)\<rparr>
        else s\<lparr>rq_timer := Some (now + max 0 (windowMs - (now - hd (rq_starts s))))\<rparr>))"

text \<open>The loop of \<open>processReadQueue\<close>: start the next read while both limits allow it.\<close>

fun start_reads :: "millis \<Rightarrow> nat list \<Rightarrow> read_queue \<Rightarrow> read_queue" where
  "start_reads now [] s = s\<lparr>rq_queue := []\<rparr>"
| "start_reads now (task # tasks) s =
     (if rq_active s < maxConcurrent \<and> length (rq_starts s) < maxStartsPerSecond
      then start_reads now tasks (s\<lparr>rq_active := Suc (rq_active s), rq_starts := rq_starts s @ [now],
             rq_log := rq_log s @ [(task, now)]\<rparr>)
      else s\<lparr>rq_queue := task # tasks\<rparr>)"

definition processReadQueue :: "millis \<Rightarrow> read_queue \<Rightarrow> read_queue" where
  "processReadQueue now s0 =
     (let s = pruneReadStartTimes now (s0\<lparr>rq_timer := None\<rparr>)
      in scheduleReadQueue now (start_reads now (rq_queue s) s))"

definition readContract :: "nat \<Rightarrow> millis \<Rightarrow> read_queue \<Rightarrow> read_queue" where
  "readContract task now s = processReadQueue now (s\<lparr>rq_queue := rq_queue s @ [task]\<rparr>)"

definition read_finished :: "millis \<Rightarrow> read_queue \<Rightarrow> read_queue" where
  "read_finished now s = processReadQueue now (s\<lparr>rq_active := rq_active s - 1\<rparr>)"

section \<open>The event loop\<close>

inductive read_step :: "millis \<Rightarrow> read_queue \<Rightarrow> read_queue \<Rightarrow> bool" where
  step_call: "read_step now s (readContract task now s)"
| step_microtask: "0 < rq_microtasks s \<Longrightarrow> read_step now s (processReadQueue now (s\<lparr>rq_microtasks := rq_microtasks s - 1\<rparr>))"
| step_timer: "rq_microtasks s = 0 \<Longrightarrow> rq_timer s = Some due \<Longrightarrow> due \<le> now \<Longrightarrow> read_step now s (processReadQueue now s)"
| step_finished: "rq_microtasks s = 0 \<Longrightarrow> 0 < rq_active s \<Longrightarrow> read_step now s (read_finished now s)"

text \<open>Steps at times that never go back.\<close>

inductive reads_reach :: "millis \<Rightarrow> read_queue \<Rightarrow> millis \<Rightarrow> read_queue \<Rightarrow> bool" for t0 s0 where
  reach_refl: "reads_reach t0 s0 t0 s0"
| reach_step: "reads_reach t0 s0 t s \<Longrightarrow> t \<le> now \<Longrightarrow> read_step now s s' \<Longrightarrow> reads_reach t0 s0 now s'"

section \<open>The limits\<close>

text \<open>
  The log is the pruned starts followed by the kept ones; the pruned ones are at least a window old,
  and any eleven consecutive starts span a window.
\<close>

definition reads_wf :: "millis \<Rightarrow> read_queue \<Rightarrow> bool" where
  "reads_wf now s \<longleftrightarrow> rq_active s \<le> maxConcurrent \<and> length (rq_starts s) \<le> maxStartsPerSecond
     \<and> (\<exists>old. map snd (rq_log s) = old @ rq_starts s \<and> (\<forall>t \<in> set old. windowMs \<le> now - t))
     \<and> (\<forall>i. i + maxStartsPerSecond < length (rq_log s) \<longrightarrow>
           windowMs \<le> snd (rq_log s ! (i + maxStartsPerSecond)) - snd (rq_log s ! i))"

lemma reads_wf_later: "reads_wf t s \<Longrightarrow> t \<le> now \<Longrightarrow> reads_wf now s"
  by (fastforce simp: reads_wf_def)

lemma reads_wf_cong:
  "reads_wf now s \<Longrightarrow> rq_active s' \<le> rq_active s \<Longrightarrow> rq_starts s' = rq_starts s \<Longrightarrow> rq_log s' = rq_log s \<Longrightarrow> reads_wf now s'"
  by (auto simp: reads_wf_def)

lemma reads_wf_prune: "reads_wf now s \<Longrightarrow> reads_wf now (pruneReadStartTimes now s)"
proof -
  assume wf: "reads_wf now s"
  then obtain old where old: "map snd (rq_log s) = old @ rq_starts s" "\<forall>t \<in> set old. windowMs \<le> now - t"
    by (auto simp: reads_wf_def)
  let ?P = "\<lambda>t. windowMs \<le> now - t"
  have "map snd (rq_log s) = (old @ takeWhile ?P (rq_starts s)) @ dropWhile ?P (rq_starts s)"
    using old(1) by simp
  moreover have "\<forall>t \<in> set (old @ takeWhile ?P (rq_starts s)). windowMs \<le> now - t"
    using old(2) by (auto dest: set_takeWhileD)
  ultimately have "\<exists>old'. map snd (rq_log s) = old' @ dropWhile ?P (rq_starts s) \<and> (\<forall>t \<in> set old'. windowMs \<le> now - t)"
    by blast
  moreover have "length (dropWhile ?P (rq_starts s)) \<le> maxStartsPerSecond"
    using wf length_dropWhile_le [of ?P "rq_starts s"] by (simp add: reads_wf_def)
  ultimately show ?thesis using wf by (simp add: reads_wf_def pruneReadStartTimes_def)
qed

lemma reads_wf_start:
  assumes wf: "reads_wf now s" and room: "rq_active s < maxConcurrent" "length (rq_starts s) < maxStartsPerSecond"
  shows "reads_wf now (s\<lparr>rq_active := Suc (rq_active s), rq_starts := rq_starts s @ [now], rq_log := rq_log s @ [(task, now)]\<rparr>)"
proof -
  obtain old where old: "map snd (rq_log s) = old @ rq_starts s" "\<forall>t \<in> set old. windowMs \<le> now - t"
    using wf by (auto simp: reads_wf_def)
  have span: "windowMs \<le> snd ((rq_log s @ [(task, now)]) ! (i + maxStartsPerSecond)) - snd ((rq_log s @ [(task, now)]) ! i)"
    if i: "i + maxStartsPerSecond < length (rq_log s @ [(task, now)])" for i
  proof (cases "i + maxStartsPerSecond < length (rq_log s)")
    case True
    then show ?thesis using wf by (simp add: reads_wf_def nth_append)
  next
    case False
    with i have last: "i + maxStartsPerSecond = length (rq_log s)" by simp
    have "length (rq_log s) = length old + length (rq_starts s)" using arg_cong [OF old(1), of length] by simp
    with last room(2) have "i < length old" "i < length (rq_log s)" by simp_all
    then have "snd (rq_log s ! i) \<in> set old" using old(1) by (metis nth_append nth_map nth_mem)
    then show ?thesis using old(2) last \<open>i < length (rq_log s)\<close> by (simp add: nth_append)
  qed
  have "map snd (rq_log s @ [(task, now)]) = old @ (rq_starts s @ [now])" using old(1) by simp
  with old(2) room span show ?thesis by (auto simp: reads_wf_def)
qed

lemma reads_wf_start_reads: "reads_wf now s \<Longrightarrow> reads_wf now (start_reads now tasks s)"
proof (induction now tasks s rule: start_reads.induct)
  case (2 now task tasks s)
  then show ?case
    by (auto simp del: start_reads.simps simp: start_reads.simps(2) intro: reads_wf_start reads_wf_cong)
qed (auto intro: reads_wf_cong)

lemma reads_wf_schedule: "reads_wf now s \<Longrightarrow> reads_wf now (scheduleReadQueue now s)"
  by (auto simp: scheduleReadQueue_def Let_def intro: reads_wf_cong [OF reads_wf_prune])

lemma reads_wf_process: "reads_wf now s \<Longrightarrow> reads_wf now (processReadQueue now s)"
  unfolding processReadQueue_def Let_def
  by (intro reads_wf_schedule reads_wf_start_reads reads_wf_prune) (auto intro: reads_wf_cong)

lemma reads_wf_step:
  assumes "read_step now s s'" "reads_wf now s"
  shows "reads_wf now s'"
  using assms
  by (induction rule: read_step.induct)
    (auto simp: readContract_def read_finished_def intro!: reads_wf_process intro: reads_wf_cong)

text \<open>
  C26: The rate limiter holds its limits in every state it can reach, however calls, answers, timers
  and microtasks interleave: never more than five reads are in flight, and any eleven
  consecutive starts span at least a second, so no window of a second ever has more than ten.
\<close>

theorem read_limits_hold:
  assumes "reads_reach t0 idle_queue now s"
  shows "rq_active s \<le> 5
    \<and> (\<forall>i. i + 10 < length (rq_log s) \<longrightarrow> 1000 \<le> snd (rq_log s ! (i + 10)) - snd (rq_log s ! i))"
proof -
  have "reads_wf now s"
    using assms
  proof induction
    case reach_refl
    then show ?case by (simp add: reads_wf_def idle_queue_def)
  next
    case (reach_step t s now s')
    then show ?case using reads_wf_later reads_wf_step by blast
  qed
  then show ?thesis by (simp add: reads_wf_def maxConcurrent_def maxStartsPerSecond_def windowMs_def)
qed

section \<open>The queue can freeze the page\<close>

text \<open>All five slots taken, reads waiting, and room in the rate window.\<close>

definition frozen :: "read_queue \<Rightarrow> bool" where
  "frozen s \<longleftrightarrow> 0 < rq_microtasks s \<and> rq_active s = maxConcurrent \<and> rq_queue s \<noteq> []
     \<and> length (rq_starts s) < maxStartsPerSecond \<and> rq_timer s = None"

lemma process_full:
  assumes "rq_active s = maxConcurrent" "rq_queue s \<noteq> []" "length (rq_starts s) < maxStartsPerSecond"
  shows "frozen (processReadQueue now s) \<and> rq_log (processReadQueue now s) = rq_log s \<and> rq_queue (processReadQueue now s) = rq_queue s"
proof -
  have short: "length (dropWhile P (rq_starts s)) < maxStartsPerSecond" for P
    using assms(3) length_dropWhile_le [of P "rq_starts s"] by linarith
  moreover have "length (dropWhile P (dropWhile Q (rq_starts s))) < maxStartsPerSecond" for P Q
    using short [of Q] length_dropWhile_le [of P "dropWhile Q (rq_starts s)"] by linarith
  ultimately show ?thesis
    using assms(1,2)
    by (cases "rq_queue s") (simp_all add: frozen_def processReadQueue_def scheduleReadQueue_def pruneReadStartTimes_def Let_def)
qed

lemma frozen_step:
  assumes "read_step now s s'" "frozen s"
  shows "frozen s' \<and> rq_log s' = rq_log s \<and> set (rq_queue s) \<subseteq> set (rq_queue s')"
  using assms
proof (induction rule: read_step.induct)
  case (step_call now s task)
  then show ?case
    using process_full [of "s\<lparr>rq_queue := rq_queue s @ [task]\<rparr>" now] by (auto simp: readContract_def frozen_def)
next
  case (step_microtask s now)
  then show ?case
    using process_full [of "s\<lparr>rq_microtasks := rq_microtasks s - 1\<rparr>" now] by (auto simp: frozen_def)
qed (auto simp: frozen_def)

lemma frozen_forever:
  "reads_reach t0 s0 t s \<Longrightarrow> frozen s0 \<Longrightarrow> frozen s \<and> rq_log s = rq_log s0"
  by (induction rule: reads_reach.induct) (auto dest: frozen_step)

lemma six_reads_frozen:
  "frozen (fold (\<lambda>task. readContract task now) [1, 2, 3, 4, 5, 6] idle_queue)
   \<and> rq_log (fold (\<lambda>task. readContract task now) [1, 2, 3, 4, 5, 6] idle_queue) = map (\<lambda>i. (i, now)) [1, 2, 3, 4, 5]"
  by (simp add: frozen_def readContract_def processReadQueue_def scheduleReadQueue_def pruneReadStartTimes_def idle_queue_def
      maxConcurrent_def maxStartsPerSecond_def windowMs_def Let_def)

text \<open>
  C27: Six reads requested together freeze the page.  With five in flight and room left in the rate
  window, the queue schedules itself as a microtask, which finds no free slot and schedules itself again;
  microtasks run before any answer or timer, so no answer is ever handled: in every later state the
  microtask is still pending, all five reads are still in flight and no further read has started.
\<close>

theorem six_reads_freeze_page:
  assumes "reads_reach t0 (fold (\<lambda>task. readContract task t0) [1, 2, 3, 4, 5, 6] idle_queue) now s"
  shows "0 < rq_microtasks s \<and> rq_active s = 5 \<and> rq_queue s \<noteq> [] \<and> map fst (rq_log s) = [1, 2, 3, 4, 5]"
  using frozen_forever [OF assms] six_reads_frozen [of t0] by (simp add: frozen_def maxConcurrent_def)

theorem six_reads_freeze_page_witness:
  "rq_active (processReadQueue 7 ((fold (\<lambda>task. readContract task 0) [1, 2, 3, 4, 5, 6] idle_queue)\<lparr>rq_microtasks := 0\<rparr>)) = 5"
proof -
  let ?s = "fold (\<lambda>task. readContract task 0) [1, 2, 3, 4, 5, 6] idle_queue"
  have m: "rq_microtasks ?s = 1"
    by (simp add: readContract_def processReadQueue_def scheduleReadQueue_def pruneReadStartTimes_def idle_queue_def
        maxConcurrent_def maxStartsPerSecond_def windowMs_def Let_def)
  have "reads_reach 0 ?s 7 (processReadQueue 7 (?s\<lparr>rq_microtasks := rq_microtasks ?s - 1\<rparr>))"
    by (rule reach_step [OF reach_refl _ step_microtask]) (use m in linarith)+
  with six_reads_freeze_page [OF this] m show ?thesis by simp
qed

theorem read_limits_hold_witness:
  "rq_active (readContract 1 0 idle_queue) \<le> 5"
  using read_limits_hold [OF reach_step [OF reach_refl order_refl step_call]] by blast

end
