(* ===== verification/RpcPool.thy ===== *)
theory RpcPool
  imports Alerts
begin

text \<open>
  The frontend's access to the chain (\<open>frontend/lib/stellar.ts\<close>): the pool of RPC connections with
  failover and retries, the submission of signed transactions, and the small conversions beside them.

  A connection has an identity, since the code keeps a reference to it while it waits and the pool may
  replace it meanwhile.  What the \<open>i\<close>-th attempt of a call answers is an argument; a request that
  loses the race against its fifteen-second timer answers the timeout error.
\<close>

section \<open>Configuration\<close>

definition poolSize :: nat where "poolSize = 3"
definition maxConnectionAge :: millis where "maxConnectionAge = 300000"
definition maxRetries :: nat where "maxRetries = 3"
definition retryBaseDelay :: millis where "retryBaseDelay = 1000"

text \<open>The configured endpoints that are set, then the public ones.\<close>

definition RPC_ENDPOINTS :: "string option \<Rightarrow> string option \<Rightarrow> string option \<Rightarrow> string list" where
  "RPC_ENDPOINTS url fallback1 fallback2 =
     concat (map (\<lambda>u. case u of Some (c # cs) \<Rightarrow> [c # cs] | _ \<Rightarrow> []) [url, fallback1, fallback2])
     @ [''https://soroban-testnet.stellar.org'', ''https://rpc-testnet.stellar.org'']"

section \<open>Connections\<close>

record PooledConnection =
  cn_id :: nat
  cn_url :: string
  cn_createdAt :: millis
  cn_lastUsed :: millis
  cn_healthy :: bool
  cn_inFlight :: nat

record rpc_pool =
  rp_connections :: "PooledConnection list"
  rp_fresh :: nat

definition new_connection :: "nat \<Rightarrow> string \<Rightarrow> millis \<Rightarrow> PooledConnection" where
  "new_connection i url now = \<lparr>cn_id = i, cn_url = url, cn_createdAt = now, cn_lastUsed = now, cn_healthy = True, cn_inFlight = 0\<rparr>"

definition initPool :: "string list \<Rightarrow> millis \<Rightarrow> rpc_pool" where
  "initPool endpoints now =
     \<lparr>rp_connections = map (\<lambda>i. new_connection i (endpoints ! (i mod length endpoints)) now) [0..<poolSize], rp_fresh = poolSize\<rparr>"

fun index_of :: "'a \<Rightarrow> 'a list \<Rightarrow> nat option" where
  "index_of x [] = None"
| "index_of x (y # ys) = (if x = y then Some 0 else map_option Suc (index_of x ys))"

text \<open>\<open>(indexOf(url) + 1) % length\<close>: a url that is not listed is followed by the first.\<close>

definition next_url :: "string list \<Rightarrow> string \<Rightarrow> string" where
  "next_url endpoints url = endpoints ! ((case index_of url endpoints of Some i \<Rightarrow> Suc i | None \<Rightarrow> 0) mod length endpoints)"

definition recycleConnection :: "string list \<Rightarrow> millis \<Rightarrow> nat \<Rightarrow> rpc_pool \<Rightarrow> rpc_pool" where
  "recycleConnection endpoints now i p =
     p\<lparr>rp_connections := (rp_connections p)[i := new_connection (rp_fresh p) (next_url endpoints (cn_url (rp_connections p ! i))) now],
       rp_fresh := Suc (rp_fresh p)\<rparr>"

text \<open>One round of health checks; \<open>answers\<close> tells which servers answer.\<close>

fun health_checks :: "string list \<Rightarrow> millis \<Rightarrow> (PooledConnection \<Rightarrow> bool) \<Rightarrow> nat list \<Rightarrow> rpc_pool \<Rightarrow> rpc_pool" where
  "health_checks endpoints now answers [] p = p"
| "health_checks endpoints now answers (i # is) p =
     (let c = rp_connections p ! i in
      health_checks endpoints now answers is
        (if maxConnectionAge < now - cn_createdAt c then recycleConnection endpoints now i p
         else if answers c then p\<lparr>rp_connections := (rp_connections p)[i := c\<lparr>cn_healthy := True\<rparr>]\<rparr>
         else recycleConnection endpoints now i p))"

definition performHealthChecks :: "string list \<Rightarrow> millis \<Rightarrow> (PooledConnection \<Rightarrow> bool) \<Rightarrow> rpc_pool \<Rightarrow> rpc_pool" where
  "performHealthChecks endpoints now answers p = health_checks endpoints now answers [0..<length (rp_connections p)] p"

definition update_connection :: "nat \<Rightarrow> (PooledConnection \<Rightarrow> PooledConnection) \<Rightarrow> rpc_pool \<Rightarrow> rpc_pool" where
  "update_connection cid f p = p\<lparr>rp_connections := map (\<lambda>c. if cn_id c = cid then f c else c) (rp_connections p)\<rparr>"

text \<open>The healthy connection with the fewest requests, the earliest among equals; else the first.\<close>

definition best_connection :: "rpc_pool \<Rightarrow> PooledConnection" where
  "best_connection p = (case sort_key cn_inFlight (filter cn_healthy (rp_connections p)) of
      c # _ \<Rightarrow> c
    | [] \<Rightarrow> hd (rp_connections p))"

definition getConnection :: "millis \<Rightarrow> rpc_pool \<Rightarrow> nat \<times> rpc_pool" where
  "getConnection now p = (let c = best_connection p
     in (cn_id c, update_connection (cn_id c) (\<lambda>c. c\<lparr>cn_lastUsed := now\<rparr>) p))"

section \<open>Calls\<close>

definition network_error :: "jserror \<Rightarrow> bool" where
  "network_error e = (str_includes (error_message e) ''timeout'' \<or> str_includes (error_message e) ''fetch''
     \<or> str_includes (error_message e) ''network'')"

definition acquire :: "millis \<Rightarrow> rpc_pool \<Rightarrow> nat \<times> rpc_pool" where
  "acquire now p = (case getConnection now p of (cid, p') \<Rightarrow>
     (cid, update_connection cid (\<lambda>c. c\<lparr>cn_inFlight := Suc (cn_inFlight c)\<rparr>) p'))"

definition release :: "nat \<Rightarrow> jserror option \<Rightarrow> rpc_pool \<Rightarrow> rpc_pool" where
  "release cid err p =
     (let p' = update_connection cid (\<lambda>c. c\<lparr>cn_inFlight := cn_inFlight c - 1\<rparr>) p in
      case err of
        Some e \<Rightarrow> if network_error e then update_connection cid (\<lambda>c. c\<lparr>cn_healthy := False\<rparr>) p' else p'
      | None \<Rightarrow> p')"

text \<open>
  \<open>execute\<close>, from an attempt on: the result, the connections used, the waits and the pool.  The
  answer of an attempt may depend on its number and on the connection.
\<close>

fun execute_from ::
  "nat \<Rightarrow> nat \<Rightarrow> millis \<Rightarrow> (nat \<Rightarrow> nat \<Rightarrow> 'a result) \<Rightarrow> jserror option \<Rightarrow> rpc_pool \<Rightarrow> 'a result \<times> nat list \<times> millis list \<times> rpc_pool" where
  "execute_from 0 attempt now answer lastError p =
     (Inl (case lastError of Some e \<Rightarrow> e | None \<Rightarrow> GenericError ''RPC request failed after retries''), [], [], p)"
| "execute_from (Suc n) attempt now answer lastError p =
     (case acquire now p of (cid, p1) \<Rightarrow>
       (case answer attempt cid of
          Inr v \<Rightarrow> (Inr v, [cid], [], release cid None p1)
        | Inl e \<Rightarrow>
            (case execute_from n (Suc attempt) now answer (Some e) (release cid (Some e) p1) of (r', used, waits, p') \<Rightarrow>
               (r', cid # used, (if n \<noteq> 0 then [retryBaseDelay * 2 ^ attempt] else []) @ waits, p'))))"

definition execute :: "millis \<Rightarrow> (nat \<Rightarrow> nat \<Rightarrow> 'a result) \<Rightarrow> rpc_pool \<Rightarrow> 'a result \<times> nat list \<times> millis list \<times> rpc_pool" where
  "execute now answer p = execute_from maxRetries 0 now answer None p"

section \<open>Submission\<close>

record tx_progress =
  pg_status :: string
  pg_hash :: string
  pg_error :: "string option"

definition progress :: "string \<Rightarrow> string \<Rightarrow> string option \<Rightarrow> tx_progress" where
  "progress s h e = \<lparr>pg_status = s, pg_hash = h, pg_error = e\<rparr>"

record send_response =
  sr_status :: string
  sr_hash :: string
  sr_json :: js

definition undecided :: "string \<Rightarrow> bool" where
  "undecided status = (status = ''NOT_FOUND'' \<or> status = ''PENDING'')"

text \<open>The confirmation loop: \<open>left\<close> polls may still be made; \<open>poll k\<close> is the \<open>k\<close>-th answer.\<close>

fun confirm_loop :: "nat \<Rightarrow> (nat \<Rightarrow> string result) \<Rightarrow> nat \<Rightarrow> string \<Rightarrow> string \<Rightarrow> string result \<times> tx_progress list" where
  "confirm_loop 0 poll k hash status = (Inr status, [])"
| "confirm_loop (Suc left) poll k hash status =
     (if \<not> undecided status then (Inr status, [])
      else (case poll k of
          Inl e \<Rightarrow> (Inl e, [progress ''pending'' hash None])
        | Inr status' \<Rightarrow> (case confirm_loop left poll (Suc k) hash status' of
            (r, ps) \<Rightarrow> (r, progress ''pending'' hash None # ps))))"

text \<open>The body of one attempt.\<close>

definition submit_attempt :: "send_response result \<Rightarrow> (nat \<Rightarrow> string result) \<Rightarrow> string result \<times> tx_progress list" where
  "submit_attempt sent poll = (case sent of
      Inl e \<Rightarrow> (Inl e, [])
    | Inr response \<Rightarrow>
        (let hash = sr_hash response in
         if sr_status response = ''ERROR'' then
           (let err = ''Transaction failed: '' @ (case safeStringify (sr_json response) of Inr s \<Rightarrow> s | Inl _ \<Rightarrow> [])
            in (Inl (GenericError err), [progress ''failed'' hash (Some err)]))
         else (case poll 0 of
             Inl e \<Rightarrow> (Inl e, [progress ''pending'' hash None])
           | Inr status \<Rightarrow> (case confirm_loop 20 poll 1 hash status of
                 (Inl e, ps) \<Rightarrow> (Inl e, progress ''pending'' hash None # ps)
               | (Inr final, ps) \<Rightarrow>
                   (if final = ''FAILED'' then
                      (Inl (GenericError ''Transaction failed on-chain''),
                       progress ''pending'' hash None # ps @ [progress ''failed'' hash (Some ''Transaction failed on-chain'')])
                    else if undecided final then
                      (Inl (GenericError ''Transaction confirmation timed out''),
                       progress ''pending'' hash None # ps @ [progress ''failed'' hash (Some ''Transaction confirmation timed out'')])
                    else (Inr final, progress ''pending'' hash None # ps @ [progress ''confirmed'' hash None]))))))"

text \<open>The attempts of the connection pool around it, each with its own answers.\<close>

fun submit_retries ::
  "nat \<Rightarrow> nat \<Rightarrow> (nat \<Rightarrow> send_response result) \<Rightarrow> (nat \<Rightarrow> nat \<Rightarrow> string result) \<Rightarrow> jserror option
   \<Rightarrow> string result \<times> nat \<times> tx_progress list" where
  "submit_retries 0 attempt send poll lastError =
     (Inl (case lastError of Some e \<Rightarrow> e | None \<Rightarrow> GenericError ''RPC request failed after retries''), 0, [])"
| "submit_retries (Suc n) attempt send poll lastError = (case submit_attempt (send attempt) (poll attempt) of
      (Inr v, ps) \<Rightarrow> (Inr v, 1, ps)
    | (Inl e, ps) \<Rightarrow> (case submit_retries n (Suc attempt) send poll (Some e) of
        (r, sends, ps') \<Rightarrow> (r, Suc sends, ps @ ps')))"

text \<open>The set of submissions in progress is checked first and cleared at the end in every case.\<close>

definition submit_begin :: "string \<Rightarrow> string list \<Rightarrow> (string list) result" where
  "submit_begin txKey pending =
     (if txKey \<in> set pending then Inl (GenericError ''Transaction already in progress'') else Inr (oset_add txKey pending))"

definition submit_end :: "string \<Rightarrow> string list \<Rightarrow> string list" where
  "submit_end txKey pending = filter (\<lambda>k. k \<noteq> txKey) pending"

definition submitTx :: "string result \<Rightarrow> (nat \<Rightarrow> send_response result) \<Rightarrow> (nat \<Rightarrow> nat \<Rightarrow> string result) \<Rightarrow> string list
   \<Rightarrow> string result \<times> nat \<times> tx_progress list \<times> string list" where
  "submitTx txKey send poll pending = (case txKey of
      Inl e \<Rightarrow> (Inl e, 0, [], pending)
    | Inr key \<Rightarrow> (case submit_begin key pending of
          Inl e \<Rightarrow> (Inl e, 0, [], pending)
        | Inr pending' \<Rightarrow> (case submit_retries maxRetries 0 send poll None of
            (r, sends, ps) \<Rightarrow> (r, sends, ps, submit_end key pending'))))"

section \<open>Conversions\<close>

definition js_round :: "rat \<Rightarrow> int" where
  "js_round x = \<lfloor>x + 1 / 2\<rfloor>"

definition toStroops :: "rat \<Rightarrow> int" where
  "toStroops amount = js_round (amount * 10000000)"

definition fromRaw :: "int \<Rightarrow> nat \<Rightarrow> rat" where
  "fromRaw raw decimals = of_int raw / 10 ^ decimals"

definition fromStroops :: "int \<Rightarrow> rat" where
  "fromStroops stroops = fromRaw stroops 7"

definition daysUntil :: "millis \<Rightarrow> int \<Rightarrow> int" where
  "daysUntil now ts = \<lceil>of_int (ts * 1000 - now) / (86400000 :: rat)\<rceil>"

definition slice_last :: "nat \<Rightarrow> string \<Rightarrow> string" where
  "slice_last n s = drop (length s - n) s"

definition truncateAddress :: "string \<Rightarrow> string" where
  "truncateAddress addr = (if addr = [] then [] else take 6 addr @ ''...'' @ slice_last 4 addr)"

datatype StellarNetwork = Testnet | Mainnet | Standalone

definition explorerUrl :: "(string \<Rightarrow> string) \<Rightarrow> string \<Rightarrow> string \<Rightarrow> StellarNetwork \<Rightarrow> string option" where
  "explorerUrl encode entity i network = (case network of
      Standalone \<Rightarrow> None
    | Testnet \<Rightarrow> Some (''https://stellar.expert/explorer/testnet/'' @ entity @ ''/'' @ encode i)
    | Mainnet \<Rightarrow> Some (''https://stellar.expert/explorer/public/'' @ entity @ ''/'' @ encode i))"

record token_ids =
  ti_usdc :: string
  ti_eurc :: string
  ti_usdt :: string
  ti_usdp :: string

definition stablecoinLabel :: "token_ids \<Rightarrow> string \<Rightarrow> string" where
  "stablecoinLabel ids tokenId =
     (if tokenId = ti_usdc ids then ''USDC''
      else if tokenId = ti_eurc ids then ''EURC''
      else if ti_usdt ids \<noteq> [] \<and> tokenId = ti_usdt ids then ''USDT''
      else if ti_usdp ids \<noteq> [] \<and> tokenId = ti_usdp ids then ''USDP''
      else truncateAddress tokenId)"

definition parseSimulationError :: "js \<Rightarrow> string" where
  "parseSimulationError sim =
     (let raw = toLowerCase (case safeStringify sim of Inr s \<Rightarrow> s | Inl _ \<Rightarrow> []) in
      if str_includes raw ''insufficientliquidity'' \<or> str_includes raw ''insufficient liquidity''
      then ''Not enough liquidity in pool to fund this invoice''
      else if str_includes raw ''unauthorized'' then ''You are not authorized to perform this action''
      else if str_includes raw ''contractpaused'' \<or> str_includes raw ''contract is paused''
      then ''The protocol is currently paused''
      else ''Transaction simulation failed. Please review inputs and try again.'')"

section \<open>Failover\<close>

definition healthy_ids :: "rpc_pool \<Rightarrow> nat set" where
  "healthy_ids p = cn_id ` {c \<in> set (rp_connections p). cn_healthy c}"

definition pool_wf :: "rpc_pool \<Rightarrow> bool" where
  "pool_wf p \<longleftrightarrow> rp_connections p \<noteq> [] \<and> distinct (map cn_id (rp_connections p))"

lemma best_connection_healthy:
  assumes "healthy_ids p \<noteq> {}"
  shows "best_connection p \<in> set (rp_connections p) \<and> cn_healthy (best_connection p)
    \<and> (\<forall>c \<in> set (rp_connections p). cn_healthy c \<longrightarrow> cn_inFlight (best_connection p) \<le> cn_inFlight c)"
proof -
  let ?s = "sort_key cn_inFlight (filter cn_healthy (rp_connections p))"
  have "?s \<noteq> []"
  proof
    assume "?s = []"
    then have "set ?s = {}" by simp
    then show False using assms by (auto simp: healthy_ids_def)
  qed
  then obtain c cs where s: "?s = c # cs" by (cases ?s) auto
  have "sorted (map cn_inFlight (c # cs))" using sorted_sort_key [of cn_inFlight "filter cn_healthy (rp_connections p)"] s by metis
  then have "\<forall>d \<in> set (c # cs). cn_inFlight c \<le> cn_inFlight d" by auto
  moreover have "set (c # cs) = {d \<in> set (rp_connections p). cn_healthy d}"
    using arg_cong [OF s, of set] by auto
  ultimately show ?thesis unfolding best_connection_def s by auto
qed

lemma update_update:
  "(\<And>c. cn_id (g c) = cn_id c) \<Longrightarrow> update_connection i f (update_connection i g p) = update_connection i (\<lambda>c. f (g c)) p"
  by (simp add: update_connection_def comp_def if_distrib cong: if_cong)

lemma failed_attempt:
  assumes "acquire now p = (cid, p1)" "network_error e" "pool_wf p" "healthy_ids p \<noteq> {}"
  shows "cid \<in> healthy_ids p \<and> healthy_ids (release cid (Some e) p1) = healthy_ids p - {cid}
    \<and> map cn_id (rp_connections (release cid (Some e) p1)) = map cn_id (rp_connections p)
    \<and> map cn_inFlight (rp_connections (release cid (Some e) p1)) = map cn_inFlight (rp_connections p)"
proof -
  have cid: "cid = cn_id (best_connection p)"
    and p1: "rp_connections (release cid (Some e) p1) =
      map (\<lambda>c. if cn_id c = cid then c\<lparr>cn_lastUsed := now, cn_healthy := False\<rparr> else c) (rp_connections p)"
  proof -
    have upd: "p1 = update_connection cid (\<lambda>c. c\<lparr>cn_lastUsed := now, cn_inFlight := Suc (cn_inFlight c)\<rparr>) p"
      and id: "cid = cn_id (best_connection p)"
      using assms(1) by (auto simp: acquire_def getConnection_def Let_def update_update)
    show "cid = cn_id (best_connection p)" by (rule id)
    have "release cid (Some e) p1 = update_connection cid (\<lambda>c. c\<lparr>cn_lastUsed := now, cn_healthy := False\<rparr>) p"
      unfolding upd by (simp add: release_def assms(2) update_update)
    then show "rp_connections (release cid (Some e) p1) =
      map (\<lambda>c. if cn_id c = cid then c\<lparr>cn_lastUsed := now, cn_healthy := False\<rparr> else c) (rp_connections p)"
      by (simp add: update_connection_def)
  qed
  have "cid \<in> healthy_ids p" using best_connection_healthy [OF assms(4)] by (auto simp: cid healthy_ids_def)
  moreover have "healthy_ids (release cid (Some e) p1) = healthy_ids p - {cid}"
  proof -
    have kept: "filter cn_healthy (map (\<lambda>c. if cn_id c = cid then c\<lparr>cn_lastUsed := now, cn_healthy := False\<rparr> else c) cs)
        = filter (\<lambda>c. cn_id c \<noteq> cid) (filter cn_healthy cs)" for cs
      by (induction cs) simp_all
    have "set (filter cn_healthy (rp_connections (release cid (Some e) p1)))
        = set (filter (\<lambda>c. cn_id c \<noteq> cid) (filter cn_healthy (rp_connections p)))"
      unfolding p1 kept ..
    then show ?thesis unfolding healthy_ids_def set_filter by (simp only:) blast
  qed
  ultimately show ?thesis unfolding p1 by (simp add: comp_def)
qed

lemma pool_wf_ids: "map cn_id (rp_connections q) = map cn_id (rp_connections p) \<Longrightarrow> pool_wf p \<Longrightarrow> pool_wf q"
  by (auto simp: pool_wf_def)

lemma execute_failing:
  assumes "\<And>k c. \<exists>e. answer k c = Inl e \<and> network_error e" and "pool_wf p" "n \<le> card (healthy_ids p)"
    and "execute_from n k now answer err p = (r, used, waits, p')"
  shows "length used = n \<and> distinct used \<and> set used \<subseteq> healthy_ids p \<and> healthy_ids p' = healthy_ids p - set used
    \<and> map cn_inFlight (rp_connections p') = map cn_inFlight (rp_connections p) \<and> (\<exists>e. r = Inl e)"
  using assms(2-)
proof (induction n arbitrary: k err p r used waits p')
  case (Suc n)
  obtain cid p1 where a: "acquire now p = (cid, p1)" by fastforce
  obtain e where e: "answer k cid = Inl e" "network_error e" using assms(1) by blast
  let ?p2 = "release cid (Some e) p1"
  have ne: "healthy_ids p \<noteq> {}" using Suc.prems(2) by auto
  note f = failed_attempt [OF a e(2) Suc.prems(1) ne]
  obtain r2 used2 waits2 where rest: "execute_from n (Suc k) now answer (Some e) ?p2 = (r2, used2, waits2, p')"
    and used: "used = cid # used2" and r: "r = r2"
    using Suc.prems(3) a e(1) by (auto simp: Let_def split: prod.splits)
  have "finite (healthy_ids p)" by (simp add: healthy_ids_def)
  then have "n \<le> card (healthy_ids ?p2)" using Suc.prems(2) f by (simp add: card_Diff_singleton)
  moreover have "pool_wf ?p2" using f Suc.prems(1) pool_wf_ids by blast
  ultimately show ?case using Suc.IH [OF _ _ rest] f by (auto simp: used r)
qed auto

lemma execute_failing_waits:
  assumes "\<And>k c. \<exists>e. answer k c = Inl e" and "execute_from (Suc n) k now answer err p = (r, used, waits, p')"
  shows "waits = map (\<lambda>j. retryBaseDelay * 2 ^ (k + j)) [0..<n] \<and> r = answer (k + n) (last used)"
  using assms(2)
proof (induction n arbitrary: k err p r used waits)
  case 0
  obtain cid p1 where a: "acquire now p = (cid, p1)" by fastforce
  obtain e where "answer k cid = Inl e" using assms(1) by blast
  with 0 a show ?case by auto
next
  case (Suc n)
  obtain cid p1 where a: "acquire now p = (cid, p1)" by fastforce
  obtain e where e: "answer k cid = Inl e" using assms(1) by blast
  obtain used2 waits2 where rest: "execute_from (Suc n) (Suc k) now answer (Some e) (release cid (Some e) p1) = (r, used2, waits2, p')"
    and used: "used = cid # used2" "waits = retryBaseDelay * 2 ^ k # waits2"
    using Suc.prems a e by (auto split: prod.splits simp del: execute_from.simps simp: execute_from.simps(2) [of "Suc n"])
  have "used2 \<noteq> []" using rest by (auto split: prod.splits sum.splits)
  moreover have "map (\<lambda>j. retryBaseDelay * 2 ^ (k + j)) [0..<Suc n] =
      retryBaseDelay * 2 ^ k # map (\<lambda>j. retryBaseDelay * 2 ^ (Suc k + j)) [0..<n]"
    by (simp add: upt_conv_Cons map_Suc_upt [symmetric] del: upt_Suc)
  ultimately show ?case using Suc.IH [OF rest] by (simp add: used)
qed

text \<open>
  A call fails over.  When every attempt of a call ends in a network error, the three attempts go to
  three different connections, each of them healthy when it was chosen; afterwards none of
  them is considered healthy, the in-flight counts are what they were before, the waits were one and
  two seconds, and the last attempt's error is thrown.
\<close>

theorem execute_fails_over:
  assumes "\<forall>k c. \<exists>e. answer k c = Inl e \<and> network_error e" and "pool_wf p" and "3 \<le> card (healthy_ids p)"
  shows "let (r, used, waits, p') = execute now answer p in
    distinct used \<and> length used = 3 \<and> set used \<subseteq> healthy_ids p \<and> healthy_ids p' = healthy_ids p - set used
    \<and> map cn_inFlight (rp_connections p') = map cn_inFlight (rp_connections p)
    \<and> waits = [1000, 2000] \<and> r = answer 2 (last used)"
proof -
  obtain r used waits p' where e: "execute now answer p = (r, used, waits, p')" by (metis prod_cases4)
  note u = execute_failing [OF assms(1) [rule_format] assms(2,3) e [unfolded execute_def maxRetries_def]]
  have "execute_from (Suc 2) 0 now answer None p = (r, used, waits, p')"
    using e by (simp add: execute_def maxRetries_def numeral_3_eq_3 numeral_2_eq_2 del: execute_from.simps)
  from execute_failing_waits [OF _ this] assms(1)
  have "waits = [1000, 2000] \<and> r = answer 2 (last used)"
    by (auto simp: retryBaseDelay_def numeral_2_eq_2)
  with u e show ?thesis by simp
qed

lemma initPool_healthy:
  assumes "endpoints \<noteq> []"
  shows "pool_wf (initPool endpoints now)" and "healthy_ids (initPool endpoints now) = {0, 1, 2}"
proof -
  have ids: "map cn_id (rp_connections (initPool endpoints now)) = [0, 1, 2]"
    by (simp add: initPool_def poolSize_def new_connection_def upt_rec)
  then have "distinct (map cn_id (rp_connections (initPool endpoints now)))" "map cn_id (rp_connections (initPool endpoints now)) \<noteq> []"
    by simp_all
  then show "pool_wf (initPool endpoints now)" by (auto simp: pool_wf_def)
  have "{c \<in> set (rp_connections (initPool endpoints now)). cn_healthy c} = set (rp_connections (initPool endpoints now))"
    by (auto simp: initPool_def new_connection_def)
  then have "healthy_ids (initPool endpoints now) = set (map cn_id (rp_connections (initPool endpoints now)))"
    by (simp add: healthy_ids_def)
  then show "healthy_ids (initPool endpoints now) = {0, 1, 2}" unfolding ids by simp
qed

theorem execute_fails_over_witness:
  "let (r, used, waits, p') = execute 0 (\<lambda>k c. Inl (GenericError ''RPC request timeout'') :: nat result) (initPool [''a'', ''b''] 0)
   in set used = {0, 1, 2}"
proof -
  have net: "network_error (GenericError ''RPC request timeout'')" by code_simp
  obtain r used waits p' where e: "execute 0 (\<lambda>k c. Inl (GenericError ''RPC request timeout'') :: nat result) (initPool [''a'', ''b''] 0)
      = (r, used, waits, p')" by (metis prod_cases4)
  have "distinct used \<and> length used = 3 \<and> set used \<subseteq> {0, 1, 2}"
    using execute_fails_over [of "\<lambda>k c. Inl (GenericError ''RPC request timeout'') :: nat result" "initPool [''a'', ''b''] 0" 0]
      initPool_healthy [of "[''a'', ''b'']" 0] net e by simp
  then have "set used = {0, 1, 2}" by (intro card_seteq) (auto simp: distinct_card)
  with e show ?thesis by simp
qed

section \<open>Submission\<close>

text \<open>The guard: while a submission is in progress the same transaction is refused, and it is released after.\<close>

lemma submit_guard:
  assumes "submit_begin key pending = Inr pending'" and "key \<notin> set pending"
  shows "submit_begin key pending' = Inl (GenericError ''Transaction already in progress'') \<and> submit_end key pending' = pending"
  using assms by (auto simp: submit_begin_def submit_end_def oset_add_def filter_id_conv split: if_splits)

lemma submit_releases: "snd (snd (snd (submitTx txKey send poll pending))) = pending"
  by (auto simp: submitTx_def submit_begin_def submit_end_def oset_add_def filter_id_conv split: sum.splits prod.splits)

lemma confirm_decided: "\<not> undecided status \<Longrightarrow> confirm_loop n poll k hash status = (Inr status, [])"
  by (cases n) simp_all

text \<open>What an attempt answers when the chain has refused the transaction.\<close>

lemma refused_attempt:
  assumes "sent = Inr resp" and "sr_status resp = ''ERROR'' \<or> poll 0 = Inr ''FAILED''"
  shows "\<exists>e ps. submit_attempt sent poll = (Inl e, ps) \<and> length (filter (\<lambda>p. pg_status p = ''failed'') ps) = 1"
  using assms by (auto simp: submit_attempt_def Let_def progress_def confirm_decided undecided_def)

lemma refused_retries:
  assumes "\<And>k. \<exists>resp. send k = Inr resp \<and> (sr_status resp = ''ERROR'' \<or> poll k 0 = Inr ''FAILED'')"
  shows "\<exists>r ps. submit_retries n a send poll err = (r, n, ps) \<and> length (filter (\<lambda>p. pg_status p = ''failed'') ps) = n"
proof (induction n arbitrary: a err)
  case (Suc n)
  obtain resp where "send a = Inr resp" "sr_status resp = ''ERROR'' \<or> poll a 0 = Inr ''FAILED''" using assms by blast
  then obtain e ps where "submit_attempt (send a) (poll a) = (Inl e, ps)" "length (filter (\<lambda>p. pg_status p = ''failed'') ps) = 1"
    using refused_attempt by blast
  moreover obtain r ps' where "submit_retries n (Suc a) send poll (Some e) = (r, n, ps')"
      "length (filter (\<lambda>p. pg_status p = ''failed'') ps') = n" using Suc.IH by blast
  ultimately show ?case by simp
qed simp

text \<open>
  A refused transaction is sent three times.  The connection pool retries whatever throws, so a
  transaction the network rejects at once, or one that failed on chain, is submitted again on every
  attempt, and the page is told three times that it failed.
\<close>

theorem refused_transaction_resent:
  assumes "\<forall>k. \<exists>resp. send k = Inr resp \<and> (sr_status resp = ''ERROR'' \<or> poll k 0 = Inr ''FAILED'')" and "key \<notin> set pending"
  shows "let (r, sends, ps, pending') = submitTx (Inr key) send poll pending in
    sends = 3 \<and> length (filter (\<lambda>p. pg_status p = ''failed'') ps) = 3 \<and> pending' = pending"
proof -
  obtain r ps where "submit_retries 3 0 send poll None = (r, 3, ps)" "length (filter (\<lambda>p. pg_status p = ''failed'') ps) = 3"
    using refused_retries [of send poll 3 0 None] assms(1) by blast
  with assms(2) submit_releases [of "Inr key" send poll pending] show ?thesis
    by (auto simp: submitTx_def submit_begin_def maxRetries_def)
qed

theorem refused_transaction_resent_witness:
  "fst (snd (submitTx (Inr ''k'') (\<lambda>_. Inr \<lparr>sr_status = ''PENDING'', sr_hash = ''h'', sr_json = JNull\<rparr>) (\<lambda>_ _. Inr ''FAILED'') [])) = 3"
  using refused_transaction_resent [of "\<lambda>_. Inr \<lparr>sr_status = ''PENDING'', sr_hash = ''h'', sr_json = JNull\<rparr>" "\<lambda>_ _. Inr ''FAILED''" "''k''" "[]"]
  by (auto simp: Let_def split: prod.splits)

section \<open>Conversions\<close>

lemma js_round_of_int [simp]: "js_round (of_int n) = n"
proof -
  have "\<lfloor>of_int n + (1 / 2 :: rat)\<rfloor> = n + \<lfloor>1 / 2 :: rat\<rfloor>" by (metis floor_add_int add.commute)
  also have "\<lfloor>1 / 2 :: rat\<rfloor> = 0" by (simp add: floor_eq_iff)
  finally show ?thesis by (simp add: js_round_def)
qed

text \<open>Stroops survive the trip through human units.\<close>

lemma js_round_integer [simp]: "js_round 0 = 0" "js_round 1 = 1" "js_round (numeral n) = numeral n"
  unfolding js_round_def by (rule floor_unique, simp_all)+

lemma toStroops_fromStroops: "toStroops (fromStroops n) = n"
  by (simp add: toStroops_def fromStroops_def fromRaw_def)

text \<open>An unset USDC token matches the empty identifier.\<close>

lemma label_of_unset_token: "stablecoinLabel \<lparr>ti_usdc = [], ti_eurc = e, ti_usdt = t, ti_usdp = p\<rparr> [] = ''USDC''"
  by (simp add: stablecoinLabel_def)

end
