(* ===== verification/Dashboards.thy ===== *)
theory Dashboards
  imports AlertMonitor RpcPool
begin

text \<open>
  The numbers behind the admin dashboards: protocol revenue (\<open>frontend/lib/revenue.ts\<close>), analytics
  (\<open>frontend/lib/analytics.ts\<close>), and the invoice pipeline (\<open>frontend/lib/dashboardPipeline.ts\<close>,
  \<open>dashboardFilters.ts\<close>).

  Amounts in stroops are integers and human amounts exact rationals.  Contract reads, decoded
  events, dates in the user's locale and the values of \<open>Math.random()\<close> are arguments.
\<close>

section \<open>A cached computation\<close>

text \<open>
  Both dashboards keep their last result with the time it was fetched and serve it while it is
  younger than five minutes; a failed computation is answered with an empty result and not kept.
\<close>

locale ttl_cache =
  fixes ttl :: millis
    and serve :: "millis \<Rightarrow> millis \<Rightarrow> 'd result \<Rightarrow> ('d \<times> millis) option \<Rightarrow> 'd \<times> ('d \<times> millis) option"
    and blank :: 'd
  assumes serve_fresh: "now - t < ttl \<Longrightarrow> serve now fin r (Some (d, t)) = (d, Some (d, t))"
    and serve_stale: "\<not> now - t < ttl \<Longrightarrow> serve now fin r (Some (d, t)) = (case r of Inr d' \<Rightarrow> (d', Some (d', fin)) | Inl _ \<Rightarrow> (blank, Some (d, t)))"
    and serve_none: "serve now fin r None = (case r of Inr d' \<Rightarrow> (d', Some (d', fin)) | Inl _ \<Rightarrow> (blank, None))"
begin

lemma kept_for_ttl:
  assumes "serve now fin (Inr d) None = (x, cache)" "t < fin + ttl"
  shows "serve t fin' r cache = (d, cache)"
  using assms by (auto simp: serve_none serve_fresh)

text \<open>An answer is never older than the time to live.\<close>

lemma served_is_recent:
  assumes "serve now fin r cache = (d, cache')" "d \<noteq> blank"
  shows "\<exists>t. cache' = Some (d, t) \<and> (now - t < ttl \<or> t = fin)"
proof (cases cache)
  case None
  with assms show ?thesis by (auto simp: serve_none split: sum.splits)
next
  case (Some e)
  obtain d' t where e: "e = (d', t)" by fastforce
  show ?thesis
  proof (cases "now - t < ttl")
    case True
    with assms Some e show ?thesis by (auto simp: serve_fresh)
  next
    case False
    with assms Some e show ?thesis by (auto simp: serve_stale split: sum.splits)
  qed
qed

end

definition CACHE_TTL_MS :: millis where "CACHE_TTL_MS = 5 * 60 * 1000"

definition cached :: "'d \<Rightarrow> millis \<Rightarrow> millis \<Rightarrow> 'd result \<Rightarrow> ('d \<times> millis) option \<Rightarrow> 'd \<times> ('d \<times> millis) option" where
  "cached nothing now fin r cache = (case cache of
      Some (d, t) \<Rightarrow> if now - t < CACHE_TTL_MS then (d, cache) else (case r of Inr d' \<Rightarrow> (d', Some (d', fin)) | Inl _ \<Rightarrow> (nothing, cache))
    | None \<Rightarrow> (case r of Inr d' \<Rightarrow> (d', Some (d', fin)) | Inl _ \<Rightarrow> (nothing, cache)))"

interpretation dashboard_cache: ttl_cache CACHE_TTL_MS "cached nothing" nothing for nothing
  by unfold_locales (auto simp: cached_def split: sum.splits)

section \<open>Revenue series\<close>

definition EVENT_LOOKBACK_LEDGERS :: int where "EVENT_LOOKBACK_LEDGERS = 17280 * 30"
definition INVOICE_BATCH_SIZE :: nat where "INVOICE_BATCH_SIZE = 20"
definition STROOPS_PER_UNIT :: rat where "STROOPS_PER_UNIT = 10000000"

fun chunk :: "'a list \<Rightarrow> nat \<Rightarrow> 'a list list" where
  "chunk xs n = (if xs = [] \<or> n = 0 then [] else take n xs # chunk (drop n xs) n)"

declare chunk.simps [simp del]

text \<open>A linear ramp of weights from one half to three halves.\<close>

definition ramp :: "nat \<Rightarrow> nat \<Rightarrow> rat" where
  "ramp buckets i = 1 / 2 + of_nat i / of_nat (max 1 (buckets - 1))"

definition allocateSeries :: "int \<Rightarrow> nat \<Rightarrow> rat list" where
  "allocateSeries amountTotal buckets =
     (let humanTotal = of_int amountTotal / STROOPS_PER_UNIT in
      if humanTotal \<le> 0 then replicate buckets 0
      else (let weights = map (ramp buckets) [0..<buckets]; weightSum = sum_list weights
            in map (\<lambda>w. humanTotal * w / weightSum) weights))"

definition cents :: "rat \<Rightarrow> rat" where
  "cents x = of_int (js_round (x * 100)) / 100"

record MonthlyRevenuePoint =
  mr_month :: string
  mr_label :: string
  mr_fees :: rat
  mr_fundedVolume :: rat

definition pad2 :: "int \<Rightarrow> string" where
  "pad2 n = (let d = show_int n in replicate (2 - length d) CHR ''0'' @ d)"

text \<open>\<open>new Date(year, month - i, 1)\<close>: months before January are in earlier years; \<open>month\<close> counts from 0.\<close>

definition month_back :: "int \<Rightarrow> int \<Rightarrow> int \<Rightarrow> int \<times> int" where
  "month_back year month i = ((12 * year + month - i) div 12, (12 * year + month - i) mod 12)"

definition buildMonthlySeries :: "(int \<times> int \<Rightarrow> string) \<Rightarrow> int \<Rightarrow> int \<Rightarrow> int \<Rightarrow> int \<Rightarrow> MonthlyRevenuePoint list" where
  "buildMonthlySeries monthLabel cumulativeFees fundedVolume year month =
     (let fees = allocateSeries cumulativeFees 12; volume = allocateSeries fundedVolume 12 in
      map (\<lambda>j. let date = month_back year month (11 - int j) in
        \<lparr>mr_month = show_int (fst date) @ ''-'' @ pad2 (snd date + 1), mr_label = monthLabel date,
         mr_fees = cents (fees ! j), mr_fundedVolume = cents (volume ! j)\<rparr>) [0..<12])"

record WeeklyRevenuePoint =
  wr_week :: string
  wr_label :: string
  wr_fees :: rat
  wr_fundedVolume :: rat

text \<open>Days are counted from 1 January 1970, a Thursday; \<open>getUTCDay\<close> is 0 on Sundays.\<close>

definition utc_day_of_week :: "int \<Rightarrow> int" where
  "utc_day_of_week day = (day + 4) mod 7"

definition start_of_week :: "int \<Rightarrow> int" where
  "start_of_week day = day - utc_day_of_week day + 1"

definition buildWeeklySeries :: "(int \<Rightarrow> string) \<Rightarrow> (int \<Rightarrow> string) \<Rightarrow> int \<Rightarrow> int \<Rightarrow> int \<Rightarrow> WeeklyRevenuePoint list" where
  "buildWeeklySeries isoDay weekLabel cumulativeFees fundedVolume today =
     (let fees = allocateSeries cumulativeFees 8; volume = allocateSeries fundedVolume 8 in
      map (\<lambda>j. let date = start_of_week today - (7 - int j) * 7 in
        \<lparr>wr_week = isoDay date, wr_label = weekLabel date, wr_fees = cents (fees ! j), wr_fundedVolume = cents (volume ! j)\<rparr>) [0..<8])"

record FeeVsVolumePoint =
  fv_label :: string
  fv_feeRatePct :: rat
  fv_fundedVolume :: rat

definition buildFeeVsVolume :: "MonthlyRevenuePoint list \<Rightarrow> rat \<Rightarrow> FeeVsVolumePoint list" where
  "buildFeeVsVolume monthly feeRateBps =
     map (\<lambda>m. \<lparr>fv_label = mr_label m, fv_feeRatePct = of_int (js_round feeRateBps) / 100, fv_fundedVolume = mr_fundedVolume m\<rparr>) monthly"

section \<open>Revenue events\<close>

record RawPoolEvent =
  pe_ledgerCloseAt :: string
  pe_topic :: "js list"
  pe_value :: js

text \<open>A \<open>rev_wdraw\<close> event decoded; \<open>fw_at\<close> is \<open>None\<close> when the close time is not a date (\<open>NaN\<close>).\<close>

record withdrawal_event =
  we_token :: string
  we_amount :: int
  we_closedAt :: string
  we_treasury :: string

record FeeWithdrawal =
  fw_token :: string
  fw_label :: string
  fw_amount :: int
  fw_at :: "int option"
  fw_treasury :: string

definition value_at :: "js \<Rightarrow> nat \<Rightarrow> js \<Rightarrow> string" where
  "value_at v i missing = js_String (js_coalesce (elem_at (array_elems v) i) missing)"

text \<open>Comparison of strings by code unit.\<close>

fun string_less :: "string \<Rightarrow> string \<Rightarrow> bool" where
  "string_less s [] = False"
| "string_less [] (d # t) = True"
| "string_less (c # s) (d # t) = ((of_char c :: nat) < of_char d \<or> (c = d \<and> string_less s t))"

definition withdrawal_of :: "RawPoolEvent \<Rightarrow> withdrawal_event option result" where
  "withdrawal_of e =
     (if js_String (elem_at (pe_topic e) 1) \<noteq> ''rev_wdraw'' then Inr None
      else (case js_BigInt (value_at (pe_value e) 1 (JNum (NInt 0))) of
          None \<Rightarrow> Inl (SyntaxError ''Cannot convert to a BigInt'')
        | Some amount \<Rightarrow>
            (let token = value_at (pe_value e) 0 (JStr []) in
             Inr (if token = [] then None
                  else Some \<lparr>we_token = token, we_amount = amount, we_closedAt = pe_ledgerCloseAt e,
                    we_treasury = value_at (pe_value e) 2 (JStr [])\<rparr>))))"

fun last_withdrawal :: "withdrawal_event option \<Rightarrow> RawPoolEvent list \<Rightarrow> withdrawal_event option result" where
  "last_withdrawal latest [] = Inr latest"
| "last_withdrawal latest (e # es) = (case withdrawal_of e of
      Inl err \<Rightarrow> Inl err
    | Inr None \<Rightarrow> last_withdrawal latest es
    | Inr (Some w) \<Rightarrow> last_withdrawal (case latest of
          None \<Rightarrow> Some w
        | Some l \<Rightarrow> if string_less (we_closedAt l) (we_closedAt w) then Some w else Some l) es)"

definition extractLastWithdrawal :: "token_ids \<Rightarrow> (string \<Rightarrow> millis option) \<Rightarrow> RawPoolEvent list \<Rightarrow> FeeWithdrawal option result" where
  "extractLastWithdrawal tokenIds dateParse events = (case last_withdrawal None events of
      Inl e \<Rightarrow> Inl e
    | Inr None \<Rightarrow> Inr None
    | Inr (Some w) \<Rightarrow> Inr (Some \<lparr>fw_token = we_token w, fw_label = stablecoinLabel tokenIds (we_token w), fw_amount = we_amount w,
        fw_at = map_option (\<lambda>ms. ms div 1000) (dateParse (we_closedAt w)), fw_treasury = we_treasury w\<rparr>))"

definition countUniqueLenders :: "RawPoolEvent list \<Rightarrow> nat" where
  "countUniqueLenders events = length (foldl (\<lambda>lenders e.
      if js_String (elem_at (pe_topic e) 1) \<noteq> ''deposit'' then lenders
      else (let investor = value_at (pe_value e) 0 (JStr []) in if investor = [] then lenders else oset_add investor lenders)) [] events)"

section \<open>Funded volume\<close>

record dash_invoice =
  di_owner :: string
  di_amount :: int
  di_status :: InvoiceStatus
  di_fundedAt :: int

definition FUNDED_STATUSES :: "InvoiceStatus list" where
  "FUNDED_STATUSES = [Funded, Paid, Defaulted, Disputed]"

record VolumeMetrics =
  vm_totalFunded :: int
  vm_activeToday :: int
  vm_activeThisWeek :: int
  vm_activeThisMonth :: int
  vm_borrowers :: "string list"
  vm_uniqueLenders :: nat

definition no_volume :: VolumeMetrics where
  "no_volume = \<lparr>vm_totalFunded = 0, vm_activeToday = 0, vm_activeThisWeek = 0, vm_activeThisMonth = 0, vm_borrowers = [], vm_uniqueLenders = 0\<rparr>"

definition dayMs :: millis where "dayMs = 86400000"

definition add_volume :: "millis \<Rightarrow> dash_invoice \<Rightarrow> VolumeMetrics \<Rightarrow> VolumeMetrics" where
  "add_volume now v m =
     (if di_status v \<notin> set FUNDED_STATUSES then m
      else (let fundedAtMs = di_fundedAt v * 1000;
                recent = (\<lambda>days. if 0 < fundedAtMs \<and> now - fundedAtMs \<le> days * dayMs then di_amount v else 0)
            in m\<lparr>vm_totalFunded := vm_totalFunded m + di_amount v,
                 vm_borrowers := (if di_owner v = [] then vm_borrowers m else oset_add (di_owner v) (vm_borrowers m)),
                 vm_activeToday := vm_activeToday m + recent 1,
                 vm_activeThisWeek := vm_activeThisWeek m + recent 7,
                 vm_activeThisMonth := vm_activeThisMonth m + recent 30\<rparr>))"

definition buildVolumeMetrics :: "millis \<Rightarrow> dash_invoice list \<Rightarrow> VolumeMetrics" where
  "buildVolumeMetrics now invoices = fold (add_volume now) invoices no_volume"

section \<open>The revenue dashboard\<close>

record TokenRevenue =
  tv_token :: string
  tv_label :: string
  tv_cumulativeFees :: int
  tv_pendingFees :: int
  tv_treasuryBalance :: int

record RevenueData =
  rd_feeRateBps :: rat
  rd_cumulativeFees :: int
  rd_pendingFees :: int
  rd_averageFeePerInvoice :: rat
  rd_perToken :: "TokenRevenue list"
  rd_monthly :: "MonthlyRevenuePoint list"
  rd_weekly :: "WeeklyRevenuePoint list"
  rd_feeVsVolume :: "FeeVsVolumePoint list"
  rd_treasuryAddress :: "string option"
  rd_lastWithdrawal :: "FeeWithdrawal option"
  rd_volume :: VolumeMetrics

definition emptyRevenueData :: RevenueData where
  "emptyRevenueData = \<lparr>rd_feeRateBps = 0, rd_cumulativeFees = 0, rd_pendingFees = 0, rd_averageFeePerInvoice = 0, rd_perToken = [],
     rd_monthly = [], rd_weekly = [], rd_feeVsVolume = [], rd_treasuryAddress = None, rd_lastWithdrawal = None, rd_volume = no_volume\<rparr>"

text \<open>What the contracts answer; a read that fails is replaced by the default of its catch.\<close>

record revenue_env =
  rv_feeBps :: "rat result"
  rv_tokens :: "string list result"
  rv_treasury :: "string option result"
  rv_count :: "nat result"
  rv_latestLedger :: "int result"
  rv_getEvents :: "int \<Rightarrow> RawPoolEvent list result"
  rv_invoices :: "int list \<Rightarrow> dash_invoice list result"
  rv_totalFees :: "string \<Rightarrow> int result"
  rv_pending :: "string \<Rightarrow> int result"
  rv_balance :: "string \<Rightarrow> string \<Rightarrow> int result"
  rv_tokenIds :: token_ids
  rv_monthLabel :: "int \<times> int \<Rightarrow> string"
  rv_weekLabel :: "int \<Rightarrow> string"
  rv_isoDay :: "int \<Rightarrow> string"
  rv_year :: int
  rv_month :: int
  rv_today :: int
  rv_now :: millis
  rv_finished :: millis
  rv_dateParse :: "string \<Rightarrow> millis option"

definition or_else :: "'a result \<Rightarrow> 'a \<Rightarrow> 'a" where
  "or_else r d = (case r of Inr x \<Rightarrow> x | Inl _ \<Rightarrow> d)"

definition fetchPoolEvents :: "revenue_env \<Rightarrow> RawPoolEvent list" where
  "fetchPoolEvents env = (case rv_latestLedger env of
      Inl _ \<Rightarrow> []
    | Inr sequence \<Rightarrow> or_else (rv_getEvents env (max 1 (sequence - EVENT_LOOKBACK_LEDGERS))) [])"

definition invoice_ids :: "nat \<Rightarrow> int list" where
  "invoice_ids count = map (\<lambda>i. int i + 1) [0..<count]"

text \<open>Every batch that cannot be read is left out.\<close>

definition all_invoices :: "(int list \<Rightarrow> dash_invoice list result) \<Rightarrow> nat \<Rightarrow> dash_invoice list" where
  "all_invoices getMultipleInvoices count = concat (map (\<lambda>group. or_else (getMultipleInvoices group) []) (chunk (invoice_ids count) INVOICE_BATCH_SIZE))"

definition treasury_balance :: "revenue_env \<Rightarrow> string option \<Rightarrow> string \<Rightarrow> int" where
  "treasury_balance env treasury token = (case treasury of
      Some (c # cs) \<Rightarrow> or_else (rv_balance env token (c # cs)) 0 | _ \<Rightarrow> 0)"

definition token_revenue :: "revenue_env \<Rightarrow> string option \<Rightarrow> string \<Rightarrow> TokenRevenue" where
  "token_revenue env treasury token =
     \<lparr>tv_token = token, tv_label = stablecoinLabel (rv_tokenIds env) token, tv_cumulativeFees = or_else (rv_totalFees env token) 0,
      tv_pendingFees = or_else (rv_pending env token) 0, tv_treasuryBalance = treasury_balance env treasury token\<rparr>"

definition compute_revenue :: "revenue_env \<Rightarrow> RevenueData result" where
  "compute_revenue env =
     (let treasury = or_else (rv_treasury env) None;
          events = fetchPoolEvents env;
          invoices = all_invoices (rv_invoices env) (or_else (rv_count env) 0);
          perToken = map (token_revenue env treasury) (or_else (rv_tokens env) []);
          cumulativeFees = sum_list (map tv_cumulativeFees perToken);
          volume = (buildVolumeMetrics (rv_now env) invoices)\<lparr>vm_uniqueLenders := countUniqueLenders events\<rparr>;
          monthly = buildMonthlySeries (rv_monthLabel env) cumulativeFees (vm_totalFunded volume) (rv_year env) (rv_month env);
          feeRateBps = or_else (rv_feeBps env) 0;
          funded = length (filter (\<lambda>i. di_status i \<in> set FUNDED_STATUSES) invoices)
      in case extractLastWithdrawal (rv_tokenIds env) (rv_dateParse env) events of
           Inl e \<Rightarrow> Inl e
         | Inr w \<Rightarrow> Inr
             \<lparr>rd_feeRateBps = feeRateBps, rd_cumulativeFees = cumulativeFees, rd_pendingFees = sum_list (map tv_pendingFees perToken),
              rd_averageFeePerInvoice = (if 0 < funded then of_int cumulativeFees / STROOPS_PER_UNIT / of_nat funded else 0),
              rd_perToken = perToken, rd_monthly = monthly,
              rd_weekly = buildWeeklySeries (rv_isoDay env) (rv_weekLabel env) cumulativeFees (vm_totalFunded volume) (rv_today env),
              rd_feeVsVolume = buildFeeVsVolume monthly feeRateBps, rd_treasuryAddress = treasury, rd_lastWithdrawal = w, rd_volume = volume\<rparr>)"

definition fetchRevenueData :: "revenue_env \<Rightarrow> (RevenueData \<times> millis) option \<Rightarrow> RevenueData \<times> (RevenueData \<times> millis) option" where
  "fetchRevenueData env cache = cached emptyRevenueData (rv_now env) (rv_finished env) (compute_revenue env) cache"

definition fetchTreasurySnapshot :: "revenue_env \<Rightarrow> string option \<times> (string \<times> string \<times> int) list" where
  "fetchTreasurySnapshot env =
     (let treasury = or_else (rv_treasury env) None in
      (treasury, map (\<lambda>t. (t, stablecoinLabel (rv_tokenIds env) t, treasury_balance env treasury t)) (or_else (rv_tokens env) [])))"

section \<open>Analytics\<close>

record PoolUtilizationPoint =
  pu_day :: int
  pu_utilization :: int
  pu_deployed :: int
  pu_deposited :: int

text \<open>\<open>rnd i\<close> is the random number drawn for the point \<open>i\<close> days back.\<close>

definition utilization_point :: "int \<Rightarrow> int \<Rightarrow> nat \<Rightarrow> (nat \<Rightarrow> rat) \<Rightarrow> int \<Rightarrow> nat \<Rightarrow> PoolUtilizationPoint" where
  "utilization_point deposited deployed points rnd today i =
     (let growth = 1 - of_nat i / of_nat points; variance = 4 / 5 + rnd i * (2 / 5);
          dep = js_round (of_int deposited / 10000000 * growth * variance);
          dployed = min dep (js_round (of_int deployed / 10000000 * growth * variance));
          util = (if 0 < dep then js_round (of_int dployed / of_int dep * 100) else 0)
      in \<lparr>pu_day = today - int i, pu_utilization = min util 100, pu_deployed = dployed, pu_deposited = dep\<rparr>)"

definition generateHistoricalUtilization :: "int \<Rightarrow> int \<Rightarrow> nat \<Rightarrow> (nat \<Rightarrow> rat) \<Rightarrow> int \<Rightarrow> PoolUtilizationPoint list" where
  "generateHistoricalUtilization deposited deployed points rnd today =
     map (utilization_point deposited deployed points rnd today) (rev [0..<points])"

record YieldPoint =
  yp_day :: int
  yp_apy :: rat
  yp_interest :: rat

definition generateYieldData :: "rat \<Rightarrow> nat \<Rightarrow> (nat \<Rightarrow> rat) \<Rightarrow> int \<Rightarrow> YieldPoint list" where
  "generateYieldData yieldBps points rnd today =
     map (\<lambda>i. let variance = yieldBps / 100 * (19 / 20 + rnd i * (1 / 10)) in
       \<lparr>yp_day = today - int i, yp_apy = of_int (js_round (variance * 100)) / 100, yp_interest = of_int (js_round (variance * 10)) / 10\<rparr>)
     (rev [0..<points])"

fun invoice_status_name :: "InvoiceStatus \<Rightarrow> string" where
  "invoice_status_name Pending = ''Pending''"
| "invoice_status_name AwaitingVerification = ''AwaitingVerification''"
| "invoice_status_name Verified = ''Verified''"
| "invoice_status_name Disputed = ''Disputed''"
| "invoice_status_name Funded = ''Funded''"
| "invoice_status_name Paid = ''Paid''"
| "invoice_status_name Defaulted = ''Defaulted''"
| "invoice_status_name Cancelled = ''Cancelled''"
| "invoice_status_name Expired = ''Expired''"

definition funnel_stages :: "string list" where
  "funnel_stages = [''Created'', ''Verified'', ''Funded'', ''Paid'', ''Defaulted'']"

definition funnel_add :: "dash_invoice \<Rightarrow> (string \<times> nat \<times> rat) list \<Rightarrow> (string \<times> nat \<times> rat) list" where
  "funnel_add v stages = map (\<lambda>(stage, n, x). if stage = invoice_status_name (di_status v)
      then (stage, Suc n, x + of_int (di_amount v) / 10000000) else (stage, n, x)) stages"

definition generateInvoiceFunnel :: "dash_invoice list \<Rightarrow> (string \<times> nat \<times> int) list" where
  "generateInvoiceFunnel invoices =
     map (\<lambda>(stage, n, x). (stage, n, js_round x)) (fold funnel_add invoices (map (\<lambda>s. (s, 0, 0)) funnel_stages))"

text \<open>The simulated credit score of an invoice, and its bucket.\<close>

definition simulated_score :: "InvoiceStatus \<Rightarrow> rat \<Rightarrow> int" where
  "simulated_score status rnd = (case status of
      Paid \<Rightarrow> 700 + \<lfloor>rnd * 150\<rfloor>
    | Funded \<Rightarrow> 500 + \<lfloor>rnd * 250\<rfloor>
    | Verified \<Rightarrow> 400 + \<lfloor>rnd * 300\<rfloor>
    | Defaulted \<Rightarrow> 200 + \<lfloor>rnd * 300\<rfloor>
    | _ \<Rightarrow> 300 + \<lfloor>rnd * 550\<rfloor>)"

definition score_bucket :: "int \<Rightarrow> nat" where
  "score_bucket score = (if 850 \<le> score then 5 else if 750 \<le> score then 4 else if 650 \<le> score then 3
     else if 500 \<le> score then 2 else if 300 \<le> score then 1 else 0)"

definition generateCreditScoreDistribution :: "(dash_invoice \<times> rat) list \<Rightarrow> nat list" where
  "generateCreditScoreDistribution draws =
     fold (\<lambda>(v, rnd) buckets. let b = score_bucket (simulated_score (di_status v) rnd) in buckets[b := Suc (buckets ! b)]) draws (replicate 6 0)"

record sme_totals =
  st_invoiceCount :: nat
  st_totalValue :: rat
  st_defaultCount :: nat

definition sme_add :: "dash_invoice \<Rightarrow> sme_totals option \<Rightarrow> sme_totals" where
  "sme_add v old =
     (let t = (case old of Some t \<Rightarrow> t | None \<Rightarrow> \<lparr>st_invoiceCount = 0, st_totalValue = 0, st_defaultCount = 0\<rparr>) in
      t\<lparr>st_invoiceCount := Suc (st_invoiceCount t), st_totalValue := st_totalValue t + of_int (di_amount v) / 10000000,
        st_defaultCount := st_defaultCount t + (if di_status v = Defaulted then 1 else 0)\<rparr>)"

record TopSme =
  ts_address :: string
  ts_invoiceCount :: nat
  ts_totalValue :: int
  ts_defaultRate :: int

definition sme_map :: "dash_invoice list \<Rightarrow> (string \<times> sme_totals) list" where
  "sme_map invoices = fold (\<lambda>v m. omap_put (di_owner v) (sme_add v (omap_get m (di_owner v))) m) invoices []"

definition top_sme :: "string \<times> sme_totals \<Rightarrow> TopSme" where
  "top_sme = (\<lambda>(address, t). \<lparr>ts_address = address, ts_invoiceCount = st_invoiceCount t, ts_totalValue = js_round (st_totalValue t),
     ts_defaultRate = (if 0 < st_invoiceCount t then js_round (of_nat (st_defaultCount t) / of_nat (st_invoiceCount t) * 100) else 0)\<rparr>)"

definition generateTopSmes :: "dash_invoice list \<Rightarrow> TopSme list" where
  "generateTopSmes invoices = take 10 (sort_desc ts_totalValue (map top_sme (sme_map invoices)))"

record AnalyticsDashboardData =
  ad_poolUtilization :: "PoolUtilizationPoint list"
  ad_yieldPerformance :: "YieldPoint list"
  ad_invoiceFunnel :: "(string \<times> nat \<times> int) list"
  ad_creditScores :: "nat list"
  ad_topSmes :: "TopSme list"
  ad_recentEvents :: "ContractEvent list"

definition emptyAnalyticsData :: AnalyticsDashboardData where
  "emptyAnalyticsData = \<lparr>ad_poolUtilization = [], ad_yieldPerformance = [], ad_invoiceFunnel = [], ad_creditScores = [], ad_topSmes = [], ad_recentEvents = []\<rparr>"

record analytics_env =
  an_count :: "nat result"
  an_yieldBps :: "rat option result"
  an_totals :: "(int \<times> int) result"
  an_invoices :: "int list \<Rightarrow> dash_invoice list result"
  an_rndPool :: "nat \<Rightarrow> rat"
  an_rndYield :: "nat \<Rightarrow> rat"
  an_rndScore :: "nat \<Rightarrow> rat"
  an_today :: int
  an_now :: millis
  an_finished :: millis

text \<open>
  Only the first fifty invoices are read.  Nothing in the computation can throw, so a stale cache is
  always replaced; the poll of the contract monitor moves its checkpoint and sends its alerts.
\<close>

definition compute_analytics :: "analytics_env \<Rightarrow> ContractEvent list \<Rightarrow> AnalyticsDashboardData" where
  "compute_analytics env events =
     (let invoices = or_else (an_invoices env (invoice_ids (min (or_else (an_count env) 0) 50))) [];
          totals = or_else (an_totals env) (0, 0);
          yieldBps = (case an_yieldBps env of Inr (Some b) \<Rightarrow> b | _ \<Rightarrow> 800)
      in \<lparr>ad_poolUtilization = generateHistoricalUtilization (fst totals) (snd totals) 30 (an_rndPool env) (an_today env),
          ad_yieldPerformance = generateYieldData yieldBps 30 (an_rndYield env) (an_today env),
          ad_invoiceFunnel = generateInvoiceFunnel invoices,
          ad_creditScores = generateCreditScoreDistribution (zip invoices (map (an_rndScore env) [0..<length invoices])),
          ad_topSmes = generateTopSmes invoices,
          ad_recentEvents = take 20 events\<rparr>)"

definition fetchAnalyticsData :: "analytics_env \<Rightarrow> poll_input \<Rightarrow> monitor_state \<times> (AnalyticsDashboardData \<times> millis) option
     \<Rightarrow> AnalyticsDashboardData \<times> NotificationAlert list \<times> monitor_state \<times> (AnalyticsDashboardData \<times> millis) option" where
  "fetchAnalyticsData env inp = (\<lambda>(m, cache).
     if (case cache of Some (_, t) \<Rightarrow> an_now env - t < CACHE_TTL_MS | None \<Rightarrow> False)
     then (case cached emptyAnalyticsData (an_now env) (an_finished env) (Inr emptyAnalyticsData) cache of (d, c) \<Rightarrow> (d, [], m, c))
     else (case pollEvents inp m of (events, sent, m') \<Rightarrow>
       (case cached emptyAnalyticsData (an_now env) (an_finished env) (Inr (compute_analytics env events)) cache of (d, c) \<Rightarrow> (d, sent, m', c))))"

definition formatValue :: "rat \<Rightarrow> string" where
  "formatValue value = (if 1000000 \<le> value then ''$'' @ toFixed 1 (value / 1000000) @ ''M''
     else if 1000 \<le> value then ''$'' @ toFixed 1 (value / 1000) @ ''K'' else ''$'' @ toFixed 0 value)"

section \<open>The pipeline\<close>

definition PIPELINE_COLUMN_DEFINITIONS :: "(string \<times> InvoiceStatus list) list" where
  "PIPELINE_COLUMN_DEFINITIONS = [(''pending'', [Pending]), (''awaitingVerification'', [AwaitingVerification]),
     (''verified'', [Verified]), (''funded'', [Funded]), (''paid'', [Paid])]"

definition ATTENTION_STATUSES :: "InvoiceStatus list" where
  "ATTENTION_STATUSES = [Disputed, Defaulted, Expired]"

definition isOverdueInvoice :: "InvoiceStatus \<Rightarrow> int \<Rightarrow> int \<Rightarrow> bool" where
  "isOverdueInvoice status dueDate nowUnix = (status \<noteq> Paid \<and> dueDate < nowUnix)"

definition isAttentionInvoice :: "InvoiceStatus \<Rightarrow> int \<Rightarrow> int \<Rightarrow> bool" where
  "isAttentionInvoice status dueDate nowUnix = (status \<in> set ATTENTION_STATUSES \<or> isOverdueInvoice status dueDate nowUnix)"

definition filterInvoicesByStatuses :: "('a \<Rightarrow> InvoiceStatus) \<Rightarrow> 'a list \<Rightarrow> InvoiceStatus list \<Rightarrow> 'a list" where
  "filterInvoicesByStatuses status_of rows statuses = (if statuses = [] then rows else filter (\<lambda>r. status_of r \<in> set statuses) rows)"

section \<open>Facts about the series and the sums\<close>

lemma concat_chunk: "0 < n \<Longrightarrow> concat (chunk xs n) = xs"
  by (induction xs n rule: chunk.induct) (subst chunk.simps, auto)

lemma chunk_sizes: "g \<in> set (chunk xs n) \<Longrightarrow> g \<noteq> [] \<and> length g \<le> n"
  by (induction xs n rule: chunk.induct) (subst (asm) (2) chunk.simps, auto split: if_splits)

lemma cents_close: "\<bar>cents x - x\<bar> \<le> 1 / 200"
  unfolding cents_def js_round_def by linarith

lemma ramp_pos: "0 < ramp n i"
  unfolding ramp_def by (intro add_pos_nonneg) auto

lemma ramp_mono: "i < j \<Longrightarrow> ramp n i < ramp n j"
  by (simp add: ramp_def divide_strict_right_mono)

lemma sum_list_pos_rat: "xs \<noteq> [] \<Longrightarrow> (\<And>x. x \<in> set xs \<Longrightarrow> 0 < x) \<Longrightarrow> 0 < (sum_list xs :: rat)"
proof (induction xs)
  case (Cons x xs)
  then show ?case by (cases xs) (auto intro: add_pos_pos)
qed simp

lemma ramp_sum_pos: "0 < n \<Longrightarrow> 0 < sum_list (map (ramp n) [0..<n])"
  by (rule sum_list_pos_rat) (auto simp: ramp_pos)

lemma allocateSeries_alt:
  assumes "0 < t"
  shows "allocateSeries t n = map (\<lambda>i. of_int t / STROOPS_PER_UNIT / sum_list (map (ramp n) [0..<n]) * ramp n i) [0..<n]"
  using assms by (simp add: allocateSeries_def STROOPS_PER_UNIT_def Let_def)

lemma sum_list_cents: "\<bar>sum_list (map cents xs) - sum_list xs\<bar> \<le> of_nat (length xs) / 200"
proof (induction xs)
  case (Cons x xs)
  with cents_close [of x] have "\<bar>cents x - x\<bar> + \<bar>sum_list (map cents xs) - sum_list xs\<bar> \<le> 1 / 200 + of_nat (length xs) / 200"
    by linarith
  moreover have "1 / 200 + of_nat (length xs) / 200 = (of_nat (length (x # xs)) / 200 :: rat)"
    by (simp add: add_divide_distrib)
  moreover have "\<bar>(cents x - x) + (sum_list (map cents xs) - sum_list xs)\<bar> \<le> \<bar>cents x - x\<bar> + \<bar>sum_list (map cents xs) - sum_list xs\<bar>"
    by (rule abs_triangle_ineq)
  moreover have "sum_list (map cents (x # xs)) - sum_list (x # xs) = (cents x - x) + (sum_list (map cents xs) - sum_list xs)"
    by simp
  ultimately show ?case by linarith
qed simp

lemma allocateSeries_sum:
  assumes "0 < t" "0 < n"
  shows "sum_list (allocateSeries t n) = of_int t / STROOPS_PER_UNIT"
proof -
  have "c / s * s = c" if "0 < s" for c s :: rat using that by simp
  then show ?thesis
    using ramp_sum_pos [OF assms(2)] unfolding allocateSeries_alt [OF assms(1)] sum_list_const_mult by blast
qed

lemma length_allocateSeries [simp]: "length (allocateSeries t n) = n"
  by (simp add: allocateSeries_def Let_def)

lemma allocateSeries_increasing:
  assumes "0 < t" "i < j" "j < n"
  shows "allocateSeries t n ! i < allocateSeries t n ! j"
  using assms ramp_sum_pos [of n] ramp_mono [of i j n]
  by (simp add: allocateSeries_alt STROOPS_PER_UNIT_def divide_strict_right_mono)

text \<open>
  The historical series on the revenue dashboard adds up to the live total it is derived from.
  For every positive total and every number of buckets the exact shares sum to the total in whole
  units, grow strictly from the oldest bucket to the newest, and the figures shown, each rounded to
  cents, add up to the total with an error of at most half a cent per bucket.
\<close>

theorem revenue_series_sums:
  assumes "0 < amountTotal" "0 < buckets"
  shows "sum_list (allocateSeries amountTotal buckets) = of_int amountTotal / STROOPS_PER_UNIT
     \<and> (\<forall>i j. i < j \<and> j < buckets \<longrightarrow> allocateSeries amountTotal buckets ! i < allocateSeries amountTotal buckets ! j)
     \<and> \<bar>sum_list (map cents (allocateSeries amountTotal buckets)) - of_int amountTotal / STROOPS_PER_UNIT\<bar> \<le> of_nat buckets / 200"
  using allocateSeries_sum [OF assms] allocateSeries_increasing [OF assms(1)] sum_list_cents [of "allocateSeries amountTotal buckets"]
  by (metis length_allocateSeries)

theorem revenue_series_sums_witness:
  "sum_list (allocateSeries 120000000 12) = 12 \<and> \<bar>sum_list (map cents (allocateSeries 120000000 12)) - 12\<bar> \<le> 3 / 50"
  using revenue_series_sums [of 120000000 12] by (simp add: STROOPS_PER_UNIT_def)

section \<open>Facts about the volume\<close>

definition funded_amount :: "(dash_invoice \<Rightarrow> bool) \<Rightarrow> dash_invoice list \<Rightarrow> int" where
  "funded_amount P invoices = sum_list (map di_amount (filter (\<lambda>v. di_status v \<in> set FUNDED_STATUSES \<and> P v) invoices))"

definition funded_within :: "millis \<Rightarrow> int \<Rightarrow> dash_invoice \<Rightarrow> bool" where
  "funded_within now days v = (0 < di_fundedAt v \<and> now - di_fundedAt v * 1000 \<le> days * dayMs)"

lemma funded_amount_simps [simp]:
  "funded_amount P [] = 0"
  "funded_amount P (v # vs) = (if di_status v \<in> set FUNDED_STATUSES \<and> P v then di_amount v else 0) + funded_amount P vs"
  by (simp_all add: funded_amount_def)

lemma add_volume_fold:
  "vm_totalFunded (fold (add_volume now) vs m) = vm_totalFunded m + funded_amount (\<lambda>_. True) vs
   \<and> vm_activeToday (fold (add_volume now) vs m) = vm_activeToday m + funded_amount (funded_within now 1) vs
   \<and> vm_activeThisWeek (fold (add_volume now) vs m) = vm_activeThisWeek m + funded_amount (funded_within now 7) vs
   \<and> vm_activeThisMonth (fold (add_volume now) vs m) = vm_activeThisMonth m + funded_amount (funded_within now 30) vs"
  by (induction vs arbitrary: m) (auto simp: add_volume_def Let_def funded_within_def)

lemma add_volume_borrowers:
  "set (vm_borrowers (fold (add_volume now) vs m))
     = set (vm_borrowers m) \<union> {di_owner v |v. v \<in> set vs \<and> di_status v \<in> set FUNDED_STATUSES \<and> di_owner v \<noteq> []}
   \<and> (distinct (vm_borrowers m) \<longrightarrow> distinct (vm_borrowers (fold (add_volume now) vs m)))"
proof (induction vs arbitrary: m)
  case (Cons v vs)
  show ?case
    using Cons [of "add_volume now v m"]
    by (auto simp: add_volume_def Let_def split: if_splits)
qed simp

lemma funded_amount_mono:
  assumes "\<And>v. v \<in> set vs \<Longrightarrow> 0 \<le> di_amount v" "\<And>v. P v \<Longrightarrow> Q v"
  shows "funded_amount P vs \<le> funded_amount Q vs"
  using assms by (induction vs) (auto, smt (verit))

lemma all_invoices_reads:
  assumes "\<And>ids. set ids \<subseteq> set (invoice_ids count) \<Longrightarrow> get ids = Inr (map invoice ids)"
  shows "all_invoices get count = map invoice (invoice_ids count)"
proof -
  have "or_else (get g) [] = map invoice g" if "g \<in> set (chunk (invoice_ids count) INVOICE_BATCH_SIZE)" for g
  proof -
    have "set g \<subseteq> set (concat (chunk (invoice_ids count) INVOICE_BATCH_SIZE))" using that by auto
    then show ?thesis using assms by (simp add: concat_chunk INVOICE_BATCH_SIZE_def or_else_def)
  qed
  then have "all_invoices get count = concat (map (map invoice) (chunk (invoice_ids count) INVOICE_BATCH_SIZE))"
    unfolding all_invoices_def by (metis (no_types, lifting) map_cong)
  also have "\<dots> = map invoice (concat (chunk (invoice_ids count) INVOICE_BATCH_SIZE))" by (simp add: map_concat)
  finally show ?thesis by (simp add: concat_chunk INVOICE_BATCH_SIZE_def)
qed

lemma funded_within_mono: "a \<le> b \<Longrightarrow> funded_within now a v \<Longrightarrow> funded_within now b v"
  unfolding funded_within_def dayMs_def by linarith

text \<open>
  The volume figures on the revenue dashboard cover every invoice exactly once.  When each
  batched read answers with the invoices it was asked for, the total is the sum over all invoices
  \<open>1 .. count\<close> that are funded, paid, defaulted or disputed, each invoice counted once whatever the
  batch size; the three windows are the parts of that sum funded within 1, 7 and 30 days; with
  non-negative amounts today \<open>\<le>\<close> week \<open>\<le>\<close> month \<open>\<le>\<close> total; and the borrowers counted are the
  distinct owners of those invoices.
\<close>

theorem volume_covers_every_invoice:
  fixes count :: nat and now :: millis
  assumes reads: "\<And>ids. set ids \<subseteq> set (invoice_ids count) \<Longrightarrow> get ids = Inr (map invoice ids)"
    and amounts: "\<And>i. 0 \<le> di_amount (invoice i)"
  defines "m \<equiv> buildVolumeMetrics now (all_invoices get count)"
    and "funded \<equiv> filter (\<lambda>v. di_status v \<in> set FUNDED_STATUSES) (map (\<lambda>i. invoice (int i)) [1..<Suc count])"
  shows "vm_totalFunded m = sum_list (map di_amount funded)
     \<and> vm_activeThisWeek m = sum_list (map di_amount (filter (funded_within now 7) funded))
     \<and> vm_activeToday m \<le> vm_activeThisWeek m \<and> vm_activeThisWeek m \<le> vm_activeThisMonth m \<and> vm_activeThisMonth m \<le> vm_totalFunded m
     \<and> distinct (vm_borrowers m) \<and> set (vm_borrowers m) = di_owner ` set funded - {[]}"
proof -
  have ids: "map invoice (invoice_ids count) = map (\<lambda>i. invoice (int i)) [1..<Suc count]"
    by (simp add: invoice_ids_def map_Suc_upt [symmetric] add.commute del: upt_Suc)
  let ?vs = "map (\<lambda>i. invoice (int i)) [1..<Suc count]"
  have m: "m = fold (add_volume now) ?vs no_volume"
    using all_invoices_reads [of count get invoice] reads ids by (simp add: m_def buildVolumeMetrics_def)
  note sums = add_volume_fold [of now ?vs no_volume, folded m, simplified no_volume_def, simplified]
  have total_eq: "funded_amount (\<lambda>_. True) ?vs = sum_list (map di_amount funded)"
    by (simp add: funded_amount_def funded_def)
  have week_eq: "funded_amount (funded_within now 7) ?vs = sum_list (map di_amount (filter (funded_within now 7) funded))"
    by (simp add: funded_amount_def funded_def conj_commute)
  have mono: "funded_amount P ?vs \<le> funded_amount Q ?vs" if "\<And>v. P v \<Longrightarrow> Q v" for P Q
    by (rule funded_amount_mono) (use amounts that in auto)
  have chain: "funded_amount (funded_within now 1) ?vs \<le> funded_amount (funded_within now 7) ?vs"
    "funded_amount (funded_within now 7) ?vs \<le> funded_amount (funded_within now 30) ?vs"
    "funded_amount (funded_within now 30) ?vs \<le> funded_amount (\<lambda>_. True) ?vs"
    by (rule mono, simp add: funded_within_mono [of 1 7] funded_within_mono [of 7 30])+
  have owners: "set (vm_borrowers m) = di_owner ` set funded - {[]}" "distinct (vm_borrowers m)"
    using add_volume_borrowers [of now ?vs no_volume] by (auto simp: m funded_def no_volume_def)
  show ?thesis using sums total_eq week_eq chain owners by simp
qed

definition sample_invoice :: "int \<Rightarrow> dash_invoice" where
  "sample_invoice i = \<lparr>di_owner = ''sme'', di_amount = i, di_status = (if i = 2 then Pending else Funded), di_fundedAt = 100\<rparr>"

theorem volume_covers_every_invoice_witness:
  "vm_totalFunded (buildVolumeMetrics 100000 (all_invoices (\<lambda>ids. Inr (map (\<lambda>i. sample_invoice \<bar>i\<bar>) ids)) 3)) = 4"
  using volume_covers_every_invoice [of 3 "\<lambda>ids. Inr (map (\<lambda>i. sample_invoice \<bar>i\<bar>) ids)" "\<lambda>i. sample_invoice \<bar>i\<bar>" 100000]
  by (simp add: upt_rec sample_invoice_def FUNDED_STATUSES_def)

section \<open>Facts about the ranking\<close>

definition owned_by :: "string \<Rightarrow> dash_invoice list \<Rightarrow> dash_invoice list" where
  "owned_by a invoices = filter (\<lambda>v. di_owner v = a) invoices"

definition sme_sum :: "dash_invoice list \<Rightarrow> sme_totals" where
  "sme_sum vs = \<lparr>st_invoiceCount = length vs, st_totalValue = sum_list (map (\<lambda>v. of_int (di_amount v) / 10000000) vs),
     st_defaultCount = length (filter (\<lambda>v. di_status v = Defaulted) vs)\<rparr>"

lemma sme_map_snoc: "sme_map (vs @ [v]) = omap_put (di_owner v) (sme_add v (omap_get (sme_map vs) (di_owner v))) (sme_map vs)"
  by (simp add: sme_map_def)

lemma sme_map_wf: "omap_wf (sme_map vs)"
  by (induction vs rule: rev_induct) (simp_all add: sme_map_snoc, simp add: sme_map_def omap_wf_def)

lemma sme_map_get: "omap_get (sme_map vs) a = (if owned_by a vs = [] then None else Some (sme_sum (owned_by a vs)))"
proof (induction vs rule: rev_induct)
  case Nil
  show ?case by (simp add: sme_map_def owned_by_def)
next
  case (snoc v vs)
  then show ?case by (auto simp: sme_map_snoc owned_by_def sme_add_def sme_sum_def Let_def filter_empty_conv)
qed

text \<open>The row of an address, from its invoices alone.\<close>

definition sme_row :: "dash_invoice list \<Rightarrow> string \<Rightarrow> TopSme" where
  "sme_row invoices a = top_sme (a, sme_sum (owned_by a invoices))"

lemma ts_address_top_sme [simp]: "ts_address (top_sme e) = fst e"
  by (cases e) (simp add: top_sme_def)

lemma sme_map_rows: "map top_sme (sme_map vs) = map (sme_row vs) (map fst (sme_map vs))"
proof -
  have "top_sme e = sme_row vs (fst e)" if "e \<in> set (sme_map vs)" for e
    using that omap_in_get [OF sme_map_wf, of "fst e" "snd e" vs] by (auto simp: sme_map_get sme_row_def split: if_splits)
  then show ?thesis by simp
qed

lemma sme_map_keys: "set (map fst (sme_map vs)) = di_owner ` set vs"
proof (induction vs rule: rev_induct)
  case (snoc v vs)
  then show ?case using omap_keys_put [of "di_owner v" "sme_add v (omap_get (sme_map vs) (di_owner v))" "sme_map vs"] by (simp add: sme_map_snoc)
qed (simp add: sme_map_def)

lemma default_rate_percent: "d \<le> n \<Longrightarrow> 0 < n \<Longrightarrow> 0 \<le> js_round (of_nat d / of_nat n * 100) \<and> js_round (of_nat d / of_nat n * 100) \<le> 100"
proof -
  assume "d \<le> n" "0 < n"
  then have "0 \<le> (of_nat d / of_nat n :: rat)" "(of_nat d / of_nat n :: rat) \<le> 1" by simp_all
  then show ?thesis unfolding js_round_def by linarith
qed

lemma sme_row_rate: "0 \<le> ts_defaultRate (sme_row vs a) \<and> ts_defaultRate (sme_row vs a) \<le> 100"
  using default_rate_percent [of "st_defaultCount (sme_sum (owned_by a vs))" "st_invoiceCount (sme_sum (owned_by a vs))"]
  by (simp add: sme_row_def top_sme_def sme_sum_def)

lemma sorted_take_dominates:
  "sorted (map f xs) \<Longrightarrow> y \<in> set xs \<Longrightarrow> y \<notin> set (take n xs) \<Longrightarrow> x \<in> set (take n xs) \<Longrightarrow> f x \<le> f y"
proof -
  assume s: "sorted (map f xs)" and y: "y \<in> set xs" "y \<notin> set (take n xs)" and x: "x \<in> set (take n xs)"
  have "y \<in> set (drop n xs)" using y by (metis Un_iff append_take_drop_id set_append)
  moreover have "sorted (map f (take n xs) @ map f (drop n xs))" using s by (metis append_take_drop_id map_append)
  ultimately show ?thesis using x by (auto simp: sorted_append)
qed

text \<open>
  The ranking of SMEs is the ranking by invoiced value.  Each listed row is computed from that
  owner's invoices alone, no owner is listed twice, the rows are in decreasing order of value,
  every default rate is a percentage between 0 and 100, at most ten rows are shown, and an owner
  of an invoice who is not shown lost to ten listed owners whose value is at least as high.
\<close>

theorem top_smes_ranking:
  fixes invoices :: "dash_invoice list"
  defines "ranking \<equiv> generateTopSmes invoices"
  shows "length ranking \<le> 10 \<and> distinct (map ts_address ranking) \<and> sorted_wrt (\<lambda>x y. ts_totalValue y \<le> ts_totalValue x) ranking
     \<and> (\<forall>x \<in> set ranking. x = sme_row invoices (ts_address x) \<and> ts_address x \<in> di_owner ` set invoices \<and> 0 \<le> ts_defaultRate x \<and> ts_defaultRate x \<le> 100)
     \<and> (\<forall>v \<in> set invoices. di_owner v \<notin> ts_address ` set ranking \<longrightarrow>
           length ranking = 10 \<and> (\<forall>x \<in> set ranking. ts_totalValue (sme_row invoices (di_owner v)) \<le> ts_totalValue x))"
proof -
  let ?all = "sort_desc ts_totalValue (map top_sme (sme_map invoices))"
  have ranking: "ranking = take 10 ?all" by (simp add: ranking_def generateTopSmes_def)
  have "sorted (map (\<lambda>x. - ts_totalValue x) ?all)" by (rule sorted_sort_desc)
  then have sorted: "sorted_wrt (\<lambda>x y. ts_totalValue y \<le> ts_totalValue x) ranking"
    by (auto simp: ranking sorted_map sorted_wrt_take)
  have "distinct (map fst (sme_map invoices))" using sme_map_wf by (simp add: omap_wf_def)
  then have "distinct (map ts_address (map top_sme (sme_map invoices)))" by (simp add: comp_def)
  then have "distinct (map ts_address ?all)" by (simp only: distinct_map [of ts_address] sort_desc_def distinct_sort set_sort)
  then have dist: "distinct (map ts_address ranking)" unfolding ranking take_map [symmetric] by (rule distinct_take)
  have rows: "x = sme_row invoices (ts_address x) \<and> ts_address x \<in> di_owner ` set invoices" if x: "x \<in> set ?all" for x
  proof -
    obtain a where "a \<in> set (map fst (sme_map invoices))" "x = sme_row invoices a"
      using x unfolding set_sort_desc sme_map_rows by auto
    then show ?thesis unfolding sme_map_keys by (simp add: sme_row_def)
  qed
  have listed: "sme_row invoices (di_owner v) \<in> set ?all" if "v \<in> set invoices" for v
  proof -
    have "di_owner v \<in> set (map fst (sme_map invoices))" using that by (simp only: sme_map_keys) simp
    then show ?thesis unfolding set_sort_desc sme_map_rows set_map by (rule imageI)
  qed
  have lost: "length ranking = 10 \<and> (\<forall>x \<in> set ranking. ts_totalValue (sme_row invoices (di_owner v)) \<le> ts_totalValue x)"
    if "v \<in> set invoices" "di_owner v \<notin> ts_address ` set ranking" for v
  proof -
    have out: "sme_row invoices (di_owner v) \<notin> set ranking" using that(2) by (metis fst_conv image_eqI sme_row_def ts_address_top_sme)
    then have "10 \<le> length ?all" using listed [OF that(1)] by (metis linorder_not_le nat_less_le take_all ranking)
    then show ?thesis
      using sorted_take_dominates [OF sorted_sort_desc listed [OF that(1)], of 10] out by (force simp: ranking)
  qed
  have row: "x = sme_row invoices (ts_address x) \<and> ts_address x \<in> di_owner ` set invoices \<and> 0 \<le> ts_defaultRate x \<and> ts_defaultRate x \<le> 100"
    if "x \<in> set ranking" for x
    using rows [of x] that sme_row_rate [of invoices "ts_address x"] unfolding ranking by (metis in_set_takeD)
  have "length ranking \<le> 10" by (simp add: ranking)
  with dist sorted row lost show ?thesis by blast
qed

theorem top_smes_ranking_witness:
  "map ts_address (generateTopSmes [sample_invoice 10000000, (sample_invoice 30000000)\<lparr>di_owner := ''other''\<rparr>]) = [''other'', ''sme''] \<and>
   distinct (map ts_address (generateTopSmes [sample_invoice 10000000, (sample_invoice 30000000)\<lparr>di_owner := ''other''\<rparr>]))"
  using conjunct1 [OF conjunct2 [OF top_smes_ranking [of "[sample_invoice 10000000, (sample_invoice 30000000)\<lparr>di_owner := ''other''\<rparr>]"]]]
  by (simp add: generateTopSmes_def sme_map_def sample_invoice_def sme_add_def top_sme_def sort_desc_def omap_get_def)

section \<open>Two figures that are off\<close>

text \<open>The anchor of the current week is the Monday of the week the day is in, except on Sundays, when it lies one day ahead.\<close>

lemma start_of_week_sunday:
  "utc_day_of_week (start_of_week day) = 1"
  "utc_day_of_week day = 0 \<Longrightarrow> start_of_week day = day + 1"
  "utc_day_of_week day \<noteq> 0 \<Longrightarrow> start_of_week day \<le> day \<and> day < start_of_week day + 6"
proof -
  show "utc_day_of_week (start_of_week day) = 1" unfolding start_of_week_def utc_day_of_week_def by presburger
  show "utc_day_of_week day = 0 \<Longrightarrow> start_of_week day = day + 1" by (simp add: start_of_week_def)
  show "utc_day_of_week day \<noteq> 0 \<Longrightarrow> start_of_week day \<le> day \<and> day < start_of_week day + 6"
    unfolding start_of_week_def utc_day_of_week_def by presburger
qed

text \<open>No invoice reaches the first stage of the funnel.\<close>

lemma funnel_created_fold:
  "(''Created'', n, x) \<in> set stages \<Longrightarrow> (''Created'', n, x) \<in> set (fold funnel_add invoices stages)"
proof (induction invoices arbitrary: stages)
  case (Cons v invoices)
  have "invoice_status_name (di_status v) \<noteq> ''Created''" by (cases "di_status v") simp_all
  with Cons.prems have "(''Created'', n, x) \<in> set (funnel_add v stages)"
    unfolding funnel_add_def set_map by (auto intro!: image_eqI [where x = "(''Created'', n, x)"])
  with Cons.IH show ?case by simp
qed simp

lemma funnel_created_empty: "(''Created'', 0, 0) \<in> set (generateInvoiceFunnel invoices)"
  using funnel_created_fold [of 0 0 "map (\<lambda>s. (s, 0, 0)) funnel_stages" invoices]
  unfolding generateInvoiceFunnel_def set_map by (force simp: funnel_stages_def)

end
