(* ===== verification/ContractAbi.thy ===== *)
theory ContractAbi
  imports Sdk
begin

text \<open>
  The interfaces of the Soroban contracts, as far as a caller sees them: the exported functions of
  each contract with the types of their arguments and results, and the structs and enums these
  types name (\<open>contracts/*/src/lib.rs\<close>).  The frontend and the SDK build their calls by hand, so
  what they pass is compared with these tables.

  How the host represents a type is documented: a struct is a map keyed by the field names in
  alphabetical order (the tables list the fields in that order), an enum without numbers is a
  vector of the variant's name and its payload, and an absent option is void.  \<open>conforms\<close> decides
  whether an argument has a type; \<open>shaped\<close> decides whether a value is what the library decodes
  (\<open>scValToNative\<close>) from a result of a type.

  The source file of the tranche contract is damaged (it ends in the middle of a function), so its
  interface is left open.
\<close>

section \<open>Types\<close>

datatype ty =
    TAddress | TString | TSymbol | TBool | TU32 | TU64 | TI32 | TI64 | TI128 | TUnit | TBytes "nat option"
  | TOption ty | TVec ty | TTuple "ty list" | TMapping ty ty | TNamed string

datatype decl = Struct "(string \<times> ty) list" | Variants "(string \<times> ty list) list"

text \<open>
  Lookup in a table.  The congruence rule keeps the simplifier from rewriting the whole table before
  it searches it.
\<close>

fun entry_of :: "(string \<times> 'a) list \<Rightarrow> string \<Rightarrow> 'a option" where
  "entry_of [] k = None"
| "entry_of ((n, x) # xs) k = (if n = k then Some x else entry_of xs k)"

lemma entry_of_cong [cong]: "k = k' \<Longrightarrow> entry_of xs k = entry_of xs k'"
  by simp

lemma entry_of_map_of: "entry_of xs = map_of xs"
  by (induction xs) (auto simp: fun_eq_iff)

definition in_u :: "nat \<Rightarrow> int \<Rightarrow> bool" where
  "in_u w n = (0 \<le> n \<and> n < 2 ^ w)"

definition in_i :: "nat \<Rightarrow> int \<Rightarrow> bool" where
  "in_i w n = (- (2 ^ (w - 1)) \<le> n \<and> n < 2 ^ (w - 1))"

text \<open>The values of the types that are not built from others.\<close>

definition conforms_base :: "sc_arg \<Rightarrow> ty \<Rightarrow> bool" where
  "conforms_base v t = (case (t, v) of
      (TAddress, ScAddress _) \<Rightarrow> True
    | (TString, ScString _) \<Rightarrow> True
    | (TSymbol, ScSymbol _) \<Rightarrow> True
    | (TBool, ScBool _) \<Rightarrow> True
    | (TU32, ScU32 n) \<Rightarrow> in_u 32 n
    | (TU64, ScU64 n) \<Rightarrow> in_u 64 n
    | (TI32, ScI32 n) \<Rightarrow> in_i 32 n
    | (TI64, ScI64 n) \<Rightarrow> in_i 64 n
    | (TI128, ScI128 n) \<Rightarrow> in_i 128 n
    | (TUnit, ScVoid) \<Rightarrow> True
    | (TBytes w, ScBytes bs) \<Rightarrow> (case w of None \<Rightarrow> True | Some k \<Rightarrow> length bs = k)
    | _ \<Rightarrow> False)"

function (sequential) conforms :: "(string \<times> decl) list \<Rightarrow> sc_arg \<Rightarrow> ty \<Rightarrow> bool"
  and conforms_all :: "(string \<times> decl) list \<Rightarrow> sc_arg list \<Rightarrow> ty list \<Rightarrow> bool"
  and conforms_fields :: "(string \<times> decl) list \<Rightarrow> (string \<times> sc_arg) list \<Rightarrow> (string \<times> ty) list \<Rightarrow> bool" where
  "conforms D v (TOption t) = (v = ScVoid \<or> conforms D v t)"
| "conforms D (ScVec vs) (TVec t) = conforms_all D vs (replicate (length vs) t)"
| "conforms D (ScVec vs) (TTuple ts) = conforms_all D vs ts"
| "conforms D (ScMap kvs) (TNamed n) = (case entry_of D n of Some (Struct fs) \<Rightarrow> conforms_fields D kvs fs | _ \<Rightarrow> False)"
| "conforms D (ScVec vs) (TNamed n) = (case entry_of D n of
      Some (Variants cs) \<Rightarrow> (case vs of ScSymbol tag # payload \<Rightarrow> (case entry_of cs tag of Some ts \<Rightarrow> conforms_all D payload ts | None \<Rightarrow> False) | _ \<Rightarrow> False)
    | _ \<Rightarrow> False)"
| "conforms D v t = conforms_base v t"
| "conforms_all D [] [] = True"
| "conforms_all D (v # vs) (t # ts) = (conforms D v t \<and> conforms_all D vs ts)"
| "conforms_all D _ _ = False"
| "conforms_fields D [] [] = True"
| "conforms_fields D ((k, v) # kvs) ((f, t) # fs) = (k = f \<and> conforms D v t \<and> conforms_fields D kvs fs)"
| "conforms_fields D _ _ = False"
  by pat_completeness auto
termination
  by (relation "inv_image (less_than <*lex*> less_than) (\<lambda>x. case x of
        Inl (D, v, t) \<Rightarrow> (2 * size v, size t)
      | Inr (Inl (D, vs, ts)) \<Rightarrow> (2 * size_list size vs + 1, 0)
      | Inr (Inr (D, kvs, fs)) \<Rightarrow> (2 * size_list (size_prod (\<lambda>_. 0) size) kvs + 1, 0))") auto

section \<open>The exported functions\<close>

subsection \<open>\<open>contracts/access_control/src/lib.rs\<close>\<close>

definition access_control_types :: "(string \<times> decl) list" where
  "access_control_types =
    [(''ActionPayload'', Variants [(''SetPaused'', [TBool]), (''SetYield'', [TU32]), (''SetTreasury'', [TAddress]), (''WithdrawRevenue'', [TAddress, TI128]), (''SetOracleContract'', [TAddress]), (''SetKycRequired'', [TBool]), (''SetInvestorKyc'', [TAddress, TBool]), (''SetMaxUtilization'', [TU32]), (''SetOracle'', [TAddress]), (''RegisterDebtor'', [TString, TString, TI128]), (''DeactivateDebtor'', [TString]), (''AddKeeper'', [TAddress]), (''SetLateThreshold'', [TI64]), (''SetScoreThresholds'', [TU32, TU32, TU32, TU32]), (''RegisterAttestor'', [TAddress, TU32, TU32]), (''SetOracleRegistryInvoiceContract'', [TAddress]), (''SetOracleRegistryTreasury'', [TOption TAddress]), (''SetOracleRegistryConfig'', [TI128, TU32, TU32, TU64, TU64]), (''SetOracleRegistryPaused'', [TBool]), (''SlashOracle'', [TAddress, TU32, TU64, TString]), (''AdminResolveRound'', [TU64, TBool, TString]), (''SetCompliancePaused'', [TBool]), (''RegisterScreener'', [TAddress]), (''ConfirmScreenerRegistration'', [TAddress]), (''DeregisterScreener'', [TAddress]), (''SetRescreeningInterval'', [TU64]), (''SetScreenerTimelock'', [TU64]), (''UpdateGovernanceConfig'', [TU32, TU32, TU64]), (''SetCategoryQuorum'', [TNamed ''ProposalCategory'', TU32]), (''SetReferralPaused'', [TBool]), (''SetReferralPool'', [TAddress]), (''SetBorrowRewardBps'', [TU32]), (''SetDepositRewardBps'', [TU32]), (''SetInvoiceAccessControl'', [TAddress]), (''SetCreditScoreAccessControl'', [TAddress]), (''SetOracleRegistryAccessControl'', [TAddress]), (''SetComplianceAccessControl'', [TAddress]), (''SetGovernanceAccessControl'', [TAddress]), (''SetReferralAccessControl'', [TAddress]), (''AddSigner'', [TNamed ''Role'', TAddress]), (''RemoveSigner'', [TNamed ''Role'', TAddress]), (''SetThreshold'', [TNamed ''Role'', TU32]), (''SetProposalExpiry'', [TU64])]),
     (''MultiSigConfig'', Struct [(''signers'', TVec TAddress), (''threshold'', TU32)]),
     (''Proposal'', Struct [(''action'', TNamed ''ActionPayload''), (''approvals'', TVec TAddress), (''created_at'', TU64), (''earliest_execution_time'', TU64), (''expires_at'', TU64), (''proposer'', TAddress), (''role'', TNamed ''Role''), (''status'', TNamed ''ProposalStatus''), (''target'', TAddress)]),
     (''ProposalCategory'', Variants [(''ParameterChange'', []), (''Treasury'', []), (''Critical'', [])]),
     (''ProposalStatus'', Variants [(''Pending'', []), (''Approved'', []), (''Executed'', []), (''Rejected'', [])]),
     (''Role'', Variants [(''SuperAdmin'', []), (''RiskManager'', []), (''TreasuryManager'', []), (''ComplianceOfficer'', []), (''OracleManager'', [])])]"

definition access_control_fns :: "(string \<times> ty list \<times> ty) list" where
  "access_control_fns =
    [(''initialize'', [TVec TAddress, TU32, TU64, TU64], TUnit),
     (''get_proposal_expiry_secs'', [], TU64),
     (''get_role_config'', [TNamed ''Role''], TOption (TNamed ''MultiSigConfig'')),
     (''is_signer'', [TNamed ''Role'', TAddress], TBool),
     (''get_proposal'', [TU64], TOption (TNamed ''Proposal'')),
     (''list_proposals'', [TU64, TU32, TOption (TNamed ''ProposalStatus'')], TVec (TNamed ''Proposal'')),
     (''get_next_proposal_id'', [], TU64),
     (''propose_action'', [TNamed ''Role'', TAddress, TAddress, TNamed ''ActionPayload''], TU64),
     (''approve_action'', [TAddress, TU64], TUnit),
     (''revoke_approval'', [TAddress, TU64], TUnit),
     (''reject_action'', [TAddress, TU64], TUnit),
     (''execute_action'', [TAddress, TU64], TUnit),
     (''prune_proposal'', [TU64], TUnit)]"

subsection \<open>\<open>contracts/arbitration/src/lib.rs\<close>\<close>

definition arbitration_types :: "(string \<times> decl) list" where
  "arbitration_types =
    [(''ArbitrationConfig'', Struct [(''commit_window_secs'', TU64), (''committee_size'', TU32), (''deregister_cooldown_secs'', TU64), (''evidence_window_secs'', TU64), (''lopsided_confidence_bps'', TU32), (''max_retries'', TU32), (''min_stake'', TI128), (''non_reveal_slash_bps'', TU32), (''quorum_floor'', TU32), (''reveal_window_secs'', TU64), (''slash_bps'', TU32), (''stake_token'', TAddress)]),
     (''DisputeCase'', Struct [(''amount'', TI128), (''claimant'', TAddress), (''commit_deadline'', TU64), (''evidence_deadline'', TU64), (''id'', TU64), (''invoice_id'', TU64), (''jurors'', TVec TAddress), (''opened_at'', TU64), (''resolution'', TNamed ''DisputeResolution''), (''respondent'', TAddress), (''retry_count'', TU32), (''reveal_deadline'', TU64), (''status'', TNamed ''CaseStatus'')]),
     (''CaseStatus'', Variants [(''EvidenceWindow'', []), (''CommitReveal'', []), (''Resolved'', []), (''NoQuorumEscalated'', [])]),
     (''DisputeResolution'', Variants [(''Pending'', []), (''InFavorOfSME'', []), (''InFavorOfDebtor'', [])]),
     (''EvidenceEntry'', Struct [(''evidence_hash'', TString), (''party'', TNamed ''PartyRole''), (''submitted_at'', TU64), (''submitter'', TAddress)]),
     (''JurorInfo'', Struct [(''address'', TAddress), (''cases_served'', TU32), (''deregister_requested_at'', TOption TU64), (''is_active'', TBool), (''non_reveal_strikes'', TU32), (''registered_at'', TU64), (''stake_amount'', TI128), (''stake_token'', TAddress), (''times_slashed'', TU32)]),
     (''JurorVote'', Struct [(''commit_hash'', TOption (TBytes (Some 32))), (''revealed_vote'', TOption TBool)]),
     (''PartyRole'', Variants [(''Claimant'', []), (''Respondent'', [])])]"

definition arbitration_fns :: "(string \<times> ty list \<times> ty) list" where
  "arbitration_fns =
    [(''initialize'', [TAddress, TAddress, TAddress, TI128], TUnit),
     (''set_invoice_contract'', [TAddress, TAddress], TUnit),
     (''get_invoice_contract'', [], TOption TAddress),
     (''set_access_control'', [TAddress, TAddress], TUnit),
     (''get_access_control'', [], TOption TAddress),
     (''set_config'', [TAddress, TNamed ''ArbitrationConfig''], TUnit),
     (''get_config'', [], TNamed ''ArbitrationConfig''),
     (''pause'', [TAddress], TUnit),
     (''unpause'', [TAddress], TUnit),
     (''is_paused'', [], TBool),
     (''register_juror'', [TAddress, TI128], TUnit),
     (''deregister_juror'', [TAddress], TUnit),
     (''open_case'', [TAddress, TU64, TAddress, TAddress, TI128], TU64),
     (''submit_evidence'', [TU64, TAddress, TString], TUnit),
     (''select_jurors'', [TU64], TUnit),
     (''commit_vote'', [TU64, TAddress, TBytes (Some 32)], TUnit),
     (''reveal_vote'', [TU64, TAddress, TBool, TBytes (Some 32)], TUnit),
     (''finalize_case'', [TU64], TUnit),
     (''admin_resolve_no_quorum'', [TAddress, TU64, TNamed ''DisputeResolution''], TUnit),
     (''get_case'', [TU64], TOption (TNamed ''DisputeCase'')),
     (''get_case_by_invoice'', [TU64], TOption (TNamed ''DisputeCase'')),
     (''get_evidence'', [TU64], TVec (TNamed ''EvidenceEntry'')),
     (''get_vote'', [TU64, TAddress], TOption (TNamed ''JurorVote'')),
     (''get_juror'', [TAddress], TOption (TNamed ''JurorInfo'')),
     (''list_active_jurors'', [], TVec TAddress),
     (''get_juror_cases'', [TAddress], TVec TU64)]"

subsection \<open>\<open>contracts/auction/src/lib.rs\<close>\<close>

definition auction_types :: "(string \<times> decl) list" where
  "auction_types =
    [(''Allocation'', Struct [(''allocated_amount'', TI128), (''clearing_discount_bps'', TU32), (''invoice_id'', TU64)]),
     (''CollateralRiskConfig'', Struct [(''danger_bps'', TU32), (''grace_period_secs'', TU64)]),
     (''CollateralSale'', Struct [(''amount'', TI128), (''duration_secs'', TU64), (''floor_price'', TI128), (''opened_at'', TU64), (''proceeds_recipient'', TAddress), (''proceeds_token'', TAddress), (''sale_id'', TU64), (''seller'', TAddress), (''settled_price'', TOption TI128), (''start_price'', TI128), (''status'', TNamed ''SaleStatus''), (''taker'', TOption TAddress), (''token'', TAddress)]),
     (''CollateralSaleParams'', Struct [(''amount'', TI128), (''duration_secs'', TU64), (''floor_price'', TI128), (''proceeds_recipient'', TAddress), (''proceeds_token'', TAddress), (''seller'', TAddress), (''start_price'', TI128), (''token'', TAddress)]),
     (''InvoiceAuction'', Struct [(''auction_id'', TU64), (''duration_secs'', TU64), (''invoice_id'', TU64), (''opened_at'', TU64), (''principal'', TI128), (''sme'', TAddress), (''status'', TNamed ''AuctionStatus''), (''target_discount_bps'', TU32), (''token'', TAddress), (''winning_bid'', TOption TAddress), (''winning_discount_bps'', TOption TU32)]),
     (''AuctionStatus'', Variants [(''Open'', []), (''Clearing'', []), (''Settled'', []), (''Cancelled'', [])]),
     (''InvoiceBid'', Struct [(''invoice_id'', TU64), (''max_discount_bps'', TU32), (''min_priority_score'', TU32), (''principal'', TI128), (''sme'', TAddress)]),
     (''SaleStatus'', Variants [(''Open'', []), (''Settled'', []), (''Expired'', []), (''Cancelled'', [])])]"

definition auction_fns :: "(string \<times> ty list \<times> ty) list" where
  "auction_fns =
    [(''version'', [], TU32),
     (''simulate_clearing'', [TVec (TNamed ''InvoiceBid''), TI128, TMapping TAddress TU32], TVec (TNamed ''Allocation'')),
     (''open_collateral_sale'', [TNamed ''CollateralSaleParams''], TU64),
     (''get_sale'', [TU64], TOption (TNamed ''CollateralSale'')),
     (''list_open_sales'', [], TVec (TNamed ''CollateralSale'')),
     (''current_sale_price'', [TU64], TI128),
     (''take_collateral_sale'', [TAddress, TU64], TUnit),
     (''reclaim_expired_sale'', [TAddress, TU64], TUnit),
     (''cancel_collateral_sale'', [TAddress, TU64], TUnit),
     (''open_invoice_auction'', [TAddress, TU64, TAddress, TAddress, TI128, TU32, TU64], TU64),
     (''get_invoice_auction'', [TU64], TOption (TNamed ''InvoiceAuction'')),
     (''place_bid'', [TAddress, TU64, TI128, TU32], TUnit),
     (''withdraw_bid'', [TAddress, TU64], TUnit),
     (''settle_invoice_auction'', [TAddress, TU64], TAddress),
     (''expire_invoice_auction'', [TAddress, TU64], TUnit),
     (''initialize'', [TAddress, TAddress], TUnit),
     (''get_pool_contract'', [], TOption TAddress),
     (''set_admin'', [TAddress, TAddress], TUnit),
     (''set_collateral_risk_config'', [TAddress, TU32, TU64], TUnit),
     (''get_collateral_risk_config'', [], TNamed ''CollateralRiskConfig''),
     (''get_live_collateral_ratio'', [TU64], TU32),
     (''get_at_risk_since'', [TU64], TOption TU64),
     (''check_collateral_risk'', [TAddress, TU64], TBool),
     (''liquidate_collateral'', [TAddress, TU64], TBool)]"

subsection \<open>\<open>contracts/compliance/src/lib.rs\<close>\<close>

definition compliance_types :: "(string \<times> decl) list" where
  "compliance_types =
    [(''ComplianceRecord'', Struct [(''address'', TAddress), (''expires_at'', TU64), (''notes_hash'', TString), (''reason_code'', TU32), (''risk_tier'', TNamed ''RiskTier''), (''screened_at'', TU64), (''screened_by'', TAddress), (''status'', TNamed ''ComplianceStatus'')]),
     (''ComplianceStatus'', Variants [(''Unscreened'', []), (''Cleared'', []), (''Flagged'', []), (''Blocked'', []), (''PendingReview'', [])]),
     (''PendingScreener'', Struct [(''address'', TAddress), (''effective_at'', TU64), (''proposed_at'', TU64)]),
     (''RiskTier'', Variants [(''Low'', []), (''Medium'', []), (''High'', [])]),
     (''ScreenerSubmissionEntry'', Struct [(''expires_at'', TU64), (''notes_hash'', TString), (''reason_code'', TU32), (''risk_tier'', TNamed ''RiskTier''), (''screened_at'', TU64), (''status'', TNamed ''ComplianceStatus''), (''subject_address'', TAddress)]),
     (''ScreeningHistoryEntry'', Struct [(''expires_at'', TU64), (''notes_hash'', TString), (''reason_code'', TU32), (''risk_tier'', TNamed ''RiskTier''), (''screened_at'', TU64), (''screened_by'', TAddress), (''status'', TNamed ''ComplianceStatus'')])]"

definition compliance_fns :: "(string \<times> ty list \<times> ty) list" where
  "compliance_fns =
    [(''initialize'', [TAddress], TUnit),
     (''pause'', [TAddress], TUnit),
     (''unpause'', [TAddress], TUnit),
     (''is_paused'', [], TBool),
     (''register_screener'', [TAddress, TAddress], TUnit),
     (''confirm_screener_registration'', [TAddress, TAddress], TUnit),
     (''deregister_screener'', [TAddress, TAddress], TUnit),
     (''is_screener'', [TAddress], TBool),
     (''list_screeners'', [], TVec TAddress),
     (''list_pending_screeners'', [], TVec (TNamed ''PendingScreener'')),
     (''set_rescreening_interval'', [TAddress, TU64], TUnit),
     (''get_rescreening_interval'', [], TU64),
     (''set_screener_timelock'', [TAddress, TU64], TUnit),
     (''get_screener_timelock'', [], TU64),
     (''submit_screening_result'', [TAddress, TAddress, TNamed ''ComplianceStatus'', TU32, TNamed ''RiskTier'', TU64, TString], TUnit),
     (''request_review'', [TAddress, TAddress, TString], TUnit),
     (''is_cleared'', [TAddress], TBool),
     (''get_effective_status'', [TAddress], TNamed ''ComplianceStatus''),
     (''get_effective_status_batch'', [TVec TAddress], TVec (TNamed ''ComplianceStatus'')),
     (''get_compliance_record'', [TAddress], TOption (TNamed ''ComplianceRecord'')),
     (''get_screening_history'', [TAddress], TVec (TNamed ''ScreeningHistoryEntry'')),
     (''get_screener_submissions'', [TAddress], TVec (TNamed ''ScreenerSubmissionEntry'')),
     (''list_flagged'', [], TVec TAddress),
     (''list_pending_review'', [], TVec TAddress),
     (''get_admin'', [], TAddress),
     (''set_access_control'', [TAddress, TAddress], TUnit),
     (''get_access_control'', [], TOption TAddress),
     (''set_governance_address'', [TAddress, TAddress], TUnit),
     (''get_governance_address'', [], TOption TAddress),
     (''set_access_control_via_ac'', [TAddress, TAddress], TUnit),
     (''set_paused_via_ac'', [TAddress, TBool], TUnit),
     (''set_rescreening_interval_gov'', [TAddress, TU64], TUnit),
     (''set_screener_timelock_gov'', [TAddress, TU64], TUnit),
     (''register_screener_via_ac'', [TAddress, TAddress], TUnit),
     (''confirm_screener_via_ac'', [TAddress, TAddress], TUnit),
     (''deregister_screener_via_ac'', [TAddress, TAddress], TUnit),
     (''set_rescreening_interval_via_ac'', [TAddress, TU64], TUnit),
     (''set_screener_timelock_via_ac'', [TAddress, TU64], TUnit)]"

subsection \<open>\<open>contracts/credit_score/src/lib.rs\<close>\<close>

definition credit_score_types :: "(string \<times> decl) list" where
  "credit_score_types =
    [(''Attestation'', Struct [(''attestation_type'', TNamed ''AttestorType''), (''attestor'', TAddress), (''evidence_hash'', TString), (''expires_at'', TU64), (''id'', TU64), (''score_contribution'', TU32), (''sme'', TAddress), (''status'', TNamed ''AttestationStatus''), (''submitted_at'', TU64)]),
     (''AttestationStatus'', Variants [(''Active'', []), (''Disputed'', []), (''Revoked'', []), (''Expired'', [])]),
     (''AttestorInfo'', Struct [(''address'', TAddress), (''attestor_type'', TNamed ''AttestorType''), (''is_active'', TBool), (''registered_at'', TU64), (''weight_bps'', TU32)]),
     (''AttestorType'', Variants [(''BusinessRegistry'', []), (''CreditBureau'', []), (''ExternalProtocol'', []), (''Manual'', [])]),
     (''CreditScoreResponse'', Struct [(''average_payment_days'', TI64), (''blended_score'', TU32), (''config_version'', TU32), (''defaulted'', TU32), (''final_score'', TU32), (''is_stale'', TBool), (''last_updated'', TU64), (''paid_late'', TU32), (''paid_on_time'', TU32), (''risk_adjustment_pts'', TI32), (''score'', TU32), (''score_version'', TU32), (''sme'', TAddress), (''total_invoices'', TU32), (''total_volume'', TI128), (''trend_adjustment_pts'', TI32)]),
     (''CreditScoreVersion'', Struct [(''major'', TU32), (''minor'', TU32), (''patch'', TU32)]),
     (''PaymentRecord'', Struct [(''amount'', TI128), (''days_late'', TI64), (''due_date'', TU64), (''invoice_id'', TU64), (''paid_at'', TU64), (''sme'', TAddress), (''status'', TNamed ''PaymentStatus'')]),
     (''PaymentStatus'', Variants [(''PaidOnTime'', []), (''PaidLate'', []), (''Defaulted'', [])]),
     (''ScoreSnapshot'', Struct [(''invoice_id'', TU64), (''recorded_at'', TU64), (''score'', TU32)]),
     (''ScoreThresholds'', Struct [(''excellent'', TU32), (''fair'', TU32), (''good'', TU32), (''very_good'', TU32)]),
     (''ScoringConfig'', Struct [(''attestation'', TNamed ''ScoreAttestationConfig''), (''averages'', TNamed ''ScoreAverageConfig''), (''bonuses'', TNamed ''ScoreBonusConfig''), (''core'', TNamed ''ScoreCoreConfig'')]),
     (''ScoreAttestationConfig'', Struct [(''external_weight_bps'', TU32), (''internal_weight_bps'', TU32)]),
     (''ScoreAverageConfig'', Struct [(''avg_days_lt3'', TI64), (''avg_days_lt7'', TI64), (''avg_lt3_pts'', TI32), (''avg_lt7_pts'', TI32), (''avg_neg_pts'', TI32), (''avg_over_late_pts'', TI32)]),
     (''ScoreBonusConfig'', Struct [(''inv_bonus_pts'', TI32), (''inv_bonus_thr1'', TU32), (''inv_bonus_thr2'', TU32), (''inv_bonus_thr3'', TU32), (''min_milestone_volume'', TI128), (''vol_bonus_pts1'', TI32), (''vol_bonus_pts2'', TI32), (''vol_bonus_pts3'', TI32), (''vol_bonus_thr1'', TI128), (''vol_bonus_thr2'', TI128), (''vol_bonus_thr3'', TI128)]),
     (''ScoreCoreConfig'', Struct [(''base_score'', TU32), (''defaulted_pts'', TI32), (''max_score'', TU32), (''min_score'', TU32), (''paid_late_pts'', TI32), (''paid_on_time_pts'', TI32), (''score_version'', TU32)]),
     (''SmeScoreEntry'', Struct [(''score'', TU32), (''sme'', TAddress)])]"

definition credit_score_fns :: "(string \<times> ty list \<times> ty) list" where
  "credit_score_fns =
    [(''initialize'', [TAddress, TAddress, TAddress], TUnit),
     (''version'', [], TNamed ''CreditScoreVersion''),
     (''migration_version'', [], TU32),
     (''run_migration'', [TAddress], TUnit),
     (''pause'', [TAddress], TUnit),
     (''unpause'', [TAddress], TUnit),
     (''is_paused'', [], TBool),
     (''record_payment'', [TAddress, TU64, TAddress, TI128, TU64, TU64], TUnit),
     (''record_funding'', [TAddress, TU64, TAddress, TI128], TUnit),
     (''record_default'', [TAddress, TU64, TAddress, TI128, TU64], TUnit),
     (''get_credit_score'', [TAddress], TNamed ''CreditScoreResponse''),
     (''list_all_sme_stats'', [TU32, TU32], TVec (TNamed ''SmeScoreEntry'')),
     (''get_payment_history'', [TAddress], TVec (TNamed ''PaymentRecord'')),
     (''get_score_history'', [TAddress], TVec (TNamed ''ScoreSnapshot'')),
     (''get_payment_record_score_version'', [TU64], TOption TU32),
     (''get_payment_record'', [TAddress, TU32], TOption (TNamed ''PaymentRecord'')),
     (''get_payment_history_length'', [TAddress], TU32),
     (''get_score_band'', [TU32], TString),
     (''get_score_thresholds'', [], TNamed ''ScoreThresholds''),
     (''set_score_thresholds'', [TAddress, TNamed ''ScoreThresholds''], TUnit),
     (''get_scoring_config'', [], TNamed ''ScoringConfig''),
     (''set_scoring_config'', [TAddress, TNamed ''ScoringConfig''], TUnit),
     (''is_invoice_processed'', [TU64], TBool),
     (''get_config'', [], TTuple [TAddress, TAddress, TAddress]),
     (''set_invoice_contract'', [TAddress, TAddress], TUnit),
     (''set_pool_contract'', [TAddress, TAddress], TUnit),
     (''submit_risk_signal'', [TAddress, TAddress, TU32, TU32], TUnit),
     (''set_late_threshold'', [TAddress, TI64], TUnit),
     (''get_late_threshold'', [], TI64),
     (''set_max_payment_history'', [TAddress, TU32], TUnit),
     (''get_max_payment_history'', [], TU32),
     (''set_access_control'', [TAddress, TAddress], TUnit),
     (''get_access_control'', [], TOption TAddress),
     (''set_access_control_via_ac'', [TAddress, TAddress], TUnit),
     (''set_paused_via_ac'', [TAddress, TBool], TUnit),
     (''set_late_threshold_via_ac'', [TAddress, TI64], TUnit),
     (''set_score_thresholds_via_ac'', [TAddress, TU32, TU32, TU32, TU32], TUnit),
     (''register_attestor_via_ac'', [TAddress, TAddress, TU32, TU32], TUnit),
     (''set_upgrade_timelock'', [TAddress, TU64], TUnit),
     (''get_upgrade_timelock'', [], TU64),
     (''propose_upgrade'', [TAddress, TBytes (Some 32)], TUnit),
     (''execute_upgrade'', [TAddress], TUnit),
     (''propose_admin_change'', [TAddress, TAddress], TUnit),
     (''finalize_admin_change'', [TAddress], TUnit),
     (''cancel_admin_change'', [TAddress], TUnit),
     (''register_attestor'', [TAddress, TAddress, TNamed ''AttestorType'', TU32], TUnit),
     (''deactivate_attestor'', [TAddress, TAddress], TUnit),
     (''get_attestor_info'', [TAddress], TOption (TNamed ''AttestorInfo'')),
     (''list_active_attestors'', [], TVec (TNamed ''AttestorInfo'')),
     (''submit_attestation'', [TAddress, TAddress, TNamed ''AttestorType'', TU32, TString, TU64], TU64),
     (''get_attestation'', [TU64], TOption (TNamed ''Attestation'')),
     (''list_sme_attestations'', [TAddress], TVec (TNamed ''Attestation'')),
     (''get_attestation_dispute_reason'', [TU64], TOption TString),
     (''simulate_score_with_attestations'', [TAddress, TVec (TTuple [TU32, TU32])], TU32),
     (''dispute_attestation'', [TAddress, TU64, TString], TUnit),
     (''resolve_attestation_dispute'', [TAddress, TU64, TBool], TUnit)]"

subsection \<open>\<open>contracts/governance/src/lib.rs\<close>\<close>

definition governance_types :: "(string \<times> decl) list" where
  "governance_types =
    [(''GovernanceAction'', Variants [(''Pool'', [TNamed ''PoolAction'']), (''Invoice'', [TNamed ''InvoiceAction'']), (''OracleRegistry'', [TNamed ''OracleRegistryAction'']), (''Compliance'', [TNamed ''ComplianceAction''])]),
     (''ComplianceAction'', Variants [(''SetComplianceRescreeningInterval'', [TU64]), (''SetComplianceScreenerTimelock'', [TU64])]),
     (''GovernanceConfig'', Struct [(''admin'', TAddress), (''critical_quorum_bps'', TU32), (''execution_delay_secs'', TU64), (''min_share_balance'', TI128), (''pass_bps'', TU32), (''quorum_bps'', TU32), (''share_token'', TAddress), (''treasury_quorum_bps'', TU32), (''voting_period_secs'', TU64)]),
     (''InvoiceAction'', Variants [(''SetInvoiceGracePeriod'', [TU32]), (''SetInvoiceMinDueDateWindow'', [TU64]), (''SetInvoiceMaxAmount'', [TI128]), (''SetInvoiceMaxSmeOutstanding'', [TI128]), (''SetInvoiceExpirationDuration'', [TU64]), (''SetInvoiceCompletedTtl'', [TU32]), (''SetInvoiceDailyLimit'', [TU32]), (''SetInvoiceDisputeWindow'', [TU64]), (''SetInvoiceOracle'', [TAddress]), (''SetInvoiceSecondaryOracle'', [TOption TAddress]), (''SetInvoiceOracleRegistry'', [TAddress]), (''SetInvoiceConsensusRequired'', [TBool]), (''SetInvoiceComplianceRegistry'', [TAddress]), (''SetInvoiceRequireComplianceCheck'', [TBool]), (''SetInvoiceRequireRegDebtor'', [TBool]), (''SetInvoiceVerifiedFundingOnly'', [TBool]), (''SetInvoiceArbitrationContract'', [TAddress]), (''SetInvoiceDisputeValueThreshold'', [TI128]), (''SetInvoiceMetadataImageUri'', [TString])]),
     (''OracleRegistryAction'', Variants [(''SetOracleRegistryInvoiceContract'', [TAddress]), (''SetOracleRegistryTreasury'', [TOption TAddress]), (''SetOracleRegistryConfig'', [TI128, TU32, TU32, TU64, TU64]), (''SetOracleRegistryQuorumTiers'', [TVec (TNamed ''QuorumTier'')])]),
     (''PoolAction'', Variants [(''SetPoolYield'', [TU32]), (''SetPoolYieldChangePolicy'', [TU64]), (''SetPoolFactoringFee'', [TU32]), (''SetPoolFeeTier'', [TU32, TNamed ''FeeTier'']), (''SetPoolTreasury'', [TAddress]), (''SetPoolMaxUtilization'', [TU32]), (''SetPoolMinDeposit'', [TI128]), (''SetPoolMaxInvestorConcentration'', [TU32]), (''SetPoolLoyaltyTiers'', [TVec (TNamed ''LoyaltyTier'')]), (''SetPoolWithdrawalLimits'', [TU32]), (''SetPoolMaxWithdrawalQueueAge'', [TU32]), (''SetPoolMaxWithdrawalQueueDepth'', [TU32]), (''SetPoolOracleContract'', [TAddress]), (''SetPoolOracleStaleThreshold'', [TU64]), (''SetPoolFallbackPrice'', [TAddress, TI128]), (''SetPoolRateBounds'', [TAddress, TU32, TU32]), (''SetPoolExchangeRate'', [TAddress, TU32]), (''SetPoolComplianceRegistry'', [TAddress]), (''SetPoolRequireComplianceCheck'', [TBool]), (''SetPoolReferralRegistry'', [TAddress]), (''SetPoolKycRequired'', [TBool]), (''SetPoolCreditScoreContract'', [TAddress]), (''SetPoolInsuranceContract'', [TAddress]), (''SetPoolCompoundInterest'', [TBool]), (''SetPoolSecondaryMarketContract'', [TAddress]), (''SetPoolRiskContract'', [TAddress]), (''SetPoolCollateralConfig'', [TNamed ''CollateralConfig'']), (''SetPoolUpgradeTimelock'', [TU64]), (''SetPoolOperationDelay'', [TU64])]),
     (''CollateralConfig'', Struct [(''collateral_bps'', TU32), (''threshold'', TI128)]),
     (''FeeTier'', Struct [(''fee_bps'', TU32), (''max_amount'', TI128), (''min_amount'', TI128), (''min_credit_score'', TU32)]),
     (''LoyaltyTier'', Struct [(''bonus_bps'', TU32), (''days_threshold'', TU32)]),
     (''Proposal'', Struct [(''action'', TNamed ''GovernanceAction''), (''category'', TNamed ''ProposalCategory''), (''created_at'', TU64), (''description'', TString), (''execution_delay'', TU64), (''id'', TU64), (''pass_bps'', TU32), (''passed_at'', TU64), (''proposer'', TAddress), (''quorum_bps'', TU32), (''snapshot_supply'', TI128), (''status'', TNamed ''ProposalStatus''), (''target_contract'', TAddress), (''votes_against'', TI128), (''votes_for'', TI128), (''voting_ends_at'', TU64)]),
     (''ProposalCategory'', Variants [(''ParameterChange'', []), (''Treasury'', []), (''Critical'', [])]),
     (''ProposalStatus'', Variants [(''Active'', []), (''Passed'', []), (''Rejected'', []), (''Executed'', []), (''Cancelled'', []), (''Expired'', [])]),
     (''QuorumTier'', Struct [(''min_invoice_amount'', TI128), (''quorum_bps'', TU32)]),
     (''VoteRecord'', Struct [(''in_favor'', TBool), (''proposal_id'', TU64), (''voted_at'', TU64), (''weight'', TI128)])]"

definition governance_fns :: "(string \<times> ty list \<times> ty) list" where
  "governance_fns =
    [(''initialize'', [TAddress, TAddress, TU64, TU32, TU32, TU64, TI128], TUnit),
     (''create_proposal'', [TAddress, TString, TAddress, TNamed ''GovernanceAction'', TNamed ''ProposalCategory''], TU64),
     (''vote'', [TU64, TAddress, TBool], TUnit),
     (''execute_proposal'', [TU64], TUnit),
     (''cancel_proposal'', [TU64, TAddress], TUnit),
     (''get_proposal'', [TU64], TOption (TNamed ''Proposal'')),
     (''get_voter_vote_count'', [TAddress], TU32),
     (''get_proposal_history'', [TAddress, TU32, TU32], TVec (TNamed ''VoteRecord'')),
     (''list_proposals'', [], TVec (TNamed ''Proposal'')),
     (''list_proposals_page'', [TU64, TU32], TVec (TNamed ''Proposal'')),
     (''finalize_proposal_if_due'', [TU64], TUnit),
     (''get_config'', [], TNamed ''GovernanceConfig''),
     (''set_voting_period'', [TAddress, TU64], TUnit),
     (''set_execution_expiry'', [TAddress, TU64], TUnit),
     (''set_execution_delay'', [TAddress, TU64], TUnit),
     (''get_execution_expiry'', [], TU64),
     (''set_paused'', [TAddress, TBool], TUnit),
     (''is_paused'', [], TBool),
     (''get_voting_power'', [TU64, TAddress], TI128),
     (''set_governance_address'', [TAddress, TAddress], TUnit),
     (''get_governance_address'', [], TOption TAddress),
     (''update_config'', [TAddress, TU32, TU32], TUnit),
     (''update_min_share_balance'', [TAddress, TI128], TUnit),
     (''set_category_quorum'', [TAddress, TNamed ''ProposalCategory'', TU32], TUnit),
     (''get_category_quorum'', [TNamed ''ProposalCategory''], TU32),
     (''set_access_control'', [TAddress, TAddress], TUnit),
     (''get_access_control'', [], TOption TAddress),
     (''set_access_control_via_ac'', [TAddress, TAddress], TUnit),
     (''update_config_via_ac'', [TAddress, TU32, TU32], TUnit),
     (''update_min_share_balance_via_ac'', [TAddress, TI128], TUnit),
     (''set_category_quorum_via_ac'', [TAddress, TNamed ''ProposalCategory'', TU32], TUnit),
     (''set_execution_delay_via_ac'', [TAddress, TU64], TUnit)]"

subsection \<open>\<open>contracts/insurance/src/lib.rs\<close>\<close>

definition insurance_types :: "(string \<times> decl) list" where
  "insurance_types =
    [(''ClaimHistoryItem'', Struct [(''invoice_id'', TU64), (''payout'', TI128), (''shortfalls'', TI128), (''timestamp'', TU64), (''token'', TAddress)]),
     (''Config'', Struct [(''admin'', TAddress), (''invoice_contract'', TAddress), (''pool_contract'', TAddress)]),
     (''CoverageRecord'', Struct [(''claimed'', TBool), (''coverage_bps'', TU32), (''invoice_id'', TU64), (''paid_to_date'', TI128), (''premium_paid'', TI128), (''principal'', TI128), (''purchased_at'', TU64), (''token'', TAddress)]),
     (''PremiumConfig'', Struct [(''base_rate_bps'', TU32), (''default_coverage_bps'', TU32), (''default_risk_multiplier_bps'', TU32), (''max_premium_bps'', TU32), (''min_premium_bps'', TU32), (''risk_tiers'', TVec (TNamed ''RiskTier'')), (''tenor_bps_per_day'', TU32)]),
     (''ReserveFund'', Struct [(''coverage_ratio_bps'', TU32), (''min_coverage_ratio_bps'', TU32), (''total_claims_paid'', TI128), (''total_covered_exposure'', TI128), (''total_premiums_collected'', TI128), (''total_reserves'', TI128)]),
     (''ReserveHealth'', Struct [(''coverage_ratio_bps'', TU32), (''is_healthy'', TBool), (''min_reserve_amount'', TI128), (''needs_top_up'', TBool), (''token'', TAddress), (''total_reserves'', TI128)]),
     (''RiskTier'', Struct [(''max_score'', TU32), (''min_score'', TU32), (''risk_multiplier_bps'', TU32)])]"

definition insurance_fns :: "(string \<times> ty list \<times> ty) list" where
  "insurance_fns =
    [(''initialize'', [TAddress, TAddress, TAddress], TUnit),
     (''set_premium_config'', [TAddress, TNamed ''PremiumConfig''], TUnit),
     (''get_premium_config'', [], TOption (TNamed ''PremiumConfig'')),
     (''set_min_coverage_ratio'', [TAddress, TAddress, TU32], TUnit),
     (''set_credit_score_contract'', [TAddress, TAddress], TUnit),
     (''get_credit_score_contract'', [], TOption TAddress),
     (''get_config'', [], TOption (TNamed ''Config'')),
     (''fund_reserve_from_treasury'', [TAddress, TAddress, TI128], TUnit),
     (''pause'', [TAddress], TUnit),
     (''unpause'', [TAddress], TUnit),
     (''rotate_admin'', [TAddress, TAddress], TUnit),
     (''purchase_coverage'', [TAddress, TU64, TI128, TAddress, TU64, TAddress], TNamed ''CoverageRecord''),
     (''release_coverage'', [TU64], TUnit),
     (''file_claim'', [TU64], TI128),
     (''get_reserve_status'', [TAddress], TNamed ''ReserveFund''),
     (''get_coverage_record'', [TU64], TOption (TNamed ''CoverageRecord'')),
     (''get_claim_history'', [TU64], TVec (TNamed ''ClaimHistoryItem'')),
     (''check_reserve_health'', [TAddress], TNamed ''ReserveHealth''),
     (''set_min_reserve_amount'', [TAddress, TAddress, TI128], TUnit),
     (''get_min_reserve_amount'', [TAddress], TI128),
     (''estimate_premium'', [TI128, TAddress, TU32], TI128)]"

subsection \<open>\<open>contracts/invoice/src/lib.rs\<close>\<close>

definition invoice_types :: "(string \<times> decl) list" where
  "invoice_types =
    [(''ContractVersion'', Struct [(''major'', TU32), (''minor'', TU32), (''patch'', TU32)]),
     (''DebtorRecord'', Struct [(''current_exposure'', TI128), (''debtor_id'', TString), (''debtor_name'', TString), (''is_active'', TBool), (''max_exposure'', TI128)]),
     (''DisputeRecord'', Struct [(''evidence_hash'', TString), (''filed_at'', TU64), (''outcome'', TNamed ''DisputeResolution''), (''resolved_at'', TU64)]),
     (''DisputeResolution'', Variants [(''Pending'', []), (''InFavorOfSME'', []), (''InFavorOfDebtor'', [])]),
     (''Invoice'', Struct [(''amount'', TI128), (''created_at'', TU64), (''debtor'', TString), (''description'', TString), (''dispute_reason'', TString), (''disputed_at'', TU64), (''due_date'', TU64), (''funded_amount'', TI128), (''funded_at'', TU64), (''grace_period_override'', TOption TU32), (''id'', TU64), (''metadata_uri'', TOption TString), (''oracle_verified'', TBool), (''original_due_date'', TU64), (''owner'', TAddress), (''paid_at'', TU64), (''pending_due_date'', TOption TU64), (''pool_contract'', TAddress), (''status'', TNamed ''InvoiceStatus''), (''verification_deadline'', TU64), (''verification_hash'', TString)]),
     (''InvoiceMetadata'', Struct [(''amount'', TI128), (''debtor'', TString), (''decimals'', TU32), (''description'', TString), (''due_date'', TU64), (''image'', TString), (''name'', TString), (''status'', TNamed ''InvoiceStatus''), (''symbol'', TString)]),
     (''InvoiceStatus'', Variants [(''Pending'', []), (''AwaitingVerification'', []), (''Verified'', []), (''Disputed'', []), (''Funded'', []), (''Paid'', []), (''Defaulted'', []), (''Cancelled'', []), (''Expired'', [])]),
     (''StorageStats'', Struct [(''active_invoices'', TU64), (''cleaned_invoices'', TU64), (''total_invoices'', TU64)])]"

definition invoice_fns :: "(string \<times> ty list \<times> ty) list" where
  "invoice_fns =
    [(''initialize'', [TAddress, TAddress, TI128, TU64, TU32], TUnit),
     (''version'', [], TNamed ''ContractVersion''),
     (''migration_version'', [], TU32),
     (''run_migration'', [TAddress], TUnit),
     (''register_debtor'', [TAddress, TString, TString, TI128], TUnit),
     (''deactivate_debtor'', [TAddress, TString], TUnit),
     (''get_debtor'', [TString], TNamed ''DebtorRecord''),
     (''list_debtors'', [], TVec TString),
     (''set_require_registered_debtor'', [TAddress, TBool], TUnit),
     (''set_oracle_verified_funding_only'', [TAddress, TBool], TUnit),
     (''oracle_verified_funding_only'', [], TBool),
     (''pause'', [TAddress], TUnit),
     (''unpause'', [TAddress], TUnit),
     (''is_paused'', [], TBool),
     (''set_oracle'', [TAddress, TAddress], TUnit),
     (''set_secondary_oracle'', [TAddress, TOption TAddress], TUnit),
     (''set_oracle_registry'', [TAddress, TAddress], TUnit),
     (''get_oracle_registry'', [], TOption TAddress),
     (''get_oracle'', [], TOption TAddress),
     (''set_consensus_required'', [TAddress, TBool], TUnit),
     (''require_consensus_verification'', [], TBool),
     (''set_compliance_registry'', [TAddress, TAddress], TUnit),
     (''get_compliance_registry'', [], TOption TAddress),
     (''set_require_compliance_check'', [TAddress, TBool], TUnit),
     (''require_compliance_check'', [], TBool),
     (''add_keeper'', [TAddress, TAddress], TUnit),
     (''set_access_control'', [TAddress, TAddress], TUnit),
     (''get_access_control'', [], TOption TAddress),
     (''set_governance_address'', [TAddress, TAddress], TUnit),
     (''get_governance_address'', [], TOption TAddress),
     (''set_access_control_via_ac'', [TAddress, TAddress], TUnit),
     (''set_paused_via_ac'', [TAddress, TBool], TUnit),
     (''set_oracle_via_ac'', [TAddress, TAddress], TUnit),
     (''register_debtor_via_ac'', [TAddress, TString, TString, TI128], TUnit),
     (''deactivate_debtor_via_ac'', [TAddress, TString], TUnit),
     (''add_keeper_via_ac'', [TAddress, TAddress], TUnit),
     (''set_grace_period_via_governance'', [TAddress, TU32], TUnit),
     (''set_max_invoice_amount_gov'', [TAddress, TI128], TUnit),
     (''set_max_sme_outstanding_via_governance'', [TAddress, TI128], TUnit),
     (''set_expiration_duration_via_governance'', [TAddress, TU64], TUnit),
     (''set_completed_invoice_ttl_via_governance'', [TAddress, TU32], TUnit),
     (''set_daily_invoice_limit_via_governance'', [TAddress, TU32], TUnit),
     (''set_dispute_window_via_governance'', [TAddress, TU64], TUnit),
     (''set_oracle_via_governance'', [TAddress, TAddress], TUnit),
     (''set_secondary_oracle_via_governance'', [TAddress, TOption TAddress], TUnit),
     (''set_oracle_registry_via_governance'', [TAddress, TAddress], TUnit),
     (''set_consensus_required_via_governance'', [TAddress, TBool], TUnit),
     (''set_compliance_registry_via_governance'', [TAddress, TAddress], TUnit),
     (''set_require_compliance_check_via_governance'', [TAddress, TBool], TUnit),
     (''set_require_registered_debtor_via_governance'', [TAddress, TBool], TUnit),
     (''set_oracle_verified_funding_only_via_governance'', [TAddress, TBool], TUnit),
     (''set_arbitration_contract_via_governance'', [TAddress, TAddress], TUnit),
     (''set_dispute_value_threshold_via_governance'', [TAddress, TI128], TUnit),
     (''set_metadata_image_uri_via_governance'', [TAddress, TString], TUnit),
     (''set_min_due_date_window_via_governance'', [TAddress, TU64], TUnit),
     (''remove_keeper'', [TAddress, TAddress], TUnit),
     (''list_keepers'', [], TVec TAddress),
     (''get_metadata_image_uri'', [], TString),
     (''set_metadata_image_uri'', [TAddress, TString], TUnit),
     (''create_invoice'', [TAddress, TString, TI128, TU64, TString, TString, TString], TU64),
     (''create_invoice_with_metadata'', [TAddress, TString, TI128, TU64, TString, TString, TOption TString], TU64),
     (''request_extension'', [TU64, TAddress, TU64], TUnit),
     (''approve_extension'', [TU64, TAddress], TUnit),
     (''set_daily_invoice_limit'', [TAddress, TU32], TUnit),
     (''get_daily_invoice_limit'', [], TU32),
     (''verify_invoice'', [TU64, TAddress, TBool, TString, TString], TUnit),
     (''consensus_verify'', [TU64, TAddress, TBool, TString, TString], TUnit),
     (''resolve_dispute'', [TU64, TAddress, TNamed ''DisputeResolution''], TUnit),
     (''set_dispute_window'', [TAddress, TU64], TUnit),
     (''get_dispute_window'', [], TU64),
     (''set_arbitration_contract'', [TAddress, TAddress], TUnit),
     (''get_arbitration_contract'', [], TOption TAddress),
     (''set_dispute_value_threshold'', [TAddress, TI128], TUnit),
     (''get_dispute_value_threshold'', [], TI128),
     (''mark_funded'', [TU64, TAddress], TUnit),
     (''record_funding'', [TU64, TI128, TAddress], TUnit),
     (''mark_paid'', [TU64, TAddress], TUnit),
     (''add_funding'', [TU64, TI128, TAddress], TI128),
     (''mark_defaulted'', [TU64, TAddress], TUnit),
     (''mark_cancelled'', [TU64, TAddress], TUnit),
     (''raise_dispute'', [TU64, TAddress, TString, TAddress], TUnit),
     (''resolve_default_dispute'', [TU64, TAddress, TNamed ''DisputeResolution''], TUnit),
     (''arbitration_resolve_dispute'', [TAddress, TU64, TNamed ''DisputeResolution''], TUnit),
     (''get_dispute'', [TU64], TOption (TNamed ''DisputeRecord'')),
     (''set_invoice_private'', [TU64, TAddress, TBool], TUnit),
     (''is_invoice_private'', [TU64], TBool),
     (''cancel_invoice'', [TU64, TAddress], TUnit),
     (''timeout_verification'', [TAddress, TU64], TUnit),
     (''cleanup_invoice'', [TU64, TAddress], TUnit),
     (''cleanup_expired_storage'', [TAddress, TVec TU64], TU32),
     (''estimate_storage_cost'', [], TU64),
     (''get_invoice'', [TU64], TNamed ''Invoice''),
     (''get_invoice_verification_state'', [TU64], TTuple [TBool, TI128]),
     (''get_funded_amount'', [TU64], TI128),
     (''get_multiple_invoices'', [TVec TU64], TVec (TNamed ''Invoice'')),
     (''get_metadata'', [TU64], TNamed ''InvoiceMetadata''),
     (''get_invoice_count'', [], TU64),
     (''get_invoices_by_owner'', [TAddress], TVec TU64),
     (''get_invoices_by_debtor'', [TString], TVec TU64),
     (''get_storage_stats'', [], TNamed ''StorageStats''),
     (''check_expiration'', [TU64], TBool),
     (''batch_check_expiration'', [TVec TU64], TU32),
     (''set_grace_period'', [TAddress, TU32], TUnit),
     (''set_min_due_date_window'', [TAddress, TU64], TUnit),
     (''get_min_due_date_window'', [], TU64),
     (''set_max_invoice_amount'', [TAddress, TI128], TUnit),
     (''get_max_invoice_amount'', [], TI128),
     (''set_max_sme_outstanding'', [TAddress, TI128], TUnit),
     (''get_sme_outstanding'', [TAddress], TI128),
     (''set_expiration_duration'', [TAddress, TU64], TUnit),
     (''get_expiration_duration'', [], TU64),
     (''set_completed_invoice_ttl'', [TAddress, TU32], TUnit),
     (''get_completed_invoice_ttl'', [], TU32),
     (''get_grace_period'', [], TU32),
     (''set_invoice_grace_period'', [TAddress, TU64, TU32], TUnit),
     (''get_invoice_grace_period'', [TU64], TU32),
     (''set_pool'', [TAddress, TAddress], TUnit),
     (''get_authorized_pool'', [], TAddress),
     (''is_invoice_defaulted'', [TU64], TBool),
     (''set_upgrade_timelock'', [TAddress, TU64], TUnit),
     (''get_upgrade_timelock'', [], TU64),
     (''propose_upgrade'', [TAddress, TBytes (Some 32)], TUnit),
     (''execute_upgrade'', [TAddress], TUnit),
     (''propose_admin_change'', [TAddress, TAddress], TUnit),
     (''finalize_admin_change'', [TAddress], TUnit),
     (''cancel_admin_change'', [TAddress], TUnit),
     (''check_default_warning'', [TU64], TBool)]"

subsection \<open>\<open>contracts/oracle_registry/src/lib.rs\<close>\<close>

definition oracle_registry_types :: "(string \<times> decl) list" where
  "oracle_registry_types =
    [(''OracleInfo'', Struct [(''address'', TAddress), (''deregister_requested_at'', TOption TU64), (''is_active'', TBool), (''registered_at'', TU64), (''stake_amount'', TI128), (''stake_token'', TAddress), (''total_slashes'', TU32), (''total_verifications'', TU32)]),
     (''OracleReputation'', Struct [(''address'', TAddress), (''is_active'', TBool), (''registered_at'', TU64), (''rounds_participated'', TU32), (''total_slashes'', TU32), (''total_verifications'', TU32)]),
     (''QuorumTier'', Struct [(''min_invoice_amount'', TI128), (''quorum_bps'', TU32)]),
     (''RegistryConfig'', Struct [(''deregister_cooldown_secs'', TU64), (''min_stake'', TI128), (''quorum_bps'', TU32), (''required_votes'', TU32), (''round_duration_secs'', TU64), (''stake_token'', TAddress), (''treasury'', TOption TAddress)]),
     (''VerificationRound'', Struct [(''deadline'', TU64), (''invoice_id'', TU64), (''opened_at'', TU64), (''oracle_hash'', TString), (''quorum_bps'', TU32), (''required_votes'', TU32), (''status'', TNamed ''RoundStatus''), (''total_registered_oracles'', TU32), (''total_stake_snapshot'', TI128), (''votes'', TMapping TAddress TBool), (''weight_against'', TI128), (''weight_for'', TI128)]),
     (''RoundStatus'', Variants [(''Open'', []), (''ConsensusApproved'', []), (''ConsensusRejected'', []), (''Expired'', [])])]"

definition oracle_registry_fns :: "(string \<times> ty list \<times> ty) list" where
  "oracle_registry_fns =
    [(''initialize'', [TAddress, TAddress, TI128], TUnit),
     (''set_invoice_contract'', [TAddress, TAddress], TUnit),
     (''get_invoice_contract'', [], TOption TAddress),
     (''set_treasury'', [TAddress, TOption TAddress], TUnit),
     (''set_registry_config'', [TAddress, TI128, TU32, TU32, TU64, TU64], TUnit),
     (''get_registry_config'', [], TNamed ''RegistryConfig''),
     (''set_quorum_tiers'', [TAddress, TVec (TNamed ''QuorumTier'')], TUnit),
     (''get_quorum_tiers'', [], TVec (TNamed ''QuorumTier'')),
     (''pause'', [TAddress], TUnit),
     (''unpause'', [TAddress], TUnit),
     (''is_paused'', [], TBool),
     (''register_oracle'', [TAddress, TI128], TUnit),
     (''deregister_oracle'', [TAddress], TUnit),
     (''slash_oracle'', [TAddress, TAddress, TU32, TU64, TString], TUnit),
     (''withdraw_slashed_funds'', [TAddress, TAddress, TI128], TUnit),
     (''open_verification_round'', [TAddress, TU64, TString], TUnit),
     (''submit_vote'', [TAddress, TU64, TBool, TString], TUnit),
     (''expire_round'', [TU64], TUnit),
     (''admin_resolve_round'', [TAddress, TU64, TBool, TString], TUnit),
     (''get_oracle_info'', [TAddress], TOption (TNamed ''OracleInfo'')),
     (''list_active_oracles'', [], TVec TAddress),
     (''get_verification_round'', [TU64], TOption (TNamed ''VerificationRound'')),
     (''get_round_votes'', [TU64], TVec (TTuple [TAddress, TBool])),
     (''get_oracle_round_history'', [TAddress], TVec (TTuple [TU64, TBool, TString])),
     (''get_oracle_round_history_paginated'', [TAddress, TU32, TU32], TVec (TTuple [TU64, TBool, TString])),
     (''get_oracle_reputation'', [TAddress], TOption (TNamed ''OracleReputation'')),
     (''set_access_control'', [TAddress, TAddress], TUnit),
     (''get_access_control'', [], TOption TAddress),
     (''set_governance_address'', [TAddress, TAddress], TUnit),
     (''get_governance_address'', [], TOption TAddress),
     (''set_access_control_via_ac'', [TAddress, TAddress], TUnit),
     (''set_invoice_contract_via_ac'', [TAddress, TAddress], TUnit),
     (''set_treasury_via_ac'', [TAddress, TOption TAddress], TUnit),
     (''set_registry_config_via_ac'', [TAddress, TI128, TU32, TU32, TU64, TU64], TUnit),
     (''set_paused_via_ac'', [TAddress, TBool], TUnit),
     (''slash_oracle_via_ac'', [TAddress, TAddress, TU32, TU64, TString], TUnit),
     (''admin_resolve_round_via_ac'', [TAddress, TU64, TBool, TString], TUnit),
     (''set_invoice_contract_gov'', [TAddress, TAddress], TUnit),
     (''set_treasury_via_governance'', [TAddress, TOption TAddress], TUnit),
     (''set_registry_config_gov'', [TAddress, TI128, TU32, TU32, TU64, TU64], TUnit),
     (''set_quorum_tiers_via_governance'', [TAddress, TVec (TNamed ''QuorumTier'')], TUnit)]"

subsection \<open>\<open>contracts/pool/src/lib.rs\<close>\<close>

definition pool_types :: "(string \<times> decl) list" where
  "pool_types =
    [(''AdminOperation'', Variants [(''RemoveToken'', [TAddress]), (''SetCollateralConfig'', [TI128, TU32]), (''SeizeCollateral'', [TU64])]),
     (''CoFundingRound'', Struct [(''committed_principal'', TI128), (''due_date'', TU64), (''funding_deadline'', TU64), (''invoice_id'', TU64), (''max_investor_bps'', TU32), (''min_commitment'', TI128), (''participants'', TVec TAddress), (''sme'', TAddress), (''status'', TNamed ''CoFundingStatus''), (''target_principal'', TI128), (''token'', TAddress)]),
     (''CoFundingStatus'', Variants [(''Open'', []), (''Filled'', []), (''Cancelled'', []), (''Expired'', [])]),
     (''CollateralConfig'', Struct [(''collateral_bps'', TU32), (''threshold'', TI128)]),
     (''CollateralDeposit'', Struct [(''amount'', TI128), (''collateral_bps_at_deposit'', TU32), (''depositor'', TAddress), (''invoice_id'', TU64), (''posted_at'', TU64), (''released_at'', TU64), (''seized_at'', TU64), (''settled'', TBool), (''threshold_at_deposit'', TI128), (''token'', TAddress)]),
     (''DepositInfo'', Struct [(''base_apy_bps'', TU32), (''bonus_bps'', TU32), (''days_active'', TU64), (''deposited_at'', TU64), (''effective_apy_bps'', TU32), (''next_tier_days'', TOption TU32), (''tier'', TU32)]),
     (''ExchangeRateBounds'', Struct [(''max_bps'', TU32), (''min_bps'', TU32)]),
     (''FeeTier'', Struct [(''fee_bps'', TU32), (''max_amount'', TI128), (''min_amount'', TI128), (''min_credit_score'', TU32)]),
     (''FundedInvoice'', Struct [(''co_funding_round_id'', TOption TU64), (''due_date'', TU64), (''factoring_fee'', TI128), (''funded_at'', TU64), (''invoice_id'', TU64), (''locked_yield_bps'', TU32), (''principal'', TI128), (''repaid_amount'', TI128), (''sme'', TAddress), (''token'', TAddress)]),
     (''FundingRequest'', Struct [(''due_date'', TU64), (''invoice_id'', TU64), (''principal'', TI128), (''sme'', TAddress), (''token'', TAddress)]),
     (''InvestorPositionSummary'', Struct [(''co_funding'', TVec (TNamed ''InvestorCoFundingPositionSummary'')), (''deposits'', TVec (TNamed ''InvestorTokenPositionSummary''))]),
     (''InvestorCoFundingPositionSummary'', Struct [(''invoice_id'', TU64), (''principal_share'', TI128), (''share_bps'', TU32), (''token'', TAddress)]),
     (''InvestorTokenPositionSummary'', Struct [(''available_shares'', TI128), (''deployed_shares'', TI128), (''deposited'', TI128), (''earned'', TI128), (''pending_yield'', TI128), (''token'', TAddress)]),
     (''KycStatus'', Variants [(''NotRequested'', []), (''Approved'', []), (''Rejected'', [])]),
     (''ListingSettlement'', Struct [(''amount_or_bps'', TU64), (''buyer'', TAddress), (''invoice_id'', TU64), (''is_co_funding'', TBool), (''price'', TI128), (''seller'', TAddress)]),
     (''LoyaltyTier'', Struct [(''bonus_bps'', TU32), (''min_days'', TU32)]),
     (''OpenCoFundingRequest'', Struct [(''due_date'', TU64), (''funding_deadline'', TU64), (''invoice_id'', TU64), (''max_investor_bps'', TU32), (''min_commitment'', TI128), (''sme'', TAddress), (''target_principal'', TI128), (''token'', TAddress)]),
     (''PoolConfig'', Struct [(''admin'', TAddress), (''compound_interest'', TBool), (''factoring_fee_bps'', TU32), (''invoice_contract'', TAddress), (''last_yield_change_at'', TU64), (''max_single_investor_bps'', TU32), (''max_single_withdrawal_bps'', TU32), (''max_utilization_bps'', TU32), (''max_withdrawal_queue_age_days'', TU32), (''max_withdrawal_queue_depth'', TU32), (''max_yield_change_bps'', TU32), (''min_deposit_amount'', TI128), (''proposed_yield_bps'', TU32), (''utilization_warning_bps'', TU32), (''withdrawal_cooldown_secs'', TU64), (''yield_bps'', TU32), (''yield_change_cooldown_secs'', TU64), (''yield_proposal_at'', TU64), (''yield_timelock_secs'', TU64)]),
     (''PoolContractVersion'', Struct [(''major'', TU32), (''minor'', TU32), (''patch'', TU32)]),
     (''PoolStorageStats'', Struct [(''active_funded_invoices'', TU64), (''cleaned_invoices'', TU64), (''total_funded_invoices'', TU64)]),
     (''PoolTokenTotals'', Struct [(''pool_value'', TI128), (''protocol_revenue'', TI128), (''reward_per_share'', TI128), (''total_deployed'', TI128), (''total_fee_revenue'', TI128), (''total_paid_out'', TI128)]),
     (''Proposal'', Struct [(''cancelled'', TBool), (''execute_after'', TU64), (''executed'', TBool), (''operation'', TNamed ''AdminOperation''), (''proposed_at'', TU64), (''proposer'', TAddress)]),
     (''RateModelConfig'', Struct [(''base_rate_bps'', TU32), (''max_rate_bps'', TU32), (''optimal_utilization_bps'', TU32), (''slope1_bps'', TU32), (''slope2_bps'', TU32)]),
     (''RateSnapshot'', Struct [(''rate_bps'', TU32), (''timestamp'', TU64), (''utilization_bps'', TU32)]),
     (''RepaymentRequest'', Struct [(''amount'', TI128), (''invoice_id'', TU64)]),
     (''UtilizationSnapshot'', Struct [(''timestamp'', TU64), (''utilization_bps'', TU32)]),
     (''WithdrawalRequest'', Struct [(''investor'', TAddress), (''request_id'', TU64), (''requested_at'', TU64), (''shares'', TI128), (''token'', TAddress)])]"

definition pool_fns :: "(string \<times> ty list \<times> ty) list" where
  "pool_fns =
    [(''initialize'', [TAddress, TAddress, TAddress, TAddress], TUnit),
     (''version'', [], TNamed ''PoolContractVersion''),
     (''migration_version'', [], TU32),
     (''run_migration'', [TAddress], TUnit),
     (''pause'', [TAddress], TUnit),
     (''unpause'', [TAddress], TUnit),
     (''is_paused'', [], TBool),
     (''add_token'', [TAddress, TAddress, TAddress], TUnit),
     (''remove_token'', [TAddress, TAddress], TUnit),
     (''deposit'', [TAddress, TAddress, TI128, TOption TU32], TUnit),
     (''withdraw'', [TAddress, TAddress, TI128], TUnit),
     (''request_withdrawal'', [TAddress, TAddress, TI128], TU64),
     (''cancel_withdrawal_request'', [TAddress, TAddress], TUnit),
     (''adjust_withdrawal_request'', [TAddress, TAddress, TI128], TUnit),
     (''get_withdrawal_queue'', [TAddress], TVec (TNamed ''WithdrawalRequest'')),
     (''get_trailing_inflow_rate'', [TAddress], TI128),
     (''get_open_invoices_for_token'', [TAddress], TVec (TNamed ''FundedInvoice'')),
     (''claim_yield'', [TAddress, TAddress], TUnit),
     (''fund_invoice'', [TAddress, TU64, TI128, TAddress, TU64, TAddress], TUnit),
     (''fund_multiple_invoices'', [TAddress, TVec (TNamed ''FundingRequest'')], TUnit),
     (''fund_invoices_batch'', [TAddress, TVec (TNamed ''FundingRequest'')], TUnit),
     (''repay_invoices_batch'', [TAddress, TVec (TNamed ''RepaymentRequest'')], TUnit),
     (''repay_invoice'', [TU64, TAddress, TI128], TUnit),
     (''set_collateral_config'', [TAddress, TI128, TU32], TUnit),
     (''get_collateral_config'', [], TNamed ''CollateralConfig''),
     (''required_collateral_for'', [TI128], TI128),
     (''set_risk_contract'', [TAddress, TAddress], TUnit),
     (''risk_liquidate_collateral'', [TAddress, TU64], TUnit),
     (''deposit_collateral'', [TU64, TAddress, TAddress, TI128], TUnit),
     (''top_up_collateral'', [TU64, TAddress, TAddress, TI128], TUnit),
     (''get_collateral_deposit'', [TU64], TOption (TNamed ''CollateralDeposit'')),
     (''seize_collateral'', [TAddress, TU64], TUnit),
     (''liquidate_invoice'', [TAddress, TU64], TUnit),
     (''set_yield'', [TAddress, TU32], TUnit),
     (''propose_yield_change'', [TAddress, TU32], TUnit),
     (''execute_yield_change'', [], TUnit),
     (''cancel_yield_proposal'', [TAddress], TUnit),
     (''set_yield_change_policy'', [TAddress, TU64, TU32, TU64], TUnit),
     (''propose_rate_model_change'', [TAddress, TAddress, TNamed ''RateModelConfig''], TUnit),
     (''execute_rate_model_change'', [TAddress], TUnit),
     (''cancel_rate_model_change'', [TAddress, TAddress], TUnit),
     (''get_current_rate'', [TAddress], TU32),
     (''get_rate_model_config'', [TAddress], TOption (TNamed ''RateModelConfig'')),
     (''get_rate_history'', [TAddress, TU32], TVec (TNamed ''RateSnapshot'')),
     (''get_pool_utilization_history'', [TAddress, TU32], TVec (TNamed ''UtilizationSnapshot'')),
     (''preview_rate_at_utilization'', [TAddress, TU32], TU32),
     (''set_factoring_fee'', [TAddress, TU32], TUnit),
     (''set_fee_tier'', [TAddress, TU32, TNamed ''FeeTier''], TUnit),
     (''remove_fee_tier'', [TAddress, TU32], TUnit),
     (''get_fee_tier'', [TU32], TOption (TNamed ''FeeTier'')),
     (''list_fee_tiers'', [], TVec (TTuple [TU32, TNamed ''FeeTier''])),
     (''set_credit_score_contract'', [TAddress, TAddress], TUnit),
     (''get_credit_score_contract'', [], TOption TAddress),
     (''set_insurance_contract'', [TAddress, TAddress], TUnit),
     (''get_insurance_contract'', [], TOption TAddress),
     (''receive_insurance_payout'', [TAddress, TAddress, TU64, TI128], TUnit),
     (''set_compound_interest'', [TAddress, TBool], TUnit),
     (''set_min_deposit'', [TAddress, TI128], TUnit),
     (''get_min_deposit'', [], TI128),
     (''set_max_investor_concentration'', [TAddress, TU32], TUnit),
     (''get_investor_concentration'', [TAddress, TAddress], TU32),
     (''set_treasury'', [TAddress, TAddress], TUnit),
     (''get_treasury'', [], TAddress),
     (''get_protocol_revenue'', [TAddress], TI128),
     (''withdraw_revenue'', [TAddress, TAddress, TI128], TUnit),
     (''set_access_control'', [TAddress, TAddress], TUnit),
     (''get_access_control'', [], TOption TAddress),
     (''set_governance_address'', [TAddress, TAddress], TUnit),
     (''get_governance_address'', [], TOption TAddress),
     (''set_paused_via_ac'', [TAddress, TBool], TUnit),
     (''set_yield_via_ac'', [TAddress, TU32], TUnit),
     (''set_treasury_via_ac'', [TAddress, TAddress], TUnit),
     (''withdraw_revenue_via_ac'', [TAddress, TAddress, TI128], TUnit),
     (''set_oracle_contract_via_ac'', [TAddress, TAddress], TUnit),
     (''set_kyc_required_via_ac'', [TAddress, TBool], TUnit),
     (''set_investor_kyc_via_ac'', [TAddress, TAddress, TBool], TUnit),
     (''set_max_utilization_via_ac'', [TAddress, TU32], TUnit),
     (''set_yield_via_governance'', [TAddress, TU32], TUnit),
     (''set_treasury_via_governance'', [TAddress, TAddress], TUnit),
     (''set_max_utilization_gov'', [TAddress, TU32], TUnit),
     (''set_oracle_contract_gov'', [TAddress, TAddress], TUnit),
     (''set_kyc_required_via_governance'', [TAddress, TBool], TUnit),
     (''set_compliance_registry_gov'', [TAddress, TAddress], TUnit),
     (''set_require_compliance_check_gov'', [TAddress, TBool], TUnit),
     (''set_referral_registry_gov'', [TAddress, TAddress], TUnit),
     (''set_credit_score_contract_gov'', [TAddress, TAddress], TUnit),
     (''set_insurance_contract_gov'', [TAddress, TAddress], TUnit),
     (''set_compound_interest_gov'', [TAddress, TBool], TUnit),
     (''set_secondary_market_gov'', [TAddress, TAddress], TUnit),
     (''set_risk_contract_via_governance'', [TAddress, TAddress], TUnit),
     (''set_min_deposit_via_governance'', [TAddress, TI128], TUnit),
     (''set_max_investor_conc_gov'', [TAddress, TU32], TUnit),
     (''set_upgrade_timelock_gov'', [TAddress, TU64], TUnit),
     (''set_operation_delay_gov'', [TAddress, TU64], TUnit),
     (''set_yield_change_policy_gov'', [TAddress, TU64], TUnit),
     (''set_factoring_fee_via_governance'', [TAddress, TU32], TUnit),
     (''set_withdrawal_limits_gov'', [TAddress, TU32], TUnit),
     (''set_max_wd_queue_age_gov'', [TAddress, TU32], TUnit),
     (''set_max_wd_queue_depth_gov'', [TAddress, TU32], TUnit),
     (''set_oracle_stale_thresh_gov'', [TAddress, TU64], TUnit),
     (''set_fee_tier_via_governance'', [TAddress, TU32, TNamed ''FeeTier''], TUnit),
     (''set_loyalty_tiers_via_governance'', [TAddress, TVec (TNamed ''LoyaltyTier'')], TUnit),
     (''set_fallback_price_gov'', [TAddress, TAddress, TI128], TUnit),
     (''set_rate_bounds_via_governance'', [TAddress, TAddress, TU32, TU32], TUnit),
     (''set_exchange_rate_via_governance'', [TAddress, TAddress, TU32], TUnit),
     (''set_collateral_config_gov'', [TAddress, TNamed ''CollateralConfig''], TUnit),
     (''set_loyalty_tiers'', [TAddress, TVec (TNamed ''LoyaltyTier'')], TUnit),
     (''get_loyalty_tiers'', [], TVec (TNamed ''LoyaltyTier'')),
     (''get_deposit_info'', [TAddress, TAddress], TNamed ''DepositInfo''),
     (''set_withdrawal_limits'', [TAddress, TU32, TU64], TUnit),
     (''set_max_withdrawal_queue_age'', [TAddress, TU32], TUnit),
     (''set_max_withdrawal_queue_depth'', [TAddress, TU32], TUnit),
     (''drain_withdrawal_queue'', [TAddress, TAddress], TUnit),
     (''open_co_funding'', [TAddress, TNamed ''OpenCoFundingRequest''], TUnit),
     (''commit_to_invoice'', [TAddress, TU64, TI128], TUnit),
     (''withdraw_co_funding_commitment'', [TAddress, TU64], TUnit),
     (''cancel_co_funding_round'', [TAddress, TU64], TUnit),
     (''cancel_funded_invoice'', [TAddress, TU64], TUnit),
     (''finalize_co_funding'', [TAddress, TU64], TUnit),
     (''list_co_funding_rounds'', [], TVec TU64),
     (''get_co_funding_round'', [TU64], TOption (TNamed ''CoFundingRound'')),
     (''get_investor_co_fund_positions'', [TAddress], TVec (TTuple [TU64, TU32])),
     (''get_investor_position_summary'', [TAddress], TNamed ''InvestorPositionSummary''),
     (''get_co_fund_share'', [TU64, TAddress], TU32),
     (''transfer_co_fund_share'', [TAddress, TU64, TAddress, TAddress, TU32], TUnit),
     (''get_config'', [], TNamed ''PoolConfig''),
     (''accepted_tokens'', [], TVec TAddress),
     (''get_token_totals'', [TAddress], TNamed ''PoolTokenTotals''),
     (''get_pool_balance'', [TAddress], TI128),
     (''get_share_token'', [TAddress], TOption TAddress),
     (''set_oracle_contract'', [TAddress, TAddress], TUnit),
     (''get_oracle_contract'', [], TOption TAddress),
     (''set_oracle_stale_threshold'', [TAddress, TU64], TUnit),
     (''get_oracle_stale_threshold'', [], TU64),
     (''set_fallback_price'', [TAddress, TAddress, TI128], TUnit),
     (''get_fallback_price'', [TAddress], TOption TI128),
     (''get_asset_price'', [TAddress], TI128),
     (''get_utilization'', [TAddress], TU32),
     (''set_max_utilization'', [TAddress, TU32], TUnit),
     (''get_funded_invoice'', [TU64], TOption (TNamed ''FundedInvoice'')),
     (''get_funded_invoices_batch'', [TVec TU64], TVec (TOption (TNamed ''FundedInvoice''))),
     (''available_liquidity'', [TAddress], TI128),
     (''get_storage_stats'', [], TNamed ''PoolStorageStats''),
     (''cleanup_funded_invoice'', [TAddress, TU64], TUnit),
     (''estimate_repayment'', [TU64, TOption TU64], TI128),
     (''estimate_deposit_yield'', [TAddress, TI128, TU64], TI128),
     (''is_invoice_repaid'', [TU64], TBool),
     (''update_invoice_due_date'', [TAddress, TU64, TU64], TUnit),
     (''set_rate_bounds'', [TAddress, TAddress, TU32, TU32], TUnit),
     (''set_exchange_rate'', [TAddress, TAddress, TU32], TUnit),
     (''get_exchange_rate'', [TAddress], TU32),
     (''get_rate_bounds'', [TAddress], TNamed ''ExchangeRateBounds''),
     (''set_compliance_registry'', [TAddress, TAddress], TUnit),
     (''get_compliance_registry'', [], TOption TAddress),
     (''set_require_compliance_check'', [TAddress, TBool], TUnit),
     (''require_compliance_check'', [], TBool),
     (''set_referral_registry'', [TAddress, TAddress], TUnit),
     (''get_referral_registry'', [], TOption TAddress),
     (''set_kyc_required'', [TAddress, TBool], TUnit),
     (''kyc_required'', [], TBool),
     (''set_investor_kyc'', [TAddress, TAddress, TBool], TUnit),
     (''approve_investor_kyc'', [TAddress, TAddress], TUnit),
     (''reject_investor_kyc'', [TAddress, TAddress], TUnit),
     (''get_investor_kyc_status'', [TAddress], TNamed ''KycStatus''),
     (''get_investor_kyc'', [TAddress], TBool),
     (''set_upgrade_timelock'', [TAddress, TU64], TUnit),
     (''get_upgrade_timelock'', [], TU64),
     (''propose_upgrade'', [TAddress, TBytes (Some 32)], TUnit),
     (''execute_upgrade'', [TAddress], TUnit),
     (''propose_admin_change'', [TAddress, TAddress], TUnit),
     (''finalize_admin_change'', [TAddress], TUnit),
     (''get_operation_delay'', [], TU64),
     (''set_operation_delay'', [TAddress, TU64], TUnit),
     (''propose_operation'', [TAddress, TNamed ''AdminOperation''], TU64),
     (''execute_operation'', [TAddress, TU64], TUnit),
     (''cancel_admin_change'', [TAddress], TUnit),
     (''cancel_operation'', [TAddress, TU64], TUnit),
     (''get_proposal'', [TU64], TOption (TNamed ''Proposal'')),
     (''set_secondary_market_contract'', [TAddress, TAddress], TUnit),
     (''get_secondary_market_contract'', [], TOption TAddress),
     (''get_investor_position'', [TAddress, TAddress], TTuple [TI128, TI128]),
     (''market_settle_listing'', [TAddress, TNamed ''ListingSettlement''], TUnit)]"

subsection \<open>\<open>contracts/referral/src/lib.rs\<close>\<close>

definition referral_types :: "(string \<times> decl) list" where
  "referral_types =
    [(''LeaderboardEntry'', Struct [(''referral_count'', TU32), (''referrer'', TAddress)]),
     (''ReferralStats'', Struct [(''referral_count'', TU32), (''referrer'', TAddress)])]"

definition referral_fns :: "(string \<times> ty list \<times> ty) list" where
  "referral_fns =
    [(''initialize'', [TAddress, TAddress], TUnit),
     (''pause'', [TAddress], TUnit),
     (''unpause'', [TAddress], TUnit),
     (''is_paused'', [], TBool),
     (''set_pool'', [TAddress, TAddress], TUnit),
     (''get_pool'', [], TAddress),
     (''set_borrow_reward_bps'', [TAddress, TU32], TUnit),
     (''set_deposit_reward_bps'', [TAddress, TU32], TUnit),
     (''set_lifetime_reward_cap'', [TAddress, TAddress, TI128], TUnit),
     (''get_lifetime_reward_cap'', [TAddress], TOption TI128),
     (''set_access_control'', [TAddress, TAddress], TUnit),
     (''get_access_control'', [], TOption TAddress),
     (''set_access_control_via_ac'', [TAddress, TAddress], TUnit),
     (''set_paused_via_ac'', [TAddress, TBool], TUnit),
     (''set_pool_via_ac'', [TAddress, TAddress], TUnit),
     (''set_borrow_reward_bps_via_ac'', [TAddress, TU32], TUnit),
     (''set_deposit_reward_bps_via_ac'', [TAddress, TU32], TUnit),
     (''get_borrow_reward_bps'', [], TU32),
     (''get_deposit_reward_bps'', [], TU32),
     (''register'', [TAddress, TAddress], TUnit),
     (''get_referrer'', [TAddress], TOption TAddress),
     (''is_activated'', [TAddress], TBool),
     (''record_activity'', [TAddress, TAddress, TSymbol, TI128, TAddress], TI128),
     (''get_pending_reward'', [TAddress, TAddress], TI128),
     (''claim_rewards'', [TAddress, TAddress], TI128),
     (''get_stats'', [TAddress], TNamed ''ReferralStats''),
     (''get_top_referrers'', [TU32], TVec (TNamed ''LeaderboardEntry''))]"

subsection \<open>\<open>contracts/secondary_market/src/lib.rs\<close>\<close>

definition secondary_market_types :: "(string \<times> decl) list" where
  "secondary_market_types =
    [(''LiquidityForecastPoint'', Struct [(''day'', TU32), (''projected_available'', TI128)]),
     (''Listing'', Struct [(''amount_or_bps'', TU64), (''created_at'', TU64), (''invoice_id'', TU64), (''kind'', TNamed ''ListingKind''), (''listing_id'', TU64), (''price'', TI128), (''seller'', TAddress), (''status'', TNamed ''ListingStatus''), (''token'', TAddress)]),
     (''ListingKind'', Variants [(''CoFunding'', []), (''SingleFunded'', [])]),
     (''ListingStatus'', Variants [(''Open'', []), (''Filled'', []), (''Cancelled'', [])]),
     (''Order'', Struct [(''amount_or_bps'', TU64), (''created_at'', TU64), (''expires_at'', TU64), (''invoice_id'', TU64), (''kind'', TNamed ''ListingKind''), (''order_id'', TU64), (''owner'', TAddress), (''price'', TI128), (''remaining'', TU64), (''side'', TNamed ''OrderSide''), (''status'', TNamed ''OrderStatus''), (''token'', TAddress)]),
     (''OrderBookLevel'', Struct [(''order_id'', TU64), (''price'', TI128), (''quantity'', TU64)]),
     (''OrderSide'', Variants [(''Bid'', []), (''Ask'', [])]),
     (''OrderStatus'', Variants [(''Open'', []), (''PartiallyFilled'', []), (''Filled'', []), (''Cancelled'', []), (''Expired'', [])]),
     (''PlaceOrderRequest'', Struct [(''amount_or_bps'', TU64), (''expires_at'', TU64), (''invoice_id'', TU64), (''kind'', TNamed ''ListingKind''), (''price'', TI128), (''side'', TNamed ''OrderSide'')]),
     (''WaitEstimate'', Struct [(''capital_ahead'', TI128), (''estimated_wait_secs'', TU64), (''nearest_invoice_due_date'', TU64), (''queue_position'', TU32)])]"

definition secondary_market_fns :: "(string \<times> ty list \<times> ty) list" where
  "secondary_market_fns =
    [(''initialize'', [TAddress, TAddress], TUnit),
     (''pause'', [TAddress], TUnit),
     (''unpause'', [TAddress], TUnit),
     (''get_pool_contract'', [], TOption TAddress),
     (''list_position'', [TAddress, TU64, TNamed ''ListingKind'', TU64, TI128], TU64),
     (''cancel_listing'', [TAddress, TU64], TUnit),
     (''buy_listing'', [TAddress, TU64], TUnit),
     (''get_listing'', [TU64], TOption (TNamed ''Listing'')),
     (''list_listings_for_invoice'', [TU64], TVec TU64),
     (''list_listings_for_investor'', [TAddress], TVec TU64),
     (''place_order'', [TAddress, TNamed ''PlaceOrderRequest''], TU64),
     (''cancel_order'', [TAddress, TU64], TUnit),
     (''expire_order'', [TU64], TUnit),
     (''get_order'', [TU64], TOption (TNamed ''Order'')),
     (''get_order_book'', [TU64, TNamed ''ListingKind''], TTuple [TVec (TNamed ''OrderBookLevel''), TVec (TNamed ''OrderBookLevel'')]),
     (''list_orders_for_owner'', [TAddress], TVec TU64),
     (''estimate_withdrawal_wait'', [TAddress, TAddress], TNamed ''WaitEstimate''),
     (''get_liquidity_forecast'', [TAddress, TU32], TVec (TNamed ''LiquidityForecastPoint''))]"

subsection \<open>\<open>contracts/share/src/lib.rs\<close>\<close>

definition share_types :: "(string \<times> decl) list" where
  "share_types =
    []"

definition share_fns :: "(string \<times> ty list \<times> ty) list" where
  "share_fns =
    [(''initialize'', [TAddress, TU32, TString, TString], TUnit),
     (''pause'', [TAddress], TUnit),
     (''unpause'', [TAddress], TUnit),
     (''is_paused'', [], TBool),
     (''admin'', [], TAddress),
     (''set_admin'', [TAddress], TUnit),
     (''mint'', [TAddress, TI128], TUnit),
     (''burn'', [TAddress, TI128], TUnit),
     (''burn_from'', [TAddress, TAddress, TI128], TUnit),
     (''transfer'', [TAddress, TAddress, TI128], TUnit),
     (''approve'', [TAddress, TAddress, TI128, TU32], TUnit),
     (''allowance'', [TAddress, TAddress], TI128),
     (''get_allowance_expiration'', [TAddress, TAddress], TU32),
     (''increase_allowance'', [TAddress, TAddress, TI128], TUnit),
     (''decrease_allowance'', [TAddress, TAddress, TI128], TUnit),
     (''transfer_from'', [TAddress, TAddress, TAddress, TI128], TUnit),
     (''balance'', [TAddress], TI128),
     (''balance_at'', [TAddress, TU64], TI128),
     (''total_supply'', [], TI128),
     (''decimals'', [], TU32),
     (''name'', [], TString),
     (''symbol'', [], TString)]"

section \<open>Calls\<close>

text \<open>The equations that open a table only to look something up.\<close>

lemmas abi_tables = arg_cong [OF access_control_fns_def, of "\<lambda>xs. entry_of xs n" for n]
  arg_cong [OF access_control_types_def, of "\<lambda>xs. entry_of xs n" for n]
  arg_cong [OF arbitration_fns_def, of "\<lambda>xs. entry_of xs n" for n]
  arg_cong [OF arbitration_types_def, of "\<lambda>xs. entry_of xs n" for n]
  arg_cong [OF auction_fns_def, of "\<lambda>xs. entry_of xs n" for n]
  arg_cong [OF auction_types_def, of "\<lambda>xs. entry_of xs n" for n]
  arg_cong [OF compliance_fns_def, of "\<lambda>xs. entry_of xs n" for n]
  arg_cong [OF compliance_types_def, of "\<lambda>xs. entry_of xs n" for n]
  arg_cong [OF credit_score_fns_def, of "\<lambda>xs. entry_of xs n" for n]
  arg_cong [OF credit_score_types_def, of "\<lambda>xs. entry_of xs n" for n]
  arg_cong [OF governance_fns_def, of "\<lambda>xs. entry_of xs n" for n]
  arg_cong [OF governance_types_def, of "\<lambda>xs. entry_of xs n" for n]
  arg_cong [OF insurance_fns_def, of "\<lambda>xs. entry_of xs n" for n]
  arg_cong [OF insurance_types_def, of "\<lambda>xs. entry_of xs n" for n]
  arg_cong [OF invoice_fns_def, of "\<lambda>xs. entry_of xs n" for n]
  arg_cong [OF invoice_types_def, of "\<lambda>xs. entry_of xs n" for n]
  arg_cong [OF oracle_registry_fns_def, of "\<lambda>xs. entry_of xs n" for n]
  arg_cong [OF oracle_registry_types_def, of "\<lambda>xs. entry_of xs n" for n]
  arg_cong [OF pool_fns_def, of "\<lambda>xs. entry_of xs n" for n]
  arg_cong [OF pool_types_def, of "\<lambda>xs. entry_of xs n" for n]
  arg_cong [OF referral_fns_def, of "\<lambda>xs. entry_of xs n" for n]
  arg_cong [OF referral_types_def, of "\<lambda>xs. entry_of xs n" for n]
  arg_cong [OF secondary_market_fns_def, of "\<lambda>xs. entry_of xs n" for n]
  arg_cong [OF secondary_market_types_def, of "\<lambda>xs. entry_of xs n" for n]
  arg_cong [OF share_fns_def, of "\<lambda>xs. entry_of xs n" for n]
  arg_cong [OF share_types_def, of "\<lambda>xs. entry_of xs n" for n]

text \<open>A deployed contract; a token contract is given by its address and has no interface here.\<close>

datatype contract =
    InvoiceC | PoolC | SecondaryMarketC | AuctionC | CreditScoreC | GovernanceC | OracleRegistryC | ComplianceC
  | ReferralC | TrancheC | AccessControlC | ArbitrationC | InsuranceC | ShareC | TokenC string

fun abi_of :: "contract \<Rightarrow> ((string \<times> decl) list \<times> (string \<times> ty list \<times> ty) list) option" where
  "abi_of InvoiceC = Some (invoice_types, invoice_fns)"
| "abi_of PoolC = Some (pool_types, pool_fns)"
| "abi_of SecondaryMarketC = Some (secondary_market_types, secondary_market_fns)"
| "abi_of AuctionC = Some (auction_types, auction_fns)"
| "abi_of CreditScoreC = Some (credit_score_types, credit_score_fns)"
| "abi_of GovernanceC = Some (governance_types, governance_fns)"
| "abi_of OracleRegistryC = Some (oracle_registry_types, oracle_registry_fns)"
| "abi_of ComplianceC = Some (compliance_types, compliance_fns)"
| "abi_of ReferralC = Some (referral_types, referral_fns)"
| "abi_of AccessControlC = Some (access_control_types, access_control_fns)"
| "abi_of ArbitrationC = Some (arbitration_types, arbitration_fns)"
| "abi_of InsuranceC = Some (insurance_types, insurance_fns)"
| "abi_of ShareC = Some (share_types, share_fns)"
| "abi_of TrancheC = None"
| "abi_of (TokenC a) = None"

definition call_ok :: "contract \<Rightarrow> string \<Rightarrow> sc_arg list \<Rightarrow> bool" where
  "call_ok c meth args = (case abi_of c of
      None \<Rightarrow> True
    | Some (D, fns) \<Rightarrow> (case entry_of fns meth of None \<Rightarrow> False | Some (ts, r) \<Rightarrow> conforms_all D args ts))"

lemmas call_simps = call_ok_def conforms_base_def abi_tables

end
