(* ===== verification/ContractTxs.thy ===== *)
theory ContractTxs
  imports ContractAbi RpcPool
begin

text \<open>
  The transactions the frontend builds (\<open>frontend/lib/contracts.ts\<close>, the functions \<open>build...Tx\<close>).

  Each of them reads the source account, describes one contract call, simulates it and returns the
  assembled transaction as text, to be signed by the wallet.  The network is a record of answers
  (after the retries of the connection pool): accounts, what the library raises while it encodes the
  call, the simulation and the assembled transaction.  Numbers that are passed to the chain are
  integers here.  A value of a union of string literals is a string; statements that need it say
  that the string is one of the literals.
\<close>

section \<open>The network\<close>

record rpc_account =
  ac_balances :: "(string \<times> string) list option"

text \<open>An answer of the simulation: the response object of a failure, or the decoded return value.\<close>

datatype sim_answer = SimFailure js | SimReturn js

record chain =
  ch_id :: "contract \<Rightarrow> string"
  ch_account :: "string \<Rightarrow> rpc_account result"
  ch_encode :: "contract \<Rightarrow> string \<Rightarrow> sc_arg list \<Rightarrow> jserror option"
  ch_simulate :: "string \<Rightarrow> contract \<Rightarrow> string \<Rightarrow> sc_arg list \<Rightarrow> sim_answer result"
  ch_assemble :: "string \<Rightarrow> contract \<Rightarrow> string \<Rightarrow> sc_arg list \<Rightarrow> js \<Rightarrow> string"
  ch_now :: millis

section \<open>Balances\<close>

text \<open>\<open>Number.parseFloat\<close>: the longest prefix that is a decimal number.\<close>

definition float_exponent :: "string \<Rightarrow> int" where
  "float_exponent s = (case s of
      [] \<Rightarrow> 0
    | c # cs \<Rightarrow>
        if c = CHR ''e'' \<or> c = CHR ''E''
        then (let neg = startsWith cs ''-''; r = (if neg \<or> startsWith cs ''+'' then drop 1 cs else cs); ds = takeWhile is_digit r
              in (if neg then - int (digits_val ds) else int (digits_val ds)))
        else 0)"

definition js_parseFloat :: "string \<Rightarrow> jnum" where
  "js_parseFloat s0 =
     (let s = dropWhile is_space s0; neg = startsWith s ''-''; sg = (if neg then - 1 else 1);
          u = (if neg \<or> startsWith s ''+'' then drop 1 s else s)
      in if startsWith u ''Infinity'' then NInf (\<not> neg)
         else (let ip = takeWhile is_digit u; r = dropWhile is_digit u; frac = startsWith r ''.'';
                   fp = (if frac then takeWhile is_digit (drop 1 r) else []);
                   r' = (if frac then dropWhile is_digit (drop 1 r) else r)
               in if ip = [] \<and> fp = [] then NNaN
                  else scale10 (sg * int (digits_val (ip @ fp))) (float_exponent r' - int (length fp))))"

definition BASE_FEE :: int where "BASE_FEE = 100"

definition getNativeBalanceStroops :: "rpc_account \<Rightarrow> int result" where
  "getNativeBalanceStroops account = (case ac_balances account of
      None \<Rightarrow> Inr 0
    | Some balances \<Rightarrow> (case find (\<lambda>(asset_type, balance). asset_type = ''native'') balances of
          None \<Rightarrow> Inr 0
        | Some (_, []) \<Rightarrow> Inr 0
        | Some (_, balance) \<Rightarrow> (case js_parseFloat balance of
              NNaN \<Rightarrow> Inl (RangeError ''The number NaN cannot be converted to a BigInt because it is not an integer'')
            | NInf b \<Rightarrow> Inl (RangeError ''The number Infinity cannot be converted to a BigInt because it is not an integer'')
            | x \<Rightarrow> Inr (js_round (num_val x * 1000000)))))"

definition ensureSufficientNativeBalance :: "rpc_account \<Rightarrow> unit result" where
  "ensureSufficientNativeBalance account = (case getNativeBalanceStroops account of
      Inl e \<Rightarrow> Inl e
    | Inr n \<Rightarrow> if n < BASE_FEE then Inl (GenericError ''Insufficient balance for this transaction'') else Inr ())"

section \<open>Building a transaction\<close>

definition build_op :: "chain \<Rightarrow> (js \<Rightarrow> jserror) \<Rightarrow> string \<Rightarrow> contract \<Rightarrow> string \<Rightarrow> sc_arg list \<Rightarrow> string result" where
  "build_op env failed source c meth args = (case ch_encode env c meth args of
      Some e \<Rightarrow> Inl e
    | None \<Rightarrow> (case ch_simulate env source c meth args of
          Inl e \<Rightarrow> Inl e
        | Inr (SimFailure sim) \<Rightarrow> Inl (failed sim)
        | Inr (SimReturn retval) \<Rightarrow> Inr (ch_assemble env source c meth args retval)))"

definition simulation_failed :: "js \<Rightarrow> jserror" where
  "simulation_failed sim = GenericError (''Simulation failed: '' @ js_String (js_prop sim ''error''))"

definition build_tx :: "chain \<Rightarrow> string \<Rightarrow> contract \<Rightarrow> string \<Rightarrow> sc_arg list \<Rightarrow> string result" where
  "build_tx env source c meth args = (case ch_account env source of
      Inl e \<Rightarrow> Inl e
    | Inr account \<Rightarrow> build_op env simulation_failed source c meth args)"

text \<open>The variant that looks at the balance of the source account first.\<close>

definition build_funded_tx :: "chain \<Rightarrow> string \<Rightarrow> contract \<Rightarrow> string \<Rightarrow> sc_arg list \<Rightarrow> string result" where
  "build_funded_tx env source c meth args = (case ch_account env source of
      Inl e \<Rightarrow> Inl e
    | Inr account \<Rightarrow> (case ensureSufficientNativeBalance account of
          Inl e \<Rightarrow> Inl e
        | Inr _ \<Rightarrow> build_op env simulation_failed source c meth args))"

section \<open>Encoding of structs and enums\<close>

definition listingKindToScVal :: "string \<Rightarrow> sc_arg" where
  "listingKindToScVal kind = ScVec [ScSymbol kind]"

definition orderSideToScVal :: "string \<Rightarrow> sc_arg" where
  "orderSideToScVal side = ScVec [ScSymbol side]"

definition placeOrderRequestToScVal :: "int \<Rightarrow> string \<Rightarrow> string \<Rightarrow> int \<Rightarrow> int \<Rightarrow> int option \<Rightarrow> sc_arg" where
  "placeOrderRequestToScVal invoiceId kind side amountOrBps price expiresAt = ScMap
     [(''amount_or_bps'', ScU64 amountOrBps),
      (''expires_at'', ScU64 (case expiresAt of Some t \<Rightarrow> t | None \<Rightarrow> 0)),
      (''invoice_id'', ScU64 invoiceId),
      (''kind'', listingKindToScVal kind),
      (''price'', ScI128 price),
      (''side'', orderSideToScVal side)]"

definition openCoFundingRequestToScVal :: "int \<Rightarrow> string \<Rightarrow> int \<Rightarrow> string \<Rightarrow> int \<Rightarrow> int \<Rightarrow> int \<Rightarrow> int \<Rightarrow> sc_arg" where
  "openCoFundingRequestToScVal invoiceId token targetPrincipal sme dueDate fundingDeadline minCommitment maxInvestorBps = ScMap
     [(''due_date'', ScU64 dueDate),
      (''funding_deadline'', ScU64 fundingDeadline),
      (''invoice_id'', ScU64 invoiceId),
      (''max_investor_bps'', ScU32 maxInvestorBps),
      (''min_commitment'', ScI128 minCommitment),
      (''sme'', ScAddress sme),
      (''target_principal'', ScI128 targetPrincipal),
      (''token'', ScAddress token)]"

record rate_config =
  rc_baseRateBps :: int
  rc_optimalUtilizationBps :: int
  rc_slope1Bps :: int
  rc_slope2Bps :: int
  rc_maxRateBps :: int

definition rateModelConfigToScVal :: "rate_config \<Rightarrow> sc_arg" where
  "rateModelConfigToScVal config = ScMap
     [(''base_rate_bps'', ScU32 (rc_baseRateBps config)),
      (''max_rate_bps'', ScU32 (rc_maxRateBps config)),
      (''optimal_utilization_bps'', ScU32 (rc_optimalUtilizationBps config)),
      (''slope1_bps'', ScU32 (rc_slope1Bps config)),
      (''slope2_bps'', ScU32 (rc_slope2Bps config))]"

definition attestorTypeToScVal :: "string \<Rightarrow> sc_arg" where
  "attestorTypeToScVal variant = ScVec [ScSymbol variant]"

definition unitEnumToScVal :: "string \<Rightarrow> sc_arg" where
  "unitEnumToScVal variant = ScVec [ScSymbol variant]"

datatype TrancheClass = Senior | Junior

definition trancheClassToScVal :: "TrancheClass \<Rightarrow> sc_arg" where
  "trancheClassToScVal tc = ScVec [ScSymbol (if tc = Senior then ''Senior'' else ''Junior'')]"

record InsuranceRiskTier =
  rt_min_score :: int
  rt_max_score :: int
  rt_risk_multiplier_bps :: int

record premium_config =
  pc_base_rate_bps :: int
  pc_tenor_bps_per_day :: int
  pc_risk_tiers :: "InsuranceRiskTier list"
  pc_default_risk_multiplier_bps :: int
  pc_min_premium_bps :: int
  pc_max_premium_bps :: int
  pc_default_coverage_bps :: int

definition riskTierToScVal :: "InsuranceRiskTier \<Rightarrow> sc_arg" where
  "riskTierToScVal tier = ScMap
     [(''max_score'', ScU32 (rt_max_score tier)),
      (''min_score'', ScU32 (rt_min_score tier)),
      (''risk_multiplier_bps'', ScU32 (rt_risk_multiplier_bps tier))]"

definition premiumConfigToScVal :: "premium_config \<Rightarrow> sc_arg" where
  "premiumConfigToScVal config = ScMap
     [(''base_rate_bps'', ScU32 (pc_base_rate_bps config)),
      (''default_coverage_bps'', ScU32 (pc_default_coverage_bps config)),
      (''default_risk_multiplier_bps'', ScU32 (pc_default_risk_multiplier_bps config)),
      (''max_premium_bps'', ScU32 (pc_max_premium_bps config)),
      (''min_premium_bps'', ScU32 (pc_min_premium_bps config)),
      (''risk_tiers'', ScVec (map riskTierToScVal (pc_risk_tiers config))),
      (''tenor_bps_per_day'', ScU32 (pc_tenor_bps_per_day config))]"

definition roleToScVal :: "string \<Rightarrow> sc_arg" where
  "roleToScVal role = ScVec [ScSymbol role]"

text \<open>The actions of the access control contract; every constructor is a tag with its values.\<close>

datatype ActionPayload =
    SetPaused bool | SetYield int | SetTreasury string | WithdrawRevenue string int | SetOracleContract string
  | SetKycRequired bool | SetInvestorKyc string bool | SetMaxUtilization int | SetOracle string
  | RegisterDebtor string string int | DeactivateDebtor string | AddKeeper string | SetLateThreshold int
  | SetScoreThresholds int int int int | RegisterAttestor string int int
  | SetOracleRegistryInvoiceContract string | SetOracleRegistryTreasury "string option"
  | SetOracleRegistryConfig int int int int int | SetOracleRegistryPaused bool | SlashOracle string int int string
  | AdminResolveRound int bool string
  | SetCompliancePaused bool | RegisterScreener string | ConfirmScreenerRegistration string | DeregisterScreener string
  | SetRescreeningInterval int | SetScreenerTimelock int
  | UpdateGovernanceConfig int int int | SetCategoryQuorum int int
  | SetReferralPaused bool | SetReferralPool string | SetBorrowRewardBps int | SetDepositRewardBps int
  | SetInvoiceAccessControl string | SetCreditScoreAccessControl string | SetOracleRegistryAccessControl string
  | SetComplianceAccessControl string | SetGovernanceAccessControl string | SetReferralAccessControl string
  | AddSigner string string | RemoveSigner string string | SetThreshold string int

fun actionPayloadToScVal :: "ActionPayload \<Rightarrow> sc_arg" where
  "actionPayloadToScVal (SetPaused b) = ScVec [ScSymbol ''SetPaused'', ScBool b]"
| "actionPayloadToScVal (SetKycRequired b) = ScVec [ScSymbol ''SetKycRequired'', ScBool b]"
| "actionPayloadToScVal (SetYield n) = ScVec [ScSymbol ''SetYield'', ScU32 n]"
| "actionPayloadToScVal (SetMaxUtilization n) = ScVec [ScSymbol ''SetMaxUtilization'', ScU32 n]"
| "actionPayloadToScVal (SetTreasury a) = ScVec [ScSymbol ''SetTreasury'', ScAddress a]"
| "actionPayloadToScVal (SetOracleContract a) = ScVec [ScSymbol ''SetOracleContract'', ScAddress a]"
| "actionPayloadToScVal (SetOracle a) = ScVec [ScSymbol ''SetOracle'', ScAddress a]"
| "actionPayloadToScVal (AddKeeper a) = ScVec [ScSymbol ''AddKeeper'', ScAddress a]"
| "actionPayloadToScVal (WithdrawRevenue a n) = ScVec [ScSymbol ''WithdrawRevenue'', ScAddress a, ScI128 n]"
| "actionPayloadToScVal (SetInvestorKyc a b) = ScVec [ScSymbol ''SetInvestorKyc'', ScAddress a, ScBool b]"
| "actionPayloadToScVal (RegisterDebtor s t n) = ScVec [ScSymbol ''RegisterDebtor'', ScString s, ScString t, ScI128 n]"
| "actionPayloadToScVal (DeactivateDebtor s) = ScVec [ScSymbol ''DeactivateDebtor'', ScString s]"
| "actionPayloadToScVal (SetLateThreshold n) = ScVec [ScSymbol ''SetLateThreshold'', ScI64 n]"
| "actionPayloadToScVal (SetScoreThresholds a b c d) = ScVec [ScSymbol ''SetScoreThresholds'', ScU32 a, ScU32 b, ScU32 c, ScU32 d]"
| "actionPayloadToScVal (RegisterAttestor a m n) = ScVec [ScSymbol ''RegisterAttestor'', ScAddress a, ScU32 m, ScU32 n]"
| "actionPayloadToScVal (AddSigner r a) = ScVec [ScSymbol ''AddSigner'', roleToScVal r, ScAddress a]"
| "actionPayloadToScVal (RemoveSigner r a) = ScVec [ScSymbol ''RemoveSigner'', roleToScVal r, ScAddress a]"
| "actionPayloadToScVal (SetThreshold r n) = ScVec [ScSymbol ''SetThreshold'', roleToScVal r, ScU32 n]"
| "actionPayloadToScVal (SetOracleRegistryInvoiceContract a) = ScVec [ScSymbol ''SetOracleRegistryInvoiceContract'', ScAddress a]"
| "actionPayloadToScVal (SetReferralPool a) = ScVec [ScSymbol ''SetReferralPool'', ScAddress a]"
| "actionPayloadToScVal (SetOracleRegistryTreasury t) = ScVec [ScSymbol ''SetOracleRegistryTreasury'', (case t of None \<Rightarrow> ScVoid | Some a \<Rightarrow> ScAddress a)]"
| "actionPayloadToScVal (SetOracleRegistryConfig s v q r d) = ScVec [ScSymbol ''SetOracleRegistryConfig'', ScI128 s, ScU32 v, ScU32 q, ScU64 r, ScU64 d]"
| "actionPayloadToScVal (SetOracleRegistryPaused b) = ScVec [ScSymbol ''SetOracleRegistryPaused'', ScBool b]"
| "actionPayloadToScVal (SetCompliancePaused b) = ScVec [ScSymbol ''SetCompliancePaused'', ScBool b]"
| "actionPayloadToScVal (SetReferralPaused b) = ScVec [ScSymbol ''SetReferralPaused'', ScBool b]"
| "actionPayloadToScVal (SlashOracle a n r e) = ScVec [ScSymbol ''SlashOracle'', ScAddress a, ScU32 n, ScU64 r, ScString e]"
| "actionPayloadToScVal (AdminResolveRound i b s) = ScVec [ScSymbol ''AdminResolveRound'', ScU64 i, ScBool b, ScString s]"
| "actionPayloadToScVal (RegisterScreener a) = ScVec [ScSymbol ''RegisterScreener'', ScAddress a]"
| "actionPayloadToScVal (ConfirmScreenerRegistration a) = ScVec [ScSymbol ''ConfirmScreenerRegistration'', ScAddress a]"
| "actionPayloadToScVal (DeregisterScreener a) = ScVec [ScSymbol ''DeregisterScreener'', ScAddress a]"
| "actionPayloadToScVal (SetRescreeningInterval n) = ScVec [ScSymbol ''SetRescreeningInterval'', ScU64 n]"
| "actionPayloadToScVal (SetScreenerTimelock n) = ScVec [ScSymbol ''SetScreenerTimelock'', ScU64 n]"
| "actionPayloadToScVal (UpdateGovernanceConfig q p d) = ScVec [ScSymbol ''UpdateGovernanceConfig'', ScU32 q, ScU32 p, ScU64 d]"
| "actionPayloadToScVal (SetCategoryQuorum c q) = ScVec [ScSymbol ''SetCategoryQuorum'', ScU32 c, ScU32 q]"
| "actionPayloadToScVal (SetBorrowRewardBps n) = ScVec [ScSymbol ''SetBorrowRewardBps'', ScU32 n]"
| "actionPayloadToScVal (SetDepositRewardBps n) = ScVec [ScSymbol ''SetDepositRewardBps'', ScU32 n]"
| "actionPayloadToScVal (SetInvoiceAccessControl a) = ScVec [ScSymbol ''SetInvoiceAccessControl'', ScAddress a]"
| "actionPayloadToScVal (SetCreditScoreAccessControl a) = ScVec [ScSymbol ''SetCreditScoreAccessControl'', ScAddress a]"
| "actionPayloadToScVal (SetOracleRegistryAccessControl a) = ScVec [ScSymbol ''SetOracleRegistryAccessControl'', ScAddress a]"
| "actionPayloadToScVal (SetComplianceAccessControl a) = ScVec [ScSymbol ''SetComplianceAccessControl'', ScAddress a]"
| "actionPayloadToScVal (SetGovernanceAccessControl a) = ScVec [ScSymbol ''SetGovernanceAccessControl'', ScAddress a]"
| "actionPayloadToScVal (SetReferralAccessControl a) = ScVec [ScSymbol ''SetReferralAccessControl'', ScAddress a]"

section \<open>The transactions\<close>

text \<open>The checks on the form's values come before anything is sent; \<open>dueDate\<close> may be any number.\<close>

definition buildCreateInvoiceTx :: "chain \<Rightarrow> string \<Rightarrow> string \<Rightarrow> int \<Rightarrow> jnum \<Rightarrow> string \<Rightarrow> string option \<Rightarrow> string option \<Rightarrow> string result" where
  "buildCreateInvoiceTx env owner debtor amount dueDate description verificationHash metadataUri =
     (if trim debtor = [] then Inl (GenericError ''Debtor name is required'')
      else if amount \<le> 0 then Inl (GenericError ''Amount must be greater than zero'')
      else if dueDate = NNaN \<or> dueDate = NInf True \<or> dueDate = NInf False \<or> num_le dueDate (NInt (ch_now env div 1000))
      then Inl (GenericError ''Due date must be in the future'')
      else (case ch_account env owner of
          Inl e \<Rightarrow> Inl e
        | Inr account \<Rightarrow> (case dueDate of
              NInt due \<Rightarrow> build_op env (\<lambda>sim. ContractError (parseSimulationError sim) None None) owner InvoiceC ''create_invoice_with_metadata''
                [ScAddress owner, ScString debtor, ScI128 amount, ScU64 due, ScString description,
                 ScString (case verificationHash of Some h \<Rightarrow> h | None \<Rightarrow> []),
                 (case metadataUri of Some (c # cs) \<Rightarrow> ScString (c # cs) | _ \<Rightarrow> ScVoid)]
            | _ \<Rightarrow> Inl (RangeError ''The number cannot be converted to a BigInt because it is not an integer''))))"

definition buildRenewInvoiceTtlTx :: "chain \<Rightarrow> string \<Rightarrow> int \<Rightarrow> string result" where
  "buildRenewInvoiceTtlTx env operator invoiceId =
     build_tx env operator InvoiceC ''renew_ttl'' [ScU64 invoiceId]"

definition buildListPositionTx :: "chain \<Rightarrow> string \<Rightarrow> int \<Rightarrow> string \<Rightarrow> int \<Rightarrow> int \<Rightarrow> string result" where
  "buildListPositionTx env seller invoiceId kind amountOrBps price =
     build_tx env seller SecondaryMarketC ''list_position'' [ScAddress seller, ScU64 invoiceId, listingKindToScVal kind, ScU64 amountOrBps, ScI128 price]"

definition buildCancelListingTx :: "chain \<Rightarrow> string \<Rightarrow> int \<Rightarrow> string result" where
  "buildCancelListingTx env seller listingId =
     build_tx env seller SecondaryMarketC ''cancel_listing'' [ScAddress seller, ScU64 listingId]"

definition buildBuyListingTx :: "chain \<Rightarrow> string \<Rightarrow> int \<Rightarrow> string result" where
  "buildBuyListingTx env buyer listingId =
     build_tx env buyer SecondaryMarketC ''buy_listing'' [ScAddress buyer, ScU64 listingId]"

definition buildPlaceOrderTx :: "chain \<Rightarrow> string \<Rightarrow> int \<Rightarrow> string \<Rightarrow> string \<Rightarrow> int \<Rightarrow> int \<Rightarrow> int option \<Rightarrow> string result" where
  "buildPlaceOrderTx env owner invoiceId kind side amountOrBps price expiresAt =
     build_tx env owner SecondaryMarketC ''place_order'' [ScAddress owner, placeOrderRequestToScVal invoiceId kind side amountOrBps price expiresAt]"

definition buildCancelOrderTx :: "chain \<Rightarrow> string \<Rightarrow> int \<Rightarrow> string result" where
  "buildCancelOrderTx env owner orderId =
     build_tx env owner SecondaryMarketC ''cancel_order'' [ScAddress owner, ScU64 orderId]"

definition buildExpireOrderTx :: "chain \<Rightarrow> string \<Rightarrow> int \<Rightarrow> string result" where
  "buildExpireOrderTx env caller orderId =
     build_tx env caller SecondaryMarketC ''expire_order'' [ScU64 orderId]"

definition buildDepositTx :: "chain \<Rightarrow> string \<Rightarrow> string \<Rightarrow> int \<Rightarrow> string result" where
  "buildDepositTx env investor token amount =
     build_funded_tx env investor PoolC ''deposit'' [ScAddress investor, ScAddress token, ScI128 amount]"

definition buildClaimYieldTx :: "chain \<Rightarrow> string \<Rightarrow> string \<Rightarrow> string result" where
  "buildClaimYieldTx env investor token =
     build_tx env investor PoolC ''claim_yield'' [ScAddress investor, ScAddress token]"

definition buildOpenCoFundingTx :: "chain \<Rightarrow> string \<Rightarrow> int \<Rightarrow> string \<Rightarrow> int \<Rightarrow> string \<Rightarrow> int \<Rightarrow> int \<Rightarrow> int \<Rightarrow> int \<Rightarrow> string result" where
  "buildOpenCoFundingTx env admin invoiceId token targetPrincipal sme dueDate fundingDeadline minCommitment maxInvestorBps =
     build_tx env admin PoolC ''open_co_funding'' [ScAddress admin, openCoFundingRequestToScVal invoiceId token targetPrincipal sme dueDate fundingDeadline minCommitment maxInvestorBps]"

definition buildCommitToInvoiceTx :: "chain \<Rightarrow> string \<Rightarrow> int \<Rightarrow> int \<Rightarrow> string result" where
  "buildCommitToInvoiceTx env investor invoiceId amount =
     build_funded_tx env investor PoolC ''commit_to_invoice'' [ScAddress investor, ScU64 invoiceId, ScI128 amount]"

definition buildFinalizeCoFundingTx :: "chain \<Rightarrow> string \<Rightarrow> int \<Rightarrow> string result" where
  "buildFinalizeCoFundingTx env caller invoiceId =
     build_tx env caller PoolC ''finalize_co_funding'' [ScAddress caller, ScU64 invoiceId]"

definition buildWithdrawCoFundingCommitmentTx :: "chain \<Rightarrow> string \<Rightarrow> int \<Rightarrow> string result" where
  "buildWithdrawCoFundingCommitmentTx env investor invoiceId =
     build_tx env investor PoolC ''withdraw_co_funding_commitment'' [ScAddress investor, ScU64 invoiceId]"

definition buildCancelCoFundingRoundTx :: "chain \<Rightarrow> string \<Rightarrow> int \<Rightarrow> string result" where
  "buildCancelCoFundingRoundTx env admin invoiceId =
     build_tx env admin PoolC ''cancel_co_funding_round'' [ScAddress admin, ScU64 invoiceId]"

definition buildTransferCoFundShareTx :: "chain \<Rightarrow> string \<Rightarrow> int \<Rightarrow> string \<Rightarrow> string \<Rightarrow> int \<Rightarrow> string result" where
  "buildTransferCoFundShareTx env sender invoiceId token recipient bps =
     build_tx env sender PoolC ''transfer_co_fund_share'' [ScAddress sender, ScU64 invoiceId, ScAddress token, ScAddress recipient, ScU32 bps]"

definition buildRepayTx :: "chain \<Rightarrow> string \<Rightarrow> int \<Rightarrow> int \<Rightarrow> string result" where
  "buildRepayTx env payer invoiceId amount =
     build_tx env payer PoolC ''repay_invoice'' [ScU64 invoiceId, ScAddress payer, ScI128 amount]"

definition buildWithdrawTx :: "chain \<Rightarrow> string \<Rightarrow> string \<Rightarrow> int \<Rightarrow> string result" where
  "buildWithdrawTx env investor token amount =
     build_tx env investor PoolC ''withdraw'' [ScAddress investor, ScAddress token, ScI128 amount]"

definition buildRequestWithdrawalTx :: "chain \<Rightarrow> string \<Rightarrow> string \<Rightarrow> int \<Rightarrow> string result" where
  "buildRequestWithdrawalTx env investor token shares =
     build_tx env investor PoolC ''request_withdrawal'' [ScAddress investor, ScAddress token, ScI128 shares]"

definition buildCancelWithdrawalRequestTx :: "chain \<Rightarrow> string \<Rightarrow> string \<Rightarrow> string result" where
  "buildCancelWithdrawalRequestTx env investor token =
     build_tx env investor PoolC ''cancel_withdrawal_request'' [ScAddress investor, ScAddress token]"

definition buildDrainWithdrawalQueueTx :: "chain \<Rightarrow> string \<Rightarrow> string \<Rightarrow> string result" where
  "buildDrainWithdrawalQueueTx env caller token =
     build_tx env caller PoolC ''drain_withdrawal_queue'' [ScAddress caller, ScAddress token]"

definition buildSetYieldTx :: "chain \<Rightarrow> string \<Rightarrow> int \<Rightarrow> string result" where
  "buildSetYieldTx env admin yieldBps =
     build_tx env admin PoolC ''set_yield'' [ScAddress admin, ScU32 yieldBps]"

definition buildProposeRateModelTx :: "chain \<Rightarrow> string \<Rightarrow> string \<Rightarrow> rate_config \<Rightarrow> string result" where
  "buildProposeRateModelTx env admin token config =
     build_tx env admin PoolC ''propose_rate_model_change'' [ScAddress admin, ScAddress token, rateModelConfigToScVal config]"

definition buildExecuteRateModelTx :: "chain \<Rightarrow> string \<Rightarrow> string \<Rightarrow> string result" where
  "buildExecuteRateModelTx env caller token =
     build_tx env caller PoolC ''execute_rate_model_change'' [ScAddress token]"

definition buildCancelRateModelTx :: "chain \<Rightarrow> string \<Rightarrow> string \<Rightarrow> string result" where
  "buildCancelRateModelTx env admin token =
     build_tx env admin PoolC ''cancel_rate_model_change'' [ScAddress admin, ScAddress token]"

definition buildSetFactoringFeeTx :: "chain \<Rightarrow> string \<Rightarrow> int \<Rightarrow> string result" where
  "buildSetFactoringFeeTx env admin factoringFeeBps =
     build_tx env admin PoolC ''set_factoring_fee'' [ScAddress admin, ScU32 factoringFeeBps]"

definition buildMarkDefaultedTx :: "chain \<Rightarrow> string \<Rightarrow> int \<Rightarrow> string result" where
  "buildMarkDefaultedTx env admin invoiceId =
     build_tx env admin InvoiceC ''mark_defaulted'' [ScU64 invoiceId, ScAddress (ch_id env PoolC)]"

definition buildPauseProtocolTx :: "chain \<Rightarrow> string \<Rightarrow> string result" where
  "buildPauseProtocolTx env admin =
     build_tx env admin InvoiceC ''pause'' [ScAddress admin]"

definition buildUnpauseProtocolTx :: "chain \<Rightarrow> string \<Rightarrow> string result" where
  "buildUnpauseProtocolTx env admin =
     build_tx env admin InvoiceC ''unpause'' [ScAddress admin]"

definition buildDisputeTx :: "chain \<Rightarrow> string \<Rightarrow> int \<Rightarrow> string \<Rightarrow> string option \<Rightarrow> string result" where
  "buildDisputeTx env disputer invoiceId reason oracleHash =
     build_tx env disputer InvoiceC ''verify_invoice'' [ScU64 invoiceId, ScAddress disputer, ScBool False, ScString reason, ScString (case oracleHash of Some h \<Rightarrow> h | None \<Rightarrow> [])]"

definition buildSetInvoicePrivateTx :: "chain \<Rightarrow> string \<Rightarrow> int \<Rightarrow> bool \<Rightarrow> string result" where
  "buildSetInvoicePrivateTx env owner invoiceId isPrivate =
     build_tx env owner InvoiceC ''set_invoice_private'' [ScU64 invoiceId, ScAddress owner, ScBool isPrivate]"

definition buildSetKycRequiredTx :: "chain \<Rightarrow> string \<Rightarrow> bool \<Rightarrow> string result" where
  "buildSetKycRequiredTx env admin required =
     build_tx env admin PoolC ''set_kyc_required'' [ScAddress admin, ScBool required]"

definition buildSetInvestorKycTx :: "chain \<Rightarrow> string \<Rightarrow> string \<Rightarrow> bool \<Rightarrow> string result" where
  "buildSetInvestorKycTx env admin investor approved =
     build_tx env admin PoolC ''set_investor_kyc'' [ScAddress admin, ScAddress investor, ScBool approved]"

definition buildSetExchangeRateTx :: "chain \<Rightarrow> string \<Rightarrow> string \<Rightarrow> int \<Rightarrow> string result" where
  "buildSetExchangeRateTx env admin token rateBps =
     build_tx env admin PoolC ''set_exchange_rate'' [ScAddress admin, ScAddress token, ScU32 rateBps]"

definition buildDepositCollateralTx :: "chain \<Rightarrow> int \<Rightarrow> string \<Rightarrow> string \<Rightarrow> int \<Rightarrow> string result" where
  "buildDepositCollateralTx env invoiceId depositor token amount =
     build_tx env depositor PoolC ''deposit_collateral'' [ScU64 invoiceId, ScAddress depositor, ScAddress token, ScI128 amount]"

definition buildTopUpCollateralTx :: "chain \<Rightarrow> int \<Rightarrow> string \<Rightarrow> string \<Rightarrow> int \<Rightarrow> string result" where
  "buildTopUpCollateralTx env invoiceId depositor token amount =
     build_tx env depositor PoolC ''top_up_collateral'' [ScU64 invoiceId, ScAddress depositor, ScAddress token, ScI128 amount]"

definition buildCheckCollateralRiskTx :: "chain \<Rightarrow> int \<Rightarrow> string \<Rightarrow> string result" where
  "buildCheckCollateralRiskTx env invoiceId caller =
     build_tx env caller AuctionC ''check_collateral_risk'' [ScAddress caller, ScU64 invoiceId]"

definition buildLiquidateCollateralTx :: "chain \<Rightarrow> int \<Rightarrow> string \<Rightarrow> string result" where
  "buildLiquidateCollateralTx env invoiceId caller =
     build_tx env caller AuctionC ''liquidate_collateral'' [ScAddress caller, ScU64 invoiceId]"

definition buildRegisterAttestorTx :: "chain \<Rightarrow> string \<Rightarrow> string \<Rightarrow> string \<Rightarrow> int \<Rightarrow> string result" where
  "buildRegisterAttestorTx env admin addr attestorType weightBps =
     build_tx env admin CreditScoreC ''register_attestor'' [ScAddress admin, ScAddress addr, attestorTypeToScVal attestorType, ScU32 weightBps]"

definition buildDeactivateAttestorTx :: "chain \<Rightarrow> string \<Rightarrow> string \<Rightarrow> string result" where
  "buildDeactivateAttestorTx env admin addr =
     build_tx env admin CreditScoreC ''deactivate_attestor'' [ScAddress admin, ScAddress addr]"

definition buildSubmitAttestationTx :: "chain \<Rightarrow> string \<Rightarrow> string \<Rightarrow> string \<Rightarrow> int \<Rightarrow> string \<Rightarrow> int \<Rightarrow> string result" where
  "buildSubmitAttestationTx env attestor sme attestationType scoreContribution evidenceHash expiresAt =
     build_tx env attestor CreditScoreC ''submit_attestation'' [ScAddress attestor, ScAddress sme, attestorTypeToScVal attestationType, ScU32 scoreContribution, ScString evidenceHash, ScU64 expiresAt]"

definition buildDisputeAttestationTx :: "chain \<Rightarrow> string \<Rightarrow> int \<Rightarrow> string \<Rightarrow> string result" where
  "buildDisputeAttestationTx env caller attestationId reasonHash =
     build_tx env caller CreditScoreC ''dispute_attestation'' [ScAddress caller, ScU64 attestationId, ScString reasonHash]"

definition buildResolveAttestationDisputeTx :: "chain \<Rightarrow> string \<Rightarrow> int \<Rightarrow> bool \<Rightarrow> string result" where
  "buildResolveAttestationDisputeTx env admin attestationId upheld =
     build_tx env admin CreditScoreC ''resolve_attestation_dispute'' [ScAddress admin, ScU64 attestationId, ScBool upheld]"

definition buildCreateProposalTx :: "chain \<Rightarrow> string \<Rightarrow> string \<Rightarrow> string \<Rightarrow> string \<Rightarrow> string \<Rightarrow> string result" where
  "buildCreateProposalTx env proposer description targetContract functionName calldata =
     build_tx env proposer GovernanceC ''create_proposal'' [ScString description, ScAddress targetContract, ScString functionName, ScString calldata]"

definition buildVoteProposalTx :: "chain \<Rightarrow> string \<Rightarrow> int \<Rightarrow> bool \<Rightarrow> string result" where
  "buildVoteProposalTx env voter proposalId inFavor =
     build_tx env voter GovernanceC ''vote'' [ScU64 proposalId, ScBool inFavor]"

definition buildExecuteProposalTx :: "chain \<Rightarrow> string \<Rightarrow> int \<Rightarrow> string result" where
  "buildExecuteProposalTx env executor proposalId =
     build_tx env executor GovernanceC ''execute_proposal'' [ScU64 proposalId]"

definition buildCancelProposalTx :: "chain \<Rightarrow> string \<Rightarrow> int \<Rightarrow> string result" where
  "buildCancelProposalTx env cancelledBy proposalId =
     build_tx env cancelledBy GovernanceC ''cancel_proposal'' [ScU64 proposalId]"

definition buildAdminResolveRoundTx :: "chain \<Rightarrow> string \<Rightarrow> int \<Rightarrow> bool \<Rightarrow> string \<Rightarrow> string result" where
  "buildAdminResolveRoundTx env admin invoiceId approved reason =
     build_tx env admin OracleRegistryC ''admin_resolve_round'' [ScAddress admin, ScU64 invoiceId, ScBool approved, ScString reason]"

definition buildSlashOracleTx :: "chain \<Rightarrow> string \<Rightarrow> string \<Rightarrow> int \<Rightarrow> string result" where
  "buildSlashOracleTx env admin operator bps =
     build_tx env admin OracleRegistryC ''slash_oracle'' [ScAddress admin, ScAddress operator, ScU32 bps]"

definition buildRaiseDisputeTx :: "chain \<Rightarrow> string \<Rightarrow> int \<Rightarrow> string \<Rightarrow> string \<Rightarrow> string result" where
  "buildRaiseDisputeTx env borrower invoiceId evidenceHash respondent =
     build_tx env borrower InvoiceC ''raise_dispute'' [ScU64 invoiceId, ScAddress borrower, ScString evidenceHash, ScAddress respondent]"

definition buildSubmitEvidenceTx :: "chain \<Rightarrow> string \<Rightarrow> int \<Rightarrow> string \<Rightarrow> string result" where
  "buildSubmitEvidenceTx env submitter caseId evidenceHash =
     build_tx env submitter ArbitrationC ''submit_evidence'' [ScU64 caseId, ScAddress submitter, ScString evidenceHash]"

definition buildRegisterJurorTx :: "chain \<Rightarrow> string \<Rightarrow> int \<Rightarrow> string result" where
  "buildRegisterJurorTx env operator stakeAmount =
     build_tx env operator ArbitrationC ''register_juror'' [ScAddress operator, ScI128 stakeAmount]"

definition buildDeregisterJurorTx :: "chain \<Rightarrow> string \<Rightarrow> string result" where
  "buildDeregisterJurorTx env operator =
     build_tx env operator ArbitrationC ''deregister_juror'' [ScAddress operator]"

definition buildSelectJurorsTx :: "chain \<Rightarrow> string \<Rightarrow> int \<Rightarrow> string result" where
  "buildSelectJurorsTx env caller caseId =
     build_tx env caller ArbitrationC ''select_jurors'' [ScU64 caseId]"

definition buildCommitVoteTx :: "chain \<Rightarrow> string \<Rightarrow> int \<Rightarrow> nat list \<Rightarrow> string result" where
  "buildCommitVoteTx env juror caseId commitHash =
     build_tx env juror ArbitrationC ''commit_vote'' [ScU64 caseId, ScAddress juror, ScBytes commitHash]"

definition buildRevealVoteTx :: "chain \<Rightarrow> string \<Rightarrow> int \<Rightarrow> bool \<Rightarrow> nat list \<Rightarrow> string result" where
  "buildRevealVoteTx env juror caseId voteChoice salt =
     build_tx env juror ArbitrationC ''reveal_vote'' [ScU64 caseId, ScAddress juror, ScBool voteChoice, ScBytes salt]"

definition buildFinalizeCaseTx :: "chain \<Rightarrow> string \<Rightarrow> int \<Rightarrow> string result" where
  "buildFinalizeCaseTx env caller caseId =
     build_tx env caller ArbitrationC ''finalize_case'' [ScU64 caseId]"

definition buildAdminResolveNoQuorumTx :: "chain \<Rightarrow> string \<Rightarrow> int \<Rightarrow> string \<Rightarrow> string result" where
  "buildAdminResolveNoQuorumTx env admin caseId resolution =
     build_tx env admin ArbitrationC ''admin_resolve_no_quorum'' [ScAddress admin, ScU64 caseId, ScVec [ScSymbol resolution]]"

definition buildSubmitScreeningResultTx :: "chain \<Rightarrow> string \<Rightarrow> string \<Rightarrow> string \<Rightarrow> int \<Rightarrow> string \<Rightarrow> int \<Rightarrow> string \<Rightarrow> string result" where
  "buildSubmitScreeningResultTx env screener addr status reasonCode riskTier expiresAt notesHash =
     (case ch_account env screener of
       Inl e \<Rightarrow> Inl e
     | Inr account \<Rightarrow> if ch_id env ComplianceC = [] then Inl (GenericError ''NEXT_PUBLIC_COMPLIANCE_CONTRACT_ID is not configured'')
         else build_op env simulation_failed screener ComplianceC ''submit_screening_result''
           [ScAddress screener, ScAddress addr, unitEnumToScVal status, ScU32 reasonCode, unitEnumToScVal riskTier, ScU64 expiresAt, ScString notesHash])"

definition buildRegisterReferralTx :: "chain \<Rightarrow> string \<Rightarrow> string \<Rightarrow> string result" where
  "buildRegisterReferralTx env referee referrer =
     build_tx env referee ReferralC ''register'' [ScAddress referee, ScAddress referrer]"

definition buildTrancheDepositTx :: "chain \<Rightarrow> string \<Rightarrow> string \<Rightarrow> TrancheClass \<Rightarrow> int \<Rightarrow> string result" where
  "buildTrancheDepositTx env investor token trancheClass amount =
     build_tx env investor TrancheC ''deposit_tranche'' [ScAddress investor, ScAddress token, trancheClassToScVal trancheClass, ScI128 amount]"

definition buildSetTrancheConfigTx :: "chain \<Rightarrow> string \<Rightarrow> string \<Rightarrow> int \<Rightarrow> int \<Rightarrow> int \<Rightarrow> string result" where
  "buildSetTrancheConfigTx env admin token seniorTargetYieldBps seniorAdvanceRateBps juniorFirstLossBps =
     build_tx env admin TrancheC ''set_tranche_config'' [ScAddress admin, ScAddress token, ScU32 seniorTargetYieldBps, ScU32 seniorAdvanceRateBps, ScU32 juniorFirstLossBps]"

definition buildPurchaseCoverageTx :: "chain \<Rightarrow> string \<Rightarrow> int \<Rightarrow> int \<Rightarrow> string \<Rightarrow> int \<Rightarrow> string \<Rightarrow> string result" where
  "buildPurchaseCoverageTx env payer invoiceId principalAmount sme dueDate token =
     build_tx env payer InsuranceC ''purchase_coverage'' [ScAddress payer, ScU64 invoiceId, ScI128 principalAmount, ScAddress sme, ScU64 dueDate, ScAddress token]"

definition buildFileClaimTx :: "chain \<Rightarrow> string \<Rightarrow> int \<Rightarrow> string result" where
  "buildFileClaimTx env caller invoiceId =
     build_tx env caller InsuranceC ''file_claim'' [ScAddress caller, ScU64 invoiceId]"

definition buildSetPremiumConfigTx :: "chain \<Rightarrow> string \<Rightarrow> premium_config \<Rightarrow> string result" where
  "buildSetPremiumConfigTx env admin config =
     build_tx env admin InsuranceC ''set_premium_config'' [ScAddress admin, premiumConfigToScVal config]"

definition buildSetMinCoverageRatioTx :: "chain \<Rightarrow> string \<Rightarrow> string \<Rightarrow> int \<Rightarrow> string result" where
  "buildSetMinCoverageRatioTx env admin token minRatioBps =
     build_tx env admin InsuranceC ''set_min_coverage_ratio'' [ScAddress admin, ScAddress token, ScU32 minRatioBps]"

definition buildSetMinReserveAmountTx :: "chain \<Rightarrow> string \<Rightarrow> string \<Rightarrow> int \<Rightarrow> string result" where
  "buildSetMinReserveAmountTx env admin token minAmount =
     build_tx env admin InsuranceC ''set_min_reserve_amount'' [ScAddress admin, ScAddress token, ScI128 minAmount]"

definition buildFundReserveFromTreasuryTx :: "chain \<Rightarrow> string \<Rightarrow> string \<Rightarrow> int \<Rightarrow> string result" where
  "buildFundReserveFromTreasuryTx env admin token amount =
     build_tx env admin InsuranceC ''fund_reserve_from_treasury'' [ScAddress admin, ScAddress token, ScI128 amount]"

definition buildSetInsuranceContractTx :: "chain \<Rightarrow> string \<Rightarrow> string \<Rightarrow> string result" where
  "buildSetInsuranceContractTx env admin insuranceContract =
     build_tx env admin PoolC ''set_insurance_contract'' [ScAddress admin, ScAddress insuranceContract]"

definition buildProposeActionTx :: "chain \<Rightarrow> string \<Rightarrow> string \<Rightarrow> string \<Rightarrow> ActionPayload \<Rightarrow> string result" where
  "buildProposeActionTx env role proposer target action =
     build_tx env proposer AccessControlC ''propose_action'' [roleToScVal role, ScAddress proposer, ScAddress target, actionPayloadToScVal action]"

definition buildExecuteActionTx :: "chain \<Rightarrow> string \<Rightarrow> int \<Rightarrow> string result" where
  "buildExecuteActionTx env caller proposalId =
     build_tx env caller AccessControlC ''execute_action'' [ScAddress caller, ScU64 proposalId]"

definition buildSignerOnlyActionTx :: "string \<Rightarrow> chain \<Rightarrow> string \<Rightarrow> int \<Rightarrow> string result" where
  "buildSignerOnlyActionTx meth env caller proposalId =
     build_tx env caller AccessControlC meth [ScAddress caller, ScU64 proposalId]"

definition buildApproveActionTx :: "chain \<Rightarrow> string \<Rightarrow> int \<Rightarrow> string result" where
  "buildApproveActionTx = buildSignerOnlyActionTx ''approve_action''"

definition buildRejectActionTx :: "chain \<Rightarrow> string \<Rightarrow> int \<Rightarrow> string result" where
  "buildRejectActionTx = buildSignerOnlyActionTx ''reject_action''"

definition buildRevokeApprovalTx :: "chain \<Rightarrow> string \<Rightarrow> int \<Rightarrow> string result" where
  "buildRevokeApprovalTx = buildSignerOnlyActionTx ''revoke_approval''"

end
