(* ===== verification/ContractReads.thy ===== *)
theory ContractReads
  imports ContractTxs
begin

text \<open>
  The reads of the frontend (\<open>frontend/lib/contracts.ts\<close>).  A read simulates a call from a fixed
  placeholder account, takes the decoded return value and copies its fields into an object of the
  frontend's own type, each through a coercion of the language.  A failed simulation carries no
  result, so taking its return value raises a TypeError.  The objects are values of the language, in
  the order of the object literals.
\<close>

section \<open>Coercions of fields\<close>

text \<open>The forms \<open>raw.x as T\<close>, \<open>raw.x ?? d\<close>, \<open>Number(raw.x)\<close>, \<open>BigInt(String(raw.x))\<close>, \<open>BigInt(raw.x)\<close>,
  \<open>Boolean(raw.x)\<close>, \<open>String(raw.x)\<close>, the tag of an enum, and the tests for a missing value.\<close>

datatype coercion =
    AsIs | AsIsOr js | ToNumber | ToNumberOr js | ToBig | ToBigOr js | ToBigRaw | ToBigRawOr js
  | ToBool | ToStr | ToStrOr js | EnumTag | NumberOrElse js | BoolOrElse js | IsPresent
  | BigOrElse js | StrOrElse js | HexOrElse js

definition big_of_string :: "string \<Rightarrow> js result" where
  "big_of_string s = (case js_BigInt s of Some n \<Rightarrow> Inr (JBigInt n) | None \<Rightarrow> Inl (SyntaxError (''Cannot convert '' @ s @ '' to a BigInt'')))"

text \<open>\<open>BigInt(v)\<close> on a value that is not a string first.\<close>

definition js_to_BigInt :: "js \<Rightarrow> js result" where
  "js_to_BigInt v = (case v of
      JUndefined \<Rightarrow> Inl (TypeError ''Cannot convert undefined to a BigInt'')
    | JNull \<Rightarrow> Inl (TypeError ''Cannot convert null to a BigInt'')
    | JBool b \<Rightarrow> Inr (JBigInt (if b then 1 else 0))
    | JNum (NInt n) \<Rightarrow> Inr (JBigInt n)
    | JNum x \<Rightarrow> Inl (RangeError ''The number cannot be converted to a BigInt because it is not an integer'')
    | JBigInt n \<Rightarrow> Inr (JBigInt n)
    | _ \<Rightarrow> big_of_string (js_String v))"

text \<open>\<open>Number(v)\<close>: a BigInt is rounded to the nearest double, ties to the even one.\<close>

fun excess_bits :: "nat \<Rightarrow> nat" where
  "excess_bits n = (if n < 2 ^ 53 then 0 else Suc (excess_bits (n div 2)))"

declare excess_bits.simps [simp del]

definition double_of_nat :: "nat \<Rightarrow> nat" where
  "double_of_nat n = (let u = 2 ^ excess_bits n; q = n div u; r = n mod u in
     (if u < 2 * r \<or> (u = 2 * r \<and> odd q) then q + 1 else q) * u)"

definition double_of_int :: "int \<Rightarrow> int" where
  "double_of_int n = sgn n * int (double_of_nat (nat \<bar>n\<bar>))"

definition to_Number :: "js \<Rightarrow> jnum" where
  "to_Number v = (case v of JBigInt n \<Rightarrow> NInt (double_of_int n) | _ \<Rightarrow> js_Number v)"

definition enumTagFromNative :: "js \<Rightarrow> js" where
  "enumTagFromNative raw = (case raw of JArr xs \<Rightarrow> elem_at xs 0 | _ \<Rightarrow> raw)"

text \<open>\<open>Buffer.from(bytes).toString('hex')\<close>.\<close>

definition hex_char :: "nat \<Rightarrow> char" where
  "hex_char n = ''0123456789abcdef'' ! (n mod 16)"

definition bytes_hex :: "js \<Rightarrow> string" where
  "bytes_hex v = concat (map (\<lambda>x. case x of
      JNum (NInt n) \<Rightarrow> [hex_char (nat (n div 16)), hex_char (nat n)]
    | _ \<Rightarrow> ''00'') (array_elems v))"

fun coerce :: "coercion \<Rightarrow> js \<Rightarrow> js result" where
  "coerce AsIs v = Inr v"
| "coerce (AsIsOr d) v = Inr (js_coalesce v d)"
| "coerce ToNumber v = Inr (JNum (to_Number v))"
| "coerce (ToNumberOr d) v = Inr (JNum (to_Number (js_coalesce v d)))"
| "coerce ToBig v = big_of_string (js_String v)"
| "coerce (ToBigOr d) v = big_of_string (js_String (js_coalesce v d))"
| "coerce ToBigRaw v = js_to_BigInt v"
| "coerce (ToBigRawOr d) v = js_to_BigInt (js_coalesce v d)"
| "coerce ToBool v = Inr (JBool (js_truthy v))"
| "coerce ToStr v = Inr (JStr (js_String v))"
| "coerce (ToStrOr d) v = Inr (JStr (js_String (js_coalesce v d)))"
| "coerce EnumTag v = Inr (enumTagFromNative v)"
| "coerce (NumberOrElse d) v = Inr (if is_nullish v then d else JNum (to_Number v))"
| "coerce (BoolOrElse d) v = Inr (if is_nullish v then d else JBool (js_truthy v))"
| "coerce IsPresent v = Inr (JBool (\<not> is_nullish v))"
| "coerce (BigOrElse d) v = (if is_nullish v then Inr d else big_of_string (js_String v))"
| "coerce (StrOrElse d) v = Inr (if js_truthy v then JStr (js_String v) else d)"
| "coerce (HexOrElse d) v = Inr (if js_truthy v then JStr (bytes_hex v) else d)"

text \<open>A field of an object literal: its name, the field it is read from and the coercion.\<close>

type_synonym field = "string \<times> string \<times> coercion"

fun decode_fields :: "field list \<Rightarrow> js \<Rightarrow> (string \<times> js) list result" where
  "decode_fields [] raw = Inr []"
| "decode_fields ((k, f, c) # fs) raw = (case coerce c (js_prop raw f) of
      Inl e \<Rightarrow> Inl e
    | Inr v \<Rightarrow> (case decode_fields fs raw of Inl e \<Rightarrow> Inl e | Inr kvs \<Rightarrow> Inr ((k, v) # kvs)))"

definition decode_object :: "field list \<Rightarrow> js \<Rightarrow> js result" where
  "decode_object fs raw =
     (if is_nullish raw then Inl (TypeError ''Cannot read properties of undefined'')
      else (case decode_fields fs raw of Inl e \<Rightarrow> Inl e | Inr kvs \<Rightarrow> Inr (JObj kvs)))"

text \<open>\<open>if (!raw) return null\<close>, then the object.\<close>

definition decode_or_null :: "(js \<Rightarrow> js result) \<Rightarrow> js \<Rightarrow> js result" where
  "decode_or_null f raw = (if js_truthy raw then f raw else Inr JNull)"

fun map_js :: "(js \<Rightarrow> js result) \<Rightarrow> js list \<Rightarrow> js list result" where
  "map_js f [] = Inr []"
| "map_js f (x # xs) = (case f x of Inl e \<Rightarrow> Inl e | Inr y \<Rightarrow> (case map_js f xs of Inl e \<Rightarrow> Inl e | Inr ys \<Rightarrow> Inr (y # ys)))"

definition js_map :: "(js \<Rightarrow> js result) \<Rightarrow> js \<Rightarrow> js result" where
  "js_map f v = (case v of
      JArr xs \<Rightarrow> (case map_js f xs of Inl e \<Rightarrow> Inl e | Inr ys \<Rightarrow> Inr (JArr ys))
    | _ \<Rightarrow> Inl (TypeError ''map is not a function''))"

text \<open>\<open>(raw ?? []).map(f)\<close> and \<open>if (!Array.isArray(raw)) return []; raw.map(f)\<close>.\<close>

definition map_or_empty :: "(js \<Rightarrow> js result) \<Rightarrow> js \<Rightarrow> js result" where
  "map_or_empty f raw = js_map f (js_coalesce raw (JArr []))"

definition map_if_array :: "(js \<Rightarrow> js result) \<Rightarrow> js \<Rightarrow> js result" where
  "map_if_array f raw = (case raw of JArr xs \<Rightarrow> js_map f raw | _ \<Rightarrow> Inr (JArr []))"

section \<open>Simulating a read\<close>

definition SIM_SOURCE :: string where
  "SIM_SOURCE = ''GAAZI4TCR3TY5OJHCTJC2A4QSY6CJWJH5IAJTGKIN2ER7LBNVKOCCWN''"

definition simulateCall :: "chain \<Rightarrow> contract \<Rightarrow> string \<Rightarrow> sc_arg list \<Rightarrow> string \<Rightarrow> sim_answer result" where
  "simulateCall env c meth args source = (case ch_account env source of
      Inl e \<Rightarrow> Inl e
    | Inr account \<Rightarrow> (case ch_encode env c meth args of
          Some e \<Rightarrow> Inl e
        | None \<Rightarrow> ch_simulate env source c meth args))"

text \<open>\<open>scValToNative(result!.retval)\<close>.\<close>

definition retval :: "sim_answer \<Rightarrow> js result" where
  "retval sim = (case sim of SimReturn v \<Rightarrow> Inr v | SimFailure _ \<Rightarrow> Inl (TypeError ''Cannot read properties of undefined''))"

definition then_result :: "'a result \<Rightarrow> ('a \<Rightarrow> 'b result) \<Rightarrow> 'b result" where
  "then_result r f = (case r of Inl e \<Rightarrow> Inl e | Inr x \<Rightarrow> f x)"

definition read_from :: "chain \<Rightarrow> string \<Rightarrow> contract \<Rightarrow> string \<Rightarrow> sc_arg list \<Rightarrow> (js \<Rightarrow> 'b result) \<Rightarrow> 'b result" where
  "read_from env source c meth args f = then_result (simulateCall env c meth args source) (\<lambda>sim. then_result (retval sim) f)"

definition read_call :: "chain \<Rightarrow> contract \<Rightarrow> string \<Rightarrow> sc_arg list \<Rightarrow> (js \<Rightarrow> 'b result) \<Rightarrow> 'b result" where
  "read_call env = read_from env SIM_SOURCE"

text \<open>The reads that look at the kind of answer first and treat a failure as a value.\<close>

definition read_or :: "js \<Rightarrow> chain \<Rightarrow> contract \<Rightarrow> string \<Rightarrow> sc_arg list \<Rightarrow> (js \<Rightarrow> js result) \<Rightarrow> js result" where
  "read_or d env c meth args f = then_result (simulateCall env c meth args SIM_SOURCE) (\<lambda>sim. case sim of
      SimFailure _ \<Rightarrow> Inr d
    | SimReturn v \<Rightarrow> f v)"

definition as_number :: "js \<Rightarrow> js result" where "as_number v = coerce ToNumber v"
definition as_big :: "js \<Rightarrow> js result" where "as_big v = coerce ToBig v"
definition as_big0 :: "js \<Rightarrow> js result" where "as_big0 v = coerce (ToBigOr (JNum (NInt 0))) v"
definition as_bool :: "js \<Rightarrow> js result" where "as_bool v = coerce ToBool v"
definition zero :: js where "zero = JNum (NInt 0)"

section \<open>Invoice contract\<close>

text \<open>In mock mode the invoice is fetched from the mock server instead (\<open>mock\<close>).\<close>

definition getInvoice :: "(string \<Rightarrow> js result) option \<Rightarrow> chain \<Rightarrow> int \<Rightarrow> js result" where
  "getInvoice mock env invoiceId = (case mock of
      Some fetch \<Rightarrow> fetch (''/invoices/'' @ show_int invoiceId)
    | None \<Rightarrow> read_call env InvoiceC ''get_invoice'' [ScU64 invoiceId] Inr)"

definition mockFetch :: "(string \<Rightarrow> (int \<times> js) result) \<Rightarrow> string \<Rightarrow> js result" where
  "mockFetch fetch path = then_result (fetch path) (\<lambda>(status, body).
     if 200 \<le> status \<and> status < 300 then Inr body
     else Inl (GenericError (''Mock API error: '' @ show_int status @ '' '' @ path)))"

text \<open>One read per invoice, all at once; when several fail, which failure is reported is left open by the code, here it is the first of the list.\<close>

fun getMultipleInvoices :: "(string \<Rightarrow> js result) option \<Rightarrow> chain \<Rightarrow> int list \<Rightarrow> js list result" where
  "getMultipleInvoices mock env [] = Inr []"
| "getMultipleInvoices mock env (invoiceId # ids) = (case getInvoice mock env invoiceId of
      Inl e \<Rightarrow> Inl e
    | Inr v \<Rightarrow> (case getMultipleInvoices mock env ids of Inl e \<Rightarrow> Inl e | Inr vs \<Rightarrow> Inr (v # vs)))"

definition getInvoiceMetadata :: "chain \<Rightarrow> int \<Rightarrow> js result" where
  "getInvoiceMetadata env invoiceId = read_call env InvoiceC ''get_metadata'' [ScU64 invoiceId]
     (\<lambda>raw. decode_object [(''name'', ''name'', AsIs), (''description'', ''description'', AsIs), (''image'', ''image'', AsIs),
        (''amount'', ''amount'', ToBig), (''debtor'', ''debtor'', AsIs),
        (''dueDate'', (if js_prop raw ''due_date'' \<noteq> JUndefined then ''due_date'' else ''dueDate''), ToNumber),
        (''status'', ''status'', AsIs), (''symbol'', ''symbol'', AsIs), (''decimals'', ''decimals'', ToNumber)] raw)"

definition getInvoiceCount :: "chain \<Rightarrow> js result" where
  "getInvoiceCount env = read_call env InvoiceC ''get_invoice_count'' [] as_number"

definition getMaxInvoiceAmount :: "chain \<Rightarrow> js result" where
  "getMaxInvoiceAmount env = read_call env InvoiceC ''get_max_invoice_amount'' [] as_number"

definition isInvoicePrivate :: "chain \<Rightarrow> int \<Rightarrow> js result" where
  "isInvoicePrivate env invoiceId = read_call env InvoiceC ''is_invoice_private'' [ScU64 invoiceId] as_bool"

section \<open>Pool contract\<close>

definition pool_config_fields :: "field list" where
  "pool_config_fields =
     [(''invoiceContract'', ''invoice_contract'', AsIs), (''admin'', ''admin'', AsIs), (''yieldBps'', ''yield_bps'', ToNumber),
      (''factoringFeeBps'', ''factoring_fee_bps'', ToNumberOr zero), (''compoundInterest'', ''compound_interest'', ToBool),
      (''proposedYieldBps'', ''proposed_yield_bps'', ToNumberOr zero), (''yieldProposalAt'', ''yield_proposal_at'', ToNumberOr zero),
      (''yieldTimelockSecs'', ''yield_timelock_secs'', ToNumberOr zero), (''maxSingleInvestorBps'', ''max_single_investor_bps'', ToNumberOr zero),
      (''maxWithdrawalQueueAgeDays'', ''max_withdrawal_queue_age_days'', ToNumberOr zero),
      (''maxWithdrawalQueueDepth'', ''max_withdrawal_queue_depth'', ToNumberOr zero)]"

definition getPoolConfig :: "chain \<Rightarrow> js result" where
  "getPoolConfig env = read_call env PoolC ''get_config'' [] (decode_object pool_config_fields)"

definition wait_estimate_fields :: "field list" where
  "wait_estimate_fields =
     [(''queuePosition'', ''queue_position'', ToNumberOr zero), (''capitalAhead'', ''capital_ahead'', ToBigOr zero),
      (''nearestInvoiceDueDate'', ''nearest_invoice_due_date'', ToNumberOr zero), (''estimatedWaitSecs'', ''estimated_wait_secs'', ToNumberOr zero)]"

definition estimateWithdrawalWait :: "chain \<Rightarrow> string \<Rightarrow> string \<Rightarrow> js result" where
  "estimateWithdrawalWait env investor token =
     read_call env SecondaryMarketC ''estimate_withdrawal_wait'' [ScAddress investor, ScAddress token] (decode_or_null (decode_object wait_estimate_fields))"

definition withdrawal_request_fields :: "field list" where
  "withdrawal_request_fields =
     [(''investor'', ''investor'', AsIs), (''token'', ''token'', AsIs), (''shares'', ''shares'', ToBigOr zero),
      (''requestedAt'', ''requested_at'', ToNumberOr zero), (''requestId'', ''request_id'', ToNumberOr zero)]"

definition getWithdrawalQueue :: "chain \<Rightarrow> string \<Rightarrow> js result" where
  "getWithdrawalQueue env token = read_call env PoolC ''get_withdrawal_queue'' [ScAddress token] (map_if_array (decode_object withdrawal_request_fields))"

definition forecast_fields :: "field list" where
  "forecast_fields = [(''day'', ''day'', ToNumberOr zero), (''projectedAvailable'', ''projected_available'', ToBigOr zero)]"

definition getLiquidityForecast :: "chain \<Rightarrow> string \<Rightarrow> int \<Rightarrow> js result" where
  "getLiquidityForecast env token horizonDays =
     read_call env SecondaryMarketC ''get_liquidity_forecast'' [ScAddress token, ScU32 horizonDays] (map_if_array (decode_object forecast_fields))"

definition listing_fields :: "field list" where
  "listing_fields =
     [(''listingId'', ''listing_id'', ToNumber), (''invoiceId'', ''invoice_id'', ToNumber), (''seller'', ''seller'', AsIs),
      (''token'', ''token'', AsIs), (''kind'', ''kind'', EnumTag), (''amountOrBps'', ''amount_or_bps'', ToBig), (''price'', ''price'', ToBig),
      (''createdAt'', ''created_at'', ToNumber), (''status'', ''status'', EnumTag)]"

definition listingFromRaw :: "js \<Rightarrow> js result" where
  "listingFromRaw = decode_object listing_fields"

definition getListing :: "chain \<Rightarrow> int \<Rightarrow> js result" where
  "getListing env listingId = read_call env SecondaryMarketC ''get_listing'' [ScU64 listingId] (decode_or_null listingFromRaw)"

definition listListingsForInvoice :: "chain \<Rightarrow> int \<Rightarrow> js result" where
  "listListingsForInvoice env invoiceId = read_call env SecondaryMarketC ''list_listings_for_invoice'' [ScU64 invoiceId] (map_if_array as_number)"

definition listListingsForInvestor :: "chain \<Rightarrow> string \<Rightarrow> js result" where
  "listListingsForInvestor env seller = read_call env SecondaryMarketC ''list_listings_for_investor'' [ScAddress seller] (map_if_array as_number)"

definition order_fields :: "field list" where
  "order_fields =
     [(''orderId'', ''order_id'', ToNumber), (''invoiceId'', ''invoice_id'', ToNumber), (''owner'', ''owner'', AsIs), (''token'', ''token'', AsIs),
      (''kind'', ''kind'', EnumTag), (''side'', ''side'', EnumTag), (''price'', ''price'', ToBig), (''amountOrBps'', ''amount_or_bps'', ToBig),
      (''remaining'', ''remaining'', ToBig), (''createdAt'', ''created_at'', ToNumber), (''expiresAt'', ''expires_at'', ToNumber),
      (''status'', ''status'', EnumTag)]"

definition orderFromRaw :: "js \<Rightarrow> js result" where
  "orderFromRaw = decode_object order_fields"

definition getOrder :: "chain \<Rightarrow> int \<Rightarrow> js result" where
  "getOrder env orderId = read_call env SecondaryMarketC ''get_order'' [ScU64 orderId] (decode_or_null orderFromRaw)"

definition getOrderBook :: "chain \<Rightarrow> int \<Rightarrow> string \<Rightarrow> js result" where
  "getOrderBook env invoiceId kind = read_call env SecondaryMarketC ''get_order_book'' [ScU64 invoiceId, listingKindToScVal kind]
     (\<lambda>raw. case raw of
        JArr xs \<Rightarrow> then_result (map_or_empty as_number (elem_at xs 0)) (\<lambda>bids.
                   then_result (map_or_empty as_number (elem_at xs 1)) (\<lambda>asks. Inr (JObj [(''bidIds'', bids), (''askIds'', asks)])))
      | _ \<Rightarrow> Inr (JObj [(''bidIds'', JArr []), (''askIds'', JArr [])]))"

definition listOrdersForOwner :: "chain \<Rightarrow> string \<Rightarrow> js result" where
  "listOrdersForOwner env owner = read_call env SecondaryMarketC ''list_orders_for_owner'' [ScAddress owner] (map_if_array as_number)"

definition getAcceptedTokens :: "chain \<Rightarrow> js result" where
  "getAcceptedTokens env = read_call env PoolC ''accepted_tokens'' [] (\<lambda>raw. Inr (case raw of JArr xs \<Rightarrow> raw | _ \<Rightarrow> JArr []))"

definition getAssetPrice :: "chain \<Rightarrow> string \<Rightarrow> js result" where
  "getAssetPrice env token = read_call env PoolC ''get_asset_price'' [ScAddress token] as_big"

definition token_totals_fields :: "field list" where
  "token_totals_fields =
     [(''totalDeposited'', ''pool_value'', ToBigRaw), (''totalDeployed'', ''total_deployed'', ToBigRaw),
      (''totalPaidOut'', ''total_paid_out'', ToBigRaw), (''totalFeeRevenue'', ''total_fee_revenue'', ToBigRawOr zero)]"

definition getPoolTokenTotals :: "chain \<Rightarrow> string \<Rightarrow> js result" where
  "getPoolTokenTotals env token = read_call env PoolC ''get_token_totals'' [ScAddress token] (decode_object token_totals_fields)"

definition getPoolBalance :: "chain \<Rightarrow> string \<Rightarrow> js result" where
  "getPoolBalance env token = read_call env PoolC ''get_pool_balance'' [ScAddress token] as_big0"

text \<open>Any failure, of the transport or of the contract, is answered with null.\<close>

definition getTreasuryAddress :: "chain \<Rightarrow> js" where
  "getTreasuryAddress env = (case simulateCall env PoolC ''get_treasury'' [] SIM_SOURCE of
      Inr (SimReturn v) \<Rightarrow> v | _ \<Rightarrow> JNull)"

definition getProtocolRevenue :: "chain \<Rightarrow> string \<Rightarrow> js result" where
  "getProtocolRevenue env token = read_call env PoolC ''get_protocol_revenue'' [ScAddress token] as_big0"

definition getTokenBalanceOf :: "chain \<Rightarrow> string \<Rightarrow> string \<Rightarrow> js result" where
  "getTokenBalanceOf env token addr = read_call env (TokenC token) ''balance'' [ScAddress addr] as_big0"

definition getTokenDepositCap :: "chain \<Rightarrow> string \<Rightarrow> js result" where
  "getTokenDepositCap env token = read_call env PoolC ''get_token_deposit_cap'' [ScAddress token] as_big0"

definition position_fields :: "field list" where
  "position_fields =
     [(''deposited'', ''deposited'', ToBigRaw), (''available'', ''available'', ToBigRaw), (''deployed'', ''deployed'', ToBigRaw),
      (''earned'', ''earned'', ToBigRaw), (''depositCount'', ''deposit_count'', ToNumber)]"

definition getInvestorPosition :: "chain \<Rightarrow> string \<Rightarrow> string \<Rightarrow> js result" where
  "getInvestorPosition env investor token =
     read_call env PoolC ''get_position'' [ScAddress investor, ScAddress token] (decode_or_null (decode_object position_fields))"

definition funded_invoice_fields :: "field list" where
  "funded_invoice_fields =
     [(''invoiceId'', ''invoice_id'', ToNumber), (''sme'', ''sme'', AsIs), (''token'', ''token'', AsIs), (''principal'', ''principal'', ToBigRaw),
      (''committed'', ''committed'', ToBigRaw), (''fundedAt'', ''funded_at'', ToNumber), (''factoringFee'', ''factoring_fee'', ToBigRawOr zero),
      (''dueDate'', ''due_date'', ToNumber), (''repaidAmount'', ''repaid_amount'', ToBigRawOr zero),
      (''coFundingRoundId'', ''co_funding_round_id'', NumberOrElse JUndefined)]"

definition getFundedInvoice :: "chain \<Rightarrow> int \<Rightarrow> js result" where
  "getFundedInvoice env invoiceId = read_call env PoolC ''get_funded_invoice'' [ScU64 invoiceId] (decode_or_null (decode_object funded_invoice_fields))"

definition co_funding_fields :: "field list" where
  "co_funding_fields =
     [(''invoiceId'', ''invoice_id'', ToNumber), (''token'', ''token'', AsIs), (''sme'', ''sme'', AsIs), (''dueDate'', ''due_date'', ToNumber),
      (''targetPrincipal'', ''target_principal'', ToBig), (''committedPrincipal'', ''committed_principal'', ToBig),
      (''fundingDeadline'', ''funding_deadline'', ToNumber), (''status'', ''status'', AsIs), (''minCommitment'', ''min_commitment'', ToBig),
      (''maxInvestorBps'', ''max_investor_bps'', ToNumber), (''participants'', ''participants'', AsIsOr (JArr []))]"

definition coFundingRoundFromScVal :: "js \<Rightarrow> js result" where
  "coFundingRoundFromScVal = decode_object co_funding_fields"

definition getCoFundingRound :: "chain \<Rightarrow> int \<Rightarrow> js result" where
  "getCoFundingRound env invoiceId = read_call env PoolC ''get_co_funding_round'' [ScU64 invoiceId] (decode_or_null coFundingRoundFromScVal)"

definition listCoFundingRounds :: "chain \<Rightarrow> js result" where
  "listCoFundingRounds env = read_call env PoolC ''list_co_funding_rounds'' [] (map_or_empty as_number)"

definition getInvestorCoFundPositions :: "chain \<Rightarrow> string \<Rightarrow> js result" where
  "getInvestorCoFundPositions env investor = read_call env PoolC ''get_investor_co_fund_positions'' [ScAddress investor]
     (map_or_empty (\<lambda>pair. case pair of
        JArr xs \<Rightarrow> Inr (JObj [(''invoiceId'', JNum (to_Number (elem_at xs 0))), (''bps'', elem_at xs 1)])
      | _ \<Rightarrow> Inl (TypeError ''object is not iterable'')))"

definition getCoFundShare :: "chain \<Rightarrow> int \<Rightarrow> string \<Rightarrow> js result" where
  "getCoFundShare env invoiceId investor = read_call env PoolC ''get_co_fund_share'' [ScU64 invoiceId, ScAddress investor] as_number"

definition rate_model_fields :: "field list" where
  "rate_model_fields =
     [(''baseRateBps'', ''base_rate_bps'', ToNumberOr zero), (''optimalUtilizationBps'', ''optimal_utilization_bps'', ToNumberOr zero),
      (''slope1Bps'', ''slope1_bps'', ToNumberOr zero), (''slope2Bps'', ''slope2_bps'', ToNumberOr zero), (''maxRateBps'', ''max_rate_bps'', ToNumberOr zero)]"

definition rateModelConfigFromRaw :: "js \<Rightarrow> js result" where
  "rateModelConfigFromRaw = decode_object rate_model_fields"

definition getCurrentRate :: "chain \<Rightarrow> string \<Rightarrow> js result" where
  "getCurrentRate env token = read_or JNull env PoolC ''get_current_rate'' [ScAddress token] as_number"

definition getRateModelConfig :: "chain \<Rightarrow> string \<Rightarrow> js result" where
  "getRateModelConfig env token = read_or JNull env PoolC ''get_rate_model_config'' [ScAddress token] (decode_or_null rateModelConfigFromRaw)"

definition snapshot_fields :: "field list" where
  "snapshot_fields = [(''timestamp'', ''timestamp'', ToNumberOr zero), (''utilizationBps'', ''utilization_bps'', ToNumberOr zero), (''rateBps'', ''rate_bps'', ToNumberOr zero)]"

definition getRateHistory :: "chain \<Rightarrow> string \<Rightarrow> int \<Rightarrow> js result" where
  "getRateHistory env token limit = read_or (JArr []) env PoolC ''get_rate_history'' [ScAddress token, ScU32 limit] (map_if_array (decode_object snapshot_fields))"

definition previewRateAtUtilization :: "chain \<Rightarrow> string \<Rightarrow> int \<Rightarrow> js result" where
  "previewRateAtUtilization env token utilizationBps =
     read_or JNull env PoolC ''preview_rate_at_utilization'' [ScAddress token, ScU32 utilizationBps] as_number"

definition isProtocolPaused :: "chain \<Rightarrow> js result" where
  "isProtocolPaused env = read_call env InvoiceC ''is_paused'' [] as_bool"

definition getKycRequired :: "chain \<Rightarrow> js result" where
  "getKycRequired env = read_call env PoolC ''kyc_required'' [] as_bool"

definition getInvestorKyc :: "chain \<Rightarrow> string \<Rightarrow> js result" where
  "getInvestorKyc env investor = read_call env PoolC ''get_investor_kyc'' [ScAddress investor] as_bool"

definition getExchangeRate :: "chain \<Rightarrow> string \<Rightarrow> js result" where
  "getExchangeRate env token = read_call env PoolC ''get_exchange_rate'' [ScAddress token] as_number"

text \<open>The first token with a position wins; failures are passed over.\<close>

definition fetchInvestorPosition :: "chain \<Rightarrow> string \<Rightarrow> string \<Rightarrow> string \<Rightarrow> js" where
  "fetchInvestorPosition env USDC_TOKEN_ID EURC_TOKEN_ID investor =
     (let attempt = (\<lambda>token. if token = [] then JNull else (case getInvestorPosition env investor token of Inr v \<Rightarrow> v | Inl _ \<Rightarrow> JNull))
      in if js_truthy (attempt USDC_TOKEN_ID) then attempt USDC_TOKEN_ID
         else if js_truthy (attempt EURC_TOKEN_ID) then attempt EURC_TOKEN_ID
         else JNull)"

section \<open>Collateral and credit scores\<close>

definition collateral_config_fields :: "field list" where
  "collateral_config_fields = [(''threshold'', ''threshold'', ToBig), (''collateralBps'', ''collateral_bps'', ToNumber)]"

definition getCollateralConfig :: "chain \<Rightarrow> js result" where
  "getCollateralConfig env = read_call env PoolC ''get_collateral_config'' [] (decode_object collateral_config_fields)"

definition collateral_deposit_fields :: "field list" where
  "collateral_deposit_fields =
     [(''invoiceId'', ''invoice_id'', ToNumber), (''depositor'', ''depositor'', AsIs), (''token'', ''token'', AsIs), (''amount'', ''amount'', ToBig),
      (''settled'', ''settled'', ToBool), (''postedAt'', ''posted_at'', ToNumber), (''releasedAt'', ''released_at'', ToNumber),
      (''seizedAt'', ''seized_at'', ToNumber), (''collateralBpsAtDeposit'', ''collateral_bps_at_deposit'', ToNumber),
      (''thresholdAtDeposit'', ''threshold_at_deposit'', ToBig)]"

definition getCollateralDeposit :: "chain \<Rightarrow> int \<Rightarrow> js result" where
  "getCollateralDeposit env invoiceId = read_call env PoolC ''get_collateral_deposit'' [ScU64 invoiceId] (decode_or_null (decode_object collateral_deposit_fields))"

definition getAtRiskSince :: "chain \<Rightarrow> int \<Rightarrow> js result" where
  "getAtRiskSince env invoiceId = read_call env AuctionC ''get_at_risk_since'' [ScU64 invoiceId] (coerce (NumberOrElse JNull))"

definition getLiveCollateralRatio :: "chain \<Rightarrow> int \<Rightarrow> js result" where
  "getLiveCollateralRatio env invoiceId = read_call env AuctionC ''get_live_collateral_ratio'' [ScU64 invoiceId] as_number"

definition collateral_risk_fields :: "field list" where
  "collateral_risk_fields = [(''dangerBps'', ''danger_bps'', ToNumber), (''gracePeriodSecs'', ''grace_period_secs'', ToNumber)]"

definition getCollateralRiskConfig :: "chain \<Rightarrow> js result" where
  "getCollateralRiskConfig env = read_call env AuctionC ''get_collateral_risk_config'' [] (decode_object collateral_risk_fields)"

text \<open>A try block whose catch answers with a value.\<close>

definition or_value :: "'a result \<Rightarrow> 'a \<Rightarrow> 'a" where
  "or_value r d = (case r of Inr x \<Rightarrow> x | Inl _ \<Rightarrow> d)"

definition getCreditScoreStatus :: "chain \<Rightarrow> string \<Rightarrow> js" where
  "getCreditScoreStatus env sme =
     (if ch_id env CreditScoreC = [] then JNull
      else or_value (read_from env sme CreditScoreC ''get_credit_score'' [ScAddress sme] (\<lambda>raw. decode_object
        [(''isStale'', ''is_stale'', ToBool), (''score'', ''score'', ToNumber),
         (''finalScore'', ''final_score'', ToNumberOr (js_prop raw ''score'')),
         (''riskAdjustmentPts'', ''risk_adjustment_pts'', ToNumberOr zero), (''trendAdjustmentPts'', ''trend_adjustment_pts'', ToNumberOr zero)] raw)) JNull)"

definition attestation_fields :: "field list" where
  "attestation_fields =
     [(''id'', ''id'', ToNumber), (''sme'', ''sme'', AsIs), (''attestor'', ''attestor'', AsIs), (''attestationType'', ''attestation_type'', EnumTag),
      (''scoreContribution'', ''score_contribution'', ToNumber), (''evidenceHash'', ''evidence_hash'', AsIs), (''submittedAt'', ''submitted_at'', ToNumber),
      (''expiresAt'', ''expires_at'', ToNumber), (''status'', ''status'', EnumTag)]"

definition attestationFromScVal :: "js \<Rightarrow> js result" where
  "attestationFromScVal = decode_object attestation_fields"

definition attestor_fields :: "field list" where
  "attestor_fields =
     [(''address'', ''address'', AsIs), (''attestorType'', ''attestor_type'', EnumTag), (''isActive'', ''is_active'', ToBool),
      (''weightBps'', ''weight_bps'', ToNumber), (''registeredAt'', ''registered_at'', ToNumber)]"

definition attestorInfoFromScVal :: "js \<Rightarrow> js result" where
  "attestorInfoFromScVal = decode_object attestor_fields"

definition credit_score_fields :: "field list" where
  "credit_score_fields =
     [(''sme'', ''sme'', AsIs), (''score'', ''score'', ToNumber), (''totalInvoices'', ''total_invoices'', ToNumber), (''paidOnTime'', ''paid_on_time'', ToNumber),
      (''paidLate'', ''paid_late'', ToNumber), (''defaulted'', ''defaulted'', ToNumber), (''totalVolume'', ''total_volume'', ToBig),
      (''averagePaymentDays'', ''average_payment_days'', ToNumber), (''lastUpdated'', ''last_updated'', ToNumber), (''scoreVersion'', ''score_version'', ToNumber),
      (''configVersion'', ''config_version'', ToNumber), (''isStale'', ''is_stale'', ToBool), (''blendedScore'', ''blended_score'', ToNumber),
      (''riskAdjustmentPts'', ''risk_adjustment_pts'', ToNumber), (''trendAdjustmentPts'', ''trend_adjustment_pts'', ToNumber), (''finalScore'', ''final_score'', ToNumber)]"

definition fullCreditScoreFromScVal :: "js \<Rightarrow> js result" where
  "fullCreditScoreFromScVal = decode_object credit_score_fields"

definition getFullCreditScore :: "chain \<Rightarrow> string \<Rightarrow> js" where
  "getFullCreditScore env sme =
     (if ch_id env CreditScoreC = [] then JNull
      else or_value (read_from env sme CreditScoreC ''get_credit_score'' [ScAddress sme] fullCreditScoreFromScVal) JNull)"

definition getAttestation :: "chain \<Rightarrow> int \<Rightarrow> js result" where
  "getAttestation env attestationId = read_call env CreditScoreC ''get_attestation'' [ScU64 attestationId] (decode_or_null attestationFromScVal)"

definition listSmeAttestations :: "chain \<Rightarrow> string \<Rightarrow> js result" where
  "listSmeAttestations env sme = read_from env sme CreditScoreC ''list_sme_attestations'' [ScAddress sme] (map_or_empty attestationFromScVal)"

definition getAttestorInfo :: "chain \<Rightarrow> string \<Rightarrow> js result" where
  "getAttestorInfo env addr = read_from env addr CreditScoreC ''get_attestor_info'' [ScAddress addr] (decode_or_null attestorInfoFromScVal)"

definition listActiveAttestors :: "chain \<Rightarrow> js result" where
  "listActiveAttestors env = read_call env CreditScoreC ''list_active_attestors'' [] (map_or_empty attestorInfoFromScVal)"

definition simulateScoreWithAttestations :: "chain \<Rightarrow> string \<Rightarrow> (int \<times> int) list \<Rightarrow> js result" where
  "simulateScoreWithAttestations env sme hypothetical = read_from env sme CreditScoreC ''simulate_score_with_attestations''
     [ScAddress sme, ScVec (map (\<lambda>(weightBps, scoreContribution). ScVec [ScU32 weightBps, ScU32 scoreContribution]) hypothetical)] as_number"

section \<open>Governance and oracles\<close>

definition governance_config_fields :: "field list" where
  "governance_config_fields =
     [(''admin'', ''admin'', AsIs), (''shareToken'', ''share_token'', AsIs), (''votingPeriodSecs'', ''voting_period_secs'', ToNumber),
      (''quorumBps'', ''quorum_bps'', ToNumber), (''passBps'', ''pass_bps'', ToNumber), (''executionDelaySecs'', ''execution_delay_secs'', ToNumber),
      (''minShareBalance'', ''min_share_balance'', ToBigOr zero)]"

definition getGovernanceConfig :: "chain \<Rightarrow> js" where
  "getGovernanceConfig env =
     (if ch_id env GovernanceC = [] then JNull
      else or_value (read_call env GovernanceC ''get_config'' [] (decode_object governance_config_fields)) JNull)"

definition getShareBalance :: "chain \<Rightarrow> string \<Rightarrow> string \<Rightarrow> js" where
  "getShareBalance env shareTokenId addr = or_value (read_from env addr (TokenC shareTokenId) ''balance'' [ScAddress addr] as_big0) (JBigInt 0)"

definition proposal_fields :: "field list" where
  "proposal_fields =
     [(''id'', ''id'', ToNumber), (''proposer'', ''proposer'', AsIs), (''description'', ''description'', AsIs), (''targetContract'', ''target_contract'', AsIs),
      (''functionName'', ''function_name'', ToStr), (''calldata'', ''calldata'', ToStr), (''votesFor'', ''votes_for'', ToBig),
      (''votesAgainst'', ''votes_against'', ToBig), (''status'', ''status'', AsIs), (''createdAt'', ''created_at'', ToNumber),
      (''votingEndsAt'', ''voting_ends_at'', ToNumber), (''executionDelay'', ''execution_delay'', ToNumber)]"

definition listGovernanceProposals :: "chain \<Rightarrow> js result" where
  "listGovernanceProposals env =
     (if ch_id env GovernanceC = [] then Inr (JArr [])
      else read_call env GovernanceC ''list_proposals'' [] (js_map (decode_object proposal_fields)))"

definition registry_config_fields :: "field list" where
  "registry_config_fields =
     [(''minStake'', ''min_stake'', ToBig), (''stakeToken'', ''stake_token'', AsIs), (''requiredVotes'', ''required_votes'', ToNumber),
      (''quorumBps'', ''quorum_bps'', ToNumber), (''roundDurationSecs'', ''round_duration_secs'', ToNumber),
      (''deregisterCooldownSecs'', ''deregister_cooldown_secs'', ToNumber), (''treasury'', ''treasury'', AsIsOr JNull)]"

definition getRegistryConfig :: "chain \<Rightarrow> js result" where
  "getRegistryConfig env = read_call env OracleRegistryC ''get_registry_config'' [] (decode_object registry_config_fields)"

definition listActiveOracles :: "chain \<Rightarrow> js result" where
  "listActiveOracles env = read_call env OracleRegistryC ''list_active_oracles'' [] (coerce (AsIsOr (JArr [])))"

definition oracle_fields :: "field list" where
  "oracle_fields =
     [(''address'', ''address'', AsIs), (''stakeAmount'', ''stake_amount'', ToBig), (''stakeToken'', ''stake_token'', AsIs), (''isActive'', ''is_active'', ToBool),
      (''totalVerifications'', ''total_verifications'', ToNumber), (''totalSlashes'', ''total_slashes'', ToNumber), (''registeredAt'', ''registered_at'', ToNumber),
      (''deregisterRequestedAt'', ''deregister_requested_at'', NumberOrElse JNull)]"

definition getOracleInfo :: "chain \<Rightarrow> string \<Rightarrow> js result" where
  "getOracleInfo env operator = read_call env OracleRegistryC ''get_oracle_info'' [ScAddress operator] (decode_or_null (decode_object oracle_fields))"

definition round_fields :: "field list" where
  "round_fields =
     [(''invoiceId'', ''invoice_id'', ToNumber), (''requiredVotes'', ''required_votes'', ToNumber), (''totalRegisteredOracles'', ''total_registered_oracles'', ToNumber),
      (''weightFor'', ''weight_for'', ToBig), (''weightAgainst'', ''weight_against'', ToBig), (''totalStakeSnapshot'', ''total_stake_snapshot'', ToBig),
      (''quorumBps'', ''quorum_bps'', ToNumber), (''status'', ''status'', AsIs), (''openedAt'', ''opened_at'', ToNumber), (''deadline'', ''deadline'', ToNumber),
      (''oracleHash'', ''oracle_hash'', AsIs)]"

definition getVerificationRound :: "chain \<Rightarrow> int \<Rightarrow> js result" where
  "getVerificationRound env invoiceId = read_call env OracleRegistryC ''get_verification_round'' [ScU64 invoiceId] (decode_or_null (decode_object round_fields))"

section \<open>Arbitration\<close>

definition dispute_fields :: "field list" where
  "dispute_fields = [(''evidenceHash'', ''evidence_hash'', AsIs), (''filedAt'', ''filed_at'', ToNumber), (''resolvedAt'', ''resolved_at'', ToNumber), (''outcome'', ''outcome'', AsIs)]"

definition getDispute :: "chain \<Rightarrow> int \<Rightarrow> js result" where
  "getDispute env invoiceId = read_call env InvoiceC ''get_dispute'' [ScU64 invoiceId] (decode_or_null (decode_object dispute_fields))"

definition case_fields :: "field list" where
  "case_fields =
     [(''id'', ''id'', ToNumber), (''invoiceId'', ''invoice_id'', ToNumber), (''claimant'', ''claimant'', AsIs), (''respondent'', ''respondent'', AsIs),
      (''amount'', ''amount'', ToBig), (''openedAt'', ''opened_at'', ToNumber), (''evidenceDeadline'', ''evidence_deadline'', ToNumber),
      (''commitDeadline'', ''commit_deadline'', ToNumber), (''revealDeadline'', ''reveal_deadline'', ToNumber), (''jurors'', ''jurors'', AsIsOr (JArr [])),
      (''status'', ''status'', AsIs), (''resolution'', ''resolution'', AsIs), (''retryCount'', ''retry_count'', ToNumber)]"

definition decodeArbitrationCase :: "js \<Rightarrow> js result" where
  "decodeArbitrationCase = decode_object case_fields"

definition getArbitrationCase :: "chain \<Rightarrow> int \<Rightarrow> js result" where
  "getArbitrationCase env caseId = read_call env ArbitrationC ''get_case'' [ScU64 caseId] (decode_or_null decodeArbitrationCase)"

definition getArbitrationCaseByInvoice :: "chain \<Rightarrow> int \<Rightarrow> js result" where
  "getArbitrationCaseByInvoice env invoiceId = read_call env ArbitrationC ''get_case_by_invoice'' [ScU64 invoiceId] (decode_or_null decodeArbitrationCase)"

definition evidence_fields :: "field list" where
  "evidence_fields = [(''submitter'', ''submitter'', AsIs), (''party'', ''party'', AsIs), (''evidenceHash'', ''evidence_hash'', AsIs), (''submittedAt'', ''submitted_at'', ToNumber)]"

definition getArbitrationEvidence :: "chain \<Rightarrow> int \<Rightarrow> js result" where
  "getArbitrationEvidence env caseId = read_call env ArbitrationC ''get_evidence'' [ScU64 caseId] (map_or_empty (decode_object evidence_fields))"

definition juror_fields :: "field list" where
  "juror_fields =
     [(''address'', ''address'', AsIs), (''stakeAmount'', ''stake_amount'', ToBig), (''stakeToken'', ''stake_token'', AsIs), (''isActive'', ''is_active'', ToBool),
      (''casesServed'', ''cases_served'', ToNumber), (''timesSlashed'', ''times_slashed'', ToNumber), (''nonRevealStrikes'', ''non_reveal_strikes'', ToNumber),
      (''registeredAt'', ''registered_at'', ToNumber), (''deregisterRequestedAt'', ''deregister_requested_at'', NumberOrElse JNull)]"

definition getJurorInfo :: "chain \<Rightarrow> string \<Rightarrow> js result" where
  "getJurorInfo env operator = read_call env ArbitrationC ''get_juror'' [ScAddress operator] (decode_or_null (decode_object juror_fields))"

definition listActiveJurors :: "chain \<Rightarrow> js result" where
  "listActiveJurors env = read_call env ArbitrationC ''list_active_jurors'' [] (coerce (AsIsOr (JArr [])))"

definition getJurorCases :: "chain \<Rightarrow> string \<Rightarrow> js result" where
  "getJurorCases env operator = read_call env ArbitrationC ''get_juror_cases'' [ScAddress operator] (map_or_empty as_number)"

definition vote_status_fields :: "field list" where
  "vote_status_fields = [(''hasCommitted'', ''commit_hash'', IsPresent), (''revealedVote'', ''revealed_vote'', BoolOrElse JNull)]"

definition getJurorVoteStatus :: "chain \<Rightarrow> int \<Rightarrow> string \<Rightarrow> js result" where
  "getJurorVoteStatus env caseId juror = read_call env ArbitrationC ''get_vote'' [ScU64 caseId, ScAddress juror] (decode_or_null (decode_object vote_status_fields))"

definition arbitration_config_fields :: "field list" where
  "arbitration_config_fields =
     [(''minStake'', ''min_stake'', ToBig), (''stakeToken'', ''stake_token'', AsIs), (''committeeSize'', ''committee_size'', ToNumber),
      (''quorumFloor'', ''quorum_floor'', ToNumber), (''evidenceWindowSecs'', ''evidence_window_secs'', ToNumber), (''commitWindowSecs'', ''commit_window_secs'', ToNumber),
      (''revealWindowSecs'', ''reveal_window_secs'', ToNumber), (''deregisterCooldownSecs'', ''deregister_cooldown_secs'', ToNumber),
      (''slashBps'', ''slash_bps'', ToNumber), (''nonRevealSlashBps'', ''non_reveal_slash_bps'', ToNumber),
      (''lopsidedConfidenceBps'', ''lopsided_confidence_bps'', ToNumber), (''maxRetries'', ''max_retries'', ToNumber)]"

definition getArbitrationConfig :: "chain \<Rightarrow> js result" where
  "getArbitrationConfig env = read_call env ArbitrationC ''get_config'' [] (decode_object arbitration_config_fields)"

text \<open>The commitment to a vote; the digest is an argument.\<close>

definition computeArbitrationCommitHash :: "(nat list \<Rightarrow> nat list) \<Rightarrow> bool \<Rightarrow> nat list \<Rightarrow> nat list" where
  "computeArbitrationCommitHash sha256 choice salt = sha256 ((if choice then 1 else 0) # salt)"

section \<open>Compliance\<close>

definition requireComplianceContractId :: "chain \<Rightarrow> unit result" where
  "requireComplianceContractId env =
     (if ch_id env ComplianceC = [] then Inl (GenericError ''NEXT_PUBLIC_COMPLIANCE_CONTRACT_ID is not configured'') else Inr ())"

definition compliance_read :: "chain \<Rightarrow> string \<Rightarrow> sc_arg list \<Rightarrow> (js \<Rightarrow> js result) \<Rightarrow> js result" where
  "compliance_read env meth args f = then_result (requireComplianceContractId env) (\<lambda>_. read_call env ComplianceC meth args f)"

definition getComplianceIsCleared :: "chain \<Rightarrow> string \<Rightarrow> js result" where
  "getComplianceIsCleared env addr = compliance_read env ''is_cleared'' [ScAddress addr] as_bool"

definition screening_fields :: "field list" where
  "screening_fields =
     [(''status'', ''status'', AsIsOr (JStr ''Unscreened'')), (''reasonCode'', ''reason_code'', ToNumberOr zero),
      (''riskTier'', ''risk_tier'', AsIsOr (JStr ''Low'')), (''screenedAt'', ''screened_at'', ToNumberOr zero), (''screenedBy'', ''screened_by'', ToStrOr (JStr [])),
      (''expiresAt'', ''expires_at'', ToNumberOr zero), (''notesHash'', ''notes_hash'', ToStrOr (JStr []))]"

definition getComplianceRecord :: "chain \<Rightarrow> string \<Rightarrow> js result" where
  "getComplianceRecord env addr = compliance_read env ''get_compliance_record'' [ScAddress addr]
     (decode_or_null (decode_object ((''address'', ''address'', ToStrOr (JStr addr)) # screening_fields)))"

definition getComplianceHistory :: "chain \<Rightarrow> string \<Rightarrow> js result" where
  "getComplianceHistory env addr = compliance_read env ''get_screening_history'' [ScAddress addr]
     (map_or_empty (\<lambda>e. then_result (decode_object screening_fields e) (\<lambda>obj. case obj of
        JObj kvs \<Rightarrow> Inr (JObj ((''address'', JStr addr) # kvs)) | _ \<Rightarrow> Inr obj)))"

definition listComplianceFlagged :: "chain \<Rightarrow> js result" where
  "listComplianceFlagged env = compliance_read env ''list_flagged'' [] (coerce (AsIsOr (JArr [])))"

definition listCompliancePendingReview :: "chain \<Rightarrow> js result" where
  "listCompliancePendingReview env = compliance_read env ''list_pending_review'' [] (coerce (AsIsOr (JArr [])))"

text \<open>The alerts of the compliance service, with the token when one is configured; every failure is an empty list.\<close>

definition fetchComplianceServiceFlags :: "(string \<Rightarrow> (string \<times> string) list \<Rightarrow> (int \<times> js result) result) \<Rightarrow> string option \<Rightarrow> string option \<Rightarrow> js" where
  "fetchComplianceServiceFlags fetch url tok =
     (let base = (case url of Some u \<Rightarrow> u | None \<Rightarrow> ''http://localhost:8081''); token = (case tok of Some t \<Rightarrow> t | None \<Rightarrow> []) in
      case fetch (base @ ''/flags'') (if token = [] then [] else [(''x-admin-token'', token)]) of
        Inl _ \<Rightarrow> JArr []
      | Inr (status, body) \<Rightarrow>
          if \<not> (200 \<le> status \<and> status < 300) then JArr []
          else (case body of Inl _ \<Rightarrow> JArr [] | Inr b \<Rightarrow> if is_nullish b then JArr [] else js_coalesce (js_prop b ''alerts'') (JArr [])))"

section \<open>Referrals, tranches and insurance\<close>

definition truthy_or_null :: "js \<Rightarrow> js result" where
  "truthy_or_null raw = Inr (if js_truthy raw then raw else JNull)"

definition getReferrer :: "chain \<Rightarrow> string \<Rightarrow> js result" where
  "getReferrer env referee = read_call env ReferralC ''get_referrer'' [ScAddress referee] truthy_or_null"

definition referral_fields :: "field list" where
  "referral_fields = [(''referrer'', ''referrer'', AsIs), (''referralCount'', ''referral_count'', ToNumberOr zero)]"

definition getReferralStats :: "chain \<Rightarrow> string \<Rightarrow> js result" where
  "getReferralStats env referrer = read_call env ReferralC ''get_stats'' [ScAddress referrer] (decode_object referral_fields)"

definition accounting_fields :: "field list" where
  "accounting_fields =
     [(''deposited'', ''deposited'', ToBigOr zero), (''available'', ''available'', ToBigOr zero), (''deployed'', ''deployed'', ToBigOr zero),
      (''earned'', ''earned'', ToBigOr zero), (''losses'', ''losses'', ToBigOr zero)]"

definition accountingFromRaw :: "js \<Rightarrow> js result" where
  "accountingFromRaw = decode_object accounting_fields"

definition getTranchePool :: "chain \<Rightarrow> string \<Rightarrow> js result" where
  "getTranchePool env token = read_call env TrancheC ''get_pool'' [ScAddress token] (\<lambda>raw.
     if is_nullish raw then Inl (TypeError ''Cannot read properties of null'')
     else then_result (accountingFromRaw (js_prop raw ''senior'')) (\<lambda>senior.
          then_result (accountingFromRaw (js_prop raw ''junior'')) (\<lambda>junior.
          Inr (JObj [(''senior'', senior), (''junior'', junior), (''config'', js_prop raw ''config'')]))))"

definition tranche_position_fields :: "field list" where
  "tranche_position_fields =
     [(''deposited'', ''deposited'', ToBigOr zero), (''shares'', ''shares'', ToBigOr zero), (''earned'', ''earned'', ToBigOr zero), (''losses'', ''losses'', ToBigOr zero)]"

definition getTrancheInvestorPosition :: "chain \<Rightarrow> string \<Rightarrow> string \<Rightarrow> TrancheClass \<Rightarrow> js result" where
  "getTrancheInvestorPosition env investor token trancheClass =
     read_call env TrancheC ''get_position'' [ScAddress investor, ScAddress token, trancheClassToScVal trancheClass] (decode_object tranche_position_fields)"

definition tier_fields :: "field list" where
  "tier_fields = [(''min_score'', ''min_score'', ToNumber), (''max_score'', ''max_score'', ToNumber), (''risk_multiplier_bps'', ''risk_multiplier_bps'', ToNumber)]"

definition riskTierFromRaw :: "js \<Rightarrow> js result" where
  "riskTierFromRaw = decode_object tier_fields"

definition premiumConfigFromRaw :: "js \<Rightarrow> js result" where
  "premiumConfigFromRaw raw =
     (if is_nullish raw then Inl (TypeError ''Cannot read properties of undefined'')
      else then_result (map_or_empty riskTierFromRaw (js_prop raw ''risk_tiers'')) (\<lambda>tiers.
        Inr (JObj [(''base_rate_bps'', JNum (to_Number (js_prop raw ''base_rate_bps''))), (''tenor_bps_per_day'', JNum (to_Number (js_prop raw ''tenor_bps_per_day''))),
          (''risk_tiers'', tiers), (''default_risk_multiplier_bps'', JNum (to_Number (js_prop raw ''default_risk_multiplier_bps''))),
          (''min_premium_bps'', JNum (to_Number (js_prop raw ''min_premium_bps''))), (''max_premium_bps'', JNum (to_Number (js_prop raw ''max_premium_bps''))),
          (''default_coverage_bps'', JNum (to_Number (js_prop raw ''default_coverage_bps'')))])))"

definition reserve_fields :: "field list" where
  "reserve_fields =
     [(''total_reserves'', ''total_reserves'', ToBigOr zero), (''total_premiums_collected'', ''total_premiums_collected'', ToBigOr zero),
      (''total_claims_paid'', ''total_claims_paid'', ToBigOr zero), (''total_covered_exposure'', ''total_covered_exposure'', ToBigOr zero),
      (''coverage_ratio_bps'', ''coverage_ratio_bps'', ToNumber), (''min_coverage_ratio_bps'', ''min_coverage_ratio_bps'', ToNumber)]"

definition reserveFundFromRaw :: "js \<Rightarrow> js result" where
  "reserveFundFromRaw = decode_object reserve_fields"

definition coverage_fields :: "field list" where
  "coverage_fields =
     [(''invoice_id'', ''invoice_id'', ToBig), (''token'', ''token'', AsIs), (''principal'', ''principal'', ToBig), (''premium_paid'', ''premium_paid'', ToBig),
      (''coverage_bps'', ''coverage_bps'', ToNumber), (''purchased_at'', ''purchased_at'', ToBig), (''claimed'', ''claimed'', ToBool)]"

definition coverageRecordFromRaw :: "js \<Rightarrow> js result" where
  "coverageRecordFromRaw = decode_object coverage_fields"

definition claim_fields :: "field list" where
  "claim_fields =
     [(''invoice_id'', ''invoice_id'', ToBig), (''token'', ''token'', AsIs), (''payout'', ''payout'', ToBig), (''shortfalls'', ''shortfalls'', ToBig), (''timestamp'', ''timestamp'', ToBig)]"

definition claimHistoryItemFromRaw :: "js \<Rightarrow> js result" where
  "claimHistoryItemFromRaw = decode_object claim_fields"

definition reserve_health_fields :: "field list" where
  "reserve_health_fields =
     [(''token'', ''token'', AsIs), (''total_reserves'', ''total_reserves'', ToBigOr zero), (''coverage_ratio_bps'', ''coverage_ratio_bps'', ToNumber),
      (''min_reserve_amount'', ''min_reserve_amount'', ToBigOr zero), (''is_healthy'', ''is_healthy'', ToBool), (''needs_top_up'', ''needs_top_up'', ToBool)]"

definition reserveHealthFromRaw :: "js \<Rightarrow> js result" where
  "reserveHealthFromRaw = decode_object reserve_health_fields"

definition estimateInsurancePremium :: "chain \<Rightarrow> int \<Rightarrow> string \<Rightarrow> int \<Rightarrow> string \<Rightarrow> js result" where
  "estimateInsurancePremium env principalAmount sme tenorDays token =
     read_call env InsuranceC ''estimate_premium'' [ScI128 principalAmount, ScAddress sme, ScU32 tenorDays, ScAddress token] as_big"

definition getCoverageRecord :: "chain \<Rightarrow> int \<Rightarrow> js result" where
  "getCoverageRecord env invoiceId = read_call env InsuranceC ''get_coverage_record'' [ScU64 invoiceId] (decode_or_null coverageRecordFromRaw)"

definition getClaimHistory :: "chain \<Rightarrow> int \<Rightarrow> js result" where
  "getClaimHistory env invoiceId = read_call env InsuranceC ''get_claim_history'' [ScU64 invoiceId] (map_or_empty claimHistoryItemFromRaw)"

definition getReserveStatus :: "chain \<Rightarrow> string \<Rightarrow> js result" where
  "getReserveStatus env token = read_call env InsuranceC ''get_reserve_status'' [ScAddress token] reserveFundFromRaw"

definition checkReserveHealth :: "chain \<Rightarrow> string \<Rightarrow> js result" where
  "checkReserveHealth env token = read_call env InsuranceC ''check_reserve_health'' [ScAddress token] reserveHealthFromRaw"

definition getPremiumConfig :: "chain \<Rightarrow> js result" where
  "getPremiumConfig env = read_call env InsuranceC ''get_premium_config'' [] (decode_or_null premiumConfigFromRaw)"

definition getMinReserveAmount :: "chain \<Rightarrow> string \<Rightarrow> js result" where
  "getMinReserveAmount env token = read_call env InsuranceC ''get_min_reserve_amount'' [ScAddress token] as_big"

definition getInsuranceContractLink :: "chain \<Rightarrow> js result" where
  "getInsuranceContractLink env = read_call env PoolC ''get_insurance_contract'' [] truthy_or_null"

section \<open>Access control\<close>

definition actionPayloadFromNative :: "js \<Rightarrow> js result" where
  "actionPayloadFromNative raw = (case raw of
      JArr xs \<Rightarrow> Inr (JObj [(''tag'', elem_at xs 0), (''values'', JArr (drop 1 xs))])
    | _ \<Rightarrow> Inl (TypeError ''object is not iterable''))"

definition proposalFromScVal :: "js \<Rightarrow> js result" where
  "proposalFromScVal raw = then_result (actionPayloadFromNative (js_prop raw ''action'')) (\<lambda>action.
     Inr (JObj [(''role'', enumTagFromNative (js_prop raw ''role'')), (''target'', js_prop raw ''target''), (''action'', action),
       (''proposer'', js_prop raw ''proposer''), (''approvals'', js_coalesce (js_prop raw ''approvals'') (JArr [])),
       (''createdAt'', JNum (to_Number (js_coalesce (js_prop raw ''created_at'') zero))),
       (''expiresAt'', JNum (to_Number (js_coalesce (js_prop raw ''expires_at'') zero))),
       (''status'', enumTagFromNative (js_prop raw ''status''))]))"

definition role_config_fields :: "field list" where
  "role_config_fields = [(''signers'', ''signers'', AsIsOr (JArr [])), (''threshold'', ''threshold'', ToNumberOr zero)]"

definition getRoleConfig :: "chain \<Rightarrow> string \<Rightarrow> js result" where
  "getRoleConfig env role = read_call env AccessControlC ''get_role_config'' [roleToScVal role] (decode_or_null (decode_object role_config_fields))"

definition ALL_ROLES :: "string list" where
  "ALL_ROLES = [''SuperAdmin'', ''RiskManager'', ''TreasuryManager'', ''ComplianceOfficer'', ''OracleManager'']"

fun role_configs :: "chain \<Rightarrow> string list \<Rightarrow> (string \<times> js) list result" where
  "role_configs env [] = Inr []"
| "role_configs env (role # rs) = then_result (getRoleConfig env role) (\<lambda>c. then_result (role_configs env rs) (\<lambda>cs. Inr ((role, c) # cs)))"

definition listAllRoleConfigs :: "chain \<Rightarrow> js result" where
  "listAllRoleConfigs env = then_result (role_configs env ALL_ROLES) (\<lambda>entries. Inr (JObj entries))"

definition isRoleSigner :: "chain \<Rightarrow> string \<Rightarrow> string \<Rightarrow> js result" where
  "isRoleSigner env role addr = read_call env AccessControlC ''is_signer'' [roleToScVal role, ScAddress addr] as_bool"

definition getProposal :: "chain \<Rightarrow> int \<Rightarrow> js result" where
  "getProposal env proposalId = read_call env AccessControlC ''get_proposal'' [ScU64 proposalId] (decode_or_null proposalFromScVal)"

definition getNextProposalId :: "chain \<Rightarrow> js result" where
  "getNextProposalId env = read_call env AccessControlC ''get_next_proposal_id'' [] as_number"

text \<open>The loop counts ids from zero up to the next one; a missing proposal is left out, a failure ends it.\<close>

fun list_proposals :: "chain \<Rightarrow> nat list \<Rightarrow> js list result" where
  "list_proposals env [] = Inr []"
| "list_proposals env (i # ids) = then_result (getProposal env (int i)) (\<lambda>p. then_result (list_proposals env ids) (\<lambda>ps.
     Inr (if js_truthy p then JObj [(''id'', JNum (NInt (int i))), (''proposal'', p)] # ps else ps)))"

definition listProposals :: "chain \<Rightarrow> js result" where
  "listProposals env =
     (if ch_id env AccessControlC = [] then Inr (JArr [])
      else then_result (getNextProposalId env) (\<lambda>n. then_result (list_proposals env [0..<nat \<lceil>num_val (to_Number n)\<rceil>]) (\<lambda>ps. Inr (JArr ps))))"

section \<open>Error texts\<close>

definition CONTRACT_ERROR_MESSAGES :: "(string \<times> string) list" where
  "CONTRACT_ERROR_MESSAGES =
     [(''already initialized'', ''This contract has already been set up.''),
      (''not initialized'', ''The contract is not yet configured. Please contact support.''),
      (''unauthorized'', ''You are not authorised to perform this action.''),
      (''unauthorized pool'', ''The pool contract is not authorised for this invoice.''),
      (''amount must be positive'', ''Amount must be greater than zero.''),
      (''due date must be in the future'', ''The due date must be a future date.''),
      (''invoice not found'', ''Invoice not found. Please check the invoice ID.''),
      (''invoice is not pending'', ''This invoice is not in a pending state.''),
      (''invoice is not funded'', ''This invoice has not been funded yet.''),
      (''contract is paused'', ''The contract is currently paused. Please try again later.''),
      (''token not accepted'', ''This token is not supported by the pool.''),
      (''insufficient available liquidity'', ''The pool does not have enough liquidity for this invoice.''),
      (''invoice already funded'', ''This invoice has already been funded.''),
      (''invoice already fully repaid'', ''This invoice has already been fully repaid.''),
      (''payment exceeds total due'', ''The payment amount exceeds the total amount owed.''),
      (''shares must be positive'', ''Share amount must be greater than zero.''),
      (''insufficient shares'', ''You do not have enough shares to withdraw that amount.''),
      (''yield cannot exceed 50%'', ''Yield rate cannot exceed 50% APY.''),
      (''invoice already processed'', ''This invoice has already been recorded in the credit score.'')]"

definition getContractErrorMessage :: "string \<Rightarrow> string" where
  "getContractErrorMessage raw = (case find (\<lambda>(key, friendly). str_includes (toLowerCase raw) key) CONTRACT_ERROR_MESSAGES of
      Some (key, friendly) \<Rightarrow> friendly | None \<Rightarrow> raw)"

text \<open>\<open>replace(/([a-z])([A-Z])/g, '$1 $2')\<close>.\<close>

definition is_lower :: "char \<Rightarrow> bool" where "is_lower c = (97 \<le> (of_char c :: nat) \<and> (of_char c :: nat) \<le> 122)"
definition is_upper :: "char \<Rightarrow> bool" where "is_upper c = (65 \<le> (of_char c :: nat) \<and> (of_char c :: nat) \<le> 90)"

fun split_words :: "string \<Rightarrow> string" where
  "split_words (c # d # s) = (if is_lower c \<and> is_upper d then c # CHR '' '' # d # split_words s else c # split_words (d # s))"
| "split_words s = s"

definition getContractErrorByCode :: "(int \<times> string) list \<Rightarrow> string \<Rightarrow> int \<Rightarrow> string" where
  "getContractErrorByCode errorMap contractName code = (case map_of errorMap code of
      None \<Rightarrow> ''Unknown '' @ contractName @ '' error (#'' @ show_int code @ '').''
    | Some [] \<Rightarrow> ''Unknown '' @ contractName @ '' error (#'' @ show_int code @ '').''
    | Some variant \<Rightarrow> (let friendly = getContractErrorMessage (split_words variant) in if friendly = split_words variant then variant else friendly))"

end
