(* ===== verification/ContractTyping.thy ===== *)
theory ContractTyping
  imports ContractTxs
begin

text \<open>
  Whether the transactions of the frontend fit the contracts they call.  The host refuses a call of
  a function the contract does not export, a call with the wrong number of arguments, and an
  argument of the wrong type, before any code of the contract runs.  \<open>typed_chain\<close> is a network
  that refuses exactly these and answers everything else as before; a builder is \<open>accepted\<close> when it
  cannot tell the two apart.
\<close>

section \<open>A network that checks interfaces\<close>

definition host_refusal :: js where
  "host_refusal = JObj [(''error'', JStr ''HostError: Error(WasmVm, InvalidAction)'')]"

definition typed_chain :: "chain \<Rightarrow> chain" where
  "typed_chain env = env\<lparr>ch_simulate := (\<lambda>source c meth args.
     if call_ok c meth args then ch_simulate env source c meth args else Inr (SimFailure host_refusal))\<rparr>"

definition accepted :: "chain \<Rightarrow> (chain \<Rightarrow> 'a result) \<Rightarrow> bool" where
  "accepted env f = (f (typed_chain env) = f env)"

definition refused :: "chain \<Rightarrow> (chain \<Rightarrow> 'a result) \<Rightarrow> bool" where
  "refused env f = (\<exists>e. f (typed_chain env) = Inl e)"

lemma typed_chain_sel [simp]:
  "ch_id (typed_chain env) = ch_id env" "ch_account (typed_chain env) = ch_account env"
  "ch_encode (typed_chain env) = ch_encode env" "ch_assemble (typed_chain env) = ch_assemble env"
  "ch_now (typed_chain env) = ch_now env"
  "ch_simulate (typed_chain env) source c meth args
     = (if call_ok c meth args then ch_simulate env source c meth args else Inr (SimFailure host_refusal))"
  by (simp_all add: typed_chain_def)

lemma typed_build_op: "call_ok c meth args \<Longrightarrow> build_op (typed_chain env) failed source c meth args = build_op env failed source c meth args"
  by (simp add: build_op_def split: option.split sum.split sim_answer.split)

lemma typed_build_tx: "call_ok c meth args \<Longrightarrow> build_tx (typed_chain env) source c meth args = build_tx env source c meth args"
  by (simp add: build_tx_def typed_build_op split: sum.split)

lemma typed_build_funded_tx:
  "call_ok c meth args \<Longrightarrow> build_funded_tx (typed_chain env) source c meth args = build_funded_tx env source c meth args"
  by (simp add: build_funded_tx_def typed_build_op split: sum.split)

lemma refused_build_op: "\<not> call_ok c meth args \<Longrightarrow> \<exists>e. build_op (typed_chain env) failed source c meth args = Inl e"
  by (simp add: build_op_def split: option.splits)

lemma refused_build_tx: "\<not> call_ok c meth args \<Longrightarrow> \<exists>e. build_tx (typed_chain env) source c meth args = Inl e"
  using refused_build_op [of c meth args] by (simp add: build_tx_def split: sum.splits)

lemma refused_build_funded_tx: "\<not> call_ok c meth args \<Longrightarrow> \<exists>e. build_funded_tx (typed_chain env) source c meth args = Inl e"
  using refused_build_op [of c meth args] by (simp add: build_funded_tx_def split: sum.splits)

lemmas typed_builds = accepted_def typed_build_op typed_build_tx typed_build_funded_tx

section \<open>The calls of each contract\<close>

text \<open>Values of the types' ranges, and the structs whose numbers are all in range.\<close>

definition ranged :: "int \<Rightarrow> int \<Rightarrow> int \<Rightarrow> int \<Rightarrow> int \<Rightarrow> int \<Rightarrow> int \<Rightarrow> bool" where
  "ranged i j k m n x y = (in_u 64 i \<and> in_u 64 j \<and> in_u 64 k \<and> in_u 32 m \<and> in_u 32 n \<and> in_i 128 x \<and> in_i 128 y)"

definition rate_ranged :: "rate_config \<Rightarrow> bool" where
  "rate_ranged c = (in_u 32 (rc_baseRateBps c) \<and> in_u 32 (rc_optimalUtilizationBps c) \<and> in_u 32 (rc_slope1Bps c)
     \<and> in_u 32 (rc_slope2Bps c) \<and> in_u 32 (rc_maxRateBps c))"

definition tier_ranged :: "InsuranceRiskTier \<Rightarrow> bool" where
  "tier_ranged t = (in_u 32 (rt_min_score t) \<and> in_u 32 (rt_max_score t) \<and> in_u 32 (rt_risk_multiplier_bps t))"

definition premium_ranged :: "premium_config \<Rightarrow> bool" where
  "premium_ranged c = (in_u 32 (pc_base_rate_bps c) \<and> in_u 32 (pc_tenor_bps_per_day c) \<and> in_u 32 (pc_default_risk_multiplier_bps c)
     \<and> in_u 32 (pc_min_premium_bps c) \<and> in_u 32 (pc_max_premium_bps c) \<and> in_u 32 (pc_default_coverage_bps c)
     \<and> (\<forall>t \<in> set (pc_risk_tiers c). tier_ranged t))"

lemma in_u_zero [simp]: "in_u w 0"
  by (simp add: in_u_def)

lemma conforms_all_map: "(\<And>x. x \<in> set xs \<Longrightarrow> conforms D (f x) t) \<Longrightarrow> conforms_all D (map f xs) (replicate (length xs) t)"
  by (induction xs) auto

lemma risk_tiers_conform: "\<forall>t \<in> set tiers. tier_ranged t \<Longrightarrow>
    conforms_all insurance_types (map riskTierToScVal tiers) (replicate (length tiers) (TNamed ''RiskTier''))"
  by (rule conforms_all_map) (auto simp: riskTierToScVal_def tier_ranged_def call_simps)

lemma secondary_market_accepted:
  assumes "ranged i j k m n x y" "kind \<in> {''CoFunding'', ''SingleFunded''}" "side \<in> {''Bid'', ''Ask''}" "case expiry of Some t \<Rightarrow> in_u 64 t | None \<Rightarrow> True"
  shows "accepted env (\<lambda>e. buildListPositionTx e a i kind j x)"
    "accepted env (\<lambda>e. buildCancelListingTx e a i)"
    "accepted env (\<lambda>e. buildBuyListingTx e a i)"
    "accepted env (\<lambda>e. buildPlaceOrderTx e a i kind side j x expiry)"
    "accepted env (\<lambda>e. buildCancelOrderTx e a i)"
    "accepted env (\<lambda>e. buildExpireOrderTx e a i)"
  using assms
  by (auto simp: typed_builds ranged_def call_simps buildListPositionTx_def buildCancelListingTx_def buildBuyListingTx_def buildPlaceOrderTx_def buildCancelOrderTx_def buildExpireOrderTx_def listingKindToScVal_def orderSideToScVal_def placeOrderRequestToScVal_def  split: option.splits sum.splits)

lemma pool_accepted:
  assumes "ranged i j k m n x y" "rate_ranged rate"
  shows "accepted env (\<lambda>e. buildClaimYieldTx e a b)"
    "accepted env (\<lambda>e. buildOpenCoFundingTx e a i b x c j k y m)"
    "accepted env (\<lambda>e. buildCommitToInvoiceTx e a i x)"
    "accepted env (\<lambda>e. buildFinalizeCoFundingTx e a i)"
    "accepted env (\<lambda>e. buildWithdrawCoFundingCommitmentTx e a i)"
    "accepted env (\<lambda>e. buildCancelCoFundingRoundTx e a i)"
    "accepted env (\<lambda>e. buildTransferCoFundShareTx e a i b c m)"
    "accepted env (\<lambda>e. buildRepayTx e a i x)"
    "accepted env (\<lambda>e. buildWithdrawTx e a b x)"
    "accepted env (\<lambda>e. buildRequestWithdrawalTx e a b x)"
    "accepted env (\<lambda>e. buildCancelWithdrawalRequestTx e a b)"
    "accepted env (\<lambda>e. buildDrainWithdrawalQueueTx e a b)"
    "accepted env (\<lambda>e. buildSetYieldTx e a m)"
    "accepted env (\<lambda>e. buildProposeRateModelTx e a b rate)"
    "accepted env (\<lambda>e. buildExecuteRateModelTx e a b)"
    "accepted env (\<lambda>e. buildCancelRateModelTx e a b)"
    "accepted env (\<lambda>e. buildSetFactoringFeeTx e a m)"
    "accepted env (\<lambda>e. buildSetKycRequiredTx e a p)"
    "accepted env (\<lambda>e. buildSetInvestorKycTx e a b p)"
    "accepted env (\<lambda>e. buildSetExchangeRateTx e a b m)"
    "accepted env (\<lambda>e. buildDepositCollateralTx e i a b x)"
    "accepted env (\<lambda>e. buildTopUpCollateralTx e i a b x)"
    "accepted env (\<lambda>e. buildSetInsuranceContractTx e a b)"
  using assms
  by (auto simp: typed_builds ranged_def call_simps buildClaimYieldTx_def buildOpenCoFundingTx_def buildCommitToInvoiceTx_def buildFinalizeCoFundingTx_def buildWithdrawCoFundingCommitmentTx_def buildCancelCoFundingRoundTx_def buildTransferCoFundShareTx_def buildRepayTx_def buildWithdrawTx_def buildRequestWithdrawalTx_def buildCancelWithdrawalRequestTx_def buildDrainWithdrawalQueueTx_def buildSetYieldTx_def buildProposeRateModelTx_def buildExecuteRateModelTx_def buildCancelRateModelTx_def buildSetFactoringFeeTx_def buildSetKycRequiredTx_def buildSetInvestorKycTx_def buildSetExchangeRateTx_def buildDepositCollateralTx_def buildTopUpCollateralTx_def buildSetInsuranceContractTx_def rateModelConfigToScVal_def rate_ranged_def openCoFundingRequestToScVal_def split: option.splits sum.splits)

lemma invoice_accepted:
  assumes "ranged i j k m n x y" 
  shows "accepted env (\<lambda>e. buildMarkDefaultedTx e a i)"
    "accepted env (\<lambda>e. buildPauseProtocolTx e a)"
    "accepted env (\<lambda>e. buildUnpauseProtocolTx e a)"
    "accepted env (\<lambda>e. buildDisputeTx e a i s h)"
    "accepted env (\<lambda>e. buildSetInvoicePrivateTx e a i p)"
    "accepted env (\<lambda>e. buildRaiseDisputeTx e a i s b)"
  using assms
  by (auto simp: typed_builds ranged_def call_simps buildMarkDefaultedTx_def buildPauseProtocolTx_def buildUnpauseProtocolTx_def buildDisputeTx_def buildSetInvoicePrivateTx_def buildRaiseDisputeTx_def  split: option.splits sum.splits)

lemma auction_accepted:
  assumes "ranged i j k m n x y" 
  shows "accepted env (\<lambda>e. buildCheckCollateralRiskTx e i a)"
    "accepted env (\<lambda>e. buildLiquidateCollateralTx e i a)"
  using assms
  by (auto simp: typed_builds ranged_def call_simps buildCheckCollateralRiskTx_def buildLiquidateCollateralTx_def  split: option.splits sum.splits)

lemma credit_score_accepted:
  assumes "ranged i j k m n x y" "atype \<in> {''BusinessRegistry'', ''CreditBureau'', ''ExternalProtocol'', ''Manual''}"
  shows "accepted env (\<lambda>e. buildRegisterAttestorTx e a b atype m)"
    "accepted env (\<lambda>e. buildDeactivateAttestorTx e a b)"
    "accepted env (\<lambda>e. buildSubmitAttestationTx e a b atype m s i)"
    "accepted env (\<lambda>e. buildDisputeAttestationTx e a i s)"
    "accepted env (\<lambda>e. buildResolveAttestationDisputeTx e a i p)"
  using assms
  by (auto simp: typed_builds ranged_def call_simps buildRegisterAttestorTx_def buildDeactivateAttestorTx_def buildSubmitAttestationTx_def buildDisputeAttestationTx_def buildResolveAttestationDisputeTx_def attestorTypeToScVal_def split: option.splits sum.splits)

lemma arbitration_accepted:
  assumes "ranged i j k m n x y" "length hash = 32" "resolution \<in> {''InFavorOfSME'', ''InFavorOfDebtor''}"
  shows "accepted env (\<lambda>e. buildSubmitEvidenceTx e a i s)"
    "accepted env (\<lambda>e. buildRegisterJurorTx e a x)"
    "accepted env (\<lambda>e. buildDeregisterJurorTx e a)"
    "accepted env (\<lambda>e. buildSelectJurorsTx e a i)"
    "accepted env (\<lambda>e. buildCommitVoteTx e a i hash)"
    "accepted env (\<lambda>e. buildRevealVoteTx e a i p hash)"
    "accepted env (\<lambda>e. buildFinalizeCaseTx e a i)"
    "accepted env (\<lambda>e. buildAdminResolveNoQuorumTx e a i resolution)"
  using assms
  by (auto simp: typed_builds ranged_def call_simps buildSubmitEvidenceTx_def buildRegisterJurorTx_def buildDeregisterJurorTx_def buildSelectJurorsTx_def buildCommitVoteTx_def buildRevealVoteTx_def buildFinalizeCaseTx_def buildAdminResolveNoQuorumTx_def   split: option.splits sum.splits)

lemma insurance_accepted:
  assumes "ranged i j k m n x y" "premium_ranged premium"
  shows "accepted env (\<lambda>e. buildPurchaseCoverageTx e a i x b j c)"
    "accepted env (\<lambda>e. buildSetPremiumConfigTx e a premium)"
    "accepted env (\<lambda>e. buildSetMinCoverageRatioTx e a b m)"
    "accepted env (\<lambda>e. buildSetMinReserveAmountTx e a b x)"
    "accepted env (\<lambda>e. buildFundReserveFromTreasuryTx e a b x)"
  using assms
  by (auto simp: typed_builds ranged_def call_simps buildPurchaseCoverageTx_def buildSetPremiumConfigTx_def buildSetMinCoverageRatioTx_def buildSetMinReserveAmountTx_def buildFundReserveFromTreasuryTx_def premiumConfigToScVal_def premium_ranged_def risk_tiers_conform split: option.splits sum.splits)

lemma access_control_accepted:
  assumes "ranged i j k m n x y" 
  shows "accepted env (\<lambda>e. buildExecuteActionTx e a i)"
    "accepted env (\<lambda>e. buildApproveActionTx e a i)"
    "accepted env (\<lambda>e. buildRejectActionTx e a i)"
    "accepted env (\<lambda>e. buildRevokeApprovalTx e a i)"
  using assms
  by (auto simp: typed_builds ranged_def call_simps buildExecuteActionTx_def buildApproveActionTx_def buildRejectActionTx_def buildRevokeApprovalTx_def  buildSignerOnlyActionTx_def split: option.splits sum.splits)

lemma other_accepted:
  assumes "ranged i j k m n x y" "status \<in> {''Unscreened'', ''Cleared'', ''Flagged'', ''Blocked'', ''PendingReview''}" "tier \<in> {''Low'', ''Medium'', ''High''}"
  shows "accepted env (\<lambda>e. buildExecuteProposalTx e a i)"
    "accepted env (\<lambda>e. buildAdminResolveRoundTx e a i p s)"
    "accepted env (\<lambda>e. buildSubmitScreeningResultTx e a b status m tier i s)"
    "accepted env (\<lambda>e. buildRegisterReferralTx e a b)"
  using assms
  by (auto simp: typed_builds ranged_def call_simps buildExecuteProposalTx_def buildAdminResolveRoundTx_def buildSubmitScreeningResultTx_def buildRegisterReferralTx_def unitEnumToScVal_def  split: option.splits sum.splits)

text \<open>
  C28: The frontend's transactions fit the contracts they call.  For all addresses, texts and flags, all
  numbers in the range of their type, and all literals of the enums, 63 of the builders describe
  a call of an exported function with the right number of arguments of the right types, structs with
  their fields in the host's order: a network that refuses every other call answers them exactly as
  one that does not look at interfaces.
\<close>

theorem frontend_transactions_fit:
  assumes "ranged i j k m n x y" "rate_ranged rate" "kind \<in> {''CoFunding'', ''SingleFunded''}" "side \<in> {''Bid'', ''Ask''}" "case expiry of Some t \<Rightarrow> in_u 64 t | None \<Rightarrow> True" "atype \<in> {''BusinessRegistry'', ''CreditBureau'', ''ExternalProtocol'', ''Manual''}" "length hash = 32" "resolution \<in> {''InFavorOfSME'', ''InFavorOfDebtor''}" "premium_ranged premium" "status \<in> {''Unscreened'', ''Cleared'', ''Flagged'', ''Blocked'', ''PendingReview''}" "tier \<in> {''Low'', ''Medium'', ''High''}"
  shows "accepted env (\<lambda>e. buildClaimYieldTx e a b)
     \<and> accepted env (\<lambda>e. buildOpenCoFundingTx e a i b x c j k y m)
     \<and> accepted env (\<lambda>e. buildCommitToInvoiceTx e a i x)
     \<and> accepted env (\<lambda>e. buildFinalizeCoFundingTx e a i)
     \<and> accepted env (\<lambda>e. buildWithdrawCoFundingCommitmentTx e a i)
     \<and> accepted env (\<lambda>e. buildCancelCoFundingRoundTx e a i)
     \<and> accepted env (\<lambda>e. buildTransferCoFundShareTx e a i b c m)
     \<and> accepted env (\<lambda>e. buildRepayTx e a i x)
     \<and> accepted env (\<lambda>e. buildWithdrawTx e a b x)
     \<and> accepted env (\<lambda>e. buildRequestWithdrawalTx e a b x)
     \<and> accepted env (\<lambda>e. buildCancelWithdrawalRequestTx e a b)
     \<and> accepted env (\<lambda>e. buildDrainWithdrawalQueueTx e a b)
     \<and> accepted env (\<lambda>e. buildSetYieldTx e a m)
     \<and> accepted env (\<lambda>e. buildProposeRateModelTx e a b rate)
     \<and> accepted env (\<lambda>e. buildExecuteRateModelTx e a b)
     \<and> accepted env (\<lambda>e. buildCancelRateModelTx e a b)
     \<and> accepted env (\<lambda>e. buildSetFactoringFeeTx e a m)
     \<and> accepted env (\<lambda>e. buildSetKycRequiredTx e a p)
     \<and> accepted env (\<lambda>e. buildSetInvestorKycTx e a b p)
     \<and> accepted env (\<lambda>e. buildSetExchangeRateTx e a b m)
     \<and> accepted env (\<lambda>e. buildDepositCollateralTx e i a b x)
     \<and> accepted env (\<lambda>e. buildTopUpCollateralTx e i a b x)
     \<and> accepted env (\<lambda>e. buildSetInsuranceContractTx e a b)
     \<and> accepted env (\<lambda>e. buildMarkDefaultedTx e a i)
     \<and> accepted env (\<lambda>e. buildPauseProtocolTx e a)
     \<and> accepted env (\<lambda>e. buildUnpauseProtocolTx e a)
     \<and> accepted env (\<lambda>e. buildDisputeTx e a i s h)
     \<and> accepted env (\<lambda>e. buildSetInvoicePrivateTx e a i p)
     \<and> accepted env (\<lambda>e. buildRaiseDisputeTx e a i s b)
     \<and> accepted env (\<lambda>e. buildListPositionTx e a i kind j x)
     \<and> accepted env (\<lambda>e. buildCancelListingTx e a i)
     \<and> accepted env (\<lambda>e. buildBuyListingTx e a i)
     \<and> accepted env (\<lambda>e. buildPlaceOrderTx e a i kind side j x expiry)
     \<and> accepted env (\<lambda>e. buildCancelOrderTx e a i)
     \<and> accepted env (\<lambda>e. buildExpireOrderTx e a i)
     \<and> accepted env (\<lambda>e. buildRegisterAttestorTx e a b atype m)
     \<and> accepted env (\<lambda>e. buildDeactivateAttestorTx e a b)
     \<and> accepted env (\<lambda>e. buildSubmitAttestationTx e a b atype m s i)
     \<and> accepted env (\<lambda>e. buildDisputeAttestationTx e a i s)
     \<and> accepted env (\<lambda>e. buildResolveAttestationDisputeTx e a i p)
     \<and> accepted env (\<lambda>e. buildSubmitEvidenceTx e a i s)
     \<and> accepted env (\<lambda>e. buildRegisterJurorTx e a x)
     \<and> accepted env (\<lambda>e. buildDeregisterJurorTx e a)
     \<and> accepted env (\<lambda>e. buildSelectJurorsTx e a i)
     \<and> accepted env (\<lambda>e. buildCommitVoteTx e a i hash)
     \<and> accepted env (\<lambda>e. buildRevealVoteTx e a i p hash)
     \<and> accepted env (\<lambda>e. buildFinalizeCaseTx e a i)
     \<and> accepted env (\<lambda>e. buildAdminResolveNoQuorumTx e a i resolution)
     \<and> accepted env (\<lambda>e. buildPurchaseCoverageTx e a i x b j c)
     \<and> accepted env (\<lambda>e. buildSetPremiumConfigTx e a premium)
     \<and> accepted env (\<lambda>e. buildSetMinCoverageRatioTx e a b m)
     \<and> accepted env (\<lambda>e. buildSetMinReserveAmountTx e a b x)
     \<and> accepted env (\<lambda>e. buildFundReserveFromTreasuryTx e a b x)
     \<and> accepted env (\<lambda>e. buildExecuteActionTx e a i)
     \<and> accepted env (\<lambda>e. buildApproveActionTx e a i)
     \<and> accepted env (\<lambda>e. buildRejectActionTx e a i)
     \<and> accepted env (\<lambda>e. buildRevokeApprovalTx e a i)
     \<and> accepted env (\<lambda>e. buildCheckCollateralRiskTx e i a)
     \<and> accepted env (\<lambda>e. buildLiquidateCollateralTx e i a)
     \<and> accepted env (\<lambda>e. buildExecuteProposalTx e a i)
     \<and> accepted env (\<lambda>e. buildAdminResolveRoundTx e a i p s)
     \<and> accepted env (\<lambda>e. buildSubmitScreeningResultTx e a b status m tier i s)
     \<and> accepted env (\<lambda>e. buildRegisterReferralTx e a b)"
  using assms by (intro conjI) (rule pool_accepted invoice_accepted secondary_market_accepted credit_score_accepted arbitration_accepted insurance_accepted access_control_accepted auction_accepted other_accepted; (assumption)?)+

definition example_chain :: chain where
  "example_chain = \<lparr>ch_id = (\<lambda>c. ''C''), ch_account = (\<lambda>a. Inr \<lparr>ac_balances = Some [(''native'', ''5.0000000'')]\<rparr>), ch_encode = (\<lambda>c meth args. None),
     ch_simulate = (\<lambda>source c meth args. Inr (SimReturn JNull)), ch_assemble = (\<lambda>source c meth args v. meth), ch_now = 1700000000000\<rparr>"

theorem frontend_transactions_fit_witness:
  "buildWithdrawTx (typed_chain example_chain) ''GA'' ''CT'' 5 = Inr ''withdraw''"
proof -
  have "accepted example_chain (\<lambda>e. buildWithdrawTx e ''GA'' ''CT'' 5)"
    using frontend_transactions_fit [where i = 1 and j = 2 and k = 3 and m = 4 and n = 5 and x = 5 and y = 6 and a = "''GA''" and b = "''CT''" and env = example_chain
        and rate = "\<lparr>rc_baseRateBps = 1, rc_optimalUtilizationBps = 2, rc_slope1Bps = 3, rc_slope2Bps = 4, rc_maxRateBps = 5\<rparr>"
        and premium = "\<lparr>pc_base_rate_bps = 1, pc_tenor_bps_per_day = 1, pc_risk_tiers = [], pc_default_risk_multiplier_bps = 1, pc_min_premium_bps = 1,
              pc_max_premium_bps = 1, pc_default_coverage_bps = 1\<rparr>"
        and kind = "''CoFunding''" and side = "''Bid''" and atype = "''Manual''" and status = "''Cleared''" and tier = "''Low''"
        and resolution = "''InFavorOfSME''" and hash = "replicate 32 0" and expiry = None]
    by (simp add: ranged_def in_u_def in_i_def rate_ranged_def premium_ranged_def)
  then show ?thesis
    by (simp add: accepted_def buildWithdrawTx_def build_tx_def build_op_def example_chain_def)
qed

section \<open>Calls that do not fit\<close>

text \<open>
  C30: Eight transactions of the frontend can never be built.  A deposit leaves out the contract's fourth
  argument (the minimal rate); a governance proposal, vote and cancellation leave out the acting
  account and pass other types; a slash leaves out the round and the evidence; a claim passes the
  caller the function does not take; the renewal calls a function the invoice contract does not
  export; and the proposal to set a category's quorum passes a number where the contract has an
  enum.  Whatever the values, the host refuses the call and the builder ends in an error.
\<close>

theorem frontend_transactions_refused:
  "refused env (\<lambda>e. buildDepositTx e a b x)
   \<and> refused env (\<lambda>e. buildCreateProposalTx e a s b t u)
   \<and> refused env (\<lambda>e. buildVoteProposalTx e a i p)
   \<and> refused env (\<lambda>e. buildCancelProposalTx e a i)
   \<and> refused env (\<lambda>e. buildSlashOracleTx e a b m)
   \<and> refused env (\<lambda>e. buildFileClaimTx e a i)
   \<and> refused env (\<lambda>e. buildRenewInvoiceTtlTx e a i)
   \<and> refused env (\<lambda>e. buildProposeActionTx e role a b (SetCategoryQuorum m n))"
proof -
  have "\<not> call_ok PoolC ''deposit'' [ScAddress a, ScAddress b, ScI128 x]"
    "\<not> call_ok GovernanceC ''create_proposal'' [ScString s, ScAddress b, ScString t, ScString u]"
    "\<not> call_ok GovernanceC ''vote'' [ScU64 i, ScBool p]"
    "\<not> call_ok GovernanceC ''cancel_proposal'' [ScU64 i]"
    "\<not> call_ok OracleRegistryC ''slash_oracle'' [ScAddress a, ScAddress b, ScU32 m]"
    "\<not> call_ok InsuranceC ''file_claim'' [ScAddress a, ScU64 i]"
    "\<not> call_ok InvoiceC ''renew_ttl'' [ScU64 i]"
    "\<not> call_ok AccessControlC ''propose_action'' [roleToScVal role, ScAddress a, ScAddress b, actionPayloadToScVal (SetCategoryQuorum m n)]"
    by (simp_all add: call_simps roleToScVal_def)
  note refusals = this [THEN refused_build_tx] this(1) [THEN refused_build_funded_tx]
  show ?thesis
    by (intro conjI; simp add: refused_def buildDepositTx_def buildCreateProposalTx_def buildVoteProposalTx_def buildCancelProposalTx_def
      buildSlashOracleTx_def buildFileClaimTx_def buildRenewInvoiceTtlTx_def buildProposeActionTx_def refusals del: actionPayloadToScVal.simps)
qed

text \<open>Every other action fits when its numbers are in range and its role is one of the contract's.\<close>

definition roles :: "string list" where
  "roles = [''SuperAdmin'', ''RiskManager'', ''TreasuryManager'', ''ComplianceOfficer'', ''OracleManager'']"

fun action_ranged :: "ActionPayload \<Rightarrow> bool" where
  "action_ranged (SetYield n) = in_u 32 n"
| "action_ranged (SetMaxUtilization n) = in_u 32 n"
| "action_ranged (WithdrawRevenue a n) = in_i 128 n"
| "action_ranged (RegisterDebtor s t n) = in_i 128 n"
| "action_ranged (SetLateThreshold n) = in_i 64 n"
| "action_ranged (SetScoreThresholds a b c d) = (in_u 32 a \<and> in_u 32 b \<and> in_u 32 c \<and> in_u 32 d)"
| "action_ranged (RegisterAttestor a m n) = (in_u 32 m \<and> in_u 32 n)"
| "action_ranged (AddSigner r a) = (r \<in> set roles)"
| "action_ranged (RemoveSigner r a) = (r \<in> set roles)"
| "action_ranged (SetThreshold r n) = (r \<in> set roles \<and> in_u 32 n)"
| "action_ranged (SetOracleRegistryConfig s v q r d) = (in_i 128 s \<and> in_u 32 v \<and> in_u 32 q \<and> in_u 64 r \<and> in_u 64 d)"
| "action_ranged (SlashOracle a n r e) = (in_u 32 n \<and> in_u 64 r)"
| "action_ranged (AdminResolveRound i b s) = in_u 64 i"
| "action_ranged (SetRescreeningInterval n) = in_u 64 n"
| "action_ranged (SetScreenerTimelock n) = in_u 64 n"
| "action_ranged (UpdateGovernanceConfig q p d) = (in_u 32 q \<and> in_u 32 p \<and> in_u 64 d)"
| "action_ranged (SetCategoryQuorum c q) = False"
| "action_ranged (SetBorrowRewardBps n) = in_u 32 n"
| "action_ranged (SetDepositRewardBps n) = in_u 32 n"
| "action_ranged _ = True"

lemma role_conforms: "r \<in> set roles \<Longrightarrow> conforms access_control_types (roleToScVal r) (TNamed ''Role'')"
  by (auto simp: roles_def roleToScVal_def call_simps)

lemma action_conforms: "action_ranged act \<Longrightarrow> conforms access_control_types (actionPayloadToScVal act) (TNamed ''ActionPayload'')"
  by (cases act) (auto simp: call_simps role_conforms split: option.splits)

lemma proposed_actions_accepted:
  assumes "role \<in> set roles" "action_ranged act"
  shows "accepted env (\<lambda>e. buildProposeActionTx e role a b act)"
  using role_conforms [OF assms(1)] action_conforms [OF assms(2)]
  by (simp add: typed_builds buildProposeActionTx_def call_simps)

section \<open>Creating an invoice\<close>

definition create_args :: "string \<Rightarrow> string \<Rightarrow> int \<Rightarrow> int \<Rightarrow> string \<Rightarrow> string option \<Rightarrow> string option \<Rightarrow> sc_arg list" where
  "create_args owner debtor amount due description verificationHash metadataUri =
     [ScAddress owner, ScString debtor, ScI128 amount, ScU64 due, ScString description,
      ScString (case verificationHash of Some h \<Rightarrow> h | None \<Rightarrow> []),
      (case metadataUri of Some (c # cs) \<Rightarrow> ScString (c # cs) | _ \<Rightarrow> ScVoid)]"

lemma build_op_iff:
  "build_op env failed source c meth args = Inr xdr \<longleftrightarrow> ch_encode env c meth args = None
     \<and> (\<exists>v. ch_simulate env source c meth args = Inr (SimReturn v) \<and> xdr = ch_assemble env source c meth args v)"
  by (auto simp: build_op_def split: option.splits sum.splits sim_answer.splits)

lemma create_args_fit:
  assumes "in_i 128 amount" "in_u 64 due"
  shows "call_ok InvoiceC ''create_invoice_with_metadata'' (create_args owner debtor amount due description h uri)"
  using assms by (auto simp: create_args_def call_simps split: option.splits list.splits)

text \<open>
  An invoice transaction is built exactly for a valid form.  The builder returns a transaction if and only
  if the debtor is not blank, the amount is positive, the due date is a whole number of seconds after
  the current one, the account exists, and the simulation of the one call succeeds; the transaction is
  the assembled form of that call, with the optional texts replaced as the contract expects, and for
  amounts and dates in range the call fits the contract's interface.
\<close>

theorem create_invoice_exact:
  "(buildCreateInvoiceTx env owner debtor amount dueDate description h uri = Inr xdr \<longleftrightarrow>
      trim debtor \<noteq> [] \<and> 0 < amount \<and> (\<exists>account. ch_account env owner = Inr account) \<and>
      (\<exists>due. dueDate = NInt due \<and> ch_now env div 1000 < due \<and>
        (let args = create_args owner debtor amount due description h uri in
         ch_encode env InvoiceC ''create_invoice_with_metadata'' args = None \<and>
         (\<exists>v. ch_simulate env owner InvoiceC ''create_invoice_with_metadata'' args = Inr (SimReturn v)
            \<and> xdr = ch_assemble env owner InvoiceC ''create_invoice_with_metadata'' args v))))
   \<and> (in_i 128 amount \<and> in_u 64 due0 \<longrightarrow>
        call_ok InvoiceC ''create_invoice_with_metadata'' (create_args owner debtor amount due0 description h uri))"
proof (rule conjI)
  show "in_i 128 amount \<and> in_u 64 due0 \<longrightarrow> call_ok InvoiceC ''create_invoice_with_metadata'' (create_args owner debtor amount due0 description h uri)"
    using create_args_fit by blast
next
  show "buildCreateInvoiceTx env owner debtor amount dueDate description h uri = Inr xdr \<longleftrightarrow>
      trim debtor \<noteq> [] \<and> 0 < amount \<and> (\<exists>account. ch_account env owner = Inr account) \<and>
      (\<exists>due. dueDate = NInt due \<and> ch_now env div 1000 < due \<and>
        (let args = create_args owner debtor amount due description h uri in
         ch_encode env InvoiceC ''create_invoice_with_metadata'' args = None \<and>
         (\<exists>v. ch_simulate env owner InvoiceC ''create_invoice_with_metadata'' args = Inr (SimReturn v)
            \<and> xdr = ch_assemble env owner InvoiceC ''create_invoice_with_metadata'' args v)))"
    unfolding buildCreateInvoiceTx_def create_args_def [symmetric]
    by (cases dueDate; cases "ch_account env owner") (auto simp: build_op_iff Let_def)
qed

theorem create_invoice_exact_witness:
  "buildCreateInvoiceTx example_chain ''GA'' ''Acme'' 5 (NInt 1800000000) ''d'' None None = Inr ''create_invoice_with_metadata''"
  using conjunct1 [OF create_invoice_exact [of example_chain "''GA''" "''Acme''" 5 "NInt 1800000000" "''d''" None None "''create_invoice_with_metadata''" 0]]
  by (simp add: example_chain_def trim_def is_space_def Let_def)

section \<open>The balance check\<close>

text \<open>
  Two builders ask for a balance first.  An account without a list of balances counts as empty, so
  with a server whose accounts carry none (an account read over the RPC interface is an address and a
  sequence number) they always refuse.  Where balances are listed, one whole unit counts as a tenth
  of its stroops.
\<close>

lemma no_balances_no_deposit:
  assumes "ch_account env a = Inr \<lparr>ac_balances = None\<rparr>"
  shows "buildDepositTx env a b x = Inl (GenericError ''Insufficient balance for this transaction'')
    \<and> buildCommitToInvoiceTx env a i x = Inl (GenericError ''Insufficient balance for this transaction'')"
  using assms by (simp add: buildDepositTx_def buildCommitToInvoiceTx_def build_funded_tx_def ensureSufficientNativeBalance_def
      getNativeBalanceStroops_def BASE_FEE_def)

lemma balance_unit: "getNativeBalanceStroops \<lparr>ac_balances = Some [(''native'', ''1'')]\<rparr> = Inr 1000000"
  by (simp add: getNativeBalanceStroops_def js_parseFloat_def Let_def is_space_def is_digit_def float_exponent_def
      scale10_def digits_val_def digit_val_def)

end
