(* ===== verification/ContractShapes.thy ===== *)
theory ContractShapes
  imports ContractReads ContractTyping
begin

text \<open>
  What the reads of the frontend make of the contracts' answers.  \<open>shaped\<close> decides whether a value of
  the language is what the library decodes from a contract value of a type: 32-bit numbers are
  numbers, larger ones are BigInts, an absent option is null, a struct is an object with its fields,
  and an enum is an array of the variant's name and its payload.
\<close>

section \<open>Decoded values of a type\<close>

definition shaped_base :: "js \<Rightarrow> ty \<Rightarrow> bool" where
  "shaped_base v t = (case (t, v) of
      (TAddress, JStr _) \<Rightarrow> True
    | (TString, JStr _) \<Rightarrow> True
    | (TSymbol, JStr _) \<Rightarrow> True
    | (TBool, JBool _) \<Rightarrow> True
    | (TU32, JNum (NInt n)) \<Rightarrow> in_u 32 n
    | (TI32, JNum (NInt n)) \<Rightarrow> in_i 32 n
    | (TU64, JBigInt n) \<Rightarrow> in_u 64 n
    | (TI64, JBigInt n) \<Rightarrow> in_i 64 n
    | (TI128, JBigInt n) \<Rightarrow> in_i 128 n
    | (TUnit, JNull) \<Rightarrow> True
    | (TBytes w, JArr xs) \<Rightarrow> True
    | _ \<Rightarrow> False)"

function (sequential) shaped :: "(string \<times> decl) list \<Rightarrow> js \<Rightarrow> ty \<Rightarrow> bool"
  and shaped_all :: "(string \<times> decl) list \<Rightarrow> js list \<Rightarrow> ty list \<Rightarrow> bool"
  and shaped_fields :: "(string \<times> decl) list \<Rightarrow> (string \<times> js) list \<Rightarrow> (string \<times> ty) list \<Rightarrow> bool" where
  "shaped D v (TOption t) = (v = JNull \<or> shaped D v t)"
| "shaped D (JArr vs) (TVec t) = shaped_all D vs (replicate (length vs) t)"
| "shaped D (JArr vs) (TTuple ts) = shaped_all D vs ts"
| "shaped D (JObj kvs) (TNamed n) = (case entry_of D n of Some (Struct fs) \<Rightarrow> shaped_fields D kvs fs | _ \<Rightarrow> False)"
| "shaped D (JArr vs) (TNamed n) = (case entry_of D n of
      Some (Variants cs) \<Rightarrow> (case vs of JStr tag # payload \<Rightarrow> (case entry_of cs tag of Some ts \<Rightarrow> shaped_all D payload ts | None \<Rightarrow> False) | _ \<Rightarrow> False)
    | _ \<Rightarrow> False)"
| "shaped D v t = shaped_base v t"
| "shaped_all D [] [] = True"
| "shaped_all D (v # vs) (t # ts) = (shaped D v t \<and> shaped_all D vs ts)"
| "shaped_all D _ _ = False"
| "shaped_fields D [] [] = True"
| "shaped_fields D ((k, v) # kvs) ((f, t) # fs) = (k = f \<and> shaped D v t \<and> shaped_fields D kvs fs)"
| "shaped_fields D _ _ = False"
  by pat_completeness auto
termination
  by (relation "inv_image (less_than <*lex*> less_than) (\<lambda>x. case x of
        Inl (D, v, t) \<Rightarrow> (2 * size v, size t)
      | Inr (Inl (D, vs, ts)) \<Rightarrow> (2 * size_list size vs + 1, 0)
      | Inr (Inr (D, kvs, fs)) \<Rightarrow> (2 * size_list (size_prod (\<lambda>_. 0) size) kvs + 1, 0))") auto

section \<open>Coercions that lose nothing\<close>

definition int_of :: "js \<Rightarrow> int" where
  "int_of v = (case v of JNum (NInt n) \<Rightarrow> n | JBigInt n \<Rightarrow> n | _ \<Rightarrow> 0)"

text \<open>
  The value a field should have: the same big number, the nearest double, the same text or flag, the
  name of an enum's variant.
\<close>

fun exact :: "coercion \<Rightarrow> js \<Rightarrow> js" where
  "exact ToNumber v = JNum (NInt (double_of_int (int_of v)))"
| "exact (ToNumberOr d) v = JNum (NInt (double_of_int (int_of v)))"
| "exact ToBig v = JBigInt (int_of v)"
| "exact (ToBigOr d) v = JBigInt (int_of v)"
| "exact ToBigRaw v = JBigInt (int_of v)"
| "exact (ToBigRawOr d) v = JBigInt (int_of v)"
| "exact EnumTag v = elem_at (array_elems v) 0"
| "exact (AsIsOr d) v = (if v = JNull then d else v)"
| "exact (NumberOrElse d) v = (if v = JNull then d else JNum (NInt (double_of_int (int_of v))))"
| "exact (BoolOrElse d) v = (if v = JNull then d else v)"
| "exact IsPresent v = JBool (v \<noteq> JNull)"
| "exact (BigOrElse d) v = (if v = JNull then d else JBigInt (int_of v))"
| "exact (StrOrElse d) v = (if js_truthy v then v else d)"
| "exact (HexOrElse d) v = (if v = JNull then d else JStr (bytes_hex v))"
| "exact _ v = v"

definition is_number :: "ty \<Rightarrow> bool" where
  "is_number t = (t = TU32 \<or> t = TI32 \<or> t = TU64 \<or> t = TI64 \<or> t = TI128)"

definition is_text :: "ty \<Rightarrow> bool" where
  "is_text t = (t = TAddress \<or> t = TString \<or> t = TSymbol)"

fun is_list :: "ty \<Rightarrow> bool" where
  "is_list (TVec t) = True"
| "is_list _ = False"

fun is_bytes :: "ty \<Rightarrow> bool" where
  "is_bytes (TBytes w) = True"
| "is_bytes _ = False"

fun fits :: "(string \<times> decl) list \<Rightarrow> coercion \<Rightarrow> ty \<Rightarrow> bool" where
  "fits D ToNumber t = is_number t"
| "fits D (ToNumberOr d) t = is_number t"
| "fits D ToBig t = is_number t"
| "fits D (ToBigOr d) t = is_number t"
| "fits D ToBigRaw t = is_number t"
| "fits D (ToBigRawOr d) t = is_number t"
| "fits D ToBool t = (t = TBool)"
| "fits D AsIs t = is_text t"
| "fits D ToStr t = is_text t"
| "fits D (ToStrOr d) t = is_text t"
| "fits D (AsIsOr d) t = (is_list t \<or> t = TOption TAddress)"
| "fits D EnumTag (TNamed n) = (case entry_of D n of Some (Variants cs) \<Rightarrow> True | _ \<Rightarrow> False)"
| "fits D (NumberOrElse d) (TOption t) = is_number t"
| "fits D (BoolOrElse d) (TOption t) = (t = TBool)"
| "fits D IsPresent (TOption t) = (is_text t \<or> is_bytes t)"
| "fits D (BigOrElse d) (TOption t) = is_number t"
| "fits D (StrOrElse d) (TOption t) = is_text t"
| "fits D (HexOrElse d) (TOption t) = is_bytes t"
| "fits D _ _ = False"

definition fields_fit :: "(string \<times> decl) list \<Rightarrow> string \<Rightarrow> field list \<Rightarrow> bool" where
  "fields_fit D n fs = (case entry_of D n of
      Some (Struct ts) \<Rightarrow> list_all (\<lambda>(k, f, c). case entry_of ts f of Some t \<Rightarrow> fits D c t | None \<Rightarrow> False) fs
    | _ \<Rightarrow> False)"

lemma shaped_number: "is_number t \<Longrightarrow> shaped D v t \<Longrightarrow> (\<exists>n. v = JNum (NInt n)) \<or> (\<exists>n. v = JBigInt n)"
  by (cases v) (auto simp: is_number_def shaped_base_def split: jnum.splits)

lemma shaped_text: "is_text t \<Longrightarrow> shaped D v t \<Longrightarrow> \<exists>s. v = JStr s"
  by (cases v) (auto simp: is_text_def shaped_base_def)

lemma shaped_bool: "shaped D v TBool \<Longrightarrow> \<exists>b. v = JBool b"
  by (cases v) (auto simp: shaped_base_def)

lemma shaped_list: "is_list t \<Longrightarrow> shaped D v t \<Longrightarrow> \<exists>vs. v = JArr vs"
  by (cases t; cases v) (auto simp: shaped_base_def)

lemma shaped_bytes: "is_bytes t \<Longrightarrow> shaped D v t \<Longrightarrow> \<exists>vs. v = JArr vs"
  by (cases t; cases v) (auto simp: shaped_base_def)

lemma shaped_variant:
  assumes "entry_of D n = Some (Variants cs)" "shaped D v (TNamed n)"
  shows "\<exists>tag vs. v = JArr (JStr tag # vs)"
  using assms by (cases v) (auto simp: shaped_base_def split: list.splits js.splits)

lemma double_of_int_small [simp]: "\<bar>n\<bar> < 2 ^ 53 \<Longrightarrow> double_of_int n = n"
proof -
  assume small: "\<bar>n\<bar> < 2 ^ 53"
  have "excess_bits (nat \<bar>n\<bar>) = 0" using small by (subst excess_bits.simps) (simp add: nat_less_iff)
  hence "double_of_nat (nat \<bar>n\<bar>) = nat \<bar>n\<bar>" by (simp add: double_of_nat_def)
  thus ?thesis by (simp add: double_of_int_def sgn_mult_abs)
qed

lemma shaped_num_small: "shaped D (JNum (NInt n)) t \<Longrightarrow> is_number t \<Longrightarrow> \<bar>n\<bar> < 2 ^ 53"
  by (auto simp: is_number_def shaped_base_def in_u_def in_i_def)

lemma coerce_number:
  assumes "is_number t" "shaped D v t"
  shows "to_Number v = NInt (double_of_int (int_of v))"
    and "big_of_string (js_String v) = Inr (JBigInt (int_of v))"
    and "js_to_BigInt v = Inr (JBigInt (int_of v))"
    and "\<not> is_nullish v"
  using shaped_number [OF assms] assms shaped_num_small
  by (auto simp: to_Number_def js_Number_def int_of_def big_of_string_def js_to_BigInt_def show_jnum_def)

lemma shaped_base_bool: "shaped_base v TBool \<longleftrightarrow> (\<exists>b. v = JBool b)"
  by (cases v) (auto simp: shaped_base_def)

lemma shaped_base_address: "shaped_base v TAddress \<longleftrightarrow> (\<exists>s. v = JStr s)"
  by (cases v) (auto simp: shaped_base_def)

lemma coerce_exact:
  assumes "fits D c t" "shaped D v t"
  shows "coerce c v = Inr (exact c v)"
  using assms
proof (cases "(D, c, t)" rule: fits.cases)
  case (12 D' n)
  then obtain cs where "entry_of D n = Some (Variants cs)" using assms(1) by (auto split: option.splits decl.splits)
  thus ?thesis using 12 assms(2) shaped_variant by (fastforce simp: enumTagFromNative_def)
qed (auto simp: js_coalesce_def coerce_number shaped_base_bool shaped_base_address dest: shaped_text shaped_list shaped_bytes)

section \<open>Reading a struct\<close>

lemma shaped_fields_prop:
  "shaped_fields D kvs fs \<Longrightarrow> entry_of fs f = Some t \<Longrightarrow> \<exists>v. js_prop (JObj kvs) f = v \<and> shaped D v t"
proof (induction kvs arbitrary: fs)
  case (Cons kv kvs)
  then obtain k v t' fs' where split: "kv = (k, v)" "fs = (k, t') # fs'" "shaped D v t'" "shaped_fields D kvs fs'"
    by (cases kv; cases fs) auto
  show ?case
  proof (cases "k = f")
    case False
    hence "entry_of fs' f = Some t" using Cons.prems(2) unfolding split(2) by simp
    thus ?thesis using Cons.IH [of fs'] False split by simp
  qed (use Cons.prems(2) split in auto)
next
  case Nil
  thus ?case by (cases fs) auto
qed

lemma shaped_struct:
  assumes "entry_of D n = Some (Struct ts)" "shaped D v (TNamed n)"
  obtains kvs where "v = JObj kvs" "shaped_fields D kvs ts"
  using assms by (cases v) (auto simp: shaped_base_def)

lemma shaped_fields_missing: "shaped_fields D kvs fs \<Longrightarrow> entry_of fs f = None \<Longrightarrow> js_prop (JObj kvs) f = JUndefined"
proof (induction kvs arbitrary: fs)
  case (Cons kv kvs)
  then obtain k v t' fs' where split: "kv = (k, v)" "fs = (k, t') # fs'" "shaped_fields D kvs fs'"
    by (cases kv; cases fs) auto
  have "k \<noteq> f" "entry_of fs' f = None" using Cons.prems(2) unfolding split(2) by (auto split: if_splits)
  thus ?case using Cons.IH [of fs'] split by simp
qed simp

lemma shaped_struct_missing:
  assumes "entry_of D n = Some (Struct ts)" "shaped D v (TNamed n)" "entry_of ts f = None"
  shows "js_prop v f = JUndefined"
  using shaped_struct [OF assms(1,2)] shaped_fields_missing assms(3) by metis

lemma shaped_struct_field:
  assumes "entry_of D n = Some (Struct ts)" "shaped D v (TNamed n)" "entry_of ts f = Some t"
  shows "shaped D (js_prop v f) t"
  using shaped_struct [OF assms(1,2)] shaped_fields_prop assms(3) by metis

definition exact_struct :: "field list \<Rightarrow> js \<Rightarrow> js" where
  "exact_struct fs v = JObj (map (\<lambda>(k, f, c). (k, exact c (js_prop v f))) fs)"

lemma decode_fields_exact:
  assumes "shaped_fields D kvs ts"
    and "list_all (\<lambda>(k, f, c). case entry_of ts f of Some t \<Rightarrow> fits D c t | None \<Rightarrow> False) fs"
  shows "decode_fields fs (JObj kvs) = Inr (map (\<lambda>(k, f, c). (k, exact c (js_prop (JObj kvs) f))) fs)"
  using assms(2)
proof (induction fs)
  case (Cons x fs)
  obtain k f c where x: "x = (k, f, c)" by (cases x)
  obtain t where t: "entry_of ts f = Some t" "fits D c t" using Cons.prems x by (auto split: option.splits)
  have "coerce c (js_prop (JObj kvs) f) = Inr (exact c (js_prop (JObj kvs) f))"
    using shaped_fields_prop [OF assms(1) t(1)] coerce_exact [OF t(2)] by blast
  thus ?case using Cons x by (simp del: js_prop.simps)
qed simp

lemma decode_object_exact:
  assumes "fields_fit D n fs" "shaped D v (TNamed n)"
  shows "decode_object fs v = Inr (exact_struct fs v)"
proof -
  obtain ts where ts: "entry_of D n = Some (Struct ts)"
      "list_all (\<lambda>(k, f, c). case entry_of ts f of Some t \<Rightarrow> fits D c t | None \<Rightarrow> False) fs"
    using assms(1) by (auto simp: fields_fit_def split: option.splits decl.splits)
  obtain kvs where "v = JObj kvs" "shaped_fields D kvs ts" using shaped_struct [OF ts(1) assms(2)] .
  thus ?thesis using decode_fields_exact [of D kvs ts fs] ts(2)
    by (simp add: decode_object_def exact_struct_def)
qed

section \<open>Answers of the declared type\<close>

text \<open>
  What a read makes of an answer: one value, one struct, a struct or null, a list of structs or a
  list of values.
\<close>

datatype shape = Plain coercion | One "field list" | Opt "field list" | Many "field list" | Each coercion

fun shape_fits :: "(string \<times> decl) list \<Rightarrow> shape \<Rightarrow> ty \<Rightarrow> bool" where
  "shape_fits D (Plain c) t = fits D c t"
| "shape_fits D (One fs) (TNamed n) = fields_fit D n fs"
| "shape_fits D (Opt fs) (TNamed n) = fields_fit D n fs"
| "shape_fits D (Opt fs) (TOption (TNamed n)) = fields_fit D n fs"
| "shape_fits D (Many fs) (TVec (TNamed n)) = fields_fit D n fs"
| "shape_fits D (Each c) (TVec t) = fits D c t"
| "shape_fits D _ _ = False"

fun exact_read :: "shape \<Rightarrow> js \<Rightarrow> js" where
  "exact_read (Plain c) v = exact c v"
| "exact_read (One fs) v = exact_struct fs v"
| "exact_read (Opt fs) v = (if v = JNull then JNull else exact_struct fs v)"
| "exact_read (Many fs) v = JArr (map (exact_struct fs) (array_elems v))"
| "exact_read (Each c) v = JArr (map (exact c) (array_elems v))"

definition returns :: "contract \<Rightarrow> string \<Rightarrow> js \<Rightarrow> bool" where
  "returns c meth v = (case abi_of c of
      None \<Rightarrow> True
    | Some (D, fns) \<Rightarrow> (case entry_of fns meth of None \<Rightarrow> False | Some (ts, r) \<Rightarrow> shaped D v r))"

definition reader_fits :: "contract \<Rightarrow> string \<Rightarrow> shape \<Rightarrow> bool" where
  "reader_fits c meth sh = (case abi_of c of
      None \<Rightarrow> False
    | Some (D, fns) \<Rightarrow> (case entry_of fns meth of None \<Rightarrow> False | Some (ts, r) \<Rightarrow> shape_fits D sh r))"

text \<open>A network whose contracts return values of the types they declare.\<close>

definition honest :: "chain \<Rightarrow> bool" where
  "honest env = (\<forall>source c meth args v. ch_simulate env source c meth args = Inr (SimReturn v) \<longrightarrow> returns c meth v)"

definition exact_answer :: "chain \<Rightarrow> string \<Rightarrow> contract \<Rightarrow> string \<Rightarrow> sc_arg list \<Rightarrow> shape \<Rightarrow> js result" where
  "exact_answer env source c meth args sh =
     then_result (simulateCall env c meth args source) (\<lambda>sim. then_result (retval sim) (\<lambda>v. Inr (exact_read sh v)))"

lemma map_js_exact: "list_all (\<lambda>x. f x = Inr (g x)) xs \<Longrightarrow> map_js f xs = Inr (map g xs)"
  by (induction xs) auto

lemma shaped_all_replicate: "shaped_all D vs (replicate (length vs) t) \<longleftrightarrow> list_all (\<lambda>v. shaped D v t) vs"
  by (induction vs) auto

lemma js_map_exact:
  assumes "shaped D v (TVec t)" "\<And>x. shaped D x t \<Longrightarrow> f x = Inr (g x)"
  shows "js_map f v = Inr (JArr (map g (array_elems v)))" "\<exists>xs. v = JArr xs"
proof -
  obtain xs where xs: "v = JArr xs" using assms(1) shaped_list by (metis is_list.simps(1))
  have "list_all (\<lambda>x. f x = Inr (g x)) xs"
    using assms xs by (auto simp: shaped_all_replicate list_all_iff)
  thus "js_map f v = Inr (JArr (map g (array_elems v)))" by (simp add: js_map_def xs map_js_exact)
  show "\<exists>xs. v = JArr xs" using xs by simp
qed

lemma shaped_struct_truthy:
  assumes "fields_fit D n fs" "shaped D v (TNamed n)"
  shows "js_truthy v" "v \<noteq> JNull"
proof -
  obtain ts where "entry_of D n = Some (Struct ts)" using assms(1) by (auto simp: fields_fit_def split: option.splits decl.splits)
  then obtain kvs where "v = JObj kvs" using assms(2) by (rule shaped_struct)
  thus "js_truthy v" "v \<noteq> JNull" by simp_all
qed

text \<open>The reads of each shape.\<close>

lemma answer_exact:
  assumes "honest env" "\<And>v. returns c meth v \<Longrightarrow> f v = Inr (exact_read sh v)"
  shows "read_from env source c meth args f = exact_answer env source c meth args sh"
  using assms by (auto simp: read_from_def exact_answer_def then_result_def simulateCall_def retval_def honest_def
    split: sum.split option.split sim_answer.split)

lemma shaped_answer:
  assumes "reader_fits c meth sh" "returns c meth v"
  obtains D t where "shape_fits D sh t" "shaped D v t"
  using assms by (auto simp: reader_fits_def returns_def split: option.splits)

lemma decode_one:
  assumes "reader_fits c meth (One fs)" "returns c meth v"
  shows "decode_object fs v = Inr (exact_read (One fs) v)"
  using assms by (rule shaped_answer) (auto elim!: shape_fits.elims simp: decode_object_exact)

lemma decode_opt:
  assumes "reader_fits c meth (Opt fs)" "returns c meth v"
  shows "decode_or_null (decode_object fs) v = Inr (exact_read (Opt fs) v)"
  using assms by (rule shaped_answer)
    (auto elim!: shape_fits.elims simp: decode_object_exact decode_or_null_def shaped_struct_truthy)

lemma decode_plain:
  assumes "reader_fits c meth (Plain k)" "returns c meth v"
  shows "coerce k v = Inr (exact_read (Plain k) v)"
  using assms by (rule shaped_answer) (auto simp: coerce_exact)

lemma decode_list:
  assumes "shaped D v (TVec t)" "\<And>x. shaped D x t \<Longrightarrow> f x = Inr (g x)"
  shows "map_if_array f v = Inr (JArr (map g (array_elems v)))" "map_or_empty f v = Inr (JArr (map g (array_elems v)))"
proof -
  have "js_map f v = Inr (JArr (map g (array_elems v)))" using assms by (rule js_map_exact(1))
  moreover obtain xs where "v = JArr xs" using js_map_exact(2) [of D v t f g] assms by blast
  ultimately show "map_if_array f v = Inr (JArr (map g (array_elems v)))" "map_or_empty f v = Inr (JArr (map g (array_elems v)))"
    by (simp_all add: map_if_array_def map_or_empty_def js_coalesce_def)
qed

lemma decode_many:
  assumes "reader_fits c meth (Many fs)" "returns c meth v"
  shows "map_if_array (decode_object fs) v = Inr (exact_read (Many fs) v)" "map_or_empty (decode_object fs) v = Inr (exact_read (Many fs) v)"
  by (rule shaped_answer [OF assms]; auto elim!: shape_fits.elims simp: decode_list decode_object_exact)+

lemma decode_each:
  assumes "reader_fits c meth (Each k)" "returns c meth v"
  shows "map_if_array (coerce k) v = Inr (exact_read (Each k) v)" "map_or_empty (coerce k) v = Inr (exact_read (Each k) v)"
  by (rule shaped_answer [OF assms]; auto elim!: shape_fits.elims simp: decode_list coerce_exact)+

lemma read_exact:
  assumes "honest env"
  shows "reader_fits c meth (One fs) \<Longrightarrow> read_from env source c meth args (decode_object fs) = exact_answer env source c meth args (One fs)"
    and "reader_fits c meth (Opt fs) \<Longrightarrow> read_from env source c meth args (decode_or_null (decode_object fs)) = exact_answer env source c meth args (Opt fs)"
    and "reader_fits c meth (Plain k) \<Longrightarrow> read_from env source c meth args (coerce k) = exact_answer env source c meth args (Plain k)"
    and "reader_fits c meth (Many fs) \<Longrightarrow> read_from env source c meth args (map_if_array (decode_object fs)) = exact_answer env source c meth args (Many fs)"
    and "reader_fits c meth (Many fs) \<Longrightarrow> read_from env source c meth args (map_or_empty (decode_object fs)) = exact_answer env source c meth args (Many fs)"
    and "reader_fits c meth (Each k) \<Longrightarrow> read_from env source c meth args (map_if_array (coerce k)) = exact_answer env source c meth args (Each k)"
    and "reader_fits c meth (Each k) \<Longrightarrow> read_from env source c meth args (map_or_empty (coerce k)) = exact_answer env source c meth args (Each k)"
  by (rule answer_exact [OF assms]; simp add: decode_one decode_opt decode_plain decode_many decode_each)+

lemmas reader_simps = reader_fits_def abi_tables fields_fit_def is_number_def is_text_def

end
