(* ===== verification/ContractAnswers.thy ===== *)
theory ContractAnswers
  imports ContractShapes
begin

text \<open>
  The reads of the frontend against the contracts they ask.  Most of them call an exported function
  with arguments of its types and return every field as the contract gave it; the rest are described
  one by one.
\<close>

section \<open>Exact reads\<close>

definition reads_exactly :: "chain \<Rightarrow> string \<Rightarrow> contract \<Rightarrow> string \<Rightarrow> sc_arg list \<Rightarrow> shape \<Rightarrow> js result \<Rightarrow> bool" where
  "reads_exactly env source c meth args sh r = (call_ok c meth args \<and> r = exact_answer env source c meth args sh)"

lemma as_coerce:
  "as_number = coerce ToNumber" "as_big = coerce ToBig" "as_big0 = coerce (ToBigOr zero)" "as_bool = coerce ToBool"
  by (simp_all add: fun_eq_iff as_number_def as_big_def as_big0_def as_bool_def zero_def)

lemmas read_simps = reads_exactly_def read_call_def as_coerce read_exact reader_simps call_ok_def conforms_base_def

lemma invoice_reads:
  assumes "honest env" "in_u 64 i" "in_u 32 m" "role \<in> set roles"
  shows "reads_exactly env SIM_SOURCE InvoiceC ''get_invoice_count'' [] (Plain ToNumber) (getInvoiceCount env)"
    and "reads_exactly env SIM_SOURCE InvoiceC ''get_max_invoice_amount'' [] (Plain ToNumber) (getMaxInvoiceAmount env)"
    and "reads_exactly env SIM_SOURCE InvoiceC ''is_invoice_private'' [ScU64 i] (Plain ToBool) (isInvoicePrivate env i)"
    and "reads_exactly env SIM_SOURCE InvoiceC ''is_paused'' [] (Plain ToBool) (isProtocolPaused env)"
  using assms by (auto simp: read_simps getInvoiceCount_def getMaxInvoiceAmount_def isInvoicePrivate_def isProtocolPaused_def )

lemma pool_reads:
  assumes "honest env" "in_u 64 i" "in_u 32 m" "role \<in> set roles"
  shows "reads_exactly env SIM_SOURCE PoolC ''get_config'' [] (One pool_config_fields) (getPoolConfig env)"
    and "reads_exactly env SIM_SOURCE PoolC ''get_withdrawal_queue'' [ScAddress b] (Many withdrawal_request_fields) (getWithdrawalQueue env b)"
    and "reads_exactly env SIM_SOURCE PoolC ''get_asset_price'' [ScAddress b] (Plain ToBig) (getAssetPrice env b)"
    and "reads_exactly env SIM_SOURCE PoolC ''get_token_totals'' [ScAddress b] (One token_totals_fields) (getPoolTokenTotals env b)"
    and "reads_exactly env SIM_SOURCE PoolC ''get_pool_balance'' [ScAddress b] (Plain (ToBigOr zero)) (getPoolBalance env b)"
    and "reads_exactly env SIM_SOURCE PoolC ''get_protocol_revenue'' [ScAddress b] (Plain (ToBigOr zero)) (getProtocolRevenue env b)"
    and "reads_exactly env SIM_SOURCE PoolC ''list_co_funding_rounds'' [] (Each ToNumber) (listCoFundingRounds env)"
    and "reads_exactly env SIM_SOURCE PoolC ''get_co_fund_share'' [ScU64 i, ScAddress a] (Plain ToNumber) (getCoFundShare env i a)"
    and "reads_exactly env SIM_SOURCE PoolC ''kyc_required'' [] (Plain ToBool) (getKycRequired env)"
    and "reads_exactly env SIM_SOURCE PoolC ''get_investor_kyc'' [ScAddress a] (Plain ToBool) (getInvestorKyc env a)"
    and "reads_exactly env SIM_SOURCE PoolC ''get_exchange_rate'' [ScAddress b] (Plain ToNumber) (getExchangeRate env b)"
    and "reads_exactly env SIM_SOURCE PoolC ''get_collateral_config'' [] (One collateral_config_fields) (getCollateralConfig env)"
    and "reads_exactly env SIM_SOURCE PoolC ''get_collateral_deposit'' [ScU64 i] (Opt collateral_deposit_fields) (getCollateralDeposit env i)"
  using assms by (auto simp: read_simps getPoolConfig_def getWithdrawalQueue_def getAssetPrice_def getPoolTokenTotals_def getPoolBalance_def getProtocolRevenue_def listCoFundingRounds_def getCoFundShare_def getKycRequired_def getInvestorKyc_def getExchangeRate_def getCollateralConfig_def getCollateralDeposit_def collateral_config_fields_def collateral_deposit_fields_def pool_config_fields_def token_totals_fields_def withdrawal_request_fields_def)

lemma market_reads:
  assumes "honest env" "in_u 64 i" "in_u 32 m" "role \<in> set roles"
  shows "reads_exactly env SIM_SOURCE SecondaryMarketC ''estimate_withdrawal_wait'' [ScAddress a, ScAddress b] (Opt wait_estimate_fields) (estimateWithdrawalWait env a b)"
    and "reads_exactly env SIM_SOURCE SecondaryMarketC ''get_liquidity_forecast'' [ScAddress b, ScU32 m] (Many forecast_fields) (getLiquidityForecast env b m)"
    and "reads_exactly env SIM_SOURCE SecondaryMarketC ''get_listing'' [ScU64 i] (Opt listing_fields) (getListing env i)"
    and "reads_exactly env SIM_SOURCE SecondaryMarketC ''list_listings_for_invoice'' [ScU64 i] (Each ToNumber) (listListingsForInvoice env i)"
    and "reads_exactly env SIM_SOURCE SecondaryMarketC ''list_listings_for_investor'' [ScAddress a] (Each ToNumber) (listListingsForInvestor env a)"
    and "reads_exactly env SIM_SOURCE SecondaryMarketC ''get_order'' [ScU64 i] (Opt order_fields) (getOrder env i)"
    and "reads_exactly env SIM_SOURCE SecondaryMarketC ''list_orders_for_owner'' [ScAddress a] (Each ToNumber) (listOrdersForOwner env a)"
  using assms by (auto simp: read_simps estimateWithdrawalWait_def getLiquidityForecast_def getListing_def listListingsForInvoice_def listListingsForInvestor_def getOrder_def listOrdersForOwner_def forecast_fields_def listing_fields_def order_fields_def wait_estimate_fields_def listingFromRaw_def orderFromRaw_def)

lemma auction_reads:
  assumes "honest env" "in_u 64 i" "in_u 32 m" "role \<in> set roles"
  shows "reads_exactly env SIM_SOURCE AuctionC ''get_at_risk_since'' [ScU64 i] (Plain (NumberOrElse JNull)) (getAtRiskSince env i)"
    and "reads_exactly env SIM_SOURCE AuctionC ''get_live_collateral_ratio'' [ScU64 i] (Plain ToNumber) (getLiveCollateralRatio env i)"
    and "reads_exactly env SIM_SOURCE AuctionC ''get_collateral_risk_config'' [] (One collateral_risk_fields) (getCollateralRiskConfig env)"
  using assms by (auto simp: read_simps getAtRiskSince_def getLiveCollateralRatio_def getCollateralRiskConfig_def collateral_risk_fields_def)

lemma credit_score_reads:
  assumes "honest env" "in_u 64 i" "in_u 32 m" "role \<in> set roles"
  shows "reads_exactly env SIM_SOURCE CreditScoreC ''get_attestation'' [ScU64 i] (Opt attestation_fields) (getAttestation env i)"
    and "reads_exactly env a CreditScoreC ''list_sme_attestations'' [ScAddress a] (Many attestation_fields) (listSmeAttestations env a)"
    and "reads_exactly env a CreditScoreC ''get_attestor_info'' [ScAddress a] (Opt attestor_fields) (getAttestorInfo env a)"
    and "reads_exactly env SIM_SOURCE CreditScoreC ''list_active_attestors'' [] (Many attestor_fields) (listActiveAttestors env)"
  using assms by (auto simp: read_simps getAttestation_def listSmeAttestations_def getAttestorInfo_def listActiveAttestors_def attestation_fields_def attestor_fields_def attestationFromScVal_def attestorInfoFromScVal_def)

lemma oracle_registry_reads:
  assumes "honest env" "in_u 64 i" "in_u 32 m" "role \<in> set roles"
  shows "reads_exactly env SIM_SOURCE OracleRegistryC ''get_registry_config'' [] (One registry_config_fields) (ContractReads.getRegistryConfig env)"
    and "reads_exactly env SIM_SOURCE OracleRegistryC ''list_active_oracles'' [] (Plain (AsIsOr (JArr []))) (listActiveOracles env)"
    and "reads_exactly env SIM_SOURCE OracleRegistryC ''get_oracle_info'' [ScAddress a] (Opt oracle_fields) (ContractReads.getOracleInfo env a)"
  using assms by (auto simp: read_simps ContractReads.getRegistryConfig_def listActiveOracles_def ContractReads.getOracleInfo_def oracle_fields_def registry_config_fields_def)

lemma arbitration_reads:
  assumes "honest env" "in_u 64 i" "in_u 32 m" "role \<in> set roles"
  shows "reads_exactly env SIM_SOURCE ArbitrationC ''get_juror'' [ScAddress a] (Opt juror_fields) (getJurorInfo env a)"
    and "reads_exactly env SIM_SOURCE ArbitrationC ''list_active_jurors'' [] (Plain (AsIsOr (JArr []))) (listActiveJurors env)"
    and "reads_exactly env SIM_SOURCE ArbitrationC ''get_juror_cases'' [ScAddress a] (Each ToNumber) (getJurorCases env a)"
    and "reads_exactly env SIM_SOURCE ArbitrationC ''get_vote'' [ScU64 i, ScAddress a] (Opt vote_status_fields) (getJurorVoteStatus env i a)"
    and "reads_exactly env SIM_SOURCE ArbitrationC ''get_config'' [] (One arbitration_config_fields) (getArbitrationConfig env)"
  using assms by (auto simp: read_simps getJurorInfo_def listActiveJurors_def getJurorCases_def getJurorVoteStatus_def getArbitrationConfig_def arbitration_config_fields_def juror_fields_def vote_status_fields_def)

lemma referral_reads:
  assumes "honest env" "in_u 64 i" "in_u 32 m" "role \<in> set roles"
  shows "reads_exactly env SIM_SOURCE ReferralC ''get_stats'' [ScAddress a] (One referral_fields) (getReferralStats env a)"
  using assms by (auto simp: read_simps getReferralStats_def referral_fields_def)

lemma insurance_reads:
  assumes "honest env" "in_u 64 i" "in_u 32 m" "role \<in> set roles"
  shows "reads_exactly env SIM_SOURCE InsuranceC ''get_coverage_record'' [ScU64 i] (Opt coverage_fields) (getCoverageRecord env i)"
    and "reads_exactly env SIM_SOURCE InsuranceC ''get_claim_history'' [ScU64 i] (Many claim_fields) (getClaimHistory env i)"
    and "reads_exactly env SIM_SOURCE InsuranceC ''get_reserve_status'' [ScAddress b] (One reserve_fields) (getReserveStatus env b)"
    and "reads_exactly env SIM_SOURCE InsuranceC ''check_reserve_health'' [ScAddress b] (One reserve_health_fields) (checkReserveHealth env b)"
    and "reads_exactly env SIM_SOURCE InsuranceC ''get_min_reserve_amount'' [ScAddress b] (Plain ToBig) (getMinReserveAmount env b)"
  using assms by (auto simp: read_simps getCoverageRecord_def getClaimHistory_def getReserveStatus_def checkReserveHealth_def getMinReserveAmount_def claim_fields_def coverage_fields_def reserve_fields_def reserve_health_fields_def coverageRecordFromRaw_def claimHistoryItemFromRaw_def reserveFundFromRaw_def reserveHealthFromRaw_def)

lemma access_control_reads:
  assumes "honest env" "in_u 64 i" "in_u 32 m" "role \<in> set roles"
  shows "reads_exactly env SIM_SOURCE AccessControlC ''get_role_config'' [roleToScVal role] (Opt role_config_fields) (getRoleConfig env role)"
    and "reads_exactly env SIM_SOURCE AccessControlC ''is_signer'' [roleToScVal role, ScAddress a] (Plain ToBool) (isRoleSigner env role a)"
    and "reads_exactly env SIM_SOURCE AccessControlC ''get_next_proposal_id'' [] (Plain ToNumber) (getNextProposalId env)"
  using assms by (auto simp: read_simps getRoleConfig_def isRoleSigner_def getNextProposalId_def role_config_fields_def roles_def roleToScVal_def)


definition example_totals :: js where
  "example_totals = JObj [(''pool_value'', JBigInt 1000), (''protocol_revenue'', JBigInt 3), (''reward_per_share'', JBigInt 0), (''total_deployed'', JBigInt 400), (''total_fee_revenue'', JBigInt 7), (''total_paid_out'', JBigInt 55)]"

definition totals_chain :: chain where
  "totals_chain = example_chain\<lparr>ch_simulate := (\<lambda>source c meth args.
     if c = PoolC \<and> meth = ''get_token_totals'' then Inr (SimReturn example_totals) else Inr (SimFailure host_refusal))\<rparr>"

lemma totals_chain_honest: "honest totals_chain"
  by (simp add: honest_def totals_chain_def returns_def abi_tables example_totals_def shaped_base_def in_i_def)


section \<open>Reads that cannot succeed\<close>

lemma honest_return: "honest env \<Longrightarrow> simulateCall env c meth args source = Inr (SimReturn v) \<Longrightarrow> returns c meth v"
  by (auto simp: simulateCall_def honest_def split: sum.splits option.splits)

lemma read_from_cases:
  obtains e where "read_from env source c meth args f = Inl e"
  | v where "simulateCall env c meth args source = Inr (SimReturn v)" "read_from env source c meth args f = f v"
  by (cases "simulateCall env c meth args source"; cases "projr (simulateCall env c meth args source)")
    (auto simp: read_from_def then_result_def retval_def)

lemma read_from_Inr:
  "read_from env source c meth args f = Inr r \<longleftrightarrow> (\<exists>v. simulateCall env c meth args source = Inr (SimReturn v) \<and> f v = Inr r)"
  by (auto simp: read_from_def then_result_def retval_def split: sum.splits sim_answer.splits)

lemma unexported_read_fails:
  assumes "honest env" "abi_of c = Some (D, fns)" "entry_of fns meth = None"
  shows "\<exists>e. read_from env source c meth args f = Inl e"
proof (cases rule: read_from_cases [of env source c meth args f])
  case (2 v)
  thus ?thesis using honest_return [OF assms(1) 2(1)] assms(2,3) by (simp add: returns_def)
qed blast

lemma refused_read: "\<not> call_ok c meth args \<Longrightarrow> \<exists>e. read_from (typed_chain env) source c meth args f = Inl e"
  by (simp add: read_from_def simulateCall_def then_result_def retval_def split: sum.split option.split)

lemma committed_missing: "shaped pool_types v (TNamed ''FundedInvoice'') \<Longrightarrow> js_prop v ''committed'' = JUndefined"
  by (rule shaped_struct_missing) (auto simp: abi_tables)

lemma funded_invoice_fails: "js_prop v ''committed'' = JUndefined \<Longrightarrow> \<exists>e. decode_object funded_invoice_fields v = Inl e"
  by (auto simp: decode_object_def funded_invoice_fields_def js_to_BigInt_def split: sum.split)



section \<open>Reads that return something else\<close>

lemma decode_fields_lookup:
  "decode_fields fs v = Inr kvs \<Longrightarrow> map_of fs k = Some (f, c) \<Longrightarrow> \<exists>x. coerce c (js_prop v f) = Inr x \<and> map_of kvs k = Some x"
  by (induction fs v arbitrary: kvs rule: decode_fields.induct) (auto split: sum.splits if_splits)

lemma decode_object_field:
  assumes "decode_object fs v = Inr r" "map_of fs k = Some (f, AsIs)"
  shows "js_prop r k = js_prop v f"
  using assms decode_fields_lookup [OF _ assms(2)] by (auto simp: decode_object_def split: sum.splits if_splits)

lemma shaped_object: "shaped D v (TNamed n) \<Longrightarrow> entry_of D n = Some (Struct ts) \<Longrightarrow> \<exists>kvs. v = JObj kvs"
  by (metis shaped_struct)

lemma enum_field_wrapped:
  assumes "honest env" "abi_of c = Some (D, fns)" "entry_of fns meth = Some (ts, TOption (TNamed n))"
    and "entry_of D n = Some (Struct fts)" "entry_of fts f = Some (TNamed e)" "entry_of D e = Some (Variants cs)"
    and "map_of fs k = Some (f, AsIs)" "read_from env source c meth args (decode_or_null (decode_object fs)) = Inr r" "r \<noteq> JNull"
  shows "\<exists>tag vs. js_prop r k = JArr (JStr tag # vs)"
proof (cases rule: read_from_cases [of env source c meth args "decode_or_null (decode_object fs)"])
  case (2 v)
  have r: "decode_object fs v = Inr r" "v \<noteq> JNull" using 2(2) assms(8,9) by (auto simp: decode_or_null_def split: if_splits)
  have "shaped D v (TNamed n)" using honest_return [OF assms(1) 2(1)] assms(2,3) r(2) by (simp add: returns_def)
  hence "shaped D (js_prop v f) (TNamed e)" by (rule shaped_struct_field [OF assms(4) _ assms(5)])
  hence "\<exists>tag vs. js_prop v f = JArr (JStr tag # vs)" by (rule shaped_variant [OF assms(6)])
  thus ?thesis using decode_object_field [OF r(1) assms(7)] by simp
qed (use assms(8) in simp)

definition wrapped :: "js result \<Rightarrow> string \<Rightarrow> bool" where
  "wrapped res k = (case res of Inr r \<Rightarrow> r = JNull \<or> is_array (js_prop r k) | Inl _ \<Rightarrow> True)"

text \<open>Whether a field that is passed on as it is holds an enum.\<close>

definition wraps :: "contract \<Rightarrow> string \<Rightarrow> field list \<Rightarrow> string \<Rightarrow> bool" where
  "wraps c meth fs k = (\<exists>D fns f ts n fts e cs. abi_of c = Some (D, fns) \<and> map_of fs k = Some (f, AsIs)
     \<and> entry_of fns meth = Some (ts, TOption (TNamed n)) \<and> entry_of D n = Some (Struct fts)
     \<and> entry_of fts f = Some (TNamed e) \<and> entry_of D e = Some (Variants cs))"

lemma wraps_wrapped:
  assumes "honest env" "wraps c meth fs k"
  shows "wrapped (read_from env source c meth args (decode_or_null (decode_object fs))) k"
proof -
  obtain D fns f ts n fts e cs where w: "abi_of c = Some (D, fns)" "map_of fs k = Some (f, AsIs)" "entry_of fns meth = Some (ts, TOption (TNamed n))"
      "entry_of D n = Some (Struct fts)" "entry_of fts f = Some (TNamed e)" "entry_of D e = Some (Variants cs)"
    using assms(2) unfolding wraps_def by blast
  show ?thesis using enum_field_wrapped [OF assms(1) w(1,3,4,5,6,2)] by (force simp: wrapped_def split: sum.split)
qed

lemma order_level_nan: "shaped secondary_market_types v (TNamed ''OrderBookLevel'') \<Longrightarrow> coerce ToNumber v = Inr (JNum NNaN)"
  using shaped_object [of secondary_market_types v "''OrderBookLevel''"] by (auto simp: abi_tables to_Number_def js_Number_def)

lemma map_levels_nan:
  assumes "shaped secondary_market_types v (TVec (TNamed ''OrderBookLevel''))"
  shows "map_or_empty as_number v = Inr (JArr (replicate (length (array_elems v)) (JNum NNaN)))"
  using decode_list(2) [OF assms, of "coerce ToNumber" "\<lambda>_. JNum NNaN"] order_level_nan
  by (simp add: as_coerce map_replicate_const)

lemma shaped_pair: "shaped D v (TTuple [s, t]) \<Longrightarrow> \<exists>x y. v = JArr [x, y] \<and> shaped D x s \<and> shaped D y t"
  by (cases v) (auto simp: shaped_base_def elim!: shaped_all.elims)

lemma order_book_nan:
  assumes "honest env"
  shows "case getOrderBook env i kind of Inl e \<Rightarrow> True
    | Inr r \<Rightarrow> \<exists>n m. r = JObj [(''bidIds'', JArr (replicate n (JNum NNaN))), (''askIds'', JArr (replicate m (JNum NNaN)))]"
proof (cases "getOrderBook env i kind")
  case (Inr r)
  then obtain v where v: "simulateCall env SecondaryMarketC ''get_order_book'' [ScU64 i, listingKindToScVal kind] SIM_SOURCE = Inr (SimReturn v)"
    and r: "(case v of
        JArr xs \<Rightarrow> then_result (map_or_empty as_number (elem_at xs 0)) (\<lambda>bids.
                   then_result (map_or_empty as_number (elem_at xs 1)) (\<lambda>asks. Inr (JObj [(''bidIds'', bids), (''askIds'', asks)])))
      | _ \<Rightarrow> Inr (JObj [(''bidIds'', JArr []), (''askIds'', JArr [])])) = Inr r"
    unfolding getOrderBook_def read_call_def read_from_Inr by blast
  have "shaped secondary_market_types v (TTuple [TVec (TNamed ''OrderBookLevel''), TVec (TNamed ''OrderBookLevel'')])"
    using honest_return [OF assms v] by (simp add: returns_def abi_tables)
  from shaped_pair [OF this] show ?thesis using r Inr by (auto simp: elem_at_def map_levels_nan then_result_def)
qed simp

text \<open>
  Where the reads of the frontend misreport the answer.  The ids of an order book are never
  numbers: the contract returns a struct per order, and each is coerced to NaN.  The status of a
  co-funding round, of a verification round, of an arbitration case, and the outcome of a
  dispute keep the array the library decodes an enum into, so that they are equal to
  none of the texts the pages compare them with.
\<close>

theorem frontend_reads_misreported:
  assumes "honest env"
  shows "wrapped (getCoFundingRound env i) ''status'' \<and> wrapped (getVerificationRound env i) ''status''
    \<and> wrapped (getDispute env i) ''outcome'' \<and> wrapped (getArbitrationCase env i) ''status''
    \<and> wrapped (getArbitrationCaseByInvoice env i) ''status''
    \<and> (case getOrderBook env i kind of Inl e \<Rightarrow> True
        | Inr r \<Rightarrow> \<exists>n m. r = JObj [(''bidIds'', JArr (replicate n (JNum NNaN))), (''askIds'', JArr (replicate m (JNum NNaN)))])"
proof -
  have enums: "wrapped (getCoFundingRound env i) ''status''" "wrapped (getVerificationRound env i) ''status''"
    "wrapped (getDispute env i) ''outcome''" "wrapped (getArbitrationCase env i) ''status''" "wrapped (getArbitrationCaseByInvoice env i) ''status''"
    using assms by (simp_all add: getCoFundingRound_def coFundingRoundFromScVal_def co_funding_fields_def
      getVerificationRound_def round_fields_def getDispute_def dispute_fields_def getArbitrationCase_def getArbitrationCaseByInvoice_def
      decodeArbitrationCase_def case_fields_def read_call_def wraps_wrapped wraps_def abi_tables)
  show ?thesis using enums order_book_nan [OF assms] by simp
qed

end
