(* ===== verification/Cache.thy ===== *)
theory Cache
  imports ContractAnswers IndexerApi RpcPool
begin

text \<open>
  The data hooks of the pages (\<open>frontend/lib/cache.ts\<close>).  A hook names a cache entry by its key and gives
  the function that fills it; a mutation submits a signed transaction and names the entries to fetch
  anew.  The cache itself is the SWR library, so a hook is modelled by what it hands to it: the key with
  the fetched value, and the refresh settings.  A hook whose argument is missing hands over no key, and
  the library fetches nothing.
\<close>

section \<open>Settings\<close>

record SWRCacheEntry =
  refreshInterval :: nat
  revalidateOnFocus :: bool
  revalidateOnReconnect :: bool
  dedupingInterval :: nat

definition ttl_poolConfig :: nat where "ttl_poolConfig = 5 * 60000"
definition ttl_invoiceStatus :: nat where "ttl_invoiceStatus = 15000"
definition ttl_creditScore :: nat where "ttl_creditScore = 60000"
definition ttl_walletBalance :: nat where "ttl_walletBalance = 30000"

definition cache_entry :: "nat \<Rightarrow> SWRCacheEntry" where
  "cache_entry ttl = \<lparr>refreshInterval = ttl, revalidateOnFocus = True, revalidateOnReconnect = True, dedupingInterval = ttl\<rparr>"

definition CACHE_CONFIG :: "SWRCacheEntry dict" where
  "CACHE_CONFIG =
     [(''poolConfig'', cache_entry ttl_poolConfig),
      (''invoiceCount'', cache_entry ttl_invoiceStatus),
      (''invoice'', cache_entry ttl_invoiceStatus),
      (''position'', cache_entry ttl_invoiceStatus),
      (''tokens'', cache_entry ttl_creditScore),
      (''tokenTotals'', cache_entry ttl_walletBalance),
      (''fundedInvoice'', cache_entry ttl_invoiceStatus),
      (''referral'', cache_entry ttl_creditScore),
      (''coFundingRounds'', cache_entry ttl_invoiceStatus),
      (''coFundingPositions'', cache_entry ttl_invoiceStatus),
      (''secondaryMarketListings'', cache_entry ttl_invoiceStatus)]"

section \<open>Keys, values and hooks\<close>

datatype key_part = KStr string | KNum int
datatype cache_key = Single string | Parts "key_part list"

text \<open>The module has a \<open>ContractError\<close> of its own, which keeps the message only.\<close>

datatype cache_error = Cache_error (message: string)

type_synonym fetched = "cache_error + js"

record hook =
  hk_request :: "(cache_key \<times> fetched) option"
  hk_config :: "SWRCacheEntry option"

record page_env =
  pe_chain :: chain
  pe_mock :: "(string \<Rightarrow> js result) option"
  pe_indexer :: "string \<Rightarrow> (nat \<times> js) result"

definition fetcher :: "js result \<Rightarrow> fetched" where
  "fetcher r = (case r of Inl e \<Rightarrow> Inl (Cache_error (error_message e)) | Inr v \<Rightarrow> Inr v)"

definition useSWR :: "cache_key \<Rightarrow> js result \<Rightarrow> string \<Rightarrow> hook" where
  "useSWR key r resource = \<lparr>hk_request = Some (key, fetcher r), hk_config = map_of CACHE_CONFIG resource\<rparr>"

definition idle :: "string \<Rightarrow> hook" where
  "idle resource = \<lparr>hk_request = None, hk_config = map_of CACHE_CONFIG resource\<rparr>"

text \<open>\<open>s ? ... : null\<close> on an argument that may be \<open>null\<close>: the empty text is falsy too.\<close>

definition given :: "string option \<Rightarrow> bool" where
  "given s = (case s of None \<Rightarrow> False | Some t \<Rightarrow> t \<noteq> [])"

section \<open>Reads\<close>

definition usePoolConfig :: "page_env \<Rightarrow> hook" where
  "usePoolConfig pe = useSWR (Single ''pool-config'') (getPoolConfig (pe_chain pe)) ''poolConfig''"

definition useAcceptedTokens :: "page_env \<Rightarrow> hook" where
  "useAcceptedTokens pe = useSWR (Single ''accepted-tokens'') (getAcceptedTokens (pe_chain pe)) ''tokens''"

definition useInvoiceCount :: "page_env \<Rightarrow> hook" where
  "useInvoiceCount pe = useSWR (Single ''invoice-count'') (getInvoiceCount (pe_chain pe)) ''invoiceCount''"

definition useInvoice :: "page_env \<Rightarrow> int option \<Rightarrow> hook" where
  "useInvoice pe i = (case i of None \<Rightarrow> idle ''invoice''
    | Some n \<Rightarrow> useSWR (Parts [KStr ''invoice'', KNum n]) (getInvoice (pe_mock pe) (pe_chain pe) n) ''invoice'')"

definition useInvoiceMetadata :: "page_env \<Rightarrow> int option \<Rightarrow> hook" where
  "useInvoiceMetadata pe i = (case i of None \<Rightarrow> idle ''invoice''
    | Some n \<Rightarrow> useSWR (Parts [KStr ''invoice-metadata'', KNum n]) (getInvoiceMetadata (pe_chain pe) n) ''invoice'')"

definition useInvestorPosition :: "page_env \<Rightarrow> string option \<Rightarrow> string option \<Rightarrow> hook" where
  "useInvestorPosition pe investor token = (if given investor \<and> given token
     then useSWR (Parts [KStr ''position'', KStr (the investor), KStr (the token)])
            (getInvestorPosition (pe_chain pe) (the investor) (the token)) ''position''
     else idle ''position'')"

definition usePoolTokenTotals :: "page_env \<Rightarrow> string option \<Rightarrow> hook" where
  "usePoolTokenTotals pe token = (if given token
     then useSWR (Parts [KStr ''token-totals'', KStr (the token)]) (getPoolTokenTotals (pe_chain pe) (the token)) ''tokenTotals''
     else idle ''tokenTotals'')"

definition useFundedInvoice :: "page_env \<Rightarrow> int option \<Rightarrow> hook" where
  "useFundedInvoice pe i = (case i of None \<Rightarrow> idle ''fundedInvoice''
    | Some n \<Rightarrow> useSWR (Parts [KStr ''funded-invoice'', KNum n]) (getFundedInvoice (pe_chain pe) n) ''fundedInvoice'')"

definition useReferrer :: "page_env \<Rightarrow> string option \<Rightarrow> hook" where
  "useReferrer pe referee = (if given referee
     then useSWR (Parts [KStr ''referrer'', KStr (the referee)]) (getReferrer (pe_chain pe) (the referee)) ''referral''
     else idle ''referral'')"

definition useReferralStats :: "page_env \<Rightarrow> string option \<Rightarrow> hook" where
  "useReferralStats pe referrer = (if given referrer
     then useSWR (Parts [KStr ''referral-stats'', KStr (the referrer)]) (getReferralStats (pe_chain pe) (the referrer)) ''referral''
     else idle ''referral'')"

text \<open>An id list is read first, then one object per id; the ones that are \<open>null\<close> are left out.  The ids are
  numbers of the language, and a call with one that is not an integer raises when it is encoded.\<close>

definition read_by_id :: "(int \<Rightarrow> js result) \<Rightarrow> js \<Rightarrow> js result" where
  "read_by_id rd v = then_result (js_to_BigInt v) (\<lambda>b. case b of JBigInt n \<Rightarrow> rd n | _ \<Rightarrow> Inr JNull)"

definition hydrate :: "(int \<Rightarrow> js result) \<Rightarrow> js list \<Rightarrow> js result" where
  "hydrate rd ids = (case map_js (read_by_id rd) ids of
      Inl e \<Rightarrow> Inl e
    | Inr objects \<Rightarrow> Inr (JArr (filter (\<lambda>v. v \<noteq> JNull) objects)))"

definition hydrateListings :: "chain \<Rightarrow> js list \<Rightarrow> js result" where
  "hydrateListings env ids = hydrate (getListing env) ids"

definition hydrateOrders :: "chain \<Rightarrow> js list \<Rightarrow> js result" where
  "hydrateOrders env ids = hydrate (getOrder env) ids"

definition useCoFundingRounds :: "page_env \<Rightarrow> hook" where
  "useCoFundingRounds pe = useSWR (Single ''co-funding-rounds'')
     (then_result (listCoFundingRounds (pe_chain pe)) (\<lambda>ids. hydrate (getCoFundingRound (pe_chain pe)) (array_elems ids))) ''coFundingRounds''"

definition useCoFundingPositions :: "page_env \<Rightarrow> string option \<Rightarrow> hook" where
  "useCoFundingPositions pe investor = (if given investor
     then useSWR (Parts [KStr ''co-funding-positions'', KStr (the investor)])
            (getInvestorCoFundPositions (pe_chain pe) (the investor)) ''coFundingPositions''
     else idle ''coFundingPositions'')"

definition fetchListingIds :: "page_env \<Rightarrow> string \<Rightarrow> js list result" where
  "fetchListingIds pe path = then_result (pe_indexer pe path) (\<lambda>(status, data).
     if \<not> (200 \<le> status \<and> status < 300) then Inl (GenericError (''Indexer error: '' @ show_nat status))
     else if data = JNull \<or> data = JUndefined then Inl (TypeError ''Cannot read properties of null (reading listingIds)'')
     else (case js_coalesce (js_prop data ''listingIds'') (JArr []) of
         JArr ids \<Rightarrow> map_js (coerce ToNumber) ids
       | _ \<Rightarrow> Inl (TypeError ''(data.listingIds ?? []).map is not a function'')))"

definition useOpenListings :: "page_env \<Rightarrow> hook" where
  "useOpenListings pe = useSWR (Single ''secondary-market-open-listings'')
     (then_result (fetchListingIds pe ''/secondary-market/listings/open'') (hydrateListings (pe_chain pe))) ''secondaryMarketListings''"

definition useMyListings :: "page_env \<Rightarrow> string option \<Rightarrow> hook" where
  "useMyListings pe seller = (if given seller
     then useSWR (Parts [KStr ''secondary-market-my-listings'', KStr (the seller)])
            (then_result (listListingsForInvestor (pe_chain pe) (the seller)) (\<lambda>ids. hydrateListings (pe_chain pe) (array_elems ids)))
            ''secondaryMarketListings''
     else idle ''secondaryMarketListings'')"

definition useOrderBook :: "page_env \<Rightarrow> int option \<Rightarrow> string option \<Rightarrow> hook" where
  "useOrderBook pe i kind = (if i \<noteq> None \<and> given kind
     then useSWR (Parts [KStr ''secondary-market-order-book'', KNum (the i), KStr (the kind)])
            (then_result (getOrderBook (pe_chain pe) (the i) (the kind))
               (\<lambda>book. Inr (JObj [(''bids'', js_prop book ''bids''), (''asks'', js_prop book ''asks'')])))
            ''secondaryMarketListings''
     else idle ''secondaryMarketListings'')"

definition useMyOrders :: "page_env \<Rightarrow> string option \<Rightarrow> hook" where
  "useMyOrders pe owner = (if given owner
     then useSWR (Parts [KStr ''secondary-market-my-orders'', KStr (the owner)])
            (then_result (listOrdersForOwner (pe_chain pe) (the owner)) (\<lambda>ids. hydrateOrders (pe_chain pe) (array_elems ids)))
            ''secondaryMarketListings''
     else idle ''secondaryMarketListings'')"

section \<open>Mutations\<close>

text \<open>What a submission depends on: the hash of the decoded envelope, the answers of the server, and the
  submissions in progress.\<close>

record submit_env =
  se_key :: "string \<Rightarrow> string result"
  se_send :: "nat \<Rightarrow> send_response result"
  se_poll :: "nat \<Rightarrow> nat \<Rightarrow> string result"
  se_pending :: "string list"

record mutation =
  mu_key :: string
  mu_run :: "submit_env \<Rightarrow> string \<Rightarrow> string result"
  mu_onSuccess :: "cache_key list"

definition submit_signed :: "submit_env \<Rightarrow> string \<Rightarrow> string result" where
  "submit_signed se signedXdr = fst (RpcPool.submitTx (se_key se signedXdr) (se_send se) (se_poll se) (se_pending se))"

definition registerReferralMutation :: "submit_env \<Rightarrow> string \<Rightarrow> string result" where
  "registerReferralMutation se signedXdr = submit_signed se signedXdr"

definition useRegisterReferral :: "string \<Rightarrow> mutation" where
  "useRegisterReferral referee = \<lparr>mu_key = ''register-referral'', mu_run = registerReferralMutation,
     mu_onSuccess = [Parts [KStr ''referrer'', KStr referee]]\<rparr>"

definition depositMutation :: "submit_env \<Rightarrow> string \<Rightarrow> string result" where
  "depositMutation se signedXdr = submit_signed se signedXdr"

definition useDeposit :: "string \<Rightarrow> string \<Rightarrow> mutation" where
  "useDeposit investor token = \<lparr>mu_key = ''deposit'', mu_run = depositMutation,
     mu_onSuccess = [Parts [KStr ''position'', KStr investor, KStr token], Parts [KStr ''token-totals'', KStr token]]\<rparr>"

definition withdrawMutation :: "submit_env \<Rightarrow> string \<Rightarrow> string result" where
  "withdrawMutation se signedXdr = submit_signed se signedXdr"

definition useWithdraw :: "string \<Rightarrow> string \<Rightarrow> mutation" where
  "useWithdraw investor token = \<lparr>mu_key = ''withdraw'', mu_run = withdrawMutation, mu_onSuccess = []\<rparr>"

definition commitMutation :: "submit_env \<Rightarrow> string \<Rightarrow> string result" where
  "commitMutation se signedXdr = submit_signed se signedXdr"

definition useCommitToInvoice :: "string \<Rightarrow> int \<Rightarrow> mutation" where
  "useCommitToInvoice investor invoiceId = \<lparr>mu_key = ''commit'', mu_run = commitMutation, mu_onSuccess = []\<rparr>"

definition createInvoiceMutation :: "submit_env \<Rightarrow> string \<Rightarrow> string result" where
  "createInvoiceMutation se signedXdr = submit_signed se signedXdr"

definition useCreateInvoice :: mutation where
  "useCreateInvoice = \<lparr>mu_key = ''create-invoice'', mu_run = createInvoiceMutation, mu_onSuccess = []\<rparr>"

definition markDefaultedMutation :: "submit_env \<Rightarrow> string \<Rightarrow> string result" where
  "markDefaultedMutation se signedXdr = submit_signed se signedXdr"

definition useMarkDefaulted :: "string \<Rightarrow> int \<Rightarrow> mutation" where
  "useMarkDefaulted admin invoiceId = \<lparr>mu_key = ''mark-defaulted'', mu_run = markDefaultedMutation, mu_onSuccess = []\<rparr>"

definition initCoFundingMutation :: "submit_env \<Rightarrow> string \<Rightarrow> string result" where
  "initCoFundingMutation se signedXdr = submit_signed se signedXdr"

definition useInitCoFunding :: "string \<Rightarrow> int \<Rightarrow> mutation" where
  "useInitCoFunding admin invoiceId = \<lparr>mu_key = ''init-cofunding'', mu_run = initCoFundingMutation, mu_onSuccess = []\<rparr>"

definition setYieldMutation :: "submit_env \<Rightarrow> string \<Rightarrow> string result" where
  "setYieldMutation se signedXdr = submit_signed se signedXdr"

definition useSetYield :: "string \<Rightarrow> mutation" where
  "useSetYield admin = \<lparr>mu_key = ''set-yield'', mu_run = setYieldMutation, mu_onSuccess = [Single ''pool-config'']\<rparr>"

text \<open>A triggered mutation: the library calls \<open>onSuccess\<close> when the submission returned.\<close>

definition trigger :: "mutation \<Rightarrow> submit_env \<Rightarrow> string \<Rightarrow> string result \<times> cache_key list" where
  "trigger m se signedXdr = (let r = mu_run m se signedXdr in (r, case r of Inl _ \<Rightarrow> [] | Inr _ \<Rightarrow> mu_onSuccess m))"

definition getInvoiceCacheKeys :: "int option \<Rightarrow> cache_key list" where
  "getInvoiceCacheKeys invoiceId = Single ''invoice-count'' #
     (case invoiceId of None \<Rightarrow> []
      | Some n \<Rightarrow> [Parts [KStr ''invoice'', KNum n], Parts [KStr ''invoice-metadata'', KNum n], Parts [KStr ''funded-invoice'', KNum n]])"

definition getPositionCacheKeys :: "string option \<Rightarrow> string option \<Rightarrow> cache_key list" where
  "getPositionCacheKeys investor token = (if given investor \<and> given token
     then [Parts [KStr ''position'', KStr (the investor), KStr (the token)], Parts [KStr ''token-totals'', KStr (the token)]] else [])"

section \<open>All queries of the pages\<close>

datatype query =
    QPoolConfig | QAcceptedTokens | QInvoiceCount | QInvoice int | QInvoiceMetadata int | QPosition string string | QTokenTotals string
  | QFundedInvoice int | QReferrer string | QReferralStats string | QCoFundingRounds | QCoFundingPositions string
  | QOpenListings | QMyListings string | QOrderBook int string | QMyOrders string

fun hook_of :: "page_env \<Rightarrow> query \<Rightarrow> hook" where
  "hook_of pe QPoolConfig = usePoolConfig pe"
| "hook_of pe QAcceptedTokens = useAcceptedTokens pe"
| "hook_of pe QInvoiceCount = useInvoiceCount pe"
| "hook_of pe (QInvoice n) = useInvoice pe (Some n)"
| "hook_of pe (QInvoiceMetadata n) = useInvoiceMetadata pe (Some n)"
| "hook_of pe (QPosition a t) = useInvestorPosition pe (Some a) (Some t)"
| "hook_of pe (QTokenTotals t) = usePoolTokenTotals pe (Some t)"
| "hook_of pe (QFundedInvoice n) = useFundedInvoice pe (Some n)"
| "hook_of pe (QReferrer a) = useReferrer pe (Some a)"
| "hook_of pe (QReferralStats a) = useReferralStats pe (Some a)"
| "hook_of pe QCoFundingRounds = useCoFundingRounds pe"
| "hook_of pe (QCoFundingPositions a) = useCoFundingPositions pe (Some a)"
| "hook_of pe QOpenListings = useOpenListings pe"
| "hook_of pe (QMyListings a) = useMyListings pe (Some a)"
| "hook_of pe (QOrderBook n k) = useOrderBook pe (Some n) (Some k)"
| "hook_of pe (QMyOrders a) = useMyOrders pe (Some a)"

definition key_of :: "page_env \<Rightarrow> query \<Rightarrow> cache_key option" where
  "key_of pe q = map_option fst (hk_request (hook_of pe q))"

lemmas hook_defs = usePoolConfig_def useAcceptedTokens_def useInvoiceCount_def useInvoice_def useInvoiceMetadata_def
  useInvestorPosition_def usePoolTokenTotals_def useFundedInvoice_def useReferrer_def useReferralStats_def useCoFundingRounds_def
  useCoFundingPositions_def useOpenListings_def useMyListings_def useOrderBook_def useMyOrders_def useSWR_def idle_def given_def

section \<open>Lemmas\<close>

lemma key_of_simps [simp]:
  "key_of pe QPoolConfig = Some (Single ''pool-config'')"
  "key_of pe QAcceptedTokens = Some (Single ''accepted-tokens'')"
  "key_of pe QInvoiceCount = Some (Single ''invoice-count'')"
  "key_of pe (QInvoice n) = Some (Parts [KStr ''invoice'', KNum n])"
  "key_of pe (QInvoiceMetadata n) = Some (Parts [KStr ''invoice-metadata'', KNum n])"
  "key_of pe (QPosition a t) = (if a \<noteq> [] \<and> t \<noteq> [] then Some (Parts [KStr ''position'', KStr a, KStr t]) else None)"
  "key_of pe (QTokenTotals t) = (if t \<noteq> [] then Some (Parts [KStr ''token-totals'', KStr t]) else None)"
  "key_of pe (QFundedInvoice n) = Some (Parts [KStr ''funded-invoice'', KNum n])"
  "key_of pe (QReferrer a) = (if a \<noteq> [] then Some (Parts [KStr ''referrer'', KStr a]) else None)"
  "key_of pe (QReferralStats a) = (if a \<noteq> [] then Some (Parts [KStr ''referral-stats'', KStr a]) else None)"
  "key_of pe QCoFundingRounds = Some (Single ''co-funding-rounds'')"
  "key_of pe (QCoFundingPositions a) = (if a \<noteq> [] then Some (Parts [KStr ''co-funding-positions'', KStr a]) else None)"
  "key_of pe QOpenListings = Some (Single ''secondary-market-open-listings'')"
  "key_of pe (QMyListings a) = (if a \<noteq> [] then Some (Parts [KStr ''secondary-market-my-listings'', KStr a]) else None)"
  "key_of pe (QOrderBook n k) = (if k \<noteq> [] then Some (Parts [KStr ''secondary-market-order-book'', KNum n, KStr k]) else None)"
  "key_of pe (QMyOrders a) = (if a \<noteq> [] then Some (Parts [KStr ''secondary-market-my-orders'', KStr a]) else None)"
  by (simp_all add: key_of_def hook_defs)

lemma key_of_inj: "key_of pe q \<noteq> None \<Longrightarrow> key_of pe q = key_of pe q' \<Longrightarrow> q = q'"
  by (cases q; cases q'; simp split: if_splits)

lemma getListing_value:
  assumes "honest env" "in_u 64 n" "simulateCall env SecondaryMarketC ''get_listing'' [ScU64 n] SIM_SOURCE = Inr (SimReturn v)" "v \<noteq> JNull"
  shows "getListing env n = Inr (exact_struct listing_fields v)"
  using market_reads(3) [OF assms(1,2), of 0 "hd roles"] assms(3,4)
  by (simp add: reads_exactly_def exact_answer_def then_result_def retval_def roles_def in_u_def)

lemma hydrate_total:
  assumes "list_all (\<lambda>i. \<exists>n. v i = JNum (NInt n) \<and> rd n = Inr (obj i) \<and> obj i \<noteq> JNull) ids"
  shows "hydrate rd (map v ids) = Inr (JArr (map obj ids))"
proof -
  have "map_js (read_by_id rd) (map v ids) = Inr (map obj ids)"
    using assms by (induction ids) (auto simp: read_by_id_def then_result_def js_to_BigInt_def)
  moreover have "filter (\<lambda>v. v \<noteq> JNull) (map obj ids) = map obj ids"
    using assms by (simp add: list_all_iff filter_id_conv) blast
  ultimately show ?thesis by (simp add: hydrate_def)
qed

lemma map_js_numbers: "map_js (coerce ToNumber) (map JStr ids) = Inr (map (\<lambda>i. JNum (string_Number i)) ids)"
  by (induction ids) (auto simp: to_Number_def js_Number_def)

lemma open_listings_answer:
  assumes "length (selected_rows d (of_type ''pool'')) \<le> m"
    and "pe_indexer pe ''/secondary-market/listings/open'' = Inr (get_listings_open m (\<lambda>_. d))"
  shows "fetchListingIds pe ''/secondary-market/listings/open'' =
    Inr (map (\<lambda>i. JNum (string_Number i)) (open_listings (map rowToEvent (selected_rows d (of_type ''pool'')))))"
  using assms by (simp add: fetchListingIds_def get_listings_open_def with_events_def getAllEvents_stable respond_def ok_json_def
    then_result_def js_strings_def js_coalesce_def map_js_numbers)

definition open_ids :: "db \<Rightarrow> string list" where
  "open_ids d = open_listings (map rowToEvent (selected_rows d (of_type ''pool'')))"

section \<open>Properties\<close>

text \<open>
  No two queries of the pages share a cache entry: whenever two of them differ in their kind or in an
  argument, their keys differ, so a page is never shown the cached answer of another query.
\<close>

theorem cache_entries_separate:
  assumes "q \<noteq> q'" "key_of pe q \<noteq> None"
  shows "key_of pe q \<noteq> key_of pe q'"
  using assms key_of_inj by blast

definition example_page :: page_env where
  "example_page = \<lparr>pe_chain = totals_chain, pe_mock = None, pe_indexer = (\<lambda>path. Inr (200, JObj []))\<rparr>"

theorem cache_entries_separate_witness:
  "key_of example_page (QInvoice 7) \<noteq> key_of example_page (QFundedInvoice 7)"
  using cache_entries_separate [of "QInvoice 7" "QFundedInvoice 7" example_page] by simp

lemmas refresh_defs = trigger_def Let_def useDeposit_def depositMutation_def useSetYield_def setYieldMutation_def useRegisterReferral_def
  registerReferralMutation_def useWithdraw_def useCommitToInvoice_def useCreateInvoice_def useMarkDefaulted_def useInitCoFunding_def

text \<open>
  What a mutation refreshes.  After a submission that returned, a deposit refreshes the entries of this
  investor's position and of this token's totals, a new yield the pool settings, a registered referral the
  referrer of this referee, and no other query of the pages; a submission that failed refreshes nothing.
  Withdrawing, committing to an invoice, creating an invoice, marking a default and opening a co-funding
  round refresh nothing at all, so the pages show the old values until the entry's interval has passed.
\<close>

theorem mutations_refresh:
  assumes "investor \<noteq> []" "token \<noteq> []" "referee \<noteq> []" "key_of pe q = Some k"
  shows "(k \<in> set (snd (trigger (useDeposit investor token) se x)) \<longleftrightarrow>
            (\<exists>v. submit_signed se x = Inr v) \<and> q \<in> {QPosition investor token, QTokenTotals token})
    \<and> (k \<in> set (snd (trigger (useSetYield admin) se x)) \<longleftrightarrow> (\<exists>v. submit_signed se x = Inr v) \<and> q = QPoolConfig)
    \<and> (k \<in> set (snd (trigger (useRegisterReferral referee) se x)) \<longleftrightarrow> (\<exists>v. submit_signed se x = Inr v) \<and> q = QReferrer referee)
    \<and> (\<forall>m \<in> {useWithdraw investor token, useCommitToInvoice investor i, useCreateInvoice, useMarkDefaulted admin i, useInitCoFunding admin i}.
         snd (trigger m se x) = [])"
proof (intro conjI ballI)
  show "k \<in> set (snd (trigger (useDeposit investor token) se x)) \<longleftrightarrow>
      (\<exists>v. submit_signed se x = Inr v) \<and> q \<in> {QPosition investor token, QTokenTotals token}"
    using assms by (cases q; cases "submit_signed se x") (auto simp: refresh_defs split: if_splits)
  show "k \<in> set (snd (trigger (useSetYield admin) se x)) \<longleftrightarrow> (\<exists>v. submit_signed se x = Inr v) \<and> q = QPoolConfig"
    using assms by (cases q; cases "submit_signed se x") (auto simp: refresh_defs split: if_splits)
  show "k \<in> set (snd (trigger (useRegisterReferral referee) se x)) \<longleftrightarrow> (\<exists>v. submit_signed se x = Inr v) \<and> q = QReferrer referee"
    using assms by (cases q; cases "submit_signed se x") (auto simp: refresh_defs split: if_splits)
qed (auto simp: refresh_defs split: sum.splits)

definition example_submit :: submit_env where
  "example_submit = \<lparr>se_key = (\<lambda>x. Inr x), se_send = (\<lambda>_. Inr \<lparr>sr_status = ''PENDING'', sr_hash = ''h'', sr_json = JNull\<rparr>),
     se_poll = (\<lambda>_ _. Inr ''SUCCESS''), se_pending = []\<rparr>"

theorem mutations_refresh_witness:
  "Parts [KStr ''token-totals'', KStr ''CT''] \<in> set (snd (trigger (useDeposit ''GA'' ''CT'') example_submit ''xdr''))"
proof -
  have "submit_signed example_submit ''xdr'' = Inr ''SUCCESS''"
    by code_simp
  then show ?thesis
    using mutations_refresh [of "''GA''" "''CT''" "''GB''" example_page "QTokenTotals ''CT''" "Parts [KStr ''token-totals'', KStr ''CT'']" example_submit "''xdr''"]
    by simp
qed


definition listing_event :: "string \<Rightarrow> string \<Rightarrow> int \<Rightarrow> event_row" where
  "listing_event i kind n = \<lparr>er_id = i, er_contract_id = ''C'', er_contract_type = ''pool'', er_event_type = kind, er_topic = [],
     er_value = JArr [JNum (NInt n)], er_actor_address = None, er_ledger_sequence = 5, er_ledger_close_at = [], er_tx_hash = [], er_created_at = []\<rparr>"

definition market_db :: db where
  "market_db = empty_db\<lparr>db_events := [listing_event ''a'' ''lst_open'' 1, listing_event ''b'' ''lst_open'' 2, listing_event ''c'' ''lst_buy'' 1]\<rparr>"

definition example_listing :: js where
  "example_listing = JObj [(''amount_or_bps'', JBigInt 50), (''created_at'', JBigInt 9), (''invoice_id'', JBigInt 7), (''kind'', JArr [JStr ''CoFunding'']),
     (''listing_id'', JBigInt 2), (''price'', JBigInt 100), (''seller'', JStr ''GA''), (''status'', JArr [JStr ''Open'']), (''token'', JStr ''CT'')]"

definition market_page :: page_env where
  "market_page = \<lparr>pe_chain = example_chain\<lparr>ch_simulate := (\<lambda>source c meth args.
       if c = SecondaryMarketC \<and> meth = ''get_listing'' then Inr (SimReturn example_listing) else Inr (SimFailure host_refusal))\<rparr>,
     pe_mock = None, pe_indexer = (\<lambda>path. Inr (get_listings_open 1000 (\<lambda>_. market_db)))\<rparr>"

lemma market_page_honest: "honest (pe_chain market_page)"
  by (simp add: honest_def market_page_def returns_def abi_tables example_listing_def shaped_base_def in_i_def in_u_def)

lemma open_ids_market: "open_ids market_db = [''2'']"
  by code_simp


text \<open>
  The order book of the page: whatever the contract answers, both sides are undefined, because the hook
  takes \<open>bids\<close> and \<open>asks\<close> from an object whose fields are named \<open>bidIds\<close> and \<open>askIds\<close>.
\<close>

theorem order_book_page:
  "map_option snd (hk_request (useOrderBook pe (Some i) (Some k))) = Some (Inr v) \<Longrightarrow> v = JObj [(''bids'', JUndefined), (''asks'', JUndefined)]"
  by (auto simp: useOrderBook_def useSWR_def idle_def fetcher_def getOrderBook_def read_call_def read_from_def then_result_def map_or_empty_def
     split: if_splits sum.splits js.splits)

end
