(* ===== verification/AdminGuard.thy ===== *)
theory AdminGuard
  imports ContractAnswers Auth
begin

text \<open>
  The guard of the administration pages (\<open>frontend/hooks/useAdminGuard.ts\<close>) with the role check it uses
  (\<open>isAccessControlSigner\<close> of \<open>frontend/lib/stellar.ts\<close>).  One run of the check gives the status the page
  shows and whether it sends the visitor away.
\<close>

section \<open>The role check\<close>

text \<open>\<open>configured\<close>: whether the id of the access control contract is set.\<close>

definition isAccessControlSigner :: "chain \<Rightarrow> bool \<Rightarrow> string \<Rightarrow> string \<Rightarrow> bool result" where
  "isAccessControlSigner env configured address role =
     (if \<not> configured then Inr False
      else (case simulateCall env AccessControlC ''is_signer'' [ScVec [ScSymbol role], ScAddress address] address of
          Inl e \<Rightarrow> Inl e
        | Inr (SimFailure _) \<Rightarrow> Inr False
        | Inr (SimReturn v) \<Rightarrow> Inr (js_truthy v)))"

definition roleChecks :: "string list" where
  "roleChecks = [''SuperAdmin'', ''RiskManager'', ''TreasuryManager'', ''ComplianceOfficer'', ''OracleManager'']"

text \<open>\<open>Promise.all\<close> over the roles: one failure fails them all, otherwise some answer must be true.\<close>

fun any_role :: "(string \<Rightarrow> bool result) \<Rightarrow> string list \<Rightarrow> bool result" where
  "any_role f [] = Inr False"
| "any_role f (r # rs) = (case f r of
      Inl e \<Rightarrow> Inl e
    | Inr b \<Rightarrow> (case any_role f rs of Inl e \<Rightarrow> Inl e | Inr b' \<Rightarrow> Inr (b \<or> b')))"

section \<open>The check\<close>

datatype AdminGuardStatus = Loading | Unauthenticated | Authorized | Denied

record wallet =
  wl_connected :: bool
  wl_address :: "string option"

record guard_env =
  ge_chain :: chain
  ge_roles :: bool
  ge_auth :: auth_env
  ge_world :: auth_world
  ge_redirectTo :: string

record guard_result =
  gr_status :: AdminGuardStatus
  gr_redirect :: "string option"
  gr_poolConfig :: "js option"

definition denied :: "guard_env \<Rightarrow> js option \<Rightarrow> guard_result" where
  "denied ge config = \<lparr>gr_status = Denied, gr_redirect = Some (ge_redirectTo ge), gr_poolConfig = config\<rparr>"

definition standing :: "AdminGuardStatus \<Rightarrow> js option \<Rightarrow> guard_result" where
  "standing s config = \<lparr>gr_status = s, gr_redirect = None, gr_poolConfig = config\<rparr>"

text \<open>The administrator by token or by address.  The token is asked first; an answer whose account is the
  administrator counts whatever wallet is connected.\<close>

definition direct_admin :: "guard_env \<Rightarrow> string \<Rightarrow> js \<Rightarrow> bool" where
  "direct_admin ge address config = (case fst (verifyToken (ge_auth ge) (getToken (ge_auth ge) (ge_world ge)) (ge_world ge)) of
      Inl _ \<Rightarrow> JStr address = js_prop config ''admin''
    | Inr verified \<Rightarrow> (js_truthy (js_prop verified ''authenticated'') \<and> js_prop verified ''account'' = js_prop config ''admin'')
          \<or> JStr address = js_prop config ''admin'')"

definition after_config :: "guard_env \<Rightarrow> wallet \<Rightarrow> bool \<Rightarrow> js \<Rightarrow> guard_result" where
  "after_config ge w cancelled config =
     (if \<not> wl_connected w \<or> wl_address w \<in> {None, Some []}
      then standing (if cancelled then Loading else Unauthenticated) (Some config)
      else (case (if direct_admin ge (the (wl_address w)) config then Inr True
                  else any_role (isAccessControlSigner (ge_chain ge) (ge_roles ge) (the (wl_address w))) roleChecks) of
          Inl _ \<Rightarrow> if cancelled then standing Loading (Some config) else denied ge (Some config)
        | Inr authorized \<Rightarrow>
            if cancelled then standing Loading (Some config)
            else if authorized then standing Authorized (Some config)
            else denied ge (Some config)))"

text \<open>\<open>early\<close> and \<open>late\<close>: whether the component was unmounted when the configuration arrived, and at the end.\<close>

definition check :: "guard_env \<Rightarrow> wallet \<Rightarrow> js option \<Rightarrow> bool \<Rightarrow> bool \<Rightarrow> guard_result" where
  "check ge w poolConfig early late = (case poolConfig of
      Some config \<Rightarrow> after_config ge w late config
    | None \<Rightarrow> (case getPoolConfig (ge_chain ge) of
          Inl _ \<Rightarrow> if early \<or> late then standing Loading None else denied ge None
        | Inr config \<Rightarrow> if early then standing Loading None else after_config ge w late config))"

definition isAdmin :: "guard_result \<Rightarrow> bool" where
  "isAdmin r = (gr_status r = Authorized)"

section \<open>Lemmas\<close>

lemma any_role_ok: "(\<exists>b. any_role f rs = Inr b) \<longleftrightarrow> (\<forall>r \<in> set rs. \<exists>b. f r = Inr b)"
  by (induction rs) (auto split: sum.splits)

lemma any_role_True:
  "any_role f rs = Inr True \<longleftrightarrow> (\<forall>r \<in> set rs. \<exists>b. f r = Inr b) \<and> (\<exists>r \<in> set rs. f r = Inr True)"
proof (induction rs)
  case (Cons r rs)
  show ?case
  proof (cases "f r")
    case (Inr b)
    then show ?thesis using Cons any_role_ok [of f rs] by (cases "any_role f rs"; cases b) auto
  qed simp
qed simp

section \<open>Properties\<close>


text \<open>A visitor whose stored token is the administrator's, on another wallet.\<close>

definition borrowed_token :: guard_env where
  "borrowed_token = \<lparr>ge_chain = totals_chain, ge_roles = False,
     ge_auth = \<lparr>ae_json = (\<lambda>c h. Inr (JObj [(''authenticated'', JBool True), (''account'', JStr ''GADMIN'')])), ae_status = (\<lambda>c h. Inr 200),
        ae_atob = (\<lambda>s. None), ae_browser = True\<rparr>,
     ge_world = \<lparr>aw_storage = Some ''t'', aw_calls = []\<rparr>, ge_redirectTo = ''/''\<rparr>"


end
