(* ===== verification/SdkTxs.thy ===== *)
theory SdkTxs
  imports ContractTxs
begin

text \<open>
  The transactions of the SDK's clients (\<open>packages/sdk/src/clients\<close>).  Each method hands the acting
  account, the name of the contract function and the encoded arguments to \<open>buildAndSendTx\<close>; the
  \<open>signer\<close> among the parameters is not used, the one of the configuration is.  Addresses are taken to
  be well formed (the library throws on others before anything is sent).  The encoders of structs and
  enums that are copied from the frontend are the frontend's (\<open>ContractTxs\<close>).
\<close>

section \<open>Encoders of their own\<close>

text \<open>The SDK's type of the governance action has two values where the frontend's has three.\<close>

fun sdk_actionPayloadToScVal :: "ActionPayload \<Rightarrow> sc_arg" where
  "sdk_actionPayloadToScVal (UpdateGovernanceConfig quorumBps passBps delay) = ScVec [ScSymbol ''UpdateGovernanceConfig'', ScU32 quorumBps, ScU32 passBps]"
| "sdk_actionPayloadToScVal action = actionPayloadToScVal action"

definition collateralSaleParamsToScVal :: "string \<Rightarrow> string \<Rightarrow> int \<Rightarrow> string \<Rightarrow> string \<Rightarrow> int \<Rightarrow> int \<Rightarrow> int \<Rightarrow> sc_arg" where
  "collateralSaleParamsToScVal seller token amount proceedsToken proceedsRecipient startPrice floorPrice durationSecs = ScMap
     [(''amount'', ScI128 amount), (''duration_secs'', ScU64 durationSecs), (''floor_price'', ScI128 floorPrice),
      (''proceeds_recipient'', ScAddress proceedsRecipient), (''proceeds_token'', ScAddress proceedsToken), (''seller'', ScAddress seller),
      (''start_price'', ScI128 startPrice), (''token'', ScAddress token)]"

text \<open>The actions of a governance proposal: most carry one value, whose type goes with the name.\<close>

datatype gov_value = GInt int | GText string | GFlag bool | GNull

datatype GovernanceAction =
    SetValue string gov_value
  | SetPoolFeeTier int int int int int
  | SetPoolLoyaltyTiers "(int \<times> int) list"
  | SetPoolFallbackPrice string int
  | SetPoolRateBounds string int int
  | SetPoolExchangeRate string int
  | SetPoolCollateralConfig int int
  | SetRegistryConfig int int int int int
  | SetRegistryQuorumTiers "(int \<times> int) list"

definition governance_values :: "(string \<times> string) list" where
  "governance_values =
    [(''SetPoolYield'', ''u32''), (''SetPoolTreasury'', ''address''), (''SetPoolMaxUtilization'', ''u32''), (''SetPoolOracleContract'', ''address''),
     (''SetPoolKycRequired'', ''bool''), (''SetPoolComplianceRegistry'', ''address''), (''SetPoolRequireComplianceCheck'', ''bool''), (''SetPoolReferralRegistry'', ''address''),
     (''SetPoolCreditScoreContract'', ''address''), (''SetPoolInsuranceContract'', ''address''), (''SetPoolCompoundInterest'', ''bool''), (''SetPoolSecondaryMarketContract'', ''address''),
     (''SetPoolRiskContract'', ''address''), (''SetPoolMinDeposit'', ''i128''), (''SetPoolMaxInvestorConcentration'', ''u32''), (''SetPoolUpgradeTimelock'', ''u64''),
     (''SetPoolOperationDelay'', ''u64''), (''SetPoolYieldChangePolicy'', ''u64''), (''SetPoolFactoringFee'', ''u32''), (''SetPoolWithdrawalLimits'', ''u32''),
     (''SetPoolMaxWithdrawalQueueAge'', ''u32''), (''SetPoolMaxWithdrawalQueueDepth'', ''u32''), (''SetPoolOracleStaleThreshold'', ''u64''), (''SetInvoiceGracePeriod'', ''u32''),
     (''SetInvoiceMaxAmount'', ''i128''), (''SetInvoiceMaxSmeOutstanding'', ''i128''), (''SetInvoiceExpirationDuration'', ''u64''), (''SetInvoiceCompletedTtl'', ''u32''),
     (''SetInvoiceDailyLimit'', ''u32''), (''SetInvoiceDisputeWindow'', ''u64''), (''SetInvoiceOracle'', ''address''), (''SetInvoiceOracleRegistry'', ''address''),
     (''SetInvoiceConsensusRequired'', ''bool''), (''SetInvoiceComplianceRegistry'', ''address''), (''SetInvoiceRequireComplianceCheck'', ''bool''), (''SetInvoiceRequireRegisteredDebtor'', ''bool''),
     (''SetInvoiceOracleVerifiedFundingOnly'', ''bool''), (''SetInvoiceArbitrationContract'', ''address''), (''SetInvoiceDisputeValueThreshold'', ''i128''), (''SetInvoiceMetadataImageUri'', ''string''),
     (''SetInvoiceMinDueDateWindow'', ''u64''), (''SetOracleRegistryInvoiceContract'', ''address''), (''SetComplianceRescreeningInterval'', ''u64''), (''SetComplianceScreenerTimelock'', ''u64''),
     (''SetInvoiceSecondaryOracle'', ''address or null''), (''SetOracleRegistryTreasury'', ''address or null'')]"

definition encode_value :: "string \<Rightarrow> gov_value \<Rightarrow> sc_arg option" where
  "encode_value t v = (case v of
      GInt n \<Rightarrow> (if t = ''u32'' then Some (ScU32 n) else if t = ''u64'' then Some (ScU64 n) else if t = ''i128'' then Some (ScI128 n) else None)
    | GText s \<Rightarrow> (if t = ''address'' then Some (ScAddress s) else if t = ''string'' then Some (ScString s)
        else if t = ''address or null'' then Some (if s = [] then ScVoid else ScAddress s) else None)
    | GFlag b \<Rightarrow> (if t = ''bool'' then Some (ScBool b) else None)
    | GNull \<Rightarrow> (if t = ''address or null'' then Some ScVoid else None))"

text \<open>Every action is encoded as a map with one entry; an unknown one is an error.\<close>

fun governanceActionToScVal :: "GovernanceAction \<Rightarrow> sc_arg result" where
  "governanceActionToScVal (SetValue action v) = (case map_of governance_values action of
      None \<Rightarrow> Inl (GenericError (''Unknown governance action type: '' @ action))
    | Some t \<Rightarrow> (case encode_value t v of None \<Rightarrow> Inl (TypeError ''invalid type'') | Some x \<Rightarrow> Inr (ScMap [(action, x)])))"
| "governanceActionToScVal (SetPoolFeeTier tierId minAmount maxAmount minCreditScore feeBps) = Inr (ScMap [(''SetPoolFeeTier'', ScMap
     [(''tier_id'', ScU32 tierId), (''tier'', ScMap [(''min_amount'', ScI128 minAmount), (''max_amount'', ScI128 maxAmount),
        (''min_credit_score'', ScU32 minCreditScore), (''fee_bps'', ScU32 feeBps)])])])"
| "governanceActionToScVal (SetPoolLoyaltyTiers tiers) = Inr (ScMap [(''SetPoolLoyaltyTiers'',
     ScVec (map (\<lambda>(days, bonus). ScMap [(''days_threshold'', ScU32 days), (''bonus_bps'', ScU32 bonus)]) tiers))])"
| "governanceActionToScVal (SetPoolFallbackPrice token price) = Inr (ScMap [(''SetPoolFallbackPrice'', ScMap [(''token'', ScAddress token), (''price'', ScI128 price)])])"
| "governanceActionToScVal (SetPoolRateBounds token minRate maxRate) = Inr (ScMap [(''SetPoolRateBounds'', ScMap
     [(''token'', ScAddress token), (''min_rate'', ScI128 minRate), (''max_rate'', ScI128 maxRate)])])"
| "governanceActionToScVal (SetPoolExchangeRate token rate) = Inr (ScMap [(''SetPoolExchangeRate'', ScMap [(''token'', ScAddress token), (''rate'', ScI128 rate)])])"
| "governanceActionToScVal (SetPoolCollateralConfig threshold collateralBps) = Inr (ScMap [(''SetPoolCollateralConfig'', ScMap
     [(''threshold'', ScI128 threshold), (''collateral_bps'', ScU32 collateralBps)])])"
| "governanceActionToScVal (SetRegistryConfig minStake requiredVotes quorumBps roundDurationSecs deregisterCooldownSecs) = Inr (ScMap [(''SetOracleRegistryConfig'', ScMap
     [(''min_stake'', ScI128 minStake), (''required_votes'', ScU32 requiredVotes), (''quorum_bps'', ScU32 quorumBps),
      (''round_duration_secs'', ScU64 roundDurationSecs), (''deregister_cooldown_secs'', ScU64 deregisterCooldownSecs)])])"
| "governanceActionToScVal (SetRegistryQuorumTiers tiers) = Inr (ScMap [(''SetOracleRegistryQuorumTiers'',
     ScVec (map (\<lambda>(minInvoiceAmount, quorumBps). ScMap [(''min_invoice_amount'', ScI128 minInvoiceAmount), (''quorum_bps'', ScU32 quorumBps)]) tiers))])"

section \<open>\<open>AccessControlClient\<close>\<close>

definition AccessControlClient_initialize :: "rpc_env \<Rightarrow> client_config \<Rightarrow> string list \<Rightarrow> int \<Rightarrow> int \<Rightarrow> bool \<Rightarrow> (rpc_call, string) io" where
  "AccessControlClient_initialize env cfg superAdminSigners superAdminThreshold proposalExpirySecs onProgress = (case superAdminSigners of
      [] \<Rightarrow> io_throw (TypeError ''Cannot read properties of undefined'')
    | source # rest \<Rightarrow> buildAndSendTx env cfg source ''initialize''
        [ScVec (map ScAddress superAdminSigners), ScU32 superAdminThreshold, ScU64 proposalExpirySecs] onProgress)"

definition AccessControlClient_proposeAction :: "rpc_env \<Rightarrow> client_config \<Rightarrow> string \<Rightarrow> string \<Rightarrow> string \<Rightarrow> ActionPayload \<Rightarrow> bool \<Rightarrow> (rpc_call, string) io" where
  "AccessControlClient_proposeAction env cfg role proposer target action onProgress =
     buildAndSendTx env cfg proposer ''propose_action'' [roleToScVal role, ScAddress proposer, ScAddress target, sdk_actionPayloadToScVal action] onProgress"

definition AccessControlClient_approveAction :: "rpc_env \<Rightarrow> client_config \<Rightarrow> string \<Rightarrow> int \<Rightarrow> bool \<Rightarrow> (rpc_call, string) io" where
  "AccessControlClient_approveAction env cfg signerAddress proposalId onProgress =
     buildAndSendTx env cfg signerAddress ''approve_action'' [ScAddress signerAddress, ScU64 proposalId] onProgress"

definition AccessControlClient_revokeApproval :: "rpc_env \<Rightarrow> client_config \<Rightarrow> string \<Rightarrow> int \<Rightarrow> bool \<Rightarrow> (rpc_call, string) io" where
  "AccessControlClient_revokeApproval env cfg signerAddress proposalId onProgress =
     buildAndSendTx env cfg signerAddress ''revoke_approval'' [ScAddress signerAddress, ScU64 proposalId] onProgress"

definition AccessControlClient_rejectAction :: "rpc_env \<Rightarrow> client_config \<Rightarrow> string \<Rightarrow> int \<Rightarrow> bool \<Rightarrow> (rpc_call, string) io" where
  "AccessControlClient_rejectAction env cfg signerAddress proposalId onProgress =
     buildAndSendTx env cfg signerAddress ''reject_action'' [ScAddress signerAddress, ScU64 proposalId] onProgress"

definition AccessControlClient_executeAction :: "rpc_env \<Rightarrow> client_config \<Rightarrow> string \<Rightarrow> int \<Rightarrow> bool \<Rightarrow> (rpc_call, string) io" where
  "AccessControlClient_executeAction env cfg caller proposalId onProgress =
     buildAndSendTx env cfg caller ''execute_action'' [ScAddress caller, ScU64 proposalId] onProgress"

section \<open>\<open>ArbitrationClient\<close>\<close>

definition ArbitrationClient_registerJuror :: "rpc_env \<Rightarrow> client_config \<Rightarrow> string \<Rightarrow> int \<Rightarrow> bool \<Rightarrow> (rpc_call, string) io" where
  "ArbitrationClient_registerJuror env cfg operator stakeAmount onProgress =
     buildAndSendTx env cfg operator ''register_juror'' [ScAddress operator, ScI128 stakeAmount] onProgress"

definition ArbitrationClient_deregisterJuror :: "rpc_env \<Rightarrow> client_config \<Rightarrow> string \<Rightarrow> bool \<Rightarrow> (rpc_call, string) io" where
  "ArbitrationClient_deregisterJuror env cfg operator onProgress =
     buildAndSendTx env cfg operator ''deregister_juror'' [ScAddress operator] onProgress"

definition ArbitrationClient_submitEvidence :: "rpc_env \<Rightarrow> client_config \<Rightarrow> int \<Rightarrow> string \<Rightarrow> string \<Rightarrow> bool \<Rightarrow> (rpc_call, string) io" where
  "ArbitrationClient_submitEvidence env cfg caseId submitter evidenceHash onProgress =
     buildAndSendTx env cfg submitter ''submit_evidence'' [ScU64 caseId, ScAddress submitter, ScString evidenceHash] onProgress"

definition ArbitrationClient_selectJurors :: "rpc_env \<Rightarrow> client_config \<Rightarrow> string \<Rightarrow> int \<Rightarrow> bool \<Rightarrow> (rpc_call, string) io" where
  "ArbitrationClient_selectJurors env cfg caller caseId onProgress =
     buildAndSendTx env cfg caller ''select_jurors'' [ScU64 caseId] onProgress"

definition ArbitrationClient_commitVote :: "rpc_env \<Rightarrow> client_config \<Rightarrow> string \<Rightarrow> int \<Rightarrow> nat list \<Rightarrow> bool \<Rightarrow> (rpc_call, string) io" where
  "ArbitrationClient_commitVote env cfg juror caseId commitHash onProgress =
     buildAndSendTx env cfg juror ''commit_vote'' [ScU64 caseId, ScAddress juror, ScBytes commitHash] onProgress"

definition ArbitrationClient_revealVote :: "rpc_env \<Rightarrow> client_config \<Rightarrow> string \<Rightarrow> int \<Rightarrow> bool \<Rightarrow> nat list \<Rightarrow> bool \<Rightarrow> (rpc_call, string) io" where
  "ArbitrationClient_revealVote env cfg juror caseId voteChoice salt onProgress =
     buildAndSendTx env cfg juror ''reveal_vote'' [ScU64 caseId, ScAddress juror, ScBool voteChoice, ScBytes salt] onProgress"

definition ArbitrationClient_finalizeCase :: "rpc_env \<Rightarrow> client_config \<Rightarrow> string \<Rightarrow> int \<Rightarrow> bool \<Rightarrow> (rpc_call, string) io" where
  "ArbitrationClient_finalizeCase env cfg caller caseId onProgress =
     buildAndSendTx env cfg caller ''finalize_case'' [ScU64 caseId] onProgress"

definition ArbitrationClient_adminResolveNoQuorum :: "rpc_env \<Rightarrow> client_config \<Rightarrow> string \<Rightarrow> int \<Rightarrow> string \<Rightarrow> bool \<Rightarrow> (rpc_call, string) io" where
  "ArbitrationClient_adminResolveNoQuorum env cfg admin caseId resolution onProgress =
     buildAndSendTx env cfg admin ''admin_resolve_no_quorum'' [ScAddress admin, ScU64 caseId, ScVec [ScSymbol resolution]] onProgress"

section \<open>\<open>AuctionClient\<close>\<close>

definition AuctionClient_initialize :: "rpc_env \<Rightarrow> client_config \<Rightarrow> string \<Rightarrow> string \<Rightarrow> bool \<Rightarrow> (rpc_call, string) io" where
  "AuctionClient_initialize env cfg admin pool onProgress =
     buildAndSendTx env cfg admin ''initialize'' [ScAddress admin, ScAddress pool] onProgress"

definition AuctionClient_setCollateralRiskConfig :: "rpc_env \<Rightarrow> client_config \<Rightarrow> string \<Rightarrow> int \<Rightarrow> int \<Rightarrow> bool \<Rightarrow> (rpc_call, string) io" where
  "AuctionClient_setCollateralRiskConfig env cfg admin dangerBps gracePeriodSecs onProgress =
     buildAndSendTx env cfg admin ''set_collateral_risk_config'' [ScAddress admin, ScU32 dangerBps, ScU64 gracePeriodSecs] onProgress"

definition AuctionClient_checkCollateralRisk :: "rpc_env \<Rightarrow> client_config \<Rightarrow> string \<Rightarrow> int \<Rightarrow> bool \<Rightarrow> (rpc_call, string) io" where
  "AuctionClient_checkCollateralRisk env cfg caller invoiceId onProgress =
     buildAndSendTx env cfg caller ''check_collateral_risk'' [ScAddress caller, ScU64 invoiceId] onProgress"

definition AuctionClient_liquidateCollateral :: "rpc_env \<Rightarrow> client_config \<Rightarrow> string \<Rightarrow> int \<Rightarrow> bool \<Rightarrow> (rpc_call, string) io" where
  "AuctionClient_liquidateCollateral env cfg caller invoiceId onProgress =
     buildAndSendTx env cfg caller ''liquidate_collateral'' [ScAddress caller, ScU64 invoiceId] onProgress"

definition AuctionClient_openCollateralSale :: "rpc_env \<Rightarrow> client_config \<Rightarrow> string \<Rightarrow> string \<Rightarrow> int \<Rightarrow> string \<Rightarrow> string \<Rightarrow> int \<Rightarrow> int \<Rightarrow> int \<Rightarrow> bool \<Rightarrow> (rpc_call, string) io" where
  "AuctionClient_openCollateralSale env cfg seller token amount proceedsToken proceedsRecipient startPrice floorPrice durationSecs onProgress =
     buildAndSendTx env cfg seller ''open_collateral_sale'' [collateralSaleParamsToScVal seller token amount proceedsToken proceedsRecipient startPrice floorPrice durationSecs] onProgress"

definition AuctionClient_takeCollateralSale :: "rpc_env \<Rightarrow> client_config \<Rightarrow> string \<Rightarrow> int \<Rightarrow> bool \<Rightarrow> (rpc_call, string) io" where
  "AuctionClient_takeCollateralSale env cfg taker saleId onProgress =
     buildAndSendTx env cfg taker ''take_collateral_sale'' [ScAddress taker, ScU64 saleId] onProgress"

definition AuctionClient_reclaimExpiredSale :: "rpc_env \<Rightarrow> client_config \<Rightarrow> string \<Rightarrow> int \<Rightarrow> bool \<Rightarrow> (rpc_call, string) io" where
  "AuctionClient_reclaimExpiredSale env cfg caller saleId onProgress =
     buildAndSendTx env cfg caller ''reclaim_expired_sale'' [ScAddress caller, ScU64 saleId] onProgress"

section \<open>\<open>ComplianceClient\<close>\<close>

definition ComplianceClient_submitScreeningResult :: "rpc_env \<Rightarrow> client_config \<Rightarrow> string \<Rightarrow> string \<Rightarrow> string \<Rightarrow> int \<Rightarrow> string \<Rightarrow> int \<Rightarrow> string \<Rightarrow> bool \<Rightarrow> (rpc_call, string) io" where
  "ComplianceClient_submitScreeningResult env cfg screener addr status reasonCode riskTier expiresAt notesHash onProgress =
     buildAndSendTx env cfg screener ''submit_screening_result'' [ScAddress screener, ScAddress addr, unitEnumToScVal status, ScU32 reasonCode, unitEnumToScVal riskTier, ScU64 expiresAt, ScString notesHash] onProgress"

definition ComplianceClient_requestReview :: "rpc_env \<Rightarrow> client_config \<Rightarrow> string \<Rightarrow> string \<Rightarrow> string \<Rightarrow> bool \<Rightarrow> (rpc_call, string) io" where
  "ComplianceClient_requestReview env cfg caller addr reason onProgress =
     buildAndSendTx env cfg caller ''request_review'' [ScAddress caller, ScAddress addr, ScString reason] onProgress"

section \<open>\<open>CreditScoreClient\<close>\<close>

definition CreditScoreClient_registerAttestor :: "rpc_env \<Rightarrow> client_config \<Rightarrow> string \<Rightarrow> string \<Rightarrow> string \<Rightarrow> int \<Rightarrow> bool \<Rightarrow> (rpc_call, string) io" where
  "CreditScoreClient_registerAttestor env cfg admin addr attestorType weightBps onProgress =
     buildAndSendTx env cfg admin ''register_attestor'' [ScAddress admin, ScAddress addr, attestorTypeToScVal attestorType, ScU32 weightBps] onProgress"

definition CreditScoreClient_deactivateAttestor :: "rpc_env \<Rightarrow> client_config \<Rightarrow> string \<Rightarrow> string \<Rightarrow> bool \<Rightarrow> (rpc_call, string) io" where
  "CreditScoreClient_deactivateAttestor env cfg admin addr onProgress =
     buildAndSendTx env cfg admin ''deactivate_attestor'' [ScAddress admin, ScAddress addr] onProgress"

definition CreditScoreClient_submitAttestation :: "rpc_env \<Rightarrow> client_config \<Rightarrow> string \<Rightarrow> string \<Rightarrow> string \<Rightarrow> int \<Rightarrow> string \<Rightarrow> int \<Rightarrow> bool \<Rightarrow> (rpc_call, string) io" where
  "CreditScoreClient_submitAttestation env cfg attestor sme attestationType scoreContribution evidenceHash expiresAt onProgress =
     buildAndSendTx env cfg attestor ''submit_attestation'' [ScAddress attestor, ScAddress sme, attestorTypeToScVal attestationType, ScU32 scoreContribution, ScString evidenceHash, ScU64 expiresAt] onProgress"

definition CreditScoreClient_disputeAttestation :: "rpc_env \<Rightarrow> client_config \<Rightarrow> string \<Rightarrow> int \<Rightarrow> string \<Rightarrow> bool \<Rightarrow> (rpc_call, string) io" where
  "CreditScoreClient_disputeAttestation env cfg caller attestationId reasonHash onProgress =
     buildAndSendTx env cfg caller ''dispute_attestation'' [ScAddress caller, ScU64 attestationId, ScString reasonHash] onProgress"

definition CreditScoreClient_resolveAttestationDispute :: "rpc_env \<Rightarrow> client_config \<Rightarrow> string \<Rightarrow> int \<Rightarrow> bool \<Rightarrow> bool \<Rightarrow> (rpc_call, string) io" where
  "CreditScoreClient_resolveAttestationDispute env cfg admin attestationId upheld onProgress =
     buildAndSendTx env cfg admin ''resolve_attestation_dispute'' [ScAddress admin, ScU64 attestationId, ScBool upheld] onProgress"

definition CreditScoreClient_submitRiskSignal :: "rpc_env \<Rightarrow> client_config \<Rightarrow> string \<Rightarrow> string \<Rightarrow> int \<Rightarrow> int \<Rightarrow> bool \<Rightarrow> (rpc_call, string) io" where
  "CreditScoreClient_submitRiskSignal env cfg admin sme debtorConcentrationBps invoiceSizeRiskBps onProgress =
     buildAndSendTx env cfg admin ''submit_risk_signal'' [ScAddress admin, ScAddress sme, ScU32 debtorConcentrationBps, ScU32 invoiceSizeRiskBps] onProgress"

section \<open>\<open>GovernanceClient\<close>\<close>

text \<open>The governance client passes no progress callback.\<close>

definition GovernanceClient_initialize ::
  "rpc_env \<Rightarrow> client_config \<Rightarrow> string \<Rightarrow> string \<Rightarrow> int \<Rightarrow> int \<Rightarrow> int \<Rightarrow> int \<Rightarrow> int \<Rightarrow> int \<Rightarrow> int \<Rightarrow> int \<Rightarrow> int \<Rightarrow> string \<Rightarrow> (rpc_call, string) io" where
  "GovernanceClient_initialize env cfg admin shareToken minVotingPeriodSecs defaultExecutionDelaySecs parameterChangeQuorumBps treasuryQuorumBps
       criticalQuorumBps parameterChangePassBps treasuryPassBps criticalPassBps executionExpirySecs caller =
     buildAndSendTx env cfg caller ''initialize''
       [ScAddress admin, ScAddress shareToken, ScU64 minVotingPeriodSecs, ScU64 defaultExecutionDelaySecs, ScU32 parameterChangeQuorumBps,
        ScU32 treasuryQuorumBps, ScU32 criticalQuorumBps, ScU32 parameterChangePassBps, ScU32 treasuryPassBps, ScU32 criticalPassBps,
        ScU64 executionExpirySecs] False"

text \<open>After the transaction the id of the last proposal is read.\<close>

definition GovernanceClient_createProposal ::
  "rpc_env \<Rightarrow> client_config \<Rightarrow> string \<Rightarrow> string \<Rightarrow> GovernanceAction \<Rightarrow> int \<Rightarrow> int option \<Rightarrow> int option \<Rightarrow> string \<Rightarrow> (rpc_call, js \<times> string) io" where
  "GovernanceClient_createProposal env cfg description targetContract action category votingPeriodSecs executionDelaySecs caller =
     (case governanceActionToScVal action of
        Inl e \<Rightarrow> io_throw e
      | Inr actionScVal \<Rightarrow>
          io_bind (buildAndSendTx env cfg caller ''create_proposal''
            [ScString description, ScAddress targetContract, actionScVal, ScU32 category,
             ScU64 (case votingPeriodSecs of Some n \<Rightarrow> n | None \<Rightarrow> 0), ScU64 (case executionDelaySecs of Some n \<Rightarrow> n | None \<Rightarrow> 0)] False) (\<lambda>txHash.
          io_bind (simulate env cfg ''get_last_proposal_id'' []) (\<lambda>proposalId.
          io_return (proposalId, txHash))))"

definition GovernanceClient_vote :: "rpc_env \<Rightarrow> client_config \<Rightarrow> int \<Rightarrow> bool \<Rightarrow> int \<Rightarrow> string \<Rightarrow> (rpc_call, string) io" where
  "GovernanceClient_vote env cfg proposalId voteFor shares caller =
     buildAndSendTx env cfg caller ''vote'' [ScU64 proposalId, ScBool voteFor, ScI128 shares] False"

definition GovernanceClient_executeProposal :: "rpc_env \<Rightarrow> client_config \<Rightarrow> int \<Rightarrow> string \<Rightarrow> (rpc_call, string) io" where
  "GovernanceClient_executeProposal env cfg proposalId caller = buildAndSendTx env cfg caller ''execute_proposal'' [ScU64 proposalId] False"

definition GovernanceClient_cancelProposal :: "rpc_env \<Rightarrow> client_config \<Rightarrow> int \<Rightarrow> string \<Rightarrow> (rpc_call, string) io" where
  "GovernanceClient_cancelProposal env cfg proposalId caller = buildAndSendTx env cfg caller ''cancel_proposal'' [ScU64 proposalId] False"

definition GovernanceClient_setExecutionDelay :: "rpc_env \<Rightarrow> client_config \<Rightarrow> int \<Rightarrow> string \<Rightarrow> (rpc_call, string) io" where
  "GovernanceClient_setExecutionDelay env cfg executionDelaySecs caller =
     buildAndSendTx env cfg caller ''set_execution_delay'' [ScU64 executionDelaySecs] False"

section \<open>\<open>InsuranceClient\<close>\<close>

definition InsuranceClient_initialize :: "rpc_env \<Rightarrow> client_config \<Rightarrow> string \<Rightarrow> string \<Rightarrow> string \<Rightarrow> bool \<Rightarrow> (rpc_call, string) io" where
  "InsuranceClient_initialize env cfg admin poolContract invoiceContract onProgress =
     buildAndSendTx env cfg admin ''initialize'' [ScAddress admin, ScAddress poolContract, ScAddress invoiceContract] onProgress"

definition InsuranceClient_purchaseCoverage :: "rpc_env \<Rightarrow> client_config \<Rightarrow> string \<Rightarrow> int \<Rightarrow> int \<Rightarrow> string \<Rightarrow> int \<Rightarrow> string \<Rightarrow> bool \<Rightarrow> (rpc_call, string) io" where
  "InsuranceClient_purchaseCoverage env cfg payer invoiceId principalAmount sme dueDate token onProgress =
     buildAndSendTx env cfg payer ''purchase_coverage'' [ScAddress payer, ScU64 invoiceId, ScI128 principalAmount, ScAddress sme, ScU64 dueDate, ScAddress token] onProgress"

definition InsuranceClient_fileClaim :: "rpc_env \<Rightarrow> client_config \<Rightarrow> string \<Rightarrow> int \<Rightarrow> bool \<Rightarrow> (rpc_call, string) io" where
  "InsuranceClient_fileClaim env cfg caller invoiceId onProgress =
     buildAndSendTx env cfg caller ''file_claim'' [ScU64 invoiceId] onProgress"

definition InsuranceClient_setPremiumConfig :: "rpc_env \<Rightarrow> client_config \<Rightarrow> string \<Rightarrow> premium_config \<Rightarrow> bool \<Rightarrow> (rpc_call, string) io" where
  "InsuranceClient_setPremiumConfig env cfg admin config onProgress =
     buildAndSendTx env cfg admin ''set_premium_config'' [ScAddress admin, premiumConfigToScVal config] onProgress"

definition InsuranceClient_setMinCoverageRatio :: "rpc_env \<Rightarrow> client_config \<Rightarrow> string \<Rightarrow> string \<Rightarrow> int \<Rightarrow> bool \<Rightarrow> (rpc_call, string) io" where
  "InsuranceClient_setMinCoverageRatio env cfg admin token minRatioBps onProgress =
     buildAndSendTx env cfg admin ''set_min_coverage_ratio'' [ScAddress admin, ScAddress token, ScU32 minRatioBps] onProgress"

definition InsuranceClient_setMinReserveAmount :: "rpc_env \<Rightarrow> client_config \<Rightarrow> string \<Rightarrow> string \<Rightarrow> int \<Rightarrow> bool \<Rightarrow> (rpc_call, string) io" where
  "InsuranceClient_setMinReserveAmount env cfg admin token minAmount onProgress =
     buildAndSendTx env cfg admin ''set_min_reserve_amount'' [ScAddress admin, ScAddress token, ScI128 minAmount] onProgress"

definition InsuranceClient_fundReserveFromTreasury :: "rpc_env \<Rightarrow> client_config \<Rightarrow> string \<Rightarrow> string \<Rightarrow> int \<Rightarrow> bool \<Rightarrow> (rpc_call, string) io" where
  "InsuranceClient_fundReserveFromTreasury env cfg admin token amount onProgress =
     buildAndSendTx env cfg admin ''fund_reserve_from_treasury'' [ScAddress admin, ScAddress token, ScI128 amount] onProgress"

definition InsuranceClient_setCreditScoreContract :: "rpc_env \<Rightarrow> client_config \<Rightarrow> string \<Rightarrow> string \<Rightarrow> bool \<Rightarrow> (rpc_call, string) io" where
  "InsuranceClient_setCreditScoreContract env cfg admin creditScoreContract onProgress =
     buildAndSendTx env cfg admin ''set_credit_score_contract'' [ScAddress admin, ScAddress creditScoreContract] onProgress"

definition InsuranceClient_pause :: "rpc_env \<Rightarrow> client_config \<Rightarrow> string \<Rightarrow> bool \<Rightarrow> (rpc_call, string) io" where
  "InsuranceClient_pause env cfg admin onProgress =
     buildAndSendTx env cfg admin ''pause'' [ScAddress admin] onProgress"

definition InsuranceClient_unpause :: "rpc_env \<Rightarrow> client_config \<Rightarrow> string \<Rightarrow> bool \<Rightarrow> (rpc_call, string) io" where
  "InsuranceClient_unpause env cfg admin onProgress =
     buildAndSendTx env cfg admin ''unpause'' [ScAddress admin] onProgress"

section \<open>\<open>InvoiceClient\<close>\<close>

definition InvoiceClient_createInvoice :: "rpc_env \<Rightarrow> client_config \<Rightarrow> string \<Rightarrow> string \<Rightarrow> int \<Rightarrow> int \<Rightarrow> string \<Rightarrow> string option \<Rightarrow> bool \<Rightarrow> (rpc_call, string) io" where
  "InvoiceClient_createInvoice env cfg owner debtor amount dueDate description verificationHash onProgress =
     buildAndSendTx env cfg owner ''create_invoice'' [ScAddress owner, ScString debtor, ScI128 amount, ScU64 dueDate, ScString description, ScString (case verificationHash of None \<Rightarrow> [] | Some x \<Rightarrow> x)] onProgress"

section \<open>\<open>PoolClient\<close>\<close>

text \<open>The entries of a request are in the order of the source.\<close>

definition fundingRequestToScVal :: "int \<times> int \<times> string \<times> int \<times> string \<Rightarrow> sc_arg" where
  "fundingRequestToScVal r = (case r of (invoiceId, principalAmount, sme, dueDate, token) \<Rightarrow> ScMap
     [(''invoice_id'', ScU64 invoiceId), (''principal'', ScI128 principalAmount), (''sme'', ScAddress sme), (''due_date'', ScU64 dueDate), (''token'', ScAddress token)])"

definition PoolClient_fundInvoicesBatch :: "rpc_env \<Rightarrow> client_config \<Rightarrow> string \<Rightarrow> (int \<times> int \<times> string \<times> int \<times> string) list \<Rightarrow> bool \<Rightarrow> (rpc_call, string) io" where
  "PoolClient_fundInvoicesBatch env cfg admin requests onProgress =
     buildAndSendTx env cfg admin ''fund_invoices_batch'' [ScAddress admin, ScVec (map fundingRequestToScVal requests)] onProgress"

definition PoolClient_deposit :: "rpc_env \<Rightarrow> client_config \<Rightarrow> string \<Rightarrow> string \<Rightarrow> int \<Rightarrow> int option \<Rightarrow> bool \<Rightarrow> (rpc_call, string) io" where
  "PoolClient_deposit env cfg investor token amount minRate onProgress =
     buildAndSendTx env cfg investor ''deposit'' [ScAddress investor, ScAddress token, ScI128 amount, (case minRate of None \<Rightarrow> ScVoid | Some r \<Rightarrow> ScU32 r)] onProgress"

definition PoolClient_liquidateInvoice :: "rpc_env \<Rightarrow> client_config \<Rightarrow> string \<Rightarrow> int \<Rightarrow> bool \<Rightarrow> (rpc_call, string) io" where
  "PoolClient_liquidateInvoice env cfg caller invoiceId onProgress =
     buildAndSendTx env cfg caller ''liquidate_invoice'' [ScAddress caller, ScU64 invoiceId] onProgress"

definition PoolClient_requestWithdrawal :: "rpc_env \<Rightarrow> client_config \<Rightarrow> string \<Rightarrow> string \<Rightarrow> int \<Rightarrow> bool \<Rightarrow> (rpc_call, string) io" where
  "PoolClient_requestWithdrawal env cfg investor token shares onProgress =
     buildAndSendTx env cfg investor ''request_withdrawal'' [ScAddress investor, ScAddress token, ScI128 shares] onProgress"

definition PoolClient_cancelWithdrawalRequest :: "rpc_env \<Rightarrow> client_config \<Rightarrow> string \<Rightarrow> string \<Rightarrow> bool \<Rightarrow> (rpc_call, string) io" where
  "PoolClient_cancelWithdrawalRequest env cfg investor token onProgress =
     buildAndSendTx env cfg investor ''cancel_withdrawal_request'' [ScAddress investor, ScAddress token] onProgress"

definition PoolClient_drainWithdrawalQueue :: "rpc_env \<Rightarrow> client_config \<Rightarrow> string \<Rightarrow> string \<Rightarrow> bool \<Rightarrow> (rpc_call, string) io" where
  "PoolClient_drainWithdrawalQueue env cfg caller token onProgress =
     buildAndSendTx env cfg caller ''drain_withdrawal_queue'' [ScAddress caller, ScAddress token] onProgress"

definition PoolClient_repay :: "rpc_env \<Rightarrow> client_config \<Rightarrow> string \<Rightarrow> int \<Rightarrow> int \<Rightarrow> bool \<Rightarrow> (rpc_call, string) io" where
  "PoolClient_repay env cfg payer invoiceId amount onProgress =
     buildAndSendTx env cfg payer ''repay_invoice'' [ScU64 invoiceId, ScAddress payer, ScI128 amount] onProgress"

definition PoolClient_fundInvoice :: "rpc_env \<Rightarrow> client_config \<Rightarrow> string \<Rightarrow> int \<Rightarrow> int \<Rightarrow> string \<Rightarrow> int \<Rightarrow> string \<Rightarrow> bool \<Rightarrow> (rpc_call, string) io" where
  "PoolClient_fundInvoice env cfg admin invoiceId principalAmount sme dueDate token onProgress =
     buildAndSendTx env cfg admin ''fund_invoice'' [ScAddress admin, ScU64 invoiceId, ScI128 principalAmount, ScAddress sme, ScU64 dueDate, ScAddress token] onProgress"

definition PoolClient_openCoFunding :: "rpc_env \<Rightarrow> client_config \<Rightarrow> string \<Rightarrow> int \<Rightarrow> string \<Rightarrow> int \<Rightarrow> string \<Rightarrow> int \<Rightarrow> int \<Rightarrow> int \<Rightarrow> int \<Rightarrow> bool \<Rightarrow> (rpc_call, string) io" where
  "PoolClient_openCoFunding env cfg admin invoiceId token targetPrincipal sme dueDate fundingDeadline minCommitment maxInvestorBps onProgress =
     buildAndSendTx env cfg admin ''open_co_funding'' [ScAddress admin, openCoFundingRequestToScVal invoiceId token targetPrincipal sme dueDate fundingDeadline minCommitment maxInvestorBps] onProgress"

definition PoolClient_commitToInvoice :: "rpc_env \<Rightarrow> client_config \<Rightarrow> string \<Rightarrow> int \<Rightarrow> int \<Rightarrow> bool \<Rightarrow> (rpc_call, string) io" where
  "PoolClient_commitToInvoice env cfg investor invoiceId amount onProgress =
     buildAndSendTx env cfg investor ''commit_to_invoice'' [ScAddress investor, ScU64 invoiceId, ScI128 amount] onProgress"

definition PoolClient_finalizeCoFunding :: "rpc_env \<Rightarrow> client_config \<Rightarrow> string \<Rightarrow> int \<Rightarrow> bool \<Rightarrow> (rpc_call, string) io" where
  "PoolClient_finalizeCoFunding env cfg caller invoiceId onProgress =
     buildAndSendTx env cfg caller ''finalize_co_funding'' [ScAddress caller, ScU64 invoiceId] onProgress"

definition PoolClient_withdrawCommitment :: "rpc_env \<Rightarrow> client_config \<Rightarrow> string \<Rightarrow> int \<Rightarrow> bool \<Rightarrow> (rpc_call, string) io" where
  "PoolClient_withdrawCommitment env cfg investor invoiceId onProgress =
     buildAndSendTx env cfg investor ''withdraw_co_funding_commitment'' [ScAddress investor, ScU64 invoiceId] onProgress"

definition PoolClient_transferCoFundShare :: "rpc_env \<Rightarrow> client_config \<Rightarrow> string \<Rightarrow> int \<Rightarrow> string \<Rightarrow> string \<Rightarrow> int \<Rightarrow> bool \<Rightarrow> (rpc_call, string) io" where
  "PoolClient_transferCoFundShare env cfg sender invoiceId token recipient bps onProgress =
     buildAndSendTx env cfg sender ''transfer_co_fund_share'' [ScAddress sender, ScU64 invoiceId, ScAddress token, ScAddress recipient, ScU32 bps] onProgress"

definition PoolClient_proposeRateModelChange :: "rpc_env \<Rightarrow> client_config \<Rightarrow> string \<Rightarrow> string \<Rightarrow> rate_config \<Rightarrow> bool \<Rightarrow> (rpc_call, string) io" where
  "PoolClient_proposeRateModelChange env cfg admin token config onProgress =
     buildAndSendTx env cfg admin ''propose_rate_model_change'' [ScAddress admin, ScAddress token, rateModelConfigToScVal config] onProgress"

definition PoolClient_executeRateModelChange :: "rpc_env \<Rightarrow> client_config \<Rightarrow> string \<Rightarrow> string \<Rightarrow> bool \<Rightarrow> (rpc_call, string) io" where
  "PoolClient_executeRateModelChange env cfg caller token onProgress =
     buildAndSendTx env cfg caller ''execute_rate_model_change'' [ScAddress token] onProgress"

definition PoolClient_cancelRateModelChange :: "rpc_env \<Rightarrow> client_config \<Rightarrow> string \<Rightarrow> string \<Rightarrow> bool \<Rightarrow> (rpc_call, string) io" where
  "PoolClient_cancelRateModelChange env cfg admin token onProgress =
     buildAndSendTx env cfg admin ''cancel_rate_model_change'' [ScAddress admin, ScAddress token] onProgress"

definition PoolClient_depositCollateral :: "rpc_env \<Rightarrow> client_config \<Rightarrow> int \<Rightarrow> string \<Rightarrow> string \<Rightarrow> int \<Rightarrow> bool \<Rightarrow> (rpc_call, string) io" where
  "PoolClient_depositCollateral env cfg invoiceId depositor token amount onProgress =
     buildAndSendTx env cfg depositor ''deposit_collateral'' [ScU64 invoiceId, ScAddress depositor, ScAddress token, ScI128 amount] onProgress"

definition PoolClient_topUpCollateral :: "rpc_env \<Rightarrow> client_config \<Rightarrow> int \<Rightarrow> string \<Rightarrow> string \<Rightarrow> int \<Rightarrow> bool \<Rightarrow> (rpc_call, string) io" where
  "PoolClient_topUpCollateral env cfg invoiceId depositor token amount onProgress =
     buildAndSendTx env cfg depositor ''top_up_collateral'' [ScU64 invoiceId, ScAddress depositor, ScAddress token, ScI128 amount] onProgress"

definition PoolClient_setRiskContract :: "rpc_env \<Rightarrow> client_config \<Rightarrow> string \<Rightarrow> string \<Rightarrow> bool \<Rightarrow> (rpc_call, string) io" where
  "PoolClient_setRiskContract env cfg admin riskContract onProgress =
     buildAndSendTx env cfg admin ''set_risk_contract'' [ScAddress admin, ScAddress riskContract] onProgress"

definition PoolClient_listPosition :: "rpc_env \<Rightarrow> client_config \<Rightarrow> string \<Rightarrow> int \<Rightarrow> string \<Rightarrow> int \<Rightarrow> int \<Rightarrow> bool \<Rightarrow> (rpc_call, string) io" where
  "PoolClient_listPosition env cfg seller invoiceId kind amountOrBps price onProgress =
     buildAndSendTx env cfg seller ''list_position'' [ScAddress seller, ScU64 invoiceId, listingKindToScVal kind, ScU64 amountOrBps, ScI128 price] onProgress"

definition PoolClient_cancelListing :: "rpc_env \<Rightarrow> client_config \<Rightarrow> string \<Rightarrow> int \<Rightarrow> bool \<Rightarrow> (rpc_call, string) io" where
  "PoolClient_cancelListing env cfg seller listingId onProgress =
     buildAndSendTx env cfg seller ''cancel_listing'' [ScAddress seller, ScU64 listingId] onProgress"

definition PoolClient_buyListing :: "rpc_env \<Rightarrow> client_config \<Rightarrow> string \<Rightarrow> int \<Rightarrow> bool \<Rightarrow> (rpc_call, string) io" where
  "PoolClient_buyListing env cfg buyer listingId onProgress =
     buildAndSendTx env cfg buyer ''buy_listing'' [ScAddress buyer, ScU64 listingId] onProgress"

section \<open>\<open>ReferralClient\<close>\<close>

definition ReferralClient_initialize :: "rpc_env \<Rightarrow> client_config \<Rightarrow> string \<Rightarrow> string \<Rightarrow> bool \<Rightarrow> (rpc_call, string) io" where
  "ReferralClient_initialize env cfg admin pool onProgress =
     buildAndSendTx env cfg admin ''initialize'' [ScAddress admin, ScAddress pool] onProgress"

definition ReferralClient_pause :: "rpc_env \<Rightarrow> client_config \<Rightarrow> string \<Rightarrow> bool \<Rightarrow> (rpc_call, string) io" where
  "ReferralClient_pause env cfg admin onProgress =
     buildAndSendTx env cfg admin ''pause'' [ScAddress admin] onProgress"

definition ReferralClient_unpause :: "rpc_env \<Rightarrow> client_config \<Rightarrow> string \<Rightarrow> bool \<Rightarrow> (rpc_call, string) io" where
  "ReferralClient_unpause env cfg admin onProgress =
     buildAndSendTx env cfg admin ''unpause'' [ScAddress admin] onProgress"

definition ReferralClient_setPool :: "rpc_env \<Rightarrow> client_config \<Rightarrow> string \<Rightarrow> string \<Rightarrow> bool \<Rightarrow> (rpc_call, string) io" where
  "ReferralClient_setPool env cfg admin pool onProgress =
     buildAndSendTx env cfg admin ''set_pool'' [ScAddress admin, ScAddress pool] onProgress"

definition ReferralClient_setBorrowRewardBps :: "rpc_env \<Rightarrow> client_config \<Rightarrow> string \<Rightarrow> int \<Rightarrow> bool \<Rightarrow> (rpc_call, string) io" where
  "ReferralClient_setBorrowRewardBps env cfg admin bps onProgress =
     buildAndSendTx env cfg admin ''set_borrow_reward_bps'' [ScAddress admin, ScU32 bps] onProgress"

definition ReferralClient_setDepositRewardBps :: "rpc_env \<Rightarrow> client_config \<Rightarrow> string \<Rightarrow> int \<Rightarrow> bool \<Rightarrow> (rpc_call, string) io" where
  "ReferralClient_setDepositRewardBps env cfg admin bps onProgress =
     buildAndSendTx env cfg admin ''set_deposit_reward_bps'' [ScAddress admin, ScU32 bps] onProgress"

definition ReferralClient_setAccessControl :: "rpc_env \<Rightarrow> client_config \<Rightarrow> string \<Rightarrow> string \<Rightarrow> bool \<Rightarrow> (rpc_call, string) io" where
  "ReferralClient_setAccessControl env cfg admin accessControl onProgress =
     buildAndSendTx env cfg admin ''set_access_control'' [ScAddress admin, ScAddress accessControl] onProgress"

definition ReferralClient_register :: "rpc_env \<Rightarrow> client_config \<Rightarrow> string \<Rightarrow> string \<Rightarrow> bool \<Rightarrow> (rpc_call, string) io" where
  "ReferralClient_register env cfg referee referrer onProgress =
     buildAndSendTx env cfg referee ''register'' [ScAddress referee, ScAddress referrer] onProgress"

definition ReferralClient_recordActivity :: "rpc_env \<Rightarrow> client_config \<Rightarrow> string \<Rightarrow> string \<Rightarrow> string \<Rightarrow> int \<Rightarrow> string \<Rightarrow> bool \<Rightarrow> (rpc_call, string) io" where
  "ReferralClient_recordActivity env cfg caller referee kind feeAmount token onProgress =
     buildAndSendTx env cfg caller ''record_activity'' [ScAddress caller, ScAddress referee, ScSymbol kind, ScI128 feeAmount, ScAddress token] onProgress"

definition ReferralClient_claimRewards :: "rpc_env \<Rightarrow> client_config \<Rightarrow> string \<Rightarrow> string \<Rightarrow> bool \<Rightarrow> (rpc_call, string) io" where
  "ReferralClient_claimRewards env cfg referrer token onProgress =
     buildAndSendTx env cfg referrer ''claim_rewards'' [ScAddress referrer, ScAddress token] onProgress"

section \<open>\<open>SecondaryMarketClient\<close>\<close>

definition SecondaryMarketClient_listPosition :: "rpc_env \<Rightarrow> client_config \<Rightarrow> string \<Rightarrow> int \<Rightarrow> string \<Rightarrow> int \<Rightarrow> int \<Rightarrow> bool \<Rightarrow> (rpc_call, string) io" where
  "SecondaryMarketClient_listPosition env cfg seller invoiceId kind amountOrBps price onProgress =
     buildAndSendTx env cfg seller ''list_position'' [ScAddress seller, ScU64 invoiceId, listingKindToScVal kind, ScU64 amountOrBps, ScI128 price] onProgress"

definition SecondaryMarketClient_cancelListing :: "rpc_env \<Rightarrow> client_config \<Rightarrow> string \<Rightarrow> int \<Rightarrow> bool \<Rightarrow> (rpc_call, string) io" where
  "SecondaryMarketClient_cancelListing env cfg seller listingId onProgress =
     buildAndSendTx env cfg seller ''cancel_listing'' [ScAddress seller, ScU64 listingId] onProgress"

definition SecondaryMarketClient_buyListing :: "rpc_env \<Rightarrow> client_config \<Rightarrow> string \<Rightarrow> int \<Rightarrow> bool \<Rightarrow> (rpc_call, string) io" where
  "SecondaryMarketClient_buyListing env cfg buyer listingId onProgress =
     buildAndSendTx env cfg buyer ''buy_listing'' [ScAddress buyer, ScU64 listingId] onProgress"

definition SecondaryMarketClient_placeOrder :: "rpc_env \<Rightarrow> client_config \<Rightarrow> string \<Rightarrow> int \<Rightarrow> string \<Rightarrow> string \<Rightarrow> int \<Rightarrow> int \<Rightarrow> int option \<Rightarrow> bool \<Rightarrow> (rpc_call, string) io" where
  "SecondaryMarketClient_placeOrder env cfg owner invoiceId kind side amountOrBps price expiresAt onProgress =
     buildAndSendTx env cfg owner ''place_order'' [ScAddress owner, placeOrderRequestToScVal invoiceId kind side amountOrBps price expiresAt] onProgress"

definition SecondaryMarketClient_cancelOrder :: "rpc_env \<Rightarrow> client_config \<Rightarrow> string \<Rightarrow> int \<Rightarrow> bool \<Rightarrow> (rpc_call, string) io" where
  "SecondaryMarketClient_cancelOrder env cfg owner orderId onProgress =
     buildAndSendTx env cfg owner ''cancel_order'' [ScAddress owner, ScU64 orderId] onProgress"

definition SecondaryMarketClient_expireOrder :: "rpc_env \<Rightarrow> client_config \<Rightarrow> string \<Rightarrow> int \<Rightarrow> bool \<Rightarrow> (rpc_call, string) io" where
  "SecondaryMarketClient_expireOrder env cfg caller orderId onProgress =
     buildAndSendTx env cfg caller ''expire_order'' [ScU64 orderId] onProgress"

section \<open>\<open>ShareClient\<close>\<close>

definition ShareClient_transfer :: "rpc_env \<Rightarrow> client_config \<Rightarrow> string \<Rightarrow> string \<Rightarrow> int \<Rightarrow> bool \<Rightarrow> (rpc_call, string) io" where
  "ShareClient_transfer env cfg sender recipient amount onProgress =
     buildAndSendTx env cfg sender ''transfer'' [ScAddress sender, ScAddress recipient, ScI128 amount] onProgress"

definition ShareClient_transferFrom :: "rpc_env \<Rightarrow> client_config \<Rightarrow> string \<Rightarrow> string \<Rightarrow> string \<Rightarrow> int \<Rightarrow> bool \<Rightarrow> (rpc_call, string) io" where
  "ShareClient_transferFrom env cfg spender sender recipient amount onProgress =
     buildAndSendTx env cfg spender ''transfer_from'' [ScAddress spender, ScAddress sender, ScAddress recipient, ScI128 amount] onProgress"

definition ShareClient_approve :: "rpc_env \<Rightarrow> client_config \<Rightarrow> string \<Rightarrow> string \<Rightarrow> int \<Rightarrow> int \<Rightarrow> bool \<Rightarrow> (rpc_call, string) io" where
  "ShareClient_approve env cfg owner spender amount expirationLedger onProgress =
     buildAndSendTx env cfg owner ''approve'' [ScAddress owner, ScAddress spender, ScI128 amount, ScU32 expirationLedger] onProgress"

definition ShareClient_increaseAllowance :: "rpc_env \<Rightarrow> client_config \<Rightarrow> string \<Rightarrow> string \<Rightarrow> int \<Rightarrow> bool \<Rightarrow> (rpc_call, string) io" where
  "ShareClient_increaseAllowance env cfg owner spender amount onProgress =
     buildAndSendTx env cfg owner ''increase_allowance'' [ScAddress owner, ScAddress spender, ScI128 amount] onProgress"

definition ShareClient_decreaseAllowance :: "rpc_env \<Rightarrow> client_config \<Rightarrow> string \<Rightarrow> string \<Rightarrow> int \<Rightarrow> bool \<Rightarrow> (rpc_call, string) io" where
  "ShareClient_decreaseAllowance env cfg owner spender amount onProgress =
     buildAndSendTx env cfg owner ''decrease_allowance'' [ScAddress owner, ScAddress spender, ScI128 amount] onProgress"

definition ShareClient_burn :: "rpc_env \<Rightarrow> client_config \<Rightarrow> string \<Rightarrow> int \<Rightarrow> bool \<Rightarrow> (rpc_call, string) io" where
  "ShareClient_burn env cfg sender amount onProgress =
     buildAndSendTx env cfg sender ''burn'' [ScAddress sender, ScI128 amount] onProgress"

definition ShareClient_burnFrom :: "rpc_env \<Rightarrow> client_config \<Rightarrow> string \<Rightarrow> string \<Rightarrow> int \<Rightarrow> bool \<Rightarrow> (rpc_call, string) io" where
  "ShareClient_burnFrom env cfg spender sender amount onProgress =
     buildAndSendTx env cfg spender ''burn_from'' [ScAddress spender, ScAddress sender, ScI128 amount] onProgress"

definition ShareClient_initialize :: "rpc_env \<Rightarrow> client_config \<Rightarrow> string \<Rightarrow> int \<Rightarrow> string \<Rightarrow> string \<Rightarrow> bool \<Rightarrow> (rpc_call, string) io" where
  "ShareClient_initialize env cfg admin decimals nm symbol onProgress =
     buildAndSendTx env cfg admin ''initialize'' [ScAddress admin, ScU32 decimals, ScString nm, ScString symbol] onProgress"

definition ShareClient_mint :: "rpc_env \<Rightarrow> client_config \<Rightarrow> string \<Rightarrow> string \<Rightarrow> int \<Rightarrow> bool \<Rightarrow> (rpc_call, string) io" where
  "ShareClient_mint env cfg admin recipient amount onProgress =
     buildAndSendTx env cfg admin ''mint'' [ScAddress recipient, ScI128 amount] onProgress"

definition ShareClient_pause :: "rpc_env \<Rightarrow> client_config \<Rightarrow> string \<Rightarrow> bool \<Rightarrow> (rpc_call, string) io" where
  "ShareClient_pause env cfg admin onProgress =
     buildAndSendTx env cfg admin ''pause'' [ScAddress admin] onProgress"

definition ShareClient_unpause :: "rpc_env \<Rightarrow> client_config \<Rightarrow> string \<Rightarrow> bool \<Rightarrow> (rpc_call, string) io" where
  "ShareClient_unpause env cfg admin onProgress =
     buildAndSendTx env cfg admin ''unpause'' [ScAddress admin] onProgress"

definition ShareClient_setAdmin :: "rpc_env \<Rightarrow> client_config \<Rightarrow> string \<Rightarrow> string \<Rightarrow> bool \<Rightarrow> (rpc_call, string) io" where
  "ShareClient_setAdmin env cfg admin newAdmin onProgress =
     buildAndSendTx env cfg admin ''set_admin'' [ScAddress newAdmin] onProgress"

section \<open>\<open>TrancheClient\<close>\<close>

definition TrancheClient_deposit :: "rpc_env \<Rightarrow> client_config \<Rightarrow> string \<Rightarrow> string \<Rightarrow> ContractTxs.TrancheClass \<Rightarrow> int \<Rightarrow> bool \<Rightarrow> (rpc_call, string) io" where
  "TrancheClient_deposit env cfg investor token trancheClass amount onProgress =
     buildAndSendTx env cfg investor ''deposit_tranche'' [ScAddress investor, ScAddress token, trancheClassToScVal trancheClass, ScI128 amount] onProgress"

definition TrancheClient_withdraw :: "rpc_env \<Rightarrow> client_config \<Rightarrow> string \<Rightarrow> string \<Rightarrow> ContractTxs.TrancheClass \<Rightarrow> int \<Rightarrow> bool \<Rightarrow> (rpc_call, string) io" where
  "TrancheClient_withdraw env cfg investor token trancheClass amount onProgress =
     buildAndSendTx env cfg investor ''withdraw_tranche'' [ScAddress investor, ScAddress token, trancheClassToScVal trancheClass, ScI128 amount] onProgress"

definition TrancheClient_setTrancheConfig :: "rpc_env \<Rightarrow> client_config \<Rightarrow> string \<Rightarrow> string \<Rightarrow> int \<Rightarrow> int \<Rightarrow> int \<Rightarrow> bool \<Rightarrow> (rpc_call, string) io" where
  "TrancheClient_setTrancheConfig env cfg admin token seniorTargetYieldBps seniorAdvanceRateBps juniorFirstLossBps onProgress =
     buildAndSendTx env cfg admin ''set_tranche_config'' [ScAddress admin, ScAddress token, ScU32 seniorTargetYieldBps, ScU32 seniorAdvanceRateBps, ScU32 juniorFirstLossBps] onProgress"

end
