(* ===== verification/SdkReads.thy ===== *)
theory SdkReads
  imports ContractReads
begin

text \<open>
  The reads of the SDK's clients (\<open>packages/sdk/src/clients\<close>).  A read simulates the call from the
  client's placeholder account and decodes the returned value with the same coercions as the
  frontend.  The base client raises an error for a failed simulation itself, so the tests for one in
  the methods never apply.
\<close>

definition sdk_read :: "rpc_env \<Rightarrow> client_config \<Rightarrow> string \<Rightarrow> sc_arg list \<Rightarrow> (js \<Rightarrow> 'a result) \<Rightarrow> (rpc_call, 'a) io" where
  "sdk_read env cfg meth args f = io_bind (simulate env cfg meth args) (\<lambda>raw h. (f raw, h))"

section \<open>Objects\<close>

definition ArbitrationClient_decodeCase :: "field list" where
  "ArbitrationClient_decodeCase =
     [(''id'', ''id'', ToBig), (''invoiceId'', ''invoice_id'', ToBig), (''claimant'', ''claimant'', AsIs),
      (''respondent'', ''respondent'', AsIs), (''amount'', ''amount'', ToBig), (''openedAt'', ''opened_at'', ToNumber),
      (''evidenceDeadline'', ''evidence_deadline'', ToNumber), (''commitDeadline'', ''commit_deadline'', ToNumber), (''revealDeadline'', ''reveal_deadline'', ToNumber),
      (''jurors'', ''jurors'', AsIsOr (JArr [])), (''status'', ''status'', AsIs), (''resolution'', ''resolution'', AsIs),
      (''retryCount'', ''retry_count'', ToNumber)]"

definition AuctionClient_collateralSaleFromRaw :: "field list" where
  "AuctionClient_collateralSaleFromRaw =
     [(''saleId'', ''sale_id'', ToBig), (''seller'', ''seller'', AsIs), (''token'', ''token'', AsIs),
      (''amount'', ''amount'', ToBig), (''proceedsToken'', ''proceeds_token'', AsIs), (''proceedsRecipient'', ''proceeds_recipient'', AsIs),
      (''startPrice'', ''start_price'', ToBig), (''floorPrice'', ''floor_price'', ToBig), (''openedAt'', ''opened_at'', ToNumber),
      (''durationSecs'', ''duration_secs'', ToNumber), (''status'', ''status'', EnumTag), (''taker'', ''taker'', AsIsOr JUndefined),
      (''settledPrice'', ''settled_price'', BigOrElse JUndefined)]"

definition CreditScoreClient_creditScoreResponseFromScVal :: "field list" where
  "CreditScoreClient_creditScoreResponseFromScVal =
     [(''sme'', ''sme'', AsIs), (''score'', ''score'', ToNumber), (''totalInvoices'', ''total_invoices'', ToNumber),
      (''paidOnTime'', ''paid_on_time'', ToNumber), (''paidLate'', ''paid_late'', ToNumber), (''defaulted'', ''defaulted'', ToNumber),
      (''totalVolume'', ''total_volume'', ToBig), (''averagePaymentDays'', ''average_payment_days'', ToNumber), (''lastUpdated'', ''last_updated'', ToNumber),
      (''scoreVersion'', ''score_version'', ToNumber), (''configVersion'', ''config_version'', ToNumber), (''isStale'', ''is_stale'', ToBool),
      (''blendedScore'', ''blended_score'', ToNumber), (''riskAdjustmentPts'', ''risk_adjustment_pts'', ToNumber), (''trendAdjustmentPts'', ''trend_adjustment_pts'', ToNumber),
      (''finalScore'', ''final_score'', ToNumber)]"

definition CreditScoreClient_attestationFromScVal :: "field list" where
  "CreditScoreClient_attestationFromScVal =
     [(''id'', ''id'', ToBig), (''sme'', ''sme'', AsIs), (''attestor'', ''attestor'', AsIs),
      (''attestationType'', ''attestation_type'', EnumTag), (''scoreContribution'', ''score_contribution'', ToNumber), (''evidenceHash'', ''evidence_hash'', AsIs),
      (''submittedAt'', ''submitted_at'', ToNumber), (''expiresAt'', ''expires_at'', ToNumber), (''status'', ''status'', EnumTag)]"

definition CreditScoreClient_attestorInfoFromScVal :: "field list" where
  "CreditScoreClient_attestorInfoFromScVal =
     [(''address'', ''address'', AsIs), (''attestorType'', ''attestor_type'', EnumTag), (''isActive'', ''is_active'', ToBool),
      (''weightBps'', ''weight_bps'', ToNumber), (''registeredAt'', ''registered_at'', ToNumber)]"

definition GovernanceClient_proposalFromScVal :: "field list" where
  "GovernanceClient_proposalFromScVal =
     [(''id'', ''id'', ToBig), (''proposer'', ''proposer'', AsIs), (''description'', ''description'', AsIs),
      (''target_contract'', ''target_contract'', AsIs), (''action'', ''action'', AsIs), (''votes_for'', ''votes_for'', ToBig),
      (''votes_against'', ''votes_against'', ToBig), (''status'', ''status'', AsIs), (''created_at'', ''created_at'', ToNumber),
      (''voting_ends_at'', ''voting_ends_at'', ToNumber), (''execution_delay'', ''execution_delay'', ToNumber), (''snapshot_supply'', ''snapshot_supply'', ToBig),
      (''passed_at'', ''passed_at'', ToNumber), (''category'', ''category'', AsIs), (''quorum_bps'', ''quorum_bps'', ToNumber),
      (''pass_bps'', ''pass_bps'', ToNumber)]"

definition GovernanceClient_configFromScVal :: "field list" where
  "GovernanceClient_configFromScVal =
     [(''admin'', ''admin'', AsIs), (''share_token'', ''share_token'', AsIs), (''min_voting_period_secs'', ''min_voting_period_secs'', ToNumber),
      (''default_execution_delay_secs'', ''default_execution_delay_secs'', ToNumber), (''parameter_change_quorum_bps'', ''parameter_change_quorum_bps'', ToNumber), (''treasury_quorum_bps'', ''treasury_quorum_bps'', ToNumber),
      (''critical_quorum_bps'', ''critical_quorum_bps'', ToNumber), (''parameter_change_pass_bps'', ''parameter_change_pass_bps'', ToNumber), (''treasury_pass_bps'', ''treasury_pass_bps'', ToNumber),
      (''critical_pass_bps'', ''critical_pass_bps'', ToNumber), (''execution_expiry_secs'', ''execution_expiry_secs'', ToNumber), (''execution_delay_secs'', ''execution_delay_secs'', ToNumber)]"

definition InsuranceClient_riskTierFromRaw :: "field list" where
  "InsuranceClient_riskTierFromRaw =
     [(''min_score'', ''min_score'', ToNumber), (''max_score'', ''max_score'', ToNumber), (''risk_multiplier_bps'', ''risk_multiplier_bps'', ToNumber)]"

definition InsuranceClient_reserveFundFromRaw :: "field list" where
  "InsuranceClient_reserveFundFromRaw =
     [(''total_reserves'', ''total_reserves'', ToBigOr zero), (''total_premiums_collected'', ''total_premiums_collected'', ToBigOr zero), (''total_claims_paid'', ''total_claims_paid'', ToBigOr zero),
      (''total_covered_exposure'', ''total_covered_exposure'', ToBigOr zero), (''coverage_ratio_bps'', ''coverage_ratio_bps'', ToNumber), (''min_coverage_ratio_bps'', ''min_coverage_ratio_bps'', ToNumber)]"

definition InsuranceClient_coverageRecordFromRaw :: "field list" where
  "InsuranceClient_coverageRecordFromRaw =
     [(''invoice_id'', ''invoice_id'', ToBig), (''token'', ''token'', AsIs), (''principal'', ''principal'', ToBig),
      (''premium_paid'', ''premium_paid'', ToBig), (''coverage_bps'', ''coverage_bps'', ToNumber), (''purchased_at'', ''purchased_at'', ToBig),
      (''claimed'', ''claimed'', ToBool)]"

definition InsuranceClient_claimHistoryItemFromRaw :: "field list" where
  "InsuranceClient_claimHistoryItemFromRaw =
     [(''invoice_id'', ''invoice_id'', ToBig), (''token'', ''token'', AsIs), (''payout'', ''payout'', ToBig),
      (''shortfalls'', ''shortfalls'', ToBig), (''timestamp'', ''timestamp'', ToBig)]"

definition InsuranceClient_reserveHealthFromRaw :: "field list" where
  "InsuranceClient_reserveHealthFromRaw =
     [(''token'', ''token'', AsIs), (''total_reserves'', ''total_reserves'', ToBigOr zero), (''coverage_ratio_bps'', ''coverage_ratio_bps'', ToNumber),
      (''min_reserve_amount'', ''min_reserve_amount'', ToBigOr zero), (''is_healthy'', ''is_healthy'', ToBool), (''needs_top_up'', ''needs_top_up'', ToBool)]"

definition PoolClient_coFundingRoundFromScVal :: "field list" where
  "PoolClient_coFundingRoundFromScVal =
     [(''invoiceId'', ''invoice_id'', ToBig), (''token'', ''token'', AsIs), (''sme'', ''sme'', AsIs),
      (''dueDate'', ''due_date'', ToNumber), (''targetPrincipal'', ''target_principal'', ToBig), (''committedPrincipal'', ''committed_principal'', ToBig),
      (''fundingDeadline'', ''funding_deadline'', ToNumber), (''status'', ''status'', AsIs), (''minCommitment'', ''min_commitment'', ToBig),
      (''maxInvestorBps'', ''max_investor_bps'', ToNumber), (''participants'', ''participants'', AsIsOr (JArr []))]"

definition PoolClient_rateModelConfigFromScVal :: "field list" where
  "PoolClient_rateModelConfigFromScVal =
     [(''baseRateBps'', ''base_rate_bps'', ToNumber), (''optimalUtilizationBps'', ''optimal_utilization_bps'', ToNumber), (''slope1Bps'', ''slope1_bps'', ToNumber),
      (''slope2Bps'', ''slope2_bps'', ToNumber), (''maxRateBps'', ''max_rate_bps'', ToNumber)]"

definition PoolClient_mapFundedInvoice :: "field list" where
  "PoolClient_mapFundedInvoice =
     [(''invoiceId'', ''invoice_id'', ToBig), (''sme'', ''sme'', AsIs), (''token'', ''token'', AsIs),
      (''principal'', ''principal'', ToBig), (''committed'', ''committed'', ToBigOr zero), (''fundedAt'', ''funded_at'', ToNumber),
      (''factoringFee'', ''factoring_fee'', ToBigOr zero), (''dueDate'', ''due_date'', ToNumber), (''repaidAmount'', ''repaid_amount'', ToBigOr zero),
      (''coFundingRoundId'', ''co_funding_round_id'', BigOrElse JUndefined)]"

definition PoolClient_listingFromRaw :: "field list" where
  "PoolClient_listingFromRaw =
     [(''listingId'', ''listing_id'', ToBig), (''invoiceId'', ''invoice_id'', ToBig), (''seller'', ''seller'', AsIs),
      (''token'', ''token'', AsIs), (''kind'', ''kind'', EnumTag), (''amountOrBps'', ''amount_or_bps'', ToBig),
      (''price'', ''price'', ToBig), (''createdAt'', ''created_at'', ToNumber), (''status'', ''status'', EnumTag)]"

definition ReferralClient_referralStatsFromRaw :: "field list" where
  "ReferralClient_referralStatsFromRaw =
     [(''referrer'', ''referrer'', ToStr), (''referral_count'', ''referral_count'', ToNumber)]"

definition ReferralClient_leaderboardEntryFromRaw :: "field list" where
  "ReferralClient_leaderboardEntryFromRaw =
     [(''referrer'', ''referrer'', ToStr), (''referral_count'', ''referral_count'', ToNumber)]"

definition SecondaryMarketClient_listingFromRaw :: "field list" where
  "SecondaryMarketClient_listingFromRaw =
     [(''listingId'', ''listing_id'', ToBig), (''invoiceId'', ''invoice_id'', ToBig), (''seller'', ''seller'', AsIs),
      (''token'', ''token'', AsIs), (''kind'', ''kind'', EnumTag), (''amountOrBps'', ''amount_or_bps'', ToBig),
      (''price'', ''price'', ToBig), (''createdAt'', ''created_at'', ToNumber), (''status'', ''status'', EnumTag)]"

definition SecondaryMarketClient_orderFromRaw :: "field list" where
  "SecondaryMarketClient_orderFromRaw =
     [(''orderId'', ''order_id'', ToBig), (''invoiceId'', ''invoice_id'', ToBig), (''owner'', ''owner'', AsIs),
      (''token'', ''token'', AsIs), (''kind'', ''kind'', EnumTag), (''side'', ''side'', EnumTag),
      (''price'', ''price'', ToBig), (''amountOrBps'', ''amount_or_bps'', ToBig), (''remaining'', ''remaining'', ToBig),
      (''createdAt'', ''created_at'', ToNumber), (''expiresAt'', ''expires_at'', ToNumber), (''status'', ''status'', EnumTag)]"

definition TrancheClient_accountingFromRaw :: "field list" where
  "TrancheClient_accountingFromRaw =
     [(''deposited'', ''deposited'', ToBig), (''available'', ''available'', ToBig), (''deployed'', ''deployed'', ToBig),
      (''earned'', ''earned'', ToBig), (''losses'', ''losses'', ToBig)]"

definition TrancheClient_poolFromRaw :: "js \<Rightarrow> js result" where
  "TrancheClient_poolFromRaw raw =
     (if is_nullish raw then Inl (TypeError ''Cannot read properties of null'')
      else then_result (decode_object TrancheClient_accountingFromRaw (js_prop raw ''senior'')) (\<lambda>senior.
           then_result (decode_object TrancheClient_accountingFromRaw (js_prop raw ''junior'')) (\<lambda>junior.
           Inr (JObj [(''senior'', senior), (''junior'', junior), (''config'', js_prop raw ''config'')]))))"

section \<open>Reads\<close>

definition AccessControlClient_getRoleConfig_fields :: "field list" where
  "AccessControlClient_getRoleConfig_fields =
     [(''signers'', ''signers'', AsIsOr (JArr [])), (''threshold'', ''threshold'', ToNumberOr zero)]"

definition AccessControlClient_getRoleConfig :: "rpc_env \<Rightarrow> client_config \<Rightarrow> string \<Rightarrow> (rpc_call, js) io" where
  "AccessControlClient_getRoleConfig env cfg role = sdk_read env cfg ''get_role_config'' [roleToScVal role] (decode_or_null (decode_object AccessControlClient_getRoleConfig_fields))"

definition AccessControlClient_isSigner :: "rpc_env \<Rightarrow> client_config \<Rightarrow> string \<Rightarrow> string \<Rightarrow> (rpc_call, js) io" where
  "AccessControlClient_isSigner env cfg role addr = sdk_read env cfg ''is_signer'' [roleToScVal role, ScAddress addr] (coerce ToBool)"

definition AccessControlClient_getNextProposalId :: "rpc_env \<Rightarrow> client_config \<Rightarrow> (rpc_call, js) io" where
  "AccessControlClient_getNextProposalId env cfg = sdk_read env cfg ''get_next_proposal_id'' [] (coerce ToBigRaw)"

definition ArbitrationClient_getCase :: "rpc_env \<Rightarrow> client_config \<Rightarrow> int \<Rightarrow> (rpc_call, js) io" where
  "ArbitrationClient_getCase env cfg caseId = sdk_read env cfg ''get_case'' [ScU64 caseId] (decode_or_null (decode_object ArbitrationClient_decodeCase))"

definition ArbitrationClient_getEvidence_fields :: "field list" where
  "ArbitrationClient_getEvidence_fields =
     [(''submitter'', ''submitter'', AsIs), (''party'', ''party'', AsIs), (''evidenceHash'', ''evidence_hash'', AsIs),
      (''submittedAt'', ''submitted_at'', ToNumber)]"

definition ArbitrationClient_getEvidence :: "rpc_env \<Rightarrow> client_config \<Rightarrow> int \<Rightarrow> (rpc_call, js) io" where
  "ArbitrationClient_getEvidence env cfg caseId = sdk_read env cfg ''get_evidence'' [ScU64 caseId] (js_map (decode_object ArbitrationClient_getEvidence_fields))"

definition ArbitrationClient_getVote_fields :: "field list" where
  "ArbitrationClient_getVote_fields =
     [(''commitHash'', ''commit_hash'', HexOrElse JUndefined), (''revealedVote'', ''revealed_vote'', BoolOrElse JUndefined)]"

definition ArbitrationClient_getVote :: "rpc_env \<Rightarrow> client_config \<Rightarrow> int \<Rightarrow> string \<Rightarrow> (rpc_call, js) io" where
  "ArbitrationClient_getVote env cfg caseId juror = sdk_read env cfg ''get_vote'' [ScU64 caseId, ScAddress juror] (decode_or_null (decode_object ArbitrationClient_getVote_fields))"

definition ArbitrationClient_getJuror_fields :: "field list" where
  "ArbitrationClient_getJuror_fields =
     [(''address'', ''address'', AsIs), (''stakeAmount'', ''stake_amount'', ToBig), (''stakeToken'', ''stake_token'', AsIs),
      (''isActive'', ''is_active'', ToBool), (''casesServed'', ''cases_served'', ToNumber), (''timesSlashed'', ''times_slashed'', ToNumber),
      (''nonRevealStrikes'', ''non_reveal_strikes'', ToNumber), (''registeredAt'', ''registered_at'', ToNumber), (''deregisterRequestedAt'', ''deregister_requested_at'', NumberOrElse JUndefined)]"

definition ArbitrationClient_getJuror :: "rpc_env \<Rightarrow> client_config \<Rightarrow> string \<Rightarrow> (rpc_call, js) io" where
  "ArbitrationClient_getJuror env cfg operator = sdk_read env cfg ''get_juror'' [ScAddress operator] (decode_or_null (decode_object ArbitrationClient_getJuror_fields))"

definition ArbitrationClient_listActiveJurors :: "rpc_env \<Rightarrow> client_config \<Rightarrow> (rpc_call, js) io" where
  "ArbitrationClient_listActiveJurors env cfg = sdk_read env cfg ''list_active_jurors'' [] (coerce (AsIsOr (JArr [])))"

definition ArbitrationClient_getJurorCases :: "rpc_env \<Rightarrow> client_config \<Rightarrow> string \<Rightarrow> (rpc_call, js) io" where
  "ArbitrationClient_getJurorCases env cfg operator = sdk_read env cfg ''get_juror_cases'' [ScAddress operator] (map_or_empty (coerce ToBig))"

definition ArbitrationClient_getConfig_fields :: "field list" where
  "ArbitrationClient_getConfig_fields =
     [(''minStake'', ''min_stake'', ToBig), (''stakeToken'', ''stake_token'', AsIs), (''committeeSize'', ''committee_size'', ToNumber),
      (''quorumFloor'', ''quorum_floor'', ToNumber), (''evidenceWindowSecs'', ''evidence_window_secs'', ToNumber), (''commitWindowSecs'', ''commit_window_secs'', ToNumber),
      (''revealWindowSecs'', ''reveal_window_secs'', ToNumber), (''deregisterCooldownSecs'', ''deregister_cooldown_secs'', ToNumber), (''slashBps'', ''slash_bps'', ToNumber),
      (''nonRevealSlashBps'', ''non_reveal_slash_bps'', ToNumber), (''lopsidedConfidenceBps'', ''lopsided_confidence_bps'', ToNumber), (''maxRetries'', ''max_retries'', ToNumber)]"

definition ArbitrationClient_getConfig :: "rpc_env \<Rightarrow> client_config \<Rightarrow> (rpc_call, js) io" where
  "ArbitrationClient_getConfig env cfg = sdk_read env cfg ''get_config'' [] (decode_object ArbitrationClient_getConfig_fields)"

definition AuctionClient_getCollateralRiskConfig_fields :: "field list" where
  "AuctionClient_getCollateralRiskConfig_fields =
     [(''dangerBps'', ''danger_bps'', ToNumber), (''gracePeriodSecs'', ''grace_period_secs'', ToNumber)]"

definition AuctionClient_getCollateralRiskConfig :: "rpc_env \<Rightarrow> client_config \<Rightarrow> (rpc_call, js) io" where
  "AuctionClient_getCollateralRiskConfig env cfg = sdk_read env cfg ''get_collateral_risk_config'' [] (decode_object AuctionClient_getCollateralRiskConfig_fields)"

definition AuctionClient_getLiveCollateralRatio :: "rpc_env \<Rightarrow> client_config \<Rightarrow> int \<Rightarrow> (rpc_call, js) io" where
  "AuctionClient_getLiveCollateralRatio env cfg invoiceId = sdk_read env cfg ''get_live_collateral_ratio'' [ScU64 invoiceId] (coerce ToNumber)"

definition AuctionClient_getAtRiskSince :: "rpc_env \<Rightarrow> client_config \<Rightarrow> int \<Rightarrow> (rpc_call, js) io" where
  "AuctionClient_getAtRiskSince env cfg invoiceId = sdk_read env cfg ''get_at_risk_since'' [ScU64 invoiceId] (coerce (NumberOrElse JNull))"

definition AuctionClient_getSale :: "rpc_env \<Rightarrow> client_config \<Rightarrow> int \<Rightarrow> (rpc_call, js) io" where
  "AuctionClient_getSale env cfg saleId = sdk_read env cfg ''get_sale'' [ScU64 saleId] (decode_or_null (decode_object AuctionClient_collateralSaleFromRaw))"

definition AuctionClient_currentSalePrice :: "rpc_env \<Rightarrow> client_config \<Rightarrow> int \<Rightarrow> (rpc_call, js) io" where
  "AuctionClient_currentSalePrice env cfg saleId = sdk_read env cfg ''current_sale_price'' [ScU64 saleId] (coerce ToBig)"

definition ComplianceClient_isCleared :: "rpc_env \<Rightarrow> client_config \<Rightarrow> string \<Rightarrow> (rpc_call, js) io" where
  "ComplianceClient_isCleared env cfg addr = sdk_read env cfg ''is_cleared'' [ScAddress addr] (coerce ToBool)"

definition ComplianceClient_getRecord_fields :: "field list" where
  "ComplianceClient_getRecord_fields =
     [(''address'', ''address'', AsIs), (''status'', ''status'', AsIsOr (JStr ''Unscreened'')), (''reasonCode'', ''reason_code'', ToNumberOr zero),
      (''riskTier'', ''risk_tier'', AsIsOr (JStr ''Low'')), (''screenedAt'', ''screened_at'', ToNumberOr zero), (''screenedBy'', ''screened_by'', AsIs),
      (''expiresAt'', ''expires_at'', ToNumberOr zero), (''notesHash'', ''notes_hash'', ToStrOr (JStr []))]"

definition ComplianceClient_getRecord :: "rpc_env \<Rightarrow> client_config \<Rightarrow> string \<Rightarrow> (rpc_call, js) io" where
  "ComplianceClient_getRecord env cfg addr = sdk_read env cfg ''get_compliance_record'' [ScAddress addr] (decode_or_null (decode_object ComplianceClient_getRecord_fields))"

definition ComplianceClient_getHistory_fields :: "field list" where
  "ComplianceClient_getHistory_fields =
     [(''status'', ''status'', AsIsOr (JStr ''Unscreened'')), (''reasonCode'', ''reason_code'', ToNumberOr zero), (''riskTier'', ''risk_tier'', AsIsOr (JStr ''Low'')),
      (''screenedAt'', ''screened_at'', ToNumberOr zero), (''screenedBy'', ''screened_by'', AsIs), (''expiresAt'', ''expires_at'', ToNumberOr zero),
      (''notesHash'', ''notes_hash'', ToStrOr (JStr []))]"

definition ComplianceClient_getHistory :: "rpc_env \<Rightarrow> client_config \<Rightarrow> string \<Rightarrow> (rpc_call, js) io" where
  "ComplianceClient_getHistory env cfg addr = sdk_read env cfg ''get_screening_history'' [ScAddress addr] (map_or_empty (decode_object ComplianceClient_getHistory_fields))"

definition ComplianceClient_listFlagged :: "rpc_env \<Rightarrow> client_config \<Rightarrow> (rpc_call, js) io" where
  "ComplianceClient_listFlagged env cfg = sdk_read env cfg ''list_flagged'' [] (coerce (AsIsOr (JArr [])))"

definition ComplianceClient_listPendingReview :: "rpc_env \<Rightarrow> client_config \<Rightarrow> (rpc_call, js) io" where
  "ComplianceClient_listPendingReview env cfg = sdk_read env cfg ''list_pending_review'' [] (coerce (AsIsOr (JArr [])))"

definition CreditScoreClient_getCreditScore :: "rpc_env \<Rightarrow> client_config \<Rightarrow> string \<Rightarrow> (rpc_call, js) io" where
  "CreditScoreClient_getCreditScore env cfg sme = sdk_read env cfg ''get_credit_score'' [ScAddress sme] (decode_object CreditScoreClient_creditScoreResponseFromScVal)"

definition CreditScoreClient_simulateScoreWithAttestations :: "rpc_env \<Rightarrow> client_config \<Rightarrow> string \<Rightarrow> (int \<times> int) list \<Rightarrow> (rpc_call, js) io" where
  "CreditScoreClient_simulateScoreWithAttestations env cfg sme hypothetical = sdk_read env cfg ''simulate_score_with_attestations'' [ScAddress sme, ScVec (map (\<lambda>(weightBps, scoreContribution). ScVec [ScU32 weightBps, ScU32 scoreContribution]) hypothetical)] (coerce ToNumber)"

definition CreditScoreClient_getAttestorInfo :: "rpc_env \<Rightarrow> client_config \<Rightarrow> string \<Rightarrow> (rpc_call, js) io" where
  "CreditScoreClient_getAttestorInfo env cfg addr = sdk_read env cfg ''get_attestor_info'' [ScAddress addr] (decode_or_null (decode_object CreditScoreClient_attestorInfoFromScVal))"

definition CreditScoreClient_listActiveAttestors :: "rpc_env \<Rightarrow> client_config \<Rightarrow> (rpc_call, js) io" where
  "CreditScoreClient_listActiveAttestors env cfg = sdk_read env cfg ''list_active_attestors'' [] (map_or_empty (decode_object CreditScoreClient_attestorInfoFromScVal))"

definition CreditScoreClient_getAttestation :: "rpc_env \<Rightarrow> client_config \<Rightarrow> int \<Rightarrow> (rpc_call, js) io" where
  "CreditScoreClient_getAttestation env cfg owner_id = sdk_read env cfg ''get_attestation'' [ScU64 owner_id] (decode_or_null (decode_object CreditScoreClient_attestationFromScVal))"

definition CreditScoreClient_listSmeAttestations :: "rpc_env \<Rightarrow> client_config \<Rightarrow> string \<Rightarrow> (rpc_call, js) io" where
  "CreditScoreClient_listSmeAttestations env cfg sme = sdk_read env cfg ''list_sme_attestations'' [ScAddress sme] (map_or_empty (decode_object CreditScoreClient_attestationFromScVal))"

definition GovernanceClient_getProposal :: "rpc_env \<Rightarrow> client_config \<Rightarrow> int \<Rightarrow> (rpc_call, js) io" where
  "GovernanceClient_getProposal env cfg proposalId = sdk_read env cfg ''get_proposal'' [ScU64 proposalId] (decode_object GovernanceClient_proposalFromScVal)"

definition GovernanceClient_getAllProposals :: "rpc_env \<Rightarrow> client_config \<Rightarrow> (rpc_call, js) io" where
  "GovernanceClient_getAllProposals env cfg = sdk_read env cfg ''get_all_proposals'' [] (Inr)"

definition GovernanceClient_getConfig :: "rpc_env \<Rightarrow> client_config \<Rightarrow> (rpc_call, js) io" where
  "GovernanceClient_getConfig env cfg = sdk_read env cfg ''get_config'' [] (decode_object GovernanceClient_configFromScVal)"

definition InsuranceClient_estimatePremium :: "rpc_env \<Rightarrow> client_config \<Rightarrow> int \<Rightarrow> string \<Rightarrow> int \<Rightarrow> (rpc_call, js) io" where
  "InsuranceClient_estimatePremium env cfg principalAmount sme tenorDays = sdk_read env cfg ''estimate_premium'' [ScI128 principalAmount, ScAddress sme, ScU32 tenorDays] (coerce ToBig)"

definition InsuranceClient_getReserveStatus :: "rpc_env \<Rightarrow> client_config \<Rightarrow> string \<Rightarrow> (rpc_call, js) io" where
  "InsuranceClient_getReserveStatus env cfg token = sdk_read env cfg ''get_reserve_status'' [ScAddress token] (decode_object InsuranceClient_reserveFundFromRaw)"

definition InsuranceClient_getCoverageRecord :: "rpc_env \<Rightarrow> client_config \<Rightarrow> int \<Rightarrow> (rpc_call, js) io" where
  "InsuranceClient_getCoverageRecord env cfg invoiceId = sdk_read env cfg ''get_coverage_record'' [ScU64 invoiceId] (decode_or_null (decode_object InsuranceClient_coverageRecordFromRaw))"

definition InsuranceClient_getClaimHistory :: "rpc_env \<Rightarrow> client_config \<Rightarrow> int \<Rightarrow> (rpc_call, js) io" where
  "InsuranceClient_getClaimHistory env cfg invoiceId = sdk_read env cfg ''get_claim_history'' [ScU64 invoiceId] (map_or_empty (decode_object InsuranceClient_claimHistoryItemFromRaw))"

definition InsuranceClient_checkReserveHealth :: "rpc_env \<Rightarrow> client_config \<Rightarrow> string \<Rightarrow> (rpc_call, js) io" where
  "InsuranceClient_checkReserveHealth env cfg token = sdk_read env cfg ''check_reserve_health'' [ScAddress token] (decode_object InsuranceClient_reserveHealthFromRaw)"

definition InsuranceClient_getPremiumConfig :: "rpc_env \<Rightarrow> client_config \<Rightarrow> (rpc_call, js) io" where
  "InsuranceClient_getPremiumConfig env cfg = sdk_read env cfg ''get_premium_config'' [] (decode_or_null (premiumConfigFromRaw))"

definition InsuranceClient_getCreditScoreContract :: "rpc_env \<Rightarrow> client_config \<Rightarrow> (rpc_call, js) io" where
  "InsuranceClient_getCreditScoreContract env cfg = sdk_read env cfg ''get_credit_score_contract'' [] (coerce (StrOrElse JNull))"

definition InsuranceClient_getMinReserveAmount :: "rpc_env \<Rightarrow> client_config \<Rightarrow> string \<Rightarrow> (rpc_call, js) io" where
  "InsuranceClient_getMinReserveAmount env cfg token = sdk_read env cfg ''get_min_reserve_amount'' [ScAddress token] (coerce ToBig)"

definition InvoiceClient_getInvoice :: "rpc_env \<Rightarrow> client_config \<Rightarrow> int \<Rightarrow> (rpc_call, js) io" where
  "InvoiceClient_getInvoice env cfg owner_id = sdk_read env cfg ''get_invoice'' [ScU64 owner_id] (Inr)"

definition InvoiceClient_getMultipleInvoices :: "rpc_env \<Rightarrow> client_config \<Rightarrow> int list \<Rightarrow> (rpc_call, js) io" where
  "InvoiceClient_getMultipleInvoices env cfg ids = sdk_read env cfg ''get_multiple_invoices'' [ScVec (map ScU64 ids)] (Inr)"

definition PoolClient_getConfig_fields :: "field list" where
  "PoolClient_getConfig_fields =
     [(''invoiceContract'', ''invoice_contract'', AsIs), (''admin'', ''admin'', AsIs), (''yieldBps'', ''yield_bps'', ToNumber),
      (''factoringFeeBps'', ''factoring_fee_bps'', ToNumberOr zero), (''compoundInterest'', ''compound_interest'', ToBool)]"

definition PoolClient_getConfig :: "rpc_env \<Rightarrow> client_config \<Rightarrow> (rpc_call, js) io" where
  "PoolClient_getConfig env cfg = sdk_read env cfg ''get_config'' [] (decode_object PoolClient_getConfig_fields)"

definition PoolClient_getPosition_fields :: "field list" where
  "PoolClient_getPosition_fields =
     [(''deposited'', ''deposited'', ToBigRaw), (''available'', ''available'', ToBigRaw), (''deployed'', ''deployed'', ToBigRaw),
      (''earned'', ''earned'', ToBigRaw), (''depositCount'', ''deposit_count'', ToNumber)]"

definition PoolClient_getPosition :: "rpc_env \<Rightarrow> client_config \<Rightarrow> string \<Rightarrow> string \<Rightarrow> (rpc_call, js) io" where
  "PoolClient_getPosition env cfg investor token = sdk_read env cfg ''get_position'' [ScAddress investor, ScAddress token] (decode_or_null (decode_object PoolClient_getPosition_fields))"

definition PoolClient_getCollateralDeposit_fields :: "field list" where
  "PoolClient_getCollateralDeposit_fields =
     [(''invoiceId'', ''invoice_id'', ToBig), (''depositor'', ''depositor'', AsIs), (''token'', ''token'', AsIs),
      (''amount'', ''amount'', ToBig), (''settled'', ''settled'', ToBool), (''postedAt'', ''posted_at'', ToNumber),
      (''releasedAt'', ''released_at'', ToNumber), (''seizedAt'', ''seized_at'', ToNumber), (''collateralBpsAtDeposit'', ''collateral_bps_at_deposit'', ToNumber),
      (''thresholdAtDeposit'', ''threshold_at_deposit'', ToBig)]"

definition PoolClient_getCollateralDeposit :: "rpc_env \<Rightarrow> client_config \<Rightarrow> int \<Rightarrow> (rpc_call, js) io" where
  "PoolClient_getCollateralDeposit env cfg invoiceId = sdk_read env cfg ''get_collateral_deposit'' [ScU64 invoiceId] (decode_or_null (decode_object PoolClient_getCollateralDeposit_fields))"

definition PoolClient_getWithdrawalQueue_fields :: "field list" where
  "PoolClient_getWithdrawalQueue_fields =
     [(''investor'', ''investor'', AsIs), (''token'', ''token'', AsIs), (''shares'', ''shares'', ToBig),
      (''requestedAt'', ''requested_at'', ToNumber), (''requestId'', ''request_id'', ToBig)]"

definition PoolClient_getWithdrawalQueue :: "rpc_env \<Rightarrow> client_config \<Rightarrow> string \<Rightarrow> (rpc_call, js) io" where
  "PoolClient_getWithdrawalQueue env cfg token = sdk_read env cfg ''get_withdrawal_queue'' [ScAddress token] (js_map (decode_object PoolClient_getWithdrawalQueue_fields))"

definition PoolClient_getCoFundingRound :: "rpc_env \<Rightarrow> client_config \<Rightarrow> int \<Rightarrow> (rpc_call, js) io" where
  "PoolClient_getCoFundingRound env cfg invoiceId = sdk_read env cfg ''get_co_funding_round'' [ScU64 invoiceId] (decode_or_null (decode_object PoolClient_coFundingRoundFromScVal))"

definition PoolClient_listCoFundingRounds :: "rpc_env \<Rightarrow> client_config \<Rightarrow> (rpc_call, js) io" where
  "PoolClient_listCoFundingRounds env cfg = sdk_read env cfg ''list_co_funding_rounds'' [] (map_or_empty (coerce ToBig))"

definition PoolClient_getCoFundShare :: "rpc_env \<Rightarrow> client_config \<Rightarrow> int \<Rightarrow> string \<Rightarrow> (rpc_call, js) io" where
  "PoolClient_getCoFundShare env cfg invoiceId investor = sdk_read env cfg ''get_co_fund_share'' [ScU64 invoiceId, ScAddress investor] (coerce ToNumber)"

definition PoolClient_getCurrentRate :: "rpc_env \<Rightarrow> client_config \<Rightarrow> string \<Rightarrow> (rpc_call, js) io" where
  "PoolClient_getCurrentRate env cfg token = sdk_read env cfg ''get_current_rate'' [ScAddress token] (coerce ToNumber)"

definition PoolClient_getRateModelConfig :: "rpc_env \<Rightarrow> client_config \<Rightarrow> string \<Rightarrow> (rpc_call, js) io" where
  "PoolClient_getRateModelConfig env cfg token = sdk_read env cfg ''get_rate_model_config'' [ScAddress token] (decode_or_null (decode_object PoolClient_rateModelConfigFromScVal))"

definition PoolClient_getRateHistory_fields :: "field list" where
  "PoolClient_getRateHistory_fields =
     [(''timestamp'', ''timestamp'', ToNumber), (''utilizationBps'', ''utilization_bps'', ToNumber), (''rateBps'', ''rate_bps'', ToNumber)]"

definition PoolClient_getRateHistory :: "rpc_env \<Rightarrow> client_config \<Rightarrow> string \<Rightarrow> int \<Rightarrow> (rpc_call, js) io" where
  "PoolClient_getRateHistory env cfg token maxCount = sdk_read env cfg ''get_rate_history'' [ScAddress token, ScU32 maxCount] (map_or_empty (decode_object PoolClient_getRateHistory_fields))"

definition PoolClient_previewRateAtUtilization :: "rpc_env \<Rightarrow> client_config \<Rightarrow> string \<Rightarrow> int \<Rightarrow> (rpc_call, js) io" where
  "PoolClient_previewRateAtUtilization env cfg token utilizationBps = sdk_read env cfg ''preview_rate_at_utilization'' [ScAddress token, ScU32 utilizationBps] (coerce ToNumber)"

definition PoolClient_getFundedInvoice :: "rpc_env \<Rightarrow> client_config \<Rightarrow> int \<Rightarrow> (rpc_call, js) io" where
  "PoolClient_getFundedInvoice env cfg invoiceId = sdk_read env cfg ''get_funded_invoice'' [ScU64 invoiceId] (decode_or_null (decode_object PoolClient_mapFundedInvoice))"

definition PoolClient_getFundedInvoicesBatch :: "rpc_env \<Rightarrow> client_config \<Rightarrow> int list \<Rightarrow> (rpc_call, js) io" where
  "PoolClient_getFundedInvoicesBatch env cfg invoiceIds = sdk_read env cfg ''get_funded_invoices_batch'' [ScVec (map ScU64 invoiceIds)] (js_map (decode_or_null (decode_object PoolClient_mapFundedInvoice)))"

definition PoolClient_getPoolTokenTotals_fields :: "field list" where
  "PoolClient_getPoolTokenTotals_fields =
     [(''totalDeposited'', ''total_deposited'', ToBig), (''totalDeployed'', ''total_deployed'', ToBig), (''totalPaidOut'', ''total_paid_out'', ToBig),
      (''totalFeeRevenue'', ''total_fee_revenue'', ToBig)]"

definition PoolClient_getPoolTokenTotals :: "rpc_env \<Rightarrow> client_config \<Rightarrow> string \<Rightarrow> (rpc_call, js) io" where
  "PoolClient_getPoolTokenTotals env cfg token = sdk_read env cfg ''get_pool_token_totals'' [ScAddress token] (decode_object PoolClient_getPoolTokenTotals_fields)"

definition PoolClient_getCollateralConfig_fields :: "field list" where
  "PoolClient_getCollateralConfig_fields =
     [(''threshold'', ''threshold'', ToBig), (''collateralBps'', ''collateral_bps'', ToNumber)]"

definition PoolClient_getCollateralConfig :: "rpc_env \<Rightarrow> client_config \<Rightarrow> (rpc_call, js) io" where
  "PoolClient_getCollateralConfig env cfg = sdk_read env cfg ''get_collateral_config'' [] (decode_object PoolClient_getCollateralConfig_fields)"

definition PoolClient_getListing :: "rpc_env \<Rightarrow> client_config \<Rightarrow> int \<Rightarrow> (rpc_call, js) io" where
  "PoolClient_getListing env cfg listingId = sdk_read env cfg ''get_listing'' [ScU64 listingId] (decode_or_null (decode_object PoolClient_listingFromRaw))"

definition PoolClient_listListingsForInvoice :: "rpc_env \<Rightarrow> client_config \<Rightarrow> int \<Rightarrow> (rpc_call, js) io" where
  "PoolClient_listListingsForInvoice env cfg invoiceId = sdk_read env cfg ''list_listings_for_invoice'' [ScU64 invoiceId] (map_or_empty (coerce ToBig))"

definition PoolClient_listListingsForInvestor :: "rpc_env \<Rightarrow> client_config \<Rightarrow> string \<Rightarrow> (rpc_call, js) io" where
  "PoolClient_listListingsForInvestor env cfg seller = sdk_read env cfg ''list_listings_for_investor'' [ScAddress seller] (map_or_empty (coerce ToBig))"

definition ReferralClient_isPaused :: "rpc_env \<Rightarrow> client_config \<Rightarrow> (rpc_call, js) io" where
  "ReferralClient_isPaused env cfg = sdk_read env cfg ''is_paused'' [] (coerce ToBool)"

definition ReferralClient_getPool :: "rpc_env \<Rightarrow> client_config \<Rightarrow> (rpc_call, js) io" where
  "ReferralClient_getPool env cfg = sdk_read env cfg ''get_pool'' [] (coerce ToStr)"

definition ReferralClient_getAccessControl :: "rpc_env \<Rightarrow> client_config \<Rightarrow> (rpc_call, js) io" where
  "ReferralClient_getAccessControl env cfg = sdk_read env cfg ''get_access_control'' [] (coerce (StrOrElse JNull))"

definition ReferralClient_getBorrowRewardBps :: "rpc_env \<Rightarrow> client_config \<Rightarrow> (rpc_call, js) io" where
  "ReferralClient_getBorrowRewardBps env cfg = sdk_read env cfg ''get_borrow_reward_bps'' [] (coerce ToNumber)"

definition ReferralClient_getDepositRewardBps :: "rpc_env \<Rightarrow> client_config \<Rightarrow> (rpc_call, js) io" where
  "ReferralClient_getDepositRewardBps env cfg = sdk_read env cfg ''get_deposit_reward_bps'' [] (coerce ToNumber)"

definition ReferralClient_getReferrer :: "rpc_env \<Rightarrow> client_config \<Rightarrow> string \<Rightarrow> (rpc_call, js) io" where
  "ReferralClient_getReferrer env cfg referee = sdk_read env cfg ''get_referrer'' [ScAddress referee] (coerce (StrOrElse JNull))"

definition ReferralClient_getPendingReward :: "rpc_env \<Rightarrow> client_config \<Rightarrow> string \<Rightarrow> string \<Rightarrow> (rpc_call, js) io" where
  "ReferralClient_getPendingReward env cfg referrer token = sdk_read env cfg ''get_pending_reward'' [ScAddress referrer, ScAddress token] (coerce ToBig)"

definition ReferralClient_getStats :: "rpc_env \<Rightarrow> client_config \<Rightarrow> string \<Rightarrow> (rpc_call, js) io" where
  "ReferralClient_getStats env cfg referrer = sdk_read env cfg ''get_stats'' [ScAddress referrer] (decode_object ReferralClient_referralStatsFromRaw)"

definition ReferralClient_getTopReferrers :: "rpc_env \<Rightarrow> client_config \<Rightarrow> int \<Rightarrow> (rpc_call, js) io" where
  "ReferralClient_getTopReferrers env cfg maxCount = sdk_read env cfg ''get_top_referrers'' [ScU32 maxCount] (map_or_empty (decode_object ReferralClient_leaderboardEntryFromRaw))"

definition SecondaryMarketClient_getListing :: "rpc_env \<Rightarrow> client_config \<Rightarrow> int \<Rightarrow> (rpc_call, js) io" where
  "SecondaryMarketClient_getListing env cfg listingId = sdk_read env cfg ''get_listing'' [ScU64 listingId] (decode_or_null (decode_object SecondaryMarketClient_listingFromRaw))"

definition SecondaryMarketClient_listListingsForInvoice :: "rpc_env \<Rightarrow> client_config \<Rightarrow> int \<Rightarrow> (rpc_call, js) io" where
  "SecondaryMarketClient_listListingsForInvoice env cfg invoiceId = sdk_read env cfg ''list_listings_for_invoice'' [ScU64 invoiceId] (map_or_empty (coerce ToBig))"

definition SecondaryMarketClient_listListingsForInvestor :: "rpc_env \<Rightarrow> client_config \<Rightarrow> string \<Rightarrow> (rpc_call, js) io" where
  "SecondaryMarketClient_listListingsForInvestor env cfg seller = sdk_read env cfg ''list_listings_for_investor'' [ScAddress seller] (map_or_empty (coerce ToBig))"

definition SecondaryMarketClient_getOrder :: "rpc_env \<Rightarrow> client_config \<Rightarrow> int \<Rightarrow> (rpc_call, js) io" where
  "SecondaryMarketClient_getOrder env cfg orderId = sdk_read env cfg ''get_order'' [ScU64 orderId] (decode_or_null (decode_object SecondaryMarketClient_orderFromRaw))"

definition SecondaryMarketClient_listOrdersForOwner :: "rpc_env \<Rightarrow> client_config \<Rightarrow> string \<Rightarrow> (rpc_call, js) io" where
  "SecondaryMarketClient_listOrdersForOwner env cfg owner = sdk_read env cfg ''list_orders_for_owner'' [ScAddress owner] (map_or_empty (coerce ToBig))"

definition SecondaryMarketClient_estimateWithdrawalWait_fields :: "field list" where
  "SecondaryMarketClient_estimateWithdrawalWait_fields =
     [(''queuePosition'', ''queue_position'', ToNumber), (''capitalAhead'', ''capital_ahead'', ToBig), (''nearestInvoiceDueDate'', ''nearest_invoice_due_date'', ToNumber),
      (''estimatedWaitSecs'', ''estimated_wait_secs'', ToNumber)]"

definition SecondaryMarketClient_estimateWithdrawalWait :: "rpc_env \<Rightarrow> client_config \<Rightarrow> string \<Rightarrow> string \<Rightarrow> (rpc_call, js) io" where
  "SecondaryMarketClient_estimateWithdrawalWait env cfg investor token = sdk_read env cfg ''estimate_withdrawal_wait'' [ScAddress investor, ScAddress token] (decode_object SecondaryMarketClient_estimateWithdrawalWait_fields)"

definition SecondaryMarketClient_getLiquidityForecast_fields :: "field list" where
  "SecondaryMarketClient_getLiquidityForecast_fields =
     [(''day'', ''day'', ToNumber), (''projectedAvailable'', ''projected_available'', ToBig)]"

definition SecondaryMarketClient_getLiquidityForecast :: "rpc_env \<Rightarrow> client_config \<Rightarrow> string \<Rightarrow> int \<Rightarrow> (rpc_call, js) io" where
  "SecondaryMarketClient_getLiquidityForecast env cfg token horizonDays = sdk_read env cfg ''get_liquidity_forecast'' [ScAddress token, ScU32 horizonDays] (js_map (decode_object SecondaryMarketClient_getLiquidityForecast_fields))"

definition ShareClient_balance :: "rpc_env \<Rightarrow> client_config \<Rightarrow> string \<Rightarrow> (rpc_call, js) io" where
  "ShareClient_balance env cfg owner_id = sdk_read env cfg ''balance'' [ScAddress owner_id] (coerce (ToBigRawOr (JBigInt 0)))"

definition ShareClient_balanceAt :: "rpc_env \<Rightarrow> client_config \<Rightarrow> string \<Rightarrow> int \<Rightarrow> (rpc_call, js) io" where
  "ShareClient_balanceAt env cfg owner_id timestamp = sdk_read env cfg ''balance_at'' [ScAddress owner_id, ScU64 timestamp] (coerce (ToBigRawOr (JBigInt 0)))"

definition ShareClient_totalSupply :: "rpc_env \<Rightarrow> client_config \<Rightarrow> (rpc_call, js) io" where
  "ShareClient_totalSupply env cfg = sdk_read env cfg ''total_supply'' [] (coerce (ToBigRawOr (JBigInt 0)))"

definition ShareClient_allowance :: "rpc_env \<Rightarrow> client_config \<Rightarrow> string \<Rightarrow> string \<Rightarrow> (rpc_call, js) io" where
  "ShareClient_allowance env cfg owner spender = sdk_read env cfg ''allowance'' [ScAddress owner, ScAddress spender] (coerce (ToBigRawOr (JBigInt 0)))"

definition ShareClient_getAllowanceExpiration :: "rpc_env \<Rightarrow> client_config \<Rightarrow> string \<Rightarrow> string \<Rightarrow> (rpc_call, js) io" where
  "ShareClient_getAllowanceExpiration env cfg owner spender = sdk_read env cfg ''get_allowance_expiration'' [ScAddress owner, ScAddress spender] (coerce (ToNumberOr zero))"

definition ShareClient_decimals :: "rpc_env \<Rightarrow> client_config \<Rightarrow> (rpc_call, js) io" where
  "ShareClient_decimals env cfg = sdk_read env cfg ''decimals'' [] (coerce (ToNumberOr zero))"

definition ShareClient_name :: "rpc_env \<Rightarrow> client_config \<Rightarrow> (rpc_call, js) io" where
  "ShareClient_name env cfg = sdk_read env cfg ''name'' [] (coerce (ToStrOr (JStr [])))"

definition ShareClient_symbol :: "rpc_env \<Rightarrow> client_config \<Rightarrow> (rpc_call, js) io" where
  "ShareClient_symbol env cfg = sdk_read env cfg ''symbol'' [] (coerce (ToStrOr (JStr [])))"

definition ShareClient_isPaused :: "rpc_env \<Rightarrow> client_config \<Rightarrow> (rpc_call, js) io" where
  "ShareClient_isPaused env cfg = sdk_read env cfg ''is_paused'' [] (coerce ToBool)"

definition ShareClient_admin :: "rpc_env \<Rightarrow> client_config \<Rightarrow> (rpc_call, js) io" where
  "ShareClient_admin env cfg = sdk_read env cfg ''admin'' [] (coerce ToStr)"

definition TrancheClient_getPool :: "rpc_env \<Rightarrow> client_config \<Rightarrow> string \<Rightarrow> (rpc_call, js) io" where
  "TrancheClient_getPool env cfg token = sdk_read env cfg ''get_pool'' [ScAddress token] (TrancheClient_poolFromRaw)"

definition TrancheClient_getTrancheConfig_fields :: "field list" where
  "TrancheClient_getTrancheConfig_fields =
     [(''senior_target_yield_bps'', ''senior_target_yield_bps'', ToNumber), (''senior_advance_rate_bps'', ''senior_advance_rate_bps'', ToNumber), (''junior_first_loss_bps'', ''junior_first_loss_bps'', ToNumber)]"

definition TrancheClient_getTrancheConfig :: "rpc_env \<Rightarrow> client_config \<Rightarrow> string \<Rightarrow> (rpc_call, js) io" where
  "TrancheClient_getTrancheConfig env cfg token = sdk_read env cfg ''get_config'' [ScAddress token] (decode_object TrancheClient_getTrancheConfig_fields)"

definition TrancheClient_getInvestorPosition_fields :: "field list" where
  "TrancheClient_getInvestorPosition_fields =
     [(''deposited'', ''deposited'', ToBigOr zero), (''shares'', ''shares'', ToBigOr zero), (''earned'', ''earned'', ToBigOr zero),
      (''losses'', ''losses'', ToBigOr zero)]"

definition TrancheClient_getInvestorPosition :: "rpc_env \<Rightarrow> client_config \<Rightarrow> string \<Rightarrow> string \<Rightarrow> ContractTxs.TrancheClass \<Rightarrow> (rpc_call, js) io" where
  "TrancheClient_getInvestorPosition env cfg investor token trancheClass = sdk_read env cfg ''get_position'' [ScAddress investor, ScAddress token, trancheClassToScVal trancheClass] (decode_object TrancheClient_getInvestorPosition_fields)"

definition TrancheClient_getTotals :: "rpc_env \<Rightarrow> client_config \<Rightarrow> string \<Rightarrow> ContractTxs.TrancheClass \<Rightarrow> (rpc_call, js) io" where
  "TrancheClient_getTotals env cfg token trancheClass = sdk_read env cfg ''get_totals'' [ScAddress token, trancheClassToScVal trancheClass] (decode_object TrancheClient_accountingFromRaw)"

definition TrancheClient_getLifetimeReturnBps :: "rpc_env \<Rightarrow> client_config \<Rightarrow> string \<Rightarrow> ContractTxs.TrancheClass \<Rightarrow> (rpc_call, js) io" where
  "TrancheClient_getLifetimeReturnBps env cfg token trancheClass = sdk_read env cfg ''get_lifetime_return_bps'' [ScAddress token, trancheClassToScVal trancheClass] (coerce ToNumber)"

definition TrancheClient_getInvoiceExposure_fields :: "field list" where
  "TrancheClient_getInvoiceExposure_fields =
     [(''invoice_id'', ''invoice_id'', ToNumber), (''senior_principal'', ''senior_deployed'', ToBig), (''junior_principal'', ''junior_deployed'', ToBig),
      (''senior_repaid'', ''senior_repaid'', ToBigOr zero), (''junior_repaid'', ''junior_repaid'', ToBigOr zero), (''senior_loss'', ''senior_loss'', ToBigOr zero),
      (''junior_loss'', ''junior_loss'', ToBigOr zero)]"

definition TrancheClient_getInvoiceExposure :: "rpc_env \<Rightarrow> client_config \<Rightarrow> int \<Rightarrow> (rpc_call, js) io" where
  "TrancheClient_getInvoiceExposure env cfg invoiceId = sdk_read env cfg ''get_invoice_exposure'' [ScU64 invoiceId] (decode_or_null (decode_object TrancheClient_getInvoiceExposure_fields))"

section \<open>Reads with a shape of their own\<close>

text \<open>\<open>const [x, y] = raw\<close>.\<close>

definition destructure :: "js \<Rightarrow> (js \<Rightarrow> js \<Rightarrow> js result) \<Rightarrow> js result" where
  "destructure raw f = (case raw of JArr xs \<Rightarrow> f (elem_at xs 0) (elem_at xs 1) | _ \<Rightarrow> Inl (TypeError ''object is not iterable''))"

definition AccessControlClient_getProposal :: "rpc_env \<Rightarrow> client_config \<Rightarrow> int \<Rightarrow> (rpc_call, js) io" where
  "AccessControlClient_getProposal env cfg proposalId = sdk_read env cfg ''get_proposal'' [ScU64 proposalId] (decode_or_null (\<lambda>raw.
     then_result (actionPayloadFromNative (js_prop raw ''action'')) (\<lambda>action.
     then_result (js_to_BigInt (js_coalesce (js_prop raw ''created_at'') zero)) (\<lambda>createdAt.
     then_result (js_to_BigInt (js_coalesce (js_prop raw ''expires_at'') zero)) (\<lambda>expiresAt.
     Inr (JObj [(''role'', enumTagFromNative (js_prop raw ''role'')), (''target'', js_prop raw ''target''), (''action'', action),
       (''proposer'', js_prop raw ''proposer''), (''approvals'', js_coalesce (js_prop raw ''approvals'') (JArr [])),
       (''createdAt'', createdAt), (''expiresAt'', expiresAt), (''status'', enumTagFromNative (js_prop raw ''status''))]))))))"

fun sdk_proposals :: "rpc_env \<Rightarrow> client_config \<Rightarrow> nat list \<Rightarrow> (rpc_call, js list) io" where
  "sdk_proposals env cfg [] = io_return []"
| "sdk_proposals env cfg (i # ids) =
     io_bind (AccessControlClient_getProposal env cfg (int i)) (\<lambda>proposal.
     io_bind (sdk_proposals env cfg ids) (\<lambda>rest.
     io_return (if js_truthy proposal then JObj [(''id'', JBigInt (int i)), (''proposal'', proposal)] # rest else rest)))"

definition AccessControlClient_listProposals :: "rpc_env \<Rightarrow> client_config \<Rightarrow> (rpc_call, js) io" where
  "AccessControlClient_listProposals env cfg =
     io_bind (AccessControlClient_getNextProposalId env cfg) (\<lambda>nextId.
     io_bind (sdk_proposals env cfg [0..<(case nextId of JBigInt n \<Rightarrow> nat n | _ \<Rightarrow> 0)]) (\<lambda>results.
     io_return (JArr results)))"

definition order_level_fields :: "field list" where
  "order_level_fields = [(''orderId'', ''order_id'', ToBig), (''price'', ''price'', ToBig), (''quantity'', ''quantity'', ToBig)]"

definition SecondaryMarketClient_getOrderBook :: "rpc_env \<Rightarrow> client_config \<Rightarrow> int \<Rightarrow> string \<Rightarrow> (rpc_call, js) io" where
  "SecondaryMarketClient_getOrderBook env cfg invoiceId kind = sdk_read env cfg ''get_order_book'' [ScU64 invoiceId, listingKindToScVal kind] (\<lambda>raw.
     destructure raw (\<lambda>bids asks.
     then_result (map_or_empty (decode_object order_level_fields) bids) (\<lambda>b.
     then_result (map_or_empty (decode_object order_level_fields) asks) (\<lambda>a.
     Inr (JObj [(''bids'', b), (''asks'', a)])))))"

definition PoolClient_getInvestorCoFundPositions :: "rpc_env \<Rightarrow> client_config \<Rightarrow> string \<Rightarrow> (rpc_call, js) io" where
  "PoolClient_getInvestorCoFundPositions env cfg investor = sdk_read env cfg ''get_investor_co_fund_positions'' [ScAddress investor]
     (map_or_empty (\<lambda>pair. destructure pair (\<lambda>invoiceId bps.
       then_result (coerce ToBig invoiceId) (\<lambda>i. Inr (JObj [(''invoiceId'', i), (''bps'', bps)])))))"

definition TrancheClient_simulateWaterfall :: "rpc_env \<Rightarrow> client_config \<Rightarrow> string \<Rightarrow> int \<Rightarrow> int \<Rightarrow> int \<Rightarrow> (rpc_call, js) io" where
  "TrancheClient_simulateWaterfall env cfg token invoiceId hypotheticalRepayment elapsedSecs = sdk_read env cfg ''simulate_waterfall''
     [ScAddress token, ScU64 invoiceId, ScI128 hypotheticalRepayment, ScU64 elapsedSecs] (\<lambda>raw.
     destructure raw (\<lambda>seniorAmount juniorAmount.
     then_result (coerce ToBig seniorAmount) (\<lambda>s.
     then_result (coerce ToBig juniorAmount) (\<lambda>j.
     Inr (JObj [(''senior_amount'', s), (''junior_amount'', j), (''senior_cap'', JBigInt 0), (''elapsed_yield'', JBigInt 0)])))))"

definition InvoiceClient_getMetadata :: "rpc_env \<Rightarrow> client_config \<Rightarrow> int \<Rightarrow> (rpc_call, js) io" where
  "InvoiceClient_getMetadata env cfg invoiceId = sdk_read env cfg ''get_metadata'' [ScU64 invoiceId]
     (\<lambda>raw. decode_object [(''name'', ''name'', AsIs), (''description'', ''description'', AsIs), (''image'', ''image'', AsIs),
        (''amount'', ''amount'', ToBig), (''debtor'', ''debtor'', AsIs),
        (''dueDate'', (if js_prop raw ''due_date'' \<noteq> JUndefined then ''due_date'' else ''dueDate''), ToNumber),
        (''status'', ''status'', AsIs), (''symbol'', ''symbol'', AsIs), (''decimals'', ''decimals'', ToNumber)] raw)"

definition AuctionClient_getPoolContract :: "rpc_env \<Rightarrow> client_config \<Rightarrow> (rpc_call, js) io" where
  "AuctionClient_getPoolContract env cfg = sdk_read env cfg ''get_pool_contract'' [] (coerce (AsIsOr JNull))"

text \<open>Any error is answered with null.\<close>

definition GovernanceClient_getGovernanceAddress :: "rpc_env \<Rightarrow> client_config \<Rightarrow> (rpc_call, js) io" where
  "GovernanceClient_getGovernanceAddress env cfg h = (case sdk_read env cfg ''get_governance_address'' [] Inr h of
      (Inl e, h') \<Rightarrow> (Inr JNull, h')
    | (Inr v, h') \<Rightarrow> (Inr v, h'))"

text \<open>The three reads are started together; here they run one after the other.\<close>

definition ShareClient_metadata :: "rpc_env \<Rightarrow> client_config \<Rightarrow> (rpc_call, js) io" where
  "ShareClient_metadata env cfg =
     io_bind (ShareClient_name env cfg) (\<lambda>nm. io_bind (ShareClient_symbol env cfg) (\<lambda>sym. io_bind (ShareClient_decimals env cfg) (\<lambda>dec.
     io_return (JObj [(''name'', nm), (''symbol'', sym), (''decimals'', dec)]))))"

end
