(* ===== verification/SdkTyping.thy ===== *)
theory SdkTyping
  imports SdkTxs SdkReads ContractAnswers
begin

text \<open>
  Whether the calls of the SDK's clients fit the contracts.  As for the frontend, a network that
  checks interfaces refuses a call of an unknown function, with the wrong number of arguments or with
  an argument of the wrong type; here it is the simulation of the client's RPC server that refuses.
\<close>

section \<open>A server that checks interfaces\<close>

definition host_error :: string where
  "host_error = ''HostError: Error(WasmVm, InvalidAction)''"

definition typed_env :: "contract \<Rightarrow> rpc_env \<Rightarrow> rpc_env" where
  "typed_env c env = env\<lparr>env_simulate := (\<lambda>call h. case call of
      SimulateTransaction source cid meth args \<Rightarrow> if call_ok c meth args then env_simulate env call h else Inr (SimError host_error)
    | _ \<Rightarrow> env_simulate env call h)\<rparr>"

definition sdk_accepted :: "contract \<Rightarrow> rpc_env \<Rightarrow> (rpc_env \<Rightarrow> (rpc_call, 'a) io) \<Rightarrow> bool" where
  "sdk_accepted c env f = (f (typed_env c env) = f env)"

definition sdk_refused :: "contract \<Rightarrow> rpc_env \<Rightarrow> (rpc_env \<Rightarrow> (rpc_call, 'a) io) \<Rightarrow> bool" where
  "sdk_refused c env f = (\<forall>h. \<exists>e. fst (f (typed_env c env) h) = Inl e)"

lemma typed_env_sel [simp]:
  "env_account (typed_env c env) = env_account env" "env_send (typed_env c env) = env_send env"
  "env_status (typed_env c env) = env_status env" "env_assemble (typed_env c env) = env_assemble env"
  "env_simulate (typed_env c env) (SimulateTransaction source cid meth args) h
     = (if call_ok c meth args then env_simulate env (SimulateTransaction source cid meth args) h else Inr (SimError host_error))"
  by (simp_all add: typed_env_def)

lemma poll_status_env: "env_status env' = env_status env \<Longrightarrow> poll_status env' hash waited status h = poll_status env hash waited status h"
proof (induction env hash waited status h rule: poll_status.induct)
  case (1 env hash waited status h)
  show ?case
    by (subst (1 2) poll_status.simps) (use 1 in \<open>auto simp: io_call_def split: sum.split prod.split\<close>)
qed

lemma submitTx_env:
  assumes "env_status env' = env_status env" "env_send env' = env_send env"
  shows "Sdk.submitTx env' = Sdk.submitTx env"
proof -
  have "poll_status env' = poll_status env" using poll_status_env [OF assms(1)] by (intro ext)
  thus ?thesis using assms by (intro ext) (simp add: Sdk.submitTx_def split_def cong: if_cong)
qed

lemma typed_send:
  assumes "call_ok c meth args"
  shows "buildAndSendTx (typed_env c env) cfg caller meth args p = buildAndSendTx env cfg caller meth args p"
proof -
  have "Sdk.submitTx (typed_env c env) = Sdk.submitTx env" by (rule submitTx_env) simp_all
  moreover have "io_call (env_simulate (typed_env c env)) (SimulateTransaction caller cid meth args)
      = io_call (env_simulate env) (SimulateTransaction caller cid meth args)" for cid
    using assms by (simp add: io_call_def fun_eq_iff)
  ultimately show ?thesis by (simp add: buildAndSendTx_def cong: sim_response.case_cong)
qed

lemma refused_send:
  assumes "\<not> call_ok c meth args"
  shows "\<exists>e. fst (buildAndSendTx (typed_env c env) cfg caller meth args p h) = Inl e"
  using assms by (simp add: buildAndSendTx_def io_bind_def io_call_def io_throw_def split: sum.split prod.split)

lemmas sends_typed = sdk_accepted_def typed_send

section \<open>The calls of each client\<close>

fun is_governance_update :: "ActionPayload \<Rightarrow> bool" where
  "is_governance_update (UpdateGovernanceConfig q p d) = True"
| "is_governance_update _ = False"

lemma sdk_action_conforms:
  assumes "action_ranged act" "\<not> is_governance_update act"
  shows "conforms access_control_types (sdk_actionPayloadToScVal act) (TNamed ''ActionPayload'')"
proof -
  have "sdk_actionPayloadToScVal act = actionPayloadToScVal act" using assms(2) by (cases act) simp_all
  thus ?thesis using action_conforms [OF assms(1)] by simp
qed

lemma access_control_sdk_accepted:
  assumes "ranged i j k m n x y" "role \<in> set roles" "action_ranged act" "\<not> is_governance_update act"
  shows "sdk_accepted AccessControlC env (\<lambda>e. AccessControlClient_proposeAction e cfg role a b act prog)"
    "sdk_accepted AccessControlC env (\<lambda>e. AccessControlClient_approveAction e cfg a i prog)"
    "sdk_accepted AccessControlC env (\<lambda>e. AccessControlClient_revokeApproval e cfg a i prog)"
    "sdk_accepted AccessControlC env (\<lambda>e. AccessControlClient_rejectAction e cfg a i prog)"
    "sdk_accepted AccessControlC env (\<lambda>e. AccessControlClient_executeAction e cfg a i prog)"
  using assms
  by (simp_all add: sends_typed ranged_def call_simps sdk_action_conforms role_conforms AccessControlClient_proposeAction_def AccessControlClient_approveAction_def AccessControlClient_revokeApproval_def AccessControlClient_rejectAction_def AccessControlClient_executeAction_def split: option.splits)

lemma arbitration_sdk_accepted:
  assumes "ranged i j k m n x y" "length hash = 32" "resolution \<in> {''InFavorOfSME'', ''InFavorOfDebtor''}"
  shows "sdk_accepted ArbitrationC env (\<lambda>e. ArbitrationClient_registerJuror e cfg a x prog)"
    "sdk_accepted ArbitrationC env (\<lambda>e. ArbitrationClient_deregisterJuror e cfg a prog)"
    "sdk_accepted ArbitrationC env (\<lambda>e. ArbitrationClient_submitEvidence e cfg i a sA prog)"
    "sdk_accepted ArbitrationC env (\<lambda>e. ArbitrationClient_selectJurors e cfg a i prog)"
    "sdk_accepted ArbitrationC env (\<lambda>e. ArbitrationClient_commitVote e cfg a i hash prog)"
    "sdk_accepted ArbitrationC env (\<lambda>e. ArbitrationClient_revealVote e cfg a i p hash prog)"
    "sdk_accepted ArbitrationC env (\<lambda>e. ArbitrationClient_finalizeCase e cfg a i prog)"
    "sdk_accepted ArbitrationC env (\<lambda>e. ArbitrationClient_adminResolveNoQuorum e cfg a i resolution prog)"
  using assms
  by (auto simp: sends_typed ranged_def call_simps  ArbitrationClient_registerJuror_def ArbitrationClient_deregisterJuror_def ArbitrationClient_submitEvidence_def ArbitrationClient_selectJurors_def ArbitrationClient_commitVote_def ArbitrationClient_revealVote_def ArbitrationClient_finalizeCase_def ArbitrationClient_adminResolveNoQuorum_def split: option.splits)

lemma auction_sdk_accepted:
  assumes "ranged i j k m n x y" "in_i 128 z"
  shows "sdk_accepted AuctionC env (\<lambda>e. AuctionClient_initialize e cfg a b prog)"
    "sdk_accepted AuctionC env (\<lambda>e. AuctionClient_setCollateralRiskConfig e cfg a m i prog)"
    "sdk_accepted AuctionC env (\<lambda>e. AuctionClient_checkCollateralRisk e cfg a i prog)"
    "sdk_accepted AuctionC env (\<lambda>e. AuctionClient_liquidateCollateral e cfg a i prog)"
    "sdk_accepted AuctionC env (\<lambda>e. AuctionClient_openCollateralSale e cfg a b x c d y z i prog)"
    "sdk_accepted AuctionC env (\<lambda>e. AuctionClient_takeCollateralSale e cfg a i prog)"
    "sdk_accepted AuctionC env (\<lambda>e. AuctionClient_reclaimExpiredSale e cfg a i prog)"
  using assms
  by (simp_all add: sends_typed ranged_def call_simps collateralSaleParamsToScVal_def AuctionClient_initialize_def AuctionClient_setCollateralRiskConfig_def AuctionClient_checkCollateralRisk_def AuctionClient_liquidateCollateral_def AuctionClient_openCollateralSale_def AuctionClient_takeCollateralSale_def AuctionClient_reclaimExpiredSale_def split: option.splits)

lemma compliance_sdk_accepted:
  assumes "ranged i j k m n x y" "status \<in> {''Unscreened'', ''Cleared'', ''Flagged'', ''Blocked'', ''PendingReview''}" "tier \<in> {''Low'', ''Medium'', ''High''}"
  shows "sdk_accepted ComplianceC env (\<lambda>e. ComplianceClient_submitScreeningResult e cfg a b status m tier i sA prog)"
    "sdk_accepted ComplianceC env (\<lambda>e. ComplianceClient_requestReview e cfg a b sA prog)"
  using assms
  by (auto simp: sends_typed ranged_def call_simps unitEnumToScVal_def ComplianceClient_submitScreeningResult_def ComplianceClient_requestReview_def split: option.splits)

lemma credit_score_sdk_accepted:
  assumes "ranged i j k m n x y" "atype \<in> {''BusinessRegistry'', ''CreditBureau'', ''ExternalProtocol'', ''Manual''}"
  shows "sdk_accepted CreditScoreC env (\<lambda>e. CreditScoreClient_registerAttestor e cfg a b atype m prog)"
    "sdk_accepted CreditScoreC env (\<lambda>e. CreditScoreClient_deactivateAttestor e cfg a b prog)"
    "sdk_accepted CreditScoreC env (\<lambda>e. CreditScoreClient_submitAttestation e cfg a b atype m sA i prog)"
    "sdk_accepted CreditScoreC env (\<lambda>e. CreditScoreClient_disputeAttestation e cfg a i sA prog)"
    "sdk_accepted CreditScoreC env (\<lambda>e. CreditScoreClient_resolveAttestationDispute e cfg a i p prog)"
    "sdk_accepted CreditScoreC env (\<lambda>e. CreditScoreClient_submitRiskSignal e cfg a b m n prog)"
  using assms
  by (auto simp: sends_typed ranged_def call_simps attestorTypeToScVal_def CreditScoreClient_registerAttestor_def CreditScoreClient_deactivateAttestor_def CreditScoreClient_submitAttestation_def
    CreditScoreClient_disputeAttestation_def CreditScoreClient_resolveAttestationDispute_def CreditScoreClient_submitRiskSignal_def split: option.splits)

lemma insurance_sdk_accepted:
  assumes "ranged i j k m n x y" "premium_ranged premium"
  shows "sdk_accepted InsuranceC env (\<lambda>e. InsuranceClient_initialize e cfg a b c prog)"
    "sdk_accepted InsuranceC env (\<lambda>e. InsuranceClient_purchaseCoverage e cfg a i x b j c prog)"
    "sdk_accepted InsuranceC env (\<lambda>e. InsuranceClient_fileClaim e cfg a i prog)"
    "sdk_accepted InsuranceC env (\<lambda>e. InsuranceClient_setPremiumConfig e cfg a premium prog)"
    "sdk_accepted InsuranceC env (\<lambda>e. InsuranceClient_setMinCoverageRatio e cfg a b m prog)"
    "sdk_accepted InsuranceC env (\<lambda>e. InsuranceClient_setMinReserveAmount e cfg a b x prog)"
    "sdk_accepted InsuranceC env (\<lambda>e. InsuranceClient_fundReserveFromTreasury e cfg a b x prog)"
    "sdk_accepted InsuranceC env (\<lambda>e. InsuranceClient_setCreditScoreContract e cfg a b prog)"
    "sdk_accepted InsuranceC env (\<lambda>e. InsuranceClient_pause e cfg a prog)"
    "sdk_accepted InsuranceC env (\<lambda>e. InsuranceClient_unpause e cfg a prog)"
  using assms
  by (simp_all add: sends_typed ranged_def call_simps premiumConfigToScVal_def premium_ranged_def risk_tiers_conform InsuranceClient_initialize_def InsuranceClient_purchaseCoverage_def InsuranceClient_fileClaim_def InsuranceClient_setPremiumConfig_def InsuranceClient_setMinCoverageRatio_def InsuranceClient_setMinReserveAmount_def InsuranceClient_fundReserveFromTreasury_def InsuranceClient_setCreditScoreContract_def InsuranceClient_pause_def InsuranceClient_unpause_def split: option.splits)

lemma pool_sdk_accepted:
  assumes "ranged i j k m n x y" "rate_ranged rate" "case rateBound of Some t \<Rightarrow> in_u 32 t | None \<Rightarrow> True" "in_u 32 r"
  shows "sdk_accepted PoolC env (\<lambda>e. PoolClient_deposit e cfg a b x rateBound prog)"
    "sdk_accepted PoolC env (\<lambda>e. PoolClient_liquidateInvoice e cfg a i prog)"
    "sdk_accepted PoolC env (\<lambda>e. PoolClient_requestWithdrawal e cfg a b x prog)"
    "sdk_accepted PoolC env (\<lambda>e. PoolClient_cancelWithdrawalRequest e cfg a b prog)"
    "sdk_accepted PoolC env (\<lambda>e. PoolClient_drainWithdrawalQueue e cfg a b prog)"
    "sdk_accepted PoolC env (\<lambda>e. PoolClient_repay e cfg a i x prog)"
    "sdk_accepted PoolC env (\<lambda>e. PoolClient_fundInvoice e cfg a i x b j c prog)"
    "sdk_accepted PoolC env (\<lambda>e. PoolClient_openCoFunding e cfg a i b x c j k y m prog)"
    "sdk_accepted PoolC env (\<lambda>e. PoolClient_commitToInvoice e cfg a i x prog)"
    "sdk_accepted PoolC env (\<lambda>e. PoolClient_finalizeCoFunding e cfg a i prog)"
    "sdk_accepted PoolC env (\<lambda>e. PoolClient_withdrawCommitment e cfg a i prog)"
    "sdk_accepted PoolC env (\<lambda>e. PoolClient_transferCoFundShare e cfg a i b c m prog)"
    "sdk_accepted PoolC env (\<lambda>e. PoolClient_proposeRateModelChange e cfg a b rate prog)"
    "sdk_accepted PoolC env (\<lambda>e. PoolClient_executeRateModelChange e cfg a b prog)"
    "sdk_accepted PoolC env (\<lambda>e. PoolClient_cancelRateModelChange e cfg a b prog)"
    "sdk_accepted PoolC env (\<lambda>e. PoolClient_depositCollateral e cfg i a b x prog)"
    "sdk_accepted PoolC env (\<lambda>e. PoolClient_topUpCollateral e cfg i a b x prog)"
    "sdk_accepted PoolC env (\<lambda>e. PoolClient_setRiskContract e cfg a b prog)"
  using assms
  by (simp_all add: sends_typed ranged_def call_simps openCoFundingRequestToScVal_def rateModelConfigToScVal_def rate_ranged_def PoolClient_deposit_def PoolClient_liquidateInvoice_def PoolClient_requestWithdrawal_def PoolClient_cancelWithdrawalRequest_def PoolClient_drainWithdrawalQueue_def PoolClient_repay_def PoolClient_fundInvoice_def PoolClient_openCoFunding_def PoolClient_commitToInvoice_def PoolClient_finalizeCoFunding_def PoolClient_withdrawCommitment_def PoolClient_transferCoFundShare_def PoolClient_proposeRateModelChange_def PoolClient_executeRateModelChange_def PoolClient_cancelRateModelChange_def PoolClient_depositCollateral_def PoolClient_topUpCollateral_def PoolClient_setRiskContract_def split: option.splits)

lemma referral_sdk_accepted:
  assumes "ranged i j k m n x y" 
  shows "sdk_accepted ReferralC env (\<lambda>e. ReferralClient_initialize e cfg a b prog)"
    "sdk_accepted ReferralC env (\<lambda>e. ReferralClient_pause e cfg a prog)"
    "sdk_accepted ReferralC env (\<lambda>e. ReferralClient_unpause e cfg a prog)"
    "sdk_accepted ReferralC env (\<lambda>e. ReferralClient_setPool e cfg a b prog)"
    "sdk_accepted ReferralC env (\<lambda>e. ReferralClient_setBorrowRewardBps e cfg a m prog)"
    "sdk_accepted ReferralC env (\<lambda>e. ReferralClient_setDepositRewardBps e cfg a m prog)"
    "sdk_accepted ReferralC env (\<lambda>e. ReferralClient_setAccessControl e cfg a b prog)"
    "sdk_accepted ReferralC env (\<lambda>e. ReferralClient_register e cfg a b prog)"
    "sdk_accepted ReferralC env (\<lambda>e. ReferralClient_recordActivity e cfg a b kind x c prog)"
    "sdk_accepted ReferralC env (\<lambda>e. ReferralClient_claimRewards e cfg a b prog)"
  using assms
  by (simp_all add: sends_typed ranged_def call_simps  ReferralClient_initialize_def ReferralClient_pause_def ReferralClient_unpause_def ReferralClient_setPool_def ReferralClient_setBorrowRewardBps_def ReferralClient_setDepositRewardBps_def ReferralClient_setAccessControl_def ReferralClient_register_def ReferralClient_recordActivity_def ReferralClient_claimRewards_def split: option.splits)

lemma secondary_market_sdk_accepted:
  assumes "ranged i j k m n x y" "kind \<in> {''CoFunding'', ''SingleFunded''}" "side \<in> {''Bid'', ''Ask''}" "case expiry of Some t \<Rightarrow> in_u 64 t | None \<Rightarrow> True"
  shows "sdk_accepted SecondaryMarketC env (\<lambda>e. SecondaryMarketClient_listPosition e cfg a i kind j x prog)"
    "sdk_accepted SecondaryMarketC env (\<lambda>e. SecondaryMarketClient_cancelListing e cfg a i prog)"
    "sdk_accepted SecondaryMarketC env (\<lambda>e. SecondaryMarketClient_buyListing e cfg a i prog)"
    "sdk_accepted SecondaryMarketC env (\<lambda>e. SecondaryMarketClient_placeOrder e cfg a i kind side j x expiry prog)"
    "sdk_accepted SecondaryMarketC env (\<lambda>e. SecondaryMarketClient_cancelOrder e cfg a i prog)"
    "sdk_accepted SecondaryMarketC env (\<lambda>e. SecondaryMarketClient_expireOrder e cfg a i prog)"
  using assms
  by (auto simp: sends_typed ranged_def call_simps placeOrderRequestToScVal_def listingKindToScVal_def orderSideToScVal_def SecondaryMarketClient_listPosition_def SecondaryMarketClient_cancelListing_def SecondaryMarketClient_buyListing_def SecondaryMarketClient_placeOrder_def SecondaryMarketClient_cancelOrder_def SecondaryMarketClient_expireOrder_def split: option.splits)

lemma share_sdk_accepted:
  assumes "ranged i j k m n x y" 
  shows "sdk_accepted ShareC env (\<lambda>e. ShareClient_transfer e cfg a b x prog)"
    "sdk_accepted ShareC env (\<lambda>e. ShareClient_transferFrom e cfg a b c x prog)"
    "sdk_accepted ShareC env (\<lambda>e. ShareClient_approve e cfg a b x m prog)"
    "sdk_accepted ShareC env (\<lambda>e. ShareClient_increaseAllowance e cfg a b x prog)"
    "sdk_accepted ShareC env (\<lambda>e. ShareClient_decreaseAllowance e cfg a b x prog)"
    "sdk_accepted ShareC env (\<lambda>e. ShareClient_burn e cfg a x prog)"
    "sdk_accepted ShareC env (\<lambda>e. ShareClient_burnFrom e cfg a b x prog)"
    "sdk_accepted ShareC env (\<lambda>e. ShareClient_initialize e cfg a m sA sB prog)"
    "sdk_accepted ShareC env (\<lambda>e. ShareClient_mint e cfg a b x prog)"
    "sdk_accepted ShareC env (\<lambda>e. ShareClient_pause e cfg a prog)"
    "sdk_accepted ShareC env (\<lambda>e. ShareClient_unpause e cfg a prog)"
    "sdk_accepted ShareC env (\<lambda>e. ShareClient_setAdmin e cfg a b prog)"
  using assms
  by (simp_all add: sends_typed ranged_def call_simps  ShareClient_transfer_def ShareClient_transferFrom_def ShareClient_approve_def ShareClient_increaseAllowance_def ShareClient_decreaseAllowance_def ShareClient_burn_def ShareClient_burnFrom_def ShareClient_initialize_def ShareClient_mint_def ShareClient_pause_def ShareClient_unpause_def ShareClient_setAdmin_def split: option.splits)

lemma governance_sdk_accepted:
  assumes "ranged i j k m n x y" 
  shows "sdk_accepted GovernanceC env (\<lambda>e. GovernanceClient_executeProposal e cfg i a)"
  using assms
  by (simp_all add: sends_typed ranged_def call_simps  GovernanceClient_executeProposal_def split: option.splits)

lemma oracle_registry_sdk_accepted:
  assumes "ranged i j k m n x y" 
  shows "sdk_accepted OracleRegistryC env (\<lambda>e. openRound e cfg a i sA prog)"
    "sdk_accepted OracleRegistryC env (\<lambda>e. register e cfg a x prog)"
    "sdk_accepted OracleRegistryC env (\<lambda>e. Sdk.vote e cfg a i p sA prog)"
  using assms
  by (simp_all add: sends_typed ranged_def call_simps  openRound_def register_def Sdk.vote_def split: option.splits)

lemma invoice_sdk_accepted:
  assumes "ranged i j k m n x y" 
  shows "sdk_accepted InvoiceC env (\<lambda>e. verifyInvoice_tx e cfg a i p sA sB prog)"
  using assms
  by (simp_all add: sends_typed ranged_def call_simps  verifyInvoice_tx_def split: option.splits)


definition example_sdk_env :: rpc_env where
  "example_sdk_env = \<lparr>env_account = (\<lambda>c h. Inr ()), env_simulate = (\<lambda>c h. Inr (SimSuccess JNull)), env_send = (\<lambda>c h. Inr (''PENDING'', ''hash'')),
     env_status = (\<lambda>c h. Inr ''SUCCESS''), env_assemble = (\<lambda>source meth args v. meth)\<rparr>"

definition example_sdk_client :: client_config where
  "example_sdk_client = \<lparr>contractId = ''C'', network = ''testnet'', signer = Some (\<lambda>x. Inr x), errors = []\<rparr>"


section \<open>Calls that do not fit\<close>

lemma refused_sendI: "\<not> call_ok c meth args \<Longrightarrow> sdk_refused c env (\<lambda>e. buildAndSendTx e cfg caller meth args p)"
  by (simp add: sdk_refused_def refused_send)

lemma refused_bind: "sdk_refused c env f \<Longrightarrow> sdk_refused c env (\<lambda>e. io_bind (f e) (g e))"
  unfolding sdk_refused_def
proof
  fix h
  assume "\<forall>h. \<exists>x. fst (f (typed_env c env) h) = Inl x"
  then obtain x h' where "f (typed_env c env) h = (Inl x, h')" by (metis prod.collapse)
  thus "\<exists>x. fst (io_bind (f (typed_env c env)) (g (typed_env c env)) h) = Inl x" by (simp add: io_bind_def)
qed

text \<open>
  C31: Twelve transactions of the SDK can never succeed.  Creating an invoice leaves out the contract's
  last argument, and the initialisation of the access control contract one in the middle; of the
  governance client only the execution of a proposal works, the other five calls pass arguments the
  contract does not take (an action is encoded as a map where the contract has an enum); the
  listings are asked of the pool, which no longer exports them; a batch of fundings writes the
  entries of a request in the order of its declaration, where the host demands the alphabetical one;
  and the proposal to update the governance configuration has one value too few.  Whatever the
  values, the server refuses the simulation and the call ends in an error.
\<close>

theorem sdk_transactions_refused:
  "sdk_refused InvoiceC env (\<lambda>e. InvoiceClient_createInvoice e cfg a sA x i sB vhash prog)
   \<and> sdk_refused AccessControlC env (\<lambda>e. AccessControlClient_initialize e cfg signers m i prog)
   \<and> sdk_refused GovernanceC env (\<lambda>e. GovernanceClient_initialize e cfg a b i j m n n1 n2 n3 n4 k c)
   \<and> sdk_refused GovernanceC env (\<lambda>e. GovernanceClient_createProposal e cfg sA a action m period delay b)
   \<and> sdk_refused GovernanceC env (\<lambda>e. GovernanceClient_vote e cfg i p x a)
   \<and> sdk_refused GovernanceC env (\<lambda>e. GovernanceClient_cancelProposal e cfg i a)
   \<and> sdk_refused GovernanceC env (\<lambda>e. GovernanceClient_setExecutionDelay e cfg i a)
   \<and> sdk_refused PoolC env (\<lambda>e. PoolClient_listPosition e cfg a i kind j x prog)
   \<and> sdk_refused PoolC env (\<lambda>e. PoolClient_cancelListing e cfg a i prog)
   \<and> sdk_refused PoolC env (\<lambda>e. PoolClient_buyListing e cfg a i prog)
   \<and> sdk_refused PoolC env (\<lambda>e. PoolClient_fundInvoicesBatch e cfg a (req # reqs) prog)
   \<and> sdk_refused AccessControlC env (\<lambda>e. AccessControlClient_proposeAction e cfg role a b (UpdateGovernanceConfig m n i) prog)"
proof -
  have none: "sdk_refused c env (\<lambda>e. io_throw x)" for c and x by (simp add: sdk_refused_def io_throw_def)
  have proposal: "sdk_refused GovernanceC env (\<lambda>e. GovernanceClient_createProposal e cfg sA a action m period delay b)"
    by (cases "governanceActionToScVal action")
      (auto simp: GovernanceClient_createProposal_def none call_simps intro!: refused_bind refused_sendI)
  have init: "sdk_refused AccessControlC env (\<lambda>e. AccessControlClient_initialize e cfg signers m i prog)"
    by (cases signers) (auto simp: AccessControlClient_initialize_def none call_simps intro!: refused_sendI)
  show ?thesis
    unfolding InvoiceClient_createInvoice_def GovernanceClient_initialize_def GovernanceClient_vote_def GovernanceClient_cancelProposal_def
      GovernanceClient_setExecutionDelay_def PoolClient_listPosition_def PoolClient_cancelListing_def PoolClient_buyListing_def
      PoolClient_fundInvoicesBatch_def AccessControlClient_proposeAction_def
    by (intro conjI proposal init; rule refused_sendI; cases req; simp add: call_simps fundingRequestToScVal_def roleToScVal_def)
qed

end
