(* ===== verification/SdkErrors.thy ===== *)
theory SdkErrors
  imports ContractAbi
begin

text \<open>
  The error tables of the SDK (\<open>packages/sdk/src/generated\<close>) and the error enums of the contracts they
  were generated from.  A client looks the code of a failed call up in its table to name the error.
\<close>

section \<open>The tables of the SDK\<close>

definition AccessControlErrors :: "(int \<times> string) list" where
  "AccessControlErrors =
     [(0, ''AlreadyInitialized''), (1, ''NotInitialized''), (2, ''NotASigner''), (3, ''AlreadyApproved''), (4, ''ThresholdNotMet''),
      (5, ''ProposalNotFound''), (6, ''ProposalExpired''), (7, ''ProposalNotPending''), (8, ''ProposalNotApproved''), (9, ''InvalidThreshold''),
      (10, ''DuplicateSigner''), (11, ''RoleNotConfigured''), (12, ''SelfManagementRequiresSuperAdmin''), (13, ''InvalidExpiryWindow''), (14, ''SignerNotFound''),
      (15, ''NoApprovalToRevoke'')]"

definition ArbitrationErrors :: "(int \<times> string) list" where
  "ArbitrationErrors =
     [(0, ''AlreadyInitialized''), (1, ''NotInitialized''), (2, ''Unauthorized''), (3, ''ContractPaused''), (4, ''InvalidAmount''),
      (5, ''InsufficientStake''), (6, ''AlreadyRegistered''), (7, ''NotRegistered''), (8, ''DeregisterHasPendingCases''), (9, ''DeregisterCooldownActive''),
      (10, ''InvalidConfig''), (11, ''InvoiceContractNotSet''), (12, ''InvoiceCallFailed''), (13, ''CaseNotFound''), (14, ''InvalidCaseStatus''),
      (15, ''WindowNotClosed''), (16, ''WindowClosed''), (17, ''InvalidParty''), (18, ''NotEnoughActiveJurors''), (19, ''NotSelectedJuror''),
      (20, ''AlreadyCommitted''), (21, ''NotCommitted''), (22, ''AlreadyRevealed''), (23, ''RevealMismatch''), (24, ''RetriesNotExhausted''),
      (25, ''CaseNotEscalated''), (26, ''RetriesExhausted'')]"

definition AuctionErrors :: "(int \<times> string) list" where
  "AuctionErrors =
     [(0, ''AlreadyInitialized''), (1, ''NotInitialized''), (2, ''Unauthorized''), (3, ''RoundNotFound''), (4, ''RoundNotOpen''),
      (5, ''RoundAlreadySettled''), (6, ''BidWindowExpired''), (7, ''InvoiceNotVerified''), (8, ''InvoiceAlreadyBid''), (9, ''DiscountTooHigh''),
      (10, ''NoBids''), (11, ''InsufficientLiquidity''), (12, ''AllocationOverflow''), (13, ''RoundNotClearing''), (14, ''PoolCallFailed''),
      (15, ''InvalidSaleParams''), (16, ''SaleNotFound''), (17, ''SaleNotOpen''), (18, ''SaleExpired''), (19, ''SaleNotExpired''),
      (20, ''DepositNotFound''), (21, ''InvoiceNotFound''), (22, ''CollateralAlreadySettled''), (23, ''OraclePriceUnavailable''), (24, ''NotAtRisk''),
      (25, ''GracePeriodNotElapsed''), (26, ''InvalidRiskConfig''), (27, ''AmountOverflow'')]"

definition ComplianceErrors :: "(int \<times> string) list" where
  "ComplianceErrors =
     [(0, ''AlreadyInitialized''), (1, ''NotInitialized''), (2, ''Unauthorized''), (3, ''ContractPaused''), (4, ''InvalidConfig''),
      (5, ''ScreenerAlreadyRegistered''), (6, ''ScreenerNotRegistered''), (7, ''ScreenerTimelockActive''), (8, ''NoPendingScreener''), (9, ''InvalidStatus''),
      (10, ''AddressNotFound''), (11, ''ListFull''), (12, ''InvalidReason'')]"

definition CreditScoreErrors :: "(int \<times> string) list" where
  "CreditScoreErrors =
     [(1, ''AlreadyInitialized''), (2, ''Unauthorized''), (3, ''ContractPaused''), (4, ''InvoiceAlreadyProcessed''), (5, ''InvalidThresholds''),
      (6, ''InvalidLateThreshold''), (7, ''PaymentHistoryLimitZero''), (8, ''UpgradeTimelockNotExpired''), (9, ''NoUpgradeProposed''), (10, ''InvalidUpgradeTimelock''),
      (11, ''InvalidWasmHash''), (12, ''AdminChangePending''), (13, ''AdminChangeTimelockNotExpired''), (14, ''NoAdminChangeProposed''), (15, ''AttestorNotFound''),
      (16, ''AttestorInactive''), (17, ''InvalidAttestorWeight''), (18, ''InvalidScoreContribution''), (19, ''InvalidAttestationExpiry''), (20, ''AttestationNotFound''),
      (21, ''AttestationNotActive''), (22, ''UnauthorizedDisputeCaller''), (23, ''DisputeNotFound''), (24, ''InvalidAttestationConfig''), (27, ''InvalidRiskSignal'')]"

definition InsuranceErrors :: "(int \<times> string) list" where
  "InsuranceErrors =
     [(0, ''AlreadyInitialized''), (1, ''NotInitialized''), (2, ''Unauthorized''), (3, ''ContractPaused''), (4, ''InvalidAmount''),
      (5, ''InvalidCoverageBps''), (6, ''InvalidPremiumConfig''), (7, ''InvalidMinCoverageRatio''), (8, ''CoverageRatioFloorBreached''), (9, ''AlreadyCovered''),
      (10, ''NoCoverageFound''), (11, ''InvoiceNotDefaulted''), (12, ''NoShortfall''), (13, ''AlreadyClaimed''), (14, ''AmountOverflow''),
      (15, ''FundedInvoiceNotFound''), (16, ''PoolCallFailed''), (17, ''InsufficientReserves'')]"

definition InvoiceErrors :: "(int \<times> string) list" where
  "InvoiceErrors =
     [(1, ''Unauthorized''), (2, ''InvalidStatusTransition''), (3, ''InvoiceNotFound''), (4, ''HashMismatch''), (5, ''SmeExposureLimitExceeded''),
      (6, ''AmountOverflow''), (7, ''EmptyField''), (8, ''FieldTooLong''), (9, ''DateOverflow''), (10, ''InvalidMetadata''),
      (11, ''DescriptionTooLong''), (12, ''DebtorNameTooLong''), (13, ''VerificationHashTooLong''), (14, ''ExtensionAlreadyPending''), (15, ''InvalidDueDateExtension''),
      (16, ''ExtensionTooLarge''), (17, ''NoPendingExtension''), (18, ''PoolCallFailed''), (19, ''ArithmeticOverflow''), (20, ''EmptyDebtorName''),
      (21, ''EmptyDescription''), (22, ''InvalidVerificationHash''), (23, ''DueDateTooSoon''), (24, ''UpgradeTimelockNotExpired''), (25, ''InvalidUpgradeTimelock''),
      (26, ''InvalidWasmHash''), (27, ''VerificationDeadlineNotPassed''), (28, ''AdminChangePending''), (29, ''AdminChangeTimelockNotExpired''), (30, ''NoAdminChangeProposed''),
      (31, ''ContractPaused''), (32, ''DisputeWindowClosed''), (33, ''DisputeNotFound''), (34, ''DisputeAlreadyResolved''), (35, ''ConsensusVerificationRequired''),
      (36, ''OracleRegistryNotConfigured''), (37, ''UnauthorizedRegistry'')]"

definition PoolErrors :: "(int \<times> string) list" where
  "PoolErrors =
     [(0, ''AlreadyInitialized''), (1, ''NotInitialized''), (2, ''TokenNotAccepted''), (3, ''TokenAlreadyAccepted''), (4, ''TokenNotWhitelisted''),
      (5, ''InvoiceNotFound''), (6, ''AlreadyFullyRepaid''), (7, ''Overpayment''), (8, ''InvalidAmount''), (9, ''Unauthorized''),
      (10, ''StorageCorrupted''), (11, ''ShareTokenNotConfigured''), (12, ''ContractPaused''), (13, ''CollateralNotFound''), (14, ''CollateralAlreadySettled''),
      (15, ''DepositBelowMinimum''), (16, ''InsufficientRevenue''), (17, ''TreasuryNotConfigured''), (18, ''WithdrawalExceedsLimit''), (19, ''WithdrawalCooldownActive''),
      (20, ''InsufficientCoFundShare''), (21, ''WithdrawalRequestNotFound''), (22, ''AlreadyQueuedForWithdrawal''), (23, ''InvalidRequestId''), (24, ''InvalidFeeTier''),
      (25, ''FeeTierNotFound''), (26, ''InsufficientLiquidity''), (27, ''TokenHasActiveBalances''), (28, ''TokenHasDeployedCapital''), (29, ''TokenHasPendingWithdrawals''),
      (30, ''ConcentrationLimitExceeded''), (31, ''YieldProposalNotFound''), (32, ''YieldChangeNotReady''), (33, ''UtilizationLimitExceeded''), (34, ''AmountOverflow''),
      (35, ''BatchTooLarge''), (36, ''UnsupportedTokenDecimals''), (37, ''ZeroAmount''), (38, ''NegativeAmount''), (39, ''TransferMismatch''),
      (40, ''KycNotApproved''), (41, ''InvalidThreshold''), (42, ''NotDefaulted''), (43, ''InvoicePoolMismatch''), (44, ''InvalidShareToken''),
      (45, ''DuplicateInvoiceId''), (46, ''InvalidCollateralThreshold''), (47, ''InvalidCollateralBps''), (48, ''KycNotRequested''), (49, ''KycRejected''),
      (50, ''UpgradeTimelockNotExpired''), (51, ''InvalidUpgradeTimelock''), (52, ''InvalidWasmHash''), (53, ''InsufficientPoolFunds''), (54, ''AdminChangePending''),
      (55, ''AdminChangeTimelockNotExpired''), (56, ''NoAdminChangeProposed''), (57, ''TimestampInPast''), (58, ''InvoiceExpired''), (59, ''OperationRequiresProposal''),
      (60, ''ProposalNotFound''), (61, ''ProposalNotReady''), (62, ''ProposalAlreadyExecuted''), (63, ''ProposalAlreadyCancelled''), (64, ''InvalidOperationDelay''),
      (65, ''TokenHasActiveCofundingCommitments''), (66, ''CoFundingRoundNotFound''), (67, ''CoFundingRoundAlreadyExists''), (68, ''CoFundingRoundNotOpen''), (69, ''CoFundingRoundAlreadyFinalized''),
      (70, ''CoFundingDeadlinePassed''), (71, ''CoFundingDeadlineNotPassed''), (72, ''CoFundingBelowMinimum''), (73, ''CoFundingInvestorCapExceeded''), (74, ''CoFundingNoCommitment''),
      (75, ''CoFundingRoundNotFilled''), (76, ''CoFundingTooManyParticipants''), (77, ''InvalidCoFundingParams''), (78, ''WithdrawalQueueFull''), (79, ''InvalidRateModelConfig''),
      (80, ''RateModelNotConfigured''), (81, ''RateModelProposalNotFound''), (82, ''RateModelChangeNotReady'')]"

definition ReferralErrors :: "(int \<times> string) list" where
  "ReferralErrors =
     [(0, ''AlreadyInitialized''), (1, ''Unauthorized''), (2, ''AlreadyRegistered''), (3, ''SelfReferral''), (4, ''InvalidBps''),
      (5, ''ContractPaused''), (6, ''AccessControlNotConfigured'')]"

definition SecondaryMarketErrors :: "(int \<times> string) list" where
  "SecondaryMarketErrors =
     [(0, ''AlreadyInitialized''), (1, ''NotInitialized''), (2, ''Unauthorized''), (3, ''ContractPaused''), (4, ''ZeroAmount''),
      (5, ''InvalidAmount''), (6, ''ListingNotFound''), (7, ''ListingNotOpen''), (8, ''ListingNotSeller''), (9, ''TooManyListings''),
      (10, ''SettlementFailed''), (11, ''OrderNotFound''), (12, ''OrderNotOpen''), (13, ''OrderNotOwner''), (14, ''TooManyOrders''),
      (15, ''InvalidExpiry'')]"

definition ShareErrors :: "(int \<times> string) list" where
  "ShareErrors =
     [(1, ''ContractPaused''), (2, ''AlreadyInitialized''), (3, ''NotInitialized''), (4, ''Unauthorized''), (5, ''InvalidDecimals''),
      (6, ''InvalidAmount''), (7, ''InsufficientBalance''), (8, ''AllowanceExceeded''), (9, ''AllowanceOverflow''), (10, ''AllowanceUnderflow''),
      (11, ''TotalSupplyOverflow''), (12, ''TotalSupplyUnderflow'')]"

section \<open>The error enums of the contracts\<close>

definition access_control_error :: "(int \<times> string) list" where
  "access_control_error =
     [(0, ''AlreadyInitialized''), (1, ''NotInitialized''), (2, ''NotASigner''), (3, ''AlreadyApproved''), (4, ''ThresholdNotMet''),
      (5, ''ProposalNotFound''), (6, ''ProposalExpired''), (7, ''ProposalNotPending''), (8, ''ProposalNotApproved''), (20, ''ProposalNotYetExecutable''),
      (9, ''InvalidThreshold''), (10, ''DuplicateSigner''), (11, ''RoleNotConfigured''), (12, ''SelfManagementRequiresSuperAdmin''), (13, ''InvalidExpiryWindow''),
      (14, ''SignerNotFound''), (15, ''NoApprovalToRevoke''), (16, ''IncoherentProposal''), (17, ''MaxSignersExceeded''), (18, ''ThresholdMustBeLoweredBeforeSignerRemoval''),
      (19, ''RoleNotAuthorized'')]"

definition arbitration_error :: "(int \<times> string) list" where
  "arbitration_error =
     [(0, ''AlreadyInitialized''), (1, ''NotInitialized''), (2, ''Unauthorized''), (3, ''ContractPaused''), (4, ''InvalidAmount''),
      (5, ''InsufficientStake''), (6, ''AlreadyRegistered''), (7, ''NotRegistered''), (8, ''DeregisterHasPendingCases''), (9, ''DeregisterCooldownActive''),
      (10, ''InvalidConfig''), (11, ''InvoiceContractNotSet''), (12, ''InvoiceCallFailed''), (13, ''CaseNotFound''), (14, ''InvalidCaseStatus''),
      (15, ''WindowNotClosed''), (16, ''WindowClosed''), (17, ''InvalidParty''), (18, ''NotEnoughActiveJurors''), (19, ''NotSelectedJuror''),
      (20, ''AlreadyCommitted''), (21, ''NotCommitted''), (22, ''AlreadyRevealed''), (23, ''RevealMismatch''), (24, ''RetriesNotExhausted''),
      (25, ''CaseNotEscalated''), (26, ''RetriesExhausted'')]"

definition auction_error :: "(int \<times> string) list" where
  "auction_error =
     [(0, ''AlreadyInitialized''), (1, ''NotInitialized''), (2, ''Unauthorized''), (3, ''RoundNotFound''), (4, ''RoundNotOpen''),
      (5, ''RoundAlreadySettled''), (6, ''BidWindowExpired''), (7, ''InvoiceNotVerified''), (8, ''InvoiceAlreadyBid''), (9, ''DiscountTooHigh''),
      (10, ''NoBids''), (11, ''InsufficientLiquidity''), (12, ''AllocationOverflow''), (13, ''RoundNotClearing''), (14, ''PoolCallFailed''),
      (15, ''InvalidSaleParams''), (16, ''SaleNotFound''), (17, ''SaleNotOpen''), (18, ''SaleExpired''), (19, ''SaleNotExpired''),
      (20, ''DepositNotFound''), (21, ''InvoiceNotFound''), (22, ''CollateralAlreadySettled''), (23, ''OraclePriceUnavailable''), (24, ''NotAtRisk''),
      (25, ''GracePeriodNotElapsed''), (26, ''InvalidRiskConfig''), (27, ''AmountOverflow''), (28, ''AuctionNotFound''), (29, ''AuctionNotOpen''),
      (30, ''AuctionExpired''), (31, ''AuctionNotExpired''), (32, ''AuctionAlreadySettled''), (33, ''BidAmountTooLow''), (34, ''BidEscrowFailed''),
      (35, ''BidWithdrawFailed''), (36, ''UnauthorizedSettlement'')]"

definition compliance_error :: "(int \<times> string) list" where
  "compliance_error =
     [(0, ''AlreadyInitialized''), (1, ''NotInitialized''), (2, ''Unauthorized''), (3, ''ContractPaused''), (4, ''InvalidConfig''),
      (5, ''ScreenerAlreadyRegistered''), (6, ''ScreenerNotRegistered''), (7, ''ScreenerTimelockActive''), (8, ''NoPendingScreener''), (9, ''InvalidStatus''),
      (10, ''AddressNotFound''), (11, ''ListFull''), (12, ''InvalidReason''), (13, ''ReviewRequestTooSoon''), (14, ''RescreeningTooSoon''),
      (15, ''AccessControlNotConfigured''), (16, ''GovernanceNotConfigured'')]"

definition credit_score_error :: "(int \<times> string) list" where
  "credit_score_error =
     [(1, ''AlreadyInitialized''), (2, ''Unauthorized''), (3, ''ContractPaused''), (4, ''InvoiceAlreadyProcessed''), (5, ''InvalidThresholds''),
      (6, ''InvalidLateThreshold''), (7, ''PaymentHistoryLimitZero''), (8, ''UpgradeTimelockNotExpired''), (9, ''NoUpgradeProposed''), (10, ''InvalidUpgradeTimelock''),
      (11, ''InvalidWasmHash''), (12, ''AdminChangePending''), (13, ''AdminChangeTimelockNotExpired''), (14, ''NoAdminChangeProposed''), (15, ''AttestorNotFound''),
      (16, ''AttestorInactive''), (17, ''InvalidAttestorWeight''), (18, ''InvalidScoreContribution''), (19, ''InvalidAttestationExpiry''), (20, ''AttestationNotFound''),
      (21, ''AttestationNotActive''), (22, ''UnauthorizedDisputeCaller''), (23, ''DisputeNotFound''), (24, ''InvalidAttestationConfig''), (25, ''AccessControlNotConfigured''),
      (26, ''InvalidAttestorType''), (27, ''InvalidRiskSignal''), (28, ''InvalidScoringConfig'')]"

definition insurance_error :: "(int \<times> string) list" where
  "insurance_error =
     [(0, ''AlreadyInitialized''), (1, ''NotInitialized''), (2, ''Unauthorized''), (3, ''ContractPaused''), (4, ''InvalidAmount''),
      (5, ''InvalidCoverageBps''), (6, ''InvalidPremiumConfig''), (7, ''InvalidMinCoverageRatio''), (8, ''CoverageRatioFloorBreached''), (9, ''AlreadyCovered''),
      (10, ''NoCoverageFound''), (11, ''InvoiceNotDefaulted''), (12, ''NoShortfall''), (13, ''AlreadyClaimed''), (14, ''AmountOverflow''),
      (15, ''FundedInvoiceNotFound''), (16, ''PoolCallFailed''), (17, ''InsufficientReserves'')]"

definition invoice_error :: "(int \<times> string) list" where
  "invoice_error =
     [(0, ''AlreadyInitialized''), (1, ''Unauthorized''), (2, ''InvalidStatusTransition''), (3, ''InvoiceNotFound''), (4, ''HashMismatch''),
      (5, ''SmeExposureLimitExceeded''), (6, ''AmountOverflow''), (7, ''InvalidConfig''), (8, ''FieldTooLong''), (9, ''DateOverflow''),
      (10, ''InvalidMetadata''), (11, ''DescriptionTooLong''), (12, ''DebtorNameTooLong''), (13, ''VerificationHashTooLong''), (14, ''ExtensionAlreadyPending''),
      (15, ''InvalidDueDateExtension''), (16, ''ExtensionTooLarge''), (17, ''NoPendingExtension''), (18, ''PoolCallFailed''), (19, ''ArithmeticOverflow''),
      (20, ''EmptyDebtorName''), (21, ''EmptyDescription''), (22, ''InvalidVerificationHash''), (23, ''DueDateTooSoon''), (24, ''UpgradeTimelockNotExpired''),
      (25, ''InvalidUpgradeTimelock''), (26, ''InvalidWasmHash''), (27, ''VerificationDeadlineNotPassed''), (28, ''AdminChangePending''), (29, ''AdminChangeTimelockNotExpired''),
      (30, ''NoAdminChangeProposed''), (31, ''ContractPaused''), (32, ''DisputeWindowClosed''), (33, ''DisputeNotFound''), (34, ''DisputeAlreadyResolved''),
      (35, ''ConsensusVerificationRequired''), (36, ''OracleRegistryNotConfigured''), (37, ''UnauthorizedRegistry''), (38, ''ComplianceNotCleared''), (39, ''ComplianceCheckFailed''),
      (40, ''ComplianceRegistryNotConfigured''), (41, ''RateLimitExceeded''), (42, ''InvalidDescriptionChars''), (43, ''InvalidAmount''), (44, ''InvalidDueDate''),
      (45, ''AccessControlNotConfigured''), (46, ''IDCollision''), (47, ''UnauthorizedArbitration''), (48, ''InvalidRespondent''), (49, ''ArbitrationRequired'')]"

definition oracle_registry_error :: "(int \<times> string) list" where
  "oracle_registry_error =
     [(0, ''AlreadyInitialized''), (1, ''NotInitialized''), (2, ''Unauthorized''), (3, ''ContractPaused''), (4, ''InvalidAmount''),
      (5, ''InsufficientStake''), (6, ''AlreadyRegistered''), (7, ''NotRegistered''), (8, ''DeregisterHasPendingVotes''), (9, ''DeregisterCooldownActive''),
      (10, ''InvalidBps''), (11, ''NoActiveOracles''), (12, ''RoundAlreadyOpen''), (13, ''RoundNotFound''), (14, ''RoundNotOpen''),
      (15, ''RoundExpired''), (16, ''RoundNotExpired''), (17, ''AlreadyVoted''), (18, ''InvoiceContractNotSet''), (19, ''InvoiceCallFailed''),
      (20, ''InvalidConfig''), (21, ''InvoiceNotAwaitingVerification''), (22, ''InvalidQuorumTiers''), (23, ''InvalidEvidence''), (24, ''SlashRoundNotFound''),
      (25, ''AccessControlNotConfigured''), (26, ''GovernanceNotConfigured''), (27, ''TreasuryAlreadyConfigured''), (28, ''InvalidPagination'')]"

definition pool_error :: "(int \<times> string) list" where
  "pool_error =
     [(0, ''AlreadyInitialized''), (1, ''NotInitialized''), (2, ''TokenNotAccepted''), (3, ''TokenAlreadyAccepted''), (4, ''TokenNotWhitelisted''),
      (5, ''InvoiceNotFound''), (6, ''AlreadyFullyRepaid''), (7, ''Overpayment''), (8, ''InvalidAmount''), (9, ''Unauthorized''),
      (10, ''StorageCorrupted''), (11, ''ShareTokenNotConfigured''), (24, ''InvalidFeeTier''), (25, ''FeeTierNotFound''), (12, ''ContractPaused''),
      (13, ''CollateralNotFound''), (14, ''CollateralAlreadySettled''), (15, ''DepositBelowMinimum''), (16, ''InsufficientRevenue''), (17, ''TreasuryNotConfigured''),
      (18, ''WithdrawalExceedsLimit''), (19, ''WithdrawalCooldownActive''), (20, ''InsufficientCoFundShare''), (26, ''InsufficientLiquidity''), (21, ''WithdrawalRequestNotFound''),
      (22, ''AlreadyQueuedForWithdrawal''), (23, ''InvalidRequestId''), (27, ''TokenHasActiveBalances''), (28, ''TokenHasDeployedCapital''), (29, ''TokenHasPendingWithdrawals''),
      (30, ''ConcentrationLimitExceeded''), (33, ''UtilizationLimitExceeded''), (34, ''AmountOverflow''), (35, ''BatchTooLarge''), (31, ''YieldProposalNotFound''),
      (32, ''YieldChangeNotReady''), (36, ''UnsupportedTokenDecimals''), (37, ''ZeroAmount''), (38, ''NegativeAmount''), (39, ''TransferMismatch''),
      (40, ''KycNotApproved''), (41, ''InvalidThreshold''), (42, ''NotDefaulted''), (43, ''InvoicePoolMismatch''), (44, ''InvalidShareToken''),
      (45, ''DuplicateInvoiceId''), (46, ''InvalidCollateralThreshold''), (47, ''InvalidCollateralBps''), (48, ''KycNotRequested''), (49, ''KycRejected''),
      (50, ''UpgradeTimelockNotExpired''), (51, ''InvalidUpgradeTimelock''), (52, ''InvalidWasmHash''), (53, ''InsufficientPoolFunds''), (54, ''AdminChangePending''),
      (55, ''AdminChangeTimelockNotExpired''), (56, ''NoAdminChangeProposed''), (57, ''TimestampInPast''), (58, ''InvoiceExpired''), (59, ''OperationRequiresProposal''),
      (60, ''ProposalNotFound''), (61, ''ProposalNotReady''), (62, ''ProposalAlreadyExecuted''), (63, ''ProposalAlreadyCancelled''), (64, ''InvalidOperationDelay''),
      (65, ''TokenHasActiveCofundingCommitments''), (66, ''CoFundingRoundNotFound''), (67, ''CoFundingRoundAlreadyExists''), (68, ''CoFundingRoundNotOpen''), (69, ''CoFundingRoundAlreadyFinalized''),
      (70, ''CoFundingDeadlinePassed''), (71, ''CoFundingDeadlineNotPassed''), (72, ''CoFundingBelowMinimum''), (73, ''CoFundingInvestorCapExceeded''), (74, ''CoFundingNoCommitment''),
      (75, ''CoFundingRoundNotFilled''), (76, ''CoFundingTooManyParticipants''), (77, ''InvalidCoFundingParams''), (78, ''WithdrawalQueueFull''), (79, ''InvalidRateModelConfig''),
      (80, ''RateModelNotConfigured''), (81, ''RateModelProposalNotFound''), (82, ''RateModelChangeNotReady''), (83, ''ComplianceNotCleared''), (84, ''ComplianceCheckFailed''),
      (85, ''OraclePriceUnavailable''), (86, ''InvalidLoyaltyTiers''), (87, ''RateBelowMinimum''), (88, ''AccessControlNotConfigured''), (89, ''AccessControlAlreadyConfigured''),
      (90, ''ListingNotFound''), (91, ''ListingNotOpen''), (92, ''ListingNotSeller''), (93, ''InsufficientListingBalance''), (94, ''TooManyListings''),
      (95, ''ListingPriceMismatch''), (96, ''InvoiceNotCancelled''), (97, ''GovernanceNotConfigured''), (98, ''ReentrantCall'')]"

definition referral_error :: "(int \<times> string) list" where
  "referral_error =
     [(0, ''AlreadyInitialized''), (1, ''Unauthorized''), (2, ''AlreadyRegistered''), (3, ''SelfReferral''), (4, ''InvalidBps''),
      (5, ''ContractPaused''), (6, ''AccessControlNotConfigured''), (7, ''InvalidRewardCap''), (8, ''RewardOverflow''), (9, ''ReferralCycle''),
      (10, ''InvalidActivityKind''), (11, ''NotInitialized'')]"

definition secondary_market_error :: "(int \<times> string) list" where
  "secondary_market_error =
     [(0, ''AlreadyInitialized''), (1, ''NotInitialized''), (2, ''Unauthorized''), (3, ''ContractPaused''), (4, ''ZeroAmount''),
      (5, ''InvalidAmount''), (6, ''ListingNotFound''), (7, ''ListingNotOpen''), (8, ''ListingNotSeller''), (9, ''TooManyListings''),
      (10, ''SettlementFailed''), (11, ''OrderNotFound''), (12, ''OrderNotOpen''), (13, ''OrderNotOwner''), (14, ''TooManyOrders''),
      (15, ''InvalidExpiry''), (16, ''Reentrancy'')]"

definition share_error :: "(int \<times> string) list" where
  "share_error =
     [(1, ''ContractPaused''), (2, ''AlreadyInitialized''), (3, ''NotInitialized''), (4, ''Unauthorized''), (5, ''InvalidDecimals''),
      (6, ''InvalidAmount''), (7, ''InsufficientBalance''), (8, ''AllowanceExceeded''), (9, ''AllowanceOverflow''), (10, ''AllowanceUnderflow''),
      (11, ''TotalSupplyOverflow''), (12, ''TotalSupplyUnderflow'')]"

fun sdk_errors :: "contract \<Rightarrow> (int \<times> string) list" where
  "sdk_errors AccessControlC = AccessControlErrors"
| "sdk_errors ArbitrationC = ArbitrationErrors"
| "sdk_errors AuctionC = AuctionErrors"
| "sdk_errors ComplianceC = ComplianceErrors"
| "sdk_errors CreditScoreC = CreditScoreErrors"
| "sdk_errors InsuranceC = InsuranceErrors"
| "sdk_errors InvoiceC = InvoiceErrors"
| "sdk_errors OracleRegistryC = OracleRegistryErrors"
| "sdk_errors PoolC = PoolErrors"
| "sdk_errors ReferralC = ReferralErrors"
| "sdk_errors SecondaryMarketC = SecondaryMarketErrors"
| "sdk_errors ShareC = ShareErrors"
| "sdk_errors _ = []"

fun contract_errors :: "contract \<Rightarrow> (int \<times> string) list" where
  "contract_errors AccessControlC = access_control_error"
| "contract_errors ArbitrationC = arbitration_error"
| "contract_errors AuctionC = auction_error"
| "contract_errors ComplianceC = compliance_error"
| "contract_errors CreditScoreC = credit_score_error"
| "contract_errors InsuranceC = insurance_error"
| "contract_errors InvoiceC = invoice_error"
| "contract_errors OracleRegistryC = oracle_registry_error"
| "contract_errors PoolC = pool_error"
| "contract_errors ReferralC = referral_error"
| "contract_errors SecondaryMarketC = secondary_market_error"
| "contract_errors ShareC = share_error"
| "contract_errors _ = []"

text \<open>Every name of a table is the contract's name for that code; and every code has a name.\<close>

definition names_right :: "contract \<Rightarrow> bool" where
  "names_right c = list_all (\<lambda>(n, s). map_of (contract_errors c) n = Some s) (sdk_errors c)"

definition names_all :: "contract \<Rightarrow> bool" where
  "names_all c = list_all (\<lambda>(n, s). map_of (sdk_errors c) n = Some s) (contract_errors c)"

lemma map_of_agree: "list_all (\<lambda>(n, s). map_of ys n = Some s) xs \<Longrightarrow> map_of xs n = Some s \<Longrightarrow> map_of ys n = Some s"
  by (induction xs) (auto split: if_splits)

text \<open>Two tables are compared in one pass, after the second has been sorted by code.\<close>

fun ascending :: "(int \<times> string) list \<Rightarrow> bool" where
  "ascending (x # y # r) = (fst x < fst y \<and> ascending (y # r))"
| "ascending _ = True"

fun part_of :: "(int \<times> string) list \<Rightarrow> (int \<times> string) list \<Rightarrow> bool" where
  "part_of [] _ = True"
| "part_of (_ # _) [] = False"
| "part_of (x # xs) (y # ys) = (if fst x = fst y then snd x = snd y \<and> part_of xs ys else part_of (x # xs) ys)"

lemma ascending_above: "ascending (x # r) \<Longrightarrow> y \<in> set r \<Longrightarrow> fst x < fst y"
proof (induction r arbitrary: x)
  case (Cons z r)
  show ?case using Cons.IH [of z] Cons.prems by (cases "y = z"; cases z) auto
qed simp

lemma ascending_tail: "ascending (x # r) \<Longrightarrow> ascending r"
  by (cases r) auto

lemma ascending_map_of: "ascending ys \<Longrightarrow> y \<in> set ys \<Longrightarrow> map_of ys (fst y) = Some (snd y)"
proof (induction ys)
  case (Cons z ys)
  then show ?case using ascending_above [of z ys y] ascending_tail [of z ys] by auto
qed simp

lemma part_of_set: "part_of xs ys \<Longrightarrow> set xs \<subseteq> set ys"
  by (induction xs ys rule: part_of.induct) (auto simp: prod_eq_iff split: if_splits)

lemma map_of_hd_filter: "map_of xs n = (case filter (\<lambda>x. fst x = n) xs of [] \<Rightarrow> None | x # _ \<Rightarrow> Some (snd x))"
  by (induction xs) auto

lemma map_of_sort_key: "map_of (sort_key fst xs) n = map_of xs n"
  unfolding map_of_hd_filter by (simp add: sort_key_stable)

lemma part_of_agree:
  assumes "ascending (sort_key fst ys)" "part_of xs (sort_key fst ys)"
  shows "list_all (\<lambda>(n, s). map_of ys n = Some s) xs"
  using ascending_map_of [OF assms(1)] part_of_set [OF assms(2)] by (fastforce simp: list_all_iff map_of_sort_key)

lemma access_control_names: "names_right AccessControlC"
  unfolding names_right_def by (rule part_of_agree) code_simp+

lemma arbitration_names: "names_right ArbitrationC"
  unfolding names_right_def by (rule part_of_agree) code_simp+

lemma auction_names: "names_right AuctionC"
  unfolding names_right_def by (rule part_of_agree) code_simp+

lemma compliance_names: "names_right ComplianceC"
  unfolding names_right_def by (rule part_of_agree) code_simp+

lemma credit_score_names: "names_right CreditScoreC"
  unfolding names_right_def by (rule part_of_agree) code_simp+

lemma insurance_names: "names_right InsuranceC"
  unfolding names_right_def by (rule part_of_agree) code_simp+

lemma oracle_registry_names: "names_right OracleRegistryC"
  unfolding names_right_def by (rule part_of_agree) code_simp+

lemma pool_names: "names_right PoolC"
  unfolding names_right_def by (rule part_of_agree) code_simp+

lemma referral_names: "names_right ReferralC"
  unfolding names_right_def by (rule part_of_agree) code_simp+

lemma secondary_market_names: "names_right SecondaryMarketC"
  unfolding names_right_def by (rule part_of_agree) code_simp+

lemma share_names: "names_right ShareC"
  unfolding names_right_def by (rule part_of_agree) code_simp+

lemma arbitration_all_names: "names_all ArbitrationC"
  unfolding names_all_def by (rule part_of_agree) code_simp+

lemma insurance_all_names: "names_all InsuranceC"
  unfolding names_all_def by (rule part_of_agree) code_simp+

lemma share_all_names: "names_all ShareC"
  unfolding names_all_def by (rule part_of_agree) code_simp+

lemma invoice_seven:
  "map_of InvoiceErrors 7 = Some ''EmptyField''" "map_of invoice_error 7 = Some ''InvalidConfig''"
  by code_simp+

lemmas sdk_names = access_control_names arbitration_names auction_names compliance_names credit_score_names insurance_names oracle_registry_names pool_names referral_names secondary_market_names share_names

text \<open>
  The error names of the SDK.  When the text of a failed simulation starts with the contract's
  error code, the name the client reports is the name the contract's enum gives that code, for every
  contract but the invoice contract; for arbitration, insurance and share every code of the contract
  has a name.  The invoice table is out of date: it names code 7 \<open>EmptyField\<close>, which the contract
  calls \<open>InvalidConfig\<close>.
\<close>

theorem sdk_error_names:
  assumes "c \<in> {AccessControlC, ArbitrationC, AuctionC, ComplianceC, CreditScoreC, InsuranceC, OracleRegistryC, PoolC, ReferralC, SecondaryMarketC, ShareC}"
    and "parseContractError (sdk_errors c) (error_marker n @ post) = ContractError raw code (Some name)"
  shows "code = Some (int n) \<and> map_of (contract_errors c) (int n) = Some name
    \<and> names_all ArbitrationC \<and> names_all InsuranceC \<and> names_all ShareC
    \<and> parseContractError (sdk_errors InvoiceC) (error_marker 7 @ post)
        = ContractError (error_marker 7 @ post) (Some 7) (Some ''EmptyField'') \<and> map_of (contract_errors InvoiceC) 7 = Some ''InvalidConfig''"
proof -
  have parse: "parseContractError errs (error_marker m @ post) = ContractError (error_marker m @ post) (Some (int m)) (map_of errs (int m))" for errs m
    by (simp add: parseContractError_def match_code_marker Let_def)
  have right: "list_all (\<lambda>(n, s). map_of (contract_errors c) n = Some s) (sdk_errors c)"
    using assms(1) sdk_names unfolding names_right_def by auto
  have name: "map_of (sdk_errors c) (int n) = Some name" and code: "code = Some (int n)" using assms(2) by (simp_all add: parse)
  have "map_of (contract_errors c) (int n) = Some name" by (rule map_of_agree [OF right name])
  then show ?thesis
    by (simp only: parse code sdk_errors.simps contract_errors.simps invoice_seven arbitration_all_names insurance_all_names share_all_names
        simp_thms of_nat_numeral)
qed

theorem sdk_error_names_witness: "map_of (contract_errors PoolC) 12 = Some ''ContractPaused''"
proof -
  have "parseContractError (sdk_errors PoolC) (error_marker 12 @ []) = ContractError (error_marker 12) (Some 12) (Some ''ContractPaused'')"
    using match_code_marker [of 12 "[]"] by (simp add: parseContractError_def PoolErrors_def Let_def)
  then show ?thesis using sdk_error_names [of PoolC 12 "[]"] by simp
qed

end
