(* ===== verification/SdkFacade.thy ===== *)
theory SdkFacade
  imports SdkTyping SdkErrors
begin

text \<open>
  The facade of the SDK (\<open>packages/sdk/src/astera-client.ts\<close>).  It builds one client per contract from
  the RPC URL, the network and the contract's id, and every method of its namespaces hands its
  parameters on to a client.
\<close>

section \<open>Construction\<close>

record facade_config =
  fc_network :: string
  fc_invoice :: string
  fc_pool :: string
  fc_secondary_market :: "string option"
  fc_auction :: "string option"
  fc_credit_score :: "string option"
  fc_oracle_registry :: "string option"
  fc_compliance :: "string option"
  fc_tranche :: "string option"
  fc_access_control :: "string option"
  fc_insurance :: "string option"

text \<open>The clients' own error tables; four clients do not declare one.\<close>

definition new_client :: "facade_config \<Rightarrow> string option \<Rightarrow> (int \<times> string) list \<Rightarrow> client_config" where
  "new_client cfg cid errs = \<lparr>contractId = (case cid of Some c \<Rightarrow> c | None \<Rightarrow> []), network = fc_network cfg, signer = None, errors = errs\<rparr>"

definition invoice_client :: "facade_config \<Rightarrow> client_config" where
  "invoice_client cfg = new_client cfg (Some (fc_invoice cfg)) InvoiceErrors"

definition pool_client :: "facade_config \<Rightarrow> client_config" where
  "pool_client cfg = new_client cfg (Some (fc_pool cfg)) PoolErrors"

definition secondary_market_client :: "facade_config \<Rightarrow> client_config" where
  "secondary_market_client cfg = new_client cfg (fc_secondary_market cfg) SecondaryMarketErrors"

definition auction_client :: "facade_config \<Rightarrow> client_config" where
  "auction_client cfg = new_client cfg (fc_auction cfg) AuctionErrors"

definition credit_score_client :: "facade_config \<Rightarrow> client_config" where
  "credit_score_client cfg = new_client cfg (fc_credit_score cfg) []"

definition oracle_registry_client :: "facade_config \<Rightarrow> client_config" where
  "oracle_registry_client cfg = new_client cfg (fc_oracle_registry cfg) OracleRegistryErrors"

definition compliance_client :: "facade_config \<Rightarrow> client_config" where
  "compliance_client cfg = new_client cfg (fc_compliance cfg) []"

definition tranche_client :: "facade_config \<Rightarrow> client_config" where
  "tranche_client cfg = new_client cfg (fc_tranche cfg) []"

definition access_control_client :: "facade_config \<Rightarrow> client_config" where
  "access_control_client cfg = new_client cfg (fc_access_control cfg) []"

definition insurance_client :: "facade_config \<Rightarrow> client_config" where
  "insurance_client cfg = new_client cfg (fc_insurance cfg) InsuranceErrors"

section \<open>The namespaces\<close>

definition astera_invoice_get :: "rpc_env \<Rightarrow> facade_config \<Rightarrow> int \<Rightarrow> (rpc_call, js) io" where
  "astera_invoice_get env cfg owner_id = InvoiceClient_getInvoice env (invoice_client cfg) owner_id"

definition astera_invoice_getMetadata :: "rpc_env \<Rightarrow> facade_config \<Rightarrow> int \<Rightarrow> (rpc_call, js) io" where
  "astera_invoice_getMetadata env cfg invoiceId = InvoiceClient_getMetadata env (invoice_client cfg) invoiceId"

definition astera_invoice_create :: "rpc_env \<Rightarrow> facade_config \<Rightarrow> string \<Rightarrow> string \<Rightarrow> int \<Rightarrow> int \<Rightarrow> string \<Rightarrow> string option \<Rightarrow> bool \<Rightarrow> (rpc_call, string) io" where
  "astera_invoice_create env cfg owner debtor amount dueDate description verificationHash onProgress = InvoiceClient_createInvoice env (invoice_client cfg) owner debtor amount dueDate description verificationHash onProgress"

definition astera_invoice_verify :: "rpc_env \<Rightarrow> facade_config \<Rightarrow> string \<Rightarrow> int \<Rightarrow> bool \<Rightarrow> string \<Rightarrow> string \<Rightarrow> bool \<Rightarrow> (rpc_call, string) io" where
  "astera_invoice_verify env cfg oracle invoiceId approved reason oracleHash onProgress = verifyInvoice_tx env (invoice_client cfg) oracle invoiceId approved reason oracleHash onProgress"

definition astera_pool_getConfig :: "rpc_env \<Rightarrow> facade_config \<Rightarrow> (rpc_call, js) io" where
  "astera_pool_getConfig env cfg = PoolClient_getConfig env (pool_client cfg)"

definition astera_pool_getPosition :: "rpc_env \<Rightarrow> facade_config \<Rightarrow> string \<Rightarrow> string \<Rightarrow> (rpc_call, js) io" where
  "astera_pool_getPosition env cfg investor token = PoolClient_getPosition env (pool_client cfg) investor token"

definition astera_pool_deposit :: "rpc_env \<Rightarrow> facade_config \<Rightarrow> string \<Rightarrow> string \<Rightarrow> int \<Rightarrow> int option \<Rightarrow> bool \<Rightarrow> (rpc_call, string) io" where
  "astera_pool_deposit env cfg investor token amount minRate onProgress = PoolClient_deposit env (pool_client cfg) investor token amount minRate onProgress"

definition astera_pool_requestWithdrawal :: "rpc_env \<Rightarrow> facade_config \<Rightarrow> string \<Rightarrow> string \<Rightarrow> int \<Rightarrow> bool \<Rightarrow> (rpc_call, string) io" where
  "astera_pool_requestWithdrawal env cfg investor token shares onProgress = PoolClient_requestWithdrawal env (pool_client cfg) investor token shares onProgress"

definition astera_pool_cancelWithdrawalRequest :: "rpc_env \<Rightarrow> facade_config \<Rightarrow> string \<Rightarrow> string \<Rightarrow> bool \<Rightarrow> (rpc_call, string) io" where
  "astera_pool_cancelWithdrawalRequest env cfg investor token onProgress = PoolClient_cancelWithdrawalRequest env (pool_client cfg) investor token onProgress"

definition astera_pool_drainWithdrawalQueue :: "rpc_env \<Rightarrow> facade_config \<Rightarrow> string \<Rightarrow> string \<Rightarrow> bool \<Rightarrow> (rpc_call, string) io" where
  "astera_pool_drainWithdrawalQueue env cfg caller token onProgress = PoolClient_drainWithdrawalQueue env (pool_client cfg) caller token onProgress"

definition astera_pool_getWithdrawalQueue :: "rpc_env \<Rightarrow> facade_config \<Rightarrow> string \<Rightarrow> (rpc_call, js) io" where
  "astera_pool_getWithdrawalQueue env cfg token = PoolClient_getWithdrawalQueue env (pool_client cfg) token"

definition astera_pool_repay :: "rpc_env \<Rightarrow> facade_config \<Rightarrow> string \<Rightarrow> int \<Rightarrow> int \<Rightarrow> bool \<Rightarrow> (rpc_call, string) io" where
  "astera_pool_repay env cfg payer invoiceId amount onProgress = PoolClient_repay env (pool_client cfg) payer invoiceId amount onProgress"

definition astera_pool_fundInvoice :: "rpc_env \<Rightarrow> facade_config \<Rightarrow> string \<Rightarrow> int \<Rightarrow> int \<Rightarrow> string \<Rightarrow> int \<Rightarrow> string \<Rightarrow> bool \<Rightarrow> (rpc_call, string) io" where
  "astera_pool_fundInvoice env cfg admin invoiceId principalAmount sme dueDate token onProgress = PoolClient_fundInvoice env (pool_client cfg) admin invoiceId principalAmount sme dueDate token onProgress"

definition astera_pool_getFundedInvoice :: "rpc_env \<Rightarrow> facade_config \<Rightarrow> int \<Rightarrow> (rpc_call, js) io" where
  "astera_pool_getFundedInvoice env cfg invoiceId = PoolClient_getFundedInvoice env (pool_client cfg) invoiceId"

definition astera_pool_getPoolTokenTotals :: "rpc_env \<Rightarrow> facade_config \<Rightarrow> string \<Rightarrow> (rpc_call, js) io" where
  "astera_pool_getPoolTokenTotals env cfg token = PoolClient_getPoolTokenTotals env (pool_client cfg) token"

definition astera_pool_openCoFunding :: "rpc_env \<Rightarrow> facade_config \<Rightarrow> string \<Rightarrow> int \<Rightarrow> string \<Rightarrow> int \<Rightarrow> string \<Rightarrow> int \<Rightarrow> int \<Rightarrow> int \<Rightarrow> int \<Rightarrow> bool \<Rightarrow> (rpc_call, string) io" where
  "astera_pool_openCoFunding env cfg admin invoiceId token targetPrincipal sme dueDate fundingDeadline minCommitment maxInvestorBps onProgress = PoolClient_openCoFunding env (pool_client cfg) admin invoiceId token targetPrincipal sme dueDate fundingDeadline minCommitment maxInvestorBps onProgress"

definition astera_pool_commitToInvoice :: "rpc_env \<Rightarrow> facade_config \<Rightarrow> string \<Rightarrow> int \<Rightarrow> int \<Rightarrow> bool \<Rightarrow> (rpc_call, string) io" where
  "astera_pool_commitToInvoice env cfg investor invoiceId amount onProgress = PoolClient_commitToInvoice env (pool_client cfg) investor invoiceId amount onProgress"

definition astera_pool_finalizeCoFunding :: "rpc_env \<Rightarrow> facade_config \<Rightarrow> string \<Rightarrow> int \<Rightarrow> bool \<Rightarrow> (rpc_call, string) io" where
  "astera_pool_finalizeCoFunding env cfg caller invoiceId onProgress = PoolClient_finalizeCoFunding env (pool_client cfg) caller invoiceId onProgress"

definition astera_pool_withdrawCoFundingCommitment :: "rpc_env \<Rightarrow> facade_config \<Rightarrow> string \<Rightarrow> int \<Rightarrow> bool \<Rightarrow> (rpc_call, string) io" where
  "astera_pool_withdrawCoFundingCommitment env cfg investor invoiceId onProgress = PoolClient_withdrawCommitment env (pool_client cfg) investor invoiceId onProgress"

definition astera_pool_transferCoFundShare :: "rpc_env \<Rightarrow> facade_config \<Rightarrow> string \<Rightarrow> int \<Rightarrow> string \<Rightarrow> string \<Rightarrow> int \<Rightarrow> bool \<Rightarrow> (rpc_call, string) io" where
  "astera_pool_transferCoFundShare env cfg sender invoiceId token recipient bps onProgress = PoolClient_transferCoFundShare env (pool_client cfg) sender invoiceId token recipient bps onProgress"

definition astera_pool_getCoFundingRound :: "rpc_env \<Rightarrow> facade_config \<Rightarrow> int \<Rightarrow> (rpc_call, js) io" where
  "astera_pool_getCoFundingRound env cfg invoiceId = PoolClient_getCoFundingRound env (pool_client cfg) invoiceId"

definition astera_pool_listCoFundingRounds :: "rpc_env \<Rightarrow> facade_config \<Rightarrow> (rpc_call, js) io" where
  "astera_pool_listCoFundingRounds env cfg = PoolClient_listCoFundingRounds env (pool_client cfg)"

definition astera_pool_getInvestorCoFundPositions :: "rpc_env \<Rightarrow> facade_config \<Rightarrow> string \<Rightarrow> (rpc_call, js) io" where
  "astera_pool_getInvestorCoFundPositions env cfg investor = PoolClient_getInvestorCoFundPositions env (pool_client cfg) investor"

definition astera_pool_getCoFundShare :: "rpc_env \<Rightarrow> facade_config \<Rightarrow> int \<Rightarrow> string \<Rightarrow> (rpc_call, js) io" where
  "astera_pool_getCoFundShare env cfg invoiceId investor = PoolClient_getCoFundShare env (pool_client cfg) invoiceId investor"

definition astera_pool_getCurrentRate :: "rpc_env \<Rightarrow> facade_config \<Rightarrow> string \<Rightarrow> (rpc_call, js) io" where
  "astera_pool_getCurrentRate env cfg token = PoolClient_getCurrentRate env (pool_client cfg) token"

definition astera_pool_getRateModelConfig :: "rpc_env \<Rightarrow> facade_config \<Rightarrow> string \<Rightarrow> (rpc_call, js) io" where
  "astera_pool_getRateModelConfig env cfg token = PoolClient_getRateModelConfig env (pool_client cfg) token"

definition astera_pool_getRateHistory :: "rpc_env \<Rightarrow> facade_config \<Rightarrow> string \<Rightarrow> int \<Rightarrow> (rpc_call, js) io" where
  "astera_pool_getRateHistory env cfg token maxCount = PoolClient_getRateHistory env (pool_client cfg) token maxCount"

definition astera_pool_previewRateAtUtilization :: "rpc_env \<Rightarrow> facade_config \<Rightarrow> string \<Rightarrow> int \<Rightarrow> (rpc_call, js) io" where
  "astera_pool_previewRateAtUtilization env cfg token utilizationBps = PoolClient_previewRateAtUtilization env (pool_client cfg) token utilizationBps"

definition astera_pool_depositCollateral :: "rpc_env \<Rightarrow> facade_config \<Rightarrow> int \<Rightarrow> string \<Rightarrow> string \<Rightarrow> int \<Rightarrow> bool \<Rightarrow> (rpc_call, string) io" where
  "astera_pool_depositCollateral env cfg invoiceId depositor token amount onProgress = PoolClient_depositCollateral env (pool_client cfg) invoiceId depositor token amount onProgress"

definition astera_pool_topUpCollateral :: "rpc_env \<Rightarrow> facade_config \<Rightarrow> int \<Rightarrow> string \<Rightarrow> string \<Rightarrow> int \<Rightarrow> bool \<Rightarrow> (rpc_call, string) io" where
  "astera_pool_topUpCollateral env cfg invoiceId depositor token amount onProgress = PoolClient_topUpCollateral env (pool_client cfg) invoiceId depositor token amount onProgress"

definition astera_pool_getCollateralConfig :: "rpc_env \<Rightarrow> facade_config \<Rightarrow> (rpc_call, js) io" where
  "astera_pool_getCollateralConfig env cfg = PoolClient_getCollateralConfig env (pool_client cfg)"

definition astera_pool_getCollateralDeposit :: "rpc_env \<Rightarrow> facade_config \<Rightarrow> int \<Rightarrow> (rpc_call, js) io" where
  "astera_pool_getCollateralDeposit env cfg invoiceId = PoolClient_getCollateralDeposit env (pool_client cfg) invoiceId"

definition astera_pool_setRiskContract :: "rpc_env \<Rightarrow> facade_config \<Rightarrow> string \<Rightarrow> string \<Rightarrow> bool \<Rightarrow> (rpc_call, string) io" where
  "astera_pool_setRiskContract env cfg admin riskContract onProgress = PoolClient_setRiskContract env (pool_client cfg) admin riskContract onProgress"

definition astera_auction_getPoolContract :: "rpc_env \<Rightarrow> facade_config \<Rightarrow> (rpc_call, js) io" where
  "astera_auction_getPoolContract env cfg = AuctionClient_getPoolContract env (auction_client cfg)"

definition astera_auction_setCollateralRiskConfig :: "rpc_env \<Rightarrow> facade_config \<Rightarrow> string \<Rightarrow> int \<Rightarrow> int \<Rightarrow> bool \<Rightarrow> (rpc_call, string) io" where
  "astera_auction_setCollateralRiskConfig env cfg admin dangerBps gracePeriodSecs onProgress = AuctionClient_setCollateralRiskConfig env (auction_client cfg) admin dangerBps gracePeriodSecs onProgress"

definition astera_auction_getCollateralRiskConfig :: "rpc_env \<Rightarrow> facade_config \<Rightarrow> (rpc_call, js) io" where
  "astera_auction_getCollateralRiskConfig env cfg = AuctionClient_getCollateralRiskConfig env (auction_client cfg)"

definition astera_auction_getLiveCollateralRatio :: "rpc_env \<Rightarrow> facade_config \<Rightarrow> int \<Rightarrow> (rpc_call, js) io" where
  "astera_auction_getLiveCollateralRatio env cfg invoiceId = AuctionClient_getLiveCollateralRatio env (auction_client cfg) invoiceId"

definition astera_auction_getAtRiskSince :: "rpc_env \<Rightarrow> facade_config \<Rightarrow> int \<Rightarrow> (rpc_call, js) io" where
  "astera_auction_getAtRiskSince env cfg invoiceId = AuctionClient_getAtRiskSince env (auction_client cfg) invoiceId"

definition astera_auction_checkCollateralRisk :: "rpc_env \<Rightarrow> facade_config \<Rightarrow> string \<Rightarrow> int \<Rightarrow> bool \<Rightarrow> (rpc_call, string) io" where
  "astera_auction_checkCollateralRisk env cfg caller invoiceId onProgress = AuctionClient_checkCollateralRisk env (auction_client cfg) caller invoiceId onProgress"

definition astera_auction_liquidateCollateral :: "rpc_env \<Rightarrow> facade_config \<Rightarrow> string \<Rightarrow> int \<Rightarrow> bool \<Rightarrow> (rpc_call, string) io" where
  "astera_auction_liquidateCollateral env cfg caller invoiceId onProgress = AuctionClient_liquidateCollateral env (auction_client cfg) caller invoiceId onProgress"

definition astera_auction_getSale :: "rpc_env \<Rightarrow> facade_config \<Rightarrow> int \<Rightarrow> (rpc_call, js) io" where
  "astera_auction_getSale env cfg saleId = AuctionClient_getSale env (auction_client cfg) saleId"

definition astera_auction_currentSalePrice :: "rpc_env \<Rightarrow> facade_config \<Rightarrow> int \<Rightarrow> (rpc_call, js) io" where
  "astera_auction_currentSalePrice env cfg saleId = AuctionClient_currentSalePrice env (auction_client cfg) saleId"

definition astera_auction_takeCollateralSale :: "rpc_env \<Rightarrow> facade_config \<Rightarrow> string \<Rightarrow> int \<Rightarrow> bool \<Rightarrow> (rpc_call, string) io" where
  "astera_auction_takeCollateralSale env cfg taker saleId onProgress = AuctionClient_takeCollateralSale env (auction_client cfg) taker saleId onProgress"

definition astera_auction_reclaimExpiredSale :: "rpc_env \<Rightarrow> facade_config \<Rightarrow> string \<Rightarrow> int \<Rightarrow> bool \<Rightarrow> (rpc_call, string) io" where
  "astera_auction_reclaimExpiredSale env cfg caller saleId onProgress = AuctionClient_reclaimExpiredSale env (auction_client cfg) caller saleId onProgress"

definition astera_secondaryMarket_listPosition :: "rpc_env \<Rightarrow> facade_config \<Rightarrow> string \<Rightarrow> int \<Rightarrow> string \<Rightarrow> int \<Rightarrow> int \<Rightarrow> bool \<Rightarrow> (rpc_call, string) io" where
  "astera_secondaryMarket_listPosition env cfg seller invoiceId kind amountOrBps price onProgress = SecondaryMarketClient_listPosition env (secondary_market_client cfg) seller invoiceId kind amountOrBps price onProgress"

definition astera_secondaryMarket_cancelListing :: "rpc_env \<Rightarrow> facade_config \<Rightarrow> string \<Rightarrow> int \<Rightarrow> bool \<Rightarrow> (rpc_call, string) io" where
  "astera_secondaryMarket_cancelListing env cfg seller listingId onProgress = SecondaryMarketClient_cancelListing env (secondary_market_client cfg) seller listingId onProgress"

definition astera_secondaryMarket_buyListing :: "rpc_env \<Rightarrow> facade_config \<Rightarrow> string \<Rightarrow> int \<Rightarrow> bool \<Rightarrow> (rpc_call, string) io" where
  "astera_secondaryMarket_buyListing env cfg buyer listingId onProgress = SecondaryMarketClient_buyListing env (secondary_market_client cfg) buyer listingId onProgress"

definition astera_secondaryMarket_getListing :: "rpc_env \<Rightarrow> facade_config \<Rightarrow> int \<Rightarrow> (rpc_call, js) io" where
  "astera_secondaryMarket_getListing env cfg listingId = SecondaryMarketClient_getListing env (secondary_market_client cfg) listingId"

definition astera_secondaryMarket_listListingsForInvoice :: "rpc_env \<Rightarrow> facade_config \<Rightarrow> int \<Rightarrow> (rpc_call, js) io" where
  "astera_secondaryMarket_listListingsForInvoice env cfg invoiceId = SecondaryMarketClient_listListingsForInvoice env (secondary_market_client cfg) invoiceId"

definition astera_secondaryMarket_listListingsForInvestor :: "rpc_env \<Rightarrow> facade_config \<Rightarrow> string \<Rightarrow> (rpc_call, js) io" where
  "astera_secondaryMarket_listListingsForInvestor env cfg seller = SecondaryMarketClient_listListingsForInvestor env (secondary_market_client cfg) seller"

definition astera_secondaryMarket_estimateWithdrawalWait :: "rpc_env \<Rightarrow> facade_config \<Rightarrow> string \<Rightarrow> string \<Rightarrow> (rpc_call, js) io" where
  "astera_secondaryMarket_estimateWithdrawalWait env cfg investor token = SecondaryMarketClient_estimateWithdrawalWait env (secondary_market_client cfg) investor token"

definition astera_secondaryMarket_getLiquidityForecast :: "rpc_env \<Rightarrow> facade_config \<Rightarrow> string \<Rightarrow> int \<Rightarrow> (rpc_call, js) io" where
  "astera_secondaryMarket_getLiquidityForecast env cfg token horizonDays = SecondaryMarketClient_getLiquidityForecast env (secondary_market_client cfg) token horizonDays"

definition astera_creditScore_getCreditScore :: "rpc_env \<Rightarrow> facade_config \<Rightarrow> string \<Rightarrow> (rpc_call, js) io" where
  "astera_creditScore_getCreditScore env cfg sme = CreditScoreClient_getCreditScore env (credit_score_client cfg) sme"

definition astera_oracleRegistry_getRound :: "rpc_env \<Rightarrow> facade_config \<Rightarrow> int \<Rightarrow> (rpc_call, VerificationRound option) io" where
  "astera_oracleRegistry_getRound env cfg invoiceId = getRound env (oracle_registry_client cfg) invoiceId"

definition astera_oracleRegistry_getOracleInfo :: "rpc_env \<Rightarrow> facade_config \<Rightarrow> string \<Rightarrow> (rpc_call, OracleInfo option) io" where
  "astera_oracleRegistry_getOracleInfo env cfg operator = Sdk.getOracleInfo env (oracle_registry_client cfg) operator"

definition astera_oracleRegistry_getRegistryConfig :: "rpc_env \<Rightarrow> facade_config \<Rightarrow> (rpc_call, RegistryConfig) io" where
  "astera_oracleRegistry_getRegistryConfig env cfg = Sdk.getRegistryConfig env (oracle_registry_client cfg)"

definition astera_oracleRegistry_openRound :: "rpc_env \<Rightarrow> facade_config \<Rightarrow> string \<Rightarrow> int \<Rightarrow> string \<Rightarrow> bool \<Rightarrow> (rpc_call, string) io" where
  "astera_oracleRegistry_openRound env cfg caller invoiceId oracleHash onProgress = openRound env (oracle_registry_client cfg) caller invoiceId oracleHash onProgress"

definition astera_oracleRegistry_register :: "rpc_env \<Rightarrow> facade_config \<Rightarrow> string \<Rightarrow> int \<Rightarrow> bool \<Rightarrow> (rpc_call, string) io" where
  "astera_oracleRegistry_register env cfg operator stakeAmount onProgress = register env (oracle_registry_client cfg) operator stakeAmount onProgress"

definition astera_oracleRegistry_vote :: "rpc_env \<Rightarrow> facade_config \<Rightarrow> string \<Rightarrow> int \<Rightarrow> bool \<Rightarrow> string \<Rightarrow> bool \<Rightarrow> (rpc_call, string) io" where
  "astera_oracleRegistry_vote env cfg oracle invoiceId approved evidenceHash onProgress = Sdk.vote env (oracle_registry_client cfg) oracle invoiceId approved evidenceHash onProgress"

definition astera_compliance_isCleared :: "rpc_env \<Rightarrow> facade_config \<Rightarrow> string \<Rightarrow> (rpc_call, js) io" where
  "astera_compliance_isCleared env cfg addr = ComplianceClient_isCleared env (compliance_client cfg) addr"

definition astera_compliance_getRecord :: "rpc_env \<Rightarrow> facade_config \<Rightarrow> string \<Rightarrow> (rpc_call, js) io" where
  "astera_compliance_getRecord env cfg addr = ComplianceClient_getRecord env (compliance_client cfg) addr"

definition astera_compliance_getHistory :: "rpc_env \<Rightarrow> facade_config \<Rightarrow> string \<Rightarrow> (rpc_call, js) io" where
  "astera_compliance_getHistory env cfg addr = ComplianceClient_getHistory env (compliance_client cfg) addr"

definition astera_compliance_listFlagged :: "rpc_env \<Rightarrow> facade_config \<Rightarrow> (rpc_call, js) io" where
  "astera_compliance_listFlagged env cfg = ComplianceClient_listFlagged env (compliance_client cfg)"

definition astera_compliance_listPendingReview :: "rpc_env \<Rightarrow> facade_config \<Rightarrow> (rpc_call, js) io" where
  "astera_compliance_listPendingReview env cfg = ComplianceClient_listPendingReview env (compliance_client cfg)"

definition astera_compliance_submitScreeningResult :: "rpc_env \<Rightarrow> facade_config \<Rightarrow> string \<Rightarrow> string \<Rightarrow> string \<Rightarrow> int \<Rightarrow> string \<Rightarrow> int \<Rightarrow> string \<Rightarrow> bool \<Rightarrow> (rpc_call, string) io" where
  "astera_compliance_submitScreeningResult env cfg screener addr status reasonCode riskTier expiresAt notesHash onProgress = ComplianceClient_submitScreeningResult env (compliance_client cfg) screener addr status reasonCode riskTier expiresAt notesHash onProgress"

definition astera_compliance_requestReview :: "rpc_env \<Rightarrow> facade_config \<Rightarrow> string \<Rightarrow> string \<Rightarrow> string \<Rightarrow> bool \<Rightarrow> (rpc_call, string) io" where
  "astera_compliance_requestReview env cfg caller addr reason onProgress = ComplianceClient_requestReview env (compliance_client cfg) caller addr reason onProgress"

definition astera_tranche_getPool :: "rpc_env \<Rightarrow> facade_config \<Rightarrow> string \<Rightarrow> (rpc_call, js) io" where
  "astera_tranche_getPool env cfg token = TrancheClient_getPool env (tranche_client cfg) token"

definition astera_tranche_getConfig :: "rpc_env \<Rightarrow> facade_config \<Rightarrow> string \<Rightarrow> (rpc_call, js) io" where
  "astera_tranche_getConfig env cfg token = TrancheClient_getTrancheConfig env (tranche_client cfg) token"

definition astera_tranche_getTotals :: "rpc_env \<Rightarrow> facade_config \<Rightarrow> string \<Rightarrow> ContractTxs.TrancheClass \<Rightarrow> (rpc_call, js) io" where
  "astera_tranche_getTotals env cfg token trancheClass = TrancheClient_getTotals env (tranche_client cfg) token trancheClass"

definition astera_tranche_getPosition :: "rpc_env \<Rightarrow> facade_config \<Rightarrow> string \<Rightarrow> string \<Rightarrow> ContractTxs.TrancheClass \<Rightarrow> (rpc_call, js) io" where
  "astera_tranche_getPosition env cfg investor token trancheClass = TrancheClient_getInvestorPosition env (tranche_client cfg) investor token trancheClass"

definition astera_tranche_getLifetimeReturnBps :: "rpc_env \<Rightarrow> facade_config \<Rightarrow> string \<Rightarrow> ContractTxs.TrancheClass \<Rightarrow> (rpc_call, js) io" where
  "astera_tranche_getLifetimeReturnBps env cfg token trancheClass = TrancheClient_getLifetimeReturnBps env (tranche_client cfg) token trancheClass"

definition astera_tranche_getInvoiceExposure :: "rpc_env \<Rightarrow> facade_config \<Rightarrow> int \<Rightarrow> (rpc_call, js) io" where
  "astera_tranche_getInvoiceExposure env cfg invoiceId = TrancheClient_getInvoiceExposure env (tranche_client cfg) invoiceId"

definition astera_tranche_simulateWaterfall :: "rpc_env \<Rightarrow> facade_config \<Rightarrow> string \<Rightarrow> int \<Rightarrow> int \<Rightarrow> int \<Rightarrow> (rpc_call, js) io" where
  "astera_tranche_simulateWaterfall env cfg token invoiceId hypotheticalRepayment elapsedSecs = TrancheClient_simulateWaterfall env (tranche_client cfg) token invoiceId hypotheticalRepayment elapsedSecs"

definition astera_tranche_deposit :: "rpc_env \<Rightarrow> facade_config \<Rightarrow> string \<Rightarrow> string \<Rightarrow> ContractTxs.TrancheClass \<Rightarrow> int \<Rightarrow> bool \<Rightarrow> (rpc_call, string) io" where
  "astera_tranche_deposit env cfg investor token trancheClass amount onProgress = TrancheClient_deposit env (tranche_client cfg) investor token trancheClass amount onProgress"

definition astera_tranche_withdraw :: "rpc_env \<Rightarrow> facade_config \<Rightarrow> string \<Rightarrow> string \<Rightarrow> ContractTxs.TrancheClass \<Rightarrow> int \<Rightarrow> bool \<Rightarrow> (rpc_call, string) io" where
  "astera_tranche_withdraw env cfg investor token trancheClass amount onProgress = TrancheClient_withdraw env (tranche_client cfg) investor token trancheClass amount onProgress"

definition astera_tranche_setConfig :: "rpc_env \<Rightarrow> facade_config \<Rightarrow> string \<Rightarrow> string \<Rightarrow> int \<Rightarrow> int \<Rightarrow> int \<Rightarrow> bool \<Rightarrow> (rpc_call, string) io" where
  "astera_tranche_setConfig env cfg admin token seniorTargetYieldBps seniorAdvanceRateBps juniorFirstLossBps onProgress = TrancheClient_setTrancheConfig env (tranche_client cfg) admin token seniorTargetYieldBps seniorAdvanceRateBps juniorFirstLossBps onProgress"

definition astera_accessControl_getRoleConfig :: "rpc_env \<Rightarrow> facade_config \<Rightarrow> string \<Rightarrow> (rpc_call, js) io" where
  "astera_accessControl_getRoleConfig env cfg role = AccessControlClient_getRoleConfig env (access_control_client cfg) role"

definition astera_accessControl_isSigner :: "rpc_env \<Rightarrow> facade_config \<Rightarrow> string \<Rightarrow> string \<Rightarrow> (rpc_call, js) io" where
  "astera_accessControl_isSigner env cfg role addr = AccessControlClient_isSigner env (access_control_client cfg) role addr"

definition astera_accessControl_getProposal :: "rpc_env \<Rightarrow> facade_config \<Rightarrow> int \<Rightarrow> (rpc_call, js) io" where
  "astera_accessControl_getProposal env cfg proposalId = AccessControlClient_getProposal env (access_control_client cfg) proposalId"

definition astera_accessControl_listProposals :: "rpc_env \<Rightarrow> facade_config \<Rightarrow> (rpc_call, js) io" where
  "astera_accessControl_listProposals env cfg = AccessControlClient_listProposals env (access_control_client cfg)"

definition astera_accessControl_proposeAction :: "rpc_env \<Rightarrow> facade_config \<Rightarrow> string \<Rightarrow> string \<Rightarrow> string \<Rightarrow> ActionPayload \<Rightarrow> bool \<Rightarrow> (rpc_call, string) io" where
  "astera_accessControl_proposeAction env cfg role proposer target action onProgress = AccessControlClient_proposeAction env (access_control_client cfg) role proposer target action onProgress"

definition astera_accessControl_approveAction :: "rpc_env \<Rightarrow> facade_config \<Rightarrow> string \<Rightarrow> int \<Rightarrow> bool \<Rightarrow> (rpc_call, string) io" where
  "astera_accessControl_approveAction env cfg signerAddress proposalId onProgress = AccessControlClient_approveAction env (access_control_client cfg) signerAddress proposalId onProgress"

definition astera_accessControl_revokeApproval :: "rpc_env \<Rightarrow> facade_config \<Rightarrow> string \<Rightarrow> int \<Rightarrow> bool \<Rightarrow> (rpc_call, string) io" where
  "astera_accessControl_revokeApproval env cfg signerAddress proposalId onProgress = AccessControlClient_revokeApproval env (access_control_client cfg) signerAddress proposalId onProgress"

definition astera_accessControl_rejectAction :: "rpc_env \<Rightarrow> facade_config \<Rightarrow> string \<Rightarrow> int \<Rightarrow> bool \<Rightarrow> (rpc_call, string) io" where
  "astera_accessControl_rejectAction env cfg signerAddress proposalId onProgress = AccessControlClient_rejectAction env (access_control_client cfg) signerAddress proposalId onProgress"

definition astera_accessControl_executeAction :: "rpc_env \<Rightarrow> facade_config \<Rightarrow> string \<Rightarrow> int \<Rightarrow> bool \<Rightarrow> (rpc_call, string) io" where
  "astera_accessControl_executeAction env cfg caller proposalId onProgress = AccessControlClient_executeAction env (access_control_client cfg) caller proposalId onProgress"

definition astera_insurance_estimatePremium :: "rpc_env \<Rightarrow> facade_config \<Rightarrow> int \<Rightarrow> string \<Rightarrow> int \<Rightarrow> string \<Rightarrow> (rpc_call, js) io" where
  "astera_insurance_estimatePremium env cfg principalAmount sme tenorDays token = InsuranceClient_estimatePremium env (insurance_client cfg) principalAmount sme tenorDays"

definition astera_insurance_purchaseCoverage :: "rpc_env \<Rightarrow> facade_config \<Rightarrow> string \<Rightarrow> int \<Rightarrow> int \<Rightarrow> string \<Rightarrow> int \<Rightarrow> string \<Rightarrow> bool \<Rightarrow> (rpc_call, string) io" where
  "astera_insurance_purchaseCoverage env cfg payer invoiceId principalAmount sme dueDate token onProgress = InsuranceClient_purchaseCoverage env (insurance_client cfg) payer invoiceId principalAmount sme dueDate token onProgress"

definition astera_insurance_fileClaim :: "rpc_env \<Rightarrow> facade_config \<Rightarrow> string \<Rightarrow> int \<Rightarrow> bool \<Rightarrow> (rpc_call, string) io" where
  "astera_insurance_fileClaim env cfg caller invoiceId onProgress = InsuranceClient_fileClaim env (insurance_client cfg) caller invoiceId onProgress"

definition astera_insurance_getReserveStatus :: "rpc_env \<Rightarrow> facade_config \<Rightarrow> string \<Rightarrow> (rpc_call, js) io" where
  "astera_insurance_getReserveStatus env cfg token = InsuranceClient_getReserveStatus env (insurance_client cfg) token"

definition astera_insurance_getCoverageRecord :: "rpc_env \<Rightarrow> facade_config \<Rightarrow> int \<Rightarrow> (rpc_call, js) io" where
  "astera_insurance_getCoverageRecord env cfg invoiceId = InsuranceClient_getCoverageRecord env (insurance_client cfg) invoiceId"

definition astera_insurance_getClaimHistory :: "rpc_env \<Rightarrow> facade_config \<Rightarrow> int \<Rightarrow> (rpc_call, js) io" where
  "astera_insurance_getClaimHistory env cfg invoiceId = InsuranceClient_getClaimHistory env (insurance_client cfg) invoiceId"

definition astera_insurance_checkReserveHealth :: "rpc_env \<Rightarrow> facade_config \<Rightarrow> string \<Rightarrow> (rpc_call, js) io" where
  "astera_insurance_checkReserveHealth env cfg token = InsuranceClient_checkReserveHealth env (insurance_client cfg) token"

definition astera_insurance_getPremiumConfig :: "rpc_env \<Rightarrow> facade_config \<Rightarrow> (rpc_call, js) io" where
  "astera_insurance_getPremiumConfig env cfg = InsuranceClient_getPremiumConfig env (insurance_client cfg)"

definition astera_insurance_getMinReserveAmount :: "rpc_env \<Rightarrow> facade_config \<Rightarrow> string \<Rightarrow> (rpc_call, js) io" where
  "astera_insurance_getMinReserveAmount env cfg token = InsuranceClient_getMinReserveAmount env (insurance_client cfg) token"

definition astera_insurance_setPremiumConfig :: "rpc_env \<Rightarrow> facade_config \<Rightarrow> string \<Rightarrow> premium_config \<Rightarrow> bool \<Rightarrow> (rpc_call, string) io" where
  "astera_insurance_setPremiumConfig env cfg admin config onProgress = InsuranceClient_setPremiumConfig env (insurance_client cfg) admin config onProgress"

definition astera_insurance_setMinCoverageRatio :: "rpc_env \<Rightarrow> facade_config \<Rightarrow> string \<Rightarrow> string \<Rightarrow> int \<Rightarrow> bool \<Rightarrow> (rpc_call, string) io" where
  "astera_insurance_setMinCoverageRatio env cfg admin token minRatioBps onProgress = InsuranceClient_setMinCoverageRatio env (insurance_client cfg) admin token minRatioBps onProgress"

definition astera_insurance_setMinReserveAmount :: "rpc_env \<Rightarrow> facade_config \<Rightarrow> string \<Rightarrow> string \<Rightarrow> int \<Rightarrow> bool \<Rightarrow> (rpc_call, string) io" where
  "astera_insurance_setMinReserveAmount env cfg admin token minAmount onProgress = InsuranceClient_setMinReserveAmount env (insurance_client cfg) admin token minAmount onProgress"

definition astera_insurance_fundReserveFromTreasury :: "rpc_env \<Rightarrow> facade_config \<Rightarrow> string \<Rightarrow> string \<Rightarrow> int \<Rightarrow> bool \<Rightarrow> (rpc_call, string) io" where
  "astera_insurance_fundReserveFromTreasury env cfg admin token amount onProgress = InsuranceClient_fundReserveFromTreasury env (insurance_client cfg) admin token amount onProgress"

definition astera_insurance_setCreditScoreContract :: "rpc_env \<Rightarrow> facade_config \<Rightarrow> string \<Rightarrow> string \<Rightarrow> bool \<Rightarrow> (rpc_call, string) io" where
  "astera_insurance_setCreditScoreContract env cfg admin creditScoreContract onProgress = InsuranceClient_setCreditScoreContract env (insurance_client cfg) admin creditScoreContract onProgress"

section \<open>No signer\<close>

definition silent :: "(rpc_call, 'a) io \<Rightarrow> bool" where
  "silent m = (\<forall>h. \<exists>e cs. m h = (Inl e, h @ cs) \<and> (\<forall>x. SendTransaction x \<notin> set cs))"

lemma silent_send: "signer cfg = None \<Longrightarrow> silent (buildAndSendTx env cfg caller meth args p)"
  unfolding silent_def using buildAndSendTx_no_signer by blast

lemma facade_signers [simp]:
  "signer (invoice_client cfg) = None" "signer (pool_client cfg) = None" "signer (secondary_market_client cfg) = None" "signer (auction_client cfg) = None" "signer (credit_score_client cfg) = None" "signer (oracle_registry_client cfg) = None" "signer (compliance_client cfg) = None" "signer (tranche_client cfg) = None" "signer (access_control_client cfg) = None" "signer (insurance_client cfg) = None"
  by (simp_all add: new_client_def invoice_client_def pool_client_def secondary_market_client_def auction_client_def credit_score_client_def
    oracle_registry_client_def compliance_client_def tranche_client_def access_control_client_def insurance_client_def)

text \<open>
  C18: The facade never sends a transaction.  Its clients are built without a signer and the signer a
  caller passes is not used, so each of its 44 transactions ends in an error after the simulation at
  the latest, and no send request leaves the client, whatever the server answers.
\<close>

theorem facade_never_sends:
  "silent (astera_invoice_create env cfg owner debtor amount dueDate description verificationHash onProgress)
     \<and> silent (astera_invoice_verify env cfg oracle invoiceId approved reason oracleHash onProgress)
     \<and> silent (astera_pool_deposit env cfg investor token amount minRate onProgress)
     \<and> silent (astera_pool_requestWithdrawal env cfg investor token shares onProgress)
     \<and> silent (astera_pool_cancelWithdrawalRequest env cfg investor token onProgress)
     \<and> silent (astera_pool_drainWithdrawalQueue env cfg caller token onProgress)
     \<and> silent (astera_pool_repay env cfg payer invoiceId amount onProgress)
     \<and> silent (astera_pool_fundInvoice env cfg admin invoiceId principalAmount sme dueDate token onProgress)
     \<and> silent (astera_pool_openCoFunding env cfg admin invoiceId token targetPrincipal sme dueDate fundingDeadline minCommitment maxInvestorBps onProgress)
     \<and> silent (astera_pool_commitToInvoice env cfg investor invoiceId amount onProgress)
     \<and> silent (astera_pool_finalizeCoFunding env cfg caller invoiceId onProgress)
     \<and> silent (astera_pool_withdrawCoFundingCommitment env cfg investor invoiceId onProgress)
     \<and> silent (astera_pool_transferCoFundShare env cfg sender invoiceId token recipient bps onProgress)
     \<and> silent (astera_pool_depositCollateral env cfg invoiceId depositor token amount onProgress)
     \<and> silent (astera_pool_topUpCollateral env cfg invoiceId depositor token amount onProgress)
     \<and> silent (astera_pool_setRiskContract env cfg admin riskContract onProgress)
     \<and> silent (astera_auction_setCollateralRiskConfig env cfg admin dangerBps gracePeriodSecs onProgress)
     \<and> silent (astera_auction_checkCollateralRisk env cfg caller invoiceId onProgress)
     \<and> silent (astera_auction_liquidateCollateral env cfg caller invoiceId onProgress)
     \<and> silent (astera_auction_takeCollateralSale env cfg taker saleId onProgress)
     \<and> silent (astera_auction_reclaimExpiredSale env cfg caller saleId onProgress)
     \<and> silent (astera_secondaryMarket_listPosition env cfg seller invoiceId kind amountOrBps price onProgress)
     \<and> silent (astera_secondaryMarket_cancelListing env cfg seller listingId onProgress)
     \<and> silent (astera_secondaryMarket_buyListing env cfg buyer listingId onProgress)
     \<and> silent (astera_oracleRegistry_openRound env cfg caller invoiceId oracleHash onProgress)
     \<and> silent (astera_oracleRegistry_register env cfg operator stakeAmount onProgress)
     \<and> silent (astera_oracleRegistry_vote env cfg oracle invoiceId approved evidenceHash onProgress)
     \<and> silent (astera_compliance_submitScreeningResult env cfg screener addr status reasonCode riskTier expiresAt notesHash onProgress)
     \<and> silent (astera_compliance_requestReview env cfg caller addr reason onProgress)
     \<and> silent (astera_tranche_deposit env cfg investor token trancheClass amount onProgress)
     \<and> silent (astera_tranche_withdraw env cfg investor token trancheClass amount onProgress)
     \<and> silent (astera_tranche_setConfig env cfg admin token seniorTargetYieldBps seniorAdvanceRateBps juniorFirstLossBps onProgress)
     \<and> silent (astera_accessControl_proposeAction env cfg role proposer target action onProgress)
     \<and> silent (astera_accessControl_approveAction env cfg signerAddress proposalId onProgress)
     \<and> silent (astera_accessControl_revokeApproval env cfg signerAddress proposalId onProgress)
     \<and> silent (astera_accessControl_rejectAction env cfg signerAddress proposalId onProgress)
     \<and> silent (astera_accessControl_executeAction env cfg caller proposalId onProgress)
     \<and> silent (astera_insurance_purchaseCoverage env cfg payer invoiceId principalAmount sme dueDate token onProgress)
     \<and> silent (astera_insurance_fileClaim env cfg caller invoiceId onProgress)
     \<and> silent (astera_insurance_setPremiumConfig env cfg admin config onProgress)
     \<and> silent (astera_insurance_setMinCoverageRatio env cfg admin token minRatioBps onProgress)
     \<and> silent (astera_insurance_setMinReserveAmount env cfg admin token minAmount onProgress)
     \<and> silent (astera_insurance_fundReserveFromTreasury env cfg admin token amount onProgress)
     \<and> silent (astera_insurance_setCreditScoreContract env cfg admin creditScoreContract onProgress)"
  unfolding astera_invoice_create_def astera_invoice_verify_def astera_pool_deposit_def astera_pool_requestWithdrawal_def astera_pool_cancelWithdrawalRequest_def astera_pool_drainWithdrawalQueue_def astera_pool_repay_def astera_pool_fundInvoice_def astera_pool_openCoFunding_def astera_pool_commitToInvoice_def astera_pool_finalizeCoFunding_def astera_pool_withdrawCoFundingCommitment_def astera_pool_transferCoFundShare_def astera_pool_depositCollateral_def astera_pool_topUpCollateral_def astera_pool_setRiskContract_def astera_auction_setCollateralRiskConfig_def astera_auction_checkCollateralRisk_def astera_auction_liquidateCollateral_def astera_auction_takeCollateralSale_def astera_auction_reclaimExpiredSale_def astera_secondaryMarket_listPosition_def astera_secondaryMarket_cancelListing_def astera_secondaryMarket_buyListing_def astera_oracleRegistry_openRound_def astera_oracleRegistry_register_def astera_oracleRegistry_vote_def astera_compliance_submitScreeningResult_def astera_compliance_requestReview_def astera_tranche_deposit_def astera_tranche_withdraw_def astera_tranche_setConfig_def astera_accessControl_proposeAction_def astera_accessControl_approveAction_def astera_accessControl_revokeApproval_def astera_accessControl_rejectAction_def astera_accessControl_executeAction_def astera_insurance_purchaseCoverage_def astera_insurance_fileClaim_def astera_insurance_setPremiumConfig_def astera_insurance_setMinCoverageRatio_def astera_insurance_setMinReserveAmount_def astera_insurance_fundReserveFromTreasury_def astera_insurance_setCreditScoreContract_def
    AccessControlClient_approveAction_def AccessControlClient_executeAction_def AccessControlClient_proposeAction_def AccessControlClient_rejectAction_def AccessControlClient_revokeApproval_def AuctionClient_checkCollateralRisk_def AuctionClient_liquidateCollateral_def AuctionClient_reclaimExpiredSale_def AuctionClient_setCollateralRiskConfig_def AuctionClient_takeCollateralSale_def ComplianceClient_requestReview_def ComplianceClient_submitScreeningResult_def InsuranceClient_fileClaim_def InsuranceClient_fundReserveFromTreasury_def InsuranceClient_purchaseCoverage_def InsuranceClient_setCreditScoreContract_def InsuranceClient_setMinCoverageRatio_def InsuranceClient_setMinReserveAmount_def InsuranceClient_setPremiumConfig_def InvoiceClient_createInvoice_def PoolClient_cancelWithdrawalRequest_def PoolClient_commitToInvoice_def PoolClient_depositCollateral_def PoolClient_deposit_def PoolClient_drainWithdrawalQueue_def PoolClient_finalizeCoFunding_def PoolClient_fundInvoice_def PoolClient_openCoFunding_def PoolClient_repay_def PoolClient_requestWithdrawal_def PoolClient_setRiskContract_def PoolClient_topUpCollateral_def PoolClient_transferCoFundShare_def PoolClient_withdrawCommitment_def Sdk.vote_def SecondaryMarketClient_buyListing_def SecondaryMarketClient_cancelListing_def SecondaryMarketClient_listPosition_def TrancheClient_deposit_def TrancheClient_setTrancheConfig_def TrancheClient_withdraw_def openRound_def register_def verifyInvoice_tx_def
  by (intro conjI silent_send facade_signers)

end
