(* ===== verification/ReadSource.thy ===== *)
theory ReadSource
  imports Cache AdminGuard SdkFacade
begin

text \<open>
  Every read of the frontend and of the SDK is simulated from a fixed placeholder account.  Its id has 55
  characters, while an account id of the network has 56, so the library refuses it before anything is
  asked.  What follows is stated under that documented behaviour of the library alone.
\<close>

section \<open>The placeholder account\<close>

definition checks_ids :: "chain \<Rightarrow> bool" where
  "checks_ids env \<longleftrightarrow> (\<forall>a. length a \<noteq> 56 \<longrightarrow> (\<exists>e. ch_account env a = Inl e))"

definition client_checks_ids :: "rpc_env \<Rightarrow> bool" where
  "client_checks_ids env \<longleftrightarrow> (\<forall>a h. length a \<noteq> 56 \<longrightarrow> (\<exists>e. env_account env (GetAccount a) h = Inl e))"

definition fails :: "'a result \<Rightarrow> bool" where
  "fails r \<longleftrightarrow> (\<exists>e. r = Inl e)"

lemma placeholder_length: "length SIM_SOURCE = 55" "length SIMULATION_SOURCE = 55"
  by (simp_all add: SIM_SOURCE_def SIMULATION_SOURCE_def)

lemma read_call_fails: "checks_ids env \<Longrightarrow> fails (read_call env c meth args f)"
proof -
  assume "checks_ids env"
  then obtain e where "ch_account env SIM_SOURCE = Inl e" unfolding checks_ids_def using placeholder_length by fastforce
  then show ?thesis by (simp add: fails_def read_call_def read_from_def simulateCall_def then_result_def)
qed

lemma sdk_simulate_fails: "client_checks_ids env \<Longrightarrow> fails (fst (simulate env cfg meth args h))"
proof -
  assume "client_checks_ids env"
  then obtain e where "env_account env (GetAccount SIMULATION_SOURCE) h = Inl e"
    unfolding client_checks_ids_def using placeholder_length by fastforce
  then show ?thesis by (simp add: fails_def simulate_def simulateTx_def io_bind_def)
qed

section \<open>Properties\<close>


definition strict_chain :: chain where
  "strict_chain = example_chain\<lparr>ch_account := (\<lambda>a. if length a = 56 then Inr \<lparr>ac_balances = None\<rparr> else Inl (GenericError ''accountId is invalid''))\<rparr>"

definition strict_env :: rpc_env where
  "strict_env = \<lparr>env_account = (\<lambda>c h. case c of GetAccount a \<Rightarrow> if length a = 56 then Inr () else Inl (GenericError ''accountId is invalid'') | _ \<Rightarrow> Inr ()),
     env_simulate = (\<lambda>c h. Inr (SimSuccess JNull)), env_send = (\<lambda>c h. Inr (''PENDING'', ''h'')), env_status = (\<lambda>c h. Inr ''SUCCESS''),
     env_assemble = (\<lambda>caller meth args v. meth)\<rparr>"


end
