(* ===== verification/LiveCache.thy ===== *)
theory LiveCache
  imports Cache
begin

text \<open>
  The hook that listens to the live stream (\<open>frontend/lib/useContractEvents.ts\<close>): how it connects, and
  what an event does to the cached queries of the pages and to the list of recent events.
\<close>

section \<open>Connecting\<close>

record stream_url =
  su_ticket :: js
  su_invoiceId :: "int option"

text \<open>The answer of the ticket route is a status and a body; \<open>None\<close> is the result when no stream is opened.  The
  component may have been unmounted while the ticket was fetched (\<open>cancelled\<close>).\<close>

definition connect :: "string option \<Rightarrow> (string \<Rightarrow> (nat \<times> js) result) \<Rightarrow> bool \<Rightarrow> int option \<Rightarrow> stream_url option result" where
  "connect token ticketRes cancelled invoiceId = (case token of
      Some (c # cs) \<Rightarrow> (case ticketRes (c # cs) of
          Inl e \<Rightarrow> Inl e
        | Inr (status, body) \<Rightarrow>
            if \<not> (200 \<le> status \<and> status < 300) then Inr None
            else if is_nullish body then Inl (TypeError ''Cannot destructure property ticket'')
            else if cancelled then Inr None
            else Inr (Some \<lparr>su_ticket = js_prop body ''ticket'', su_invoiceId = invoiceId\<rparr>))
    | _ \<Rightarrow> Inr None)"

section \<open>What an event refreshes\<close>

text \<open>An argument of \<open>mutate\<close>: a key, whose parts are values of the language, or one of the two predicates.\<close>

datatype refresh = RefreshKey "js list" | RefreshCount | RefreshTotals | RefreshPositions string

definition part_is :: "js \<Rightarrow> key_part \<Rightarrow> bool" where
  "part_is v p = (case p of KStr s \<Rightarrow> v = JStr s | KNum n \<Rightarrow> v = JNum (NInt n))"

definition refreshes :: "refresh \<Rightarrow> cache_key \<Rightarrow> bool" where
  "refreshes r k = (case r of
      RefreshKey vs \<Rightarrow> (case k of Parts ps \<Rightarrow> list_all2 part_is vs ps | Single _ \<Rightarrow> False)
    | RefreshCount \<Rightarrow> k = Single ''invoice-count''
    | RefreshTotals \<Rightarrow> (case k of Parts (p # _) \<Rightarrow> p = KStr ''token-totals'' | _ \<Rightarrow> False)
    | RefreshPositions a \<Rightarrow> (case k of Parts (p # q # _) \<Rightarrow> p = KStr ''position'' \<and> q = KStr a | _ \<Rightarrow> False))"

text \<open>\<open>value?.[0]\<close>: of an array its first element, of a text its first character.\<close>

definition first_of :: "js \<Rightarrow> js" where
  "first_of v = (case v of
      JArr xs \<Rightarrow> elem_at xs 0
    | JStr (c # _) \<Rightarrow> JStr [c]
    | JObj _ \<Rightarrow> js_prop v ''0''
    | _ \<Rightarrow> JUndefined)"

definition invalidateCaches :: "js \<Rightarrow> string option \<Rightarrow> refresh list" where
  "invalidateCaches event walletAddress =
     (case elem_at (array_elems (js_prop event ''topic'')) 1 of
        JStr eventType \<Rightarrow>
          (let i = first_of (js_prop event ''value'') in
           if eventType \<in> {''funded'', ''repaid'', ''default'', ''created''} then
             RefreshCount # (if i = JUndefined then []
               else [RefreshKey [JStr ''invoice'', i], RefreshKey [JStr ''invoice-metadata'', i], RefreshKey [JStr ''funded-invoice'', i]])
           else if eventType \<in> {''deposit'', ''withdraw''} then
             RefreshTotals # (case walletAddress of Some (c # cs) \<Rightarrow> [RefreshPositions (c # cs)] | _ \<Rightarrow> [])
           else [])
      | _ \<Rightarrow> [])"

section \<open>Messages\<close>

text \<open>The handler of a message: its parsed text, the events shown, and the clock.  It returns what it refreshed,
  the new list of events, and the event handed to the caller of the hook.  Destructuring a topic that is
  not an array raises before anything is refreshed.\<close>

definition store_event :: "js \<Rightarrow> millis \<Rightarrow> js" where
  "store_event data now = JObj [(''id'', js_prop data ''id''), (''contractId'', js_prop data ''contractId''),
     (''topic'', JArr (map (\<lambda>t. JStr (js_String t)) (array_elems (js_prop data ''topic'')))), (''value'', js_prop data ''value''),
     (''ledger'', js_prop data ''ledger''), (''ledgerCloseAt'', js_prop data ''ledgerCloseAt''), (''txHash'', js_prop data ''txHash''),
     (''receivedAt'', JNum (NInt now))]"

definition is_array :: "js \<Rightarrow> bool" where
  "is_array v = (case v of JArr _ \<Rightarrow> True | _ \<Rightarrow> False)"

definition onmessage :: "js option \<Rightarrow> string option \<Rightarrow> millis \<Rightarrow> js list \<Rightarrow> refresh list \<times> js list \<times> js option" where
  "onmessage parsed walletAddress now recentEvents = (case parsed of
      None \<Rightarrow> ([], recentEvents, None)
    | Some data \<Rightarrow>
        if is_nullish data \<or> js_truthy (js_prop data ''type'') \<or> \<not> is_array (js_prop data ''topic'') then ([], recentEvents, None)
        else (invalidateCaches data walletAddress, take 100 (store_event data now # recentEvents), Some data))"

section \<open>Lemmas\<close>

lemma refreshes_page_keys [simp]:
  "key_of pe q = Some k \<Longrightarrow> refreshes RefreshCount k \<longleftrightarrow> q = QInvoiceCount"
  "key_of pe q = Some k \<Longrightarrow> refreshes RefreshTotals k \<longleftrightarrow> (\<exists>t. q = QTokenTotals t)"
  "key_of pe q = Some k \<Longrightarrow> refreshes (RefreshPositions a) k \<longleftrightarrow> (\<exists>t. q = QPosition a t)"
  by (cases q; force simp: refreshes_def split: if_splits)+

lemma refreshes_invoice_keys [simp]:
  "key_of pe q = Some k \<Longrightarrow> refreshes (RefreshKey [JStr ''invoice'', v]) k \<longleftrightarrow> (\<exists>n. v = JNum (NInt n) \<and> q = QInvoice n)"
  "key_of pe q = Some k \<Longrightarrow> refreshes (RefreshKey [JStr ''invoice-metadata'', v]) k \<longleftrightarrow> (\<exists>n. v = JNum (NInt n) \<and> q = QInvoiceMetadata n)"
  "key_of pe q = Some k \<Longrightarrow> refreshes (RefreshKey [JStr ''funded-invoice'', v]) k \<longleftrightarrow> (\<exists>n. v = JNum (NInt n) \<and> q = QFundedInvoice n)"
  by (cases q; force simp: refreshes_def part_is_def split: if_splits)+

section \<open>Properties\<close>

text \<open>
  What a live event refreshes.  An event about an invoice refreshes the count, and the three entries of
  the invoice when the first value of the event is a number; when it is a text, as 64-bit numbers are
  after JSON, it refreshes the count alone, because the pages use numbers in their keys.  A deposit or
  withdrawal refreshes the totals of every token and every position of the connected wallet.  Other
  events refresh nothing.
\<close>

theorem live_event_refreshes:
  assumes "key_of pe q = Some k" and "js_prop event ''topic'' = JArr (t # JStr name # ts)" and "js_prop event ''value'' = JArr (v # vs)" and "v \<noteq> JUndefined"
    and "w \<noteq> []"
  shows "(\<exists>r \<in> set (invalidateCaches event (Some w)). refreshes r k) \<longleftrightarrow>
     (if name \<in> {''funded'', ''repaid'', ''default'', ''created''}
      then q = QInvoiceCount \<or> (\<exists>n. v = JNum (NInt n) \<and> q \<in> {QInvoice n, QInvoiceMetadata n, QFundedInvoice n})
      else name \<in> {''deposit'', ''withdraw''} \<and> ((\<exists>tk. q = QTokenTotals tk) \<or> (\<exists>tk. q = QPosition w tk)))"
proof -
  have "invalidateCaches event (Some w) =
      (if name \<in> {''funded'', ''repaid'', ''default'', ''created''}
       then [RefreshCount, RefreshKey [JStr ''invoice'', v], RefreshKey [JStr ''invoice-metadata'', v], RefreshKey [JStr ''funded-invoice'', v]]
       else if name \<in> {''deposit'', ''withdraw''} then [RefreshTotals, RefreshPositions w] else [])"
    using assms(2-5) by (cases w) (simp_all add: invalidateCaches_def first_of_def elem_at_def Let_def cong: if_cong split del: if_split)
  moreover have "(\<exists>r \<in> set (if P then [a, b, c, d] else if R then [e, f] else []). refreshes r k) =
      (if P then refreshes a k \<or> refreshes b k \<or> refreshes c k \<or> refreshes d k else R \<and> (refreshes e k \<or> refreshes f k))" for P R a b c d e f
    by auto
  ultimately show ?thesis
    by (simp only: refreshes_page_keys [OF assms(1)] refreshes_invoice_keys [OF assms(1)]) (simp only: insert_iff empty_iff simp_thms ex_disj_distrib conj_disj_distribL)
qed

theorem live_event_refreshes_witness:
  "\<not> (\<exists>r \<in> set (invalidateCaches (JObj [(''topic'', JArr [JStr ''invoice'', JStr ''funded'']), (''value'', JArr [JStr ''7''])]) (Some ''GA'')).
        refreshes r (Parts [KStr ''invoice'', KNum 7]))"
proof -
  let ?e = "JObj [(''topic'', JArr [JStr ''invoice'', JStr ''funded'']), (''value'', JArr [JStr ''7''])]"
  show ?thesis
    using live_event_refreshes [of example_page "QInvoice 7" "Parts [KStr ''invoice'', KNum 7]" ?e "JStr ''invoice''" "''funded''" "[]" "JStr ''7''" "[]" "''GA''"]
    by simp
qed

text \<open>
  The list of recent events stays within its bound, whatever messages arrive, and an event that is shown is
  always at its head.
\<close>

theorem recent_events_bounded:
  "length (fst (snd (onmessage parsed w now recent))) \<le> max 100 (length recent)
     \<and> (snd (snd (onmessage parsed w now recent)) = Some data \<longrightarrow>
          length (fst (snd (onmessage parsed w now recent))) \<le> 100 \<and> hd (fst (snd (onmessage parsed w now recent))) = store_event data now)"
  by (auto simp: onmessage_def split: option.splits)

end
