(* ===== verification/Keeper.thy ===== *)
theory Keeper
  imports ContractShapes
begin

text \<open>
  The default keeper (\<open>scripts/monitor_invoices.ts\<close>): a script that sweeps over the invoices of the
  contract and marks the ones whose grace period has passed as defaulted.  The chain may answer
  differently in every sweep; within a sweep it is one record of answers.
\<close>

section \<open>Configuration\<close>

record keeper_config =
  kc_rpcUrl :: string
  kc_networkPassphrase :: string
  kc_invoiceContractId :: string
  kc_keeperSecretKey :: string
  kc_pollIntervalMs :: "int option"
  kc_runOnce :: bool

definition env_or :: "(string \<Rightarrow> string option) \<Rightarrow> string \<Rightarrow> string \<Rightarrow> string" where
  "env_or env name d = (case env name of Some (c # cs) \<Rightarrow> c # cs | _ \<Rightarrow> d)"

text \<open>\<open>parseInt\<close> gives no number (\<open>None\<close>) on text that does not start with one.\<close>

definition loadConfig :: "(string \<Rightarrow> string option) \<Rightarrow> keeper_config result" where
  "loadConfig env =
     (let invoiceContractId = env_or env ''INVOICE_CONTRACT_ID'' ''''; keeperSecretKey = env_or env ''KEEPER_SECRET_KEY'' '''' in
      if invoiceContractId = [] then Inl (GenericError ''INVOICE_CONTRACT_ID is required'')
      else if keeperSecretKey = [] then Inl (GenericError ''KEEPER_SECRET_KEY is required'')
      else Inr \<lparr>kc_rpcUrl = env_or env ''RPC_URL'' ''https://soroban-testnet.stellar.org'',
                kc_networkPassphrase = env_or env ''NETWORK_PASSPHRASE'' ''Test SDF Network ; September 2015'',
                kc_invoiceContractId = invoiceContractId, kc_keeperSecretKey = keeperSecretKey,
                kc_pollIntervalMs = js_parseInt (env_or env ''POLL_INTERVAL_MS'' ''60000''),
                kc_runOnce = (env ''RUN_ONCE'' = Some ''true'')\<rparr>)"

section \<open>Calls of the contract\<close>

text \<open>The monitor's own state.  A count that is not an integer is kept as \<open>None\<close>: it compares like NaN.\<close>

record monitor =
  lastSeenInvoiceCount :: "int option"
  checkedInvoiceIds :: "int list"

definition new_monitor :: monitor where
  "new_monitor = \<lparr>lastSeenInvoiceCount = Some 0, checkedInvoiceIds = []\<rparr>"

datatype keeper_call = ReadInvoice int | SendDefault int string

definition simulateRead :: "chain \<Rightarrow> string \<Rightarrow> string \<Rightarrow> sc_arg list \<Rightarrow> js result" where
  "simulateRead env keeper meth args = (case ch_account env keeper of
      Inl e \<Rightarrow> Inl e
    | Inr _ \<Rightarrow> (case ch_encode env InvoiceC meth args of
          Some e \<Rightarrow> Inl e
        | None \<Rightarrow> (case ch_simulate env keeper InvoiceC meth args of
              Inl e \<Rightarrow> Inl e
            | Inr (SimFailure sim) \<Rightarrow> Inl (GenericError (''simulate '' @ meth @ '' failed: '' @ js_String (js_prop sim ''error'')))
            | Inr (SimReturn v) \<Rightarrow> Inr v)))"

definition as_count :: "jnum \<Rightarrow> int option" where
  "as_count x = (case x of NInt n \<Rightarrow> Some n | _ \<Rightarrow> None)"

definition readInvoiceCount :: "chain \<Rightarrow> string \<Rightarrow> int option result" where
  "readInvoiceCount env keeper = then_result (simulateRead env keeper ''get_invoice_count'' []) (\<lambda>v. Inr (as_count (to_Number v)))"

definition readGraceDays :: "chain \<Rightarrow> string \<Rightarrow> jnum result" where
  "readGraceDays env keeper = then_result (simulateRead env keeper ''get_grace_period'' []) (\<lambda>v. Inr (to_Number v))"

definition readInvoice :: "chain \<Rightarrow> string \<Rightarrow> int \<Rightarrow> js result" where
  "readInvoice env keeper n = simulateRead env keeper ''get_invoice'' [ScU64 n]"

text \<open>The transaction is assembled, signed and handed to the network; \<open>send\<close> is the network's answer to it.\<close>

definition markDefaulted :: "chain \<Rightarrow> (string \<Rightarrow> string result) \<Rightarrow> string \<Rightarrow> int \<Rightarrow> string result \<times> keeper_call list" where
  "markDefaulted env send keeper n = (case ch_account env keeper of
      Inl e \<Rightarrow> (Inl e, [])
    | Inr _ \<Rightarrow> (case ch_encode env InvoiceC ''mark_defaulted'' [ScU64 n, ScAddress keeper] of
          Some e \<Rightarrow> (Inl e, [])
        | None \<Rightarrow> (case ch_simulate env keeper InvoiceC ''mark_defaulted'' [ScU64 n, ScAddress keeper] of
              Inl e \<Rightarrow> (Inl e, [])
            | Inr (SimFailure sim) \<Rightarrow> (Inl (GenericError (''simulate mark_defaulted failed: '' @ js_String (js_prop sim ''error''))), [])
            | Inr (SimReturn v) \<Rightarrow>
                (let tx = ch_assemble env keeper InvoiceC ''mark_defaulted'' [ScU64 n, ScAddress keeper] v in (send tx, [SendDefault n tx])))))"

section \<open>A sweep\<close>

definition INVOICE_STATUS_FUNDED :: string where "INVOICE_STATUS_FUNDED = ''Funded''"
definition SECS_PER_DAY :: int where "SECS_PER_DAY = 86400"

definition days_to_secs :: "jnum \<Rightarrow> jnum" where
  "days_to_secs d = (case d of
      NInt n \<Rightarrow> NInt (n * SECS_PER_DAY)
    | NDec m e \<Rightarrow> strip_zeros (m * SECS_PER_DAY) (Suc e)
    | x \<Rightarrow> x)"

text \<open>\<open>Number(due_date) + graceDays * SECS_PER_DAY\<close>, where a BigInt factor raises.\<close>

definition default_at :: "js \<Rightarrow> jnum \<Rightarrow> jnum result" where
  "default_at invoice globalGraceDays = (case js_coalesce (js_prop invoice ''grace_period_override'') (JNum globalGraceDays) of
      JBigInt _ \<Rightarrow> Inl (TypeError ''Cannot mix BigInt and other types, use explicit conversions'')
    | graceDays \<Rightarrow> Inr (num_add (to_Number (js_prop invoice ''due_date'')) (days_to_secs (js_Number graceDays))))"

definition note_checked :: "int \<Rightarrow> monitor \<Rightarrow> monitor" where
  "note_checked n m = m\<lparr>checkedInvoiceIds := oset_add n (checkedInvoiceIds m)\<rparr>"

text \<open>The body of the loop for one invoice; an error here ends the sweep.\<close>

definition visit :: "chain \<Rightarrow> (string \<Rightarrow> string result) \<Rightarrow> string \<Rightarrow> int \<Rightarrow> jnum \<Rightarrow> bool \<Rightarrow> int \<Rightarrow> monitor
    \<Rightarrow> unit result \<times> monitor \<times> keeper_call list" where
  "visit env send keeper nowSecs globalGraceDays later n m =
     (if later \<and> n \<in> set (checkedInvoiceIds m) then (Inr (), m, [])
      else (case readInvoice env keeper n of
          Inl _ \<Rightarrow> (Inr (), note_checked n m, [ReadInvoice n])
        | Inr invoice \<Rightarrow>
            if is_nullish invoice then (Inl (TypeError ''Cannot read properties of null (reading status)''), note_checked n m, [ReadInvoice n])
            else if js_prop invoice ''status'' \<noteq> JStr INVOICE_STATUS_FUNDED then (Inr (), note_checked n m, [ReadInvoice n])
            else (case default_at invoice globalGraceDays of
                Inl e \<Rightarrow> (Inl e, note_checked n m, [ReadInvoice n])
              | Inr defaultAt \<Rightarrow>
                  if num_lt (NInt nowSecs) defaultAt then (Inr (), note_checked n m, [ReadInvoice n])
                  else (Inr (), note_checked n m, ReadInvoice n # snd (markDefaulted env send keeper n)))))"

fun sweep_ids :: "chain \<Rightarrow> (string \<Rightarrow> string result) \<Rightarrow> string \<Rightarrow> int \<Rightarrow> jnum \<Rightarrow> bool \<Rightarrow> int list \<Rightarrow> monitor
    \<Rightarrow> unit result \<times> monitor \<times> keeper_call list" where
  "sweep_ids env send keeper nowSecs grace later [] m = (Inr (), m, [])"
| "sweep_ids env send keeper nowSecs grace later (n # ns) m = (case visit env send keeper nowSecs grace later n m of
      (Inl e, m', cs) \<Rightarrow> (Inl e, m', cs)
    | (Inr _, m', cs) \<Rightarrow> (case sweep_ids env send keeper nowSecs grace later ns m' of (r, m'', cs') \<Rightarrow> (r, m'', cs @ cs')))"

definition startId :: "int option \<Rightarrow> int option \<Rightarrow> int option" where
  "startId invoiceCount lastSeen = (case (invoiceCount, lastSeen) of
      (Some c, Some l) \<Rightarrow> if c < l then Some 1 else Some (l + 1)
    | (None, Some l) \<Rightarrow> Some (l + 1)
    | _ \<Rightarrow> None)"

definition sweep :: "chain \<Rightarrow> (string \<Rightarrow> string result) \<Rightarrow> string \<Rightarrow> millis \<Rightarrow> monitor \<Rightarrow> unit result \<times> monitor \<times> keeper_call list" where
  "sweep env send keeper now m = (case readInvoiceCount env keeper of
      Inl e \<Rightarrow> (Inl e, m, [])
    | Inr invoiceCount \<Rightarrow> (case readGraceDays env keeper of
          Inl e \<Rightarrow> (Inl e, m, [])
        | Inr globalGraceDays \<Rightarrow>
            (let m' = m\<lparr>lastSeenInvoiceCount := invoiceCount\<rparr> in
             case (startId invoiceCount (lastSeenInvoiceCount m), invoiceCount) of
               (Some start, Some c) \<Rightarrow> sweep_ids env send keeper (now div 1000) globalGraceDays (1 < start) [start..c] m'
             | _ \<Rightarrow> (Inr (), m', []))))"

text \<open>The poll loop, over any finite sequence of sweeps: a failed sweep is logged and the next one follows.\<close>

type_synonym sweep_input = "chain \<times> (string \<Rightarrow> string result) \<times> millis"

fun start :: "string \<Rightarrow> sweep_input list \<Rightarrow> monitor \<Rightarrow> monitor \<times> keeper_call list" where
  "start keeper [] m = (m, [])"
| "start keeper ((env, send, now) # ins) m = (case sweep env send keeper now m of
      (_, m', cs) \<Rightarrow> (case start keeper ins m' of (m'', cs') \<Rightarrow> (m'', cs @ cs')))"

definition run_once :: "string \<Rightarrow> sweep_input \<Rightarrow> unit result \<times> keeper_call list" where
  "run_once keeper i = (case i of (env, send, now) \<Rightarrow> (case sweep env send keeper now new_monitor of (r, _, cs) \<Rightarrow> (r, cs)))"

section \<open>Lemmas\<close>

lemma simulateRead_shaped:
  assumes "honest env" "simulateRead env keeper meth args = Inr v"
  shows "returns InvoiceC meth v"
  using assms by (auto simp: simulateRead_def honest_def split: sum.splits option.splits sim_answer.splits)

lemma invoice_status_is_list:
  assumes "honest env" "readInvoice env keeper n = Inr v"
  shows "\<exists>vs. js_prop v ''status'' = JArr vs"
proof -
  have sh: "shaped invoice_types v (TNamed ''Invoice'')"
    using simulateRead_shaped assms unfolding readInvoice_def by (fastforce simp: returns_def abi_tables)
  obtain kvs where v: "v = JObj kvs" "\<exists>x. js_prop (JObj kvs) ''status'' = x \<and> shaped invoice_types x (TNamed ''InvoiceStatus'')"
    using sh shaped_fields_prop [where f = "''status''" and t = "TNamed ''InvoiceStatus''"]
    by (elim shaped_struct [rotated]) (auto simp: abi_tables)
  then show ?thesis using shaped_variant [where n = "''InvoiceStatus''" and D = invoice_types] by (fastforce simp: abi_tables)
qed

definition reads :: "keeper_call list \<Rightarrow> int list" where
  "reads cs = List.map_filter (\<lambda>c. case c of ReadInvoice n \<Rightarrow> Some n | SendDefault _ _ \<Rightarrow> None) cs"

definition sends :: "keeper_call list \<Rightarrow> int list" where
  "sends cs = List.map_filter (\<lambda>c. case c of SendDefault n _ \<Rightarrow> Some n | ReadInvoice _ \<Rightarrow> None) cs"

lemma reads_simps [simp]:
  "reads [] = []" "reads (ReadInvoice n # cs) = n # reads cs" "reads (SendDefault n t # cs) = reads cs" "reads (cs @ ds) = reads cs @ reads ds"
  by (simp_all add: reads_def List.map_filter_def)

lemma sends_simps [simp]:
  "sends [] = []" "sends (SendDefault n t # cs) = n # sends cs" "sends (ReadInvoice n # cs) = sends cs" "sends (cs @ ds) = sends cs @ sends ds"
  by (simp_all add: sends_def List.map_filter_def)

lemma markDefaulted_reads [simp]: "reads (snd (markDefaulted env send keeper n)) = []"
  by (auto simp: markDefaulted_def Let_def split: sum.splits option.splits sim_answer.splits)

lemma visit_reads: "reads (snd (snd (visit env send keeper now grace later n m))) \<in> {[], [n]}"
  by (auto simp: visit_def split: sum.splits)

lemma visit_keeps_count: "lastSeenInvoiceCount (fst (snd (visit env send keeper now grace later n m))) = lastSeenInvoiceCount m"
  by (auto simp: visit_def note_checked_def split: sum.splits)

lemma visit_sends_nothing:
  "honest env \<Longrightarrow> sends (snd (snd (visit env send keeper now grace later n m))) = []"
  using invoice_status_is_list [of env keeper n] by (auto simp: visit_def split: sum.splits)

lemma sweep_ids_sends_nothing:
  "honest env \<Longrightarrow> sends (snd (snd (sweep_ids env send keeper now grace later ns m))) = []"
proof (induction ns arbitrary: m)
  case (Cons n ns)
  then show ?case using visit_sends_nothing [of env send keeper now grace later n m] by (auto split: prod.splits sum.splits) (metis snd_conv)
qed simp

lemma sweep_ids_keeps_count: "lastSeenInvoiceCount (fst (snd (sweep_ids env send keeper now grace later ns m))) = lastSeenInvoiceCount m"
proof (induction ns arbitrary: m)
  case (Cons n ns)
  then show ?case using visit_keeps_count [of env send keeper now grace later n m] by (auto split: prod.splits sum.splits) (metis fst_conv snd_conv)
qed simp

lemma sweep_ids_reads:
  "distinct ns \<Longrightarrow> distinct (reads (snd (snd (sweep_ids env send keeper now grace later ns m))))
     \<and> set (reads (snd (snd (sweep_ids env send keeper now grace later ns m)))) \<subseteq> set ns"
proof (induction ns arbitrary: m)
  case (Cons n ns)
  then show ?case using visit_reads [of env send keeper now grace later n m]
    by (auto split: prod.splits sum.splits) (metis snd_conv distinct.simps(2) subsetD)+
qed simp

text \<open>The count a sweep sees, when it gets to the invoices at all.\<close>

definition counts :: "string \<Rightarrow> chain \<Rightarrow> int \<Rightarrow> bool" where
  "counts keeper env c \<longleftrightarrow> readInvoiceCount env keeper = Inr (Some c)"

lemma sweep_reads_new:
  assumes "counts keeper env c" "lastSeenInvoiceCount m = Some l" "l \<le> c" "sweep env send keeper now m = (r, m', ks)"
  obtains c' where "lastSeenInvoiceCount m' = Some c'" "l \<le> c'" "c' \<le> c" "distinct (reads ks)" "set (reads ks) \<subseteq> {l<..c'}"
proof (cases "readGraceDays env keeper")
  case (Inl e)
  then show ?thesis using assms that [of l] by (auto simp: sweep_def counts_def)
next
  case (Inr grace)
  let ?s = "sweep_ids env send keeper (now div 1000) grace (1 < l + 1) [l + 1..c] (m\<lparr>lastSeenInvoiceCount := Some c\<rparr>)"
  have "?s = (r, m', ks)" using assms Inr by (simp add: sweep_def counts_def startId_def Let_def)
  moreover have "set [l + 1..c] = {l<..c}" by auto
  ultimately show ?thesis
    using sweep_ids_reads [of "[l + 1..c]" env send keeper "now div 1000" grace "1 < l + 1" "m\<lparr>lastSeenInvoiceCount := Some c\<rparr>"]
      sweep_ids_keeps_count [of env send keeper "now div 1000" grace "1 < l + 1" "[l + 1..c]" "m\<lparr>lastSeenInvoiceCount := Some c\<rparr>"]
      assms(3) that [of c] by simp
qed

lemma start_reads_new:
  assumes "lastSeenInvoiceCount m = Some l" "list_all2 (\<lambda>(env, _) c. counts keeper env c) ins cs" "sorted (l # cs)"
  shows "distinct (reads (snd (start keeper ins m))) \<and> (\<forall>n \<in> set (reads (snd (start keeper ins m))). l < n)"
  using assms
proof (induction ins arbitrary: m l cs)
  case (Cons i ins)
  obtain env send now where i: "i = (env, send, now)" by (cases i)
  from Cons.prems obtain c cs' where cs: "cs = c # cs'" "counts keeper env c" "list_all2 (\<lambda>(env, _) c. counts keeper env c) ins cs'"
    unfolding i by (auto simp: list_all2_Cons1)
  obtain r m' ks where sw: "sweep env send keeper now m = (r, m', ks)" by (cases "sweep env send keeper now m")
  have lc: "l \<le> c" using Cons.prems(3) cs(1) by simp
  obtain c' where c': "lastSeenInvoiceCount m' = Some c'" "l \<le> c'" "c' \<le> c" "distinct (reads ks)" "set (reads ks) \<subseteq> {l<..c'}"
    using sweep_reads_new [OF cs(2) Cons.prems(1) lc sw] .
  have "sorted (c' # cs')" using Cons.prems(3) cs(1) c'(3) by auto
  then have "distinct (reads (snd (start keeper ins m')))" "\<forall>n \<in> set (reads (snd (start keeper ins m'))). c' < n"
    using Cons.IH [OF c'(1) cs(3)] by simp_all
  then show ?case using c' by (fastforce simp: i sw split: prod.splits)
qed simp

lemma sweep_sends_nothing: "honest env \<Longrightarrow> sends (snd (snd (sweep env send keeper now m))) = []"
  by (auto simp: sweep_def Let_def sweep_ids_sends_nothing split: sum.splits option.splits)

lemma start_sends_nothing:
  "list_all (\<lambda>(env, _). honest env) ins \<Longrightarrow> sends (snd (start keeper ins m)) = []"
proof (induction ins arbitrary: m)
  case (Cons i ins)
  obtain env send now where i: "i = (env, send, now)" by (cases i)
  show ?case using Cons sweep_sends_nothing [of env send keeper now m] by (auto simp: i split: prod.splits) (metis snd_conv)
qed simp

section \<open>Properties\<close>

text \<open>
  C35: The keeper never marks a default.  A status is a variant of the contract's enum, which the library
  decodes to a list with the variant's name; the script compares it with the name itself and so takes no
  invoice for funded.  However long it runs and whatever the invoices are, it submits no transaction.
\<close>

theorem keeper_never_marks:
  assumes "list_all (\<lambda>(env, _). honest env) ins"
  shows "sends (snd (start keeper ins m)) = [] \<and> (\<forall>i \<in> set ins. sends (snd (run_once keeper i)) = [])"
proof -
  have "sends (snd (run_once keeper i)) = []" if "i \<in> set ins" for i
    using sweep_sends_nothing [of "fst i" "fst (snd i)" keeper "snd (snd i)" new_monitor] that assms
    by (cases i) (auto simp: run_once_def list_all_iff split: prod.splits)
  then show ?thesis using start_sends_nothing [OF assms] by blast
qed

definition funded_invoice :: js where
  "funded_invoice = JObj [(''amount'', JBigInt 100), (''created_at'', JBigInt 1), (''debtor'', JStr ''d''), (''description'', JStr ''x''),
     (''dispute_reason'', JStr ''r''), (''disputed_at'', JBigInt 0), (''due_date'', JBigInt 10), (''funded_amount'', JBigInt 100), (''funded_at'', JBigInt 2),
     (''grace_period_override'', JNull), (''id'', JBigInt 1), (''metadata_uri'', JNull), (''oracle_verified'', JBool True), (''original_due_date'', JBigInt 10),
     (''owner'', JStr ''GA''), (''paid_at'', JBigInt 0), (''pending_due_date'', JNull), (''pool_contract'', JStr ''CP''), (''status'', JArr [JStr ''Funded'']),
     (''verification_deadline'', JBigInt 0), (''verification_hash'', JStr ''h'')]"

definition keeper_chain :: chain where
  "keeper_chain = \<lparr>ch_id = (\<lambda>c. ''C''), ch_account = (\<lambda>a. Inr \<lparr>ac_balances = None\<rparr>), ch_encode = (\<lambda>c meth args. None),
     ch_simulate = (\<lambda>source c meth args.
       if c = InvoiceC \<and> meth = ''get_invoice'' then Inr (SimReturn funded_invoice)
       else if c = InvoiceC \<and> meth = ''get_invoice_count'' then Inr (SimReturn (JBigInt 1))
       else if c = InvoiceC \<and> meth = ''get_grace_period'' then Inr (SimReturn (JNum (NInt 7)))
       else Inr (SimFailure (JObj []))),
     ch_assemble = (\<lambda>source c meth args v. meth), ch_now = 0\<rparr>"

lemma keeper_chain_honest: "honest keeper_chain"
  by (auto simp: honest_def keeper_chain_def returns_def abi_tables funded_invoice_def shaped_base_def in_i_def in_u_def split: if_splits)

definition keeper_inputs :: "sweep_input list" where
  "keeper_inputs = [(keeper_chain, (\<lambda>_. Inr ''h''), 1700000000000), (keeper_chain, (\<lambda>_. Inr ''h''), 1700000060000)]"

lemmas keeper_example_defs = sweep_def readInvoiceCount_def readGraceDays_def readInvoice_def simulateRead_def keeper_chain_def then_result_def
  as_count_def startId_def new_monitor_def to_Number_def js_Number_def visit_def funded_invoice_def INVOICE_STATUS_FUNDED_def
  note_checked_def oset_add_def upto.simps Let_def

lemma keeper_example: "snd (start ''GK'' keeper_inputs new_monitor) = [ReadInvoice 1]"
  by (simp add: keeper_inputs_def keeper_example_defs)

theorem keeper_never_marks_witness:
  "sends (snd (start ''GK'' keeper_inputs new_monitor)) = [] \<and> snd (start ''GK'' keeper_inputs new_monitor) = [ReadInvoice 1]"
  using keeper_never_marks [of keeper_inputs "''GK''" new_monitor] keeper_chain_honest keeper_example by (simp add: keeper_inputs_def)

text \<open>
  The keeper looks at every invoice at most once.  As long as the number of invoices does not shrink, no
  invoice id is read twice in the whole life of the process, however the chain changes between the sweeps:
  an invoice that is funded, or whose grace period ends, after the sweep that first saw it is never
  considered again.
\<close>

theorem keeper_reads_once:
  assumes "list_all2 (\<lambda>(env, _) c. counts keeper env c) ins cs" "sorted (0 # cs)"
  shows "distinct (reads (snd (start keeper ins new_monitor)))"
  using start_reads_new [of new_monitor 0 keeper ins cs] assms by (simp add: new_monitor_def)

theorem keeper_reads_once_witness:
  "distinct (reads (snd (start ''GK'' keeper_inputs new_monitor)))"
proof -
  have "counts ''GK'' keeper_chain 1" by (simp add: counts_def keeper_example_defs)
  then show ?thesis using keeper_reads_once [of "''GK''" keeper_inputs "[1, 1]"] by (simp add: keeper_inputs_def)
qed

end
