(* ===== verification/Settings.thy ===== *)
theory Settings
  imports Prelude
begin

text \<open>
  Small libraries of the frontend: the check of the environment (\<open>lib/env.ts\<close>), the names of networks
  (\<open>lib/network-label.ts\<close>), error texts (\<open>lib/errorHandling.ts\<close>), the retry rule of the data hooks
  (\<open>lib/swrConfig.ts\<close>) and the health route (\<open>app/api/health/route.ts\<close>).
\<close>

section \<open>Environment\<close>

type_synonym process_env = "string \<Rightarrow> string option"

record EnvValidationError =
  ev_variable :: string
  ev_message :: string

definition env_text :: "process_env \<Rightarrow> string \<Rightarrow> string \<Rightarrow> string" where
  "env_text env name d = (case env name of Some (c # cs) \<Rightarrow> c # cs | _ \<Rightarrow> d)"

definition env_set :: "process_env \<Rightarrow> string \<Rightarrow> bool" where
  "env_set env name = (case env name of Some (c # cs) \<Rightarrow> True | _ \<Rightarrow> False)"

definition validateContractId :: "string \<Rightarrow> string \<Rightarrow> EnvValidationError list" where
  "validateContractId v name =
     (if trim v = [] then [\<lparr>ev_variable = name, ev_message = ''is required''\<rparr>]
      else if length v \<noteq> 56 \<or> \<not> startsWith v ''C''
      then [\<lparr>ev_variable = name, ev_message = ''must be a valid Stellar contract ID (56 characters starting with C)''\<rparr>]
      else [])"

definition validNetworks :: "string list" where
  "validNetworks = [''testnet'', ''mainnet'', ''standalone'']"

definition validateNetwork :: "string \<Rightarrow> EnvValidationError list" where
  "validateNetwork v = (if v \<noteq> [] \<and> v \<notin> set validNetworks
     then [\<lparr>ev_variable = ''NEXT_PUBLIC_NETWORK'', ev_message = ''must be one of: '' @ join '', '' validNetworks\<rparr>] else [])"

text \<open>\<open>url_ok\<close>: whether the platform's \<open>URL\<close> constructor accepts the text.\<close>

definition validateUrl :: "(string \<Rightarrow> bool) \<Rightarrow> string option \<Rightarrow> string \<Rightarrow> EnvValidationError list" where
  "validateUrl url_ok v name = (case v of
      Some (c # cs) \<Rightarrow> if url_ok (c # cs) then [] else [\<lparr>ev_variable = name, ev_message = ''must be a valid URL''\<rparr>]
    | _ \<Rightarrow> [])"

definition optional_id :: "process_env \<Rightarrow> string \<Rightarrow> EnvValidationError list" where
  "optional_id env name = (if env_set env name then validateContractId (the (env name)) name else [])"

definition env_errors :: "(string \<Rightarrow> bool) \<Rightarrow> process_env \<Rightarrow> EnvValidationError list" where
  "env_errors url_ok env =
     validateContractId (env_text env ''NEXT_PUBLIC_INVOICE_CONTRACT_ID'' []) ''NEXT_PUBLIC_INVOICE_CONTRACT_ID''
     @ validateContractId (env_text env ''NEXT_PUBLIC_POOL_CONTRACT_ID'' []) ''NEXT_PUBLIC_POOL_CONTRACT_ID''
     @ validateContractId (env_text env ''NEXT_PUBLIC_USDC_TOKEN_ID'' []) ''NEXT_PUBLIC_USDC_TOKEN_ID''
     @ optional_id env ''NEXT_PUBLIC_EURC_TOKEN_ID''
     @ optional_id env ''NEXT_PUBLIC_REFERRAL_CONTRACT_ID''
     @ validateNetwork (env_text env ''NEXT_PUBLIC_NETWORK'' ''testnet'')
     @ validateUrl url_ok (env ''NEXT_PUBLIC_HORIZON_URL'') ''NEXT_PUBLIC_HORIZON_URL''
     @ validateUrl url_ok (env ''NEXT_PUBLIC_SOROBAN_RPC_URL'') ''NEXT_PUBLIC_SOROBAN_RPC_URL''"

definition validateEnv :: "(string \<Rightarrow> bool) \<Rightarrow> process_env \<Rightarrow> bool \<times> EnvValidationError list" where
  "validateEnv url_ok env = (env_errors url_ok env = [], env_errors url_ok env)"

record EnvConfig =
  ec_invoice :: string
  ec_pool :: string
  ec_usdc :: string
  ec_eurc :: "string option"
  ec_referral :: "string option"
  ec_network :: string
  ec_horizon :: "string option"
  ec_soroban :: "string option"

definition getEnvConfig :: "process_env \<Rightarrow> EnvConfig" where
  "getEnvConfig env = \<lparr>ec_invoice = env_text env ''NEXT_PUBLIC_INVOICE_CONTRACT_ID'' [], ec_pool = env_text env ''NEXT_PUBLIC_POOL_CONTRACT_ID'' [],
     ec_usdc = env_text env ''NEXT_PUBLIC_USDC_TOKEN_ID'' [], ec_eurc = env ''NEXT_PUBLIC_EURC_TOKEN_ID'',
     ec_referral = env ''NEXT_PUBLIC_REFERRAL_CONTRACT_ID'', ec_network = env_text env ''NEXT_PUBLIC_NETWORK'' ''testnet'',
     ec_horizon = env ''NEXT_PUBLIC_HORIZON_URL'', ec_soroban = env ''NEXT_PUBLIC_SOROBAN_RPC_URL''\<rparr>"

definition formatEnvErrors :: "EnvValidationError list \<Rightarrow> string" where
  "formatEnvErrors errs = join [CHR 0x0A] (map (\<lambda>e. ''  - '' @ ev_variable e @ '': '' @ ev_message e) errs)"

definition getAppUrl :: "process_env \<Rightarrow> string" where
  "getAppUrl env = (case env ''NEXT_PUBLIC_APP_URL'' of
      Some u \<Rightarrow> u
    | None \<Rightarrow> if env_set env ''VERCEL_URL'' then ''https://'' @ the (env ''VERCEL_URL'') else ''http://localhost:3000'')"

definition assertEnvValid :: "(string \<Rightarrow> bool) \<Rightarrow> process_env \<Rightarrow> bool \<Rightarrow> unit result" where
  "assertEnvValid url_ok env browser =
     (let (valid, errs) = validateEnv url_ok env in
      if \<not> valid \<and> env ''NEXT_PUBLIC_STRICT_ENV'' = Some ''true'' \<and> \<not> browser
      then Inl (GenericError (''Environment configuration errors:'' @ [CHR 0x0A] @ formatEnvErrors errs))
      else Inr ())"

section \<open>Network names\<close>

text \<open>The passphrases of the three networks are constants of the Stellar library, given as arguments.\<close>

definition NETWORK_LABELS :: "string \<Rightarrow> string \<Rightarrow> string \<Rightarrow> string dict" where
  "NETWORK_LABELS public testnet standalone =
     [(''PUBLIC'', ''Mainnet''), (''mainnet'', ''Mainnet''), (public, ''Mainnet''), (''TESTNET'', ''Testnet''), (''testnet'', ''Testnet''),
      (testnet, ''Testnet''), (''STANDALONE'', ''Local''), (''standalone'', ''Local''), (''local'', ''Local''), (standalone, ''Local'')]"

definition formatNetworkName :: "string dict \<Rightarrow> string option \<Rightarrow> string" where
  "formatNetworkName labels net = (case map_option trim net of
      Some (c # cs) \<Rightarrow>
        (let v = c # cs in
         case map_of labels v of
           Some l \<Rightarrow> l
         | None \<Rightarrow> (case map_of labels (toLowerCase v) of
               Some l \<Rightarrow> l
             | None \<Rightarrow> if length v \<le> 24 then v else take 12 v @ ''...'' @ drop (length v - 8) v))
    | _ \<Rightarrow> ''Unknown'')"

section \<open>Error texts\<close>

text \<open>The patterns are alternatives of plain texts, matched without regard to case.\<close>

definition ERROR_MAPPINGS :: "(string list \<times> string) list" where
  "ERROR_MAPPINGS =
     [([''user_declined_access'', ''user rejected'', ''cancelled by user''], ''Transaction cancelled by user''),
      ([''timeout'', ''network error'', ''failed to fetch'', ''unreachable''], ''Network error, please try again''),
      ([''insufficientfunds'', ''insufficient funds''], ''Insufficient balance for this transaction''),
      ([''contractpaused'', ''contract is paused''], ''Protocol is currently paused''),
      ([''already initialized''], ''Contract is already initialized'')]"

definition matches_any :: "string list \<Rightarrow> string \<Rightarrow> bool" where
  "matches_any ps raw = list_ex (str_includes (toLowerCase raw)) ps"

definition getUserFriendlyError :: "string \<Rightarrow> string" where
  "getUserFriendlyError raw = (case find (\<lambda>(ps, _). matches_any ps raw) ERROR_MAPPINGS of
      Some (_, msg) \<Rightarrow> msg
    | None \<Rightarrow> raw)"

definition isNotFoundError :: "string \<Rightarrow> bool" where
  "isNotFoundError raw = matches_any [''not found'', ''does not exist''] raw"

definition MAX_RETRY_COUNT :: nat where "MAX_RETRY_COUNT = 3"
definition RETRY_BASE_DELAY_MS :: nat where "RETRY_BASE_DELAY_MS = 1000"

text \<open>The retry rule: the delay after which the hook asks again, or none.\<close>

definition onErrorRetry :: "string \<Rightarrow> nat \<Rightarrow> nat option" where
  "onErrorRetry raw retryCount =
     (if isNotFoundError raw then None
      else if retryCount \<ge> MAX_RETRY_COUNT then None
      else Some (RETRY_BASE_DELAY_MS * 2 ^ retryCount))"

section \<open>Health\<close>

datatype health = Ok | Degraded | Down

record HealthCheck =
  hc_name :: string
  hc_status :: health
  hc_detail :: string

definition RPC_TIMEOUT_MS :: nat where "RPC_TIMEOUT_MS = 5000"

text \<open>What a probe got: a status after some time, or an exception (the abort after the timeout included).\<close>

datatype probe = Answered nat nat | Failed jserror

definition checkHttpService :: "string \<Rightarrow> probe \<Rightarrow> HealthCheck" where
  "checkHttpService name p = (case p of
      Answered status elapsed \<Rightarrow>
        if \<not> (200 \<le> status \<and> status < 300) then \<lparr>hc_name = name, hc_status = Down, hc_detail = ''HTTP '' @ show_nat status\<rparr>
        else if elapsed > RPC_TIMEOUT_MS
        then \<lparr>hc_name = name, hc_status = Degraded,
              hc_detail = ''Response time '' @ show_nat elapsed @ ''ms > '' @ show_nat RPC_TIMEOUT_MS @ ''ms''\<rparr>
        else \<lparr>hc_name = name, hc_status = Ok, hc_detail = show_nat elapsed @ ''ms''\<rparr>
    | Failed e \<Rightarrow> \<lparr>hc_name = name, hc_status = Down, hc_detail = error_message e\<rparr>)"

definition checkRpc :: "probe \<Rightarrow> HealthCheck" where
  "checkRpc p = checkHttpService ''stellar_rpc'' p"

definition overallStatus :: "HealthCheck list \<Rightarrow> health" where
  "overallStatus checks =
     (let statuses = map hc_status checks in
      if Down \<in> set statuses then Down else if Degraded \<in> set statuses then Degraded else Ok)"

definition contractId_text :: "string option \<Rightarrow> string" where
  "contractId_text v = (case v of Some s \<Rightarrow> if trim s \<noteq> [] then trim s else ''not_configured'' | None \<Rightarrow> ''not_configured'')"

record HealthResponse =
  hr_status :: health
  hr_checks :: "HealthCheck list"
  hr_contracts :: "string list"

definition health_response :: "process_env \<Rightarrow> probe \<Rightarrow> probe \<Rightarrow> probe \<Rightarrow> HealthResponse" where
  "health_response env rpc oracle compliance =
     (let checks = [checkRpc rpc, checkHttpService ''oracle_service'' oracle, checkHttpService ''compliance_service'' compliance] in
      \<lparr>hr_status = overallStatus checks, hr_checks = checks,
       hr_contracts = map (\<lambda>n. contractId_text (env n))
         [''NEXT_PUBLIC_INVOICE_CONTRACT_ID'', ''NEXT_PUBLIC_POOL_CONTRACT_ID'', ''NEXT_PUBLIC_CREDIT_SCORE_CONTRACT_ID'',
          ''NEXT_PUBLIC_GOVERNANCE_CONTRACT_ID'']\<rparr>)"

text \<open>The alert: where it is posted and with which severity.\<close>

definition fireWebhook :: "process_env \<Rightarrow> HealthResponse \<Rightarrow> (string \<times> string) option" where
  "fireWebhook env payload =
     (if \<not> env_set env ''ALERT_WEBHOOK_URL'' \<or> hr_status payload = Ok then None
      else Some (the (env ''ALERT_WEBHOOK_URL''), if hr_status payload = Down then ''critical'' else ''warning''))"

definition health_GET :: "process_env \<Rightarrow> probe \<Rightarrow> probe \<Rightarrow> probe \<Rightarrow> nat \<times> HealthResponse \<times> (string \<times> string) option" where
  "health_GET env rpc oracle compliance =
     (let response = health_response env rpc oracle compliance in
      (if hr_status response = Down then 503 else 200, response, fireWebhook env response))"

section \<open>Lemmas\<close>

definition id_ok :: "string \<Rightarrow> bool" where
  "id_ok v \<longleftrightarrow> length v = 56 \<and> (\<exists>r. v = CHR ''C'' # r)"

lemma startsWith_C: "startsWith v ''C'' \<longleftrightarrow> (\<exists>r. v = CHR ''C'' # r)"
  by (cases v) auto

lemma trim_C: "trim (CHR ''C'' # r) \<noteq> []"
proof
  assume "trim (CHR ''C'' # r) = []"
  moreover have "\<not> is_space (CHR ''C'')" by (simp add: is_space_def)
  ultimately have "\<forall>c \<in> set (CHR ''C'' # r). is_space c" by (auto simp: trim_def dropWhile_eq_Nil_conv)
  then show False by (simp add: is_space_def)
qed

lemma validateContractId_ok: "validateContractId v name = [] \<longleftrightarrow> id_ok v"
  using trim_C by (auto simp: validateContractId_def id_ok_def startsWith_C)

definition probe_up :: "probe \<Rightarrow> bool" where
  "probe_up p \<longleftrightarrow> (\<exists>s t. p = Answered s t \<and> 200 \<le> s \<and> s < 300)"

definition probe_prompt :: "probe \<Rightarrow> bool" where
  "probe_prompt p \<longleftrightarrow> (\<exists>s t. p = Answered s t \<and> 200 \<le> s \<and> s < 300 \<and> t \<le> 5000)"

lemma checkHttpService_status:
  "hc_status (checkHttpService n p) = Down \<longleftrightarrow> \<not> (\<exists>s t. p = Answered s t \<and> 200 \<le> s \<and> s < 300)"
  "hc_status (checkHttpService n p) = Ok \<longleftrightarrow> (\<exists>s t. p = Answered s t \<and> 200 \<le> s \<and> s < 300 \<and> t \<le> 5000)"
  by (auto simp: checkHttpService_def RPC_TIMEOUT_MS_def split: probe.splits)

lemma overallStatus_Ok: "overallStatus cs = Ok \<longleftrightarrow> (\<forall>c \<in> set cs. hc_status c = Ok)"
proof (induction cs)
  case (Cons c cs)
  then show ?case by (cases "hc_status c") (auto simp: overallStatus_def Let_def split: if_splits)
qed (simp add: overallStatus_def)

lemma overallStatus_Down: "overallStatus cs = Down \<longleftrightarrow> (\<exists>c \<in> set cs. hc_status c = Down)"
  by (auto simp: overallStatus_def Let_def image_iff) metis+

section \<open>Properties\<close>

text \<open>
  The check of the environment.  It passes exactly if the three required ids and the optional ids that are
  set have 56 characters and start with C, the network (by default the test network) is one of the
  three, and the URLs that are set are accepted; and the start is refused exactly if it does not pass, in
  strict mode, on the server.
\<close>

theorem env_check_exact:
  "(fst (validateEnv url_ok env) \<longleftrightarrow>
      (\<forall>n \<in> {''NEXT_PUBLIC_INVOICE_CONTRACT_ID'', ''NEXT_PUBLIC_POOL_CONTRACT_ID'', ''NEXT_PUBLIC_USDC_TOKEN_ID''}. \<exists>v. env n = Some v \<and> id_ok v)
      \<and> (\<forall>n \<in> {''NEXT_PUBLIC_EURC_TOKEN_ID'', ''NEXT_PUBLIC_REFERRAL_CONTRACT_ID''}. env n \<in> {None, Some []} \<or> id_ok (the (env n)))
      \<and> env ''NEXT_PUBLIC_NETWORK'' \<in> {None, Some []} \<union> Some ` set validNetworks
      \<and> (\<forall>n \<in> {''NEXT_PUBLIC_HORIZON_URL'', ''NEXT_PUBLIC_SOROBAN_RPC_URL''}. env n \<in> {None, Some []} \<or> url_ok (the (env n))))
   \<and> ((\<exists>e. assertEnvValid url_ok env browser = Inl e) \<longleftrightarrow>
      \<not> fst (validateEnv url_ok env) \<and> env ''NEXT_PUBLIC_STRICT_ENV'' = Some ''true'' \<and> \<not> browser)"
proof
  have required: "validateContractId (env_text env n []) n = [] \<longleftrightarrow> (\<exists>v. env n = Some v \<and> id_ok v)" for n
    by (auto simp: validateContractId_ok env_text_def id_ok_def split: option.splits list.splits)
  have optional: "optional_id env n = [] \<longleftrightarrow> env n \<in> {None, Some []} \<or> id_ok (the (env n))" for n
    by (auto simp: optional_id_def env_set_def validateContractId_ok split: option.splits list.splits)
  have net: "validateNetwork (env_text env ''NEXT_PUBLIC_NETWORK'' ''testnet'') = [] \<longleftrightarrow>
      env ''NEXT_PUBLIC_NETWORK'' \<in> {None, Some []} \<union> Some ` set validNetworks"
    by (auto simp: validateNetwork_def env_text_def validNetworks_def split: option.splits list.splits)
  have url: "validateUrl url_ok (env n) n = [] \<longleftrightarrow> env n \<in> {None, Some []} \<or> url_ok (the (env n))" for n
    by (auto simp: validateUrl_def split: option.splits list.splits)
  show "fst (validateEnv url_ok env) \<longleftrightarrow>
      (\<forall>n \<in> {''NEXT_PUBLIC_INVOICE_CONTRACT_ID'', ''NEXT_PUBLIC_POOL_CONTRACT_ID'', ''NEXT_PUBLIC_USDC_TOKEN_ID''}. \<exists>v. env n = Some v \<and> id_ok v)
      \<and> (\<forall>n \<in> {''NEXT_PUBLIC_EURC_TOKEN_ID'', ''NEXT_PUBLIC_REFERRAL_CONTRACT_ID''}. env n \<in> {None, Some []} \<or> id_ok (the (env n)))
      \<and> env ''NEXT_PUBLIC_NETWORK'' \<in> {None, Some []} \<union> Some ` set validNetworks
      \<and> (\<forall>n \<in> {''NEXT_PUBLIC_HORIZON_URL'', ''NEXT_PUBLIC_SOROBAN_RPC_URL''}. env n \<in> {None, Some []} \<or> url_ok (the (env n)))"
    by (simp only: validateEnv_def env_errors_def fst_conv append_is_Nil_conv required optional net url ball_simps insert_iff simp_thms)
      (simp only: ball_simps conj_assoc simp_thms)
  show "(\<exists>e. assertEnvValid url_ok env browser = Inl e) \<longleftrightarrow>
      \<not> fst (validateEnv url_ok env) \<and> env ''NEXT_PUBLIC_STRICT_ENV'' = Some ''true'' \<and> \<not> browser"
    by (simp add: assertEnvValid_def validateEnv_def Let_def)
qed

text \<open>
  The health route answers 503 exactly if one of the three services did not answer with success, reports
  \<open>ok\<close> exactly if all three did within the timeout, and posts an alert exactly if it does not report \<open>ok\<close>
  and a webhook is configured.
\<close>

theorem health_exact:
  "(fst (health_GET env rpc oracle compliance) = 503 \<longleftrightarrow> \<not> (probe_up rpc \<and> probe_up oracle \<and> probe_up compliance))
    \<and> (hr_status (fst (snd (health_GET env rpc oracle compliance))) = Ok \<longleftrightarrow> probe_prompt rpc \<and> probe_prompt oracle \<and> probe_prompt compliance)
    \<and> (snd (snd (health_GET env rpc oracle compliance)) \<noteq> None \<longleftrightarrow>
        env ''ALERT_WEBHOOK_URL'' \<notin> {None, Some []} \<and> \<not> (probe_prompt rpc \<and> probe_prompt oracle \<and> probe_prompt compliance))"
proof -
  let ?r = "health_response env rpc oracle compliance"
  have "hr_status ?r = Down \<longleftrightarrow> \<not> (probe_up rpc \<and> probe_up oracle \<and> probe_up compliance)"
    and ok: "hr_status ?r = Ok \<longleftrightarrow> probe_prompt rpc \<and> probe_prompt oracle \<and> probe_prompt compliance"
    by (simp_all add: health_response_def Let_def overallStatus_Down overallStatus_Ok checkRpc_def checkHttpService_status probe_up_def probe_prompt_def)
  moreover have "fireWebhook env ?r \<noteq> None \<longleftrightarrow> env ''ALERT_WEBHOOK_URL'' \<notin> {None, Some []} \<and> hr_status ?r \<noteq> Ok"
    by (auto simp: fireWebhook_def env_set_def split: option.splits list.splits)
  ultimately show ?thesis by (simp only: health_GET_def Let_def fst_conv snd_conv split: if_split) simp
qed

text \<open>
  The retry rule asks again at most three times for one failure, waiting at most four seconds, and never
  after a failure that says the thing does not exist.
\<close>

theorem retry_rule_bounds:
  "(onErrorRetry raw k = Some d \<longrightarrow> k < 3 \<and> 1000 \<le> d \<and> d \<le> 4000 \<and> \<not> isNotFoundError raw)
     \<and> (onErrorRetry raw k = None \<longleftrightarrow> 3 \<le> k \<or> isNotFoundError raw)"
proof -
  have "(2::nat) ^ k \<le> 4" if "k < 3" using power_increasing [of k 2 "2::nat"] that by simp
  then show ?thesis by (auto simp: onErrorRetry_def MAX_RETRY_COUNT_def RETRY_BASE_DELAY_MS_def)
qed

end
