(* ===== verification/Templates.thy ===== *)
theory Templates
  imports Json
begin

text \<open>
  The invoice templates of the browser (\<open>frontend/lib/invoiceTemplates.ts\<close>), a list of objects kept as JSON
  text in the local storage.  The text may have been written by anything, so its items are arbitrary
  values: looking for an id raises when an item before the match is \<open>null\<close>.
\<close>

definition loadInvoiceTemplates :: "bool \<Rightarrow> string option \<Rightarrow> js list" where
  "loadInvoiceTemplates browser storage =
     (if \<not> browser then []
      else (case json_parse (case storage of Some s \<Rightarrow> s | None \<Rightarrow> ''[]'') of
          Some (JArr templates) \<Rightarrow> templates
        | _ \<Rightarrow> []))"

definition saveInvoiceTemplates :: "js list \<Rightarrow> string result" where
  "saveInvoiceTemplates templates = json_stringify (JArr templates)"

text \<open>\<open>findIndex\<close> and \<open>find\<close> by id.\<close>

fun find_template :: "js \<Rightarrow> js list \<Rightarrow> nat option result" where
  "find_template i [] = Inr None"
| "find_template i (x # xs) =
     (if is_nullish x then Inl (TypeError ''Cannot read properties of null (reading id)'')
      else if js_prop x ''id'' = i then Inr (Some 0)
      else (case find_template i xs of Inl e \<Rightarrow> Inl e | Inr r \<Rightarrow> Inr (map_option Suc r)))"

definition upsertInvoiceTemplate :: "bool \<Rightarrow> js \<Rightarrow> string option \<Rightarrow> string result" where
  "upsertInvoiceTemplate browser template storage =
     (let templates = loadInvoiceTemplates browser storage in
      case find_template (js_prop template ''id'') templates of
        Inl e \<Rightarrow> Inl e
      | Inr (Some index) \<Rightarrow> saveInvoiceTemplates (templates[index := template])
      | Inr None \<Rightarrow> saveInvoiceTemplates (template # templates))"

definition deleteInvoiceTemplate :: "bool \<Rightarrow> js \<Rightarrow> string option \<Rightarrow> string result" where
  "deleteInvoiceTemplate browser i storage =
     (let templates = loadInvoiceTemplates browser storage in
      if list_ex is_nullish templates then Inl (TypeError ''Cannot read properties of null (reading id)'')
      else saveInvoiceTemplates (filter (\<lambda>t. js_prop t ''id'' \<noteq> i) templates))"

definition getInvoiceTemplate :: "bool \<Rightarrow> js \<Rightarrow> string option \<Rightarrow> js result" where
  "getInvoiceTemplate browser i storage =
     (let templates = loadInvoiceTemplates browser storage in
      case find_template i templates of
        Inl e \<Rightarrow> Inl e
      | Inr (Some index) \<Rightarrow> Inr (templates ! index)
      | Inr None \<Rightarrow> Inr JNull)"

section \<open>Lemmas\<close>

text \<open>A template: a value that JSON keeps, and not \<open>null\<close>.\<close>

definition template_ok :: "js \<Rightarrow> bool" where
  "template_ok t = (json_plain t \<and> \<not> is_nullish t)"

lemma templates_save_load:
  assumes "list_all template_ok ts"
  obtains s where "saveInvoiceTemplates ts = Inr s" "loadInvoiceTemplates True (Some s) = ts"
proof -
  have "json_plain (JArr ts)" using assms by (auto simp: template_ok_def list_all_iff)
  then obtain s where "json_stringify (JArr ts) = Inr s" "json_parse s = Some (JArr ts)" using json_roundtrip by blast
  then show ?thesis by (intro that [of s]) (simp_all add: saveInvoiceTemplates_def loadInvoiceTemplates_def)
qed

definition template_at :: "js \<Rightarrow> js list \<Rightarrow> js option" where
  "template_at i ts = find (\<lambda>t. js_prop t ''id'' = i) ts"

lemma find_template_total:
  "list_all template_ok ts \<Longrightarrow> \<exists>r. find_template i ts = Inr r"
  by (induction ts) (auto simp: template_ok_def)

lemma find_template_Some:
  "find_template i ts = Inr (Some k) \<Longrightarrow> k < length ts \<and> template_at i ts = Some (ts ! k)"
  by (induction ts arbitrary: k) (auto simp: template_at_def split: if_splits sum.splits)

lemma find_template_None: "find_template i ts = Inr None \<Longrightarrow> template_at i ts = None"
  by (induction ts) (auto simp: template_at_def split: if_splits sum.splits)

lemma template_at_update:
  "find_template i ts = Inr (Some k) \<Longrightarrow> js_prop t ''id'' = i \<Longrightarrow>
     template_at j (ts[k := t]) = (if j = i then Some t else template_at j ts)"
  by (induction ts arbitrary: k) (auto simp: template_at_def split: if_splits sum.splits)

lemma template_at_filter: "template_at j (filter (\<lambda>t. js_prop t ''id'' \<noteq> i) ts) = (if j = i then None else template_at j ts)"
  by (induction ts) (auto simp: template_at_def)

lemma getInvoiceTemplate_at:
  assumes "list_all template_ok (loadInvoiceTemplates True st)"
  shows "getInvoiceTemplate True i st = Inr (case template_at i (loadInvoiceTemplates True st) of Some t \<Rightarrow> t | None \<Rightarrow> JNull)"
proof -
  obtain r where r: "find_template i (loadInvoiceTemplates True st) = Inr r" using find_template_total [OF assms] by blast
  then show ?thesis
    by (cases r) (auto simp: getInvoiceTemplate_def Let_def dest: find_template_Some find_template_None)
qed

lemma stored:
  assumes "list_all template_ok ts"
  shows "\<exists>s. saveInvoiceTemplates ts = Inr s \<and> (\<forall>j. getInvoiceTemplate True j (Some s) = Inr (case template_at j ts of Some t \<Rightarrow> t | None \<Rightarrow> JNull))"
  using templates_save_load [OF assms] getInvoiceTemplate_at assms by metis

section \<open>Properties\<close>

text \<open>
  The template store keeps what is put into it.  When the stored items are templates, saving a template
  succeeds, afterwards it is found under its id, and every other id gives what it gave before; deleting an id
  succeeds, and afterwards exactly this id gives nothing.  Both go through the JSON text in the storage.
\<close>

theorem template_store_roundtrip:
  assumes "list_all template_ok (loadInvoiceTemplates True st)" "template_ok t"
  shows "(\<exists>s. upsertInvoiceTemplate True t st = Inr s
          \<and> (\<forall>j. getInvoiceTemplate True j (Some s) = (if j = js_prop t ''id'' then Inr t else getInvoiceTemplate True j st)))
     \<and> (\<exists>s. deleteInvoiceTemplate True i st = Inr s
          \<and> (\<forall>j. getInvoiceTemplate True j (Some s) = (if j = i then Inr JNull else getInvoiceTemplate True j st)))"
proof
  let ?ts = "loadInvoiceTemplates True st"
  obtain r where r: "find_template (js_prop t ''id'') ?ts = Inr r" using find_template_total [OF assms(1)] by blast
  show "\<exists>s. upsertInvoiceTemplate True t st = Inr s
      \<and> (\<forall>j. getInvoiceTemplate True j (Some s) = (if j = js_prop t ''id'' then Inr t else getInvoiceTemplate True j st))"
  proof (cases r)
    case None
    have "list_all template_ok (t # ?ts)" using assms by simp
    from stored [OF this] r None show ?thesis
      by (auto simp: upsertInvoiceTemplate_def Let_def getInvoiceTemplate_at [OF assms(1)] template_at_def)
  next
    case (Some k)
    have "list_all template_ok (?ts[k := t])"
      using assms by (auto simp: list_all_iff dest: set_update_subset_insert [THEN subsetD])
    from stored [OF this] r Some show ?thesis
      by (auto simp: upsertInvoiceTemplate_def Let_def getInvoiceTemplate_at [OF assms(1)] template_at_update)
  qed
  have "list_all template_ok (filter (\<lambda>t. js_prop t ''id'' \<noteq> i) ?ts)" "\<not> list_ex is_nullish ?ts"
    using assms(1) by (auto simp: list_all_iff list_ex_iff template_ok_def)
  with stored [OF this(1)] show "\<exists>s. deleteInvoiceTemplate True i st = Inr s
      \<and> (\<forall>j. getInvoiceTemplate True j (Some s) = (if j = i then Inr JNull else getInvoiceTemplate True j st))"
    by (auto simp: deleteInvoiceTemplate_def Let_def getInvoiceTemplate_at [OF assms(1)] template_at_filter)
qed

theorem template_store_roundtrip_witness:
  "\<exists>s. upsertInvoiceTemplate True (JObj [(''id'', JStr ''a''), (''amount'', JNum (NInt 5))]) None = Inr s
     \<and> getInvoiceTemplate True (JStr ''a'') (Some s) = Inr (JObj [(''id'', JStr ''a''), (''amount'', JNum (NInt 5))])"
proof -
  have "json_parse ''[]'' = Some (JArr [])" using json_value_print [of "JArr []" "[]"] by (simp add: json_parse_def skip_ws_def)
  then have "loadInvoiceTemplates True None = []" by (simp add: loadInvoiceTemplates_def)
  then show ?thesis
    using template_store_roundtrip [of None "JObj [(''id'', JStr ''a''), (''amount'', JNum (NInt 5))]" "JStr ''b''"] by (auto simp: template_ok_def)
qed

end
