(* ===== verification/SdkEvents.thy ===== *)
theory SdkEvents
  imports ContractShapes
begin

text \<open>
  The event parser of the SDK (\<open>packages/sdk/src/events.ts\<close>), beside the events the pool and the share
  contract publish.  The values of an event are given as the library decodes them.
\<close>

section \<open>The parser\<close>

datatype ContractEventType =
    PoolDepositEvent string string int int jnum
  | PoolWithdrawalEvent string string int int jnum
  | PoolYieldClaimedEvent string string int jnum
  | ShareMintEvent string int jnum
  | ShareBurnEvent string int jnum
  | ShareTransferEvent string string int
  | ShareApproveEvent string string int

text \<open>\<open>BigInt(String(v))\<close>; an exception makes the whole parse return \<open>null\<close>.\<close>

definition big_value :: "js \<Rightarrow> int option" where
  "big_value v = js_BigInt (js_String v)"

definition pool_event :: "string \<Rightarrow> js list \<Rightarrow> ContractEventType option" where
  "pool_event action vs =
     (let text = (\<lambda>i. js_String (elem_at vs i)); number = (\<lambda>i. to_Number (elem_at vs i)); big = (\<lambda>i. big_value (elem_at vs i)) in
      if action = ''deposit'' then
        (case (big 2, big 3) of (Some amount, Some shares) \<Rightarrow> Some (PoolDepositEvent (text 0) (text 1) amount shares (number 4)) | _ \<Rightarrow> None)
      else if action = ''withdrawal'' then
        (case (big 2, big 3) of (Some amount, Some shares) \<Rightarrow> Some (PoolWithdrawalEvent (text 0) (text 1) amount shares (number 4)) | _ \<Rightarrow> None)
      else if action = ''yield_claimed'' then
        (case big 2 of Some amount \<Rightarrow> Some (PoolYieldClaimedEvent (text 0) (text 1) amount (number 3)) | None \<Rightarrow> None)
      else None)"

definition share_event :: "string \<Rightarrow> js list \<Rightarrow> ContractEventType option" where
  "share_event action vs =
     (let text = (\<lambda>i. js_String (elem_at vs i)); number = (\<lambda>i. to_Number (elem_at vs i)); big = (\<lambda>i. big_value (elem_at vs i)) in
      if action = ''mint'' then (case big 1 of Some amount \<Rightarrow> Some (ShareMintEvent (text 0) amount (number 2)) | None \<Rightarrow> None)
      else if action = ''burn'' then (case big 1 of Some amount \<Rightarrow> Some (ShareBurnEvent (text 0) amount (number 2)) | None \<Rightarrow> None)
      else if action = ''transfer'' then (case big 2 of Some amount \<Rightarrow> Some (ShareTransferEvent (text 0) (text 1) amount) | None \<Rightarrow> None)
      else if action = ''approve'' then (case big 2 of Some amount \<Rightarrow> Some (ShareApproveEvent (text 0) (text 1) amount) | None \<Rightarrow> None)
      else None)"

definition parseContractEvent :: "string list \<Rightarrow> js list \<Rightarrow> ContractEventType option" where
  "parseContractEvent topic vs = (case topic of
      namespace # action # _ \<Rightarrow>
        if namespace = [] \<or> action = [] then None
        else if namespace = ''pool'' then pool_event action vs
        else if namespace = ''share'' then share_event action vs
        else None
    | _ \<Rightarrow> None)"

section \<open>What the contracts publish\<close>

datatype published =
    PubDeposit string string int int int
  | PubWithdraw string string int int int
  | PubMint string int int
  | PubBurn string int int
  | PubTransfer string string int
  | PubApprove string string int int

fun topic_of :: "published \<Rightarrow> string list" where
  "topic_of (PubDeposit _ _ _ _ _) = [''pool'', ''deposit'']"
| "topic_of (PubWithdraw _ _ _ _ _) = [''pool'', ''withdraw'']"
| "topic_of (PubMint _ _ _) = [''share'', ''mint'']"
| "topic_of (PubBurn _ _ _) = [''share'', ''burn'']"
| "topic_of (PubTransfer _ _ _) = [''share'', ''transfer'']"
| "topic_of (PubApprove _ _ _ _) = [''share'', ''approve'']"

text \<open>The tuple of the event, as \<open>scValToNative\<close> gives it: 64- and 128-bit integers are BigInts.\<close>

fun values_of :: "published \<Rightarrow> js list" where
  "values_of (PubDeposit investor token received shares timestamp) =
     [JStr investor, JStr token, JBigInt received, JBigInt shares, JBigInt timestamp]"
| "values_of (PubWithdraw investor token amount shares now) = [JStr investor, JStr token, JBigInt amount, JBigInt shares, JBigInt now]"
| "values_of (PubMint to amount new_total) = [JStr to, JBigInt amount, JBigInt new_total]"
| "values_of (PubBurn holder amount new_total) = [JStr holder, JBigInt amount, JBigInt new_total]"
| "values_of (PubTransfer holder to amount) = [JStr holder, JStr to, JBigInt amount]"
| "values_of (PubApprove owner spender amount expiration_ledger) =
     [JStr owner, JStr spender, JBigInt amount, JNum (NInt expiration_ledger)]"

section \<open>Properties\<close>

lemma big_value_BigInt [simp]: "big_value (JBigInt n) = Some n"
  by (simp add: big_value_def)

lemma to_Number_BigInt [simp]: "to_Number (JBigInt n) = NInt (double_of_int n)"
  by (simp add: to_Number_def)

text \<open>
  C39: The parser on the published events.  A deposit, a transfer and an approval are read back exactly (the
  time of a deposit as a double).  A withdrawal is never recognised, since the contract calls it
  \<open>withdraw\<close> and the parser waits for \<open>withdrawal\<close>.  The time of a mint or burn is the new total supply,
  which is what the contract publishes in that place.
\<close>

theorem sdk_events_read:
  "parseContractEvent (topic_of e) (values_of e) = (case e of
      PubDeposit investor token received shares timestamp \<Rightarrow>
        Some (PoolDepositEvent investor token received shares (NInt (double_of_int timestamp)))
    | PubWithdraw _ _ _ _ _ \<Rightarrow> None
    | PubMint to amount new_total \<Rightarrow> Some (ShareMintEvent to amount (NInt (double_of_int new_total)))
    | PubBurn holder amount new_total \<Rightarrow> Some (ShareBurnEvent holder amount (NInt (double_of_int new_total)))
    | PubTransfer holder to amount \<Rightarrow> Some (ShareTransferEvent holder to amount)
    | PubApprove owner spender amount _ \<Rightarrow> Some (ShareApproveEvent owner spender amount))"
  by (cases e) (simp_all add: parseContractEvent_def pool_event_def share_event_def Let_def elem_at_def)

end
