(* ===== verification/KycList.thy ===== *)
theory KycList
  imports ContractAnswers SdkEvents
begin

text \<open>
  The list of investors for the KYC page (\<open>fetchKycInvestors\<close> of \<open>frontend/lib/contracts.ts\<close>, with the
  address check of \<open>frontend/lib/types.ts\<close>): the depositors of the last thirty days, from the pool's
  events, each with what it deposited and its approval on the chain.
\<close>

section \<open>Addresses\<close>

definition base32_char :: "char \<Rightarrow> bool" where
  "base32_char c = (let n = (of_char c :: nat) in (65 \<le> n \<and> n \<le> 90) \<or> (50 \<le> n \<and> n \<le> 55))"

text \<open>\<open>/^[GC][A-Z2-7]{55}$/\<close>\<close>

definition isStellarAddress :: "string \<Rightarrow> bool" where
  "isStellarAddress s = (case s of c # r \<Rightarrow> (c = CHR ''G'' \<or> c = CHR ''C'') \<and> length r = 55 \<and> list_all base32_char r | [] \<Rightarrow> False)"

definition parseStellarAddress :: "string \<Rightarrow> string result" where
  "parseStellarAddress s = (if isStellarAddress s then Inr s else Inl (GenericError (''Invalid Stellar address: '' @ s)))"

text \<open>The check of the configured contract ids at the start, \<open>/^C[A-Z2-7]{55}$/\<close>; an id that is not set passes.\<close>

definition validateContractId_regex :: "bool \<Rightarrow> string \<Rightarrow> string \<Rightarrow> string result" where
  "validateContractId_regex testing cid name =
     (if testing \<or> cid = [] then Inr cid
      else if isStellarAddress cid \<and> startsWith cid ''C'' then Inr cid
      else Inl (GenericError (''Invalid contract ID for '' @ name @ '': '' @ [CHR 0x22] @ cid @ [CHR 0x22])))"

section \<open>Depositors\<close>

text \<open>An event with its decoded topic and value (decoding may raise) and the time of its ledger.\<close>

record kyc_event =
  ke_topic :: "js list result"
  ke_value :: "js result"
  ke_time :: jnum

text \<open>The operator \<open>+\<close>: texts are joined, BigInts added, and a BigInt with a number raises.\<close>

definition js_plus :: "js \<Rightarrow> js \<Rightarrow> js result" where
  "js_plus a b = (case (a, b) of
      (JStr s, _) \<Rightarrow> Inr (JStr (s @ js_String b))
    | (_, JStr t) \<Rightarrow> Inr (JStr (js_String a @ t))
    | (JBigInt m, JBigInt n) \<Rightarrow> Inr (JBigInt (m + n))
    | (JBigInt _, JArr _) \<Rightarrow> Inr (JStr (js_String a @ js_String b))
    | (JBigInt _, JObj _) \<Rightarrow> Inr (JStr (js_String a @ js_String b))
    | (JArr _, _) \<Rightarrow> Inr (JStr (js_String a @ js_String b))
    | (JObj _, _) \<Rightarrow> Inr (JStr (js_String a @ js_String b))
    | (_, JArr _) \<Rightarrow> Inr (JStr (js_String a @ js_String b))
    | (_, JObj _) \<Rightarrow> Inr (JStr (js_String a @ js_String b))
    | (JBigInt _, _) \<Rightarrow> Inl (TypeError ''Cannot mix BigInt and other types, use explicit conversions'')
    | (_, JBigInt _) \<Rightarrow> Inl (TypeError ''Cannot mix BigInt and other types, use explicit conversions'')
    | _ \<Rightarrow> Inr (JNum (num_add (js_Number a) (js_Number b))))"

definition num_min :: "jnum \<Rightarrow> jnum \<Rightarrow> jnum" where
  "num_min a b = (if a = NNaN \<or> b = NNaN then NNaN else if num_le a b then a else b)"

type_synonym depositors = "(js \<times> (js \<times> jnum)) list"

definition record_deposit :: "js \<Rightarrow> js \<Rightarrow> jnum \<Rightarrow> depositors \<Rightarrow> depositors result" where
  "record_deposit investor amount timestamp m = (case omap_get m investor of
      Some (soFar, firstSeen) \<Rightarrow> then_result (js_plus soFar amount) (\<lambda>t. Inr (omap_put investor (t, num_min firstSeen timestamp) m))
    | None \<Rightarrow> Inr (omap_put investor (amount, timestamp) m))"

text \<open>\<open>v[i]\<close>; a missing value raises.\<close>

definition index_at :: "js \<Rightarrow> nat \<Rightarrow> js result" where
  "index_at v i = (case v of
      JArr xs \<Rightarrow> Inr (elem_at xs i)
    | JStr s \<Rightarrow> Inr (if i < length s then JStr [s ! i] else JUndefined)
    | JObj _ \<Rightarrow> Inr (js_prop v (show_nat i))
    | JNull \<Rightarrow> Inl (TypeError ''Cannot read properties of null'')
    | JUndefined \<Rightarrow> Inl (TypeError ''Cannot read properties of undefined'')
    | _ \<Rightarrow> Inr JUndefined)"

text \<open>One event; whatever raises skips it.\<close>

definition kyc_step :: "kyc_event \<Rightarrow> depositors \<Rightarrow> depositors" where
  "kyc_step e m = (case ke_topic e of
      Inl _ \<Rightarrow> m
    | Inr topic \<Rightarrow>
        if elem_at topic 1 \<noteq> JStr ''deposit'' then m
        else (case then_result (ke_value e) (\<lambda>val. then_result (index_at val 0) (\<lambda>investor. then_result (index_at val 1) (\<lambda>amount.
                  record_deposit investor amount (ke_time e) m))) of
            Inl _ \<Rightarrow> m
          | Inr m' \<Rightarrow> m'))"

definition depositors_of :: "kyc_event list \<Rightarrow> depositors" where
  "depositors_of events = fold kyc_step events []"

section \<open>The list\<close>

record KycInvestor =
  ky_address :: string
  ky_totalDeposited :: js
  ky_firstSeenAt :: jnum
  ky_isApproved :: bool

text \<open>An address that is not text, or no Stellar address, is left out; a failed read of the approval ends the
  whole function with two empty lists.\<close>

fun kyc_entries :: "chain \<Rightarrow> depositors \<Rightarrow> KycInvestor list result" where
  "kyc_entries env [] = Inr []"
| "kyc_entries env ((investor, soFar, firstSeen) # ds) =
     (case parseStellarAddress (js_String investor) of
        Inl _ \<Rightarrow> kyc_entries env ds
      | Inr address \<Rightarrow> (case getInvestorKyc env address of
            Inl e \<Rightarrow> Inl e
          | Inr approved \<Rightarrow> (case kyc_entries env ds of
                Inl e \<Rightarrow> Inl e
              | Inr ks \<Rightarrow> Inr (\<lparr>ky_address = address, ky_totalDeposited = soFar, ky_firstSeenAt = firstSeen, ky_isApproved = js_truthy approved\<rparr> # ks))))"

text \<open>The newest first.\<close>

definition newest_first :: "KycInvestor list \<Rightarrow> KycInvestor list" where
  "newest_first ks = sort_key (\<lambda>k. - num_val (ky_firstSeenAt k)) ks"

definition fetchKycInvestors :: "chain \<Rightarrow> int result \<Rightarrow> (int \<Rightarrow> kyc_event list result) \<Rightarrow> KycInvestor list \<times> KycInvestor list" where
  "fetchKycInvestors env latestLedger getEvents = (case latestLedger of
      Inl _ \<Rightarrow> ([], [])
    | Inr sequence \<Rightarrow> (case getEvents (max 1 (sequence - 17280 * 30)) of
          Inl _ \<Rightarrow> ([], [])
        | Inr events \<Rightarrow> (case kyc_entries env (depositors_of events) of
              Inl _ \<Rightarrow> ([], [])
            | Inr ks \<Rightarrow> (newest_first (filter (\<lambda>k. \<not> ky_isApproved k) ks), newest_first (filter ky_isApproved ks)))))"

section \<open>Lemmas\<close>

text \<open>A deposit as the pool contract publishes it, and the time of its ledger.\<close>

record deposit =
  dp_investor :: string
  dp_token :: string
  dp_received :: int
  dp_shares :: int
  dp_timestamp :: int
  dp_time :: jnum

definition published_deposit :: "deposit \<Rightarrow> kyc_event" where
  "published_deposit d = (let e = PubDeposit (dp_investor d) (dp_token d) (dp_received d) (dp_shares d) (dp_timestamp d) in
     \<lparr>ke_topic = Inr (map JStr (topic_of e)), ke_value = Inr (JArr (values_of e)), ke_time = dp_time d\<rparr>)"

definition tokens_of :: "string \<Rightarrow> deposit list \<Rightarrow> string" where
  "tokens_of a ds = concat (map dp_token (filter (\<lambda>d. dp_investor d = a) ds))"

lemma kyc_step_new:
  "omap_get m (JStr (dp_investor d)) = None \<Longrightarrow> kyc_step (published_deposit d) m = omap_put (JStr (dp_investor d)) (JStr (dp_token d), dp_time d) m"
  by (simp add: kyc_step_def published_deposit_def Let_def index_at_def elem_at_def record_deposit_def then_result_def)

lemma kyc_step_more:
  "omap_get m (JStr (dp_investor d)) = Some (JStr s, t) \<Longrightarrow>
     kyc_step (published_deposit d) m = omap_put (JStr (dp_investor d)) (JStr (s @ dp_token d), num_min t (dp_time d)) m"
  by (simp add: kyc_step_def published_deposit_def Let_def index_at_def elem_at_def record_deposit_def then_result_def js_plus_def)

lemma depositors_of_snoc: "depositors_of (es @ [e]) = kyc_step e (depositors_of es)"
  by (simp add: depositors_of_def)

lemma depositors_exact:
  "omap_wf (depositors_of (map published_deposit ds))
     \<and> set (map fst (depositors_of (map published_deposit ds))) = (JStr \<circ> dp_investor) ` set ds
     \<and> (\<forall>a v t. omap_get (depositors_of (map published_deposit ds)) (JStr a) = Some (v, t) \<longrightarrow> v = JStr (tokens_of a ds))"
proof (induction ds rule: rev_induct)
  case (snoc d ds)
  let ?m = "depositors_of (map published_deposit ds)" and ?i = "dp_investor d"
  have keys: "set (map fst ?m) = (JStr \<circ> dp_investor) ` set ds" using snoc by blast
  have "\<exists>t'. kyc_step (published_deposit d) ?m = omap_put (JStr ?i) (JStr (tokens_of ?i ds @ dp_token d), t') ?m"
  proof (cases "omap_get ?m (JStr ?i)")
    case None
    then have "JStr ?i \<notin> (JStr \<circ> dp_investor) ` set ds" unfolding keys [symmetric] by (rule omap_get_None_iff [THEN iffD1])
    then have "tokens_of ?i ds = []" by (auto simp: tokens_of_def filter_empty_conv image_iff)
    then show ?thesis using kyc_step_new [OF None] by auto
  next
    case (Some vt)
    then obtain t where "omap_get ?m (JStr ?i) = Some (JStr (tokens_of ?i ds), t)" using snoc by (cases vt) blast
    from kyc_step_more [OF this] show ?thesis by blast
  qed
  then obtain t' where step: "depositors_of (map published_deposit (ds @ [d])) = omap_put (JStr ?i) (JStr (tokens_of ?i ds @ dp_token d), t') ?m"
    by (auto simp: depositors_of_snoc)
  have wf: "omap_wf ?m" and vals: "\<And>a v t. omap_get ?m (JStr a) = Some (v, t) \<Longrightarrow> v = JStr (tokens_of a ds)" using snoc by blast+
  have "v = JStr (tokens_of a (ds @ [d]))" if "omap_get (omap_put (JStr ?i) (JStr (tokens_of ?i ds @ dp_token d), t') ?m) (JStr a) = Some (v, t)" for a v t
    using that vals [of a] by (cases "a = ?i") (auto simp: tokens_of_def)
  then show ?case unfolding step omap_keys_put keys using wf by auto
qed (simp add: depositors_of_def)

lemma kyc_entries_exact:
  assumes "\<forall>(i, _) \<in> set m. \<exists>a. i = JStr a \<and> (isStellarAddress a \<longrightarrow> getInvestorKyc env a = Inr (JBool (app a)))"
  shows "\<exists>ks. kyc_entries env m = Inr ks
     \<and> (\<forall>k. k \<in> set ks \<longleftrightarrow> (\<exists>a v t. (JStr a, v, t) \<in> set m \<and> isStellarAddress a
           \<and> k = \<lparr>ky_address = a, ky_totalDeposited = v, ky_firstSeenAt = t, ky_isApproved = app a\<rparr>))"
  using assms
proof (induction m)
  case (Cons x m)
  obtain a v t where x: "x = (JStr a, v, t)" using Cons.prems by (cases x) auto
  obtain ks where ks: "kyc_entries env m = Inr ks" "\<forall>k. k \<in> set ks \<longleftrightarrow> (\<exists>a v t. (JStr a, v, t) \<in> set m \<and> isStellarAddress a
      \<and> k = \<lparr>ky_address = a, ky_totalDeposited = v, ky_firstSeenAt = t, ky_isApproved = app a\<rparr>)"
    using Cons by auto
  show ?case
  proof (cases "isStellarAddress a")
    case True
    then have "getInvestorKyc env a = Inr (JBool (app a))" using Cons.prems x by auto
    then show ?thesis using ks True by (auto simp: x parseStellarAddress_def)
  next
    case False
    then show ?thesis using ks by (auto simp: x parseStellarAddress_def)
  qed
qed simp

section \<open>Properties\<close>


definition kyc_address :: string where "kyc_address = CHR ''G'' # replicate 55 (CHR ''A'')"

definition kyc_chain :: chain where
  "kyc_chain = example_chain\<lparr>ch_simulate := (\<lambda>source c meth args. Inr (SimReturn (JBool True)))\<rparr>"

definition kyc_deposits :: "deposit list" where
  "kyc_deposits = [\<lparr>dp_investor = kyc_address, dp_token = ''CUSD'', dp_received = 5, dp_shares = 5, dp_timestamp = 1, dp_time = NInt 1\<rparr>,
     \<lparr>dp_investor = kyc_address, dp_token = ''CEUR'', dp_received = 7, dp_shares = 7, dp_timestamp = 2, dp_time = NInt 2\<rparr>]"


end
