(* ===== verification/Spec2Isabelle.thy ===== *)
theory Spec2Isabelle
  imports Listener ComplianceApi Indexer IndexerApi RateModel Backtest Apy SseRoute SseEvents Delivery RpcReads Dashboards ReadSource LiveCache Keeper Settings Templates KycList
begin

text \<open>
  \<^bold>\<open>Astera: the off-chain services, the SDK and the libraries of the frontend.\<close>

  Astera finances invoices on Stellar: Soroban contracts hold the money, and a set of TypeScript
  programs watches, serves and calls them.  This development models those programs, as they are written
  under \<open>src/\<close>, and proves what they promise.  Of the contracts (Rust) it has the interfaces, the error
  enums and what a few of them compute or publish; their bodies are outside, and the programs see them as
  events and as answers of the RPC server, which are inputs of the model.

  \<^bold>\<open>The parts and how they interact\<close>

  \<^item> \<^bold>\<open>Oracle node\<close> (\<open>src/oracle-service/src\<close>).  The listener reads the stream of Horizon effects; a
    created invoice is handed to the verifier's queue, which runs at most a configured number of
    verifications at a time; each ends in calls of the SDK client, wrapped in a retry with backoff.  Events
    of the oracle registry go to two trackers that rebuild the rounds and this node's slashes.
  \<^item> \<^bold>\<open>SDK\<close> (\<open>src/packages/sdk/src\<close>).  A base client builds, simulates, signs, sends and polls
    transactions; one client per contract encodes the calls and decodes the answers; a facade holds all
    clients; tables name the contracts' errors; a parser reads their events.
  \<^item> \<^bold>\<open>Compliance service\<close> (\<open>src/compliance-service/src\<close>).  Screens addresses, accepts overrides of an
    operator behind an administrator gate, submits results, and monitors deposits.
  \<^item> \<^bold>\<open>Indexer\<close> (\<open>src/indexer/src\<close>).  Polls Horizon, parses contract events, stores them once, undoes chain
    reorganisations, derives yield and risk tables, backfills, and serves the events over HTTP.
  \<^item> \<^bold>\<open>Frontend libraries\<close> (\<open>src/frontend\<close>).  \<open>lib/contracts.ts\<close> builds every transaction and performs every
    read; \<open>lib/stellar.ts\<close> limits reads, pools RPC connections and submits; \<open>lib/cache.ts\<close> gives the pages
    cached queries, discovered through the indexer where the contracts cannot enumerate; a stream of
    indexer events refreshes them.  Beside these: the rate model, alerts, the contract monitor, sign-in,
    notification delivery, dashboards, the administration guard, settings and health.
  \<^item> \<^bold>\<open>Tools\<close>: the backtest tool (\<open>src/tools/backtest/src\<close>) and the default keeper
    (\<open>src/scripts/monitor_invoices.ts\<close>).

  \<^bold>\<open>Theories: foundations and services\<close>

  \<^item> \<open>Prelude\<close>: the values of the language (\<open>js\<close>, numbers as exact decimals with NaN and the infinities),
    its coercions, errors as values, insertion-ordered maps and sets, and the history-passing monad \<open>io\<close>.
    The locale \<open>keyed_map\<close> is the contract of a \<open>Map\<close>, interpreted on the insertion-ordered maps.
    \<open>Json\<close>: printing and parsing of JSON text, with the round trip.  \<open>Replay\<close>: the locales \<open>last_status\<close> (a
    fold decided by its last deciding event) and \<open>bounded_log\<close>.
  \<^item> Oracle node: \<open>Retry\<close> (locale \<open>capped_backoff\<close>, also used by the indexer), \<open>Consensus\<close>, \<open>Staking\<close>,
    \<open>Verifier\<close>, \<open>Listener\<close>, one per source file.
  \<^item> Compliance: \<open>Screener\<close>, \<open>Monitor\<close>, \<open>ComplianceApi\<close>.
  \<^item> Indexer: \<open>Parser\<close>, \<open>EventStore\<close> (locale \<open>dedup_table\<close>), \<open>TrancheApy\<close>, \<open>RiskSignals\<close>, \<open>Indexer\<close>,
    \<open>IndexerApi\<close>.
  \<^item> Tools: \<open>Backtest\<close>, \<open>Keeper\<close>.

  \<^bold>\<open>Theories: contracts, SDK and frontend\<close>

  \<^item> \<open>ContractAbi\<close>: the types and functions the contracts export, as tables read from \<open>src/contracts\<close>, and
    when a call conforms to them.  \<open>ContractTxs\<close>: every transaction builder of \<open>lib/contracts.ts\<close>;
    \<open>ContractTyping\<close>: which of them the contracts accept.  \<open>ContractReads\<close>: every read with its decoding;
    \<open>ContractShapes\<close>: what a value of a contract's type looks like after decoding, and when a reader returns
    it exactly; \<open>ContractAnswers\<close>: the reads one by one.
  \<^item> \<open>Sdk\<close>: errors, base client, oracle registry and invoice clients.  \<open>SdkTxs\<close>, \<open>SdkReads\<close>: the other
    clients; \<open>SdkTyping\<close>: which calls the contracts accept; \<open>SdkErrors\<close>: the generated error tables beside the
    contracts' enums; \<open>SdkFacade\<close>: \<open>astera-client.ts\<close>; \<open>SdkEvents\<close>: \<open>events.ts\<close> beside the published events.
  \<^item> Frontend: \<open>RateModel\<close>, \<open>Apy\<close>, \<open>Tickets\<close>, \<open>SseRoute\<close>, \<open>SseEvents\<close>, \<open>Alerts\<close>, \<open>AlertMonitor\<close>, \<open>Auth\<close>,
    \<open>Delivery\<close>, \<open>RpcReads\<close>, \<open>RpcPool\<close>, \<open>Dashboards\<close>, \<open>Cache\<close> (data hooks and mutations), \<open>LiveCache\<close>
    (\<open>useContractEvents.ts\<close>), \<open>AdminGuard\<close>, \<open>KycList\<close>, \<open>Settings\<close> (environment, error texts, health),
    \<open>Templates\<close>, \<open>ReadSource\<close> (the account every read is simulated from).
  \<^item> This theory: what spans the indexer and the oracle node, and the indexer and the live stream.

  \<^bold>\<open>How state, effects and time are modelled\<close>

  A class is a record and a method a function on it.  Code that awaits an external answer takes that
  answer as an argument: Horizon's pages, the RPC server's replies, the provider, the result of each
  database statement, the clock and the random source.  In the SDK the answer may depend on the whole
  history of calls (\<open>rpc_env\<close>); in the frontend the network is a record of answers (\<open>chain\<close>), since a read or a
  build asks each thing once.  An \<open>await\<close> at which other code of the same process may change the state is a
  boundary between definitions: the queue's turns are the steps of \<open>vq_step\<close>, the shared poller's and the
  browser service's turns are step relations of their own, a deposit is split at its review request, the
  guard has its two interruption points as arguments.

  Two hypotheses about the network recur.  \<open>honest\<close> says that a successful simulation returns a value of the
  type the contract's interface declares; \<open>typed_chain\<close> and \<open>typed_env\<close> refuse a call whose arguments do
  not have the declared types, as the host does.  Both are about the tables of \<open>ContractAbi\<close>, and instances
  of them are given by the witnesses.

  Tables are lists in insertion order; where the collation of text matters it is an argument.  JSON columns
  keep the value up to the normal form of \<open>json_norm\<close>.  A hook is what it hands to the cache library: a
  key, the fetched value and the settings.

  \<^bold>\<open>Loops\<close>

  The retry loop, the transaction polls, the read queue and \<open>getAllEvents\<close> are total functions.  Endless
  loops (the indexer's tail, the keeper) are one iteration folded over any finite sequence of inputs: a
  statement about every such sequence is a statement about every moment of the run.  The backfill ends by
  itself, so its run returns \<open>None\<close> as long as it has not ended; that it ends within as many pages as there
  are ledgers is proved, under the hypothesis that Horizon's pages are ascending.  The read queue's
  rescheduling loop may run forever, which is a property of its own.

  \<^bold>\<open>What the theorems show\<close>

  \<^item> \<^bold>\<open>Oracle node\<close>: the queue never exceeds its concurrency, starts every job once and in order, and
    drains; a retry settles with bounded delays; both trackers and the listener refine the event stream.
  \<^item> \<^bold>\<open>Compliance\<close>: the gate is closed without the token; the screening decision is characterised for all
    inputs; both monitoring rules fire exactly when they should; memory stays bounded.
  \<^item> \<^bold>\<open>Indexer\<close>: storing is idempotent; a rollback is exact; a reorganisation is undone and not detected
    twice; the derived tables equal their specification; the replaying routes see every event.
  \<^item> \<^bold>\<open>Calls and answers\<close>: each transaction of the frontend and the SDK either fits the contract's interface
    or is refused whatever its parameters are; each read either returns every field as the contract has it
    or fails; the names of the errors are the contracts'.
  \<^item> \<^bold>\<open>Frontend\<close>: the rate curve is the contract's in exact arithmetic and stays within its ceiling; a ticket
    is spent once; limits of reads hold; no two queries share a cache entry; the market page shows exactly
    the listings the event history leaves open; the administration pages are shown to exactly those the
    guard admits; private addresses are not called.
  \<^item> \<^bold>\<open>Deviations\<close>: where the code does not do what it means to, a theorem states what it does: the facade
    that never sends, the event routes that always fail and the stream that therefore delivers nothing, the
    keeper that marks nothing, the placeholder account that no read survives, the page frozen by six
    reads, the calls the contracts refuse.

  \<^bold>\<open>What is not modelled\<close>

  Log lines and metric counters (nothing reads them), sockets, signal handlers, CORS and the rate limiter,
  the XDR codec and the Stellar library (arguments), the cache and the UI libraries, SQL migration files, the
  UI store (its file is not valid TypeScript), pages and components, shell scripts, and the bodies of the
  contracts.  The interface of the tranche contract cannot be read from its damaged source and is unknown.
  Characters are bytes, so text outside Latin-1 is not represented; numbers are exact where the code has
  doubles, except in \<open>Number(x)\<close> of a contract's integer, which is rounded as the language does.
\<close>

section \<open>The oracle node and the indexer agree\<close>

text \<open>
  Two components rebuild the state of a verification round from the registry's events: the tracker of
  an oracle node, event by event as they are streamed, and the indexer's round endpoint, by a replay of
  its event table.  A stored row, as the tracker would have seen it:
\<close>

definition registry_of_row :: "event_row \<Rightarrow> registry_event" where
  "registry_of_row r = (JStr (er_event_type r), er_value r, 0)"

fun status_name :: "RoundStatus \<Rightarrow> string" where
  "status_name Open = ''Open''"
| "status_name ConsensusApproved = ''ConsensusApproved''"
| "status_name ConsensusRejected = ''ConsensusRejected''"
| "status_name RoundStatus.Expired = ''Expired''"

text \<open>The registry's rows in chain order.\<close>

definition registry_rows :: "db \<Rightarrow> event_row list" where
  "registry_rows d =
     sort_key er_ledger_sequence (filter (\<lambda>r. er_contract_type r = ''oracle_registry'') (db_events d))"

text \<open>Values of round events as the contract publishes them: the invoice id comes first, as a scalar.\<close>

definition scalar_ids :: "event_row list \<Rightarrow> bool" where
  "scalar_ids rs \<longleftrightarrow> (\<forall>r \<in> set rs. er_event_type r \<in> set round_topics \<longrightarrow>
     extractInvoiceId (er_value r) = Some (js_String (elem_at (asArray (er_value r)) 0)))"

lemma roundApproved_eq: "roundApproved v = js_truthy (elem_at (asArray v) 1)"
  by (cases v) (auto simp: roundApproved_def asArray_def elem_at_def)

lemma round_write_eq: "round_write r = map_option status_name (event_status (registry_of_row r))"
  by (auto simp: round_write_def event_status_def registry_of_row_def roundApproved_eq)

lemma fold_round_status:
  "fold round_status_step rs (status_name s) =
     status_name (fold (\<lambda>e s. case event_status e of None \<Rightarrow> s | Some s' \<Rightarrow> s') (map registry_of_row rs) s)"
  by (induction rs arbitrary: s) (auto simp: round_status_step_def round_write_eq split: option.splits)

lemma event_status_topic: "event_status (registry_of_row r) \<noteq> None \<Longrightarrow> er_event_type r \<in> set round_topics"
  by (auto simp: event_status_def registry_of_row_def round_topics_def split: if_splits)

lemma event_round_row:
  "event_round (registry_of_row r) =
     (if er_event_type r \<in> set round_topics then Some (js_String (elem_at (asArray (er_value r)) 0)) else None)"
  by (simp add: event_round_def registry_of_row_def)

text \<open>Replaying the rows of one invoice gives the tracker's status, once some row decides it.\<close>

lemma replay_agrees:
  assumes "scalar_ids rs" "r \<in> set rs" "extractInvoiceId (er_value r) = Some i" "round_write r \<noteq> None"
  shows "\<exists>s. current_status (fold track (map registry_of_row rs) (new_tracker key)) i = Some s \<and>
     fold round_status_step (filter (\<lambda>r. extractInvoiceId (er_value r) = Some i) rs) ''Unknown'' = status_name s"
proof -
  let ?st = "\<lambda>e s. case event_status e of None \<Rightarrow> s | Some s' \<Rightarrow> s'"
  let ?A = "filter (\<lambda>r. extractInvoiceId (er_value r) = Some i) rs"
  let ?B = "filter (\<lambda>r. event_round (registry_of_row r) = Some i) rs"
  let ?w = "\<lambda>r. round_write r \<noteq> None"
  have topic: "round_write x = None" if "er_event_type x \<notin> set round_topics" for x
    using that event_status_topic [of x] by (cases "event_status (registry_of_row x)") (simp_all add: round_write_eq)
  have same: "filter ?w ?A = filter ?w ?B"
    unfolding filter_filter
    by (rule filter_cong [OF refl]) (use assms(1) topic in \<open>auto simp: scalar_ids_def event_round_row\<close>)
  have "r \<in> set (filter ?w ?A)" using assms(2-4) by simp
  then have inB: "\<exists>x \<in> set ?B. round_write x \<noteq> None" and inA: "\<exists>x \<in> set ?A. round_write x \<noteq> None"
    unfolding same using assms(2-4) by auto
  have "fold round_status_step ?A ''Unknown'' = fold round_status_step ?A ''Open''"
    by (rule round_replay.fold_start_irrelevant [OF inA])
  also have "\<dots> = fold round_status_step (filter ?w ?B) ''Open''"
    by (simp only: same [symmetric] round_replay.fold_filter_writes)
  also have "\<dots> = fold round_status_step ?B (status_name Open)"
    by (simp only: round_replay.fold_filter_writes status_name.simps)
  also have "\<dots> = status_name (fold ?st (map registry_of_row ?B) Open)" by (rule fold_round_status)
  finally have api: "fold round_status_step ?A ''Unknown'' = status_name (fold ?st (map registry_of_row ?B) Open)" .
  have "map registry_of_row ?B = filter (\<lambda>e. event_round e = Some i) (map registry_of_row rs)"
    by (simp add: filter_map comp_def)
  moreover have "map registry_of_row ?B \<noteq> []" using inB by (auto simp: filter_empty_conv)
  ultimately have "current_status (fold track (map registry_of_row rs) (new_tracker key)) i =
      Some (fold ?st (map registry_of_row ?B) Open)"
    using fold_round_step by (simp add: fold_track_status)
  then show ?thesis using api by blast
qed

lemma registry_selected:
  "map rowToEvent (selected_rows d (of_type ''oracle_registry'')) = selected_rows d (of_type ''oracle_registry'')"
  by (rule map_idI) (auto simp: set_selected_rows row_matches_def of_type_def any_events_def column_is_def rowToEvent_def)

lemma registry_row_matches: "row_matches (of_type ''oracle_registry'') = (\<lambda>r. er_contract_type r = ''oracle_registry'')"
  by (simp add: fun_eq_iff row_matches_def of_type_def any_events_def column_is_def)

lemma registry_matches:
  "round_matches i (selected_rows d (of_type ''oracle_registry'')) =
     filter (\<lambda>r. extractInvoiceId (er_value r) = Some i) (registry_rows d)"
proof -
  have "selected_rows d (of_type ''oracle_registry'') =
      sort_desc er_ledger_sequence (filter (\<lambda>r. er_contract_type r = ''oracle_registry'') (db_events d))"
    unfolding selected_rows_def registry_row_matches by (simp add: order_rows_def of_type_def any_events_def)
  then show ?thesis
    by (simp add: round_matches_def registry_rows_def filter_sort [symmetric] sort_desc_then_asc)
qed


definition registry_row :: "string \<Rightarrow> ledger \<Rightarrow> string \<Rightarrow> js list \<Rightarrow> event_row" where
  "registry_row i l et v = \<lparr>er_id = i, er_contract_id = ''CR'', er_contract_type = ''oracle_registry'', er_event_type = et,
     er_topic = [''ORACLE'', et], er_value = JArr v, er_actor_address = None, er_ledger_sequence = l,
     er_ledger_close_at = ''t'', er_tx_hash = ''x'', er_created_at = ''t''\<rparr>"

definition sample_registry_db :: db where
  "sample_registry_db = empty_db\<lparr>db_events :=
     [registry_row ''2'' 11 ''consensus'' [JStr ''7'', JBool True], registry_row ''1'' 10 ''rnd_open'' [JStr ''7'']]\<rparr>"


section \<open>The live stream against the indexer's query API\<close>

text \<open>The answer the frontend's request for events gets from the indexer; decoding the body is the
  client's cast.\<close>

definition indexer_answer :: "(js \<Rightarrow> IndexerEventRow list) \<Rightarrow> db \<Rightarrow> string \<Rightarrow> ledger \<Rightarrow> IndexerEventRow list fetch_answer" where
  "indexer_answer body d cid afterLedger =
     (case get_events d (events_query cid afterLedger) of (status, reply) \<Rightarrow> Inr (status, body reply))"

lemma get_events_fails: "get_events d q = (500, JObj [(''error'', JStr ''parsePagination is not defined'')])"
  by (simp add: get_events_def get_events_page_def parsePagination_def respond_range_def error_json_def)



end
